(* ===== verification/Prelude.thy ===== *)
theory Prelude
  imports Main "HOL-Library.Sublist" "HOL-Library.List_Lexorder" "HOL-Library.Char_ord"
begin

text \<open>
  Shared vocabulary of the development: Python strings, exceptions and results, and the
  generic lemmas the component theories use.

  A Python \<open>str\<close> is modelled by \<^typ>\<open>string\<close>, a list of code points below 256 (HOL's
  \<^typ>\<open>char\<close>); a Python \<open>bytes\<close> value is the same type read as octets.  Within that range
  the character classes below (white space, decimal digits, \<open>isdigit\<close>, lower case,
  printable) are the ones CPython uses.  Strings with code points from 256 on are outside the
  model.
\<close>

named_theorems char_class "membership facts about the character classes of the source's regular expressions"
named_theorems res_simps "unfolding rules of the result monad"

section \<open>Exceptions and results\<close>

text \<open>
  One constructor per exception class the modelled code raises or catches.  The argument is
  the fixed text of the message (the values interpolated into it are dropped).
\<close>

datatype exn =
    ValueError string
  | KeyError string
  | TypeError string
  | IndexError string
  | AssertionError
  | AttributeError
  | UnicodeDecodeError
  | JSONDecodeError
  | ParseError
  | OSError string
  | HTTPError
  | CheckViolation string
  | UniqueViolation string
  | ForeignKeyViolation string
  | DataError string
  | UntranslatableCharacter
  | InFailedSqlTransaction
  | PublicationError string
  | KeyMaterialError string
  | PyKeePassError string
  | StoreError string
  | DelegationMissingError string
  | SigningConfigError string
  | ProvenanceError string
  | QuarantineError string
  | GateError string
  | GateNotConfiguredError string
  | ForgeError string
  | SourceConfigError string
  | FormError string
  | UpdateError string
  | RedirectRefusedError string
  | DistError nat
  | SystemExit string
  | RuntimeError string

type_synonym 'a res = "exn + 'a"

text \<open>\<open>bindr\<close> is the sequencing of two statements, the first of which may raise.\<close>

definition bindr :: "'a res \<Rightarrow> ('a \<Rightarrow> 'b res) \<Rightarrow> 'b res" where
  "bindr m f = (case m of Inl e \<Rightarrow> Inl e | Inr x \<Rightarrow> f x)"

lemma bindr_Inl [simp, res_simps]: "bindr (Inl e) f = Inl e"
  by (simp add: bindr_def)

lemma bindr_Inr [simp, res_simps]: "bindr (Inr x) f = f x"
  by (simp add: bindr_def)

lemma bindr_eq_Inr_iff [res_simps]: "bindr m f = Inr y \<longleftrightarrow> (\<exists>x. m = Inr x \<and> f x = Inr y)"
  by (cases m) auto

lemma bindr_eq_Inl_iff [res_simps]:
  "bindr m f = Inl e \<longleftrightarrow> m = Inl e \<or> (\<exists>x. m = Inr x \<and> f x = Inl e)"
  by (cases m) auto

lemma bindr_InrE [elim]:
  assumes "bindr m f = Inr y"
  obtains x where "m = Inr x" "f x = Inr y"
  using assms by (auto simp: bindr_eq_Inr_iff)

lemma if_Inl_eq_Inr [simp, res_simps]: "(if b then Inl e else r) = Inr y \<longleftrightarrow> \<not> b \<and> r = Inr y"
  by simp

fun returns :: "'a res \<Rightarrow> bool" where
  "returns (Inl e) = False"
| "returns (Inr x) = True"

lemma returns_iff: "returns r \<longleftrightarrow> (\<exists>x. r = Inr x)"
  by (cases r) auto

section \<open>State with exceptions\<close>

text \<open>
  A statement that reads and writes a state and may raise.  An exception keeps the effects
  made before it, as in the source.
\<close>

type_synonym ('s, 'a) sem = "'s \<Rightarrow> 'a res \<times> 's"

definition returnS :: "'a \<Rightarrow> ('s, 'a) sem" where
  "returnS x = (\<lambda>s. (Inr x, s))"

definition raiseS :: "exn \<Rightarrow> ('s, 'a) sem" where
  "raiseS e = (\<lambda>s. (Inl e, s))"

definition liftS :: "'a res \<Rightarrow> ('s, 'a) sem" where
  "liftS r = (\<lambda>s. (r, s))"

definition modifyS :: "('s \<Rightarrow> 's) \<Rightarrow> ('s, unit) sem" where
  "modifyS f = (\<lambda>s. (Inr (), f s))"

definition bindS :: "('s, 'a) sem \<Rightarrow> ('a \<Rightarrow> ('s, 'b) sem) \<Rightarrow> ('s, 'b) sem" where
  "bindS m f = (\<lambda>s. case m s of (Inl e, s') \<Rightarrow> (Inl e, s') | (Inr x, s') \<Rightarrow> f x s')"

text \<open>\<open>if bad: raise e\<close>\<close>

definition refuseS :: "bool \<Rightarrow> exn \<Rightarrow> ('s, unit) sem" where
  "refuseS bad e = (if bad then raiseS e else returnS ())"

lemmas sem_defs = returnS_def raiseS_def liftS_def modifyS_def bindS_def refuseS_def

text \<open>
  \<open>keeps P m\<close>: \<open>m\<close> preserves \<open>P\<close>, whether it returns or raises.  \<open>spec P m Q\<close>: started in
  \<open>P\<close>, if \<open>m\<close> returns then \<open>Q\<close> holds of its result and the new state.
\<close>

definition keeps :: "('s \<Rightarrow> bool) \<Rightarrow> ('s, 'a) sem \<Rightarrow> bool" where
  "keeps P m \<longleftrightarrow> (\<forall>s. P s \<longrightarrow> P (snd (m s)))"

named_theorems keeps_intro "rules that show a statement keeps an invariant"

lemma keepsD: "keeps P m \<Longrightarrow> P s \<Longrightarrow> P (snd (m s))"
  by (simp add: keeps_def)

lemma keeps_returnS [keeps_intro]: "keeps P (returnS x)"
  by (simp add: keeps_def returnS_def)

lemma keeps_raiseS [keeps_intro]: "keeps P (raiseS e)"
  by (simp add: keeps_def raiseS_def)

lemma keeps_liftS [keeps_intro]: "keeps P (liftS r)"
  by (simp add: keeps_def liftS_def)

lemma keeps_refuseS [keeps_intro]: "keeps P (refuseS b e)"
  by (simp add: refuseS_def keeps_intro)

lemma keeps_bindS [keeps_intro]: "keeps P m \<Longrightarrow> (\<And>x. keeps P (f x)) \<Longrightarrow> keeps P (bindS m f)"
  by (fastforce simp: keeps_def bindS_def split: prod.splits sum.splits)

lemma keeps_after: "P (snd (m s)) \<Longrightarrow> keeps P f \<Longrightarrow> P (snd (bindS m (\<lambda>_. f) s))"
  by (cases "m s"; cases "fst (m s)") (auto simp: bindS_def dest: keepsD)

lemma bindS_eq_Inr_iff:
  "bindS m f s = (Inr y, s'') \<longleftrightarrow> (\<exists>x s'. m s = (Inr x, s') \<and> f x s' = (Inr y, s''))"
  by (cases "m s"; cases "fst (m s)") (auto simp: bindS_def)

lemma bindS_InrE:
  assumes "bindS m f s = (Inr y, s'')"
  obtains x s' where "m s = (Inr x, s')" "f x s' = (Inr y, s'')"
  using assms by (auto simp: bindS_eq_Inr_iff)

lemma returnS_eq [simp]: "returnS x s = (Inr y, s') \<longleftrightarrow> x = y \<and> s = s'"
  by (auto simp: returnS_def)

lemma raiseS_eq [simp]: "raiseS e s \<noteq> (Inr y, s')"
  by (auto simp: raiseS_def)

lemma refuseS_eq [simp]: "refuseS b e s = (Inr y, s') \<longleftrightarrow> \<not> b \<and> s = s'"
  by (auto simp: refuseS_def)

lemma liftS_eq [simp]: "liftS r s = (Inr y, s') \<longleftrightarrow> r = Inr y \<and> s = s'"
  by (auto simp: liftS_def)

lemma modifyS_eq [simp]: "modifyS f s = (Inr y, s') \<longleftrightarrow> s' = f s"
  by (auto simp: modifyS_def)

text \<open>Running the simple statements.\<close>

lemma bindS_run: "m s = (Inr x, s') \<Longrightarrow> bindS m f s = f x s'"
  by (simp add: bindS_def)

lemma bindS_stop: "m s = (Inl e, s') \<Longrightarrow> bindS m f s = (Inl e, s')"
  by (simp add: bindS_def)

lemma bindS_assoc: "bindS (bindS m f) g = bindS m (\<lambda>x. bindS (f x) g)"
  by (auto simp: bindS_def fun_eq_iff split: prod.split sum.split)

lemma run_returnS [simp]: "bindS (returnS x) f s = f x s"
  by (simp add: sem_defs)

lemma run_modifyS [simp]: "bindS (modifyS g) f s = f () (g s)"
  by (simp add: sem_defs)

lemma run_refuseS [simp]: "bindS (refuseS b e) f s = (if b then (Inl e, s) else f () s)"
  by (simp add: sem_defs)

lemma run_refuseS_state [simp]:
  "bindS (\<lambda>s. refuseS (b s) e s) f s = (if b s then (Inl e, s) else f () s)"
  by (simp add: sem_defs)

lemma run_raiseS [simp]: "bindS (raiseS e) f s = (Inl e, s)"
  by (simp add: sem_defs)

lemma run_liftS_Inr [simp]: "bindS (liftS (Inr x)) f s = f x s"
  by (simp add: sem_defs)

lemma run_liftS_Inl [simp]: "bindS (liftS (Inl e)) f s = (Inl e, s)"
  by (simp add: sem_defs)

lemma snd_bindS_pure [simp]: "snd (bindS m (\<lambda>x. returnS (g x)) s) = snd (m s)"
  by (simp add: sem_defs split: prod.split sum.split)

lemma snd_pure [simp]: "snd (returnS x s) = s" "snd (liftS r s) = s" "snd (raiseS e s) = s"
  by (simp_all add: sem_defs)

text \<open>\<open>grows f n m\<close>: \<open>m\<close> raises the measure \<open>f\<close> of the state by at most \<open>n\<close>.\<close>

definition grows :: "('s \<Rightarrow> nat) \<Rightarrow> nat \<Rightarrow> ('s, 'a) sem \<Rightarrow> bool" where
  "grows f n m \<longleftrightarrow> (\<forall>s. f (snd (m s)) \<le> f s + n)"

lemma growsD: "grows f n m \<Longrightarrow> m s = (r, s') \<Longrightarrow> f s' \<le> f s + n"
  unfolding grows_def by (metis snd_conv)

lemma grows_bindS:
  assumes "grows f a m" "\<And>x. grows f b (g x)" "a + b \<le> n"
  shows "grows f n (bindS m g)"
  unfolding grows_def
proof
  fix s
  obtain r s1 where m: "m s = (r, s1)" by fastforce
  from growsD [OF assms(1) m] have s1: "f s1 \<le> f s + a" .
  show "f (snd (bindS m g s)) \<le> f s + n"
  proof (cases r)
    case (Inr x)
    obtain r' s2 where g: "g x s1 = (r', s2)" by fastforce
    from growsD [OF assms(2) g] s1 assms(3) show ?thesis by (simp add: bindS_def m Inr g)
  qed (use s1 assms(3) in \<open>simp add: bindS_def m\<close>)
qed

lemma grows_pure [simp]:
  "grows f n (returnS x)" "grows f n (raiseS e)" "grows f n (liftS r)" "grows f n (refuseS b e)"
  by (auto simp: grows_def sem_defs)

section \<open>Character classes\<close>

definition code :: "char \<Rightarrow> nat" where
  "code c = of_char c"

definition in_range :: "char \<Rightarrow> char \<Rightarrow> char \<Rightarrow> bool" where
  "in_range lo hi c \<longleftrightarrow> code lo \<le> code c \<and> code c \<le> code hi"

definition is_lower :: "char \<Rightarrow> bool" where
  "is_lower = in_range (CHR ''a'') (CHR ''z'')"

definition is_upper :: "char \<Rightarrow> bool" where
  "is_upper = in_range (CHR ''A'') (CHR ''Z'')"

definition is_dec :: "char \<Rightarrow> bool" where
  "is_dec = in_range (CHR ''0'') (CHR ''9'')"

definition is_alnum :: "char \<Rightarrow> bool" where
  "is_alnum c \<longleftrightarrow> is_lower c \<or> is_upper c \<or> is_dec c"

text \<open>\<open>str.isdigit\<close> on one character: the decimal digits and the superscripts
  (code points 178, 179 and 185), which \<open>int()\<close> does not accept.\<close>

definition is_digit_char :: "char \<Rightarrow> bool" where
  "is_digit_char c \<longleftrightarrow> is_dec c \<or> code c \<in> {178, 179, 185}"

definition isdigit :: "string \<Rightarrow> bool" where
  "isdigit s \<longleftrightarrow> s \<noteq> [] \<and> list_all is_digit_char s"

definition is_space :: "char \<Rightarrow> bool" where
  "is_space c \<longleftrightarrow> (let n = code c in (9 \<le> n \<and> n \<le> 13) \<or> (28 \<le> n \<and> n \<le> 32) \<or> n = 133 \<or> n = 160)"

definition is_printable :: "char \<Rightarrow> bool" where
  "is_printable c \<longleftrightarrow> (let n = code c in (32 \<le> n \<and> n < 127) \<or> (160 < n \<and> n \<noteq> 173))"

definition lower_char :: "char \<Rightarrow> char" where
  "lower_char c =
     (let n = code c in
      if (65 \<le> n \<and> n \<le> 90) \<or> (192 \<le> n \<and> n \<le> 222 \<and> n \<noteq> 215) then char_of (n + 32) else c)"

definition lower :: "string \<Rightarrow> string" where
  "lower s = map lower_char s"

definition newline :: char where
  "newline = CHR 0x0A"

lemmas char_class_defs =
  code_def in_range_def is_lower_def is_upper_def is_dec_def is_alnum_def newline_def

lemma code_char_of [simp]: "n < 256 \<Longrightarrow> code (char_of n) = n"
  by (simp add: code_def)

lemma code_inj [simp]: "code c = code d \<longleftrightarrow> c = d"
  by (simp add: code_def)

lemma is_dec_not_sep [char_class]:
  "is_dec c \<Longrightarrow> c \<noteq> CHR ''/'' \<and> c \<noteq> CHR ''.'' \<and> c \<noteq> CHR ''_'' \<and> c \<noteq> CHR ''-'' \<and> c \<noteq> newline"
  by (auto simp: char_class_defs)

lemma is_alnum_not_sep [char_class]:
  "is_alnum c \<Longrightarrow> c \<noteq> CHR ''/'' \<and> c \<noteq> CHR ''.'' \<and> c \<noteq> CHR ''_'' \<and> c \<noteq> CHR ''-'' \<and> c \<noteq> newline"
  by (auto simp: char_class_defs)

section \<open>Regular expression anchors\<close>

text \<open>
  \<open>re.match\<close> with a pattern \<open>^...$\<close>: \<open>$\<close> matches at the end of the string and also just
  before a newline that ends it.  \<open>p\<close> is the pattern between the anchors; none of the
  patterns used this way can itself match a newline.
\<close>

definition match_dollar :: "(string \<Rightarrow> bool) \<Rightarrow> string \<Rightarrow> bool" where
  "match_dollar p s \<longleftrightarrow> p s \<or> (s \<noteq> [] \<and> last s = newline \<and> p (butlast s))"

lemma match_dollar_newline: "p s \<Longrightarrow> match_dollar p (s @ [newline])"
  by (simp add: match_dollar_def)

lemma match_dollarE:
  assumes "match_dollar p s"
  obtains "p s" | t where "s = t @ [newline]" "p t"
  using assms unfolding match_dollar_def by (metis append_butlast_last_id)

section \<open>String operations\<close>

text \<open>\<open>s.split(c)\<close> for a one-character separator, and \<open>c.join(xs)\<close>.\<close>

fun split_on :: "char \<Rightarrow> string \<Rightarrow> string list" where
  "split_on c [] = [[]]"
| "split_on c (x # xs) =
     (if x = c then [] # split_on c xs
      else (case split_on c xs of [] \<Rightarrow> [[x]] | y # ys \<Rightarrow> (x # y) # ys))"

fun join :: "string \<Rightarrow> string list \<Rightarrow> string" where
  "join sep [] = []"
| "join sep [x] = x"
| "join sep (x # y # ys) = x @ sep @ join sep (y # ys)"

lemma split_on_ne [simp]: "split_on c s \<noteq> []"
  by (induction s) (auto split: list.splits)

lemma split_on_atom: "c \<notin> set s \<Longrightarrow> split_on c s = [s]"
  by (induction s) auto

lemma split_on_append: "c \<notin> set s \<Longrightarrow> split_on c (s @ c # t) = s # split_on c t"
  by (induction s) auto

lemma split_on_join:
  "xs \<noteq> [] \<Longrightarrow> \<forall>x \<in> set xs. c \<notin> set x \<Longrightarrow> split_on c (join [c] xs) = xs"
  by (induction "[c]" xs rule: join.induct) (auto simp: split_on_atom split_on_append)

lemma join_split_on [simp]: "join [c] (split_on c s) = s"
proof (induction s)
  case (Cons x xs)
  obtain y ys where ys: "split_on c xs = y # ys"
    by (cases "split_on c xs") auto
  with Cons show ?case by (cases ys) auto
qed simp

lemma split_on_mem: "x \<in> set s \<Longrightarrow> x = c \<or> (\<exists>p \<in> set (split_on c s). x \<in> set p)"
  by (induction s) (auto split: list.splits)

lemma split_on_parts: "x \<in> set (split_on c s) \<Longrightarrow> c \<notin> set x"
proof (induction s arbitrary: x)
  case (Cons y ys)
  obtain z zs where "split_on c ys = z # zs"
    by (cases "split_on c ys") auto
  with Cons show ?case by (auto split: if_splits)
qed simp

text \<open>\<open>strip\<close>, \<open>rstrip(c)\<close>, \<open>removeprefix\<close>, \<open>removesuffix\<close>, \<open>replace\<close>, \<open>rpartition\<close>.\<close>

definition strip :: "string \<Rightarrow> string" where
  "strip s = rev (dropWhile is_space (rev (dropWhile is_space s)))"

definition rstrip_char :: "char \<Rightarrow> string \<Rightarrow> string" where
  "rstrip_char c s = rev (dropWhile (\<lambda>x. x = c) (rev s))"

definition strip_char :: "char \<Rightarrow> string \<Rightarrow> string" where
  "strip_char c s = rstrip_char c (dropWhile (\<lambda>x. x = c) s)"

definition removeprefix :: "string \<Rightarrow> string \<Rightarrow> string" where
  "removeprefix p s = (if prefix p s then drop (length p) s else s)"

definition removesuffix :: "string \<Rightarrow> string \<Rightarrow> string" where
  "removesuffix p s = (if suffix p s \<and> p \<noteq> [] then take (length s - length p) s else s)"

fun replace_all :: "string \<Rightarrow> string \<Rightarrow> string \<Rightarrow> string" where
  "replace_all old new [] = []"
| "replace_all old new (c # cs) =
     (if prefix old (c # cs) then new @ replace_all old new (drop (length old - 1) cs)
      else c # replace_all old new cs)"

definition rpartition :: "char \<Rightarrow> string \<Rightarrow> string \<times> string \<times> string" where
  "rpartition c s =
     (let after = takeWhile (\<lambda>x. x \<noteq> c) (rev s); rest = dropWhile (\<lambda>x. x \<noteq> c) (rev s)
      in case rest of [] \<Rightarrow> ([], [], s) | _ # before \<Rightarrow> (rev before, [c], rev after))"

lemma rpartition_last: "c \<notin> set b \<Longrightarrow> rpartition c (a @ c # b) = (a, [c], b)"
proof -
  assume "c \<notin> set b"
  then have *: "\<And>x. x \<in> set (rev b) \<Longrightarrow> x \<noteq> c" by auto
  then have "takeWhile (\<lambda>x. x \<noteq> c) (rev b @ c # rev a) = rev b"
    and "dropWhile (\<lambda>x. x \<noteq> c) (rev b @ c # rev a) = c # rev a"
    by (subst takeWhile_append2 dropWhile_append2; auto)+
  then show ?thesis by (simp add: rpartition_def Let_def)
qed

lemma rpartition_none:
  assumes "c \<notin> set s"
  shows "rpartition c s = ([], [], s)"
proof -
  from assms have "dropWhile (\<lambda>x. x \<noteq> c) (rev s) = []"
    by (auto simp: dropWhile_eq_Nil_conv)
  then show ?thesis by (simp only: rpartition_def Let_def list.case)
qed

lemma rpartition_join: "rpartition c s = (a, sep, b) \<Longrightarrow> a @ sep @ b = s"
proof (cases "c \<in> set s")
  case True
  then obtain xs ys where "s = xs @ c # ys" "c \<notin> set ys"
    by (meson split_list_last)
  moreover assume "rpartition c s = (a, sep, b)"
  ultimately show ?thesis by (auto simp: rpartition_last)
qed (auto simp: rpartition_none)

section \<open>Decimal numerals\<close>

definition digit_char :: "nat \<Rightarrow> char" where
  "digit_char n = char_of (48 + n)"

fun dec :: "nat \<Rightarrow> string" where
  "dec n = (if n < 10 then [digit_char n] else dec (n div 10) @ [digit_char (n mod 10)])"

declare dec.simps [simp del]

definition undec :: "string \<Rightarrow> nat" where
  "undec s = foldl (\<lambda>a c. 10 * a + (code c - 48)) 0 s"

definition dec_int :: "int \<Rightarrow> string" where
  "dec_int i = (if i < 0 then CHR ''-'' # dec (nat (- i)) else dec (nat i))"

lemma code_digit_char [simp]: "n < 10 \<Longrightarrow> code (digit_char n) = 48 + n"
  by (simp add: digit_char_def)

lemma is_dec_digit_char [simp]: "n < 10 \<Longrightarrow> is_dec (digit_char n)"
  by (simp add: is_dec_def in_range_def) (simp add: code_def)

lemma dec_ne [simp]: "dec n \<noteq> []"
  by (subst dec.simps) simp

lemma dec_is_dec: "c \<in> set (dec n) \<Longrightarrow> is_dec c"
proof (induction n rule: dec.induct)
  case (1 n)
  then show ?case by (cases "n < 10") (auto simp: dec.simps [of n])
qed

lemma undec_dec [simp]: "undec (dec n) = n"
proof (induction n rule: dec.induct)
  case (1 n)
  show ?case
  proof (cases "n < 10")
    case True
    then show ?thesis by (simp add: dec.simps [of n] undec_def)
  next
    case False
    with "1" have "undec (dec (n div 10)) = n div 10" by simp
    with False show ?thesis by (simp add: dec.simps [of n] undec_def)
  qed
qed

lemma dec_inj [simp]: "dec m = dec n \<longleftrightarrow> m = n"
  by (metis undec_dec)

text \<open>A numeral followed by a character that is no digit determines the number and the rest.\<close>

lemma span_unique:
  assumes "a @ c # x = b @ d # y" "\<forall>z \<in> set a. P z" "\<forall>z \<in> set b. P z" "\<not> P c" "\<not> P d"
  shows "a = b \<and> c = d \<and> x = y"
proof -
  have "takeWhile P (a @ c # x) = a" "takeWhile P (b @ d # y) = b"
    using assms(2-5) by (simp_all add: takeWhile_append2)
  with assms(1) show ?thesis by auto
qed

lemma dec_dot_inj: "dec m @ CHR ''.'' # x = dec n @ CHR ''.'' # y \<longleftrightarrow> m = n \<and> x = y"
proof
  assume eq: "dec m @ CHR ''.'' # x = dec n @ CHR ''.'' # y"
  have "\<not> is_dec (CHR ''.'')" by (auto dest: is_dec_not_sep)
  with eq have "dec m = dec n \<and> CHR ''.'' = CHR ''.'' \<and> x = y"
    by (intro span_unique [where P = is_dec]) (auto dest: dec_is_dec)
  then show "m = n \<and> x = y" by simp
qed simp

section \<open>\<open>int(s)\<close>\<close>

text \<open>
  Surrounding white space (only the ASCII kind when the text is ASCII), a sign, and decimal
  digits with single underscores between them; more than 4300 digits are refused.
\<close>

definition int_space :: "string \<Rightarrow> char \<Rightarrow> bool" where
  "int_space s c \<longleftrightarrow>
     (if list_all (\<lambda>x. code x < 128) s then (9 \<le> code c \<and> code c \<le> 13) \<or> code c = 32 else is_space c)"

definition int_digits :: "string \<Rightarrow> nat option" where
  "int_digits b =
     (let groups = split_on (CHR ''_'') b; ds = concat groups
      in if list_all (\<lambda>g. g \<noteq> [] \<and> list_all is_dec g) groups \<and> length ds \<le> 4300
         then Some (undec ds) else None)"

definition int_of_str :: "string \<Rightarrow> int option" where
  "int_of_str s =
     (let t = rev (dropWhile (int_space s) (rev (dropWhile (int_space s) s)))
      in case t of
           [] \<Rightarrow> None
         | c # cs \<Rightarrow>
             if c = CHR ''-'' then map_option (\<lambda>n. - int n) (int_digits cs)
             else if c = CHR ''+'' then map_option int (int_digits cs)
             else map_option int (int_digits t))"

section \<open>Maps\<close>

lemma map_of_SomeI_unique:
  "distinct (map fst xs) \<Longrightarrow> (k, v) \<in> set xs \<Longrightarrow> map_of xs k = Some v"
  by simp

end
