(* ===== verification/Json.thy ===== *)
theory Json
  imports Complex_Main Prelude "HOL-Library.AList"
begin

text \<open>
  JSON values and the parts of Python's \<^verbatim>\<open>json\<close> module and of UTF-8 coding the program
  uses: \<^verbatim>\<open>json.loads\<close> (a scanner with a fuel argument; the length of the text is enough
  for every document whose nesting it bounds) and the compact
  \<^verbatim>\<open>json.dumps(..., separators=(",", ":"))\<close> of a flat object of strings.

  A dict is an association list with distinct keys in insertion order: \<open>dict_of\<close> gives a
  repeated key its last value at its first position, as Python's does.  A floating point
  literal is its exact rational value; \<open>NaN\<close> and the infinities, which \<^verbatim>\<open>json.loads\<close>
  accepts, are the one value \<open>JNonFinite\<close>.
\<close>

datatype json =
    JNull
  | JBool bool
  | JInt int
  | JFloat rat
  | JNonFinite
  | JStr string
  | JArr "json list"
  | JObj "(string \<times> json) list"

type_synonym dict = "(string \<times> json) list"

text \<open>\<open>d.get(k)\<close>, with \<open>None\<close> and a stored \<open>null\<close> the same Python value.\<close>

definition get :: "dict \<Rightarrow> string \<Rightarrow> json" where
  "get d k = (case map_of d k of None \<Rightarrow> JNull | Some v \<Rightarrow> v)"

definition get_default :: "dict \<Rightarrow> string \<Rightarrow> json \<Rightarrow> json" where
  "get_default d k v = (case map_of d k of None \<Rightarrow> v | Some w \<Rightarrow> w)"

text \<open>\<open>isinstance\<close> tests, as partial projections.\<close>

fun as_str :: "json \<Rightarrow> string option" where
  "as_str (JStr s) = Some s"
| "as_str _ = None"

fun as_dict :: "json \<Rightarrow> dict option" where
  "as_dict (JObj d) = Some d"
| "as_dict _ = None"

fun as_list :: "json \<Rightarrow> json list option" where
  "as_list (JArr xs) = Some xs"
| "as_list _ = None"

text \<open>\<open>isinstance(v, int)\<close>: \<open>True\<close> and \<open>False\<close> are ints in Python.\<close>

fun as_int :: "json \<Rightarrow> int option" where
  "as_int (JInt i) = Some i"
| "as_int (JBool b) = Some (if b then 1 else 0)"
| "as_int _ = None"

fun truthy :: "json \<Rightarrow> bool" where
  "truthy JNull = False"
| "truthy (JBool b) = b"
| "truthy (JInt i) = (i \<noteq> 0)"
| "truthy (JFloat r) = (r \<noteq> 0)"
| "truthy JNonFinite = True"
| "truthy (JStr s) = (s \<noteq> [])"
| "truthy (JArr xs) = (xs \<noteq> [])"
| "truthy (JObj d) = (d \<noteq> [])"

text \<open>\<open>int(v)\<close> on a decoded value: floats are truncated towards zero.\<close>

fun py_int :: "json \<Rightarrow> int res" where
  "py_int (JInt i) = Inr i"
| "py_int (JBool b) = Inr (if b then 1 else 0)"
| "py_int (JFloat r) = Inr (if r < 0 then \<lceil>r\<rceil> else \<lfloor>r\<rfloor>)"
| "py_int JNonFinite = Inl (ValueError ''cannot convert float to integer'')"
| "py_int (JStr s) = (case int_of_str s of
     None \<Rightarrow> Inl (ValueError ''invalid literal for int()'') | Some i \<Rightarrow> Inr i)"
| "py_int _ = Inl (TypeError ''int() argument must be a string or a number'')"

lemma as_str_eq_Some [simp]: "as_str v = Some s \<longleftrightarrow> v = JStr s"
  by (cases v) auto

lemma as_dict_eq_Some [simp]: "as_dict v = Some d \<longleftrightarrow> v = JObj d"
  by (cases v) auto

lemma as_list_eq_Some [simp]: "as_list v = Some xs \<longleftrightarrow> v = JArr xs"
  by (cases v) auto

lemma get_Cons [simp]: "get ((k, v) # d) j = (if j = k then v else get d j)"
  by (simp add: get_def)

lemma get_Nil [simp]: "get [] k = JNull"
  by (simp add: get_def)

section \<open>UTF-8\<close>

definition byte2 :: "nat \<Rightarrow> char list" where
  "byte2 n = [char_of (192 + n div 64), char_of (128 + n mod 64)]"

fun utf8_encode :: "string \<Rightarrow> string" where
  "utf8_encode [] = []"
| "utf8_encode (c # cs) = (if code c < 128 then [c] else byte2 (code c)) @ utf8_encode cs"

fun utf8_decode :: "string \<Rightarrow> string option" where
  "utf8_decode [] = Some []"
| "utf8_decode (b # bs) =
     (if code b < 128 then map_option ((#) b) (utf8_decode bs)
      else (case bs of
          [] \<Rightarrow> None
        | b' # bs' \<Rightarrow>
            if code b \<in> {194, 195} \<and> 128 \<le> code b' \<and> code b' < 192
            then map_option ((#) (char_of ((code b - 192) * 64 + (code b' - 128)))) (utf8_decode bs')
            else None))"

lemma code_less_256: "code c < 256"
  by (simp add: code_def)

lemma utf8_decode_encode [simp]: "utf8_decode (utf8_encode s) = Some s"
proof (induction s)
  case (Cons c cs)
  have *: "char_of (code c) = c" by (simp add: code_def)
  have "code c div 64 \<in> {2, 3}" if "\<not> code c < 128"
    using that code_less_256 [of c] by auto
  moreover have "(code c div 64) * 64 + code c mod 64 = code c" by simp
  ultimately show ?case using Cons * code_less_256 [of c]
    by (auto simp: byte2_def)
qed simp

section \<open>Scanning\<close>

definition is_json_ws :: "char \<Rightarrow> bool" where
  "is_json_ws c \<longleftrightarrow> c = CHR '' '' \<or> code c \<in> {9, 10, 13}"

definition skip_ws :: "string \<Rightarrow> string" where
  "skip_ws s = dropWhile is_json_ws s"

definition hex_digit :: "char \<Rightarrow> nat option" where
  "hex_digit c =
     (let n = code c in
      if 48 \<le> n \<and> n \<le> 57 then Some (n - 48)
      else if 65 \<le> n \<and> n \<le> 70 then Some (n - 55)
      else if 97 \<le> n \<and> n \<le> 102 then Some (n - 87) else None)"

definition hex4 :: "string \<Rightarrow> nat option" where
  "hex4 ds = (case map hex_digit ds of
      [Some a, Some b, Some c, Some d] \<Rightarrow> Some (((a * 16 + b) * 16 + c) * 16 + d)
    | _ \<Rightarrow> None)"

definition simple_escape :: "char \<Rightarrow> char option" where
  "simple_escape c = map_of
     [(CHR 0x22, CHR 0x22), (CHR 0x5C, CHR 0x5C), (CHR ''/'', CHR ''/''), (CHR ''b'', CHR 0x08),
      (CHR ''f'', CHR 0x0C), (CHR ''n'', CHR 0x0A), (CHR ''r'', CHR 0x0D), (CHR ''t'', CHR 0x09)] c"

text \<open>The rest of a string literal, after its opening quote.  Control characters are
  refused (\<open>strict\<close>); an escape outside the code points the model covers is refused too.\<close>

fun scan_string :: "string \<Rightarrow> (string \<times> string) option" where
  "scan_string [] = None"
| "scan_string (c # cs) =
     (if c = CHR 0x22 then Some ([], cs)
      else if c = CHR 0x5C then
        (case cs of
           [] \<Rightarrow> None
         | e # es \<Rightarrow>
             if e = CHR ''u'' then
               (case hex4 (take 4 es) of
                  None \<Rightarrow> None
                | Some n \<Rightarrow> if n < 256
                    then map_option (apfst ((#) (char_of n))) (scan_string (drop 4 es)) else None)
             else (case simple_escape e of
                  None \<Rightarrow> None
                | Some x \<Rightarrow> map_option (apfst ((#) x)) (scan_string es)))
      else if code c < 32 then None
      else map_option (apfst ((#) c)) (scan_string cs))"

text \<open>\<^verbatim>\<open>-?(0|[1-9][0-9]*)(\.[0-9]+)?([eE][-+]?[0-9]+)?\<close>\<close>

definition span_dec :: "string \<Rightarrow> string \<times> string" where
  "span_dec s = (takeWhile is_dec s, dropWhile is_dec s)"

definition scan_int :: "string \<Rightarrow> (string \<times> string) option" where
  "scan_int s = (case span_dec s of
      ([], _) \<Rightarrow> None
    | (d # ds, rest) \<Rightarrow> Some (if d = CHR ''0'' then ([d], tl s) else (d # ds, rest)))"

definition scan_frac :: "string \<Rightarrow> (string \<times> string) option" where
  "scan_frac s = (case s of
      c # cs \<Rightarrow> if c = CHR ''.'' \<and> fst (span_dec cs) \<noteq> [] then Some (span_dec cs) else None
    | [] \<Rightarrow> None)"

definition scan_exp :: "string \<Rightarrow> (int \<times> string) option" where
  "scan_exp s = (case s of
      e # es \<Rightarrow>
        if e = CHR ''e'' \<or> e = CHR ''E'' then
          (let (sgn, body) = (case es of
               c # cs \<Rightarrow> if c = CHR ''-'' then (- 1, cs) else if c = CHR ''+'' then (1, cs) else (1, es)
             | [] \<Rightarrow> (1 :: int, es))
           in if fst (span_dec body) = [] then None
              else Some (sgn * int (undec (fst (span_dec body))), snd (span_dec body)))
        else None
    | [] \<Rightarrow> None)"

definition pow10 :: "int \<Rightarrow> rat" where
  "pow10 e = (if e < 0 then 1 / (10 ^ nat (- e)) else 10 ^ nat e)"

definition scan_number :: "string \<Rightarrow> (json \<times> string) option" where
  "scan_number s =
     (let neg = (s \<noteq> [] \<and> hd s = CHR ''-''); body = (if neg then tl s else s);
          sg = (if neg then - 1 else 1 :: int)
      in case scan_int body of
           None \<Rightarrow> None
         | Some (ds, r1) \<Rightarrow>
             (case (scan_frac r1, scan_exp (case scan_frac r1 of None \<Rightarrow> r1 | Some (_, r2) \<Rightarrow> r2)) of
                (None, None) \<Rightarrow> Some (JInt (sg * int (undec ds)), r1)
              | (Some (fs, r2), None) \<Rightarrow>
                  Some (JFloat (of_int (sg * int (undec (ds @ fs))) * pow10 (- int (length fs))), r2)
              | (None, Some (e, r3)) \<Rightarrow> Some (JFloat (of_int (sg * int (undec ds)) * pow10 e), r3)
              | (Some (fs, r2), Some (e, r3)) \<Rightarrow>
                  Some (JFloat (of_int (sg * int (undec (ds @ fs))) * pow10 (e - int (length fs))), r3)))"

definition literals :: "(string \<times> json) list" where
  "literals = [(''null'', JNull), (''true'', JBool True), (''false'', JBool False),
     (''NaN'', JNonFinite), (''Infinity'', JNonFinite), (''-Infinity'', JNonFinite)]"

definition scan_literal :: "string \<Rightarrow> (json \<times> string) option" where
  "scan_literal s = (case find (\<lambda>(w, v). prefix w s) literals of
      None \<Rightarrow> None | Some (w, v) \<Rightarrow> Some (v, drop (length w) s))"

definition dict_of :: "(string \<times> json) list \<Rightarrow> dict" where
  "dict_of kvs = fold (\<lambda>(k, v) d. AList.update k v d) kvs []"

text \<open>
  Values, the elements of an array after its \<open>[\<close> or a comma, and the members of an object
  after its \<open>{\<close> or a comma.  Each call spends one unit of fuel.
\<close>

fun scan_value :: "nat \<Rightarrow> string \<Rightarrow> (json \<times> string) option"
  and scan_elems :: "nat \<Rightarrow> string \<Rightarrow> (json list \<times> string) option"
  and scan_members :: "nat \<Rightarrow> string \<Rightarrow> ((string \<times> json) list \<times> string) option" where
  "scan_value 0 s = None"
| "scan_value (Suc n) s =
     (case s of
        [] \<Rightarrow> None
      | c # cs \<Rightarrow>
          if c = CHR 0x22 then map_option (apfst JStr) (scan_string cs)
          else if c = CHR ''{'' then
            (case skip_ws cs of
               [] \<Rightarrow> None
             | d # ds \<Rightarrow> if d = CHR ''}'' then Some (JObj [], ds)
                 else map_option (apfst (\<lambda>kvs. JObj (dict_of kvs))) (scan_members n (d # ds)))
          else if c = CHR ''['' then
            (case skip_ws cs of
               [] \<Rightarrow> None
             | d # ds \<Rightarrow> if d = CHR '']'' then Some (JArr [], ds)
                 else map_option (apfst JArr) (scan_elems n (d # ds)))
          else (case scan_literal s of Some r \<Rightarrow> Some r | None \<Rightarrow> scan_number s))"
| "scan_elems 0 s = None"
| "scan_elems (Suc n) s =
     (case scan_value n s of
        None \<Rightarrow> None
      | Some (v, r) \<Rightarrow>
          (case skip_ws r of
             [] \<Rightarrow> None
           | c # cs \<Rightarrow>
               if c = CHR '']'' then Some ([v], cs)
               else if c = CHR '','' then map_option (apfst ((#) v)) (scan_elems n (skip_ws cs))
               else None))"
| "scan_members 0 s = None"
| "scan_members (Suc n) s =
     (case s of
        [] \<Rightarrow> None
      | q # qs \<Rightarrow>
          if q \<noteq> CHR 0x22 then None
          else (case scan_string qs of
              None \<Rightarrow> None
            | Some (k, r) \<Rightarrow>
                (case skip_ws r of
                   [] \<Rightarrow> None
                 | c # cs \<Rightarrow>
                     if c \<noteq> CHR '':'' then None
                     else (case scan_value n (skip_ws cs) of
                         None \<Rightarrow> None
                       | Some (v, r') \<Rightarrow>
                           (case skip_ws r' of
                              [] \<Rightarrow> None
                            | d # ds \<Rightarrow>
                                if d = CHR ''}'' then Some ([(k, v)], ds)
                                else if d = CHR '','' then
                                  map_option (apfst ((#) (k, v))) (scan_members n (skip_ws ds))
                                else None)))))"

text \<open>\<^verbatim>\<open>json.loads\<close>: one value, white space around it, and nothing after it.\<close>

definition loads :: "string \<Rightarrow> json option" where
  "loads s = (case scan_value (length s + 1) (skip_ws s) of
      None \<Rightarrow> None
    | Some (v, r) \<Rightarrow> if skip_ws r = [] then Some v else None)"

text \<open>\<^verbatim>\<open>json.loads(raw)\<close> on bytes: decoding comes first and raises its own error.\<close>

definition loads_bytes :: "string \<Rightarrow> json res" where
  "loads_bytes raw = (case utf8_decode raw of
      None \<Rightarrow> Inl UnicodeDecodeError
    | Some s \<Rightarrow> (case loads s of None \<Rightarrow> Inl JSONDecodeError | Some v \<Rightarrow> Inr v))"

section \<open>Writing\<close>

definition hex_char :: "nat \<Rightarrow> char" where
  "hex_char n = (if n < 10 then char_of (48 + n) else char_of (87 + n))"

definition unicode_escape :: "char \<Rightarrow> string" where
  "unicode_escape c = [CHR 0x5C, CHR ''u'', CHR ''0'', CHR ''0'', hex_char (code c div 16), hex_char (code c mod 16)]"

text \<open>\<open>ensure_ascii\<close>: a quote, a backslash and everything outside space to tilde is escaped.\<close>

definition escape_char :: "char \<Rightarrow> string" where
  "escape_char c =
     (let n = code c in
      if c = CHR 0x22 \<or> c = CHR 0x5C then [CHR 0x5C, c]
      else if n = 10 then [CHR 0x5C, CHR ''n''] else if n = 13 then [CHR 0x5C, CHR ''r'']
      else if n = 9 then [CHR 0x5C, CHR ''t''] else if n = 8 then [CHR 0x5C, CHR ''b'']
      else if n = 12 then [CHR 0x5C, CHR ''f'']
      else if 32 \<le> n \<and> n \<le> 126 then [c] else unicode_escape c)"

definition dumps_str :: "string \<Rightarrow> string" where
  "dumps_str s = CHR 0x22 # concat (map escape_char s) @ [CHR 0x22]"

definition dumps_str_dict :: "(string \<times> string) list \<Rightarrow> string" where
  "dumps_str_dict kvs =
     CHR ''{'' # join '','' (map (\<lambda>(k, v). dumps_str k @ CHR '':'' # dumps_str v) kvs) @ ''}''"

lemma hex4_unicode_escape:
  "hex4 (take 4 (CHR ''0'' # CHR ''0'' # hex_char (code c div 16) # hex_char (code c mod 16) # r)) = Some (code c)"
proof -
  have hex: "hex_digit (hex_char n) = Some n" if "n < 16" for n
    using that by (auto simp: hex_digit_def hex_char_def Let_def)
  have "code c div 16 < 16" using code_less_256 [of c] by auto
  moreover have "hex_digit (CHR ''0'') = Some 0" by (simp add: hex_digit_def code_def)
  ultimately show ?thesis by (simp add: hex4_def hex)
qed

lemma scan_escape_char: "scan_string (escape_char c @ r) = map_option (apfst ((#) c)) (scan_string r)"
proof -
  have inv: "char_of (code c) = c" by (simp add: code_def)
  show ?thesis
  proof (cases "c = CHR 0x22 \<or> c = CHR 0x5C \<or> code c \<in> {8, 9, 10, 12, 13}")
    case True
    moreover have "code (CHR 0x08) = 8" "code (CHR 0x09) = 9" "code (CHR 0x0A) = 10"
      "code (CHR 0x0C) = 12" "code (CHR 0x0D) = 13"
      by (simp_all add: code_def)
    ultimately consider "c = CHR 0x22" | "c = CHR 0x5C" | "c = CHR 0x08" | "c = CHR 0x09"
      | "c = CHR 0x0A" | "c = CHR 0x0C" | "c = CHR 0x0D"
      by (metis code_inj insert_iff singletonD)
    then show ?thesis
      by cases (simp_all add: escape_char_def simple_escape_def code_def)
  next
    case False
    show ?thesis
    proof (cases "32 \<le> code c \<and> code c \<le> 126")
      case True
      with False show ?thesis by (auto simp: escape_char_def Let_def)
    next
      case esc: False
      from False esc have e: "escape_char c = unicode_escape c" by (auto simp: escape_char_def Let_def)
      show ?thesis
        using hex4_unicode_escape [of c r] code_less_256 [of c] inv
        by (simp add: e unicode_escape_def)
    qed
  qed
qed

lemma scan_dumps_body:
  "scan_string (concat (map escape_char s) @ CHR 0x22 # r) = Some (s, r)"
  by (induction s) (simp_all add: scan_escape_char)

lemma scan_value_dumps_str [simp]: "scan_value (Suc n) (dumps_str s @ r) = Some (JStr s, r)"
  by (simp add: dumps_str_def scan_dumps_body)

lemma skip_ws_id [simp]: "\<not> is_json_ws c \<Longrightarrow> skip_ws (c # cs) = c # cs"
  by (simp add: skip_ws_def)

lemma json_punct_not_ws [simp]:
  "\<not> is_json_ws (CHR '':'')" "\<not> is_json_ws (CHR '','')" "\<not> is_json_ws (CHR ''{'')"
  "\<not> is_json_ws (CHR ''}'')" "\<not> is_json_ws (CHR 0x22)"
  by (simp_all add: is_json_ws_def code_def)

lemma skip_ws_Nil [simp]: "skip_ws [] = []"
  by (simp add: skip_ws_def)

lemma skip_ws_dumps_str [simp]: "skip_ws (dumps_str s @ r) = dumps_str s @ r"
  by (simp add: dumps_str_def)

lemma dumps_str_Cons: "dumps_str s @ r = CHR 0x22 # (concat (map escape_char s) @ CHR 0x22 # r)"
  by (simp add: dumps_str_def)

text \<open>The members of a flat object of strings scan back, with fuel for each member.\<close>

lemma scan_members_dumps:
  "kvs \<noteq> [] \<Longrightarrow> length kvs < n \<Longrightarrow>
   scan_members n (join '','' (map (\<lambda>(k, v). dumps_str k @ CHR '':'' # dumps_str v) kvs) @ CHR ''}'' # r)
     = Some (map (\<lambda>(k, v). (k, JStr v)) kvs, r)"
proof (induction kvs arbitrary: n)
  case (Cons kv kvs)
  obtain k v where kv: "kv = (k, v)" by (cases kv)
  obtain m where n: "n = Suc (Suc m)"
    using Cons.prems by (cases n; cases "n - 1") auto
  show ?case
  proof (cases kvs)
    case Nil
    then show ?thesis
      by (simp add: kv n dumps_str_Cons scan_dumps_body del: scan_value.simps)
        (simp add: dumps_str_Cons [symmetric] del: scan_value.simps)
  next
    case (Cons kv' kvs')
    have IH: "scan_members (Suc m)
       (join '','' (map (\<lambda>(k, v). dumps_str k @ CHR '':'' # dumps_str v) kvs) @ CHR ''}'' # r)
       = Some (map (\<lambda>(k, v). (k, JStr v)) kvs, r)"
      by (rule Cons.IH) (use Cons.prems n Cons in simp_all)
    obtain k' v' where kv': "kv' = (k', v')" by (cases kv')
    define rest where "rest = join '','' (map (\<lambda>(k, v). dumps_str k @ CHR '':'' # dumps_str v) kvs)
       @ CHR ''}'' # r"
    have ws: "skip_ws rest = rest"
      by (cases kvs') (simp_all add: rest_def Cons kv' dumps_str_Cons)
    have "join '','' (map (\<lambda>(k, v). dumps_str k @ CHR '':'' # dumps_str v) (kv # kvs)) @ CHR ''}'' # r
       = dumps_str k @ CHR '':'' # dumps_str v @ CHR '','' # rest"
      by (simp add: rest_def Cons kv)
    moreover have "scan_members n (dumps_str k @ CHR '':'' # dumps_str v @ CHR '','' # rest)
       = Some ((k, JStr v) # map (\<lambda>(k, v). (k, JStr v)) kvs, r)"
      using IH ws unfolding n rest_def [symmetric]
      by (subst dumps_str_Cons, subst scan_members.simps)
        (simp add: scan_dumps_body del: scan_members.simps scan_value.simps)
    ultimately show ?thesis by (simp add: kv)
  qed
qed simp


section \<open>Writing and reading back structured values\<close>

text \<open>\<^verbatim>\<open>json.dumps\<close> with compact separators, of values built from strings, \<open>null\<close>, arrays and
  objects; numbers and booleans are not among the values written here.\<close>

fun dumps :: "json \<Rightarrow> string" where
  "dumps (JStr s) = dumps_str s"
| "dumps (JArr vs) = CHR ''['' # join '','' (map dumps vs) @ '']''"
| "dumps (JObj kvs) = CHR ''{'' # join '','' (map (\<lambda>(k, v). dumps_str k @ CHR '':'' # dumps v) kvs) @ ''}''"
| "dumps v = ''null''"

fun textual :: "json \<Rightarrow> bool" where
  "textual JNull = True"
| "textual (JStr s) = True"
| "textual (JArr vs) = list_all textual vs"
| "textual (JObj kvs) = (distinct (map fst kvs) \<and> list_all (\<lambda>(k, v). textual v) kvs)"
| "textual v = False"

lemma more_punct [simp]: "\<not> is_json_ws (CHR ''['')" "\<not> is_json_ws (CHR '']'')" "\<not> is_json_ws (CHR ''n'')"
  by (simp_all add: is_json_ws_def code_def)

lemma dumps_hd: "\<exists>c cs. dumps v = c # cs \<and> \<not> is_json_ws c \<and> c \<noteq> CHR '']'' \<and> c \<noteq> CHR ''}''"
  by (cases v) (simp_all add: dumps_str_def)

lemma skip_ws_dumps [simp]: "skip_ws (dumps v @ r) = dumps v @ r"
  using dumps_hd [of v] by auto

lemma join_Cons: "join sep (x # xs) = x @ (if xs = [] then [] else sep @ join sep xs)"
  by (cases xs) auto

definition scans :: "json \<Rightarrow> bool" where
  "scans v \<longleftrightarrow> (\<forall>n r. length (dumps v) \<le> n \<longrightarrow> scan_value n (dumps v @ r) = Some (v, r))"

lemma scansD: "scans v \<Longrightarrow> length (dumps v) \<le> n \<Longrightarrow> scan_value n (dumps v @ r) = Some (v, r)"
  by (simp add: scans_def)

lemma scan_elems_dumps:
  "vs \<noteq> [] \<Longrightarrow> list_all scans vs \<Longrightarrow> length (join '','' (map dumps vs)) < n \<Longrightarrow>
    scan_elems n (join '','' (map dumps vs) @ CHR '']'' # r) = Some (vs, r)"
proof (induction vs arbitrary: n)
  case (Cons v vs)
  obtain m where n: "n = Suc m" using Cons.prems by (cases n) auto
  have v: "scan_value m (dumps v @ x) = Some (v, x)" for x
    using Cons.prems n by (intro scansD) (auto simp: join_Cons split: if_splits)
  show ?case
  proof (cases "vs = []")
    case True
    then show ?thesis by (simp add: n v del: scan_value.simps)
  next
    case False
    have ws: "skip_ws (join '','' (map dumps vs) @ x) = join '','' (map dumps vs) @ x" for x
      using False by (cases vs) (simp_all add: join_Cons)
    have "scan_elems m (join '','' (map dumps vs) @ CHR '']'' # r) = Some (vs, r)"
      using Cons.prems n False by (intro Cons.IH) (auto simp: join_Cons)
    then show ?thesis using False by (simp add: n v ws join_Cons del: scan_value.simps)
  qed
qed simp

lemma scan_key [simp]: "scan_string (concat (map escape_char k) @ CHR 0x22 # r) = Some (k, r)"
  by (rule scan_dumps_body)

lemma scan_members_textual:
  "kvs \<noteq> [] \<Longrightarrow> list_all (\<lambda>(k, v). scans v) kvs \<Longrightarrow>
    length (join '','' (map (\<lambda>(k, v). dumps_str k @ CHR '':'' # dumps v) kvs)) < n \<Longrightarrow>
    scan_members n (join '','' (map (\<lambda>(k, v). dumps_str k @ CHR '':'' # dumps v) kvs) @ CHR ''}'' # r) = Some (kvs, r)"
proof (induction kvs arbitrary: n)
  case (Cons kv kvs)
  obtain k v where kv: "kv = (k, v)" by (cases kv)
  obtain m where n: "n = Suc m" using Cons.prems by (cases n) auto
  have v: "scan_value m (dumps v @ x) = Some (v, x)" for x
    using Cons.prems n kv by (intro scansD) (auto simp: join_Cons split: if_splits)
  show ?case
  proof (cases "kvs = []")
    case True
    then show ?thesis
      by (simp add: kv n dumps_str_Cons v del: scan_value.simps)
  next
    case False
    define rest where "rest = join '','' (map (\<lambda>(k, v). dumps_str k @ CHR '':'' # dumps v) kvs) @ CHR ''}'' # r"
    have ws: "skip_ws rest = rest"
      using False by (cases kvs) (auto simp: rest_def join_Cons dumps_str_Cons)
    have IH: "scan_members m rest = Some (kvs, r)"
      unfolding rest_def using Cons.prems n False by (intro Cons.IH) (auto simp: join_Cons)
    have "join '','' (map (\<lambda>(k, v). dumps_str k @ CHR '':'' # dumps v) (kv # kvs)) @ CHR ''}'' # r
        = CHR 0x22 # concat (map escape_char k) @ CHR 0x22 # CHR '':'' # dumps v @ CHR '','' # rest"
      using False by (simp add: kv join_Cons rest_def dumps_str_def)
    then show ?thesis using IH ws by (simp add: kv n v del: scan_value.simps)
  qed
qed simp

lemma dict_of_distinct:
  assumes "distinct (map fst kvs)"
  shows "dict_of kvs = kvs"
proof -
  have "fold (\<lambda>(k, v) d. AList.update k v d) kvs d = d @ kvs"
    if "distinct (map fst kvs)" "fst ` set d \<inter> fst ` set kvs = {}" for d
    using that
  proof (induction kvs arbitrary: d)
    case (Cons kv kvs)
    have "AList.update k v d = d @ [(k, v)]" if "k \<notin> fst ` set d" for k v and d :: dict
      using that by (induction d) auto
    with Cons show ?case by (cases kv) (auto simp: image_iff)
  qed simp
  from this [OF assms, of "[]"] show ?thesis by (simp add: dict_of_def)
qed

lemma scans_textual: "textual v \<Longrightarrow> scans v"
proof (induction v rule: textual.induct)
  case 1
  show ?case unfolding scans_def
  proof (intro allI impI)
    fix n :: nat and r :: string assume "length (dumps JNull) \<le> n"
    then obtain m where "n = Suc m" by (cases n) auto
    then show "scan_value n (dumps JNull @ r) = Some (JNull, r)"
      by (simp add: scan_literal_def literals_def)
  qed
next
  case (2 s)
  show ?case unfolding scans_def
  proof (intro allI impI)
    fix n :: nat and r :: string assume "length (dumps (JStr s)) \<le> n"
    then obtain m where "n = Suc m" by (cases n) (auto simp: dumps_str_def)
    then show "scan_value n (dumps (JStr s) @ r) = Some (JStr s, r)"
      by (simp del: scan_value.simps)
  qed
next
  case (3 vs)
  then have vs: "list_all scans vs" by (auto simp: list_all_iff)
  show ?case unfolding scans_def
  proof (intro allI impI)
    fix n :: nat and r :: string assume l: "length (dumps (JArr vs)) \<le> n"
    then obtain m where n: "n = Suc m" by (cases n) auto
    show "scan_value n (dumps (JArr vs) @ r) = Some (JArr vs, r)"
    proof (cases vs)
      case Nil
      then show ?thesis by (simp add: n)
    next
      case (Cons w ws)
      obtain c cs where c: "dumps w = c # cs" "\<not> is_json_ws c" "c \<noteq> CHR '']''" using dumps_hd [of w] by auto
      have "scan_elems m (join '','' (map dumps vs) @ CHR '']'' # r) = Some (vs, r)"
        using l n Cons vs by (intro scan_elems_dumps) auto
      then show ?thesis using c by (simp add: n Cons join_Cons split: if_splits)
    qed
  qed
next
  case (4 kvs)
  then have vs: "list_all (\<lambda>(k, v). scans v) kvs" by (fastforce simp: list_all_iff)
  show ?case unfolding scans_def
  proof (intro allI impI)
    fix n :: nat and r :: string assume l: "length (dumps (JObj kvs)) \<le> n"
    then obtain m where n: "n = Suc m" by (cases n) auto
    show "scan_value n (dumps (JObj kvs) @ r) = Some (JObj kvs, r)"
    proof (cases kvs)
      case Nil
      then show ?thesis by (simp add: n)
    next
      case (Cons kv kvs')
      have "scan_members m (join '','' (map (\<lambda>(k, v). dumps_str k @ CHR '':'' # dumps v) kvs) @ CHR ''}'' # r) = Some (kvs, r)"
        using l n Cons vs by (intro scan_members_textual) auto
      moreover have "dict_of kvs = kvs" using 4 by (intro dict_of_distinct) simp
      ultimately show ?thesis by (cases kv) (simp add: n Cons join_Cons dumps_str_Cons)
    qed
  qed
qed simp_all

lemma loads_dumps: "textual v \<Longrightarrow> loads (dumps v) = Some v"
  using scansD [OF scans_textual, of v "length (dumps v) + 1" "[]"] skip_ws_dumps [of v "[]"]
  by (simp add: loads_def del: skip_ws_dumps)

text \<open>How long the text of a value can get.\<close>

fun weight :: "json \<Rightarrow> nat" where
  "weight (JStr s) = 6 * length s + 2"
| "weight (JArr vs) = 2 + sum_list (map (\<lambda>v. weight v + 1) vs)"
| "weight (JObj kvs) = 2 + sum_list (map (\<lambda>(k, v). 6 * length k + 4 + weight v) kvs)"
| "weight v = 4"

lemma utf8_encode_length: "length (utf8_encode s) \<le> 2 * length s"
  by (induction s) (auto simp: byte2_def)

lemma dumps_str_length: "length (dumps_str s) \<le> 6 * length s + 2"
  by (induction s) (auto simp: dumps_str_def escape_char_def unicode_escape_def Let_def)

lemma join_length: "length (join [c] xs) \<le> sum_list (map (\<lambda>x. length x + 1) xs)"
  by (induction xs) (auto simp: join_Cons)

lemma dumps_length: "length (dumps v) \<le> weight v"
proof (induction v rule: weight.induct)
  case (2 vs)
  have "length (join '','' (map dumps vs)) \<le> sum_list (map (\<lambda>v. length (dumps v) + 1) vs)"
    using join_length [of "CHR '',''" "map dumps vs"] by (simp add: comp_def)
  also have "\<dots> \<le> sum_list (map (\<lambda>v. weight v + 1) vs)"
    using 2 by (intro sum_list_mono) simp
  finally show ?case by simp
next
  case (3 kvs)
  have "length (join '','' (map (\<lambda>(k, v). dumps_str k @ CHR '':'' # dumps v) kvs))
      \<le> sum_list (map (\<lambda>(k, v). length (dumps_str k @ CHR '':'' # dumps v) + 1) kvs)"
    using join_length [of "CHR '',''" "map (\<lambda>(k, v). dumps_str k @ CHR '':'' # dumps v) kvs"]
    by (simp add: comp_def case_prod_unfold)
  also have "\<dots> \<le> sum_list (map (\<lambda>(k, v). 6 * length k + 4 + weight v) kvs)"
  proof (rule sum_list_mono)
    fix kv assume kv: "kv \<in> set kvs"
    obtain k v where "kv = (k, v)" by (cases kv)
    then show "(case kv of (k, v) \<Rightarrow> length (dumps_str k @ CHR '':'' # dumps v) + 1)
        \<le> (case kv of (k, v) \<Rightarrow> 6 * length k + 4 + weight v)"
      using dumps_str_length [of k] 3 [OF kv, of k v] by simp
  qed
  finally show ?case by simp
qed (simp_all add: dumps_str_length [simplified])

lemma loads_bytes_dumps [simp]: "textual v \<Longrightarrow> loads_bytes (utf8_encode (dumps v)) = Inr v"
  by (simp add: loads_bytes_def loads_dumps)

section \<open>Hexadecimal digests\<close>

text \<open>\<^verbatim>\<open>hashlib.sha256(b).hexdigest()\<close>, the hash an argument of everything that uses it.\<close>

definition hexdigest :: "(string \<Rightarrow> string) \<Rightarrow> string \<Rightarrow> string" where
  "hexdigest sha bs = concat (map (\<lambda>c. [hex_char (code c div 16), hex_char (code c mod 16)]) (sha bs))"

lemma hex_char_plain: "n < 16 \<Longrightarrow> hex_char n \<noteq> CHR ''.'' \<and> hex_char n \<noteq> CHR ''/''"
proof -
  assume "n < 16"
  then have "code (hex_char n) = (if n < 10 then 48 + n else 87 + n)" by (auto simp: hex_char_def)
  moreover have "code (CHR ''.'') = 46" "code (CHR ''/'') = 47" by (simp_all add: code_def)
  ultimately show ?thesis using \<open>n < 16\<close> by (metis add_leD1 numeral_le_iff linorder_not_le
        semiring_norm(68,70,71,72,73,74,75,76) add_left_mono le0 add.right_neutral)
qed

lemma hexdigest_plain:
  assumes "c \<in> set (hexdigest sha b)"
  shows "c \<noteq> CHR ''.'' \<and> c \<noteq> CHR ''/''"
proof -
  from assms obtain x where "c = hex_char (code x div 16) \<or> c = hex_char (code x mod 16)"
    by (auto simp: hexdigest_def)
  moreover have "code x div 16 < 16" "code x mod 16 < 16" using code_less_256 [of x] by auto
  ultimately show ?thesis using hex_char_plain by metis
qed

end
