(* ===== verification/Quarantine.thy ===== *)
theory Quarantine
  imports Json
begin

text \<open>
  \<^verbatim>\<open>packages/dist-ingest/src/dist_ingest/quarantine.py\<close>: the content-addressed store every candidate
  artifact is admitted to.  The file system is a map from paths to bytes in which a replacement
  is atomic; temporary files are removed again on every failure and are not part of the map.  The
  binary stream an artifact is read from is the list of what its \<open>read\<close> calls do.
\<close>

type_synonym fs = "string \<rightharpoonup> string"

datatype read = Chunk string | ReadFail exn

record quarantine =
  q_root :: string
  q_max_bytes :: int

definition DEFAULT_MAX_ARTIFACT_BYTES :: int where
  "DEFAULT_MAX_ARTIFACT_BYTES = 2 * 1024 * 1024 * 1024"

record admitted =
  ad_sha256 :: string
  ad_length :: nat
  ad_path :: string

definition qpath :: "quarantine \<Rightarrow> string \<Rightarrow> string" where
  "qpath q sha256 = q_root q @ ''/'' @ sha256 @ ''.bin''"

definition contains :: "quarantine \<Rightarrow> string \<Rightarrow> fs \<Rightarrow> bool" where
  "contains q sha256 fs \<longleftrightarrow> fs (qpath q sha256) \<noteq> None"

text \<open>The bytes read so far are \<open>acc\<close>; an empty chunk is the end of the stream.\<close>

fun stream :: "int \<Rightarrow> string \<Rightarrow> read list \<Rightarrow> string res" where
  "stream max_bytes acc [] = Inr acc"
| "stream max_bytes acc (ReadFail e # rs) = Inl e"
| "stream max_bytes acc (Chunk c # rs) =
     (if c = [] then Inr acc
      else if max_bytes < int (length acc + length c)
      then Inl (QuarantineError ''artifact exceeds the size limit; aborted mid-transfer'')
      else stream max_bytes (acc @ c) rs)"

definition admit :: "(string \<Rightarrow> string) \<Rightarrow> quarantine \<Rightarrow> read list \<Rightarrow> (fs, admitted) sem" where
  "admit sha q reads =
     bindS (liftS (stream (q_max_bytes q) [] reads)) (\<lambda>bs.
       let sha256 = hexdigest sha bs in
       bindS (modifyS (\<lambda>fs. fs(qpath q sha256 \<mapsto> bs))) (\<lambda>_.
       returnS \<lparr>ad_sha256 = sha256, ad_length = length bs, ad_path = qpath q sha256\<rparr>))"

definition promote :: "(string \<Rightarrow> string) \<Rightarrow> quarantine \<Rightarrow> string \<Rightarrow> string \<Rightarrow> (fs, string) sem" where
  "promote sha q sha256 destination = (\<lambda>fs.
     case fs (qpath q sha256) of
       None \<Rightarrow> (Inl (QuarantineError ''not in quarantine''), fs)
     | Some bs \<Rightarrow>
         if hexdigest sha bs \<noteq> sha256
         then (Inl (QuarantineError ''the staged file was modified''), fs)
         else (Inr destination, fs(destination \<mapsto> bs)))"

definition discard :: "quarantine \<Rightarrow> string \<Rightarrow> (fs, unit) sem" where
  "discard q sha256 = modifyS (\<lambda>fs. fs(qpath q sha256 := None))"

section \<open>Facts\<close>

lemma qpath_inj [simp]: "qpath q a = qpath q b \<longleftrightarrow> a = b"
  by (simp add: qpath_def)

lemma stream_Inr:
  "stream m acc rs = Inr bs \<Longrightarrow> int (length acc) \<le> m \<or> acc = [] \<Longrightarrow>
    prefix acc bs \<and> (int (length bs) \<le> m \<or> bs = [])"
proof (induction rs arbitrary: acc)
  case (Cons r rs)
  then show ?case by (cases r) (fastforce split: if_splits dest: append_prefixD)+
qed simp

lemma stream_bytes:
  "\<forall>c \<in> set cs. c \<noteq> [] \<Longrightarrow> int (length acc + length (concat cs)) \<le> m \<Longrightarrow>
    stream m acc (map Chunk cs) = Inr (acc @ concat cs)"
  by (induction cs arbitrary: acc) auto

lemma admit_Inr:
  "admit sha q rs fs = (Inr a, fs') \<longleftrightarrow> (\<exists>bs. stream (q_max_bytes q) [] rs = Inr bs
     \<and> a = \<lparr>ad_sha256 = hexdigest sha bs, ad_length = length bs, ad_path = qpath q (hexdigest sha bs)\<rparr>
     \<and> fs' = fs(qpath q (hexdigest sha bs) \<mapsto> bs))"
  by (auto simp: admit_def Let_def bindS_eq_Inr_iff)

lemma admit_Inl: "admit sha q rs fs = (Inl e, fs') \<Longrightarrow> fs' = fs"
  by (auto simp: admit_def Let_def sem_defs split: sum.splits)

section \<open>The interface the ingest and signing workers share\<close>

text \<open>Bytes go in under their digest, and what comes out under a digest has that digest.\<close>

locale content_store =
  fixes fits :: "string \<Rightarrow> bool" and digest :: "string \<Rightarrow> string"
    and put :: "string \<Rightarrow> 's \<Rightarrow> 's" and fetch :: "string \<Rightarrow> 's \<Rightarrow> string option"
  assumes fetch_put: "fits b \<Longrightarrow> fetch (digest b) (put b s) = Some b"
    and put_refused: "\<not> fits b \<Longrightarrow> put b s = s"
    and fetch_sound: "fetch d s = Some b \<Longrightarrow> digest b = d"
    and fetch_other: "d \<noteq> digest b \<Longrightarrow> fetch d (put b s) = fetch d s"
begin

text \<open>Whatever is put in later, a digest that was put in stays available, with bytes of that
  digest.\<close>

lemma still_there: "fetch d s \<noteq> None \<Longrightarrow> fetch d (fold put bs s) \<noteq> None"
proof (induction bs arbitrary: s)
  case (Cons b bs)
  have "fetch d (put b s) \<noteq> None"
    using Cons.prems fetch_put fetch_other put_refused by (cases "fits b"; cases "d = digest b") auto
  then show ?case using Cons.IH by simp
qed simp

lemma later_bytes:
  assumes "fits b"
  shows "\<exists>b'. fetch (digest b) (fold put bs (put b s)) = Some b' \<and> digest b' = digest b"
proof -
  have "fetch (digest b) (fold put bs (put b s)) \<noteq> None"
    using fetch_put [OF assms] by (intro still_there) simp
  then show ?thesis using fetch_sound by auto
qed

end

definition admit_bytes :: "(string \<Rightarrow> string) \<Rightarrow> quarantine \<Rightarrow> string \<Rightarrow> fs \<Rightarrow> fs" where
  "admit_bytes sha q b fs = snd (admit sha q [Chunk b] fs)"

text \<open>What \<open>promote\<close> copies out.\<close>

definition promoted_bytes :: "(string \<Rightarrow> string) \<Rightarrow> quarantine \<Rightarrow> string \<Rightarrow> fs \<Rightarrow> string option" where
  "promoted_bytes sha q sha256 fs = (case promote sha q sha256 ''out'' fs of
     (Inl e, _) \<Rightarrow> None | (Inr _, fs') \<Rightarrow> fs' ''out'')"

lemma promoted_bytes_eq:
  "promoted_bytes sha q sha256 fs = (case fs (qpath q sha256) of
     None \<Rightarrow> None | Some bs \<Rightarrow> if hexdigest sha bs = sha256 then Some bs else None)"
  by (simp add: promoted_bytes_def promote_def split: option.split)

definition within_limit :: "quarantine \<Rightarrow> string \<Rightarrow> bool" where
  "within_limit q b \<longleftrightarrow> b = [] \<or> int (length b) \<le> q_max_bytes q"

lemma admit_bytes_eq:
  "admit_bytes sha q b fs = (if within_limit q b then fs(qpath q (hexdigest sha b) \<mapsto> b) else fs)"
  by (auto simp: admit_bytes_def admit_def Let_def sem_defs within_limit_def)

interpretation quarantine_store:
  content_store "within_limit q" "hexdigest sha" "admit_bytes sha q" "promoted_bytes sha q" for sha q
  by unfold_locales (auto simp: admit_bytes_eq promoted_bytes_eq split: option.splits if_splits)

section \<open>Properties\<close>

text \<open>What the quarantine admits is addressed by the digest of the bytes it stored, is never larger
  than the limit, and whatever else is admitted afterwards can still be promoted under that
  digest; a stream that fails or is too long leaves nothing behind.\<close>

theorem admitted_by_content:
  assumes "admit sha q rs fs = (r, fs')"
  shows "(\<forall>e. r = Inl e \<longrightarrow> fs' = fs)
    \<and> (\<forall>a. r = Inr a \<longrightarrow> (\<exists>bs. fs' (ad_path a) = Some bs \<and> ad_sha256 a = hexdigest sha bs
         \<and> ad_length a = length bs \<and> within_limit q bs \<and> contains q (ad_sha256 a) fs'
         \<and> (\<forall>more. \<exists>bs'. promoted_bytes sha q (ad_sha256 a) (fold (admit_bytes sha q) more fs') = Some bs'
              \<and> hexdigest sha bs' = ad_sha256 a)))"
proof (intro conjI allI impI)
  fix e assume "r = Inl e" then show "fs' = fs" using assms admit_Inl by blast
next
  fix a assume "r = Inr a"
  then obtain bs where bs: "stream (q_max_bytes q) [] rs = Inr bs" "fs' = fs(qpath q (hexdigest sha bs) \<mapsto> bs)"
    and a: "a = \<lparr>ad_sha256 = hexdigest sha bs, ad_length = length bs, ad_path = qpath q (hexdigest sha bs)\<rparr>"
    using assms by (auto simp: admit_Inr)
  have lim: "within_limit q bs" using stream_Inr [OF bs(1)] by (auto simp: within_limit_def)
  then have "fs' = admit_bytes sha q bs fs" by (simp add: admit_bytes_eq bs(2))
  then have "\<exists>bs'. promoted_bytes sha q (ad_sha256 a) (fold (admit_bytes sha q) more fs') = Some bs'
      \<and> hexdigest sha bs' = ad_sha256 a" for more
    using quarantine_store.later_bytes [OF lim] by (simp add: a)
  with a bs(2) lim show "\<exists>bs. fs' (ad_path a) = Some bs \<and> ad_sha256 a = hexdigest sha bs
         \<and> ad_length a = length bs \<and> within_limit q bs \<and> contains q (ad_sha256 a) fs'
         \<and> (\<forall>more. \<exists>bs'. promoted_bytes sha q (ad_sha256 a) (fold (admit_bytes sha q) more fs') = Some bs'
              \<and> hexdigest sha bs' = ad_sha256 a)"
    by (intro exI [of _ bs]) (simp add: contains_def)
qed

definition ex_quarantine :: quarantine where
  "ex_quarantine = \<lparr>q_root = ''/q'', q_max_bytes = 5\<rparr>"

theorem admitted_by_content_witness:
  "\<exists>bs'. promoted_bytes id ex_quarantine ''6162'' (admit_bytes id ex_quarantine ''zz''
      (snd (admit id ex_quarantine [Chunk ''a'', Chunk ''b''] Map.empty))) = Some bs' \<and> hexdigest id bs' = ''6162''"
proof -
  let ?a = "\<lparr>ad_sha256 = ''6162'', ad_length = 2, ad_path = ''/q/6162.bin''\<rparr>"
  have "stream (q_max_bytes ex_quarantine) [] [Chunk ''a'', Chunk ''b''] = Inr ''ab''"
    "hexdigest id ''ab'' = ''6162''" "qpath ex_quarantine ''6162'' = ''/q/6162.bin''"
    by code_simp+
  then obtain fs' where a: "admit id ex_quarantine [Chunk ''a'', Chunk ''b''] Map.empty = (Inr ?a, fs')"
    by (auto simp: admit_Inr)
  from admitted_by_content [OF a] have "\<forall>more. \<exists>bs'. promoted_bytes id ex_quarantine ''6162''
      (fold (admit_bytes id ex_quarantine) more fs') = Some bs' \<and> hexdigest id bs' = ''6162''" by auto
  from spec [OF this, of "[''zz'']"] a show ?thesis by simp
qed

text \<open>An artifact leaves the quarantine only as bytes that hash to the digest asked for: a staged file
  that was changed, or that is not there, is refused and nothing is written.\<close>

theorem promote_rehashes:
  assumes "promote sha q sha256 destination fs = (r, fs')"
  shows "(\<forall>p. r = Inr p \<longrightarrow> p = destination \<and>
       (\<exists>bs. fs (qpath q sha256) = Some bs \<and> hexdigest sha bs = sha256 \<and> fs' = fs(destination \<mapsto> bs)))
    \<and> (\<forall>e. r = Inl e \<longrightarrow> fs' = fs \<and>
       (\<forall>bs. fs (qpath q sha256) = Some bs \<longrightarrow> hexdigest sha bs \<noteq> sha256))"
  using assms by (auto simp: promote_def split: option.splits if_splits)

theorem promote_rehashes_witness:
  "\<exists>e. promote id ex_quarantine ''6162'' ''/out'' [qpath ex_quarantine ''6162'' \<mapsto> ''ax''] = (Inl e, [qpath ex_quarantine ''6162'' \<mapsto> ''ax''])"
proof (cases "promote id ex_quarantine ''6162'' ''/out'' [qpath ex_quarantine ''6162'' \<mapsto> ''ax'']")
  case (Pair r fs')
  have "hexdigest id ''ax'' \<noteq> ''6162''" by code_simp
  with promote_rehashes [OF Pair] Pair show ?thesis by (cases r) auto
qed

end
