(* ===== verification/Naming.thy ===== *)
theory Naming
  imports Json
begin

text \<open>
  \<^verbatim>\<open>packages/dist-core/src/dist_core/naming.py\<close>: target paths, delegation patterns, the
  channel pointer, the signed release information and staged rollout.  The dataclass
  constructors are functions into \<^typ>\<open>'a res\<close> that run the \<open>__post_init__\<close> checks in the
  source's order.  \<open>hashlib.sha256\<close> is an argument (\<open>sha\<close>): no property depends on its values.
\<close>

section \<open>Segments\<close>

definition CHANNELS :: "string list" where
  "CHANNELS = [''stable'', ''beta'', ''canary'']"

definition segment_char :: "char \<Rightarrow> bool" where
  "segment_char c \<longleftrightarrow> is_alnum c \<or> c = CHR ''.'' \<or> c = CHR ''_'' \<or> c = CHR ''-''"

text \<open>\<^verbatim>\<open>[A-Za-z0-9][A-Za-z0-9._-]*\<close>, and \<open>_SEGMENT.match\<close> with its anchors.\<close>

fun segment_body :: "string \<Rightarrow> bool" where
  "segment_body [] = False"
| "segment_body (c # cs) = (is_alnum c \<and> list_all segment_char cs)"

definition SEGMENT :: "string \<Rightarrow> bool" where
  "SEGMENT = match_dollar segment_body"

definition check_segment :: "string \<Rightarrow> string \<Rightarrow> string res" where
  "check_segment name value =
     (if \<not> SEGMENT value then Inl (ValueError (''invalid '' @ name)) else Inr value)"

lemma check_segment_Inr_iff [simp]: "check_segment name v = Inr w \<longleftrightarrow> SEGMENT v \<and> w = v"
  by (auto simp: check_segment_def)

lemma segment_body_chars: "segment_body s \<Longrightarrow> c \<in> set s \<Longrightarrow> segment_char c"
  by (cases s) (auto simp: list_all_iff segment_char_def)

lemma SEGMENT_chars: "SEGMENT s \<Longrightarrow> c \<in> set s \<Longrightarrow> segment_char c \<or> c = newline"
  unfolding SEGMENT_def by (erule match_dollarE) (auto dest: segment_body_chars)

lemma SEGMENT_no_slash [simp]: "SEGMENT s \<Longrightarrow> CHR ''/'' \<notin> set s"
  using SEGMENT_chars [of s "CHR ''/''"]
  by (auto simp: segment_char_def newline_def dest: is_alnum_not_sep)

lemma SEGMENT_hd: "SEGMENT s \<Longrightarrow> s \<noteq> [] \<and> is_alnum (hd s)"
  unfolding SEGMENT_def
proof (erule match_dollarE)
  assume "segment_body s" then show ?thesis by (cases s) auto
next
  fix t assume "s = t @ [newline]" "segment_body t" then show ?thesis by (cases t) auto
qed

section \<open>Target keys\<close>

record target_key =
  tk_app_id :: string
  tk_channel :: string
  tk_platform :: string
  tk_arch :: string
  tk_version :: string
  tk_filename :: string

definition TargetKey ::
  "string \<Rightarrow> string \<Rightarrow> string \<Rightarrow> string \<Rightarrow> string \<Rightarrow> string \<Rightarrow> target_key res" where
  "TargetKey app_id channel platform arch version filename =
     (if channel \<notin> set CHANNELS then Inl (ValueError ''unknown channel'')
      else bindr (check_segment ''app_id'' app_id) (\<lambda>_.
           bindr (check_segment ''platform'' platform) (\<lambda>_.
           bindr (check_segment ''arch'' arch) (\<lambda>_.
           bindr (check_segment ''version'' version) (\<lambda>_.
           bindr (check_segment ''filename'' filename) (\<lambda>_.
           Inr \<lparr>tk_app_id = app_id, tk_channel = channel, tk_platform = platform,
                tk_arch = arch, tk_version = version, tk_filename = filename\<rparr>))))))"

definition path :: "target_key \<Rightarrow> string" where
  "path k = tk_app_id k @ ''/'' @ tk_channel k @ ''/'' @ tk_platform k @ ''-'' @ tk_arch k @ ''/''
     @ tk_version k @ ''/'' @ tk_filename k"

definition TARGET_PATH_SEGMENTS :: nat where "TARGET_PATH_SEGMENTS = 5"

definition app_path_pattern :: "string \<Rightarrow> string" where
  "app_path_pattern app_id = join ''/'' (app_id # replicate (TARGET_PATH_SEGMENTS - 1) ''*'')"

section \<open>Channel keys and the pointer\<close>

definition POINTER_VERSION :: string where "POINTER_VERSION = ''_current''"
definition POINTER_FILE :: string where "POINTER_FILE = ''release.json''"

record channel_key =
  ck_app_id :: string
  ck_channel :: string
  ck_platform :: string
  ck_arch :: string

definition ChannelKey :: "string \<Rightarrow> string \<Rightarrow> string \<Rightarrow> string \<Rightarrow> channel_key res" where
  "ChannelKey app_id channel platform arch =
     (if channel \<notin> set CHANNELS then Inl (ValueError ''unknown channel'')
      else bindr (check_segment ''app_id'' app_id) (\<lambda>_.
           bindr (check_segment ''platform'' platform) (\<lambda>_.
           bindr (check_segment ''arch'' arch) (\<lambda>_.
           Inr \<lparr>ck_app_id = app_id, ck_channel = channel, ck_platform = platform,
                ck_arch = arch\<rparr>))))"

definition channel_prefix :: "channel_key \<Rightarrow> string" where
  "channel_prefix c = ck_app_id c @ ''/'' @ ck_channel c @ ''/'' @ ck_platform c @ ''-'' @ ck_arch c @ ''/''"

definition pointer_path :: "channel_key \<Rightarrow> string" where
  "pointer_path c = channel_prefix c @ POINTER_VERSION @ ''/'' @ POINTER_FILE"

definition covers :: "channel_key \<Rightarrow> string \<Rightarrow> bool" where
  "covers c target_path \<longleftrightarrow> prefix (channel_prefix c) target_path"

section \<open>The pointer document\<close>

record current_release =
  cr_target_path :: string
  cr_version :: string

definition CurrentRelease :: "string \<Rightarrow> string \<Rightarrow> current_release res" where
  "CurrentRelease target_path version =
     bindr (check_segment ''version'' version) (\<lambda>_.
       if target_path = [] \<or> CHR 0x5C \<in> set target_path
       then Inl (ValueError ''invalid target_path'')
       else Inr \<lparr>cr_target_path = target_path, cr_version = version\<rparr>)"

definition to_json :: "current_release \<Rightarrow> string" where
  "to_json r = utf8_encode (dumps_str_dict
     [(''target_path'', cr_target_path r), (''version'', cr_version r)])"

definition from_json :: "string \<Rightarrow> current_release res" where
  "from_json raw =
     (case loads_bytes raw of
        Inl _ \<Rightarrow> Inl (ValueError ''channel pointer is not JSON'')
      | Inr body \<Rightarrow>
          (case as_dict body of
             None \<Rightarrow> Inl (ValueError ''channel pointer is not an object'')
           | Some d \<Rightarrow>
               (case (as_str (get d ''target_path''), as_str (get d ''version'')) of
                  (Some tp, Some v) \<Rightarrow> CurrentRelease tp v
                | _ \<Rightarrow> Inl (ValueError ''channel pointer must carry target_path and version strings''))))"

section \<open>Signed release information\<close>

text \<open>
  The three optional fields hold whatever decoded value \<open>from_custom\<close> found, \<open>JNull\<close> for
  \<open>None\<close>: the constructor does not check them.
\<close>

record release_info =
  ri_version :: string
  ri_notes_url :: json
  ri_min_os :: json
  ri_min_from_version :: json
  ri_mandatory :: bool
  ri_rollout_pct :: int

definition ReleaseInfo ::
  "string \<Rightarrow> json \<Rightarrow> json \<Rightarrow> json \<Rightarrow> bool \<Rightarrow> int \<Rightarrow> release_info res" where
  "ReleaseInfo version notes_url min_os min_from_version mandatory rollout_pct =
     bindr (check_segment ''version'' version) (\<lambda>_.
       if \<not> (0 \<le> rollout_pct \<and> rollout_pct \<le> 100)
       then Inl (ValueError ''rollout_pct must be 0..100'')
       else Inr \<lparr>ri_version = version, ri_notes_url = notes_url, ri_min_os = min_os,
                 ri_min_from_version = min_from_version, ri_mandatory = mandatory,
                 ri_rollout_pct = rollout_pct\<rparr>)"

definition optional :: "string \<Rightarrow> json \<Rightarrow> dict" where
  "optional key value = (if value \<noteq> JNull then [(key, value)] else [])"

definition to_custom :: "release_info \<Rightarrow> dict" where
  "to_custom r =
     [(''version'', JStr (ri_version r)), (''mandatory'', JBool (ri_mandatory r)),
      (''rollout_pct'', JInt (ri_rollout_pct r))]
     @ optional ''notes_url'' (ri_notes_url r) @ optional ''min_os'' (ri_min_os r)
     @ optional ''min_from_version'' (ri_min_from_version r)"

definition from_custom :: "dict \<Rightarrow> release_info res" where
  "from_custom custom =
     (case map_of custom ''version'' of
        None \<Rightarrow> Inl (KeyError ''version'')
      | Some version \<Rightarrow>
          bindr (py_int (get_default custom ''rollout_pct'' (JInt 100))) (\<lambda>pct.
            case as_str version of
              None \<Rightarrow> Inl (TypeError ''expected string or bytes-like object'')
            | Some v \<Rightarrow> ReleaseInfo v (get custom ''notes_url'') (get custom ''min_os'')
                (get custom ''min_from_version'')
                (truthy (get_default custom ''mandatory'' (JBool False))) pct))"

section \<open>Staged rollout\<close>

definition be_int :: "string \<Rightarrow> nat" where
  "be_int bs = foldl (\<lambda>a b. a * 256 + code b) 0 bs"

definition rollout_bucket :: "(string \<Rightarrow> string) \<Rightarrow> string \<Rightarrow> string \<Rightarrow> nat" where
  "rollout_bucket sha install_id app_id =
     be_int (take 4 (sha (utf8_encode (install_id @ '':'' @ app_id)))) mod 100"

definition in_rollout :: "(string \<Rightarrow> string) \<Rightarrow> string \<Rightarrow> string \<Rightarrow> int \<Rightarrow> bool res" where
  "in_rollout sha install_id app_id rollout_pct =
     (if \<not> (0 \<le> rollout_pct \<and> rollout_pct \<le> 100)
      then Inl (ValueError ''rollout_pct must be 0..100'')
      else if rollout_pct = 0 then Inr False
      else if rollout_pct = 100 then Inr True
      else Inr (int (rollout_bucket sha install_id app_id) < rollout_pct))"

section \<open>Facts about paths\<close>

text \<open>A key is well formed when its constructor accepts its fields.\<close>

definition wf_target_key :: "target_key \<Rightarrow> bool" where
  "wf_target_key k \<longleftrightarrow>
     TargetKey (tk_app_id k) (tk_channel k) (tk_platform k) (tk_arch k) (tk_version k) (tk_filename k) = Inr k"

definition wf_channel_key :: "channel_key \<Rightarrow> bool" where
  "wf_channel_key c \<longleftrightarrow> ChannelKey (ck_app_id c) (ck_channel c) (ck_platform c) (ck_arch c) = Inr c"

lemma TargetKey_Inr_iff:
  "TargetKey a ch p r v f = Inr k \<longleftrightarrow>
     ch \<in> set CHANNELS \<and> SEGMENT a \<and> SEGMENT p \<and> SEGMENT r \<and> SEGMENT v \<and> SEGMENT f
     \<and> k = \<lparr>tk_app_id = a, tk_channel = ch, tk_platform = p, tk_arch = r, tk_version = v, tk_filename = f\<rparr>"
  by (auto simp: TargetKey_def bindr_eq_Inr_iff)

lemma ChannelKey_Inr_iff:
  "ChannelKey a ch p r = Inr c \<longleftrightarrow>
     ch \<in> set CHANNELS \<and> SEGMENT a \<and> SEGMENT p \<and> SEGMENT r
     \<and> c = \<lparr>ck_app_id = a, ck_channel = ch, ck_platform = p, ck_arch = r\<rparr>"
  by (auto simp: ChannelKey_def bindr_eq_Inr_iff)

lemma wf_target_key_iff:
  "wf_target_key k \<longleftrightarrow> tk_channel k \<in> set CHANNELS \<and> SEGMENT (tk_app_id k) \<and> SEGMENT (tk_platform k)
     \<and> SEGMENT (tk_arch k) \<and> SEGMENT (tk_version k) \<and> SEGMENT (tk_filename k)"
  by (simp add: wf_target_key_def TargetKey_Inr_iff)

lemma wf_channel_key_iff:
  "wf_channel_key c \<longleftrightarrow> ck_channel c \<in> set CHANNELS \<and> SEGMENT (ck_app_id c) \<and> SEGMENT (ck_platform c)
     \<and> SEGMENT (ck_arch c)"
  by (simp add: wf_channel_key_def ChannelKey_Inr_iff)

lemma wf_TargetKey: "TargetKey a ch p r v f = Inr k \<Longrightarrow> wf_target_key k"
  by (auto simp: TargetKey_Inr_iff wf_target_key_iff)

lemma channel_no_slash: "ch \<in> set CHANNELS \<Longrightarrow> CHR ''/'' \<notin> set ch"
  by (auto simp: CHANNELS_def)

definition path_segments :: "target_key \<Rightarrow> string list" where
  "path_segments k =
     [tk_app_id k, tk_channel k, tk_platform k @ ''-'' @ tk_arch k, tk_version k, tk_filename k]"

definition channel_segments :: "channel_key \<Rightarrow> string list" where
  "channel_segments c = [ck_app_id c, ck_channel c, ck_platform c @ ''-'' @ ck_arch c]"

lemma path_join: "path k = join ''/'' (path_segments k)"
  by (simp add: path_def path_segments_def)

lemma channel_prefix_join: "channel_prefix c = join ''/'' (channel_segments c) @ ''/''"
  by (simp add: channel_prefix_def channel_segments_def)

lemma pointer_path_join:
  "pointer_path c = join ''/'' (channel_segments c @ [POINTER_VERSION, POINTER_FILE])"
  by (simp add: pointer_path_def channel_prefix_def channel_segments_def)

lemma split_path [simp]: "wf_target_key k \<Longrightarrow> split_on (CHR ''/'') (path k) = path_segments k"
  unfolding path_join
  by (rule split_on_join)
    (auto simp: wf_target_key_iff path_segments_def dest!: channel_no_slash SEGMENT_no_slash)

lemma split_pointer_path [simp]:
  "wf_channel_key c \<Longrightarrow>
   split_on (CHR ''/'') (pointer_path c) = channel_segments c @ [POINTER_VERSION, POINTER_FILE]"
  unfolding pointer_path_join
  by (rule split_on_join)
    (auto simp: wf_channel_key_iff channel_segments_def POINTER_VERSION_def POINTER_FILE_def
      dest!: channel_no_slash SEGMENT_no_slash)

text \<open>A prefix of whole segments is a prefix of the list of segments.\<close>

lemma split_on_append_sep:
  "split_on c (a @ c # b) = split_on c a @ split_on c b"
proof (induction a)
  case (Cons x xs)
  obtain y ys where "split_on c xs = y # ys" by (cases "split_on c xs") auto
  with Cons show ?case by auto
qed simp

lemma prefix_segments:
  assumes "prefix (a @ [c]) s"
  shows "prefix (split_on c a) (split_on c s)"
  using assms by (auto simp: prefix_def split_on_append_sep)

lemma prefix_of_segments:
  assumes "split_on c s = split_on c a @ xs" "xs \<noteq> []"
  shows "prefix (a @ [c]) s"
proof -
  have "split_on c (a @ c # join [c] xs) = split_on c a @ split_on c (join [c] xs)"
    by (rule split_on_append_sep)
  moreover have "split_on c (join [c] xs) = xs"
  proof (rule split_on_join)
    show "\<forall>x \<in> set xs. c \<notin> set x"
      using split_on_parts [of _ c s] by (simp add: assms(1))
  qed (rule assms(2))
  ultimately have "s = a @ c # join [c] xs"
    using assms(1) by (metis join_split_on)
  then show ?thesis by (simp add: prefix_def)
qed

lemma split_channel_join:
  "wf_channel_key c \<Longrightarrow> split_on (CHR ''/'') (join ''/'' (channel_segments c)) = channel_segments c"
  by (rule split_on_join)
    (auto simp: wf_channel_key_iff channel_segments_def dest!: channel_no_slash SEGMENT_no_slash)

lemma covers_segments:
  assumes "wf_channel_key c"
  shows "covers c t \<longleftrightarrow> (\<exists>xs. xs \<noteq> [] \<and> split_on (CHR ''/'') t = channel_segments c @ xs)"
proof
  assume "covers c t"
  then obtain b where "t = join ''/'' (channel_segments c) @ CHR ''/'' # b"
    by (auto simp: covers_def channel_prefix_join prefix_def)
  then have "split_on (CHR ''/'') t = channel_segments c @ split_on (CHR ''/'') b"
    by (simp add: split_on_append_sep split_channel_join [OF assms])
  then show "\<exists>xs. xs \<noteq> [] \<and> split_on (CHR ''/'') t = channel_segments c @ xs"
    using split_on_ne by blast
next
  assume "\<exists>xs. xs \<noteq> [] \<and> split_on (CHR ''/'') t = channel_segments c @ xs"
  then show "covers c t"
    using prefix_of_segments [of "CHR ''/''" t "join ''/'' (channel_segments c)"]
    by (auto simp: split_channel_join [OF assms] covers_def channel_prefix_join)
qed

lemma SEGMENT_not_pointer: "SEGMENT v \<Longrightarrow> v \<noteq> POINTER_VERSION"
  using SEGMENT_hd [of v] by (auto simp: POINTER_VERSION_def char_class_defs)

lemma path_not_pointer:
  assumes "wf_target_key k" "wf_channel_key c"
  shows "path k \<noteq> pointer_path c"
proof
  assume "path k = pointer_path c"
  with assms have "path_segments k = channel_segments c @ [POINTER_VERSION, POINTER_FILE]"
    by (metis split_path split_pointer_path)
  then have "tk_version k = POINTER_VERSION"
    by (simp add: path_segments_def channel_segments_def)
  with assms(1) show False by (auto simp: wf_target_key_iff dest: SEGMENT_not_pointer)
qed

lemma own_channel:
  assumes "ChannelKey (tk_app_id k) (tk_channel k) (tk_platform k) (tk_arch k) = Inr c"
  shows "wf_channel_key c \<and> covers c (path k)"
  using assms by (auto simp: wf_channel_key_def ChannelKey_Inr_iff covers_def channel_prefix_def path_def)

text \<open>The pointer document as text scans back to its two fields.\<close>

lemma from_to_json:
  assumes "CurrentRelease tp v = Inr r"
  shows "from_json (to_json r) = Inr r"
proof -
  have r: "r = \<lparr>cr_target_path = tp, cr_version = v\<rparr>"
    using assms by (auto simp: CurrentRelease_def bindr_eq_Inr_iff)
  define doc where "doc = dumps_str_dict [(''target_path'', tp), (''version'', v)]"
  have kvs: "scan_members n (join '','' (map (\<lambda>(k, v). dumps_str k @ CHR '':'' # dumps_str v)
      [(''target_path'', tp), (''version'', v)]) @ ''}'') =
      Some ([(''target_path'', JStr tp), (''version'', JStr v)], [])" if "2 < n" for n
    using scan_members_dumps [of "[(''target_path'', tp), (''version'', v)]" n "[]"] that by simp
  have "3 \<le> length doc" by (simp add: doc_def dumps_str_dict_def dumps_str_def)
  then obtain n where n: "length doc = Suc n" "2 \<le> n" by (cases "length doc") auto
  have "scan_value (length doc + 1) doc = Some (JObj [(''target_path'', JStr tp), (''version'', JStr v)], [])"
    using kvs [of "Suc n"] n
    by (simp add: doc_def dumps_str_dict_def dict_of_def dumps_str_Cons del: scan_members.simps)
  moreover have "skip_ws doc = doc" by (simp add: doc_def dumps_str_dict_def)
  ultimately have "loads doc = Some (JObj [(''target_path'', JStr tp), (''version'', JStr v)])"
    by (simp add: loads_def)
  then show ?thesis
    using assms by (simp add: from_json_def to_json_def loads_bytes_def r doc_def [symmetric])
qed

section \<open>Properties\<close>

text \<open>Two well-formed keys render the same path exactly when application, channel, version
  and file name agree and the joined platform-architecture segments are equal.\<close>

theorem path_eq_iff:
  assumes "wf_target_key k" "wf_target_key k'"
  shows "path k = path k' \<longleftrightarrow>
    tk_app_id k = tk_app_id k' \<and> tk_channel k = tk_channel k'
    \<and> tk_platform k @ ''-'' @ tk_arch k = tk_platform k' @ ''-'' @ tk_arch k'
    \<and> tk_version k = tk_version k' \<and> tk_filename k = tk_filename k'"
proof -
  have "path k = path k' \<longleftrightarrow> path_segments k = path_segments k'"
    using assms by (metis split_path path_join)
  then show ?thesis by (auto simp: path_segments_def)
qed

definition ex_key :: target_key where
  "ex_key = \<lparr>tk_app_id = ''editor'', tk_channel = ''stable'', tk_platform = ''windows'',
     tk_arch = ''amd64'', tk_version = ''1.4.2'', tk_filename = ''Editor.zip''\<rparr>"

theorem path_eq_iff_witness:
  "(path ex_key = path (ex_key\<lparr>tk_version := ''1.4.3''\<rparr>)) = False"
proof -
  have "wf_target_key ex_key" "wf_target_key (ex_key\<lparr>tk_version := ''1.4.3''\<rparr>)" by code_simp+
  from path_eq_iff [OF this] show ?thesis by (simp add: ex_key_def)
qed

text \<open>The dash that joins platform and architecture may also occur inside either, so two
  different well-formed keys can name the same path.\<close>

theorem path_not_injective:
  "\<exists>k k'. wf_target_key k \<and> wf_target_key k' \<and> k \<noteq> k' \<and> path k = path k'"
proof (intro exI conjI)
  show "wf_target_key (ex_key\<lparr>tk_platform := ''linux-musl'', tk_arch := ''x64''\<rparr>)"
    and "wf_target_key (ex_key\<lparr>tk_platform := ''linux'', tk_arch := ''musl-x64''\<rparr>)"
    by code_simp+
qed (simp_all add: ex_key_def path_def)

text \<open>The delegation pattern has as many segments as every path it is meant to cover, starts
  with the application id and is a wildcard in every other segment, for released targets and
  for the channel pointer alike.\<close>

theorem app_path_pattern_covers:
  assumes "wf_target_key k" "wf_channel_key c" "ck_app_id c = tk_app_id k"
  shows "split_on (CHR ''/'') (app_path_pattern (tk_app_id k)) = tk_app_id k # replicate 4 ''*''
    \<and> length (split_on (CHR ''/'') (path k)) = TARGET_PATH_SEGMENTS
    \<and> hd (split_on (CHR ''/'') (path k)) = tk_app_id k
    \<and> length (split_on (CHR ''/'') (pointer_path c)) = TARGET_PATH_SEGMENTS
    \<and> hd (split_on (CHR ''/'') (pointer_path c)) = tk_app_id k"
proof -
  have "split_on (CHR ''/'') (app_path_pattern (tk_app_id k)) = tk_app_id k # replicate 4 ''*''"
    unfolding app_path_pattern_def TARGET_PATH_SEGMENTS_def
    using assms by (subst split_on_join) (auto simp: wf_target_key_iff)
  with assms show ?thesis
    by (simp add: path_segments_def channel_segments_def TARGET_PATH_SEGMENTS_def)
qed

definition ex_channel :: channel_key where
  "ex_channel = \<lparr>ck_app_id = ''editor'', ck_channel = ''stable'', ck_platform = ''windows'',
     ck_arch = ''amd64''\<rparr>"

theorem app_path_pattern_covers_witness:
  "split_on (CHR ''/'') (app_path_pattern (tk_app_id ex_key)) = tk_app_id ex_key # replicate 4 ''*''"
proof -
  have "wf_target_key ex_key" "wf_channel_key ex_channel" "ck_app_id ex_channel = tk_app_id ex_key"
    by code_simp+
  from app_path_pattern_covers [OF this] show ?thesis by blast
qed

text \<open>A release can never shadow a channel pointer, nor a pointer a release: no well-formed
  target key renders the pointer path of any channel.\<close>

theorem pointer_never_shadowed:
  assumes "wf_target_key k" "wf_channel_key c"
  shows "path k \<noteq> pointer_path c"
  using assms by (rule path_not_pointer)

theorem pointer_never_shadowed_witness: "path ex_key \<noteq> pointer_path ex_channel"
  by (rule pointer_never_shadowed) code_simp+

text \<open>A channel covers a released path exactly when the path's application, channel and joined
  platform-architecture segment are the channel's own, so the check on the pointer's content
  keeps a client inside its own application and channel.\<close>

theorem covers_iff:
  assumes "wf_channel_key c" "wf_target_key k"
  shows "covers c (path k) \<longleftrightarrow> ck_app_id c = tk_app_id k \<and> ck_channel c = tk_channel k
    \<and> ck_platform c @ ''-'' @ ck_arch c = tk_platform k @ ''-'' @ tk_arch k"
  using assms by (auto simp: covers_segments channel_segments_def path_segments_def)

theorem covers_iff_witness:
  "covers ex_channel (path ex_key) \<and> \<not> covers ex_channel (path (ex_key\<lparr>tk_app_id := ''editor2''\<rparr>))"
proof -
  have c: "wf_channel_key ex_channel" by code_simp
  have "wf_target_key ex_key" "wf_target_key (ex_key\<lparr>tk_app_id := ''editor2''\<rparr>)" by code_simp+
  from covers_iff [OF c this(1)] covers_iff [OF c this(2)]
  show ?thesis by (simp add: ex_channel_def ex_key_def)
qed

text \<open>Reading back the pointer document a publisher wrote gives the same pointer, for every
  pointer the constructor accepts, whatever characters its path holds.\<close>

theorem pointer_roundtrip:
  "CurrentRelease tp v = Inr r \<Longrightarrow> from_json (to_json r) = Inr r"
  by (rule from_to_json)

theorem pointer_roundtrip_witness:
  "from_json (to_json \<lparr>cr_target_path = path ex_key, cr_version = ''1.4.2''\<rparr>)
     = Inr \<lparr>cr_target_path = path ex_key, cr_version = ''1.4.2''\<rparr>"
proof (rule pointer_roundtrip)
  show "CurrentRelease (path ex_key) ''1.4.2'' = Inr \<lparr>cr_target_path = path ex_key, cr_version = ''1.4.2''\<rparr>"
    by code_simp
qed

text \<open>The release information a publisher signs is what a client reads back from the target's
  custom field.\<close>

theorem custom_roundtrip:
  assumes "ReleaseInfo v nu mo mf m pct = Inr r"
  shows "from_custom (to_custom r) = Inr r"
proof -
  have r: "r = \<lparr>ri_version = v, ri_notes_url = nu, ri_min_os = mo, ri_min_from_version = mf,
      ri_mandatory = m, ri_rollout_pct = pct\<rparr>"
    using assms by (auto simp: ReleaseInfo_def bindr_eq_Inr_iff)
  have "get (to_custom r) ''notes_url'' = nu \<and> get (to_custom r) ''min_os'' = mo
    \<and> get (to_custom r) ''min_from_version'' = mf"
    by (auto simp: r to_custom_def optional_def get_def)
  with assms show ?thesis
    by (simp add: from_custom_def) (simp add: r to_custom_def get_default_def)
qed

theorem custom_roundtrip_witness:
  "from_custom (to_custom \<lparr>ri_version = ''1.4.2'', ri_notes_url = JNull, ri_min_os = JStr ''10'',
      ri_min_from_version = JNull, ri_mandatory = True, ri_rollout_pct = 25\<rparr>)
   = Inr \<lparr>ri_version = ''1.4.2'', ri_notes_url = JNull, ri_min_os = JStr ''10'',
      ri_min_from_version = JNull, ri_mandatory = True, ri_rollout_pct = 25\<rparr>"
proof (rule custom_roundtrip)
  show "ReleaseInfo ''1.4.2'' JNull (JStr ''10'') JNull True 25 =
    Inr \<lparr>ri_version = ''1.4.2'', ri_notes_url = JNull, ri_min_os = JStr ''10'',
      ri_min_from_version = JNull, ri_mandatory = True, ri_rollout_pct = 25\<rparr>"
    by code_simp
qed

text \<open>Widening a rollout never takes it away: an install inside the rollout at one percentage is
  inside it at every larger one, 0 admits nobody and 100 everybody, whatever the digest is.\<close>

theorem in_rollout_monotone:
  assumes "in_rollout sha i a p = Inr True" "p \<le> q" "q \<le> 100"
  shows "in_rollout sha i a q = Inr True \<and> in_rollout sha i a 0 = Inr False
    \<and> in_rollout sha i a 100 = Inr True"
proof -
  have "int (rollout_bucket sha i a) < 100" by (simp add: rollout_bucket_def)
  with assms show ?thesis by (auto simp: in_rollout_def split: if_splits)
qed

theorem in_rollout_monotone_witness:
  "in_rollout (\<lambda>_. ''0000'') ''install-1'' ''editor'' 80 = Inr True"
proof -
  have "in_rollout (\<lambda>_. ''0000'') ''install-1'' ''editor'' 50 = Inr True"
    by (simp add: in_rollout_def rollout_bucket_def be_int_def code_def)
  from in_rollout_monotone [OF this, of 80] show ?thesis by simp
qed

end
