(* ===== verification/Forge.thy ===== *)
theory Forge
  imports Quarantine Naming
begin

text \<open>
  \<^verbatim>\<open>packages/dist-ingest/src/dist_ingest/forge.py\<close>: retrieving candidate releases from GitHub and
  GitLab.

  The forge is hostile, so it is a function of everything asked of it so far: \<open>nt_get\<close> takes the
  requests already made, newest first, and the URL of the next one, and gives the response or the
  exception of \<^verbatim>\<open>httpx\<close>.  The state the functions thread is that list of requests, so a property
  of the list is a property of what the worker ever connects to.  Joining a \<^verbatim>\<open>Location\<close> to a URL
  (\<^verbatim>\<open>httpx\<close>), parsing XML (expat, which raises its
  \<^verbatim>\<open>ParseError\<close> and, for an encoding it does not know, other exceptions), the check of a bracketed IPv6 host and printing a float are
  arguments too.  \<^verbatim>\<open>urllib.parse\<close> is modelled for the parts the code reads.
\<close>

section \<open>Requests and responses\<close>

record response =
  rs_status :: nat
  rs_headers :: "string \<rightharpoonup> string"
  rs_reason :: string
  rs_content :: string
  rs_chunks :: "read list"

record net =
  nt_get :: "string list \<Rightarrow> string \<Rightarrow> response res"
  nt_join :: "string \<Rightarrow> string \<Rightarrow> string res"
  nt_xml :: "string \<Rightarrow> (string option \<times> string option) list res"
  nt_bracketed :: "string \<Rightarrow> bool"
  nt_float :: "rat option \<Rightarrow> string"

type_synonym 'a http = "(string list, 'a) sem"

definition request :: "net \<Rightarrow> string \<Rightarrow> response http" where
  "request N url = (\<lambda>made. (nt_get N made url, url # made))"

definition is_redirect :: "response \<Rightarrow> bool" where
  "is_redirect r \<longleftrightarrow> 300 \<le> rs_status r \<and> rs_status r \<le> 399"

section \<open>URLs\<close>

definition before :: "char \<Rightarrow> string \<Rightarrow> string" where
  "before c s = takeWhile (\<lambda>x. x \<noteq> c) s"

definition after :: "char \<Rightarrow> string \<Rightarrow> string" where
  "after c s = tl (dropWhile (\<lambda>x. x \<noteq> c) s)"

definition scheme_char :: "char \<Rightarrow> bool" where
  "scheme_char c \<longleftrightarrow> is_alnum c \<or> c \<in> {CHR ''+'', CHR ''-'', CHR ''.''}"

text \<open>\<^verbatim>\<open>urlsplit\<close>: scheme and network location.\<close>

definition url_clean :: "string \<Rightarrow> string" where
  "url_clean url = filter (\<lambda>c. code c \<notin> {9, 10, 13}) (dropWhile (\<lambda>c. code c \<le> 32) url)"

definition urlsplit :: "(string \<Rightarrow> bool) \<Rightarrow> string \<Rightarrow> (string \<times> string) res" where
  "urlsplit bracketed url =
     (let u = url_clean url; s = before (CHR '':'') u;
          has_scheme = CHR '':'' \<in> set u \<and> s \<noteq> [] \<and> (is_lower (hd u) \<or> is_upper (hd u)) \<and> list_all scheme_char s;
          scheme = (if has_scheme then lower s else []);
          rest = (if has_scheme then after (CHR '':'') u else u);
          netloc = (if prefix ''//'' rest
            then takeWhile (\<lambda>c. c \<notin> {CHR ''/'', CHR ''?'', CHR ''#''}) (drop 2 rest) else [])
      in if (CHR ''['' \<in> set netloc) \<noteq> (CHR '']'' \<in> set netloc) then Inl (ValueError ''Invalid IPv6 URL'')
         else if CHR ''['' \<in> set netloc \<and> \<not> bracketed netloc then Inl (ValueError ''Invalid IPv6 URL'')
         else Inr (scheme, netloc))"

definition hostname :: "string \<Rightarrow> string option" where
  "hostname netloc =
     (let hostinfo = snd (snd (rpartition (CHR ''@'') netloc));
          h = (if CHR ''['' \<in> set hostinfo then before (CHR '']'') (after (CHR ''['') hostinfo)
               else before (CHR '':'') hostinfo)
      in if h = [] then None
         else Some (if CHR ''%'' \<in> set h then lower (before (CHR ''%'') h) @ ''%'' @ after (CHR ''%'') h else lower h))"

definition host_of :: "net \<Rightarrow> string \<Rightarrow> string res" where
  "host_of N url =
     bindr (urlsplit (nt_bracketed N) url) (\<lambda>(scheme, netloc).
       if scheme \<noteq> ''https'' then Inl (ForgeError ''refusing a non-HTTPS URL'')
       else (case hostname netloc of
           None \<Rightarrow> Inl (ForgeError ''URL has no host'')
         | Some h \<Rightarrow> Inr (lower h)))"

definition require_allowed_host :: "net \<Rightarrow> string set \<Rightarrow> string \<Rightarrow> unit res" where
  "require_allowed_host N allowed_hosts url =
     bindr (host_of N url) (\<lambda>host.
       if host \<notin> allowed_hosts then Inl (ForgeError ''refusing to fetch from a host that is not allowlisted'')
       else Inr ())"

text \<open>\<^verbatim>\<open>quote(s, safe='')\<close>\<close>

definition upper_hex :: "nat \<Rightarrow> char" where
  "upper_hex n = (if n < 10 then char_of (48 + n) else char_of (55 + n))"

definition quote_byte :: "char \<Rightarrow> string" where
  "quote_byte c =
     (if is_alnum c \<or> c \<in> {CHR ''_'', CHR ''.'', CHR ''-'', CHR ''~''} then [c]
      else [CHR ''%'', upper_hex (code c div 16), upper_hex (code c mod 16)])"

definition quote :: "string \<Rightarrow> string" where
  "quote s = concat (map quote_byte (utf8_encode s))"

section \<open>Releases\<close>

definition MAX_API_RESPONSE_BYTES :: nat where "MAX_API_RESPONSE_BYTES = 4 * 1024 * 1024"
definition DEFAULT_MAX_ASSET_BYTES :: int where "DEFAULT_MAX_ASSET_BYTES = 2 * 1024 * 1024 * 1024"
definition MAX_REDIRECTS :: nat where "MAX_REDIRECTS = 5"
definition MAX_FEED_BYTES :: nat where "MAX_FEED_BYTES = 512 * 1024"
definition MAX_ERROR_DETAIL :: nat where "MAX_ERROR_DETAIL = 200"

definition GITHUB_DOWNLOAD_HOSTS :: "string set" where
  "GITHUB_DOWNLOAD_HOSTS = {''api.github.com'', ''github.com'', ''objects.githubusercontent.com'',
     ''release-assets.githubusercontent.com''}"

record forge_asset =
  fa_name :: string
  fa_size :: int
  fa_download_url :: string
  fa_declared_sha256 :: "string option"

record forge_release =
  fr_tag :: string
  fr_version :: string
  fr_assets :: "forge_asset list"

definition VERSION_PLACEHOLDER :: string where "VERSION_PLACEHOLDER = ''{version}''"

definition resolve_asset_name :: "forge_release \<Rightarrow> string \<Rightarrow> string" where
  "resolve_asset_name r name = replace_all VERSION_PLACEHOLDER (fr_version r) name"

definition asset :: "forge_release \<Rightarrow> string \<Rightarrow> forge_asset option" where
  "asset r name = find (\<lambda>a. fa_name a = resolve_asset_name r name) (fr_assets r)"

text \<open>\<open>_VERSION\<close>: numbers joined by dots, then optionally a dash or plus and a suffix.\<close>

definition version_sep :: "char \<Rightarrow> bool" where
  "version_sep c \<longleftrightarrow> c = CHR ''-'' \<or> c = CHR ''+''"

definition VERSION :: "string \<Rightarrow> bool" where
  "VERSION v \<longleftrightarrow>
     list_all (\<lambda>p. p \<noteq> [] \<and> list_all is_dec p) (split_on (CHR ''.'') (takeWhile (\<lambda>c. \<not> version_sep c) v))
     \<and> (case dropWhile (\<lambda>c. \<not> version_sep c) v of
          [] \<Rightarrow> True
        | _ # t \<Rightarrow> t \<noteq> [] \<and> list_all (\<lambda>c. is_alnum c \<or> c = CHR ''.'') t)"

definition version_from_tag :: "string \<Rightarrow> string \<Rightarrow> string res" where
  "version_from_tag tag pre =
     (let version = (if pre \<noteq> [] \<and> prefix pre tag then drop (length pre) tag else tag) in
      if \<not> VERSION version then Inl (ForgeError ''tag does not yield a usable version'') else Inr version)"

section \<open>The feed\<close>

text \<open>\<open>_FEED_ENTRY_ID.search\<close>: the leftmost \<^verbatim>\<open>Repository/digits/tag\<close> that runs to the end of the
  string without a newline.\<close>

definition feed_id_here :: "string \<Rightarrow> (string \<times> string) option" where
  "feed_id_here s =
     (if \<not> prefix ''Repository/'' s then None
      else (let t = drop (length ''Repository/'') s; rid = takeWhile is_dec t in
        case dropWhile is_dec t of
          [] \<Rightarrow> None
        | c # tag \<Rightarrow>
            if rid \<noteq> [] \<and> c = CHR ''/'' \<and> tag \<noteq> [] \<and> newline \<notin> set tag then Some (rid, tag) else None))"

fun feed_entry_id :: "string \<Rightarrow> (string \<times> string) option" where
  "feed_entry_id [] = None"
| "feed_entry_id (c # cs) = (case feed_id_here (c # cs) of Some m \<Rightarrow> Some m | None \<Rightarrow> feed_entry_id cs)"

text \<open>The loop over the entries; an absent title or tag goes on to the next entry.\<close>

fun feed_tag :: "string option \<Rightarrow> (string option \<times> string option) list \<Rightarrow> string option res" where
  "feed_tag expected [] = Inr None"
| "feed_tag expected ((title, entry_id) # entries) =
     (case feed_entry_id (case entry_id of None \<Rightarrow> [] | Some i \<Rightarrow> i) of
        Some (rid, tag) \<Rightarrow>
          if expected \<noteq> None \<and> the expected \<noteq> [] \<and> rid \<noteq> the expected
          then Inl (ForgeError ''release feed describes another repository'')
          else Inr (Some tag)
      | None \<Rightarrow> (case title of
            Some (c # cs) \<Rightarrow> Inr (Some (c # cs))
          | _ \<Rightarrow> feed_tag expected entries))"

definition newest_feed_tag :: "net \<Rightarrow> string \<Rightarrow> string option \<Rightarrow> string option res" where
  "newest_feed_tag N content expected =
     (if MAX_FEED_BYTES < length content then Inl (ForgeError ''release feed is over the limit'')
      else if sublist ''<!DOCTYPE'' content \<or> sublist ''<!ENTITY'' content
      then Inl (ForgeError ''release feed declares a DTD; refusing to parse it'')
      else (case nt_xml N content of
          Inl ParseError \<Rightarrow> Inl (ForgeError ''release feed is not parseable XML'')
        | Inl e \<Rightarrow> Inl e
        | Inr entries \<Rightarrow> feed_tag expected entries))"

section \<open>Errors and JSON\<close>

text \<open>\<open>_why\<close>; the two headers are read under their lower-case names.\<close>

definition rate_limit_note :: "response \<Rightarrow> string list" where
  "rate_limit_note r =
     (if rs_headers r ''x-ratelimit-remaining'' = Some ''0''
      then (case rs_headers r ''x-ratelimit-reset'' of
          None \<Rightarrow> [''rate limited'']
        | Some reset \<Rightarrow> if reset = [] then [''rate limited'']
                        else [''rate limit exhausted, resets at epoch '' @ reset])
      else [])"

definition error_detail :: "response \<Rightarrow> string" where
  "error_detail r =
     (let detail = (case loads_bytes (rs_content r) of
            Inl e \<Rightarrow> rs_reason r
          | Inr v \<Rightarrow> (case as_dict v of None \<Rightarrow> []
              | Some body \<Rightarrow> (case as_str (get body ''message'') of None \<Rightarrow> [] | Some m \<Rightarrow> m)))
      in strip (take MAX_ERROR_DETAIL (filter is_printable detail)))"

definition why :: "response \<Rightarrow> string" where
  "why r =
     (let detail = error_detail r; parts = rate_limit_note r @ (if detail = [] then [] else [detail]) in
      if parts = [] then [] else '' ('' @ join ''; '' parts @ '')'')"

definition json_of :: "response \<Rightarrow> string \<Rightarrow> dict option res" where
  "json_of r url =
     (if rs_status r = 404 then Inr None
      else if rs_status r \<noteq> 200
      then Inl (ForgeError (''forge returned HTTP '' @ dec (rs_status r) @ '' for '' @ url @ why r))
      else if MAX_API_RESPONSE_BYTES < length (rs_content r)
      then Inl (ForgeError ''forge response is implausibly large'')
      else (case loads_bytes (rs_content r) of
          Inl e \<Rightarrow> Inl (ForgeError ''forge response is not JSON'')
        | Inr v \<Rightarrow> (case as_dict v of
            None \<Rightarrow> Inl (ForgeError ''forge response is not an object'')
          | Some body \<Rightarrow> Inr (Some body))))"

definition get_json :: "net \<Rightarrow> string \<Rightarrow> dict option http" where
  "get_json N url = (\<lambda>made.
     case request N url made of
       (Inl HTTPError, made') \<Rightarrow> (Inl (ForgeError ''forge request failed''), made')
     | (Inl e, made') \<Rightarrow> (Inl e, made')
     | (Inr r, made') \<Rightarrow> (json_of r url, made'))"

section \<open>Downloads\<close>

fun copy_chunks :: "int \<Rightarrow> string \<Rightarrow> read list \<Rightarrow> string res" where
  "copy_chunks max_bytes acc [] = Inr acc"
| "copy_chunks max_bytes acc (ReadFail e # rs) = Inl e"
| "copy_chunks max_bytes acc (Chunk c # rs) =
     (if max_bytes < int (length acc + length c) then Inl (ForgeError ''asset exceeds the byte cap'')
      else copy_chunks max_bytes (acc @ c) rs)"

text \<open>\<open>hops\<close> counts the iterations that are left; what is written is the result, since every caller
  drops the sink when the call raises.\<close>

fun stream_hops :: "nat \<Rightarrow> net \<Rightarrow> string set \<Rightarrow> int \<Rightarrow> string \<Rightarrow> string http" where
  "stream_hops 0 N allowed_hosts max_bytes url = raiseS (ForgeError ''too many redirects'')"
| "stream_hops (Suc hops) N allowed_hosts max_bytes url =
     bindS (liftS (host_of N url)) (\<lambda>host.
     bindS (refuseS (host \<notin> allowed_hosts) (ForgeError ''refusing to download from a host that is not allowlisted'')) (\<lambda>_.
     bindS (request N url) (\<lambda>r.
       if is_redirect r then
         (case rs_headers r ''location'' of
            None \<Rightarrow> raiseS (ForgeError ''redirect without a location header'')
          | Some [] \<Rightarrow> raiseS (ForgeError ''redirect without a location header'')
          | Some location \<Rightarrow>
              bindS (liftS (nt_join N url location)) (\<lambda>next_url. stream_hops hops N allowed_hosts max_bytes next_url))
       else if rs_status r \<noteq> 200 then raiseS (ForgeError ''asset download returned an HTTP error'')
       else liftS (copy_chunks max_bytes [] (rs_chunks r)))))"

definition stream_url :: "net \<Rightarrow> string set \<Rightarrow> int \<Rightarrow> string \<Rightarrow> string http" where
  "stream_url N allowed_hosts max_bytes url = stream_hops (MAX_REDIRECTS + 1) N allowed_hosts max_bytes url"

section \<open>GitHub\<close>

record github =
  gh_project :: string
  gh_api_base :: string
  gh_allowed_hosts :: "string set"
  gh_tag_prefix :: string
  gh_max_asset_bytes :: int
  gh_project_url :: string
  gh_repository_id :: "string option"

definition GitHubReleaseSource ::
  "string \<Rightarrow> string \<Rightarrow> string set \<Rightarrow> string \<Rightarrow> int \<Rightarrow> string \<Rightarrow> string option \<Rightarrow> github" where
  "GitHubReleaseSource project api_base hosts tag_prefix max_bytes project_url repository_id =
     \<lparr>gh_project = project, gh_api_base = rstrip_char (CHR ''/'') api_base, gh_allowed_hosts = hosts,
      gh_tag_prefix = tag_prefix, gh_max_asset_bytes = max_bytes,
      gh_project_url = rstrip_char (CHR ''/'') project_url, gh_repository_id = repository_id\<rparr>"

definition gh_newest_tag_hint :: "net \<Rightarrow> github \<Rightarrow> string option http" where
  "gh_newest_tag_hint N gh =
     (if gh_project_url gh = [] then returnS None
      else let url = gh_project_url gh @ ''/releases.atom'' in
        bindS (liftS (require_allowed_host N (gh_allowed_hosts gh) url)) (\<lambda>_. \<lambda>made.
          case request N url made of
            (Inl HTTPError, made') \<Rightarrow> (Inl (ForgeError ''release feed request failed''), made')
          | (Inl e, made') \<Rightarrow> (Inl e, made')
          | (Inr r, made') \<Rightarrow>
              if rs_status r \<noteq> 200
              then (Inl (ForgeError (''release feed returned HTTP '' @ dec (rs_status r) @ why r)), made')
              else (newest_feed_tag N (rs_content r) (gh_repository_id gh), made')))"

definition tag_of :: "dict \<Rightarrow> string res" where
  "tag_of body = (case as_str (get body ''tag_name'') of
     None \<Rightarrow> Inl (ForgeError ''release has no tag_name'')
   | Some tag \<Rightarrow> if tag = [] then Inl (ForgeError ''release has no tag_name'') else Inr tag)"

definition gh_asset :: "json \<Rightarrow> forge_asset option res" where
  "gh_asset raw =
     (case as_dict raw of
        None \<Rightarrow> Inr None
      | Some d \<Rightarrow>
          if get d ''state'' \<noteq> JStr ''uploaded'' then Inr None
          else (case (as_str (get d ''name''), as_str (get d ''browser_download_url'')) of
              (Some name, Some url) \<Rightarrow>
                bindr (if truthy (get d ''size'') then py_int (get d ''size'') else Inr 0) (\<lambda>sz.
                  Inr (Some \<lparr>fa_name = name, fa_size = sz, fa_download_url = url,
                    fa_declared_sha256 = (case as_str (get d ''digest'') of
                        None \<Rightarrow> None
                      | Some dg \<Rightarrow> if prefix ''sha256:'' dg then Some (drop (length ''sha256:'') dg) else None)\<rparr>))
            | _ \<Rightarrow> Inr None))"

fun gh_assets :: "json list \<Rightarrow> forge_asset list res" where
  "gh_assets [] = Inr []"
| "gh_assets (raw # raws) =
     bindr (gh_asset raw) (\<lambda>a. bindr (gh_assets raws) (\<lambda>rest.
       Inr (case a of None \<Rightarrow> rest | Some x \<Rightarrow> x # rest)))"

definition gh_release :: "github \<Rightarrow> dict \<Rightarrow> forge_release option res" where
  "gh_release gh body =
     (if truthy (get body ''draft'') \<or> truthy (get body ''prerelease'') then Inr None
      else bindr (tag_of body) (\<lambda>tag.
           bindr (gh_assets (case as_list (get body ''assets'') of None \<Rightarrow> [] | Some raws \<Rightarrow> raws)) (\<lambda>assets.
           bindr (version_from_tag tag (gh_tag_prefix gh)) (\<lambda>version.
           Inr (Some \<lparr>fr_tag = tag, fr_version = version, fr_assets = assets\<rparr>)))))"

definition gh_repo_url :: "github \<Rightarrow> string" where
  "gh_repo_url gh = gh_api_base gh @ ''/repos/'' @ gh_project gh"

definition gh_latest_release :: "net \<Rightarrow> github \<Rightarrow> forge_release option http" where
  "gh_latest_release N gh =
     bindS (get_json N (gh_repo_url gh @ ''/releases/latest'')) (\<lambda>body. case body of
       None \<Rightarrow> returnS None | Some b \<Rightarrow> liftS (gh_release gh b))"

text \<open>\<^verbatim>\<open>json.dumps\<close> with its default separators; \<open>fl\<close> prints a float (\<open>None\<close> for a non-finite one).\<close>

fun json_dumps :: "(rat option \<Rightarrow> string) \<Rightarrow> json \<Rightarrow> string" where
  "json_dumps fl JNull = ''null''"
| "json_dumps fl (JBool b) = (if b then ''true'' else ''false'')"
| "json_dumps fl (JInt i) = dec_int i"
| "json_dumps fl (JFloat r) = fl (Some r)"
| "json_dumps fl JNonFinite = fl None"
| "json_dumps fl (JStr s) = dumps_str s"
| "json_dumps fl (JArr vs) = ''['' @ join '', '' (map (json_dumps fl) vs) @ '']''"
| "json_dumps fl (JObj kvs) = ''{'' @ join '', '' (map (\<lambda>(k, v). dumps_str k @ '': '' @ json_dumps fl v) kvs) @ ''}''"

definition gh_bundle :: "net \<Rightarrow> dict \<Rightarrow> string option" where
  "gh_bundle N body =
     (case as_list (get body ''attestations'') of
        Some (e # es) \<Rightarrow>
          (case as_dict e of
             None \<Rightarrow> None
           | Some d \<Rightarrow> (let bundle = get d ''bundle'' in
               if bundle = JNull then None else Some (utf8_encode (json_dumps (nt_float N) bundle))))
      | _ \<Rightarrow> None)"

definition gh_attestation :: "net \<Rightarrow> github \<Rightarrow> string \<Rightarrow> string option http" where
  "gh_attestation N gh sha256 =
     bindS (get_json N (gh_repo_url gh @ ''/attestations/sha256:'' @ sha256)) (\<lambda>body. case body of
       None \<Rightarrow> returnS None | Some b \<Rightarrow> returnS (gh_bundle N b))"

definition gh_download :: "net \<Rightarrow> github \<Rightarrow> forge_asset \<Rightarrow> string http" where
  "gh_download N gh a = stream_url N (gh_allowed_hosts gh) (gh_max_asset_bytes gh) (fa_download_url a)"

record project_identity =
  pi_repository :: string
  pi_repository_id :: string
  pi_repository_owner_id :: string

text \<open>\<open>str(v)\<close> of a value that passed \<open>isinstance(v, int)\<close>, which a JSON boolean also does.\<close>

fun str_of_int :: "json \<Rightarrow> string option" where
  "str_of_int (JInt i) = Some (dec_int i)"
| "str_of_int (JBool b) = Some (if b then ''True'' else ''False'')"
| "str_of_int _ = None"

definition identity_of :: "string \<Rightarrow> string \<Rightarrow> string \<Rightarrow> dict \<Rightarrow> project_identity res" where
  "identity_of owner_key name_key project body =
     (let owner_id = (case as_dict (get body owner_key) of None \<Rightarrow> JNull | Some d \<Rightarrow> get d ''id'') in
      case (str_of_int (get body ''id''), str_of_int owner_id) of
        (Some rid, Some oid) \<Rightarrow>
          Inr \<lparr>pi_repository = (case as_str (get body name_key) of None \<Rightarrow> project | Some n \<Rightarrow> n),
               pi_repository_id = rid, pi_repository_owner_id = oid\<rparr>
      | _ \<Rightarrow> Inl (ForgeError ''project response carries no numeric ids''))"

definition gh_project_identity :: "net \<Rightarrow> github \<Rightarrow> project_identity http" where
  "gh_project_identity N gh =
     bindS (get_json N (gh_repo_url gh)) (\<lambda>body. case body of
       None \<Rightarrow> raiseS (ForgeError ''no such GitHub project'')
     | Some b \<Rightarrow> liftS (identity_of ''owner'' ''full_name'' (gh_project gh) b))"

section \<open>GitLab\<close>

record gitlab =
  gl_project :: string
  gl_api_base :: string
  gl_allowed_hosts :: "string set"
  gl_tag_prefix :: string
  gl_attestation_asset :: string
  gl_max_asset_bytes :: int

definition GitLabReleaseSource ::
  "net \<Rightarrow> string \<Rightarrow> string \<Rightarrow> string set option \<Rightarrow> string \<Rightarrow> string \<Rightarrow> int \<Rightarrow> gitlab res" where
  "GitLabReleaseSource N project api_base hosts tag_prefix attestation_asset max_bytes =
     (let base = rstrip_char (CHR ''/'') api_base in
      bindr (case hosts of None \<Rightarrow> bindr (host_of N base) (\<lambda>h. Inr {h}) | Some hs \<Rightarrow> Inr hs) (\<lambda>hs.
        Inr \<lparr>gl_project = project, gl_api_base = base, gl_allowed_hosts = hs, gl_tag_prefix = tag_prefix,
             gl_attestation_asset = attestation_asset, gl_max_asset_bytes = max_bytes\<rparr>))"

definition gl_project_url :: "gitlab \<Rightarrow> string" where
  "gl_project_url gl = gl_api_base gl @ ''/api/v4/projects/'' @ quote (gl_project gl)"

definition gl_newest_tag_hint :: "string option http" where
  "gl_newest_tag_hint = returnS None"

definition gl_asset :: "json \<Rightarrow> forge_asset option" where
  "gl_asset raw =
     (case as_dict raw of
        None \<Rightarrow> None
      | Some d \<Rightarrow>
          (let url = (if truthy (get d ''direct_asset_url'') then get d ''direct_asset_url'' else get d ''url'') in
           case (as_str (get d ''name''), as_str url) of
             (Some name, Some u) \<Rightarrow>
               Some \<lparr>fa_name = name, fa_size = 0, fa_download_url = u, fa_declared_sha256 = None\<rparr>
           | _ \<Rightarrow> None))"

definition gl_assets_of :: "dict \<Rightarrow> forge_asset list" where
  "gl_assets_of body =
     (case Option.bind (as_dict (get body ''assets'')) (\<lambda>d. as_list (get d ''links'')) of
        None \<Rightarrow> [] | Some links \<Rightarrow> List.map_filter gl_asset links)"

definition gl_release :: "gitlab \<Rightarrow> dict \<Rightarrow> forge_release option res" where
  "gl_release gl body =
     (if truthy (get body ''upcoming_release'') then Inr None
      else bindr (tag_of body) (\<lambda>tag.
           bindr (version_from_tag tag (gl_tag_prefix gl)) (\<lambda>version.
           Inr (Some \<lparr>fr_tag = tag, fr_version = version, fr_assets = gl_assets_of body\<rparr>))))"

definition gl_latest_release :: "net \<Rightarrow> gitlab \<Rightarrow> forge_release option http" where
  "gl_latest_release N gl =
     bindS (get_json N (gl_project_url gl @ ''/releases/permalink/latest'')) (\<lambda>body. case body of
       None \<Rightarrow> returnS None | Some b \<Rightarrow> liftS (gl_release gl b))"

definition gl_attestation :: "net \<Rightarrow> gitlab \<Rightarrow> string \<Rightarrow> string option http" where
  "gl_attestation N gl sha256 =
     bindS (get_json N (gl_project_url gl @ ''/releases/permalink/latest'')) (\<lambda>body. case body of
       None \<Rightarrow> returnS None
     | Some b \<Rightarrow> (case find (\<lambda>a. fa_name a = gl_attestation_asset gl) (gl_assets_of b) of
           None \<Rightarrow> returnS None
         | Some a \<Rightarrow> bindS (stream_url N (gl_allowed_hosts gl) (int MAX_API_RESPONSE_BYTES) (fa_download_url a))
               (\<lambda>content. returnS (Some content))))"

definition gl_download :: "net \<Rightarrow> gitlab \<Rightarrow> forge_asset \<Rightarrow> string http" where
  "gl_download N gl a = stream_url N (gl_allowed_hosts gl) (gl_max_asset_bytes gl) (fa_download_url a)"

definition gl_project_identity :: "net \<Rightarrow> gitlab \<Rightarrow> project_identity http" where
  "gl_project_identity N gl =
     bindS (get_json N (gl_project_url gl)) (\<lambda>body. case body of
       None \<Rightarrow> raiseS (ForgeError ''no such GitLab project'')
     | Some b \<Rightarrow> liftS (identity_of ''namespace'' ''path_with_namespace'' (gl_project gl) b))"

section \<open>The protocol the workers see\<close>

record release_ops =
  rl_latest_release :: "forge_release option http"
  rl_newest_tag_hint :: "string option http"
  rl_download :: "forge_asset \<Rightarrow> string http"
  rl_attestation :: "string \<Rightarrow> string option http"
  rl_project_identity :: "project_identity http"

definition github_source :: "net \<Rightarrow> github \<Rightarrow> release_ops" where
  "github_source N gh = \<lparr>rl_latest_release = gh_latest_release N gh, rl_newest_tag_hint = gh_newest_tag_hint N gh,
     rl_download = gh_download N gh, rl_attestation = gh_attestation N gh,
     rl_project_identity = gh_project_identity N gh\<rparr>"

definition gitlab_source :: "net \<Rightarrow> gitlab \<Rightarrow> release_ops" where
  "gitlab_source N gl = \<lparr>rl_latest_release = gl_latest_release N gl, rl_newest_tag_hint = gl_newest_tag_hint,
     rl_download = gl_download N gl, rl_attestation = gl_attestation N gl,
     rl_project_identity = gl_project_identity N gl\<rparr>"

end
