(* ===== verification/ForgeProps.thy ===== *)
theory ForgeProps
  imports Forge
begin

text \<open>
  Properties of the forge clients: where requests go, how many bytes a download yields, what a
  feed and a tag may say, and the contract \<open>confined_source\<close> the workers rest on.
\<close>

section \<open>Hosts\<close>

lemma before_append: "c \<in> set u \<Longrightarrow> before c (u @ v) = before c u"
  by (induction u) (auto simp: before_def)

lemma after_append: "c \<in> set u \<Longrightarrow> after c (u @ v) = after c u @ v"
  by (induction u) (auto simp: after_def)

lemma url_clean_append: "url_clean u \<noteq> [] \<Longrightarrow> \<exists>t'. url_clean (u @ CHR ''/'' # t) = url_clean u @ CHR ''/'' # t'"
proof -
  assume "url_clean u \<noteq> []"
  then have "dropWhile (\<lambda>c. code c \<le> 32) u \<noteq> []" by (metis filter.simps(1) url_clean_def)
  then have "dropWhile (\<lambda>c. code c \<le> 32) (u @ CHR ''/'' # t) = dropWhile (\<lambda>c. code c \<le> 32) u @ CHR ''/'' # t"
    by (metis dropWhile_append1 dropWhile_eq_Nil_conv)
  then show ?thesis by (auto simp: url_clean_def code_def)
qed

text \<open>Appending a path to a URL with a host does not change the host.\<close>

lemma urlsplit_append:
  assumes "urlsplit b u = Inr (s, n)" "s \<noteq> []" "n \<noteq> []"
  shows "urlsplit b (u @ CHR ''/'' # t) = Inr (s, n)"
proof -
  have "url_clean u \<noteq> []" using assms by (auto simp: urlsplit_def Let_def before_def split: if_splits)
  then obtain t' where t': "url_clean (u @ CHR ''/'' # t) = url_clean u @ CHR ''/'' # t'"
    using url_clean_append by blast
  let ?c = "url_clean u"
  have colon: "CHR '':'' \<in> set ?c" "before (CHR '':'') ?c \<noteq> []" "is_lower (hd ?c) \<or> is_upper (hd ?c)"
      "list_all scheme_char (before (CHR '':'') ?c)"
    and s: "s = lower (before (CHR '':'') ?c)" and pre: "prefix ''//'' (after (CHR '':'') ?c)"
    and n: "n = takeWhile (\<lambda>c. c \<notin> {CHR ''/'', CHR ''?'', CHR ''#''}) (drop 2 (after (CHR '':'') ?c))"
    using assms by (auto simp: urlsplit_def Let_def split: if_splits)
  have hd: "hd (?c @ x) = hd ?c" for x using colon by (cases ?c) auto
  have "takeWhile (\<lambda>c. c \<notin> {CHR ''/'', CHR ''?'', CHR ''#''}) (drop 2 (after (CHR '':'') ?c @ CHR ''/'' # t')) = n"
    using pre by (auto simp: prefix_def n takeWhile_tail)
  moreover have "prefix ''//'' (after (CHR '':'') ?c @ CHR ''/'' # t')" using pre by (rule prefix_prefix)
  ultimately show ?thesis using assms(1) colon s pre n
    by (simp add: urlsplit_def Let_def t' before_append after_append hd split: if_splits)
qed

definition allowed_url :: "net \<Rightarrow> string set \<Rightarrow> string \<Rightarrow> bool" where
  "allowed_url N hosts url \<longleftrightarrow> (case host_of N url of Inl e \<Rightarrow> False | Inr h \<Rightarrow> h \<in> hosts)"

lemma hostname_Nil [simp]: "hostname [] = None"
  by (simp add: hostname_def rpartition_def before_def)

lemma host_of_append:
  assumes "host_of N u = Inr h"
  shows "host_of N (u @ CHR ''/'' # t) = Inr h"
proof -
  obtain n where n: "urlsplit (nt_bracketed N) u = Inr (''https'', n)" "hostname n \<noteq> None"
    using assms by (auto simp: host_of_def bindr_eq_Inr_iff split: if_splits option.splits)
  then have "n \<noteq> []" by auto
  from urlsplit_append [OF n(1) _ this] show ?thesis using assms n(1) by (simp add: host_of_def)
qed

lemma require_allowed_host_Inr: "require_allowed_host N hosts url = Inr u \<longleftrightarrow> allowed_url N hosts url"
  by (auto simp: require_allowed_host_def allowed_url_def bindr_eq_Inr_iff split: sum.splits)

section \<open>Requests of the parts\<close>

lemma keeps_request [keeps_intro]: "ok url \<Longrightarrow> keeps (list_all ok) (request N url)"
  by (simp add: keeps_def request_def)

lemma keeps_get_json [keeps_intro]:
  assumes "ok url"
  shows "keeps (list_all ok) (get_json N url)"
  unfolding keeps_def get_json_def
proof (intro allI impI)
  fix made assume m: "list_all ok made"
  obtain r made' where r: "request N url made = (r, made')" by (cases "request N url made")
  then have "list_all ok made'" using m assms by (auto simp: request_def)
  then show "list_all ok (snd (case request N url made of
        (Inl HTTPError, made') \<Rightarrow> (Inl (ForgeError ''forge request failed''), made')
      | (Inl e, made') \<Rightarrow> (Inl e, made') | (Inr r, made') \<Rightarrow> (json_of r url, made')))"
    by (simp add: r split: sum.split exn.split)
qed

lemma keeps_stream_hops [keeps_intro]:
  "(\<And>u. allowed_url N hosts u \<Longrightarrow> ok u) \<Longrightarrow> keeps (list_all ok) (stream_hops hops N hosts m url)"
proof (induction hops arbitrary: url)
  case (Suc hops)
  have step: "keeps (list_all ok) (bindS (refuseS (host \<notin> hosts) e) (\<lambda>_. bindS (request N url) f))"
    if "host_of N url = Inr host" "\<And>r. keeps (list_all ok) (f r)" for host e and f :: "response \<Rightarrow> string http"
  proof (cases "host \<in> hosts")
    case True
    then have "ok url" using that(1) by (intro Suc.prems) (simp add: allowed_url_def)
    then show ?thesis using that(2) by (intro keeps_intro)
  qed (simp add: keeps_def)
  have next_hop: "keeps (list_all ok) (bindS (liftS (nt_join N url l)) (\<lambda>next_url. stream_hops hops N hosts m next_url))" for l
    using Suc by (intro keeps_intro) blast
  show ?case
  proof (cases "host_of N url")
    case (Inl e)
    then show ?thesis by (simp add: keeps_def)
  next
    case (Inr host)
    have k: "keeps (list_all ok) (if is_redirect r then
         (case rs_headers r ''location'' of
            None \<Rightarrow> raiseS (ForgeError ''redirect without a location header'')
          | Some [] \<Rightarrow> raiseS (ForgeError ''redirect without a location header'')
          | Some location \<Rightarrow>
              bindS (liftS (nt_join N url location)) (\<lambda>next_url. stream_hops hops N hosts m next_url))
       else if rs_status r \<noteq> 200 then raiseS (ForgeError ''asset download returned an HTTP error'')
       else liftS (copy_chunks m [] (rs_chunks r)))" for r
      using next_hop by (auto intro: keeps_raiseS keeps_liftS split: option.split list.split)
    have "keeps (list_all ok) (\<lambda>made. stream_hops (Suc hops) N hosts m url made)"
      using step [OF Inr k] Inr unfolding keeps_def stream_hops.simps by (simp only: run_liftS_Inr)
    then show ?thesis by simp
  qed
qed (simp add: keeps_intro)

lemma keeps_stream_url [keeps_intro]:
  "(\<And>u. allowed_url N hosts u \<Longrightarrow> ok u) \<Longrightarrow> keeps (list_all ok) (stream_url N hosts m url)"
  unfolding stream_url_def by (rule keeps_stream_hops)

lemma copy_chunks_bound:
  "copy_chunks m acc rs = Inr c \<Longrightarrow> c = acc \<or> int (length c) \<le> m"
proof (induction rs arbitrary: acc)
  case (Cons r rs)
  then show ?case by (cases r) (fastforce split: if_splits)+
qed simp

lemma stream_hops_Inr:
  "stream_hops hops N hosts m url made = (Inr c, made') \<Longrightarrow>
    \<exists>final made0 r. made' = final # made0 \<and> length made0 < length made + hops \<and> allowed_url N hosts final
      \<and> nt_get N made0 final = Inr r \<and> rs_status r = 200 \<and> copy_chunks m [] (rs_chunks r) = Inr c"
proof (induction hops arbitrary: url made)
  case (Suc hops)
  from Suc.prems obtain host r where h: "host_of N url = Inr host" "host \<in> hosts" and g: "nt_get N made url = Inr r"
    and k: "(if is_redirect r then
         (case rs_headers r ''location'' of
            None \<Rightarrow> raiseS (ForgeError ''redirect without a location header'')
          | Some [] \<Rightarrow> raiseS (ForgeError ''redirect without a location header'')
          | Some location \<Rightarrow>
              bindS (liftS (nt_join N url location)) (\<lambda>next_url. stream_hops hops N hosts m next_url))
       else if rs_status r \<noteq> 200 then raiseS (ForgeError ''asset download returned an HTTP error'')
       else liftS (copy_chunks m [] (rs_chunks r))) (url # made) = (Inr c, made')"
    by (auto simp: bindS_eq_Inr_iff request_def split: if_splits)
  show ?case
  proof (cases "is_redirect r")
    case True
    with k obtain next_url where "stream_hops hops N hosts m next_url (url # made) = (Inr c, made')"
      by (auto simp: bindS_eq_Inr_iff split: option.splits list.splits)
    from Suc.IH [OF this] show ?thesis by auto
  next
    case False
    with k have "rs_status r = 200" "copy_chunks m [] (rs_chunks r) = Inr c" "made' = url # made"
      by (auto split: if_splits)
    with g h show ?thesis by (auto simp: allowed_url_def)
  qed
qed simp

section \<open>The contract of a release source\<close>

text \<open>The calls of the protocol, and what they ask of the network whatever they return.\<close>

datatype forge_call =
    LatestRelease
  | NewestTagHint
  | Download forge_asset
  | Attestation string
  | ProjectIdentity

fun after_call :: "release_ops \<Rightarrow> forge_call \<Rightarrow> string list \<Rightarrow> string list" where
  "after_call S LatestRelease made = snd (rl_latest_release S made)"
| "after_call S NewestTagHint made = snd (rl_newest_tag_hint S made)"
| "after_call S (Download a) made = snd (rl_download S a made)"
| "after_call S (Attestation d) made = snd (rl_attestation S d made)"
| "after_call S ProjectIdentity made = snd (rl_project_identity S made)"

text \<open>\<open>asks ok m\<close>: whatever \<open>m\<close> requests satisfies \<open>ok\<close>, stated so that it is monotone in \<open>ok\<close>.\<close>

definition asks :: "(string \<Rightarrow> bool) \<Rightarrow> 'a http \<Rightarrow> bool" where
  "asks ok m \<longleftrightarrow> (\<forall>P. (\<forall>u. ok u \<longrightarrow> P u) \<longrightarrow> keeps (list_all P) m)"

lemma asksI: "(\<And>P. (\<And>u. ok u \<Longrightarrow> P u) \<Longrightarrow> keeps (list_all P) m) \<Longrightarrow> asks ok m"
  by (simp add: asks_def)

lemma asksD: "asks ok m \<Longrightarrow> keeps (list_all ok) m"
  by (simp add: asks_def)

lemma asks_mono: "asks ok m \<Longrightarrow> (\<And>u. ok u \<Longrightarrow> ok' u) \<Longrightarrow> asks ok' m"
  by (simp add: asks_def)

locale confined_source =
  fixes S :: release_ops and ok :: "string \<Rightarrow> bool" and cap :: int
  assumes latest_confined: "asks ok (rl_latest_release S)"
    and hint_confined: "asks ok (rl_newest_tag_hint S)"
    and download_confined: "asks ok (rl_download S a)"
    and attestation_confined: "asks ok (rl_attestation S d)"
    and identity_confined: "asks ok (rl_project_identity S)"
    and download_capped: "rl_download S a made = (Inr c, made') \<Longrightarrow> c = [] \<or> int (length c) \<le> cap"
begin

lemmas confined = latest_confined hint_confined download_confined attestation_confined identity_confined

lemma call_confined: "list_all ok made \<Longrightarrow> list_all ok (after_call S c made)"
  by (cases c) (auto intro: keepsD [OF asksD [OF latest_confined]] keepsD [OF asksD [OF hint_confined]]
      keepsD [OF asksD [OF download_confined]] keepsD [OF asksD [OF attestation_confined]]
      keepsD [OF asksD [OF identity_confined]])

text \<open>Any sequence of calls, in any order.\<close>

lemma session_confined: "list_all ok made \<Longrightarrow> list_all ok (fold (after_call S) cs made)"
  by (induction cs arbitrary: made) (auto intro: call_confined)

end

definition github_ok :: "net \<Rightarrow> github \<Rightarrow> string \<Rightarrow> bool" where
  "github_ok N gh url \<longleftrightarrow> allowed_url N (gh_allowed_hosts gh) url \<or> prefix (gh_api_base gh @ ''/'') url"

definition gitlab_ok :: "net \<Rightarrow> gitlab \<Rightarrow> string \<Rightarrow> bool" where
  "gitlab_ok N gl url \<longleftrightarrow> allowed_url N (gl_allowed_hosts gl) url \<or> prefix (gl_api_base gl @ ''/'') url"

lemma keeps_option_case [keeps_intro]:
  "keeps P a \<Longrightarrow> (\<And>x. keeps P (f x)) \<Longrightarrow> keeps P (case v of None \<Rightarrow> a | Some x \<Rightarrow> f x)"
  by (cases v) auto

lemma gh_hint_confined:
  assumes "\<And>u. github_ok N gh u \<Longrightarrow> P u"
  shows "keeps (list_all P) (gh_newest_tag_hint N gh)"
proof (cases "require_allowed_host N (gh_allowed_hosts gh) (gh_project_url gh @ ''/releases.atom'')")
  case (Inl e)
  then show ?thesis by (auto simp: gh_newest_tag_hint_def keeps_def Let_def)
next
  case (Inr u)
  then have "P (gh_project_url gh @ ''/releases.atom'')"
    by (intro assms) (simp add: github_ok_def require_allowed_host_Inr [THEN iffD1, OF Inr])
  with Inr show ?thesis
    by (auto simp: gh_newest_tag_hint_def keeps_def request_def Let_def split: sum.split exn.split)
qed

lemma stream_capped: "stream_url N hosts m url made = (Inr c, made') \<Longrightarrow> c = [] \<or> int (length c) \<le> m"
  unfolding stream_url_def using stream_hops_Inr copy_chunks_bound by blast

interpretation github: confined_source "github_source N gh" "github_ok N gh" "gh_max_asset_bytes gh" for N gh
proof unfold_locales
  have url: "github_ok N gh (gh_repo_url gh @ t)" for t by (simp add: github_ok_def gh_repo_url_def)
  have url0: "github_ok N gh (gh_repo_url gh)" using url [of "[]"] by simp
  have allowed: "allowed_url N (gh_allowed_hosts gh) u \<Longrightarrow> github_ok N gh u" for u by (simp add: github_ok_def)
  show "asks (github_ok N gh) (rl_latest_release (github_source N gh))"
    by (auto simp: github_source_def gh_latest_release_def intro!: asksI keeps_intro url)
  show "asks (github_ok N gh) (rl_newest_tag_hint (github_source N gh))"
    by (simp add: github_source_def asksI gh_hint_confined)
  show "asks (github_ok N gh) (rl_download (github_source N gh) a)" for a
    by (auto simp: github_source_def gh_download_def intro!: asksI keeps_intro allowed)
  show "asks (github_ok N gh) (rl_attestation (github_source N gh) d)" for d
    by (auto simp: github_source_def gh_attestation_def intro!: asksI keeps_intro url)
  show "asks (github_ok N gh) (rl_project_identity (github_source N gh))"
    by (auto simp: github_source_def gh_project_identity_def intro!: asksI keeps_intro url0)
  show "c = [] \<or> int (length c) \<le> gh_max_asset_bytes gh"
    if "rl_download (github_source N gh) a made = (Inr c, made')" for a made c made'
    using that by (auto simp: github_source_def gh_download_def dest: stream_capped)
qed

interpretation gitlab: confined_source "gitlab_source N gl" "gitlab_ok N gl" "gl_max_asset_bytes gl" for N gl
proof unfold_locales
  have url: "gitlab_ok N gl (gl_project_url gl @ t)" for t by (simp add: gitlab_ok_def gl_project_url_def)
  have url0: "gitlab_ok N gl (gl_project_url gl)" using url [of "[]"] by simp
  have allowed: "allowed_url N (gl_allowed_hosts gl) u \<Longrightarrow> gitlab_ok N gl u" for u by (simp add: gitlab_ok_def)
  show "asks (gitlab_ok N gl) (rl_latest_release (gitlab_source N gl))"
    by (auto simp: gitlab_source_def gl_latest_release_def intro!: asksI keeps_intro url)
  show "asks (gitlab_ok N gl) (rl_newest_tag_hint (gitlab_source N gl))"
    by (simp add: gitlab_source_def gl_newest_tag_hint_def asksI keeps_returnS)
  show "asks (gitlab_ok N gl) (rl_download (gitlab_source N gl) a)" for a
    by (auto simp: gitlab_source_def gl_download_def intro!: asksI keeps_intro allowed)
  show "asks (gitlab_ok N gl) (rl_attestation (gitlab_source N gl) d)" for d
    by (auto simp: gitlab_source_def gl_attestation_def intro!: asksI keeps_intro url allowed)
  show "asks (gitlab_ok N gl) (rl_project_identity (gitlab_source N gl))"
    by (auto simp: gitlab_source_def gl_project_identity_def intro!: asksI keeps_intro url0)
  show "c = [] \<or> int (length c) \<le> gl_max_asset_bytes gl"
    if "rl_download (gitlab_source N gl) a made = (Inr c, made')" for a made c made'
    using that by (auto simp: gitlab_source_def gl_download_def dest: stream_capped)
qed

section \<open>Properties\<close>


text \<open>A forge that redirects once to an asset host.\<close>

definition ex_response :: "nat \<Rightarrow> response" where
  "ex_response status = \<lparr>rs_status = status, rs_headers = Map.empty, rs_reason = [], rs_content = [], rs_chunks = []\<rparr>"

definition ex_net :: net where
  "ex_net = \<lparr>nt_get = (\<lambda>made url. if made = [] then Inr ((ex_response 302)\<lparr>rs_headers := [''location'' \<mapsto> ''https://o.h/x'']\<rparr>)
       else Inr ((ex_response 200)\<lparr>rs_chunks := [Chunk ''ab'', Chunk ''c'']\<rparr>)),
     nt_join = (\<lambda>url l. Inr l), nt_xml = (\<lambda>_. Inl ParseError), nt_bracketed = (\<lambda>_. False), nt_float = (\<lambda>_. [])\<rparr>"


lemma VERSION_chars:
  assumes "VERSION v" "c \<in> set v"
  shows "is_alnum c \<or> c = CHR ''.'' \<or> version_sep c"
proof -
  let ?h = "takeWhile (\<lambda>c. \<not> version_sep c) v" and ?t = "dropWhile (\<lambda>c. \<not> version_sep c) v"
  have "c \<in> set ?h \<or> c \<in> set ?t" using assms(2) by (metis Un_iff set_append takeWhile_dropWhile_id)
  then show ?thesis
  proof
    assume "c \<in> set ?h"
    then have "c = CHR ''.'' \<or> (\<exists>p \<in> set (split_on (CHR ''.'') ?h). c \<in> set p)"
      using split_on_mem by fast
    then show ?thesis using assms(1) by (auto simp: VERSION_def list_all_iff is_alnum_def)
  next
    assume c: "c \<in> set ?t"
    then obtain s t where st: "?t = s # t" by (cases ?t) auto
    then have "version_sep s" using hd_dropWhile [of "\<lambda>c. \<not> version_sep c" v] by simp
    moreover have "list_all (\<lambda>c. is_alnum c \<or> c = CHR ''.'') t" using assms(1) by (simp add: VERSION_def st)
    ultimately show ?thesis using c st by (auto simp: list_all_iff)
  qed
qed

lemma VERSION_hd: "VERSION v \<Longrightarrow> v \<noteq> [] \<and> is_dec (hd v)"
proof -
  assume v: "VERSION v"
  let ?h = "takeWhile (\<lambda>c. \<not> version_sep c) v"
  have p: "hd (split_on (CHR ''.'') ?h) \<noteq> [] \<and> list_all is_dec (hd (split_on (CHR ''.'') ?h))"
    using v by (cases "split_on (CHR ''.'') ?h") (auto simp: VERSION_def)
  then obtain x xs where x: "?h = x # xs" by (cases ?h) auto
  with p have "is_dec x" by (auto split: if_splits list.splits)
  moreover have "v \<noteq> [] \<and> hd v = x" using x by (cases v) (auto split: if_splits)
  ultimately show ?thesis by simp
qed

text \<open>A version the forge client derives from a tag is a usable path segment exactly when it has no
  plus sign: a tag with a build suffix such as \<^verbatim>\<open>v1.0+5\<close> is accepted here and refused by the target
  key the signing worker makes from it.\<close>

theorem version_is_segment:
  assumes "version_from_tag tag pre = Inr v"
  shows "SEGMENT v \<longleftrightarrow> CHR ''+'' \<notin> set v"
proof -
  have v: "VERSION v" using assms by (auto simp: version_from_tag_def Let_def split: if_splits)
  have nl: "newline \<notin> set v"
    using VERSION_chars [OF v, of newline] is_alnum_not_sep by (auto simp: version_sep_def newline_def)
  have plus: "\<not> segment_char (CHR ''+'')" by code_simp
  have "SEGMENT v \<longleftrightarrow> list_all segment_char v"
  proof
    show "SEGMENT v \<Longrightarrow> list_all segment_char v" using SEGMENT_chars nl by (fastforce simp: list_all_iff)
    show "list_all segment_char v \<Longrightarrow> SEGMENT v"
      using VERSION_hd [OF v] by (cases v) (auto simp: SEGMENT_def match_dollar_def is_alnum_def)
  qed
  also have "\<dots> \<longleftrightarrow> CHR ''+'' \<notin> set v"
    using VERSION_chars [OF v] plus by (auto simp: list_all_iff segment_char_def version_sep_def)
  finally show ?thesis .
qed

theorem version_is_segment_witness:
  "version_from_tag ''v1.0+5'' ''v'' = Inr ''1.0+5'' \<and> \<not> SEGMENT ''1.0+5''
   \<and> TargetKey ''editor'' ''stable'' ''linux'' ''x86_64'' ''1.0+5'' ''a.zip'' = Inl (ValueError ''invalid version'')"
proof -
  have r: "version_from_tag ''v1.0+5'' ''v'' = Inr ''1.0+5''" by code_simp
  have "TargetKey ''editor'' ''stable'' ''linux'' ''x86_64'' ''1.0+5'' ''a.zip'' = Inl (ValueError ''invalid version'')"
    by code_simp
  with version_is_segment [OF r] r show ?thesis by simp
qed

lemma strip_sub: "set (strip s) \<subseteq> set s \<and> length (strip s) \<le> length s"
proof -
  have d: "set (dropWhile p xs) \<subseteq> set xs \<and> length (dropWhile p xs) \<le> length xs" for p and xs :: string
    by (simp add: set_dropWhileD subsetI length_dropWhile_le)
  show ?thesis unfolding strip_def using d [of is_space s] d [of is_space "rev (dropWhile is_space s)"]
    by auto
qed

text \<open>What an error quotes of a forge's answer is at most 200 printable characters, except for the
  value of the rate-limit reset header, which is neither shortened nor filtered.\<close>

theorem quoted_detail_is_bounded:
  "length (error_detail r) \<le> MAX_ERROR_DETAIL \<and> list_all is_printable (error_detail r)
   \<and> length (why r) \<le> MAX_ERROR_DETAIL + 5 + length (concat (rate_limit_note r))
   \<and> (\<exists>r'. why r' = '' (rate limit exhausted, resets at epoch '' @ replicate (Suc n) (CHR 0x07) @ '')'')"
proof -
  have e: "length (error_detail r) \<le> MAX_ERROR_DETAIL \<and> list_all is_printable (error_detail r)"
  proof -
    obtain d where d: "error_detail r = strip (take MAX_ERROR_DETAIL (filter is_printable d))"
      by (simp add: error_detail_def Let_def)
    have "set (take MAX_ERROR_DETAIL (filter is_printable d)) \<subseteq> set (filter is_printable d)"
      by (rule set_take_subset)
    with strip_sub [of "take MAX_ERROR_DETAIL (filter is_printable d)"] show ?thesis
      by (auto simp: d list_all_iff)
  qed
  moreover from e have "length (why r) \<le> MAX_ERROR_DETAIL + 5 + length (concat (rate_limit_note r))"
    by (auto simp: why_def rate_limit_note_def Let_def split: option.split)
  moreover have "\<exists>r'. why r' = '' (rate limit exhausted, resets at epoch '' @ replicate (Suc n) (CHR 0x07) @ '')''"
  proof -
    let ?r = "(ex_response 403)\<lparr>rs_headers := [''x-ratelimit-remaining'' \<mapsto> ''0'',
        ''x-ratelimit-reset'' \<mapsto> replicate (Suc n) (CHR 0x07)]\<rparr>"
    have "loads_bytes [] = Inl JSONDecodeError" by code_simp
    then have "error_detail ?r = []" by (simp add: error_detail_def ex_response_def strip_def)
    then have "why ?r = '' (rate limit exhausted, resets at epoch '' @ replicate (Suc n) (CHR 0x07) @ '')''"
      by (simp add: why_def rate_limit_note_def)
    then show ?thesis by blast
  qed
  ultimately show ?thesis by blast
qed

end
