(* ===== verification/Provenance.thy ===== *)
theory Provenance
  imports Json
begin

text \<open>
  \<^verbatim>\<open>packages/dist-ingest/src/dist_ingest/provenance.py\<close>: DSSE envelopes signed by a pinned builder
  key, and the checks on the statement inside that the certificate path shares.  Loading a public
  key and verifying one signature belong to the \<^verbatim>\<open>cryptography\<close> package and are arguments
  (\<open>crypto\<close>); nothing is assumed of them.
\<close>

definition IN_TOTO_STATEMENT_V1 :: string where "IN_TOTO_STATEMENT_V1 = ''https://in-toto.io/Statement/v1''"
definition SLSA_PROVENANCE_V1 :: string where "SLSA_PROVENANCE_V1 = ''https://slsa.dev/provenance/v1''"
definition DSSE_PAYLOAD_TYPE :: string where "DSSE_PAYLOAD_TYPE = ''application/vnd.in-toto+json''"
definition MAX_ENVELOPE_BYTES :: nat where "MAX_ENVELOPE_BYTES = 1024 * 1024"

section \<open>Policies\<close>

datatype public_key = Ed25519 string | EllipticCurve string | OtherKey string

record crypto =
  cy_load :: "string \<Rightarrow> public_key res"
  cy_verify :: "public_key \<Rightarrow> string \<Rightarrow> string \<Rightarrow> bool"

record trusted_builder =
  tb_builder_id :: string
  tb_keyid :: string
  tb_public_key_pem :: string

record certificate_identity =
  ci_workflow_uri :: string
  ci_issuer :: string
  ci_repository :: string
  ci_repository_id :: string
  ci_repository_owner_id :: string
  ci_runner_environment :: string

definition matches_builder :: "certificate_identity \<Rightarrow> string \<Rightarrow> bool" where
  "matches_builder i builder_id \<longleftrightarrow> prefix (ci_workflow_uri i @ ''@'') builder_id"

record provenance_policy =
  pp_trusted_builders :: "trusted_builder list"
  pp_project_url :: string
  pp_require_tag_ref_prefix :: string
  pp_trusted_identities :: "certificate_identity list"

definition ProvenancePolicy ::
  "trusted_builder list \<Rightarrow> string \<Rightarrow> string \<Rightarrow> certificate_identity list \<Rightarrow> provenance_policy res" where
  "ProvenancePolicy builders project_url tag_prefix identities =
     (if builders = [] \<and> identities = [] then Inl (ValueError ''provenance policy trusts no builder'')
      else Inr \<lparr>pp_trusted_builders = builders, pp_project_url = project_url,
                pp_require_tag_ref_prefix = tag_prefix, pp_trusted_identities = identities\<rparr>)"

definition builder_for_keyid :: "provenance_policy \<Rightarrow> string \<Rightarrow> trusted_builder option" where
  "builder_for_keyid policy keyid = find (\<lambda>b. tb_keyid b = keyid) (pp_trusted_builders policy)"

definition identity_for_builder :: "provenance_policy \<Rightarrow> string \<Rightarrow> certificate_identity option" where
  "identity_for_builder policy builder_id =
     find (\<lambda>i. matches_builder i builder_id) (pp_trusted_identities policy)"

record provenance =
  pv_builder_id :: string
  pv_source_uri :: string
  pv_source_ref :: string
  pv_subject_name :: string
  pv_subject_sha256 :: string
  pv_statement :: dict

section \<open>The envelope\<close>

definition pae :: "string \<Rightarrow> string \<Rightarrow> string" where
  "pae payload_type payload =
     (let encoded_type = utf8_encode payload_type in
      ''DSSEv1 '' @ dec (length encoded_type) @ '' '' @ encoded_type @ '' ''
      @ dec (length payload) @ '' '' @ payload)"

definition verify_signature :: "crypto \<Rightarrow> public_key \<Rightarrow> string \<Rightarrow> string \<Rightarrow> bool res" where
  "verify_signature C key signature message =
     (case key of
        Ed25519 _ \<Rightarrow> Inr (cy_verify C key signature message)
      | EllipticCurve _ \<Rightarrow> Inr (cy_verify C key signature message)
      | OtherKey _ \<Rightarrow> Inl (ProvenanceError ''unsupported builder key type''))"

text \<open>\<^verbatim>\<open>base64.b64decode(s, validate=True)\<close>: whole groups of four, the last padded, nothing else.\<close>

definition b64_value :: "char \<Rightarrow> nat option" where
  "b64_value c =
     (if is_upper c then Some (code c - 65) else if is_lower c then Some (code c - 71)
      else if is_dec c then Some (code c + 4) else if c = CHR ''+'' then Some 62
      else if c = CHR ''/'' then Some 63 else None)"

definition b64_group :: "char \<Rightarrow> char \<Rightarrow> char \<Rightarrow> char \<Rightarrow> bool \<Rightarrow> string option" where
  "b64_group a b c d final =
     (case (b64_value a, b64_value b, b64_value c, b64_value d) of
        (Some x, Some y, Some z, Some w) \<Rightarrow>
          Some [char_of (x * 4 + y div 16), char_of (y mod 16 * 16 + z div 4), char_of (z mod 4 * 64 + w)]
      | (Some x, Some y, Some z, None) \<Rightarrow>
          if final \<and> d = CHR ''='' then Some [char_of (x * 4 + y div 16), char_of (y mod 16 * 16 + z div 4)] else None
      | (Some x, Some y, None, None) \<Rightarrow>
          if final \<and> c = CHR ''='' \<and> d = CHR ''='' then Some [char_of (x * 4 + y div 16)] else None
      | _ \<Rightarrow> None)"

fun b64decode :: "string \<Rightarrow> string option" where
  "b64decode [] = Some []"
| "b64decode (a # b # c # d # rest) =
     Option.bind (b64_group a b c d (rest = [])) (\<lambda>bs. map_option ((@) bs) (b64decode rest))"
| "b64decode _ = None"

definition decode_envelope :: "string \<Rightarrow> (string \<times> string \<times> json list) res" where
  "decode_envelope raw =
     (if MAX_ENVELOPE_BYTES < length raw then Inl (ProvenanceError ''envelope is too large'')
      else (case loads_bytes raw of
          Inl JSONDecodeError \<Rightarrow> Inl (ProvenanceError ''envelope is not valid JSON'')
        | Inl e \<Rightarrow> Inl e
        | Inr v \<Rightarrow>
            (case as_dict v of
               None \<Rightarrow> Inl (ProvenanceError ''envelope is not a JSON object'')
             | Some envelope \<Rightarrow>
                 if get envelope ''payloadType'' \<noteq> JStr DSSE_PAYLOAD_TYPE
                 then Inl (ProvenanceError ''unexpected payloadType'')
                 else (case as_str (get envelope ''payload'') of
                     None \<Rightarrow> Inl (ProvenanceError ''envelope has no payload'')
                   | Some encoded \<Rightarrow>
                       (case b64decode encoded of
                          None \<Rightarrow> Inl (ProvenanceError ''payload is not valid base64'')
                        | Some payload \<Rightarrow>
                            (case as_list (get envelope ''signatures'') of
                               None \<Rightarrow> Inl (ProvenanceError ''envelope carries no signatures'')
                             | Some [] \<Rightarrow> Inl (ProvenanceError ''envelope carries no signatures'')
                             | Some signatures \<Rightarrow> Inr (DSSE_PAYLOAD_TYPE, payload, signatures)))))))"

text \<open>One entry of the signatures: \<open>None\<close> to go on with the next.\<close>

definition try_signature ::
  "crypto \<Rightarrow> provenance_policy \<Rightarrow> string \<Rightarrow> json \<Rightarrow> string option res" where
  "try_signature C policy message entry =
     (case as_dict entry of
        None \<Rightarrow> Inr None
      | Some e \<Rightarrow>
          (case (as_str (get e ''keyid''), as_str (get e ''sig'')) of
             (Some keyid, Some encoded_sig) \<Rightarrow>
               (case builder_for_keyid policy keyid of
                  None \<Rightarrow> Inr None
                | Some builder \<Rightarrow>
                    (case b64decode encoded_sig of
                       None \<Rightarrow> Inr None
                     | Some signature \<Rightarrow>
                         bindr (cy_load C (tb_public_key_pem builder)) (\<lambda>key.
                         bindr (verify_signature C key signature message) (\<lambda>ok.
                         Inr (if ok then Some (tb_builder_id builder) else None)))))
           | _ \<Rightarrow> Inr None))"

fun verify_signatures ::
  "crypto \<Rightarrow> provenance_policy \<Rightarrow> string \<Rightarrow> string \<Rightarrow> json list \<Rightarrow> (dict \<times> string) res" where
  "verify_signatures C policy message payload [] = Inl (ProvenanceError ''no signature from a trusted builder'')"
| "verify_signatures C policy message payload (entry # rest) =
     bindr (try_signature C policy message entry) (\<lambda>found.
       case found of
         None \<Rightarrow> verify_signatures C policy message payload rest
       | Some builder_id \<Rightarrow>
           (case loads_bytes payload of
              Inl JSONDecodeError \<Rightarrow> Inl (ProvenanceError ''payload is not valid JSON'')
            | Inl e \<Rightarrow> Inl e
            | Inr v \<Rightarrow>
                (case as_dict v of
                   None \<Rightarrow> Inl (ProvenanceError ''statement is not a JSON object'')
                 | Some statement \<Rightarrow> Inr (statement, builder_id))))"

definition verify_envelope :: "crypto \<Rightarrow> string \<Rightarrow> provenance_policy \<Rightarrow> (dict \<times> string) res" where
  "verify_envelope C raw policy =
     bindr (decode_envelope raw) (\<lambda>(payload_type, payload, signatures).
       verify_signatures C policy (pae payload_type payload) payload signatures)"

section \<open>The statement\<close>

text \<open>\<open>d.get(k)\<close> where \<open>d\<close> may not be a dict: \<open>None\<close> then.\<close>

definition get_in :: "json \<Rightarrow> string \<Rightarrow> json" where
  "get_in v k = (case as_dict v of None \<Rightarrow> JNull | Some d \<Rightarrow> get d k)"

definition claimed_builder :: "dict \<Rightarrow> json" where
  "claimed_builder statement =
     get_in (get_in (get_in (get statement ''predicate'') ''runDetails'') ''builder'') ''id''"

definition check_builder_claim :: "dict \<Rightarrow> string \<Rightarrow> unit res" where
  "check_builder_claim statement builder_id =
     (if claimed_builder statement \<noteq> JStr builder_id
      then Inl (ProvenanceError ''statement claims another builder'') else Inr ())"

fun find_subject :: "string \<Rightarrow> json list \<Rightarrow> (string \<times> string) res" where
  "find_subject sha256 [] = Inl (ProvenanceError ''no subject matches the artifact digest'')"
| "find_subject sha256 (s # ss) =
     (case as_dict s of
        None \<Rightarrow> find_subject sha256 ss
      | Some subject \<Rightarrow>
          (case as_dict (get subject ''digest'') of
             None \<Rightarrow> find_subject sha256 ss
           | Some digests \<Rightarrow>
               (case as_str (get digests ''sha256'') of
                  None \<Rightarrow> find_subject sha256 ss
                | Some declared \<Rightarrow>
                    if lower declared = lower sha256
                    then Inr (case as_str (get subject ''name'') of None \<Rightarrow> [] | Some n \<Rightarrow> n, lower declared)
                    else find_subject sha256 ss)))"

definition subject_digest :: "dict \<Rightarrow> string \<Rightarrow> (string \<times> string) res" where
  "subject_digest statement artifact_sha256 =
     (case as_list (get statement ''subject'') of
        None \<Rightarrow> Inl (ProvenanceError ''statement has no subject'')
      | Some [] \<Rightarrow> Inl (ProvenanceError ''statement has no subject'')
      | Some subjects \<Rightarrow> find_subject artifact_sha256 subjects)"

fun find_source :: "provenance_policy \<Rightarrow> json list \<Rightarrow> (string \<times> string) res" where
  "find_source policy [] = Inl (ProvenanceError ''no resolved dependency from the project'')"
| "find_source policy (d # ds) =
     (let expected = ''git+'' @ pp_project_url policy in
      case as_dict d of
        None \<Rightarrow> find_source policy ds
      | Some dependency \<Rightarrow>
          (case as_str (get dependency ''uri'') of
             None \<Rightarrow> find_source policy ds
           | Some uri \<Rightarrow>
               if \<not> prefix (expected @ ''@'') uri then find_source policy ds
               else (let ref = drop (length expected + 1) uri in
                     if \<not> prefix (pp_require_tag_ref_prefix policy) ref
                     then Inl (ProvenanceError ''only tag builds may be promoted'')
                     else Inr (uri, ref))))"

definition source_of :: "dict \<Rightarrow> provenance_policy \<Rightarrow> (string \<times> string) res" where
  "source_of statement policy =
     (case as_dict (get statement ''predicate'') of
        None \<Rightarrow> Inl (ProvenanceError ''statement has no predicate'')
      | Some predicate \<Rightarrow>
          (case as_dict (get predicate ''buildDefinition'') of
             None \<Rightarrow> Inl (ProvenanceError ''predicate has no buildDefinition'')
           | Some build_definition \<Rightarrow>
               (case as_list (get build_definition ''resolvedDependencies'') of
                  None \<Rightarrow> Inl (ProvenanceError ''buildDefinition has no resolvedDependencies'')
                | Some dependencies \<Rightarrow> find_source policy dependencies)))"

definition check_statement :: "dict \<Rightarrow> string \<Rightarrow> string \<Rightarrow> provenance_policy \<Rightarrow> provenance res" where
  "check_statement statement builder_id artifact_sha256 policy =
     (if get statement ''_type'' \<noteq> JStr IN_TOTO_STATEMENT_V1
      then Inl (ProvenanceError ''unexpected statement type'')
      else if get statement ''predicateType'' \<noteq> JStr SLSA_PROVENANCE_V1
      then Inl (ProvenanceError ''unexpected predicate type'')
      else bindr (check_builder_claim statement builder_id) (\<lambda>_.
           bindr (subject_digest statement artifact_sha256) (\<lambda>(subject_name, subject_sha256).
           bindr (source_of statement policy) (\<lambda>(source_uri, source_ref).
           Inr \<lparr>pv_builder_id = builder_id, pv_source_uri = source_uri, pv_source_ref = source_ref,
                pv_subject_name = subject_name, pv_subject_sha256 = subject_sha256,
                pv_statement = statement\<rparr>))))"

definition verify_provenance :: "crypto \<Rightarrow> string \<Rightarrow> string \<Rightarrow> provenance_policy \<Rightarrow> provenance res" where
  "verify_provenance C envelope artifact_sha256 policy =
     bindr (verify_envelope C envelope policy) (\<lambda>(statement, builder_id).
       check_statement statement builder_id artifact_sha256 policy)"


section \<open>Encoders, for the round trips\<close>

definition b64_char :: "nat \<Rightarrow> char" where
  "b64_char n = (if n < 26 then char_of (65 + n) else if n < 52 then char_of (71 + n)
     else if n < 62 then char_of (n - 4) else if n = 62 then CHR ''+'' else CHR ''/'')"

fun b64encode :: "string \<Rightarrow> string" where
  "b64encode [] = []"
| "b64encode [a] = [b64_char (code a div 4), b64_char (code a mod 4 * 16), CHR ''='', CHR ''='']"
| "b64encode [a, b] = [b64_char (code a div 4), b64_char (code a mod 4 * 16 + code b div 16),
     b64_char (code b mod 16 * 4), CHR ''='']"
| "b64encode (a # b # c # rest) = [b64_char (code a div 4), b64_char (code a mod 4 * 16 + code b div 16),
     b64_char (code b mod 16 * 4 + code c div 64), b64_char (code c mod 64)] @ b64encode rest"

lemma b64_value_char [simp]: "n < 64 \<Longrightarrow> b64_value (b64_char n) = Some n"
proof -
  assume n: "n < 64"
  have c: "code (CHR ''A'') = 65" "code (CHR ''Z'') = 90" "code (CHR ''a'') = 97" "code (CHR ''z'') = 122"
    "code (CHR ''0'') = 48" "code (CHR ''9'') = 57" "code (CHR ''+'') = 43" "code (CHR ''/'') = 47"
    by (simp_all add: code_def)
  show ?thesis
    using n by (auto simp: b64_value_def b64_char_def is_upper_def is_lower_def is_dec_def in_range_def c)
qed

lemma char_of_code [simp]: "char_of (code c) = c"
  by (simp add: code_def)

lemma b64_pad [simp]: "b64_value (CHR ''='') = None"
  by (simp add: b64_value_def is_upper_def is_lower_def is_dec_def in_range_def code_def)

lemma sextets:
  "code a div 4 < 64" "code a mod 4 * 16 + code b div 16 < 64" "code b mod 16 * 4 + code c div 64 < 64"
  "code a mod 4 * 16 < 64" "code b mod 16 * 4 < 64"
proof -
  have lt: "code a div 4 < 64" "code b div 16 < 16" "code c div 64 < 4"
    using code_less_256 [of a] code_less_256 [of b] code_less_256 [of c] by auto
  have m: "code a mod 4 < 4" "code b mod 16 < 16" by simp_all
  show "code a div 4 < 64" by (rule lt)
  show "code a mod 4 * 16 + code b div 16 < 64" using lt m by linarith
  show "code b mod 16 * 4 + code c div 64 < 64" using lt m by linarith
  show "code a mod 4 * 16 < 64" "code b mod 16 * 4 < 64" using m by linarith+
qed

lemma regroup:
  fixes a b c x y :: nat
  assumes "b < 256" "c < 256"
  shows "a div 4 * 4 + (a mod 4 * 16 + b div 16) div 16 = a"
    "(x * 16 + b div 16) mod 16 * 16 + (b mod 16 * 4 + c div 64) div 4 = b"
    "(y * 4 + c div 64) mod 4 * 64 + c mod 64 = c"
proof -
  have lt: "b div 16 < 16" "c div 64 < 4" using assms by auto
  have "(a mod 4 * 16 + b div 16) div 16 = a mod 4" using lt(1) by simp
  then show "a div 4 * 4 + (a mod 4 * 16 + b div 16) div 16 = a" by simp
  have "(x * 16 + b div 16) mod 16 = b div 16" "(b mod 16 * 4 + c div 64) div 4 = b mod 16"
    using lt by simp_all
  then show "(x * 16 + b div 16) mod 16 * 16 + (b mod 16 * 4 + c div 64) div 4 = b" by simp
  have "(y * 4 + c div 64) mod 4 = c div 64" using lt(2) by simp
  then show "(y * 4 + c div 64) mod 4 * 64 + c mod 64 = c" by simp
qed

lemma b64_roundtrip [simp]: "b64decode (b64encode bs) = Some bs"
proof (induction bs rule: b64encode.induct)
  case (2 a)
  then show ?case using regroup(1) [of 0 0 "code a"] by (simp add: b64_group_def sextets)
next
  case (3 a b)
  have "code b div 16 < 16" using code_less_256 [of b] by auto
  then have "code b div 16 div 16 = 0" "code b div 16 mod 16 * 16 + code b mod 16 = code b"
    by simp_all
  then show ?case by (simp add: b64_group_def sextets)
next
  case (4 a b c rest)
  note r = regroup [OF code_less_256 [of b] code_less_256 [of c]]
  have "code a div 4 * 4 + (code a mod 4 * 16 + code b div 16) div 16 = code a" by (rule r(1))
  moreover have "(code a mod 4 * 16 + code b div 16) mod 16 * 16 + (code b mod 16 * 4 + code c div 64) div 4 = code b"
    by (rule r(2))
  moreover have "(code b mod 16 * 4 + code c div 64) mod 4 * 64 + code c mod 64 = code c" by (rule r(3))
  ultimately show ?case using 4
    by (simp only: b64encode.simps b64decode.simps append.simps b64_group_def sextets b64_value_char) simp
qed simp

lemma b64encode_length: "length (b64encode s) \<le> 4 * length s"
  by (induction s rule: b64encode.induct) auto

section \<open>Facts\<close>

text \<open>What an accepted statement says.\<close>

definition names_digest :: "dict \<Rightarrow> string \<Rightarrow> bool" where
  "names_digest statement sha256 \<longleftrightarrow> (\<exists>subjects subject digests declared.
     get statement ''subject'' = JArr subjects \<and> JObj subject \<in> set subjects
     \<and> get subject ''digest'' = JObj digests \<and> get digests ''sha256'' = JStr declared
     \<and> lower declared = lower sha256)"

definition resolves :: "dict \<Rightarrow> string \<Rightarrow> bool" where
  "resolves statement uri \<longleftrightarrow> (\<exists>predicate bd deps dep.
     get statement ''predicate'' = JObj predicate \<and> get predicate ''buildDefinition'' = JObj bd
     \<and> get bd ''resolvedDependencies'' = JArr deps \<and> JObj dep \<in> set deps \<and> get dep ''uri'' = JStr uri)"

lemma as_Some:
  "as_dict v = Some d \<longleftrightarrow> v = JObj d" "as_list v = Some xs \<longleftrightarrow> v = JArr xs" "as_str v = Some s \<longleftrightarrow> v = JStr s"
  by (cases v; auto)+

lemma find_subject_Inr:
  "find_subject sha256 ss = Inr (n, h) \<Longrightarrow> h = lower sha256 \<and> (\<exists>subject digests declared. JObj subject \<in> set ss
     \<and> get subject ''digest'' = JObj digests \<and> get digests ''sha256'' = JStr declared \<and> lower declared = lower sha256)"
proof (induction ss)
  case (Cons s ss)
  show ?case
  proof (cases "find_subject sha256 (s # ss) = find_subject sha256 ss")
    case True
    with Cons show ?thesis by fastforce
  next
    case False
    with Cons.prems show ?thesis
      by (auto simp: as_Some split: option.splits if_splits)
  qed
qed simp

lemma subject_digest_Inr: "subject_digest st sha256 = Inr (n, h) \<Longrightarrow> h = lower sha256 \<and> names_digest st sha256"
proof -
  assume a: "subject_digest st sha256 = Inr (n, h)"
  then obtain xs where "get st ''subject'' = JArr xs" "find_subject sha256 xs = Inr (n, h)"
    by (auto simp: subject_digest_def as_Some simp del: find_subject.simps split: option.splits list.splits)
  then show ?thesis unfolding names_digest_def using find_subject_Inr by blast
qed

lemma find_source_Inr:
  "find_source policy ds = Inr (uri, ref) \<Longrightarrow> uri = ''git+'' @ pp_project_url policy @ ''@'' @ ref
     \<and> prefix (pp_require_tag_ref_prefix policy) ref
     \<and> (\<exists>dep. JObj dep \<in> set ds \<and> get dep ''uri'' = JStr uri)"
proof (induction ds)
  case (Cons d ds)
  show ?case
  proof (cases "find_source policy (d # ds) = find_source policy ds")
    case True
    with Cons show ?thesis by fastforce
  next
    case False
    with Cons.prems show ?thesis
      by (auto simp: as_Some Let_def prefix_def split: option.splits if_splits)
  qed
qed simp

lemma source_of_Inr: "source_of st policy = Inr (uri, ref) \<Longrightarrow>
    uri = ''git+'' @ pp_project_url policy @ ''@'' @ ref \<and> prefix (pp_require_tag_ref_prefix policy) ref
    \<and> resolves st uri"
  unfolding source_of_def resolves_def
  by (auto simp: as_Some dest!: find_source_Inr split: option.splits)

text \<open>The part of acceptance the two ways of signing share.\<close>

definition statement_ok :: "provenance_policy \<Rightarrow> string \<Rightarrow> string \<Rightarrow> provenance \<Rightarrow> bool" where
  "statement_ok policy sha256 builder_id p \<longleftrightarrow>
     get (pv_statement p) ''_type'' = JStr IN_TOTO_STATEMENT_V1
     \<and> get (pv_statement p) ''predicateType'' = JStr SLSA_PROVENANCE_V1
     \<and> pv_builder_id p = builder_id \<and> claimed_builder (pv_statement p) = JStr builder_id
     \<and> pv_subject_sha256 p = lower sha256 \<and> names_digest (pv_statement p) sha256
     \<and> pv_source_uri p = ''git+'' @ pp_project_url policy @ ''@'' @ pv_source_ref p
     \<and> prefix (pp_require_tag_ref_prefix policy) (pv_source_ref p)
     \<and> resolves (pv_statement p) (pv_source_uri p)"

lemma check_statement_Inr:
  "check_statement st b sha256 policy = Inr p \<Longrightarrow> pv_statement p = st \<and> statement_ok policy sha256 b p"
  unfolding check_statement_def check_builder_claim_def statement_ok_def
  by (auto simp: bindr_eq_Inr_iff split: if_splits dest!: subject_digest_Inr source_of_Inr)

lemma try_signature_Inr:
  assumes "try_signature C policy message entry = Inr (Some b)"
  shows "\<exists>builder key sig. builder \<in> set (pp_trusted_builders policy) \<and> tb_builder_id builder = b
    \<and> cy_load C (tb_public_key_pem builder) = Inr key \<and> cy_verify C key sig message"
proof -
  obtain e keyid es builder s where "builder_for_keyid policy keyid = Some builder"
    "b64decode es = Some s" "bindr (cy_load C (tb_public_key_pem builder)) (\<lambda>key.
       bindr (verify_signature C key s message) (\<lambda>ok. Inr (if ok then Some (tb_builder_id builder) else None))) = Inr (Some b)"
    using assms by (auto simp: try_signature_def split: option.splits)
  then show ?thesis
    unfolding builder_for_keyid_def verify_signature_def
    by (auto simp: bindr_eq_Inr_iff find_Some_iff split: if_splits public_key.splits) (metis nth_mem)+
qed

lemma verify_signatures_Inr:
  "verify_signatures C policy message payload ss = Inr (st, b) \<Longrightarrow>
    loads_bytes payload = Inr (JObj st) \<and>
    (\<exists>builder key sig. builder \<in> set (pp_trusted_builders policy) \<and> tb_builder_id builder = b
      \<and> cy_load C (tb_public_key_pem builder) = Inr key \<and> cy_verify C key sig message)"
proof (induction ss)
  case (Cons s ss)
  from Cons.prems obtain found where f: "try_signature C policy message s = Inr found"
    by (auto simp: bindr_eq_Inr_iff)
  show ?case
  proof (cases found)
    case None
    with f Cons show ?thesis by simp
  next
    case (Some b')
    with f Cons.prems have b: "b' = b" "loads_bytes payload = Inr (JObj st)"
      by (auto simp: as_Some split: sum.splits exn.splits option.splits)
    then show ?thesis using try_signature_Inr f Some by blast
  qed
qed simp


lemma verify_envelope_Inr:
  assumes "verify_envelope C raw policy = Inr (st, b)"
  shows "\<exists>payload builder key sig. loads_bytes payload = Inr (JObj st)
    \<and> builder \<in> set (pp_trusted_builders policy) \<and> tb_builder_id builder = b
    \<and> cy_load C (tb_public_key_pem builder) = Inr key \<and> cy_verify C key sig (pae DSSE_PAYLOAD_TYPE payload)"
proof -
  obtain pt payload ss where d: "decode_envelope raw = Inr (pt, payload, ss)"
    and v: "verify_signatures C policy (pae pt payload) payload ss = Inr (st, b)"
    using assms by (auto simp: verify_envelope_def bindr_eq_Inr_iff)
  have "pt = DSSE_PAYLOAD_TYPE"
    using d by (auto simp: decode_envelope_def split: if_splits sum.splits exn.splits option.splits list.splits)
  with verify_signatures_Inr [OF v] show ?thesis by blast
qed

section \<open>Properties\<close>

text \<open>A statement and its envelope, as a builder writes them.\<close>

definition ex_statement :: dict where
  "ex_statement = [(''_type'', JStr IN_TOTO_STATEMENT_V1), (''predicateType'', JStr SLSA_PROVENANCE_V1),
     (''subject'', JArr [JObj [(''name'', JStr ''a.zip''), (''digest'', JObj [(''sha256'', JStr ''ABCD'')])]]),
     (''predicate'', JObj [(''runDetails'', JObj [(''builder'', JObj [(''id'', JStr ''ci@main'')])]),
        (''buildDefinition'', JObj [(''resolvedDependencies'',
           JArr [JObj [(''uri'', JStr ''git+https://h/p@refs/tags/v1'')]])])])]"

definition ex_payload :: string where "ex_payload = utf8_encode (dumps (JObj ex_statement))"

definition ex_envelope_fields :: dict where
  "ex_envelope_fields = [(''payloadType'', JStr DSSE_PAYLOAD_TYPE),
     (''payload'', JStr (b64encode ex_payload)),
     (''signatures'', JArr [JObj [(''keyid'', JStr ''k1''), (''sig'', JStr (b64encode ''ok''))]])]"

definition ex_envelope :: string where
  "ex_envelope = utf8_encode (dumps (JObj ex_envelope_fields))"

definition ex_crypto :: crypto where
  "ex_crypto = \<lparr>cy_load = (\<lambda>pem. Inr (Ed25519 pem)), cy_verify = (\<lambda>_ sig _. sig = ''ok'')\<rparr>"

definition ex_policy :: provenance_policy where
  "ex_policy = \<lparr>pp_trusted_builders = [\<lparr>tb_builder_id = ''ci@main'', tb_keyid = ''k1'', tb_public_key_pem = ''pem''\<rparr>],
     pp_project_url = ''https://h/p'', pp_require_tag_ref_prefix = ''refs/tags/'', pp_trusted_identities = []\<rparr>"

lemma ex_statement_textual: "textual (JObj ex_statement)"
  by (simp add: ex_statement_def)

lemma ex_statement_checked:
  "\<exists>p. check_statement ex_statement ''ci@main'' ''abcd'' ex_policy = Inr p \<and> pv_builder_id p = ''ci@main'' \<and> pv_source_ref p = ''refs/tags/v1''"
proof -
  have "case check_statement ex_statement ''ci@main'' ''abcd'' ex_policy of Inr p \<Rightarrow> pv_builder_id p = ''ci@main'' \<and> pv_source_ref p = ''refs/tags/v1'' | Inl _ \<Rightarrow> False"
    by code_simp
  then show ?thesis by (auto split: sum.splits)
qed

text \<open>The bytes a DSSE signature covers determine the payload type and the payload, so a signature made
  for one pair can not be replayed for another.\<close>

theorem pae_injective: "pae t p = pae t' p' \<longleftrightarrow> t = t' \<and> p = p'"
proof
  assume eq: "pae t p = pae t' p'"
  have num: "dec m @ CHR '' '' # x = dec n @ CHR '' '' # y \<Longrightarrow> m = n \<and> x = y" for m n x y
  proof -
    assume "dec m @ CHR '' '' # x = dec n @ CHR '' '' # y"
    moreover have "\<not> is_dec (CHR '' '')" by (simp add: is_dec_def in_range_def code_def)
    ultimately have "dec m = dec n \<and> CHR '' '' = CHR '' '' \<and> x = y"
      by (intro span_unique [where P = is_dec]) (auto dest: dec_is_dec)
    then show ?thesis by simp
  qed
  have "dec (length (utf8_encode t)) @ CHR '' '' # (utf8_encode t @ CHR '' '' # dec (length p) @ CHR '' '' # p)
      = dec (length (utf8_encode t')) @ CHR '' '' # (utf8_encode t' @ CHR '' '' # dec (length p') @ CHR '' '' # p')"
    using eq unfolding pae_def Let_def by simp
  from num [OF this] have "length (utf8_encode t) = length (utf8_encode t')
      \<and> utf8_encode t @ CHR '' '' # dec (length p) @ CHR '' '' # p = utf8_encode t' @ CHR '' '' # dec (length p') @ CHR '' '' # p'"
    .
  then have "utf8_encode t = utf8_encode t' \<and> CHR '' '' # dec (length p) @ CHR '' '' # p = CHR '' '' # dec (length p') @ CHR '' '' # p'"
    by (elim conjE) (rule append_eq_append_conv [THEN iffD1, OF disjI1])
  then have "utf8_encode t = utf8_encode t'" and "dec (length p) @ CHR '' '' # p = dec (length p') @ CHR '' '' # p'"
    by simp_all
  moreover from this(2) have "p = p'" using num by blast
  ultimately show "t = t' \<and> p = p'" by (metis utf8_decode_encode option.inject)
qed simp

text \<open>C9: Provenance accepted on the fixed-key path means: the payload of the envelope carries a valid
  signature of a trusted builder's key under the in-toto payload type, is the JSON of the
  returned statement, and that statement has the expected types, claims that same builder, names
  the artifact's digest among its subjects and resolves the policy's project at a ref under the
  required tag prefix.\<close>

theorem verified_provenance_binds:
  assumes "verify_provenance C envelope sha256 policy = Inr p"
  shows "\<exists>payload builder key sig. builder \<in> set (pp_trusted_builders policy)
    \<and> cy_load C (tb_public_key_pem builder) = Inr key \<and> cy_verify C key sig (pae DSSE_PAYLOAD_TYPE payload)
    \<and> loads_bytes payload = Inr (JObj (pv_statement p))
    \<and> statement_ok policy sha256 (tb_builder_id builder) p"
proof -
  obtain st b where v: "verify_envelope C envelope policy = Inr (st, b)"
    and c: "check_statement st b sha256 policy = Inr p"
    using assms by (auto simp: verify_provenance_def bindr_eq_Inr_iff)
  from verify_envelope_Inr [OF v] check_statement_Inr [OF c] show ?thesis by blast
qed

lemma ex_verified:
  "\<exists>p. verify_provenance ex_crypto ex_envelope ''abcd'' ex_policy = Inr p \<and> pv_source_ref p = ''refs/tags/v1''"
proof -
  have "length ex_payload \<le> 2 * weight (JObj ex_statement)"
    unfolding ex_payload_def using utf8_encode_length dumps_length le_trans mult_le_mono2 by meson
  then have "length ex_payload \<le> 10000" by (simp add: ex_statement_def IN_TOTO_STATEMENT_V1_def SLSA_PROVENANCE_V1_def)
  then have "length (b64encode ex_payload) \<le> 40000" using b64encode_length [of ex_payload] by simp
  moreover have "length (b64encode ''ok'') \<le> 8" using b64encode_length [of "''ok''"] by simp
  ultimately have w: "weight (JObj ex_envelope_fields) \<le> 300000"
    by (simp add: ex_envelope_fields_def DSSE_PAYLOAD_TYPE_def)
  have "length ex_envelope \<le> 2 * weight (JObj ex_envelope_fields)"
    unfolding ex_envelope_def using utf8_encode_length dumps_length le_trans mult_le_mono2 by meson
  with w have len: "length ex_envelope \<le> MAX_ENVELOPE_BYTES" by (simp add: MAX_ENVELOPE_BYTES_def)
  have "textual (JObj ex_envelope_fields)" by (simp add: ex_envelope_fields_def)
  then have "loads_bytes ex_envelope = Inr (JObj ex_envelope_fields)"
    unfolding ex_envelope_def by (rule loads_bytes_dumps)
  with len have "decode_envelope ex_envelope = Inr (DSSE_PAYLOAD_TYPE, ex_payload,
      [JObj [(''keyid'', JStr ''k1''), (''sig'', JStr (b64encode ''ok''))]])"
    by (simp add: decode_envelope_def ex_envelope_fields_def get_def)
  moreover have "loads_bytes ex_payload = Inr (JObj ex_statement)"
    unfolding ex_payload_def by (rule loads_bytes_dumps [OF ex_statement_textual])
  moreover have "try_signature ex_crypto ex_policy m (JObj [(''keyid'', JStr ''k1''), (''sig'', JStr (b64encode ''ok''))]) = Inr (Some ''ci@main'')" for m
  proof -
    have "b64decode (b64encode ''ok'') = Some ''ok''" by (rule b64_roundtrip)
    then show ?thesis
      by (simp add: try_signature_def get_def builder_for_keyid_def ex_policy_def ex_crypto_def verify_signature_def
          del: b64encode.simps b64decode.simps)
  qed
  ultimately have "verify_envelope ex_crypto ex_envelope ex_policy = Inr (ex_statement, ''ci@main'')"
    by (simp add: verify_envelope_def)
  then show ?thesis using ex_statement_checked by (auto simp: verify_provenance_def)
qed

theorem verified_provenance_binds_witness:
  "\<exists>p builder. builder \<in> set (pp_trusted_builders ex_policy) \<and> statement_ok ex_policy ''abcd'' (tb_builder_id builder) p
     \<and> pv_source_ref p = ''refs/tags/v1''"
proof -
  obtain p where p: "verify_provenance ex_crypto ex_envelope ''abcd'' ex_policy = Inr p" "pv_source_ref p = ''refs/tags/v1''"
    using ex_verified by blast
  from verified_provenance_binds [OF p(1)] p(2) show ?thesis by blast
qed

end
