(* ===== verification/Attestation.thy ===== *)
theory Attestation
  imports Provenance
begin

text \<open>
  \<^verbatim>\<open>packages/dist-ingest/src/dist_ingest/attestation.py\<close>: provenance signed with Sigstore.  Parsing
  a bundle, creating the production verifier and verifying a bundle against a certificate policy
  belong to the \<^verbatim>\<open>sigstore\<close> package and are arguments (\<open>sigstore\<close>); \<open>None\<close> from the verification is
  its \<^verbatim>\<open>SigstoreError\<close>, and \<open>None\<close> from the parser one of the errors the code turns into its own.
\<close>

datatype cert_clause =
    OIDCIssuer string
  | GitHubWorkflowRepository string
  | OIDCSourceRepositoryIdentifier string
  | OIDCSourceRepositoryOwnerIdentifier string
  | OIDCRunnerEnvironment string

text \<open>\<open>AllOf\<close> of a list of clauses.\<close>

type_synonym cert_policy = "cert_clause list"

record 'b sigstore =
  ss_from_json :: "string \<Rightarrow> 'b option"
  ss_production :: "unit res"
  ss_verify_dsse :: "'b \<Rightarrow> cert_policy \<Rightarrow> (string \<times> string) option"

definition MAX_BUNDLE_BYTES :: nat where "MAX_BUNDLE_BYTES = 4 * 1024 * 1024"

definition certificate_policy :: "certificate_identity \<Rightarrow> cert_policy" where
  "certificate_policy i =
     [OIDCIssuer (ci_issuer i), GitHubWorkflowRepository (ci_repository i),
      OIDCSourceRepositoryIdentifier (ci_repository_id i),
      OIDCSourceRepositoryOwnerIdentifier (ci_repository_owner_id i),
      OIDCRunnerEnvironment (ci_runner_environment i)]"

definition load_bundle :: "'b sigstore \<Rightarrow> string \<Rightarrow> 'b res" where
  "load_bundle S raw =
     (if MAX_BUNDLE_BYTES < length raw then Inl (ProvenanceError ''bundle is over the limit'')
      else (case Option.bind (utf8_decode raw) (ss_from_json S) of
          None \<Rightarrow> Inl (ProvenanceError ''malformed sigstore bundle'')
        | Some bundle \<Rightarrow> Inr bundle))"

definition statement_builder_id :: "dict \<Rightarrow> string res" where
  "statement_builder_id statement =
     (case as_str (claimed_builder statement) of
        None \<Rightarrow> Inl (ProvenanceError ''statement names no builder'')
      | Some claimed \<Rightarrow> if claimed = [] then Inl (ProvenanceError ''statement names no builder'') else Inr claimed)"

text \<open>What is done with the payload once a certificate identity has verified it.\<close>

definition accept_payload ::
  "certificate_identity \<Rightarrow> string \<Rightarrow> string \<Rightarrow> string \<Rightarrow> provenance_policy \<Rightarrow> provenance res" where
  "accept_payload identity payload_type payload artifact_sha256 policy =
     (if payload_type \<noteq> DSSE_PAYLOAD_TYPE then Inl (ProvenanceError ''unexpected DSSE payload type'')
      else (case loads_bytes payload of
          Inl JSONDecodeError \<Rightarrow> Inl (ProvenanceError ''statement is not JSON'')
        | Inl e \<Rightarrow> Inl e
        | Inr v \<Rightarrow>
            (case as_dict v of
               None \<Rightarrow> Inl (ProvenanceError ''statement is not an object'')
             | Some statement \<Rightarrow>
                 bindr (statement_builder_id statement) (\<lambda>builder_id.
                   if \<not> matches_builder identity builder_id
                   then Inl (ProvenanceError ''the statement claims another builder'')
                   else check_statement statement builder_id artifact_sha256 policy))))"

fun try_identities ::
  "'b sigstore \<Rightarrow> 'b \<Rightarrow> string \<Rightarrow> provenance_policy \<Rightarrow> certificate_identity list \<Rightarrow> provenance res" where
  "try_identities S bundle sha256 policy [] =
     Inl (ProvenanceError ''no trusted certificate identity verified this bundle'')"
| "try_identities S bundle sha256 policy (identity # rest) =
     (case ss_verify_dsse S bundle (certificate_policy identity) of
        None \<Rightarrow> try_identities S bundle sha256 policy rest
      | Some (payload_type, payload) \<Rightarrow> accept_payload identity payload_type payload sha256 policy)"

definition verify_sigstore_provenance ::
  "'b sigstore \<Rightarrow> string \<Rightarrow> string \<Rightarrow> provenance_policy \<Rightarrow> provenance res" where
  "verify_sigstore_provenance S bundle_json artifact_sha256 policy =
     (if pp_trusted_identities policy = [] then Inl (ProvenanceError ''policy trusts no certificate identities'')
      else bindr (load_bundle S bundle_json) (\<lambda>bundle.
           bindr (ss_production S) (\<lambda>_.
           try_identities S bundle artifact_sha256 policy (pp_trusted_identities policy))))"

section \<open>Facts\<close>

lemma accept_payload_Inr:
  assumes "accept_payload i pt payload sha256 policy = Inr p"
  shows "pt = DSSE_PAYLOAD_TYPE \<and> loads_bytes payload = Inr (JObj (pv_statement p))
    \<and> matches_builder i (pv_builder_id p) \<and> statement_ok policy sha256 (pv_builder_id p) p"
proof -
  have pt: "pt = DSSE_PAYLOAD_TYPE" using assms by (simp add: accept_payload_def split: if_splits)
  with assms obtain v where v: "loads_bytes payload = Inr v"
    by (auto simp: accept_payload_def split: sum.splits exn.splits)
  with assms pt obtain st b where st: "v = JObj st" and b: "matches_builder i b"
    and c: "check_statement st b sha256 policy = Inr p"
    by (auto simp: accept_payload_def as_Some bindr_eq_Inr_iff split: option.splits if_splits)
  have "pv_statement p = st \<and> statement_ok policy sha256 b p" by (rule check_statement_Inr [OF c])
  moreover from this have "pv_builder_id p = b" by (simp add: statement_ok_def)
  ultimately show ?thesis using pt v st b by simp
qed

lemma try_identities_Inr:
  "try_identities S bundle sha256 policy ids = Inr p \<Longrightarrow>
    \<exists>i \<in> set ids. \<exists>payload. ss_verify_dsse S bundle (certificate_policy i) = Some (DSSE_PAYLOAD_TYPE, payload)
      \<and> loads_bytes payload = Inr (JObj (pv_statement p)) \<and> matches_builder i (pv_builder_id p)
      \<and> statement_ok policy sha256 (pv_builder_id p) p"
proof (induction ids)
  case (Cons i ids)
  show ?case
  proof (cases "ss_verify_dsse S bundle (certificate_policy i)")
    case None
    with Cons show ?thesis by auto
  next
    case (Some x)
    then obtain pt payload where x: "ss_verify_dsse S bundle (certificate_policy i) = Some (pt, payload)" by (cases x) auto
    with Cons.prems have "accept_payload i pt payload sha256 policy = Inr p" by simp
    from accept_payload_Inr [OF this] x show ?thesis by auto
  qed
qed simp

section \<open>Properties\<close>

text \<open>C10: Provenance accepted on the certificate path means that one and the same trusted identity
  verified the bundle under a policy that pins its issuer, repository, both numeric ids and the
  runner, and is the workflow the statement names as builder, up to the ref; what the statement
  has to say is the same as on the fixed-key path.\<close>

theorem sigstore_provenance_binds:
  assumes "verify_sigstore_provenance S raw sha256 policy = Inr p"
  shows "\<exists>identity \<in> set (pp_trusted_identities policy). \<exists>bundle payload ref.
    load_bundle S raw = Inr bundle
    \<and> ss_verify_dsse S bundle [OIDCIssuer (ci_issuer identity), GitHubWorkflowRepository (ci_repository identity),
         OIDCSourceRepositoryIdentifier (ci_repository_id identity),
         OIDCSourceRepositoryOwnerIdentifier (ci_repository_owner_id identity),
         OIDCRunnerEnvironment (ci_runner_environment identity)] = Some (DSSE_PAYLOAD_TYPE, payload)
    \<and> loads_bytes payload = Inr (JObj (pv_statement p))
    \<and> pv_builder_id p = ci_workflow_uri identity @ ''@'' @ ref
    \<and> statement_ok policy sha256 (pv_builder_id p) p"
proof -
  obtain bd where b: "load_bundle S raw = Inr bd"
    and t: "try_identities S bd sha256 policy (pp_trusted_identities policy) = Inr p"
    using assms by (auto simp: verify_sigstore_provenance_def bindr_eq_Inr_iff split: if_splits)
  from try_identities_Inr [OF t] obtain i payload where i: "i \<in> set (pp_trusted_identities policy)"
    and v: "ss_verify_dsse S bd (certificate_policy i) = Some (DSSE_PAYLOAD_TYPE, payload)"
    and rest: "loads_bytes payload = Inr (JObj (pv_statement p))" "matches_builder i (pv_builder_id p)"
      "statement_ok policy sha256 (pv_builder_id p) p" by blast
  obtain ref where "pv_builder_id p = ci_workflow_uri i @ ''@'' @ ref"
    using rest(2) by (auto simp: matches_builder_def prefix_def)
  with i v rest b show ?thesis unfolding certificate_policy_def by blast
qed

definition ex_identity :: certificate_identity where
  "ex_identity = \<lparr>ci_workflow_uri = ''ci'', ci_issuer = ''iss'', ci_repository = ''h/p'', ci_repository_id = ''42'',
     ci_repository_owner_id = ''9'', ci_runner_environment = ''github-hosted''\<rparr>"

definition ex_sigstore :: "string sigstore" where
  "ex_sigstore = \<lparr>ss_from_json = Some, ss_production = Inr (),
     ss_verify_dsse = (\<lambda>b cs. if OIDCSourceRepositoryIdentifier ''42'' \<in> set cs
       then Some (DSSE_PAYLOAD_TYPE, ex_payload) else None)\<rparr>"

definition ex_cert_policy :: provenance_policy where
  "ex_cert_policy = ex_policy\<lparr>pp_trusted_builders := [],
     pp_trusted_identities := [ex_identity\<lparr>ci_repository_id := ''41''\<rparr>, ex_identity]\<rparr>"

lemma find_source_cong:
  "pp_project_url p = pp_project_url q \<Longrightarrow> pp_require_tag_ref_prefix p = pp_require_tag_ref_prefix q \<Longrightarrow>
    find_source p deps = find_source q deps"
  by (induction deps) (simp_all add: Let_def split: option.split)

text \<open>The example payload is accepted under every policy for the example project.\<close>

lemma ex_payload_accepted:
  assumes "pp_project_url policy = ''https://h/p''" "pp_require_tag_ref_prefix policy = ''refs/tags/''"
  shows "\<exists>p. accept_payload ex_identity DSSE_PAYLOAD_TYPE ex_payload ''abcd'' policy = Inr p
    \<and> pv_builder_id p = ''ci@main'' \<and> pv_source_ref p = ''refs/tags/v1''"
proof -
  obtain p where "check_statement ex_statement ''ci@main'' ''abcd'' ex_policy = Inr p" "pv_builder_id p = ''ci@main''"
    "pv_source_ref p = ''refs/tags/v1''"
    using ex_statement_checked by blast
  moreover have "check_statement ex_statement ''ci@main'' ''abcd'' policy = check_statement ex_statement ''ci@main'' ''abcd'' ex_policy"
    using find_source_cong [of policy ex_policy] assms
    by (simp add: check_statement_def source_of_def ex_policy_def cong: option.case_cong)
  moreover have "loads_bytes ex_payload = Inr (JObj ex_statement)"
    unfolding ex_payload_def by (rule loads_bytes_dumps [OF ex_statement_textual])
  moreover have "statement_builder_id ex_statement = Inr ''ci@main''" "matches_builder ex_identity ''ci@main''"
    by code_simp+
  ultimately show ?thesis by (simp add: accept_payload_def)
qed

lemma ex_bundle_loads: "length b \<le> 100 \<Longrightarrow> load_bundle ex_sigstore (utf8_encode b) = Inr b"
  using utf8_encode_length [of b] by (simp add: load_bundle_def ex_sigstore_def MAX_BUNDLE_BYTES_def)

lemma ex_cert_verified:
  "\<exists>p. verify_sigstore_provenance ex_sigstore ''bundle'' ''abcd'' ex_cert_policy = Inr p"
proof -
  obtain p where "accept_payload ex_identity DSSE_PAYLOAD_TYPE ex_payload ''abcd'' ex_cert_policy = Inr p"
    using ex_payload_accepted [of ex_cert_policy] by (auto simp: ex_cert_policy_def ex_policy_def)
  moreover have "load_bundle ex_sigstore ''bundle'' = Inr ''bundle''"
    by (simp add: load_bundle_def ex_sigstore_def MAX_BUNDLE_BYTES_def code_def)
  ultimately have "verify_sigstore_provenance ex_sigstore ''bundle'' ''abcd'' ex_cert_policy = Inr p"
    by (simp add: verify_sigstore_provenance_def ex_cert_policy_def)
      (simp add: ex_sigstore_def certificate_policy_def ex_identity_def ex_cert_policy_def)
  then show ?thesis ..
qed

theorem sigstore_provenance_binds_witness:
  "\<exists>p identity. identity \<in> set (pp_trusted_identities ex_cert_policy)
     \<and> verify_sigstore_provenance ex_sigstore ''bundle'' ''abcd'' ex_cert_policy = Inr p
     \<and> statement_ok ex_cert_policy ''abcd'' (pv_builder_id p) p"
proof -
  obtain p where v: "verify_sigstore_provenance ex_sigstore ''bundle'' ''abcd'' ex_cert_policy = Inr p"
    using ex_cert_verified ..
  from sigstore_provenance_binds [OF v] v show ?thesis by blast
qed

end
