(* ===== verification/Gates.thy ===== *)
theory Gates
  imports Json
begin

text \<open>
  \<^verbatim>\<open>packages/dist-ingest/src/dist_ingest/gates.py\<close>.  How the standard library reads the directory
  of a ZIP or TAR file is an argument (\<open>members\<close>): \<open>None\<close> for bytes neither module recognises, the
  names and sizes of the members otherwise, or the exception the reader raises.  The external
  services are arguments too.  The expansion ratio is the exact quotient.
\<close>

section \<open>Archives\<close>

record archive_limits =
  al_max_entries :: nat
  al_max_total_uncompressed :: int
  al_max_expansion_ratio :: rat

definition ArchiveLimits :: archive_limits where
  "ArchiveLimits = \<lparr>al_max_entries = 100000, al_max_total_uncompressed = 8 * 1024 * 1024 * 1024,
     al_max_expansion_ratio = 200\<rparr>"

text \<open>A ratio of \<open>None\<close> is \<open>float("inf")\<close>.\<close>

record archive_report =
  ar_entries :: nat
  ar_total_uncompressed :: int
  ar_expansion_ratio :: "rat option"

type_synonym members = "string \<Rightarrow> (string \<times> int) list option res"

definition check_entry_name :: "string \<Rightarrow> unit res" where
  "check_entry_name name =
     (if name = [] \<or> name = ''.'' \<or> name = ''..'' then Inl (GateError ''archive entry has an unusable name'')
      else if hd name = CHR ''/'' \<or> hd name = CHR 0x5C then Inl (GateError ''archive entry is an absolute path'')
      else if CHR 0x5C \<in> set name then Inl (GateError ''archive entry contains a backslash separator'')
      else if 1 < length name \<and> name ! 1 = CHR '':'' then Inl (GateError ''archive entry carries a drive letter'')
      else if ''..'' \<in> set (split_on (CHR ''/'') name) then Inl (GateError ''archive entry traverses out of the archive root'')
      else if CHR 0x00 \<in> set name then Inl (GateError ''archive entry name contains a NUL byte'')
      else Inr ())"

fun check_members :: "int \<Rightarrow> int \<Rightarrow> (string \<times> int) list \<Rightarrow> int res" where
  "check_members max_total tot [] = Inr tot"
| "check_members max_total tot ((name, sz) # rest) =
     bindr (check_entry_name name) (\<lambda>_.
       if max_total < tot + sz then Inl (GateError ''archive expands to too many bytes'')
       else check_members max_total (tot + sz) rest)"

definition exceeds :: "rat \<Rightarrow> rat option \<Rightarrow> bool" where
  "exceeds limit ratio = (case ratio of None \<Rightarrow> True | Some r \<Rightarrow> limit < r)"

definition inspect_archive :: "members \<Rightarrow> archive_limits \<Rightarrow> string \<Rightarrow> archive_report option res" where
  "inspect_archive members limits content =
     bindr (members content) (\<lambda>ms. case ms of
         None \<Rightarrow> Inr None
       | Some names_and_sizes \<Rightarrow>
           if al_max_entries limits < length names_and_sizes then Inl (GateError ''archive holds too many entries'')
           else bindr (check_members (al_max_total_uncompressed limits) 0 names_and_sizes) (\<lambda>tot.
             let compressed = length content;
                 ratio = (if compressed = 0 then None else Some (of_int tot / of_nat compressed)) in
             if exceeds (al_max_expansion_ratio limits) ratio
             then Inl (GateError ''archive expands too much'')
             else Inr (Some \<lparr>ar_entries = length names_and_sizes, ar_total_uncompressed = tot,
                             ar_expansion_ratio = ratio\<rparr>)))"

section \<open>External gates\<close>

record content_gates =
  cg_malware :: "(string \<Rightarrow> bool res) option"
  cg_publisher :: "(string \<Rightarrow> string \<Rightarrow> bool res) option"
  cg_require_sbom :: bool
  cg_skip :: "string set"

text \<open>One gate that needs a service: skipped by name, refused when nothing is wired in, or run.\<close>

definition malware_gate :: "content_gates \<Rightarrow> string \<Rightarrow> string list res" where
  "malware_gate gates content =
     (if ''malware'' \<in> cg_skip gates then Inr [''malware'']
      else (case cg_malware gates of
          None \<Rightarrow> Inl (GateNotConfiguredError ''no malware scanner configured'')
        | Some is_clean \<Rightarrow> bindr (is_clean content) (\<lambda>clean.
            if clean then Inr [] else Inl (GateError ''malware scan failed''))))"

definition publisher_gate :: "content_gates \<Rightarrow> string \<Rightarrow> string \<Rightarrow> string list res" where
  "publisher_gate gates content app_id =
     (if ''publisher'' \<in> cg_skip gates then Inr [''publisher'']
      else (case cg_publisher gates of
          None \<Rightarrow> Inl (GateNotConfiguredError ''no publisher check configured'')
        | Some matches \<Rightarrow> bindr (matches content app_id) (\<lambda>ok.
            if ok then Inr [] else Inl (GateError ''publisher does not match''))))"

definition sbom_gate :: "content_gates \<Rightarrow> string option \<Rightarrow> string list res" where
  "sbom_gate gates sbom =
     (if ''sbom'' \<in> cg_skip gates then Inr [''sbom'']
      else if cg_require_sbom gates \<and> (sbom = None \<or> sbom = Some [])
      then Inl (GateError ''no SBOM accompanies this artifact'') else Inr [])"

definition run_content_gates ::
  "content_gates \<Rightarrow> string \<Rightarrow> string \<Rightarrow> string option \<Rightarrow> string list res" where
  "run_content_gates gates content app_id sbom =
     bindr (malware_gate gates content) (\<lambda>a.
     bindr (publisher_gate gates content app_id) (\<lambda>b.
     bindr (sbom_gate gates sbom) (\<lambda>c. Inr (a @ b @ c))))"

definition describe_failures :: "string list \<Rightarrow> string" where
  "describe_failures errors = join ''; '' errors"

section \<open>Facts\<close>

text \<open>Where a member name leads when it is joined to a root by a resolver that honours \<^verbatim>\<open>..\<close>, \<^verbatim>\<open>.\<close>
  and empty segments: \<open>None\<close> when it leaves the root.\<close>

fun resolve :: "string list \<Rightarrow> string list \<Rightarrow> string list option" where
  "resolve acc [] = Some acc"
| "resolve acc (seg # segs) =
     (if seg = ''..'' then (case acc of [] \<Rightarrow> None | _ \<Rightarrow> resolve (butlast acc) segs)
      else if seg = [] \<or> seg = ''.'' then resolve acc segs
      else resolve (acc @ [seg]) segs)"

lemma resolve_inside:
  "''..'' \<notin> set segs \<Longrightarrow> \<exists>r. resolve acc segs = Some (acc @ r)"
proof (induction segs arbitrary: acc)
  case (Cons seg segs)
  then have "''..'' \<notin> set segs" "seg \<noteq> ''..''" by auto
  then show ?case using Cons.IH [of acc] Cons.IH [of "acc @ [seg]"] by auto
qed simp

lemma check_entry_name_Inr:
  "check_entry_name name = Inr u \<longleftrightarrow> name \<noteq> [] \<and> name \<noteq> ''.'' \<and> hd name \<noteq> CHR ''/'' \<and> CHR 0x5C \<notin> set name
     \<and> \<not> (1 < length name \<and> name ! 1 = CHR '':'') \<and> ''..'' \<notin> set (split_on (CHR ''/'') name) \<and> CHR 0x00 \<notin> set name"
  by (cases name) (auto simp: check_entry_name_def)

lemma check_members_Inr:
  "check_members m t ms = Inr r \<Longrightarrow> r = t + sum_list (map snd ms) \<and> (r \<le> m \<or> ms = [])
    \<and> (\<forall>(n, s) \<in> set ms. check_entry_name n = Inr ())"
  by (induction ms arbitrary: t) (fastforce split: if_splits)+

section \<open>Properties\<close>

text \<open>C40: An archive that passes inspection has no more members, no more bytes and no larger expansion
  than the limits, and every member name, joined to any directory by a resolver that follows
  \<^verbatim>\<open>..\<close>, stays inside that directory: it is relative, its second character is no colon (so it carries
  no drive letter), and it holds no backslash and no NUL.\<close>

theorem inspected_archive_is_bounded:
  assumes "inspect_archive members limits content = Inr (Some report)"
  shows "\<exists>ms. members content = Inr (Some ms) \<and> ar_entries report = length ms
    \<and> length ms \<le> al_max_entries limits
    \<and> ar_total_uncompressed report = sum_list (map snd ms)
    \<and> (sum_list (map snd ms) \<le> al_max_total_uncompressed limits \<or> ms = [])
    \<and> of_int (sum_list (map snd ms)) \<le> al_max_expansion_ratio limits * of_nat (length content)
    \<and> (\<forall>(name, sz) \<in> set ms. name \<noteq> [] \<and> \<not> (1 < length name \<and> name ! 1 = CHR '':'') \<and> hd name \<noteq> CHR ''/'' \<and> CHR 0x5C \<notin> set name \<and> CHR 0x00 \<notin> set name
         \<and> (\<forall>dir. \<exists>inside. resolve dir (split_on (CHR ''/'') name) = Some (dir @ inside)))"
proof -
  obtain ms tot where ms: "members content = Inr (Some ms)" "length ms \<le> al_max_entries limits"
    and cm: "check_members (al_max_total_uncompressed limits) 0 ms = Inr tot"
    and ne: "content \<noteq> []" and ratio: "of_int tot / of_nat (length content) \<le> al_max_expansion_ratio limits"
    and rep: "ar_entries report = length ms" "ar_total_uncompressed report = tot"
    using assms by (auto simp: inspect_archive_def bindr_eq_Inr_iff Let_def exceeds_def split: option.splits if_splits)
  note t = check_members_Inr [OF cm]
  have "of_int tot \<le> al_max_expansion_ratio limits * of_nat (length content)"
    using ratio ne by (simp add: pos_divide_le_eq)
  moreover have "name \<noteq> [] \<and> \<not> (1 < length name \<and> name ! 1 = CHR '':'') \<and> hd name \<noteq> CHR ''/'' \<and> CHR 0x5C \<notin> set name \<and> CHR 0x00 \<notin> set name
      \<and> (\<forall>dir. \<exists>inside. resolve dir (split_on (CHR ''/'') name) = Some (dir @ inside))"
    if "(name, sz) \<in> set ms" for name sz
    using t that resolve_inside by (fastforce simp: check_entry_name_Inr)
  ultimately show ?thesis using ms t rep by auto
qed

theorem inspected_archive_is_bounded_witness:
  "\<exists>inside. resolve [''srv'', ''x''] (split_on (CHR ''/'') ''a/b.txt'') = Some ([''srv'', ''x''] @ inside)"
proof -
  let ?m = "(\<lambda>_. Inr (Some [(''a/b.txt'', 30)])) :: members"
  have "check_entry_name ''a/b.txt'' = Inr ()" by code_simp
  then have "inspect_archive ?m ArchiveLimits ''0123456789'' =
      Inr (Some \<lparr>ar_entries = 1, ar_total_uncompressed = 30, ar_expansion_ratio = Some 3\<rparr>)"
    by (simp add: inspect_archive_def ArchiveLimits_def exceeds_def)
  from inspected_archive_is_bounded [OF this] show ?thesis by auto
qed

text \<open>A gate never passes by not running: when the content gates return, every gate that is not
  reported as skipped was configured and said yes about this artifact, and what is reported as
  skipped is exactly what the operator named, in the order of the gates.\<close>

theorem content_gates_report_skips:
  assumes "run_content_gates gates content app_id sbom = Inr skipped"
  shows "skipped = filter (\<lambda>g. g \<in> cg_skip gates) [''malware'', ''publisher'', ''sbom'']
    \<and> (\<forall>g \<in> {''malware'', ''publisher'', ''sbom''} - set skipped. g \<notin> cg_skip gates)
    \<and> (''malware'' \<notin> set skipped \<longrightarrow> (\<exists>f. cg_malware gates = Some f \<and> f content = Inr True))
    \<and> (''publisher'' \<notin> set skipped \<longrightarrow> (\<exists>f. cg_publisher gates = Some f \<and> f content app_id = Inr True))
    \<and> (''sbom'' \<notin> set skipped \<and> cg_require_sbom gates \<longrightarrow> (\<exists>c cs. sbom = Some (c # cs)))"
proof -
  obtain a b c where a: "malware_gate gates content = Inr a" and b: "publisher_gate gates content app_id = Inr b"
    and c: "sbom_gate gates sbom = Inr c" and s: "skipped = a @ b @ c"
    using assms by (auto simp: run_content_gates_def bindr_eq_Inr_iff)
  have A: "a = (if ''malware'' \<in> cg_skip gates then [''malware''] else [])"
    "''malware'' \<notin> cg_skip gates \<Longrightarrow> \<exists>f. cg_malware gates = Some f \<and> f content = Inr True"
    using a by (auto simp: malware_gate_def bindr_eq_Inr_iff split: if_splits option.splits)
  have B: "b = (if ''publisher'' \<in> cg_skip gates then [''publisher''] else [])"
    "''publisher'' \<notin> cg_skip gates \<Longrightarrow> \<exists>f. cg_publisher gates = Some f \<and> f content app_id = Inr True"
    using b by (auto simp: publisher_gate_def bindr_eq_Inr_iff split: if_splits option.splits)
  have C: "c = (if ''sbom'' \<in> cg_skip gates then [''sbom''] else [])"
    "''sbom'' \<notin> cg_skip gates \<Longrightarrow> cg_require_sbom gates \<Longrightarrow> \<exists>x xs. sbom = Some (x # xs)"
    using c by (cases sbom; cases "the sbom"; simp add: sbom_gate_def split: if_splits)+
  show ?thesis using A B C s by auto
qed

theorem content_gates_report_skips_witness:
  "run_content_gates \<lparr>cg_malware = Some (\<lambda>_. Inr True), cg_publisher = None, cg_require_sbom = True,
       cg_skip = {''publisher''}\<rparr> ''bytes'' ''app'' (Some ''sbom'') = Inr [''publisher'']
   \<and> ''publisher'' \<in> set [''publisher'']"
proof -
  let ?g = "\<lparr>cg_malware = Some (\<lambda>_. Inr True), cg_publisher = None, cg_require_sbom = True, cg_skip = {''publisher''}\<rparr>"
  have r: "run_content_gates ?g ''bytes'' ''app'' (Some ''sbom'') = Inr [''publisher'']" by code_simp
  from content_gates_report_skips [OF r] r show ?thesis by simp
qed

end
