(* ===== verification/Roles.thy ===== *)
theory Roles
  imports Prelude
begin

text \<open>
  \<^verbatim>\<open>packages/dist-core/src/dist_core/roles.py\<close>: TUF role names, thresholds, key counts,
  expiries and key custody, and the naming and policy of an application's delegated role.
  Expiries (\<open>timedelta\<close>) are in seconds.
\<close>

definition ROOT :: string where "ROOT = ''root''"
definition TARGETS :: string where "TARGETS = ''targets''"
definition SNAPSHOT :: string where "SNAPSHOT = ''snapshot''"
definition TIMESTAMP :: string where "TIMESTAMP = ''timestamp''"

definition TOP_LEVEL_ROLES :: "string list" where
  "TOP_LEVEL_ROLES = [ROOT, TARGETS, SNAPSHOT, TIMESTAMP]"

lemmas role_name_defs = ROOT_def TARGETS_def SNAPSHOT_def TIMESTAMP_def

definition app_id_char :: "char \<Rightarrow> bool" where
  "app_id_char c \<longleftrightarrow> is_lower c \<or> is_dec c"

text \<open>\<^verbatim>\<open>[a-z0-9][a-z0-9-]{1,62}\<close>, the pattern between its anchors.\<close>

fun app_id_body :: "string \<Rightarrow> bool" where
  "app_id_body [] = False"
| "app_id_body (c # cs) =
     (app_id_char c \<and> 1 \<le> length cs \<and> length cs \<le> 62
      \<and> list_all (\<lambda>x. app_id_char x \<or> x = CHR ''-'') cs)"

text \<open>\<open>APP_ID_PATTERN.match\<close>.\<close>

definition APP_ID_PATTERN :: "string \<Rightarrow> bool" where
  "APP_ID_PATTERN = match_dollar app_id_body"

definition APP_ROLE_PREFIX :: string where "APP_ROLE_PREFIX = ''app-''"

datatype key_store = OFFLINE | ONLINE

record role_policy =
  rp_name :: string
  rp_keystore :: key_store
  rp_threshold :: int
  rp_expiry :: int
  rp_key_count :: int

definition days :: "int \<Rightarrow> int" where "days n = n * 86400"

text \<open>The dataclass constructor with its \<open>__post_init__\<close> check.\<close>

definition RolePolicy :: "string \<Rightarrow> key_store \<Rightarrow> int \<Rightarrow> int \<Rightarrow> int \<Rightarrow> role_policy res" where
  "RolePolicy name ks threshold expiry key_count =
     (if key_count < threshold then Inl (ValueError ''key_count is below threshold'')
      else Inr \<lparr>rp_name = name, rp_keystore = ks, rp_threshold = threshold,
                rp_expiry = expiry, rp_key_count = key_count\<rparr>)"

definition ROOT_POLICY :: role_policy where
  "ROOT_POLICY = \<lparr>rp_name = ROOT, rp_keystore = OFFLINE, rp_threshold = 3,
     rp_expiry = days 365, rp_key_count = 5\<rparr>"

definition TARGETS_POLICY :: role_policy where
  "TARGETS_POLICY = \<lparr>rp_name = TARGETS, rp_keystore = OFFLINE, rp_threshold = 2,
     rp_expiry = days 90, rp_key_count = 3\<rparr>"

definition SNAPSHOT_POLICY :: role_policy where
  "SNAPSHOT_POLICY = \<lparr>rp_name = SNAPSHOT, rp_keystore = ONLINE, rp_threshold = 1,
     rp_expiry = days 7, rp_key_count = 1\<rparr>"

definition TIMESTAMP_POLICY :: role_policy where
  "TIMESTAMP_POLICY = \<lparr>rp_name = TIMESTAMP, rp_keystore = ONLINE, rp_threshold = 1,
     rp_expiry = days 1, rp_key_count = 1\<rparr>"

lemmas policy_defs = ROOT_POLICY_def TARGETS_POLICY_def SNAPSHOT_POLICY_def TIMESTAMP_POLICY_def

text \<open>The dict, in the insertion order the source gives it.\<close>

definition TOP_LEVEL_POLICIES :: "(string \<times> role_policy) list" where
  "TOP_LEVEL_POLICIES = map (\<lambda>p. (rp_name p, p))
     [ROOT_POLICY, TARGETS_POLICY, SNAPSHOT_POLICY, TIMESTAMP_POLICY]"

definition APP_ROLE_EXPIRY :: int where "APP_ROLE_EXPIRY = days 14"

definition app_role_name :: "string \<Rightarrow> string res" where
  "app_role_name app_id =
     (if \<not> APP_ID_PATTERN app_id then Inl (ValueError ''invalid app id'')
      else Inr (APP_ROLE_PREFIX @ app_id))"

definition app_role_policy :: "string \<Rightarrow> bool \<Rightarrow> role_policy res" where
  "app_role_policy app_id critical =
     bindr (app_role_name app_id) (\<lambda>name.
       RolePolicy name (if critical then OFFLINE else ONLINE) 1 APP_ROLE_EXPIRY 1)"

section \<open>Facts the other components use\<close>

lemma app_id_char_class [char_class]:
  "app_id_char c \<Longrightarrow> c \<noteq> CHR ''/'' \<and> c \<noteq> CHR 0x5C \<and> c \<noteq> CHR ''.'' \<and> c \<noteq> CHR ''_'' \<and> c \<noteq> CHR ''-''"
  by (auto simp: app_id_char_def char_class_defs)

lemma app_id_body_chars:
  "app_id_body s \<Longrightarrow> c \<in> set s \<Longrightarrow> app_id_char c \<or> c = CHR ''-''"
  by (cases s) (auto simp: list_all_iff)

lemma app_id_body_length: "app_id_body s \<Longrightarrow> 2 \<le> length s \<and> length s \<le> 63"
  by (cases s) auto

lemma APP_ID_PATTERN_chars:
  "APP_ID_PATTERN s \<Longrightarrow> c \<in> set s \<Longrightarrow> app_id_char c \<or> c = CHR ''-'' \<or> c = newline"
  unfolding APP_ID_PATTERN_def by (erule match_dollarE) (auto dest: app_id_body_chars)

lemma APP_ID_PATTERN_ne: "APP_ID_PATTERN s \<Longrightarrow> s \<noteq> []"
  unfolding APP_ID_PATTERN_def by (erule match_dollarE) auto

lemma APP_ID_PATTERN_no_slash: "APP_ID_PATTERN s \<Longrightarrow> CHR ''/'' \<notin> set s"
  by (auto dest!: APP_ID_PATTERN_chars simp: newline_def dest: char_class)

lemma app_role_name_Inr_iff:
  "app_role_name a = Inr r \<longleftrightarrow> APP_ID_PATTERN a \<and> r = APP_ROLE_PREFIX @ a"
  by (auto simp: app_role_name_def)

lemma app_role_name_not_top:
  "app_role_name a = Inr r \<Longrightarrow> r \<notin> set TOP_LEVEL_ROLES"
  by (auto simp: app_role_name_Inr_iff TOP_LEVEL_ROLES_def role_name_defs APP_ROLE_PREFIX_def)

lemma app_role_policy_Inr_iff:
  "app_role_policy a critical = Inr p \<longleftrightarrow>
     APP_ID_PATTERN a \<and>
     p = \<lparr>rp_name = APP_ROLE_PREFIX @ a, rp_keystore = (if critical then OFFLINE else ONLINE),
          rp_threshold = 1, rp_expiry = APP_ROLE_EXPIRY, rp_key_count = 1\<rparr>"
  by (auto simp: app_role_policy_def RolePolicy_def app_role_name_def bindr_eq_Inr_iff)

section \<open>Properties\<close>

text \<open>An accepted application id gives a role name that is safe as a file name and clashes
  with no top-level role: it has no path separator, dot or underscore, at most 68 characters,
  and the map from ids to role names is injective.\<close>

theorem app_role_name_safe:
  assumes "app_role_name a = Inr r"
  shows "set r \<inter> {CHR ''/'', CHR 0x5C, CHR ''.'', CHR ''_''} = {}
    \<and> length r \<le> 68 \<and> r \<notin> set TOP_LEVEL_ROLES
    \<and> (\<forall>b. app_role_name b = Inr r \<longrightarrow> b = a)"
proof -
  from assms have a: "APP_ID_PATTERN a" and r: "r = APP_ROLE_PREFIX @ a"
    by (auto simp: app_role_name_Inr_iff)
  have "set r \<inter> {CHR ''/'', CHR 0x5C, CHR ''.'', CHR ''_''} = {}"
    using APP_ID_PATTERN_chars [OF a] app_id_char_class
    by (fastforce simp: r APP_ROLE_PREFIX_def newline_def)
  moreover have "length a \<le> 64"
    using a unfolding APP_ID_PATTERN_def
    by (rule match_dollarE) (auto dest: app_id_body_length)
  ultimately show ?thesis
    using app_role_name_not_top [OF assms] r
    by (auto simp: app_role_name_Inr_iff APP_ROLE_PREFIX_def)
qed

theorem app_role_name_safe_witness:
  "set ''app-my-app'' \<inter> {CHR ''/'', CHR 0x5C, CHR ''.'', CHR ''_''} = {}
    \<and> length ''app-my-app'' \<le> 68 \<and> ''app-my-app'' \<notin> set TOP_LEVEL_ROLES"
proof -
  have "app_role_name ''my-app'' = Inr ''app-my-app''" by code_simp
  from app_role_name_safe [OF this] show ?thesis by blast
qed

text \<open>The pattern's \<open>$\<close> also matches before a final newline, so an id that ends in a
  newline is accepted although no newline is in the character set the pattern lists: the role
  name, which becomes a file name, then carries it.\<close>

theorem app_role_name_newline:
  "app_id_body a \<Longrightarrow> app_role_name (a @ [newline]) = Inr (APP_ROLE_PREFIX @ a @ [newline])"
  by (simp add: app_role_name_def APP_ID_PATTERN_def match_dollar_newline)

theorem app_role_name_newline_witness:
  "app_role_name (''my-app'' @ [newline]) = Inr (APP_ROLE_PREFIX @ ''my-app'' @ [newline])"
  by (rule app_role_name_newline) code_simp

text \<open>The deployed policies: every top-level policy passes the constructor's check, exactly
  \<open>root\<close> and \<open>targets\<close> are held offline, \<open>root\<close> survives the loss of two keys and
  \<open>targets\<close> of one, and every online top-level role expires sooner than an application's role.\<close>

theorem top_level_policies_spare_keys:
  "\<forall>(name, p) \<in> set TOP_LEVEL_POLICIES.
     RolePolicy name (rp_keystore p) (rp_threshold p) (rp_expiry p) (rp_key_count p) = Inr p
     \<and> (rp_keystore p = OFFLINE \<longleftrightarrow> name \<in> {ROOT, TARGETS})
     \<and> rp_key_count p - rp_threshold p = (if name = ROOT then 2 else if name = TARGETS then 1 else 0)
     \<and> (rp_keystore p = ONLINE \<longrightarrow> rp_expiry p < APP_ROLE_EXPIRY)"
  by (simp add: TOP_LEVEL_POLICIES_def policy_defs RolePolicy_def role_name_defs
      APP_ROLE_EXPIRY_def days_def)

theorem top_level_policies_spare_keys_witness:
  "rp_key_count ROOT_POLICY - rp_threshold ROOT_POLICY = 2"
  using top_level_policies_spare_keys
  by (simp add: TOP_LEVEL_POLICIES_def policy_defs role_name_defs)

end
