(* ===== verification/Policy.thy ===== *)
theory Policy
  imports Attestation Gates Quarantine Roles
begin

text \<open>
  \<^verbatim>\<open>packages/dist-ingest/src/dist_ingest/policy.py\<close>: what happens to a candidate once it is in
  quarantine.  The external parties (the \<^verbatim>\<open>cryptography\<close> and \<^verbatim>\<open>sigstore\<close> packages, the archive
  readers, the hash) are gathered in one argument.
\<close>

datatype promotion = PROMOTE | HOLD_FOR_CEREMONY | REJECT

record app_ingest_policy =
  ap_app_id :: string
  ap_critical :: bool
  ap_provenance :: provenance_policy
  ap_archive_limits :: archive_limits
  ap_content_gates :: content_gates

definition keystore :: "app_ingest_policy \<Rightarrow> key_store res" where
  "keystore policy = bindr (app_role_policy (ap_app_id policy) (ap_critical policy)) (\<lambda>p. Inr (rp_keystore p))"

text \<open>The reason is the fixed part of its text, with the part after the colon of a refusal kept as
  the exception it prints.\<close>

datatype reason =
    NotAdmitted exn
  | NoAttestation
  | ProvenanceRejected exn
  | GateFailed exn
  | OfflineKey
  | AllGatesPassed string string
  | GatesSkipped "string list" string string

record outcome =
  oc_decision :: promotion
  oc_reason :: reason
  oc_admitted :: "admitted option"
  oc_provenance :: "provenance option"
  oc_archive :: "archive_report option"
  oc_skipped_gates :: "string list"

definition Outcome :: "promotion \<Rightarrow> reason \<Rightarrow> outcome" where
  "Outcome decision reason = \<lparr>oc_decision = decision, oc_reason = reason, oc_admitted = None,
     oc_provenance = None, oc_archive = None, oc_skipped_gates = []\<rparr>"

definition promoted :: "outcome \<Rightarrow> bool" where
  "promoted oc \<longleftrightarrow> oc_decision oc = PROMOTE"

record 'b world =
  w_sha :: "string \<Rightarrow> string"
  w_crypto :: crypto
  w_sigstore :: "'b sigstore"
  w_members :: members

definition verify :: "'b world \<Rightarrow> string \<Rightarrow> string \<Rightarrow> provenance_policy \<Rightarrow> provenance res" where
  "verify W envelope sha256 policy =
     (if pp_trusted_identities policy \<noteq> [] then verify_sigstore_provenance (w_sigstore W) envelope sha256 policy
      else verify_provenance (w_crypto W) envelope sha256 policy)"

definition is_gate_error :: "exn \<Rightarrow> bool" where
  "is_gate_error e = (case e of GateError _ \<Rightarrow> True | GateNotConfiguredError _ \<Rightarrow> True | _ \<Rightarrow> False)"

text \<open>The two checks of the second \<open>try\<close> block, on the stored bytes.\<close>

definition run_gates ::
  "'b world \<Rightarrow> app_ingest_policy \<Rightarrow> string \<Rightarrow> string option \<Rightarrow> (archive_report option \<times> string list) res" where
  "run_gates W policy content sbom =
     bindr (inspect_archive (w_members W) (ap_archive_limits policy) content) (\<lambda>archive.
     bindr (run_content_gates (ap_content_gates policy) content (ap_app_id policy) sbom) (\<lambda>skipped.
     Inr (archive, skipped)))"

definition decide ::
  "'b world \<Rightarrow> app_ingest_policy \<Rightarrow> admitted \<Rightarrow> string \<Rightarrow> string option \<Rightarrow> string option \<Rightarrow> outcome res" where
  "decide W policy admitted content envelope sbom =
     (case envelope of
        None \<Rightarrow> Inr ((Outcome REJECT NoAttestation)\<lparr>oc_admitted := Some admitted\<rparr>)
      | Some [] \<Rightarrow> Inr ((Outcome REJECT NoAttestation)\<lparr>oc_admitted := Some admitted\<rparr>)
      | Some env \<Rightarrow>
          (case verify W env (ad_sha256 admitted) (ap_provenance policy) of
             Inl (ProvenanceError m) \<Rightarrow>
               Inr ((Outcome REJECT (ProvenanceRejected (ProvenanceError m)))\<lparr>oc_admitted := Some admitted\<rparr>)
           | Inl e \<Rightarrow> Inl e
           | Inr provenance \<Rightarrow>
               (case run_gates W policy content sbom of
                  Inl e \<Rightarrow>
                    if is_gate_error e
                    then Inr ((Outcome REJECT (GateFailed e))\<lparr>oc_admitted := Some admitted,
                                oc_provenance := Some provenance\<rparr>)
                    else Inl e
                | Inr (archive, skipped) \<Rightarrow>
                    bindr (keystore policy) (\<lambda>ks.
                      let full = (\<lambda>oc. oc\<lparr>oc_admitted := Some admitted, oc_provenance := Some provenance,
                                          oc_archive := archive, oc_skipped_gates := skipped\<rparr>) in
                      if ks = OFFLINE then Inr (full (Outcome HOLD_FOR_CEREMONY OfflineKey))
                      else Inr (full (Outcome PROMOTE
                        (if skipped = [] then AllGatesPassed (pv_builder_id provenance) (pv_source_ref provenance)
                         else GatesSkipped skipped (pv_builder_id provenance) (pv_source_ref provenance))))))))"

definition ingest ::
  "'b world \<Rightarrow> app_ingest_policy \<Rightarrow> quarantine \<Rightarrow> read list \<Rightarrow> string option \<Rightarrow> string option \<Rightarrow> (fs, outcome) sem" where
  "ingest W policy q source envelope sbom = (\<lambda>fs.
     case admit (w_sha W) q source fs of
       (Inl (QuarantineError m), fs') \<Rightarrow> (Inr (Outcome REJECT (NotAdmitted (QuarantineError m))), fs')
     | (Inl e, fs') \<Rightarrow> (Inl e, fs')
     | (Inr admitted, fs') \<Rightarrow>
         (case fs' (ad_path admitted) of
            None \<Rightarrow> (Inl (OSError ''no such file''), fs')
          | Some content \<Rightarrow> (decide W policy admitted content envelope sbom, fs')))"

definition promote_outcome ::
  "'b world \<Rightarrow> outcome \<Rightarrow> quarantine \<Rightarrow> string \<Rightarrow> (fs, string) sem" where
  "promote_outcome W oc q destination =
     (case oc_admitted oc of
        None \<Rightarrow> raiseS (GateError ''refusing to promote'')
      | Some admitted \<Rightarrow>
          if oc_decision oc \<noteq> PROMOTE then raiseS (GateError ''refusing to promote'')
          else promote (w_sha W) q (ad_sha256 admitted) destination)"

section \<open>Facts\<close>

lemma keystore_Inr:
  "keystore policy = Inr ks \<longleftrightarrow> APP_ID_PATTERN (ap_app_id policy) \<and> ks = (if ap_critical policy then OFFLINE else ONLINE)"
  by (auto simp: keystore_def bindr_eq_Inr_iff app_role_policy_Inr_iff)

text \<open>What the outcome of a candidate that passed every check says about it.\<close>

definition vetted ::
  "'b world \<Rightarrow> app_ingest_policy \<Rightarrow> admitted \<Rightarrow> string \<Rightarrow> string option \<Rightarrow> string option \<Rightarrow> outcome \<Rightarrow> bool" where
  "vetted W policy admitted content envelope sbom oc \<longleftrightarrow>
     oc_admitted oc = Some admitted
     \<and> (\<exists>env p. envelope = Some env \<and> env \<noteq> [] \<and> oc_provenance oc = Some p
          \<and> verify W env (ad_sha256 admitted) (ap_provenance policy) = Inr p)
     \<and> inspect_archive (w_members W) (ap_archive_limits policy) content = Inr (oc_archive oc)
     \<and> run_content_gates (ap_content_gates policy) content (ap_app_id policy) sbom = Inr (oc_skipped_gates oc)"

lemma decide_not_rejected:
  assumes "decide W policy admitted content envelope sbom = Inr oc" and "oc_decision oc \<noteq> REJECT"
  shows "vetted W policy admitted content envelope sbom oc \<and> APP_ID_PATTERN (ap_app_id policy)
    \<and> oc_decision oc = (if ap_critical policy then HOLD_FOR_CEREMONY else PROMOTE)"
proof -
  obtain c cs where env: "envelope = Some (c # cs)"
    using assms by (auto simp: decide_def Outcome_def split: option.splits list.splits)
  obtain p where p: "verify W (c # cs) (ad_sha256 admitted) (ap_provenance policy) = Inr p"
    using assms by (auto simp: decide_def Outcome_def env split: sum.splits exn.splits)
  obtain ar sk where g: "run_gates W policy content sbom = Inr (ar, sk)"
    using assms by (auto simp: decide_def Outcome_def env p split: sum.splits if_splits)
  obtain ks where k: "keystore policy = Inr ks"
    using assms by (auto simp: decide_def env p g bindr_eq_Inr_iff)
  from assms(1) have "oc_admitted oc = Some admitted \<and> oc_provenance oc = Some p \<and> oc_archive oc = ar
      \<and> oc_skipped_gates oc = sk \<and> oc_decision oc = (if ks = OFFLINE then HOLD_FOR_CEREMONY else PROMOTE)"
    by (auto simp: decide_def env p g k Let_def Outcome_def split: if_splits)
  then show ?thesis using env p g k
    by (auto simp: vetted_def run_gates_def bindr_eq_Inr_iff keystore_Inr)
qed

lemma ingest_Inr:
  "ingest W policy q source envelope sbom fs = (Inr oc, fs') \<Longrightarrow> oc_decision oc \<noteq> REJECT \<Longrightarrow>
    \<exists>a bs. admit (w_sha W) q source fs = (Inr a, fs') \<and> fs' (ad_path a) = Some bs
      \<and> ad_path a = qpath q (hexdigest (w_sha W) bs) \<and> ad_sha256 a = hexdigest (w_sha W) bs \<and> ad_length a = length bs
      \<and> decide W policy a bs envelope sbom = Inr oc"
  by (fastforce simp: ingest_def Outcome_def admit_Inr split: prod.splits sum.splits exn.splits option.splits)

section \<open>Properties\<close>

text \<open>C3: A candidate the policy does not reject is in quarantine under the digest of its bytes, carries
  provenance that was verified against that same digest, passed the archive inspection, and passed
  every content gate except those the outcome reports as skipped; it is promoted exactly when the
  application is not critical, so a release signed with an offline key always waits for a
  ceremony.\<close>

theorem not_rejected_is_vetted:
  assumes "ingest W policy q source envelope sbom fs = (Inr oc, fs')" and "oc_decision oc \<noteq> REJECT"
  shows "\<exists>bs a. fs' (qpath q (hexdigest (w_sha W) bs)) = Some bs
    \<and> a = \<lparr>ad_sha256 = hexdigest (w_sha W) bs, ad_length = length bs, ad_path = qpath q (hexdigest (w_sha W) bs)\<rparr>
    \<and> vetted W policy a bs envelope sbom oc
    \<and> (promoted oc \<longleftrightarrow> \<not> ap_critical policy)
    \<and> (oc_decision oc = HOLD_FOR_CEREMONY \<longleftrightarrow> ap_critical policy)"
proof -
  from ingest_Inr [OF assms] obtain a bs where a: "fs' (ad_path a) = Some bs"
      "ad_path a = qpath q (hexdigest (w_sha W) bs)" "ad_sha256 a = hexdigest (w_sha W) bs" "ad_length a = length bs"
    and d: "decide W policy a bs envelope sbom = Inr oc" by blast
  from decide_not_rejected [OF d assms(2)] a show ?thesis
    by (intro exI [of _ bs] exI [of _ a]) (auto simp: promoted_def)
qed

definition ex_ingest_policy :: "bool \<Rightarrow> app_ingest_policy" where
  "ex_ingest_policy critical = \<lparr>ap_app_id = ''editor'', ap_critical = critical, ap_provenance = ex_cert_policy,
     ap_archive_limits = ArchiveLimits,
     ap_content_gates = \<lparr>cg_malware = Some (\<lambda>_. Inr True), cg_publisher = None, cg_require_sbom = False,
                         cg_skip = {''publisher''}\<rparr>\<rparr>"

text \<open>The bytes 0xAB 0xCD are their own digest here, which the example statement names.\<close>

definition ex_world :: "string world" where
  "ex_world = \<lparr>w_sha = id, w_crypto = ex_crypto, w_sigstore = ex_sigstore, w_members = (\<lambda>_. Inr None)\<rparr>"

definition ex_artifact :: string where
  "ex_artifact = [CHR 0xAB, CHR 0xCD]"

lemma ex_digest: "hexdigest id ex_artifact = ''abcd''"
  by code_simp

text \<open>A candidate for which every check answers yes gets past the policy.\<close>

lemma decide_vetted:
  assumes "verify W (c # cs) (ad_sha256 a) (ap_provenance policy) = Inr p"
    and "inspect_archive (w_members W) (ap_archive_limits policy) content = Inr ar"
    and "run_content_gates (ap_content_gates policy) content (ap_app_id policy) sbom = Inr sk"
    and "APP_ID_PATTERN (ap_app_id policy)"
  shows "\<exists>oc. decide W policy a content (Some (c # cs)) sbom = Inr oc \<and> oc_admitted oc = Some a
    \<and> oc_decision oc = (if ap_critical policy then HOLD_FOR_CEREMONY else PROMOTE)
    \<and> oc_reason oc = (if ap_critical policy then OfflineKey else if sk = [] then AllGatesPassed (pv_builder_id p) (pv_source_ref p)
        else GatesSkipped sk (pv_builder_id p) (pv_source_ref p))"
proof -
  have "run_gates W policy content sbom = Inr (ar, sk)" using assms by (simp add: run_gates_def)
  moreover have "keystore policy = Inr (if ap_critical policy then OFFLINE else ONLINE)"
    using assms by (simp add: keystore_Inr)
  ultimately show ?thesis using assms(1) by (simp add: decide_def Let_def Outcome_def)
qed

lemma ingest_vetted:
  assumes "stream (q_max_bytes q) [] source = Inr bs"
    and "verify W (c # cs) (hexdigest (w_sha W) bs) (ap_provenance policy) = Inr p"
    and "inspect_archive (w_members W) (ap_archive_limits policy) bs = Inr ar"
    and "run_content_gates (ap_content_gates policy) bs (ap_app_id policy) sbom = Inr sk"
    and "APP_ID_PATTERN (ap_app_id policy)"
  shows "\<exists>oc. ingest W policy q source (Some (c # cs)) sbom fs
      = (Inr oc, fs(qpath q (hexdigest (w_sha W) bs) \<mapsto> bs))
    \<and> oc_decision oc = (if ap_critical policy then HOLD_FOR_CEREMONY else PROMOTE)
    \<and> oc_admitted oc = Some \<lparr>ad_sha256 = hexdigest (w_sha W) bs, ad_length = length bs, ad_path = qpath q (hexdigest (w_sha W) bs)\<rparr>
    \<and> oc_reason oc = (if ap_critical policy then OfflineKey else if sk = [] then AllGatesPassed (pv_builder_id p) (pv_source_ref p)
        else GatesSkipped sk (pv_builder_id p) (pv_source_ref p))"
proof -
  let ?a = "\<lparr>ad_sha256 = hexdigest (w_sha W) bs, ad_length = length bs, ad_path = qpath q (hexdigest (w_sha W) bs)\<rparr>"
  have a: "admit (w_sha W) q source fs = (Inr ?a, fs(qpath q (hexdigest (w_sha W) bs) \<mapsto> bs))"
    using assms(1) by (simp add: admit_Inr)
  have "verify W (c # cs) (ad_sha256 ?a) (ap_provenance policy) = Inr p" using assms(2) by simp
  from decide_vetted [OF this assms(3-5)] show ?thesis by (auto simp: ingest_def a)
qed

lemma ex_ingest:
  "\<exists>oc. ingest ex_world (ex_ingest_policy critical) \<lparr>q_root = ''/q'', q_max_bytes = 5\<rparr> [Chunk ex_artifact] (Some ''bundle'') None Map.empty
      = (Inr oc, [''/q/abcd.bin'' \<mapsto> ex_artifact])
    \<and> oc_decision oc = (if critical then HOLD_FOR_CEREMONY else PROMOTE)"
proof -
  let ?q = "\<lparr>q_root = ''/q'', q_max_bytes = 5\<rparr>"
  obtain p where "verify_sigstore_provenance ex_sigstore ''bundle'' ''abcd'' ex_cert_policy = Inr p"
    using ex_cert_verified ..
  then have v: "verify ex_world ''bundle'' (hexdigest (w_sha ex_world) ex_artifact) (ap_provenance (ex_ingest_policy critical)) = Inr p"
    by (simp add: verify_def ex_world_def ex_ingest_policy_def ex_digest) (simp add: ex_cert_policy_def)
  have s: "stream (q_max_bytes ?q) [] [Chunk ex_artifact] = Inr ex_artifact" by code_simp
  have i: "inspect_archive (w_members ex_world) (ap_archive_limits (ex_ingest_policy critical)) ex_artifact = Inr None"
    by (simp add: inspect_archive_def ex_world_def)
  have g: "run_content_gates (ap_content_gates (ex_ingest_policy critical)) ex_artifact (ap_app_id (ex_ingest_policy critical)) None
      = Inr [''publisher'']"
    by (simp add: run_content_gates_def malware_gate_def publisher_gate_def sbom_gate_def ex_ingest_policy_def)
  have "APP_ID_PATTERN ''editor''" by code_simp
  then have n: "APP_ID_PATTERN (ap_app_id (ex_ingest_policy critical))" by (simp add: ex_ingest_policy_def)
  have "ap_critical (ex_ingest_policy critical) = critical" by (simp add: ex_ingest_policy_def)
  moreover have "qpath ?q (hexdigest (w_sha ex_world) ex_artifact) = ''/q/abcd.bin''"
    by (simp add: qpath_def ex_world_def ex_digest)
  ultimately show ?thesis using ingest_vetted [OF s v i g n, of Map.empty] by auto
qed

theorem not_rejected_is_vetted_witness:
  "\<exists>oc a. oc_decision oc = HOLD_FOR_CEREMONY
     \<and> vetted ex_world (ex_ingest_policy True) a ex_artifact (Some ''bundle'') None oc"
proof -
  let ?q = "\<lparr>q_root = ''/q'', q_max_bytes = 5\<rparr>"
  obtain oc where oc: "ingest ex_world (ex_ingest_policy True) ?q [Chunk ex_artifact] (Some ''bundle'') None Map.empty
      = (Inr oc, [''/q/abcd.bin'' \<mapsto> ex_artifact])" "oc_decision oc = HOLD_FOR_CEREMONY"
    using ex_ingest [of True] by auto
  from not_rejected_is_vetted [OF oc(1)] oc(2) obtain bs a
    where "[''/q/abcd.bin'' \<mapsto> ex_artifact] (qpath ?q (hexdigest (w_sha ex_world) bs)) = Some bs"
      and v: "vetted ex_world (ex_ingest_policy True) a bs (Some ''bundle'') None oc" by auto
  then have "bs = ex_artifact" by (simp split: if_splits)
  with v oc(2) show ?thesis by blast
qed

text \<open>C4: Nothing leaves the quarantine without a decision: an outcome other than a promotion writes no
  byte anywhere, and what a promotion copies out, whatever happened to the quarantine in between,
  are bytes with the digest its provenance names as a subject.\<close>

theorem only_promoted_bytes_leave:
  assumes "ingest W policy q source envelope sbom fs = (Inr oc, fs1)"
    and "promote_outcome W oc q destination fs2 = (r, fs3)"
  shows "(\<not> promoted oc \<longrightarrow> (\<exists>e. r = Inl e) \<and> fs3 = fs2)
    \<and> (\<forall>d. r = Inr d \<longrightarrow> \<not> ap_critical policy \<and> (\<exists>env p bs. envelope = Some env \<and> env \<noteq> []
         \<and> verify W env (hexdigest (w_sha W) bs) (ap_provenance policy) = Inr p \<and> oc_provenance oc = Some p
         \<and> fs2 (qpath q (hexdigest (w_sha W) bs)) = Some bs
         \<and> fs3 = fs2(destination \<mapsto> bs)))"
proof (cases "promoted oc")
  case False
  then have "(\<exists>e. r = Inl e) \<and> fs3 = fs2" using assms(2)
    by (auto simp: promote_outcome_def promoted_def raiseS_def split: option.splits)
  with False show ?thesis by auto
next
  case True
  then have nr: "oc_decision oc \<noteq> REJECT" by (simp add: promoted_def)
  from ingest_Inr [OF assms(1) nr] obtain a bs where a: "ad_sha256 a = hexdigest (w_sha W) bs"
    and d: "decide W policy a bs envelope sbom = Inr oc" by blast
  from decide_not_rejected [OF d nr] True have v: "vetted W policy a bs envelope sbom oc" "\<not> ap_critical policy"
    by (auto simp: promoted_def split: if_splits)
  then have "promote_outcome W oc q destination fs2 = promote (w_sha W) q (hexdigest (w_sha W) bs) destination fs2"
    using True by (simp add: vetted_def promote_outcome_def promoted_def a)
  then have p: "promote (w_sha W) q (hexdigest (w_sha W) bs) destination fs2 = (r, fs3)" using assms(2) by simp
  show ?thesis
  proof (intro conjI allI impI)
    fix dd assume "r = Inr dd"
    with p obtain bs' where b: "fs2 (qpath q (hexdigest (w_sha W) bs)) = Some bs'"
      "hexdigest (w_sha W) bs' = hexdigest (w_sha W) bs" "fs3 = fs2(destination \<mapsto> bs')"
      by (auto simp: promote_def split: option.splits if_splits)
    from v(1) obtain env pv where "envelope = Some env" "env \<noteq> []" "oc_provenance oc = Some pv"
      "verify W env (hexdigest (w_sha W) bs') (ap_provenance policy) = Inr pv"
      by (auto simp: vetted_def a b(2))
    moreover have "fs2 (qpath q (hexdigest (w_sha W) bs')) = Some bs'" using b by simp
    ultimately show "\<exists>env p bs. envelope = Some env \<and> env \<noteq> []
         \<and> verify W env (hexdigest (w_sha W) bs) (ap_provenance policy) = Inr p \<and> oc_provenance oc = Some p
         \<and> fs2 (qpath q (hexdigest (w_sha W) bs)) = Some bs \<and> fs3 = fs2(destination \<mapsto> bs)"
      using b(3) by blast
  qed (use True v in auto)
qed

theorem only_promoted_bytes_leave_witness:
  "\<exists>oc bs fs3. promoted oc
     \<and> promote_outcome ex_world oc \<lparr>q_root = ''/q'', q_max_bytes = 5\<rparr> ''/out'' [''/q/abcd.bin'' \<mapsto> ex_artifact] = (Inr ''/out'', fs3)
     \<and> fs3 = [''/q/abcd.bin'' \<mapsto> ex_artifact, ''/out'' \<mapsto> bs]"
proof -
  let ?q = "\<lparr>q_root = ''/q'', q_max_bytes = 5\<rparr>" and ?fs = "[''/q/abcd.bin'' \<mapsto> ex_artifact]"
  obtain oc where oc: "ingest ex_world (ex_ingest_policy False) ?q [Chunk ex_artifact] (Some ''bundle'') None Map.empty
      = (Inr oc, ?fs)" "oc_decision oc = PROMOTE"
    using ex_ingest [of False] by auto
  have nr: "oc_decision oc \<noteq> REJECT" using oc by simp
  from ingest_Inr [OF oc(1) nr] obtain a bs where a: "?fs (ad_path a) = Some bs" "ad_sha256 a = hexdigest id bs"
      "ad_path a = qpath ?q (hexdigest id bs)"
    and d: "decide ex_world (ex_ingest_policy False) a bs (Some ''bundle'') None = Inr oc" by (auto simp: ex_world_def)
  have "oc_admitted oc = Some a" using decide_not_rejected [OF d nr] by (simp add: vetted_def)
  moreover have bs: "bs = ex_artifact" using a(1) by (simp split: if_splits)
  moreover have "promote id ?q ''abcd'' ''/out'' ?fs = (Inr ''/out'', ?fs(''/out'' \<mapsto> ex_artifact))"
    using ex_digest by (simp add: promote_def qpath_def)
  ultimately have "promote_outcome ex_world oc ?q ''/out'' ?fs = (Inr ''/out'', ?fs(''/out'' \<mapsto> ex_artifact))"
    using oc(2) a(2) ex_digest by (simp add: promote_outcome_def) (simp add: ex_world_def)
  moreover from only_promoted_bytes_leave [OF oc(1) this] have "\<exists>bs. ?fs(''/out'' \<mapsto> ex_artifact) = ?fs(''/out'' \<mapsto> bs)"
    by blast
  ultimately show ?thesis using oc(2) by (auto simp: promoted_def)
qed

end
