(* ===== verification/Models.thy ===== *)
theory Models
  imports Roles Json
begin

text \<open>
  \<^verbatim>\<open>packages/dist-registry/src/dist_registry/models.py\<close>: the rows of the registry.  A UUID and a
  \<^verbatim>\<open>timestamptz\<close> are numbers; the JSON columns hold decoded JSON.
\<close>

datatype forge = GITHUB | GITLAB

datatype source_status = DRAFT | VALIDATING | INVALID | PENDING_DELEGATION | ACTIVE | PAUSED

datatype job_kind = VALIDATE | POLL | PUBLISH

datatype job_state = QUEUED | RUNNING | DONE | FAILED

record source =
  so_id :: nat
  so_app_id :: string
  so_forge :: forge
  so_project :: string
  so_api_base :: string
  so_project_url :: string
  so_status :: source_status
  so_critical :: bool
  so_asset_name :: string
  so_tag_prefix :: string
  so_require_tag_ref_prefix :: string
  so_max_asset_bytes :: int
  so_channel :: string
  so_platform :: string
  so_arch :: string
  so_workflow_uri :: "string option"
  so_oidc_issuer :: "string option"
  so_repository_id :: "string option"
  so_repository_owner_id :: "string option"
  so_runner_environment :: string
  so_builder_id :: "string option"
  so_builder_keyid :: "string option"
  so_builder_public_key_pem :: "string option"
  so_attestation_asset :: string
  so_created_at :: int
  so_updated_at :: int
  so_created_by :: string
  so_last_error :: "string option"

definition pollable :: "source \<Rightarrow> bool" where
  "pollable s \<longleftrightarrow> so_status s = ACTIVE"

record job =
  jo_id :: nat
  jo_source_id :: nat
  jo_kind :: job_kind
  jo_state :: job_state
  jo_requested_by :: string
  jo_requested_at :: int
  jo_started_at :: "int option"
  jo_finished_at :: "int option"
  jo_attempts :: nat
  jo_payload :: dict
  jo_result :: "dict option"
  jo_error :: "string option"

record audit_event =
  au_id :: nat
  au_at :: int
  au_actor :: string
  au_action :: string
  au_source_id :: "nat option"
  au_detail :: dict

text \<open>Rows the store returns as plain dicts.\<close>

record operator =
  op_username :: string
  op_password_hash :: string
  op_salt :: string
  op_disabled :: bool

record session =
  se_token_sha256 :: string
  se_username :: string
  se_csrf_token :: string
  se_expires_at :: int

text \<open>The columns an operator decided on, which no edit may reach: what a delegation was granted
  on the strength of.\<close>

definition identity ::
  "source \<Rightarrow> (nat \<times> string \<times> forge \<times> string \<times> string \<times> string) \<times>
     (string option \<times> string option \<times> string) \<times>
     (string option \<times> string option \<times> string option \<times> string) \<times> string" where
  "identity s =
     ((so_id s, so_app_id s, so_forge s, so_project s, so_api_base s, so_project_url s),
      (so_workflow_uri s, so_oidc_issuer s, so_runner_environment s),
      (so_builder_id s, so_builder_keyid s, so_builder_public_key_pem s, so_attestation_asset s),
      so_created_by s)"

definition open_job :: "job \<Rightarrow> bool" where
  "open_job j \<longleftrightarrow> jo_state j = QUEUED \<or> jo_state j = RUNNING"

end
