(* ===== verification/Sources.thy ===== *)
theory Sources
  imports ForgeProps Policy Models
begin

text \<open>
  \<^verbatim>\<open>packages/dist-ingest/src/dist_ingest/sources.py\<close>: from a registered source to the objects that
  fetch and judge.  The environment variable is an argument.
\<close>

section \<open>Fetching\<close>

definition client_headers :: "source \<Rightarrow> string option \<Rightarrow> (string \<times> string) list" where
  "client_headers s token =
     (case token of
        None \<Rightarrow> []
      | Some t \<Rightarrow> if t = [] then []
          else if so_forge s = GITHUB then [(''Authorization'', ''Bearer '' @ t)] else [(''PRIVATE-TOKEN'', t)])"

definition github_hosts :: "net \<Rightarrow> string \<Rightarrow> string set res" where
  "github_hosts N api_base =
     bindr (urlsplit (nt_bracketed N) api_base) (\<lambda>(_, netloc).
       let host = (case hostname netloc of None \<Rightarrow> [] | Some h \<Rightarrow> h) in
       Inr (if host = ''api.github.com'' then GITHUB_DOWNLOAD_HOSTS else {host}))"

definition asset_cap :: "source \<Rightarrow> int" where
  "asset_cap s = (if so_max_asset_bytes s \<noteq> 0 then so_max_asset_bytes s else DEFAULT_MAX_ASSET_BYTES)"

definition release_source :: "net \<Rightarrow> source \<Rightarrow> release_ops res" where
  "release_source N s =
     (if so_forge s = GITHUB then
        bindr (github_hosts N (so_api_base s)) (\<lambda>hosts.
          Inr (github_source N (GitHubReleaseSource (so_project s) (so_api_base s) hosts (so_tag_prefix s)
                 (asset_cap s) (so_project_url s) (so_repository_id s))))
      else bindr (GitLabReleaseSource N (so_project s) (so_api_base s) None (so_tag_prefix s)
                    (so_attestation_asset s) (asset_cap s)) (\<lambda>gl. Inr (gitlab_source N gl)))"

section \<open>Judging\<close>

definition given :: "string option \<Rightarrow> bool" where
  "given v \<longleftrightarrow> v \<noteq> None \<and> v \<noteq> Some []"

definition source_provenance_policy :: "source \<Rightarrow> provenance_policy res" where
  "source_provenance_policy s =
     (if so_forge s = GITHUB then
        (if \<not> (given (so_workflow_uri s) \<and> given (so_oidc_issuer s) \<and> given (so_repository_id s)
               \<and> given (so_repository_owner_id s))
         then Inl (SourceConfigError ''certificate identity is incomplete'')
         else ProvenancePolicy [] (so_project_url s) (so_require_tag_ref_prefix s)
                [\<lparr>ci_workflow_uri = the (so_workflow_uri s), ci_issuer = the (so_oidc_issuer s),
                  ci_repository = so_project s, ci_repository_id = the (so_repository_id s),
                  ci_repository_owner_id = the (so_repository_owner_id s),
                  ci_runner_environment = so_runner_environment s\<rparr>])
      else if \<not> (given (so_builder_id s) \<and> given (so_builder_keyid s) \<and> given (so_builder_public_key_pem s))
      then Inl (SourceConfigError ''GitLab sources need a builder id, key id and public key'')
      else ProvenancePolicy [\<lparr>tb_builder_id = the (so_builder_id s), tb_keyid = the (so_builder_keyid s),
                              tb_public_key_pem = utf8_encode (the (so_builder_public_key_pem s))\<rparr>]
             (so_project_url s) (so_require_tag_ref_prefix s) [])"

definition skipped_gates :: "string option \<Rightarrow> string set res" where
  "skipped_gates DIST_SKIP_GATES =
     (let raw = (case DIST_SKIP_GATES of None \<Rightarrow> [] | Some v \<Rightarrow> v);
          named = {strip part | part. part \<in> set (split_on (CHR '','') raw) \<and> strip part \<noteq> []} in
      if \<not> named \<subseteq> {''malware'', ''publisher'', ''sbom''}
      then Inl (SourceConfigError ''DIST_SKIP_GATES names unknown gates'') else Inr named)"

lemma skipped_gates_code [code]:
  "skipped_gates DIST_SKIP_GATES =
     (let named = set (filter (\<lambda>p. p \<noteq> []) (map strip (split_on (CHR '','')
            (case DIST_SKIP_GATES of None \<Rightarrow> [] | Some v \<Rightarrow> v)))) in
      if \<not> named \<subseteq> {''malware'', ''publisher'', ''sbom''}
      then Inl (SourceConfigError ''DIST_SKIP_GATES names unknown gates'') else Inr named)"
proof -
  have "{strip part | part. part \<in> set xs \<and> strip part \<noteq> []} = set (filter (\<lambda>p. p \<noteq> []) (map strip xs))" for xs
    by auto
  then show ?thesis by (simp add: skipped_gates_def Let_def)
qed

definition source_ingest_policy :: "string option \<Rightarrow> source \<Rightarrow> app_ingest_policy res" where
  "source_ingest_policy DIST_SKIP_GATES s =
     bindr (source_provenance_policy s) (\<lambda>prov.
     bindr (skipped_gates DIST_SKIP_GATES) (\<lambda>skip.
     Inr \<lparr>ap_app_id = so_app_id s, ap_critical = so_critical s, ap_provenance = prov,
          ap_archive_limits = ArchiveLimits,
          ap_content_gates = \<lparr>cg_malware = None, cg_publisher = None, cg_require_sbom = True, cg_skip = skip\<rparr>\<rparr>))"

section \<open>Facts\<close>

lemma source_ingest_policy_Inr:
  "source_ingest_policy env s = Inr p \<Longrightarrow> ap_app_id p = so_app_id s \<and> ap_critical p = so_critical s
     \<and> source_provenance_policy s = Inr (ap_provenance p) \<and> cg_malware (ap_content_gates p) = None
     \<and> cg_publisher (ap_content_gates p) = None \<and> cg_require_sbom (ap_content_gates p)
     \<and> skipped_gates env = Inr (cg_skip (ap_content_gates p))"
  by (auto simp: source_ingest_policy_def bindr_eq_Inr_iff)

text \<open>Where a source may send a request: its API host, or a host of its allowlist.\<close>

definition source_url_ok :: "net \<Rightarrow> source \<Rightarrow> string \<Rightarrow> bool" where
  "source_url_ok N s url \<longleftrightarrow> (\<exists>h api. host_of N url = Inr h \<and> host_of N (rstrip_char (CHR ''/'') (so_api_base s)) = Inr api
     \<and> (h = api \<or> (so_forge s = GITHUB \<and> (\<exists>hosts. github_hosts N (so_api_base s) = Inr hosts \<and> h \<in> hosts))))"

lemma confined_weaken:
  assumes "confined_source S ok cap" "\<And>u. ok u \<Longrightarrow> ok' u"
  shows "confined_source S ok' cap"
  using assms unfolding confined_source_def by (blast intro: asks_mono)

lemma source_confined:
  assumes S: "release_source N s = Inr S" and api: "host_of N (rstrip_char (CHR ''/'') (so_api_base s)) = Inr api"
  shows "confined_source S (source_url_ok N s) (asset_cap s)"
proof (cases "so_forge s = GITHUB")
  case True
  with S obtain hosts where h: "github_hosts N (so_api_base s) = Inr hosts"
    and gh: "S = github_source N (GitHubReleaseSource (so_project s) (so_api_base s) hosts (so_tag_prefix s)
                 (asset_cap s) (so_project_url s) (so_repository_id s))" (is "S = github_source N ?gh")
    by (auto simp: release_source_def bindr_eq_Inr_iff)
  have "github_ok N ?gh u \<Longrightarrow> source_url_ok N s u" for u
    using True h api host_of_append [OF api]
    by (fastforce simp: github_ok_def source_url_ok_def GitHubReleaseSource_def allowed_url_def prefix_def split: sum.splits)
  moreover have "confined_source S (github_ok N ?gh) (asset_cap s)"
    using github.confined_source_axioms [of N ?gh] by (simp add: gh GitHubReleaseSource_def)
  ultimately show ?thesis by (rule confined_weaken [rotated])
next
  case False
  with S api obtain gl where gl: "S = gitlab_source N gl" "gl_allowed_hosts gl = {api}" "gl_max_asset_bytes gl = asset_cap s"
      "gl_api_base gl = rstrip_char (CHR ''/'') (so_api_base s)"
    by (auto simp: release_source_def bindr_eq_Inr_iff GitLabReleaseSource_def Let_def)
  have "gitlab_ok N gl u \<Longrightarrow> source_url_ok N s u" for u
    using False api gl host_of_append [OF api]
    by (fastforce simp: gitlab_ok_def source_url_ok_def allowed_url_def prefix_def split: sum.splits)
  moreover have "confined_source S (gitlab_ok N gl) (asset_cap s)"
    using gitlab.confined_source_axioms [of N gl] by (simp add: gl)
  ultimately show ?thesis by (rule confined_weaken [rotated])
qed

section \<open>Properties\<close>

text \<open>Whatever a forge answers, and however the calls of the protocol are sequenced, every request
  made for a source is an https request to the host of its registered API base or, for
  github.com, to one of GitHub's listed hosts, redirects included.\<close>

theorem source_requests_confined:
  assumes "release_source N s = Inr S" "host_of N (rstrip_char (CHR ''/'') (so_api_base s)) = Inr api"
    and "url \<in> set (fold (after_call S) calls [])"
  shows "\<exists>h. host_of N url = Inr h \<and> (h = api \<or> so_forge s = GITHUB \<and>
    (\<exists>hosts. github_hosts N (so_api_base s) = Inr hosts \<and> h \<in> hosts))"
proof -
  have "list_all (source_url_ok N s) (fold (after_call S) calls [])"
    using confined_source.session_confined [OF source_confined [OF assms(1,2)], of "[]" calls] by simp
  then show ?thesis using assms(2,3) by (auto simp: list_all_iff source_url_ok_def)
qed

definition ex_gh_source :: source where
  "ex_gh_source = \<lparr>so_id = 7, so_app_id = ''editor'', so_forge = GITHUB, so_project = ''h/p'',
     so_api_base = ''https://api.github.com'', so_project_url = ''https://github.com/h/p'', so_status = ACTIVE,
     so_critical = False, so_asset_name = ''app-{version}.zip'', so_tag_prefix = ''v'',
     so_require_tag_ref_prefix = ''refs/tags/'', so_max_asset_bytes = 3, so_channel = ''stable'',
     so_platform = ''linux'', so_arch = ''x86_64'', so_workflow_uri = Some ''ci'', so_oidc_issuer = Some ''iss'',
     so_repository_id = Some ''42'', so_repository_owner_id = Some ''9'', so_runner_environment = ''github-hosted'',
     so_builder_id = None, so_builder_keyid = None, so_builder_public_key_pem = None,
     so_attestation_asset = [], so_created_at = 0, so_updated_at = 0, so_created_by = ''ops'', so_last_error = None\<rparr>"

text \<open>A download that is redirected off the allowlist is refused at the second hop.\<close>

definition ex_hostile_net :: net where
  "ex_hostile_net = ex_net\<lparr>nt_get := (\<lambda>made url.
     Inr ((ex_response 302)\<lparr>rs_headers := [''location'' \<mapsto> ''https://evil.h/x'']\<rparr>))\<rparr>"

definition ex_asset :: forge_asset where
  "ex_asset = \<lparr>fa_name = ''a'', fa_size = 1, fa_download_url = ''https://github.com/a'', fa_declared_sha256 = None\<rparr>"

lemma ex_hostile_net:
  "nt_get ex_hostile_net made url = Inr ((ex_response 302)\<lparr>rs_headers := [''location'' \<mapsto> ''https://evil.h/x'']\<rparr>)"
  "nt_join ex_hostile_net u l = Inr l"
  by (simp_all add: ex_hostile_net_def ex_net_def)

lemma ex_hostile_download:
  "stream_url ex_hostile_net GITHUB_DOWNLOAD_HOSTS 3 ''https://github.com/a'' []
   = (Inl (ForgeError ''refusing to download from a host that is not allowlisted''), [''https://github.com/a''])"
proof -
  have h: "host_of ex_hostile_net ''https://github.com/a'' = Inr ''github.com''"
    "host_of ex_hostile_net ''https://evil.h/x'' = Inr ''evil.h''" by code_simp+
  have m: "''github.com'' \<in> GITHUB_DOWNLOAD_HOSTS" "''evil.h'' \<notin> GITHUB_DOWNLOAD_HOSTS"
    by (simp_all add: GITHUB_DOWNLOAD_HOSTS_def)
  show ?thesis
    by (simp add: stream_url_def MAX_REDIRECTS_def h m numeral_eq_Suc request_def sem_defs ex_hostile_net
        is_redirect_def ex_response_def)
qed

theorem source_requests_confined_witness:
  "\<exists>S h hosts. release_source ex_hostile_net ex_gh_source = Inr S
     \<and> fold (after_call S) [Download ex_asset] [] = [''https://github.com/a'']
     \<and> host_of ex_hostile_net ''https://github.com/a'' = Inr h
     \<and> github_hosts ex_hostile_net (so_api_base ex_gh_source) = Inr hosts \<and> h \<in> hosts"
proof -
  have hosts: "github_hosts ex_hostile_net ''https://api.github.com'' = Inr GITHUB_DOWNLOAD_HOSTS" by code_simp
  have api: "host_of ex_hostile_net (rstrip_char (CHR ''/'') (so_api_base ex_gh_source)) = Inr ''api.github.com''" by code_simp
  let ?S = "github_source ex_hostile_net (GitHubReleaseSource ''h/p'' ''https://api.github.com'' GITHUB_DOWNLOAD_HOSTS ''v''
      3 ''https://github.com/h/p'' (Some ''42''))"
  have S: "release_source ex_hostile_net ex_gh_source = Inr ?S"
    by (simp add: release_source_def ex_gh_source_def hosts asset_cap_def)
  have calls: "fold (after_call ?S) [Download ex_asset] [] = [''https://github.com/a'']"
    by (simp add: github_source_def gh_download_def GitHubReleaseSource_def ex_asset_def ex_hostile_download)
  then have "''https://github.com/a'' \<in> set (fold (after_call ?S) [Download ex_asset] [])" by simp
  from source_requests_confined [OF S api this] have
    "\<exists>h. host_of ex_hostile_net ''https://github.com/a'' = Inr h \<and> (h = ''api.github.com'' \<or> so_forge ex_gh_source = GITHUB \<and>
      (\<exists>hosts. github_hosts ex_hostile_net (so_api_base ex_gh_source) = Inr hosts \<and> h \<in> hosts))" .
  moreover have "so_api_base ex_gh_source = ''https://api.github.com''" by (simp add: ex_gh_source_def)
  moreover have "''api.github.com'' \<in> GITHUB_DOWNLOAD_HOSTS" by (simp add: GITHUB_DOWNLOAD_HOSTS_def)
  ultimately show ?thesis using S calls hosts by (metis sum.inject(2))
qed

end
