(* ===== verification/Store.thy ===== *)
theory Store
  imports Models Naming "HOL-Library.Product_Lexorder"
begin

text \<open>
  \<^verbatim>\<open>packages/dist-registry/src/dist_registry/store.py\<close> over the tables of \<^verbatim>\<open>schema.sql\<close>.

  A table is the list of its rows in insertion order.  Each function of the store is one
  transaction, hence one atomic step: it returns and commits, or raises and leaves the tables as
  they were.  \<open>now\<close> is the database clock, and the identifiers a transaction draws
  (\<^verbatim>\<open>uuid4\<close>) are arguments.  The constraints of the schema are checked by the statements
  that could break them, in the order the database checks them: CHECK, then unique indexes, then
  foreign keys.  Before any of that the parameters are adapted: the driver refuses a text with a NUL,
  and then the server a JSON value that says one or holds no number (\<open>params\<close>).  Otherwise column values are assumed to fit their column types; \<open>Rows\<close> relates these records to
  rows of columns.
\<close>

section \<open>The database and its constraints\<close>

record db =
  d_sources :: "source list"
  d_jobs :: "job list"
  d_audit :: "audit_event list"
  d_operators :: "operator list"
  d_sessions :: "session list"

definition empty_db :: db where
  "empty_db = \<lparr>d_sources = [], d_jobs = [], d_audit = [], d_operators = [], d_sessions = []\<rparr>"

text \<open>The CHECK constraints of \<^verbatim>\<open>sources\<close>.  In a PostgreSQL regular expression \<open>$\<close> matches at the
  end of the string only.\<close>

definition source_check :: "source \<Rightarrow> bool" where
  "source_check s \<longleftrightarrow>
     app_id_body (so_app_id s) \<and> so_channel s \<in> {''stable'', ''beta'', ''canary''}
     \<and> (so_status s \<noteq> ACTIVE \<or> so_forge s \<noteq> GITHUB
        \<or> (so_workflow_uri s \<noteq> None \<and> so_oidc_issuer s \<noteq> None
           \<and> so_repository_id s \<noteq> None \<and> so_repository_owner_id s \<noteq> None))
     \<and> (so_status s \<noteq> ACTIVE \<or> so_forge s \<noteq> GITLAB
        \<or> (so_builder_id s \<noteq> None \<and> so_builder_keyid s \<noteq> None \<and> so_builder_public_key_pem s \<noteq> None))"

text \<open>The parameters of a statement.  \<^verbatim>\<open>psycopg\<close> raises \<^verbatim>\<open>DataError\<close> for a text with a NUL and does not send
  the statement; the server refuses a \<^verbatim>\<open>jsonb\<close> with the escape of a NUL, or with \<^verbatim>\<open>NaN\<close> or an infinity,
  which are not JSON.\<close>

definition nul :: "string \<Rightarrow> bool" where
  "nul t \<longleftrightarrow> CHR 0x00 \<in> set t"

fun jsonb_ok :: "json \<Rightarrow> bool" where
  "jsonb_ok JNonFinite = False"
| "jsonb_ok (JStr t) = (\<not> nul t)"
| "jsonb_ok (JArr xs) = list_all jsonb_ok xs"
| "jsonb_ok (JObj kvs) = list_all (\<lambda>kv. \<not> nul (fst kv) \<and> jsonb_ok (snd kv)) kvs"
| "jsonb_ok _ = True"

definition dict_ok :: "dict \<Rightarrow> bool" where
  "dict_ok d \<longleftrightarrow> jsonb_ok (JObj d)"

definition storable :: "string list \<Rightarrow> dict list \<Rightarrow> bool" where
  "storable texts jsons \<longleftrightarrow> \<not> list_ex nul texts \<and> list_all dict_ok jsons"

definition refusal :: "string list \<Rightarrow> exn" where
  "refusal texts = (if list_ex nul texts then DataError ''PostgreSQL text fields cannot contain NUL (0x00) bytes''
     else UntranslatableCharacter)"

definition params :: "string list \<Rightarrow> dict list \<Rightarrow> (db, 'a) sem \<Rightarrow> (db, 'a) sem" where
  "params texts jsons m = (if storable texts jsons then m else raiseS (refusal texts))"

text \<open>A text that may be null.\<close>

definition given_texts :: "string option list \<Rightarrow> string list" where
  "given_texts ts = concat (map (\<lambda>t. case t of None \<Rightarrow> [] | Some x \<Rightarrow> [x]) ts)"

definition given_jsons :: "dict option \<Rightarrow> dict list" where
  "given_jsons d = (case d of None \<Rightarrow> [] | Some x \<Rightarrow> [x])"

lemma params_apply [simp]: "params ts js m d = (if storable ts js then m d else (Inl (refusal ts), d))"
  by (simp add: params_def raiseS_def)

lemma storable_nothing [simp]: "storable [] []" "storable ts [] \<longleftrightarrow> \<not> list_ex nul ts"
  by (simp_all add: storable_def)

lemma keeps_params [keeps_intro]: "keeps P m \<Longrightarrow> keeps P (params ts js m)"
  by (simp add: keeps_def)

lemma given_simps [simp]:
  "given_texts [] = []" "given_texts (None # ts) = given_texts ts" "given_texts (Some t # ts) = t # given_texts ts"
  "given_jsons None = []" "given_jsons (Some d) = [d]"
  by (simp_all add: given_texts_def given_jsons_def)

text \<open>The connection, between one statement and the next: a statement the server refused leaves its
  transaction failed, and until somebody rolls back every other statement is refused.  The store
  itself rolls back where it answers with a \<^verbatim>\<open>StoreError\<close>, or had not sent anything.\<close>

definition aborts :: "exn \<Rightarrow> bool" where
  "aborts e = (case e of UntranslatableCharacter \<Rightarrow> True | InFailedSqlTransaction \<Rightarrow> True | CheckViolation _ \<Rightarrow> True
     | UniqueViolation _ \<Rightarrow> True | ForeignKeyViolation _ \<Rightarrow> True | _ \<Rightarrow> False)"

definition on_connection :: "bool \<Rightarrow> (db, 'a) sem \<Rightarrow> db \<Rightarrow> 'a res \<times> db \<times> bool" where
  "on_connection failed m d =
     (if failed then (Inl InFailedSqlTransaction, d, True)
      else case m d of (Inl e, d') \<Rightarrow> (Inl e, d', aborts e) | (Inr x, d') \<Rightarrow> (Inr x, d', False))"

text \<open>A statement that reads the tables only, and \<open>UPDATE sources SET ... WHERE ...\<close> with the
  check of every row it changes.\<close>

definition queryS :: "(db \<Rightarrow> 'a) \<Rightarrow> (db, 'a) sem" where
  "queryS q = (\<lambda>d. (Inr (q d), d))"

definition update_sources :: "(source \<Rightarrow> bool) \<Rightarrow> (source \<Rightarrow> source) \<Rightarrow> (db, source list) sem" where
  "update_sources p f = (\<lambda>d.
     if list_ex (\<lambda>s. p s \<and> \<not> source_check (f s)) (d_sources d)
     then (Inl (CheckViolation ''sources''), d)
     else (Inr (map f (filter p (d_sources d))),
           d\<lparr>d_sources := map (\<lambda>s. if p s then f s else s) (d_sources d)\<rparr>))"

definition source_at :: "nat \<Rightarrow> db \<Rightarrow> source option" where
  "source_at i d = find (\<lambda>s. so_id s = i) (d_sources d)"

definition job_at :: "nat \<Rightarrow> db \<Rightarrow> job option" where
  "job_at i d = find (\<lambda>j. jo_id j = i) (d_jobs d)"

section \<open>Sources\<close>

definition source_texts :: "source \<Rightarrow> string list" where
  "source_texts s =
     [so_app_id s, so_project s, so_api_base s, so_project_url s, so_asset_name s, so_tag_prefix s,
      so_require_tag_ref_prefix s, so_channel s, so_platform s, so_arch s]
     @ given_texts [so_workflow_uri s, so_oidc_issuer s] @ [so_runner_environment s]
     @ given_texts [so_builder_id s, so_builder_keyid s, so_builder_public_key_pem s]
     @ [so_attestation_asset s, so_created_by s]"

definition add_source :: "int \<Rightarrow> source \<Rightarrow> (db, source) sem" where
  "add_source now s = params (source_texts s) [] (\<lambda>d.
     let row = s\<lparr>so_status := DRAFT, so_repository_id := None, so_repository_owner_id := None,
                 so_created_at := now, so_updated_at := now, so_last_error := None\<rparr> in
     if \<not> source_check row then (Inl (StoreError ''the store refused this source''), d)
     else if list_ex (\<lambda>r. so_id r = so_id s \<or> so_app_id r = so_app_id s) (d_sources d)
     then (Inl (StoreError ''application id is already registered''), d)
     else (Inr row, d\<lparr>d_sources := d_sources d @ [row]\<rparr>))"

definition get_source :: "nat \<Rightarrow> (db, source option) sem" where
  "get_source i = queryS (source_at i)"

definition list_sources :: "(db, source list) sem" where
  "list_sources = queryS (\<lambda>d. sort_key so_app_id (d_sources d))"

definition pollable_sources :: "(db, source list) sem" where
  "pollable_sources = queryS (\<lambda>d. filter pollable (d_sources d))"

definition due_for_poll :: "int \<Rightarrow> int \<Rightarrow> db \<Rightarrow> source \<Rightarrow> bool" where
  "due_for_poll now interval d s \<longleftrightarrow> so_status s = ACTIVE
     \<and> \<not> list_ex (\<lambda>j. jo_source_id j = so_id s \<and> open_job j) (d_jobs d)
     \<and> \<not> list_ex (\<lambda>j. jo_source_id j = so_id s \<and> jo_kind j = POLL
            \<and> (case jo_finished_at j of None \<Rightarrow> False | Some t \<Rightarrow> now - interval < t)) (d_jobs d)"

definition sources_due_for_poll :: "int \<Rightarrow> int \<Rightarrow> (db, source list) sem" where
  "sources_due_for_poll now interval = queryS (\<lambda>d. filter (due_for_poll now interval d) (d_sources d))"

datatype column_value = CText string | CInt int | CBool bool

definition UPDATABLE_COLUMNS :: "string set" where
  "UPDATABLE_COLUMNS = {''asset_name'', ''tag_prefix'', ''require_tag_ref_prefix'', ''max_asset_bytes'',
     ''critical'', ''channel'', ''platform'', ''arch''}"

text \<open>One assignment of the UPDATE; a value of another type than the column's is an error of the
  database (\<open>None\<close>).\<close>

definition assign :: "string \<Rightarrow> column_value \<Rightarrow> source \<Rightarrow> source option" where
  "assign name v s =
     (case v of
        CText t \<Rightarrow>
          if name = ''asset_name'' then Some (s\<lparr>so_asset_name := t\<rparr>)
          else if name = ''tag_prefix'' then Some (s\<lparr>so_tag_prefix := t\<rparr>)
          else if name = ''require_tag_ref_prefix'' then Some (s\<lparr>so_require_tag_ref_prefix := t\<rparr>)
          else if name = ''channel'' then Some (s\<lparr>so_channel := t\<rparr>)
          else if name = ''platform'' then Some (s\<lparr>so_platform := t\<rparr>)
          else if name = ''arch'' then Some (s\<lparr>so_arch := t\<rparr>) else None
      | CInt i \<Rightarrow> if name = ''max_asset_bytes'' then Some (s\<lparr>so_max_asset_bytes := i\<rparr>) else None
      | CBool b \<Rightarrow> if name = ''critical'' then Some (s\<lparr>so_critical := b\<rparr>) else None)"

fun assign_all :: "(string \<times> column_value) list \<Rightarrow> source \<Rightarrow> source option" where
  "assign_all [] s = Some s"
| "assign_all ((n, v) # kvs) s = Option.bind (assign n v s) (assign_all kvs)"

definition require_source :: "nat \<Rightarrow> (db, source) sem" where
  "require_source i = (\<lambda>d. case source_at i d of
     None \<Rightarrow> (Inl (StoreError ''source was deleted''), d) | Some s \<Rightarrow> (Inr s, d))"

definition column_texts :: "(string \<times> column_value) list \<Rightarrow> string list" where
  "column_texts cols = concat (map (\<lambda>c. case snd c of CText t \<Rightarrow> [t] | _ \<Rightarrow> []) cols)"

definition update_source :: "int \<Rightarrow> nat \<Rightarrow> (string \<times> column_value) list \<Rightarrow> (db, source) sem" where
  "update_source now i cols = (\<lambda>d.
     if \<not> fst ` set cols \<subseteq> UPDATABLE_COLUMNS
     then (Inl (StoreError ''column cannot be edited''), d)
     else if cols = [] then require_source i d
     else if list_ex nul (column_texts cols) then (Inl (refusal (column_texts cols)), d)
     else (case source_at i d of
         None \<Rightarrow> (Inl (StoreError ''source was deleted''), d)
       | Some s \<Rightarrow> (case assign_all cols (s\<lparr>so_updated_at := now\<rparr>) of
           None \<Rightarrow> (Inl (TypeError ''column type''), d)
         | Some s' \<Rightarrow> bindS (update_sources (\<lambda>r. so_id r = i) (\<lambda>_. s')) (\<lambda>_. returnS s') d)))"

definition set_status :: "int \<Rightarrow> nat \<Rightarrow> source_status \<Rightarrow> string option \<Rightarrow> (db, unit) sem" where
  "set_status now i status err =
     bindS (refuseS (status = ACTIVE) (StoreError ''a source becomes active only when its delegation exists'')) (\<lambda>_.
     bindS (params (given_texts [err]) [] (update_sources (\<lambda>s. so_id s = i)
         (\<lambda>s. s\<lparr>so_status := status, so_last_error := err, so_updated_at := now\<rparr>))) (\<lambda>_.
     returnS ()))"

text \<open>\<open>rid\<close> and \<open>owner\<close> are \<open>identity.get("repository_id")\<close> and \<open>identity.get("repository_owner_id")\<close>.\<close>

definition record_identity :: "int \<Rightarrow> nat \<Rightarrow> string option \<Rightarrow> string option \<Rightarrow> (db, unit) sem" where
  "record_identity now i rid owner =
     bindS (params (given_texts [rid, owner]) [] (update_sources (\<lambda>s. so_id s = i)
         (\<lambda>s. s\<lparr>so_repository_id := rid, so_repository_owner_id := owner,
                so_status := PENDING_DELEGATION, so_last_error := None, so_updated_at := now\<rparr>))) (\<lambda>_.
     returnS ())"

definition mark_delegated :: "int \<Rightarrow> string \<Rightarrow> (db, source) sem" where
  "mark_delegated now app_id =
     bindS (params [app_id] [] (update_sources (\<lambda>s. so_app_id s = app_id \<and> so_status s \<in> {PENDING_DELEGATION, PAUSED})
         (\<lambda>s. s\<lparr>so_status := ACTIVE, so_last_error := None, so_updated_at := now\<rparr>))) (\<lambda>rows.
     case rows of [] \<Rightarrow> raiseS (StoreError ''no source is waiting for a delegation'')
     | s # _ \<Rightarrow> returnS s)"

text \<open>\<open>ON DELETE CASCADE\<close> takes the source's jobs with it; the audit log has no foreign key.\<close>

definition delete_source :: "nat \<Rightarrow> (db, unit) sem" where
  "delete_source i = modifyS (\<lambda>d. d\<lparr>d_sources := filter (\<lambda>s. so_id s \<noteq> i) (d_sources d),
     d_jobs := filter (\<lambda>j. jo_source_id j \<noteq> i) (d_jobs d)\<rparr>)"

section \<open>Jobs\<close>

definition has_open_job :: "db \<Rightarrow> nat \<Rightarrow> bool" where
  "has_open_job d i \<longleftrightarrow> list_ex (\<lambda>j. jo_source_id j = i \<and> open_job j) (d_jobs d)"

definition enqueue ::
  "int \<Rightarrow> nat \<Rightarrow> nat \<Rightarrow> job_kind \<Rightarrow> string \<Rightarrow> dict \<Rightarrow> (db, job option) sem" where
  "enqueue now uuid i kind requested_by payload = params [requested_by] [payload] (\<lambda>d.
     let row = \<lparr>jo_id = uuid, jo_source_id = i, jo_kind = kind, jo_state = QUEUED,
          jo_requested_by = requested_by, jo_requested_at = now, jo_started_at = None,
          jo_finished_at = None, jo_attempts = 0, jo_payload = payload, jo_result = None, jo_error = None\<rparr> in
     if job_at uuid d \<noteq> None \<or> has_open_job d i then (Inr None, d)
     else if source_at i d = None then (Inl (ForeignKeyViolation ''jobs.source_id''), d)
     else (Inr (Some row), d\<lparr>d_jobs := d_jobs d @ [row]\<rparr>))"

definition set_job :: "nat \<Rightarrow> (job \<Rightarrow> job) \<Rightarrow> db \<Rightarrow> db" where
  "set_job i f d = d\<lparr>d_jobs := map (\<lambda>j. if jo_id j = i then f j else j) (d_jobs d)\<rparr>"

text \<open>\<open>locked\<close>: the rows that claims running at the same time hold, which SKIP LOCKED passes over.
  Rows with the same \<open>requested_at\<close> are taken in insertion order.\<close>

definition claimable :: "nat set \<Rightarrow> job_kind list \<Rightarrow> job \<Rightarrow> bool" where
  "claimable locked kinds j \<longleftrightarrow> jo_state j = QUEUED \<and> jo_kind j \<in> set kinds \<and> jo_id j \<notin> locked"

definition claim_job :: "int \<Rightarrow> nat set \<Rightarrow> job_kind list \<Rightarrow> (db, job option) sem" where
  "claim_job now locked kinds = (\<lambda>d.
     case sort_key jo_requested_at (filter (claimable locked kinds) (d_jobs d)) of
       [] \<Rightarrow> (Inr None, d)
     | j # _ \<Rightarrow>
         (let j' = j\<lparr>jo_state := RUNNING, jo_started_at := Some now, jo_attempts := jo_attempts j + 1\<rparr>
          in (Inr (Some j'), set_job (jo_id j) (\<lambda>_. j') d)))"

text \<open>The callers finish a job as done or failed; another state would be refused by the unique
  index when the source has another open job.\<close>

definition finish_job ::
  "int \<Rightarrow> nat \<Rightarrow> job_state \<Rightarrow> dict option \<Rightarrow> string option \<Rightarrow> (db, unit) sem" where
  "finish_job now i st res err = params (given_texts [err]) (given_jsons res) (\<lambda>d.
     if st \<in> {QUEUED, RUNNING} \<and> list_ex (\<lambda>j. jo_id j = i \<and>
          list_ex (\<lambda>k. jo_id k \<noteq> i \<and> jo_source_id k = jo_source_id j \<and> open_job k) (d_jobs d)) (d_jobs d)
     then (Inl (UniqueViolation ''jobs_one_open_per_source''), d)
     else (Inr (), set_job i (\<lambda>j. j\<lparr>jo_state := st, jo_finished_at := Some now,
                                    jo_result := res, jo_error := err\<rparr>) d))"

definition recent_jobs :: "nat \<Rightarrow> nat \<Rightarrow> (db, job list) sem" where
  "recent_jobs i limit = queryS (\<lambda>d.
     take limit (sort_key (\<lambda>j. - jo_requested_at j) (filter (\<lambda>j. jo_source_id j = i) (d_jobs d))))"

definition finished_order :: "job \<Rightarrow> nat \<times> int" where
  "finished_order j = (case jo_finished_at j of None \<Rightarrow> (1, 0) | Some t \<Rightarrow> (0, - t))"

definition last_poll :: "nat \<Rightarrow> (db, job option) sem" where
  "last_poll i = queryS (\<lambda>d.
     case sort_key finished_order
         (filter (\<lambda>j. jo_source_id j = i \<and> jo_kind j = POLL \<and> jo_state j = DONE) (d_jobs d)) of
       [] \<Rightarrow> None | j # _ \<Rightarrow> Some j)"

definition stale :: "int \<Rightarrow> int \<Rightarrow> job \<Rightarrow> bool" where
  "stale now older_than j \<longleftrightarrow> jo_state j = RUNNING
     \<and> (case jo_started_at j of None \<Rightarrow> False | Some t \<Rightarrow> t < now - older_than)"

definition reset_stale_jobs :: "int \<Rightarrow> int \<Rightarrow> (db, nat) sem" where
  "reset_stale_jobs now older_than = (\<lambda>d.
     (Inr (length (filter (stale now older_than) (d_jobs d))),
      d\<lparr>d_jobs := map (\<lambda>j. if stale now older_than j then j\<lparr>jo_state := QUEUED, jo_started_at := None\<rparr> else j)
          (d_jobs d)\<rparr>))"

section \<open>Audit\<close>

definition audit :: "int \<Rightarrow> string \<Rightarrow> string \<Rightarrow> nat option \<Rightarrow> dict \<Rightarrow> (db, unit) sem" where
  "audit now actor action i detail = params [actor, action] [detail] (modifyS (\<lambda>d. d\<lparr>d_audit := d_audit d @
     [\<lparr>au_id = length (d_audit d) + 1, au_at = now, au_actor = actor, au_action = action,
       au_source_id = i, au_detail = detail\<rparr>]\<rparr>))"

definition recent_audit :: "nat \<Rightarrow> (db, audit_event list) sem" where
  "recent_audit limit = queryS (\<lambda>d.
     take limit (sort_key (\<lambda>e. (- au_at e, - int (au_id e))) (d_audit d)))"

section \<open>Operators and sessions\<close>

definition operator_at :: "string \<Rightarrow> db \<Rightarrow> operator option" where
  "operator_at u d = find (\<lambda>r. op_username r = u) (d_operators d)"

definition session_at :: "string \<Rightarrow> db \<Rightarrow> session option" where
  "session_at t d = find (\<lambda>r. se_token_sha256 r = t) (d_sessions d)"

text \<open>The upsert replaces the hash and the salt and leaves \<open>disabled\<close> as it was.\<close>

definition put_operator :: "string \<Rightarrow> string \<Rightarrow> string \<Rightarrow> (db, unit) sem" where
  "put_operator username password_hash salt = params [username] [] (modifyS (\<lambda>d.
     case operator_at username d of
       None \<Rightarrow> d\<lparr>d_operators := d_operators d @ [\<lparr>op_username = username,
                  op_password_hash = password_hash, op_salt = salt, op_disabled = False\<rparr>]\<rparr>
     | Some _ \<Rightarrow> d\<lparr>d_operators := map (\<lambda>r. if op_username r = username
                  then r\<lparr>op_password_hash := password_hash, op_salt := salt\<rparr> else r) (d_operators d)\<rparr>))"

definition get_operator :: "string \<Rightarrow> (db, operator option) sem" where
  "get_operator username = params [username] [] (queryS (operator_at username))"

definition operator_count :: "(db, nat) sem" where
  "operator_count = queryS (\<lambda>d. length (d_operators d))"

definition create_session :: "string \<Rightarrow> string \<Rightarrow> string \<Rightarrow> int \<Rightarrow> (db, unit) sem" where
  "create_session token_sha256 username csrf_token expires_at = params [username, csrf_token] [] (\<lambda>d.
     if session_at token_sha256 d \<noteq> None then (Inl (UniqueViolation ''sessions''), d)
     else if operator_at username d = None then (Inl (ForeignKeyViolation ''sessions.username''), d)
     else (Inr (), d\<lparr>d_sessions := d_sessions d @ [\<lparr>se_token_sha256 = token_sha256,
            se_username = username, se_csrf_token = csrf_token, se_expires_at = expires_at\<rparr>]\<rparr>))"

definition get_session :: "int \<Rightarrow> string \<Rightarrow> (db, session option) sem" where
  "get_session now token_sha256 = queryS (\<lambda>d.
     case session_at token_sha256 d of
       None \<Rightarrow> None
     | Some s \<Rightarrow>
         (case operator_at (se_username s) d of
            None \<Rightarrow> None
          | Some r \<Rightarrow> if now < se_expires_at s \<and> \<not> op_disabled r then Some s else None))"

definition delete_session :: "string \<Rightarrow> (db, unit) sem" where
  "delete_session token_sha256 = modifyS (\<lambda>d.
     d\<lparr>d_sessions := filter (\<lambda>s. se_token_sha256 s \<noteq> token_sha256) (d_sessions d)\<rparr>)"

definition purge_expired_sessions :: "int \<Rightarrow> (db, unit) sem" where
  "purge_expired_sessions now = modifyS (\<lambda>d.
     d\<lparr>d_sessions := filter (\<lambda>s. now < se_expires_at s) (d_sessions d)\<rparr>)"

end
