(* ===== verification/StoreInv.thy ===== *)
theory StoreInv
  imports Store
begin

text \<open>
  What every transaction of the store keeps: the schema's constraints, among them at most one
  open job per source; the operator's decision recorded in a source; and that nothing but
  \<^verbatim>\<open>mark_delegated\<close> makes a source active.
\<close>

section \<open>The invariant\<close>

definition sources_ok :: "source list \<Rightarrow> bool" where
  "sources_ok ss \<longleftrightarrow> list_all source_check ss \<and> distinct (map so_id ss) \<and> distinct (map so_app_id ss)"

definition jobs_ok :: "nat set \<Rightarrow> job list \<Rightarrow> bool" where
  "jobs_ok ids js \<longleftrightarrow> distinct (map jo_id js) \<and> jo_source_id ` set js \<subseteq> ids
     \<and> (\<forall>j \<in> set js. \<forall>k \<in> set js. open_job j \<and> open_job k \<and> jo_source_id j = jo_source_id k \<longrightarrow> j = k)"

definition logins_ok :: "operator list \<Rightarrow> session list \<Rightarrow> bool" where
  "logins_ok os ss \<longleftrightarrow> distinct (map op_username os) \<and> distinct (map se_token_sha256 ss)
     \<and> se_username ` set ss \<subseteq> op_username ` set os"

definition db_inv :: "db \<Rightarrow> bool" where
  "db_inv d \<longleftrightarrow> sources_ok (d_sources d) \<and> jobs_ok (so_id ` set (d_sources d)) (d_jobs d)
     \<and> logins_ok (d_operators d) (d_sessions d)"

lemma db_invI:
  "sources_ok (d_sources d) \<Longrightarrow> jobs_ok (so_id ` set (d_sources d)) (d_jobs d)
    \<Longrightarrow> logins_ok (d_operators d) (d_sessions d) \<Longrightarrow> db_inv d"
  by (simp add: db_inv_def)

lemma empty_db_inv: "db_inv empty_db"
  by (simp add: db_inv_def empty_db_def sources_ok_def jobs_ok_def logins_ok_def)

lemma find_Some: "find P xs = Some x \<Longrightarrow> x \<in> set xs \<and> P x"
  by (induction xs) (auto split: if_splits)

lemma find_None: "find P xs = None \<longleftrightarrow> (\<forall>x \<in> set xs. \<not> P x)"
  by (induction xs) auto

lemma find_key_distinct:
  "distinct (map f xs) \<Longrightarrow> x \<in> set xs \<Longrightarrow> find (\<lambda>y. f y = f x) xs = Some x"
  by (induction xs) (auto simp: image_iff)

lemma map_key_update:
  "(\<And>x. f (g x) = f x) \<Longrightarrow> map f (map (\<lambda>x. if p x then g x else x) xs) = map f xs"
  by (induction xs) auto

lemma distinct_map_filter: "distinct (map f xs) \<Longrightarrow> distinct (map f (filter p xs))"
  by (induction xs) auto

section \<open>Sources\<close>

lemma queryS_keeps [keeps_intro]: "keeps P (queryS q)"
  by (simp add: keeps_def queryS_def)

lemma query_defs_keeps [keeps_intro]:
  "keeps P (get_source i)" "keeps P list_sources" "keeps P pollable_sources"
  "keeps P (sources_due_for_poll now iv)" "keeps P (recent_jobs i n)" "keeps P (last_poll i)"
  "keeps P (recent_audit n)" "keeps P (get_operator u)" "keeps P operator_count" "keeps P (get_session now t)"
  by (simp_all add: get_source_def list_sources_def pollable_sources_def sources_due_for_poll_def
      recent_jobs_def last_poll_def recent_audit_def get_operator_def operator_count_def get_session_def
      queryS_keeps keeps_params)

definition row_update :: "(source \<Rightarrow> source) \<Rightarrow> bool" where
  "row_update f \<longleftrightarrow> (\<forall>s. so_id (f s) = so_id s \<and> so_app_id (f s) = so_app_id s)"

lemma sources_ok_update:
  assumes "sources_ok ss" "\<And>s. s \<in> set ss \<Longrightarrow> p s \<Longrightarrow> source_check (f s)"
    and "\<And>s. s \<in> set ss \<Longrightarrow> p s \<Longrightarrow> so_id (f s) = so_id s \<and> so_app_id (f s) = so_app_id s"
  shows "sources_ok (map (\<lambda>s. if p s then f s else s) ss)"
    and "so_id ` set (map (\<lambda>s. if p s then f s else s) ss) = so_id ` set ss"
proof -
  have ids: "map so_id (map (\<lambda>s. if p s then f s else s) ss) = map so_id ss"
    "map so_app_id (map (\<lambda>s. if p s then f s else s) ss) = map so_app_id ss"
    using assms(3) by auto
  show "so_id ` set (map (\<lambda>s. if p s then f s else s) ss) = so_id ` set ss"
    using ids(1) by (metis list.set_map)
  show "sources_ok (map (\<lambda>s. if p s then f s else s) ss)"
    using assms(1,2) unfolding sources_ok_def ids by (auto simp: list_all_iff)
qed

lemma update_sources_inv:
  assumes "db_inv d" and "\<And>s. s \<in> set (d_sources d) \<Longrightarrow> p s \<Longrightarrow> so_id (f s) = so_id s \<and> so_app_id (f s) = so_app_id s"
  shows "db_inv (snd (update_sources p f d))"
proof (cases "list_ex (\<lambda>s. p s \<and> \<not> source_check (f s)) (d_sources d)")
  case True
  with assms(1) show ?thesis by (simp add: update_sources_def)
next
  case False
  then have "source_check (f s)" if "s \<in> set (d_sources d)" "p s" for s
    using that by (auto simp: list_ex_iff)
  then show ?thesis
    using assms sources_ok_update [of "d_sources d" p f] False
    by (auto simp: update_sources_def db_inv_def simp del: set_map)
qed

lemma update_sources_keeps [keeps_intro]: "row_update f \<Longrightarrow> keeps db_inv (update_sources p f)"
  by (simp add: keeps_def row_update_def update_sources_inv)

lemma assign_id: "assign n v s = Some s' \<Longrightarrow> identity s' = identity s \<and> so_status s' = so_status s
    \<and> so_repository_id s' = so_repository_id s \<and> so_repository_owner_id s' = so_repository_owner_id s"
  by (auto simp: assign_def identity_def split: column_value.splits if_splits)

lemma assign_all_id: "assign_all kvs s = Some s' \<Longrightarrow> identity s' = identity s \<and> so_status s' = so_status s
    \<and> so_repository_id s' = so_repository_id s \<and> so_repository_owner_id s' = so_repository_owner_id s"
proof (induction kvs arbitrary: s)
  case (Cons kv kvs)
  obtain n v where "kv = (n, v)" by (cases kv)
  with Cons.prems obtain t where t: "assign n v s = Some t" "assign_all kvs t = Some s'"
    by (auto simp: bind_eq_Some_conv)
  with Cons.IH [OF t(2)] assign_id [OF t(1)] show ?case by simp
qed simp

lemma identity_keys: "identity s' = identity s \<Longrightarrow> so_id s' = so_id s \<and> so_app_id s' = so_app_id s"
  by (simp add: identity_def)

lemma add_source_inv [keeps_intro]: "keeps db_inv (add_source now s)"
  unfolding keeps_def
proof (intro allI impI)
  fix d assume d: "db_inv d"
  let ?row = "s\<lparr>so_status := DRAFT, so_repository_id := None, so_repository_owner_id := None,
                 so_created_at := now, so_updated_at := now, so_last_error := None\<rparr>"
  show "db_inv (snd (add_source now s d))"
  proof (cases "source_check ?row \<and> \<not> list_ex (\<lambda>r. so_id r = so_id s \<or> so_app_id r = so_app_id s) (d_sources d)")
    case True
    then have "sources_ok (d_sources d @ [?row])"
      using d by (auto simp: db_inv_def sources_ok_def list_ex_iff)
    moreover have "jobs_ok (so_id ` set (d_sources d @ [?row])) (d_jobs d)"
      using d by (auto simp: db_inv_def jobs_ok_def)
    ultimately show ?thesis using True d by (simp add: add_source_def Let_def db_inv_def)
  qed (use d in \<open>auto simp: add_source_def Let_def\<close>)
qed

lemma update_source_inv [keeps_intro]: "keeps db_inv (update_source now i cols)"
  unfolding keeps_def
proof (intro allI impI)
  fix d assume d: "db_inv d"
  show "db_inv (snd (update_source now i cols d))"
  proof (cases "source_at i d")
    case None
    with d show ?thesis by (simp add: update_source_def require_source_def)
  next
    case (Some s)
    then have s: "s \<in> set (d_sources d)" "so_id s = i" by (auto simp: source_at_def dest: find_Some)
    show ?thesis
    proof (cases "assign_all cols (s\<lparr>so_updated_at := now\<rparr>)")
      case None
      with Some d show ?thesis by (simp add: update_source_def require_source_def)
    next
      case (Some s')
      then have "identity s' = identity (s\<lparr>so_updated_at := now\<rparr>)" by (rule assign_all_id [THEN conjunct1])
      then have keys: "so_id s' = so_id s" "so_app_id s' = so_app_id s" by (auto dest: identity_keys)
      have "r = s" if "r \<in> set (d_sources d)" "so_id r = i" for r
        using that s d by (auto simp: db_inv_def sources_ok_def distinct_map inj_on_def)
      then have "db_inv (snd (update_sources (\<lambda>r. so_id r = i) (\<lambda>_. s') d))"
        using d keys by (intro update_sources_inv) auto
      moreover have "snd (bindS m (\<lambda>_. returnS x) d) = snd (m d)" for m :: "(db, source list) sem" and x :: source
        by (auto simp: bindS_def returnS_def split: prod.split sum.split)
      ultimately show ?thesis
        using Some \<open>source_at i d = Some s\<close> d by (simp add: update_source_def require_source_def)
    qed
  qed
qed

lemma set_status_inv [keeps_intro]: "keeps db_inv (set_status now i st err)"
  unfolding set_status_def by (intro keeps_intro) (simp add: row_update_def)

lemma record_identity_inv [keeps_intro]: "keeps db_inv (record_identity now i rid owner)"
  unfolding record_identity_def by (intro keeps_intro) (simp add: row_update_def)

lemma mark_delegated_inv [keeps_intro]: "keeps db_inv (mark_delegated now a)"
  unfolding mark_delegated_def
  by (intro keeps_intro; (simp add: row_update_def)?; split list.split; intro conjI impI allI keeps_intro)

lemma jobs_ok_filter:
  "jobs_ok ids js \<Longrightarrow> (\<And>j. j \<in> set js \<Longrightarrow> p j \<Longrightarrow> jo_source_id j \<in> ids') \<Longrightarrow> jobs_ok ids' (filter p js)"
  by (auto simp: jobs_ok_def intro: distinct_map_filter)

lemma delete_source_inv [keeps_intro]: "keeps db_inv (delete_source i)"
  unfolding keeps_def
proof (intro allI impI)
  fix d assume d: "db_inv d"
  have "sources_ok (filter (\<lambda>s. so_id s \<noteq> i) (d_sources d))"
    using d by (auto simp: db_inv_def sources_ok_def list_all_iff intro: distinct_map_filter)
  moreover have "jobs_ok (so_id ` set (filter (\<lambda>s. so_id s \<noteq> i) (d_sources d))) (filter (\<lambda>j. jo_source_id j \<noteq> i) (d_jobs d))"
  proof (rule jobs_ok_filter)
    show "jobs_ok (so_id ` set (d_sources d)) (d_jobs d)" using d by (simp add: db_inv_def)
    then show "jo_source_id j \<in> so_id ` set (filter (\<lambda>s. so_id s \<noteq> i) (d_sources d))"
      if "j \<in> set (d_jobs d)" "jo_source_id j \<noteq> i" for j
      using that by (auto simp: jobs_ok_def)
  qed
  ultimately show "db_inv (snd (delete_source i d))"
    using d by (simp add: delete_source_def modifyS_def db_inv_def)
qed

section \<open>Jobs\<close>

lemma jobs_ok_map:
  assumes "jobs_ok ids js" "\<And>j. j \<in> set js \<Longrightarrow> jo_id (f j) = jo_id j \<and> jo_source_id (f j) = jo_source_id j"
    and "\<And>j. j \<in> set js \<Longrightarrow> open_job (f j) \<Longrightarrow> open_job j"
  shows "jobs_ok ids (map f js)"
proof -
  have "map jo_id (map f js) = map jo_id js" using assms(2) by auto
  then have "distinct (map jo_id (map f js))" using assms(1) by (simp only: jobs_ok_def)
  moreover have "jo_source_id ` set (map f js) \<subseteq> ids" using assms(1,2) by (auto simp: jobs_ok_def)
  moreover have "f j = f k" if "j \<in> set js" "k \<in> set js" "open_job (f j)" "open_job (f k)"
    "jo_source_id (f j) = jo_source_id (f k)" for j k
    using that assms unfolding jobs_ok_def by metis
  ultimately show ?thesis unfolding jobs_ok_def by auto
qed

lemma db_inv_jobs:
  "db_inv d \<Longrightarrow> jobs_ok (so_id ` set (d_sources d)) js \<Longrightarrow> db_inv (d\<lparr>d_jobs := js\<rparr>)"
  by (simp add: db_inv_def)

lemma set_job_inv:
  assumes "db_inv d" "\<And>j. j \<in> set (d_jobs d) \<Longrightarrow> jo_id j = i \<Longrightarrow>
      jo_id (f j) = i \<and> jo_source_id (f j) = jo_source_id j \<and> (open_job (f j) \<longrightarrow> open_job j)"
  shows "db_inv (set_job i f d)"
proof -
  have "jobs_ok (so_id ` set (d_sources d)) (map (\<lambda>j. if jo_id j = i then f j else j) (d_jobs d))"
    using assms by (intro jobs_ok_map) (auto simp: db_inv_def split: if_splits)
  then show ?thesis unfolding set_job_def by (rule db_inv_jobs [OF assms(1)])
qed

lemma job_unique:
  "db_inv d \<Longrightarrow> j \<in> set (d_jobs d) \<Longrightarrow> k \<in> set (d_jobs d) \<Longrightarrow> jo_id j = jo_id k \<Longrightarrow> j = k"
  by (auto simp: db_inv_def jobs_ok_def distinct_map inj_on_def)

lemma source_unique:
  "db_inv d \<Longrightarrow> s \<in> set (d_sources d) \<Longrightarrow> t \<in> set (d_sources d) \<Longrightarrow> so_id s = so_id t \<Longrightarrow> s = t"
  by (auto simp: db_inv_def sources_ok_def distinct_map inj_on_def)

lemma job_at_iff: "db_inv d \<Longrightarrow> job_at i d = Some j \<longleftrightarrow> j \<in> set (d_jobs d) \<and> jo_id j = i"
  unfolding job_at_def using find_key_distinct [of jo_id "d_jobs d" j]
  by (auto simp: db_inv_def jobs_ok_def dest: find_Some)

lemma source_at_iff: "db_inv d \<Longrightarrow> source_at i d = Some s \<longleftrightarrow> s \<in> set (d_sources d) \<and> so_id s = i"
  unfolding source_at_def using find_key_distinct [of so_id "d_sources d" s]
  by (auto simp: db_inv_def sources_ok_def dest: find_Some)

lemma enqueue_inv [keeps_intro]: "keeps db_inv (enqueue now uuid i kind by_whom payload)"
  unfolding keeps_def
proof (intro allI impI)
  fix d assume d: "db_inv d"
  show "db_inv (snd (enqueue now uuid i kind by_whom payload d))"
  proof (cases "job_at uuid d = None \<and> \<not> has_open_job d i \<and> source_at i d \<noteq> None")
    case False
    with d show ?thesis by (auto simp: enqueue_def Let_def)
  next
    case True
    then have "\<forall>j \<in> set (d_jobs d). jo_id j \<noteq> uuid \<and> \<not> (jo_source_id j = i \<and> open_job j)"
      "i \<in> so_id ` set (d_sources d)"
      by (auto simp: job_at_def find_None has_open_job_def list_ex_iff source_at_def dest: find_Some)
    with d True show ?thesis
      by (auto simp: enqueue_def Let_def db_inv_def jobs_ok_def)
  qed
qed

lemma claim_job_cases:
  "claim_job now locked kinds d = (Inr None, d) \<and> filter (claimable locked kinds) (d_jobs d) = [] \<or>
   (\<exists>j j'. j \<in> set (d_jobs d) \<and> claimable locked kinds j \<and>
      (\<forall>k \<in> set (d_jobs d). claimable locked kinds k \<longrightarrow> jo_requested_at j \<le> jo_requested_at k) \<and>
      j' = j\<lparr>jo_state := RUNNING, jo_started_at := Some now, jo_attempts := jo_attempts j + 1\<rparr> \<and>
      claim_job now locked kinds d = (Inr (Some j'), set_job (jo_id j) (\<lambda>_. j') d))"
proof (cases "sort_key jo_requested_at (filter (claimable locked kinds) (d_jobs d))")
  case Nil
  then have "filter (claimable locked kinds) (d_jobs d) = []" by (metis set_sort set_empty)
  with Nil show ?thesis by (simp add: claim_job_def)
next
  case (Cons j js)
  let ?q = "filter (claimable locked kinds) (d_jobs d)"
  have set: "set (j # js) = set ?q" by (metis Cons set_sort)
  have "sorted (map jo_requested_at (j # js))" by (metis Cons sorted_sort_key)
  then have "\<forall>k \<in> set ?q. jo_requested_at j \<le> jo_requested_at k" using set by auto
  moreover have "j \<in> set ?q" using set by auto
  ultimately show ?thesis using Cons by (auto simp: claim_job_def Let_def)
qed

lemma claim_job_inv [keeps_intro]: "keeps db_inv (claim_job now locked kinds)"
  unfolding keeps_def
proof (intro allI impI)
  fix d assume d: "db_inv d"
  show "db_inv (snd (claim_job now locked kinds d))"
    using claim_job_cases [of now locked kinds d]
  proof (elim disjE exE conjE)
    fix j j' assume a: "j \<in> set (d_jobs d)" "claimable locked kinds j"
      "j' = j\<lparr>jo_state := RUNNING, jo_started_at := Some now, jo_attempts := jo_attempts j + 1\<rparr>"
      "claim_job now locked kinds d = (Inr (Some j'), set_job (jo_id j) (\<lambda>_. j') d)"
    have "db_inv (set_job (jo_id j) (\<lambda>_. j') d)"
    proof (rule set_job_inv [OF d])
      fix k assume "k \<in> set (d_jobs d)" "jo_id k = jo_id j"
      then have "k = j" using job_unique [OF d] a(1) by blast
      with a show "jo_id j' = jo_id j \<and> jo_source_id j' = jo_source_id k \<and> (open_job j' \<longrightarrow> open_job k)"
        by (simp add: claimable_def open_job_def)
    qed
    with a show ?thesis by simp
  qed (use d in simp)
qed

lemma finish_job_inv [keeps_intro]: "keeps db_inv (finish_job now i st res err)"
  unfolding keeps_def
proof (intro allI impI)
  fix d assume d: "db_inv d"
  let ?f = "\<lambda>j. j\<lparr>jo_state := st, jo_finished_at := Some now, jo_result := res, jo_error := err\<rparr>"
  show "db_inv (snd (finish_job now i st res err d))"
  proof (cases "st \<in> {QUEUED, RUNNING}")
    case False
    then have "db_inv (set_job i ?f d)" using d by (intro set_job_inv) (auto simp: open_job_def)
    with False d show ?thesis by (simp add: finish_job_def)
  next
    case True
    show ?thesis
    proof (cases "\<exists>j \<in> set (d_jobs d). jo_id j = i \<and>
        (\<exists>k \<in> set (d_jobs d). jo_id k \<noteq> i \<and> jo_source_id k = jo_source_id j \<and> open_job k)")
      case c: False
      let ?g = "\<lambda>j. if jo_id j = i then ?f j else j"
      have "jobs_ok (so_id ` set (d_sources d)) (map ?g (d_jobs d))"
        unfolding jobs_ok_def
      proof (intro conjI ballI impI)
        have "map jo_id (map ?g (d_jobs d)) = map jo_id (d_jobs d)" by auto
        then show "distinct (map jo_id (map ?g (d_jobs d)))" using d by (simp only: db_inv_def jobs_ok_def)
        show "jo_source_id ` set (map ?g (d_jobs d)) \<subseteq> so_id ` set (d_sources d)"
          using d by (auto simp: db_inv_def jobs_ok_def)
        fix j' k'
        assume "j' \<in> set (map ?g (d_jobs d))" "k' \<in> set (map ?g (d_jobs d))"
          "open_job j' \<and> open_job k' \<and> jo_source_id j' = jo_source_id k'"
        then obtain j k where jk: "j \<in> set (d_jobs d)" "k \<in> set (d_jobs d)" "j' = ?g j" "k' = ?g k"
          "open_job (?g j)" "open_job (?g k)" "jo_source_id j = jo_source_id k" by (auto split: if_splits)
        show "j' = k'"
        proof (cases "jo_id j = jo_id k")
          case True
          then show ?thesis using job_unique [OF d jk(1,2)] jk by simp
        next
          case False
          have "jo_id j \<noteq> i"
          proof
            assume i: "jo_id j = i"
            with False jk(6) have "jo_id k \<noteq> i" "open_job k" by simp_all
            with c jk(1,2) jk(7) jk(7) [symmetric] i show False by blast
          qed
          moreover have "jo_id k \<noteq> i"
          proof
            assume i: "jo_id k = i"
            with False jk(5) have "jo_id j \<noteq> i" "open_job j" by simp_all
            with c jk(1,2) jk(7) jk(7) [symmetric] i show False by blast
          qed
          ultimately show ?thesis using d jk by (simp add: db_inv_def jobs_ok_def)
        qed
      qed
      then have "db_inv (set_job i ?f d)" unfolding set_job_def by (intro db_inv_jobs d)
      then show ?thesis using d by (simp add: finish_job_def)
    qed (use d True in \<open>auto simp: finish_job_def list_ex_iff\<close>)
  qed
qed

lemma reset_stale_jobs_inv [keeps_intro]: "keeps db_inv (reset_stale_jobs now age)"
  by (auto simp: keeps_def reset_stale_jobs_def stale_def open_job_def db_inv_def intro!: jobs_ok_map)

section \<open>Audit, operators and sessions\<close>

lemma run_audit [simp]:
  "storable [actor, action] [detail] \<Longrightarrow>
    bindS (audit now actor action i detail) f d = f () (snd (audit now actor action i detail d))"
  by (simp add: audit_def modifyS_def bindS_def)

lemma audit_inv [keeps_intro]: "keeps db_inv (audit now actor action i detail)"
  by (simp add: keeps_def audit_def modifyS_def db_inv_def)

lemma put_operator_inv [keeps_intro]: "keeps db_inv (put_operator u h salt)"
  unfolding keeps_def
proof (intro allI impI)
  fix d assume d: "db_inv d"
  let ?g = "\<lambda>r. if op_username r = u then r\<lparr>op_password_hash := h, op_salt := salt\<rparr> else r"
  have names: "map op_username (map ?g (d_operators d)) = map op_username (d_operators d)" by auto
  then have "op_username ` set (map ?g (d_operators d)) = op_username ` set (d_operators d)"
    by (metis list.set_map)
  with names d show "db_inv (snd (put_operator u h salt d))"
    by (simp add: put_operator_def modifyS_def db_inv_def logins_ok_def operator_at_def find_None image_iff
        del: set_map map_map split: option.split) auto
qed

lemma session_inv [keeps_intro]:
  "keeps db_inv (create_session t u c e)" "keeps db_inv (delete_session t)"
  "keeps db_inv (purge_expired_sessions now)"
proof -
  show "keeps db_inv (create_session t u c e)"
    by (auto simp: keeps_def create_session_def db_inv_def logins_ok_def session_at_def operator_at_def find_None
        dest!: find_Some)
  show "keeps db_inv (delete_session t)" "keeps db_inv (purge_expired_sessions now)"
    by (auto simp: keeps_def delete_session_def purge_expired_sessions_def modifyS_def db_inv_def logins_ok_def
        intro: distinct_map_filter)
qed

end
