(* ===== verification/StoreClaims.thy ===== *)
theory StoreClaims
  imports StoreInv
begin

text \<open>
  The store as a transition system: its reachable databases satisfy the schema's constraints,
  activation and identity are out of reach of everything but the transactions meant for them, and
  the job queue offers the workers a contract (\<open>job_queue\<close>) their models are built on.
\<close>

section \<open>Active sources\<close>

definition pins :: "source \<Rightarrow> string option \<times> string option" where
  "pins s = (so_repository_id s, so_repository_owner_id s)"

text \<open>Every active source of \<open>d\<close> was already active in \<open>d0\<close>, with the same identity and the same
  pinned repository ids.\<close>

definition active_from :: "db \<Rightarrow> db \<Rightarrow> bool" where
  "active_from d0 d \<longleftrightarrow> (\<forall>s' \<in> set (d_sources d). so_status s' = ACTIVE \<longrightarrow>
     (\<exists>s \<in> set (d_sources d0). so_status s = ACTIVE \<and> identity s = identity s' \<and> pins s = pins s'))"

lemma active_from_refl: "active_from d d"
  by (auto simp: active_from_def)

lemma active_from_same_sources: "d_sources d' = d_sources d \<Longrightarrow> active_from d0 d \<Longrightarrow> active_from d0 d'"
  by (simp add: active_from_def)

lemma active_from_update [keeps_intro]:
  assumes "\<And>s. so_status (f s) = ACTIVE \<Longrightarrow> so_status s = ACTIVE \<and> identity (f s) = identity s \<and> pins (f s) = pins s"
  shows "keeps (active_from d0) (update_sources p f)"
proof -
  have "active_from d0 (d\<lparr>d_sources := map (\<lambda>s. if p s then f s else s) (d_sources d)\<rparr>)" if a: "active_from d0 d" for d
    unfolding active_from_def
  proof (intro ballI impI)
    fix s' assume "s' \<in> set (d_sources (d\<lparr>d_sources := map (\<lambda>s. if p s then f s else s) (d_sources d)\<rparr>))"
      and act: "so_status s' = ACTIVE"
    then obtain s where s: "s \<in> set (d_sources d)" "s' = (if p s then f s else s)" by auto
    with act assms have "so_status s = ACTIVE \<and> identity s' = identity s \<and> pins s' = pins s" by auto
    with a s(1) show "\<exists>s \<in> set (d_sources d0). so_status s = ACTIVE \<and> identity s = identity s' \<and> pins s = pins s'"
      unfolding active_from_def by metis
  qed
  then show ?thesis by (simp add: keeps_def update_sources_def)
qed

lemma active_from_add_source [keeps_intro]: "keeps (active_from d0) (add_source now s)"
  by (auto simp: keeps_def add_source_def Let_def active_from_def)

lemma active_from_update_source [keeps_intro]: "keeps (active_from d0) (update_source now i cols)"
  unfolding keeps_def
proof (intro allI impI)
  fix d assume a: "active_from d0 d"
  show "active_from d0 (snd (update_source now i cols d))"
  proof (cases "source_at i d")
    case None
    with a show ?thesis by (simp add: update_source_def require_source_def)
  next
    case s: (Some s)
    then have sd: "s \<in> set (d_sources d)" by (auto simp: source_at_def dest: find_Some)
    show ?thesis
    proof (cases "assign_all cols (s\<lparr>so_updated_at := now\<rparr>)")
      case None
      with s a show ?thesis by (simp add: update_source_def require_source_def)
    next
      case (Some s')
      have "identity s' = identity s \<and> pins s' = pins s \<and> so_status s' = so_status s"
        using assign_all_id [OF Some] by (simp add: identity_def pins_def)
      then have "active_from d0 (d\<lparr>d_sources := map (\<lambda>r. if so_id r = i then s' else r) (d_sources d)\<rparr>)"
        using a sd unfolding active_from_def by (auto; metis)
      with a s Some show ?thesis
        by (simp add: update_source_def require_source_def update_sources_def bindS_def returnS_def)
    qed
  qed
qed

lemma active_from_set_status [keeps_intro]: "keeps (active_from d0) (set_status now i st err)"
proof (cases "st = ACTIVE")
  case True
  then show ?thesis by (simp add: keeps_def set_status_def)
next
  case False
  then show ?thesis unfolding set_status_def by (intro keeps_intro) simp
qed

lemma active_from_record_identity [keeps_intro]: "keeps (active_from d0) (record_identity now i rid owner)"
  unfolding record_identity_def by (intro keeps_intro) simp

lemma active_from_delete_source [keeps_intro]: "keeps (active_from d0) (delete_source i)"
  by (auto simp: keeps_def delete_source_def modifyS_def active_from_def)

lemma active_from_jobs [keeps_intro]:
  "keeps (active_from d0) (enqueue now uuid i kind who payload)"
  "keeps (active_from d0) (claim_job now locked kinds)"
  "keeps (active_from d0) (finish_job now i st res err)"
  "keeps (active_from d0) (reset_stale_jobs now age)"
  "keeps (active_from d0) (audit now actor action src detail)"
  "keeps (active_from d0) (put_operator u h salt)"
  "keeps (active_from d0) (create_session t u c e)"
  "keeps (active_from d0) (delete_session t)"
  "keeps (active_from d0) (purge_expired_sessions now)"
  by (auto simp: keeps_def active_from_def enqueue_def claim_job_def finish_job_def reset_stale_jobs_def audit_def
      put_operator_def create_session_def delete_session_def purge_expired_sessions_def set_job_def modifyS_def
      Let_def split: list.split option.split)

section \<open>The transition system\<close>

datatype db_op =
    AddSource source
  | UpdateSource nat "(string \<times> column_value) list"
  | SetStatus nat source_status "string option"
  | RecordIdentity nat "string option" "string option"
  | MarkDelegated string
  | DeleteSource nat
  | Enqueue nat nat job_kind string dict
  | ClaimJob "nat set" "job_kind list"
  | FinishJob nat job_state "dict option" "string option"
  | ResetStaleJobs int
  | Audit string string "nat option" dict
  | PutOperator string string string
  | CreateSession string string string int
  | DeleteSession string
  | PurgeExpiredSessions

fun db_step :: "int \<Rightarrow> db_op \<Rightarrow> db \<Rightarrow> db" where
  "db_step now (AddSource s) d = snd (add_source now s d)"
| "db_step now (UpdateSource i cols) d = snd (update_source now i cols d)"
| "db_step now (SetStatus i st err) d = snd (set_status now i st err d)"
| "db_step now (RecordIdentity i rid owner) d = snd (record_identity now i rid owner d)"
| "db_step now (MarkDelegated a) d = snd (mark_delegated now a d)"
| "db_step now (DeleteSource i) d = snd (delete_source i d)"
| "db_step now (Enqueue uuid i kind who payload) d = snd (enqueue now uuid i kind who payload d)"
| "db_step now (ClaimJob locked kinds) d = snd (claim_job now locked kinds d)"
| "db_step now (FinishJob i st res err) d = snd (finish_job now i st res err d)"
| "db_step now (ResetStaleJobs age) d = snd (reset_stale_jobs now age d)"
| "db_step now (Audit actor action src detail) d = snd (audit now actor action src detail d)"
| "db_step now (PutOperator u h salt) d = snd (put_operator u h salt d)"
| "db_step now (CreateSession t u c e) d = snd (create_session t u c e d)"
| "db_step now (DeleteSession t) d = snd (delete_session t d)"
| "db_step now PurgeExpiredSessions d = snd (purge_expired_sessions now d)"

inductive db_reachable :: "db \<Rightarrow> bool" where
  empty: "db_reachable empty_db"
| step: "db_reachable d \<Longrightarrow> db_reachable (db_step now op d)"

lemma db_step_inv: "db_inv d \<Longrightarrow> db_inv (db_step now op d)"
  by (cases op) (auto intro: keepsD keeps_intro)

lemma db_reachable_inv: "db_reachable d \<Longrightarrow> db_inv d"
  by (induction rule: db_reachable.induct) (auto intro: empty_db_inv db_step_inv)

definition db_run :: "(int \<times> db_op) list \<Rightarrow> db" where
  "db_run steps = fold (\<lambda>(now, op). db_step now op) steps empty_db"

lemma db_run_reachable: "db_reachable (db_run steps)"
proof -
  have "db_reachable d \<Longrightarrow> db_reachable (fold (\<lambda>(now, op). db_step now op) steps d)" for d
    by (induction steps arbitrary: d) (auto intro: db_reachable.step)
  then show ?thesis by (simp add: db_run_def db_reachable.empty)
qed

lemma fold_reachable: "db_reachable d \<Longrightarrow> db_reachable (fold (\<lambda>(now, op). db_step now op) steps d)"
  by (induction steps arbitrary: d) (auto intro: db_reachable.step)

section \<open>The queue as an interface\<close>

text \<open>What a worker relies on: a claim hands out a queued job of one of its kinds and marks it
  running, finishing a job ends exactly that job.\<close>

locale job_queue =
  fixes inv :: "'db \<Rightarrow> bool" and lookup :: "nat \<Rightarrow> 'db \<Rightarrow> job option"
    and claim :: "job_kind list \<Rightarrow> 'db \<Rightarrow> job option \<times> 'db"
    and finish :: "nat \<Rightarrow> job_state \<Rightarrow> dict option \<Rightarrow> string option \<Rightarrow> 'db \<Rightarrow> 'db"
    and storable :: "dict option \<Rightarrow> string option \<Rightarrow> bool"
  assumes claim_inv: "inv d \<Longrightarrow> inv (snd (claim ks d))"
    and claim_job: "inv d \<Longrightarrow> claim ks d = (Some j, d') \<Longrightarrow>
      jo_kind j \<in> set ks \<and> jo_state j = RUNNING \<and> lookup (jo_id j) d' = Some j \<and>
      (\<exists>q. lookup (jo_id j) d = Some q \<and> jo_state q = QUEUED \<and> jo_kind q = jo_kind j
         \<and> jo_source_id q = jo_source_id j \<and> jo_payload q = jo_payload j \<and> jo_attempts j = jo_attempts q + 1)"
    and claim_frame: "inv d \<Longrightarrow> claim ks d = (Some j, d') \<Longrightarrow> i \<noteq> jo_id j \<Longrightarrow> lookup i d' = lookup i d"
    and claim_none: "inv d \<Longrightarrow> claim ks d = (None, d') \<Longrightarrow> d' = d"
    and finish_job: "inv d \<Longrightarrow> st \<in> {DONE, FAILED} \<Longrightarrow> storable res err \<Longrightarrow> lookup i d = Some j \<Longrightarrow>
      \<exists>j'. lookup i (finish i st res err d) = Some j' \<and> jo_state j' = st \<and> jo_result j' = res
        \<and> jo_error j' = err \<and> jo_kind j' = jo_kind j \<and> jo_payload j' = jo_payload j"
    and finish_inv: "inv d \<Longrightarrow> st \<in> {DONE, FAILED} \<Longrightarrow> inv (finish i st res err d)"
    and finish_frame: "inv d \<Longrightarrow> st \<in> {DONE, FAILED} \<Longrightarrow> k \<noteq> i \<Longrightarrow> lookup k (finish i st res err d) = lookup k d"
begin

text \<open>One round of a worker, whatever it does to the rest of the database between the claim and
  the end, as long as it leaves its own job alone.\<close>

lemma work_round:
  assumes "inv d" "claim ks d = (Some j, d1)" "inv d2" "lookup (jo_id j) d2 = lookup (jo_id j) d1"
    and "st \<in> {DONE, FAILED}" "storable res err"
  shows "\<exists>j'. lookup (jo_id j) (finish (jo_id j) st res err d2) = Some j' \<and> jo_state j' = st
    \<and> jo_result j' = res \<and> jo_error j' = err \<and> jo_kind j' \<in> set ks \<and> jo_payload j' = jo_payload j
    \<and> inv (finish (jo_id j) st res err d2)"
  using claim_job [OF assms(1,2)] finish_job [OF assms(3,5,6)] finish_inv [OF assms(3,5)] assms(4) by metis

text \<open>A job never goes back to a worker once it was finished, unless something requeues it.\<close>

lemma finished_not_claimed:
  assumes "inv d" "st \<in> {DONE, FAILED}" "storable res err" "lookup i d = Some q" "claim ks (finish i st res err d) = (Some j, d')"
  shows "jo_id j \<noteq> i"
  using claim_job [OF finish_inv [OF assms(1,2)] assms(5)] finish_job [OF assms(1,2,3,4)] assms(2)
  by auto

end

definition claim_of :: "int \<Rightarrow> nat set \<Rightarrow> job_kind list \<Rightarrow> db \<Rightarrow> job option \<times> db" where
  "claim_of now locked ks d = (case claim_job now locked ks d of
     (Inl _, d') \<Rightarrow> (None, d') | (Inr j, d') \<Rightarrow> (j, d'))"

definition finish_of :: "int \<Rightarrow> nat \<Rightarrow> job_state \<Rightarrow> dict option \<Rightarrow> string option \<Rightarrow> db \<Rightarrow> db" where
  "finish_of now i st res err d = snd (finish_job now i st res err d)"

lemma find_job_map:
  assumes "\<And>j. jo_id j = i \<Longrightarrow> jo_id (f j) = i"
  shows "find (\<lambda>j. jo_id j = k) (map (\<lambda>j. if jo_id j = i then f j else j) js)
    = map_option (\<lambda>j. if jo_id j = i then f j else j) (find (\<lambda>j. jo_id j = k) js)"
  using assms by (induction js) auto

lemma job_at_set_job:
  "(\<And>j. jo_id j = i \<Longrightarrow> jo_id (f j) = i) \<Longrightarrow>
    job_at k (set_job i f d) = map_option (\<lambda>j. if jo_id j = i then f j else j) (job_at k d)"
  by (simp add: job_at_def set_job_def find_job_map)

lemma job_at_id: "job_at i d = Some j \<Longrightarrow> jo_id j = i"
  by (auto simp: job_at_def dest: find_Some)

text \<open>What the columns of a finished job can hold.\<close>

definition job_storable :: "dict option \<Rightarrow> string option \<Rightarrow> bool" where
  "job_storable res err \<longleftrightarrow> storable (given_texts [err]) (given_jsons res)"

lemma finish_done: "st \<in> {DONE, FAILED} \<Longrightarrow> job_storable res err \<Longrightarrow>
  finish_job now i st res err d = (Inr (), set_job i (\<lambda>j. j\<lparr>jo_state := st, jo_finished_at := Some now,
     jo_result := res, jo_error := err\<rparr>) d)"
  by (auto simp: finish_job_def job_storable_def)


lemma claim_of_Some:
  assumes "db_inv d" "claim_of now locked ks d = (Some j', d')"
  obtains j where "job_at (jo_id j) d = Some j" "claimable locked ks j"
    "\<And>k. k \<in> set (d_jobs d) \<Longrightarrow> claimable locked ks k \<Longrightarrow> jo_requested_at j \<le> jo_requested_at k"
    "j' = j\<lparr>jo_state := RUNNING, jo_started_at := Some now, jo_attempts := jo_attempts j + 1\<rparr>"
    "d' = set_job (jo_id j) (\<lambda>_. j') d"
  using claim_job_cases [of now locked ks d]
proof (elim disjE exE conjE)
  fix j k assume "j \<in> set (d_jobs d)" "claimable locked ks j"
    "\<forall>k \<in> set (d_jobs d). claimable locked ks k \<longrightarrow> jo_requested_at j \<le> jo_requested_at k"
    "k = j\<lparr>jo_state := RUNNING, jo_started_at := Some now, jo_attempts := jo_attempts j + 1\<rparr>"
    "claim_job now locked ks d = (Inr (Some k), set_job (jo_id j) (\<lambda>_. k) d)"
  with assms show ?thesis by (intro that [of j]) (auto simp: claim_of_def job_at_iff)
qed (use assms in \<open>auto simp: claim_of_def\<close>)

interpretation store_queue: job_queue db_inv job_at "claim_of now locked" "finish_of now" job_storable for now locked
proof
  fix d ks assume "db_inv d"
  then have "db_inv (snd (claim_job now locked ks d))" by (rule keepsD [OF claim_job_inv])
  then show "db_inv (snd (claim_of now locked ks d))"
    by (auto simp: claim_of_def split: prod.split sum.split)
next
  fix d ks j' d' assume a: "db_inv d" "claim_of now locked ks d = (Some j', d')"
  obtain j where j: "job_at (jo_id j) d = Some j" "claimable locked ks j"
    "j' = j\<lparr>jo_state := RUNNING, jo_started_at := Some now, jo_attempts := jo_attempts j + 1\<rparr>"
    "d' = set_job (jo_id j) (\<lambda>_. j') d" by (rule claim_of_Some [OF a])
  have at: "job_at k d' = map_option (\<lambda>q. if jo_id q = jo_id j then j' else q) (job_at k d)" for k
    unfolding j(4) by (rule job_at_set_job) (simp add: j(3))
  show "jo_kind j' \<in> set ks \<and> jo_state j' = RUNNING \<and> job_at (jo_id j') d' = Some j' \<and>
      (\<exists>q. job_at (jo_id j') d = Some q \<and> jo_state q = QUEUED \<and> jo_kind q = jo_kind j'
         \<and> jo_source_id q = jo_source_id j' \<and> jo_payload q = jo_payload j' \<and> jo_attempts j' = jo_attempts q + 1)"
    using at [of "jo_id j"] j by (simp add: claimable_def)
  fix i assume "i \<noteq> jo_id j'"
  then show "job_at i d' = job_at i d" using at [of i] j(3) by (cases "job_at i d") (auto dest: job_at_id)
next
  fix d ks d' assume "db_inv d" "claim_of now locked ks d = (None, d')"
  then show "d' = d"
    using claim_job_cases [of now locked ks d] by (auto simp: claim_of_def)
next
  fix d st i j res err assume "db_inv d" "st \<in> {DONE, FAILED}" "job_storable res err" "job_at i d = Some j"
  then show "\<exists>j'. job_at i (finish_of now i st res err d) = Some j' \<and> jo_state j' = st \<and> jo_result j' = res
        \<and> jo_error j' = err \<and> jo_kind j' = jo_kind j \<and> jo_payload j' = jo_payload j"
    by (simp add: finish_of_def finish_done job_at_set_job job_at_id)
next
  fix d st i res err assume "db_inv d"
  then show "db_inv (finish_of now i st res err d)"
    unfolding finish_of_def by (rule keepsD [OF finish_job_inv])
next
  fix d st res err and k i :: nat assume "db_inv d" "st \<in> {DONE, FAILED}" "k \<noteq> i"
  then show "job_at k (finish_of now i st res err d) = job_at k d"
    by (cases "job_at k d"; cases "job_storable res err")
      (auto simp: finish_of_def finish_done job_at_set_job finish_job_def job_storable_def dest: job_at_id)
qed


section \<open>Identity\<close>

lemma update_sources_identity:
  assumes "db_inv d" "s \<in> set (d_sources d)" "s' \<in> set (d_sources (snd (update_sources p f d)))" "so_id s' = so_id s"
    and f: "\<And>r. r \<in> set (d_sources d) \<Longrightarrow> p r \<Longrightarrow> identity (f r) = identity r"
  shows "identity s' = identity s"
proof -
  obtain r where r: "r \<in> set (d_sources d)" "identity s' = identity r"
    using assms(3) f by (auto simp: update_sources_def split: if_splits)
  then have "so_id r = so_id s" using assms(4) by (auto simp: identity_def)
  then have "r = s" using source_unique [OF assms(1) r(1) assms(2)] by blast
  with r show ?thesis by simp
qed

lemma db_step_identity:
  assumes d: "db_inv d" and s: "s \<in> set (d_sources d)" "s' \<in> set (d_sources (db_step now op d))" "so_id s' = so_id s"
  shows "identity s' = identity s"
proof -
  have same: "s' = s" if "s' \<in> set (d_sources d)" using that source_unique [OF d that s(1)] s(3) by blast
  note upd = update_sources_identity [OF d s(1) _ s(3)]
  show ?thesis
  proof (cases op)
    case (AddSource r)
    then show ?thesis using s same by (auto simp: add_source_def Let_def list_ex_iff split: if_splits)
  next
    case (UpdateSource i cols)
    show ?thesis
    proof (cases "source_at i d")
      case None
      with UpdateSource s same show ?thesis by (auto simp: update_source_def require_source_def split: if_splits)
    next
      case r: (Some r)
      show ?thesis
      proof (cases "assign_all cols (r\<lparr>so_updated_at := now\<rparr>)")
        case None
        with r UpdateSource s same show ?thesis by (auto simp: update_source_def require_source_def split: if_splits)
      next
        case (Some r')
        have ident: "identity r' = identity r" using assign_all_id [OF Some] by (simp add: identity_def)
        have only: "x = r" if "x \<in> set (d_sources d)" "so_id x = i" for x
          using that r source_at_iff [OF d] source_unique [OF d] by blast
        have "identity s' = identity s"
          if "s' \<in> set (d_sources (snd (update_sources (\<lambda>x. so_id x = i) (\<lambda>_. r') d)))"
          by (rule upd [OF that]) (use ident only in auto)
        moreover have "snd (bindS m (\<lambda>_. returnS x) d) = snd (m d)" for m :: "(db, source list) sem" and x :: source
          by (auto simp: bindS_def returnS_def split: prod.split sum.split)
        ultimately show ?thesis
          using r Some UpdateSource s(2) same by (auto simp: update_source_def require_source_def split: if_splits)
      qed
    qed
  next
    case (SetStatus i st err)
    let ?f = "\<lambda>s. s\<lparr>so_status := st, so_last_error := err, so_updated_at := now\<rparr>"
    have "identity (?f r) = identity r" for r by (simp add: identity_def)
    then have "identity s' = identity s" if "s' \<in> set (d_sources (snd (update_sources (\<lambda>s. so_id s = i) ?f d)))"
      using that by (intro upd)
    then show ?thesis using SetStatus s(2) same
      by (auto simp: set_status_def split: if_splits)
  next
    case (RecordIdentity i rid owner)
    let ?f = "\<lambda>s. s\<lparr>so_repository_id := rid, so_repository_owner_id := owner,
                so_status := PENDING_DELEGATION, so_last_error := None, so_updated_at := now\<rparr>"
    have "identity (?f r) = identity r" for r by (simp add: identity_def)
    then have "identity s' = identity s" if "s' \<in> set (d_sources (snd (update_sources (\<lambda>s. so_id s = i) ?f d)))"
      using that by (intro upd)
    then show ?thesis using RecordIdentity s(2) same
      by (auto simp: record_identity_def split: if_splits)
  next
    case (MarkDelegated a)
    let ?f = "\<lambda>s. s\<lparr>so_status := ACTIVE, so_last_error := None, so_updated_at := now\<rparr>"
    have "identity (?f r) = identity r" for r by (simp add: identity_def)
    then have "identity s' = identity s"
      if "s' \<in> set (d_sources (snd (update_sources (\<lambda>s. so_app_id s = a \<and> so_status s \<in> {PENDING_DELEGATION, PAUSED}) ?f d)))"
      using that by (intro upd)
    then show ?thesis using MarkDelegated s(2) same
      by (auto simp: mark_delegated_def bindS_def returnS_def raiseS_def split: prod.splits sum.splits list.splits if_splits)
  qed (use s same in \<open>auto simp: delete_source_def modifyS_def enqueue_def claim_job_def finish_job_def set_job_def
      reset_stale_jobs_def audit_def put_operator_def create_session_def delete_session_def
      purge_expired_sessions_def Let_def split: if_splits list.splits option.splits\<close>)
qed

section \<open>Properties\<close>

text \<open>A GitLab source as the form builds it, and a run that registers and delegates it.\<close>

definition ex_source :: source where
  "ex_source = \<lparr>so_id = 7, so_app_id = ''editor'', so_forge = GITLAB, so_project = ''team/editor'',
     so_api_base = ''https://gitlab.example'', so_project_url = ''https://gitlab.example/team/editor'',
     so_status = ACTIVE, so_critical = False, so_asset_name = ''editor.zip'', so_tag_prefix = ''v'',
     so_require_tag_ref_prefix = ''refs/tags/'', so_max_asset_bytes = 1000, so_channel = ''stable'',
     so_platform = ''windows'', so_arch = ''amd64'', so_workflow_uri = None, so_oidc_issuer = None,
     so_repository_id = None, so_repository_owner_id = None, so_runner_environment = ''github-hosted'',
     so_builder_id = Some ''b'', so_builder_keyid = Some ''k'', so_builder_public_key_pem = Some ''pem'',
     so_attestation_asset = ''provenance.intoto.jsonl'', so_created_at = 0, so_updated_at = 0,
     so_created_by = ''ops'', so_last_error = None\<rparr>"

definition ex_run :: db where
  "ex_run = db_run [(1, AddSource ex_source), (2, Enqueue 1 7 VALIDATE ''ops'' []), (3, ClaimJob {} [VALIDATE]),
     (4, RecordIdentity 7 (Some ''42'') (Some ''9'')), (5, FinishJob 1 DONE None None),
     (6, MarkDelegated ''editor''), (7, Enqueue 2 7 POLL ''ops'' [])]"

lemma ex_run_db: "ex_run = \<lparr>d_sources = [ex_source\<lparr>so_status := ACTIVE, so_repository_id := Some ''42'',
      so_repository_owner_id := Some ''9'', so_created_at := 1, so_updated_at := 6\<rparr>],
    d_jobs = [\<lparr>jo_id = 1, jo_source_id = 7, jo_kind = VALIDATE, jo_state = DONE, jo_requested_by = ''ops'',
        jo_requested_at = 2, jo_started_at = Some 3, jo_finished_at = Some 5, jo_attempts = 1, jo_payload = [],
        jo_result = None, jo_error = None\<rparr>,
      \<lparr>jo_id = 2, jo_source_id = 7, jo_kind = POLL, jo_state = QUEUED, jo_requested_by = ''ops'',
        jo_requested_at = 7, jo_started_at = None, jo_finished_at = None, jo_attempts = 0, jo_payload = [],
        jo_result = None, jo_error = None\<rparr>],
    d_audit = [], d_operators = [], d_sessions = []\<rparr>"
  by code_simp

text \<open>C8: In every database the store's transactions can produce, a source has at most one open job,
  every job belongs to a registered source, application ids are unique and well formed, and an
  active source carries the pins its forge's provenance check needs.\<close>

theorem store_keeps_constraints:
  assumes "db_reachable d"
  shows "(\<forall>j \<in> set (d_jobs d). \<forall>k \<in> set (d_jobs d).
        open_job j \<and> open_job k \<and> jo_source_id j = jo_source_id k \<longrightarrow> j = k)
    \<and> (\<forall>j \<in> set (d_jobs d). source_at (jo_source_id j) d \<noteq> None)
    \<and> distinct (map so_app_id (d_sources d))
    \<and> (\<forall>s \<in> set (d_sources d). source_check s)"
proof -
  have d: "db_inv d" using assms by (rule db_reachable_inv)
  have "source_at (jo_source_id j) d \<noteq> None" if "j \<in> set (d_jobs d)" for j
    using d that unfolding db_inv_def jobs_ok_def source_at_def find_None by fastforce
  with d show ?thesis by (auto simp: db_inv_def jobs_ok_def sources_ok_def list_all_iff)
qed

theorem store_keeps_constraints_witness:
  "map so_status (d_sources ex_run) = [ACTIVE] \<and> map jo_state (d_jobs ex_run) = [DONE, QUEUED]
    \<and> distinct (map so_app_id (d_sources ex_run))"
proof -
  have "db_reachable ex_run" unfolding ex_run_def by (rule db_run_reachable)
  from store_keeps_constraints [OF this] show ?thesis by (simp add: ex_run_db)
qed

text \<open>C6: No transaction but \<open>mark_delegated\<close> makes a source active: whatever else runs, a source active
  afterwards was active before with the same identity and the same pinned repository ids.\<close>

theorem only_delegation_activates:
  assumes "\<And>a. op \<noteq> MarkDelegated a" "s' \<in> set (d_sources (db_step now op d))" "so_status s' = ACTIVE"
  shows "\<exists>s \<in> set (d_sources d). so_status s = ACTIVE \<and> identity s = identity s' \<and> pins s = pins s'"
proof -
  have "active_from d (db_step now op d)"
    using assms(1) active_from_refl [of d] by (cases op) (auto intro: keepsD keeps_intro)
  with assms(2,3) show ?thesis by (simp add: active_from_def)
qed

theorem only_delegation_activates_witness:
  "\<exists>s \<in> set (d_sources ex_run). so_status s = ACTIVE \<and>
     pins s = pins (hd (d_sources (db_step 9 (UpdateSource 7 [(''channel'', CText ''beta'')]) ex_run)))"
proof -
  let ?d = "db_step 9 (UpdateSource 7 [(''channel'', CText ''beta'')]) ex_run"
  have "hd (d_sources ?d) \<in> set (d_sources ?d) \<and> so_status (hd (d_sources ?d)) = ACTIVE"
    unfolding ex_run_db by code_simp
  then show ?thesis
    using only_delegation_activates [of "UpdateSource 7 [(''channel'', CText ''beta'')]" "hd (d_sources ?d)" 9 ex_run] by auto
qed

text \<open>The identity an operator registered, which a delegation is granted on the strength of, is
  never edited: a row present before and after any transaction has the same application id,
  forge, project, workflow, issuer and builder key.\<close>

theorem identity_never_edited:
  assumes "db_reachable d" "s \<in> set (d_sources d)" "s' \<in> set (d_sources (db_step now op d))" "so_id s' = so_id s"
  shows "identity s' = identity s"
  using db_step_identity [OF db_reachable_inv [OF assms(1)] assms(2-4)] .

theorem identity_never_edited_witness:
  "identity (hd (d_sources (db_step 9 (UpdateSource 7 [(''channel'', CText ''beta'')]) ex_run))) = identity (hd (d_sources ex_run))
     \<and> so_channel (hd (d_sources (db_step 9 (UpdateSource 7 [(''channel'', CText ''beta'')]) ex_run))) = ''beta''"
proof -
  let ?d = "db_step 9 (UpdateSource 7 [(''channel'', CText ''beta'')]) ex_run"
  have r: "db_reachable ex_run" unfolding ex_run_def by (rule db_run_reachable)
  have "hd (d_sources ex_run) \<in> set (d_sources ex_run) \<and> hd (d_sources ?d) \<in> set (d_sources ?d)
      \<and> so_id (hd (d_sources ?d)) = so_id (hd (d_sources ex_run)) \<and> so_channel (hd (d_sources ?d)) = ''beta''"
    unfolding ex_run_db by code_simp
  then show ?thesis using identity_never_edited [OF r] by blast
qed

text \<open>A worker is only ever handed a job of the kinds it asked for, the oldest queued one no other
  claim holds; when it ends the job after any work that leaves the job's row alone, that job
  and no other is done or failed, with its payload as it was queued.\<close>

theorem claimed_job_is_asked_for:
  assumes "db_reachable d" "claim_job now locked kinds d = (Inr (Some j), d1)"
    and "db_inv d2" "job_at (jo_id j) d2 = job_at (jo_id j) d1" "st \<in> {DONE, FAILED}" "job_storable res err"
  shows "jo_kind j \<in> set kinds \<and> jo_id j \<notin> locked
    \<and> (\<forall>k \<in> set (d_jobs d). claimable locked kinds k \<longrightarrow> jo_requested_at j \<le> jo_requested_at k)
    \<and> (\<exists>j'. job_at (jo_id j) (snd (finish_job now' (jo_id j) st res err d2)) = Some j'
         \<and> jo_state j' = st \<and> jo_payload j' = jo_payload j)"
proof -
  have d: "db_inv d" using assms(1) by (rule db_reachable_inv)
  have c: "claim_of now locked kinds d = (Some j, d1)" using assms(2) by (simp add: claim_of_def)
  obtain j0 where j0: "claimable locked kinds j0"
    "\<And>k. k \<in> set (d_jobs d) \<Longrightarrow> claimable locked kinds k \<Longrightarrow> jo_requested_at j0 \<le> jo_requested_at k"
    "j = j0\<lparr>jo_state := RUNNING, jo_started_at := Some now, jo_attempts := jo_attempts j0 + 1\<rparr>"
    by (rule claim_of_Some [OF d c]) (rule that)
  have "\<exists>j'. job_at (jo_id j) (finish_of now' (jo_id j) st res err d2) = Some j' \<and> jo_state j' = st \<and> jo_payload j' = jo_payload j"
    using store_queue.work_round [OF d c assms(3,4,5,6)] store_queue.finish_job [OF assms(3,5,6)]
      store_queue.claim_job [OF d c] assms(4) by metis
  with j0 show ?thesis by (simp add: finish_of_def claimable_def)
qed

theorem claimed_job_is_asked_for_witness:
  "\<exists>j d1. claim_job 8 {} [VALIDATE, POLL] ex_run = (Inr (Some j), d1) \<and> jo_kind j = POLL
     \<and> (\<exists>j'. job_at (jo_id j) (snd (finish_job 9 (jo_id j) DONE None None d1)) = Some j' \<and> jo_state j' = DONE)"
proof -
  have r: "db_reachable ex_run" unfolding ex_run_def by (rule db_run_reachable)
  obtain j d1 where c: "claim_job 8 {} [VALIDATE, POLL] ex_run = (Inr (Some j), d1)" "jo_kind j = POLL"
    unfolding ex_run_db by (simp add: claim_job_def claimable_def Let_def)
  have "db_inv d1" using keepsD [OF claim_job_inv db_reachable_inv [OF r], of 8 "{}" "[VALIDATE, POLL]"] c by simp
  from claimed_job_is_asked_for [OF r c(1) this refl, of DONE None None] c show ?thesis by (auto simp: job_storable_def)
qed

end
