(* ===== verification/IngestWorker.thy ===== *)
theory IngestWorker
  imports Sources StoreClaims
begin

text \<open>
  \<^verbatim>\<open>packages/dist-ingest/src/dist_ingest/worker.py\<close>: the service that holds the forge credential.

  The worker shares the database with the admin application, the signing worker and other
  workers.  Its state is what it can touch: the database, the quarantine directory, the requests
  it made, and the log of its own transactions (a history variable: the database before and after
  each, and the quarantine at that moment), and whether its connection is in a failed transaction,
  in which the server refuses every statement until a rollback.  Before every transaction the others may have changed
  the database: \<open>e_others\<close> says how, and is unconstrained unless a theorem says otherwise.  The
  database clock and the fresh identifiers are functions of the number of the transaction.
\<close>

record transaction =
  tx_before :: db
  tx_after :: db
  tx_files :: fs

record ingest_state =
  is_db :: db
  is_files :: fs
  is_made :: "string list"
  is_log :: "transaction list"
  is_failed :: bool

record 'b ingest_env =
  e_world :: "'b world"
  e_net :: net
  e_quarantine :: quarantine
  e_skip_gates :: "string option"
  e_others :: "nat \<Rightarrow> db \<Rightarrow> db"
  e_clock :: "nat \<Rightarrow> int"
  e_uuid :: "nat \<Rightarrow> nat"
  e_locked :: "nat \<Rightarrow> nat set"

definition POLL_INTERVAL :: int where "POLL_INTERVAL = 15 * 60"
definition STALE_AFTER :: int where "STALE_AFTER = 30 * 60"
definition MAX_CONSECUTIVE_SKIPS :: int where "MAX_CONSECUTIVE_SKIPS = 24"

section \<open>Where a statement acts\<close>

text \<open>One transaction of the store: number, clock and identifier of the transaction are passed on.\<close>

definition on_db :: "'b ingest_env \<Rightarrow> (nat \<Rightarrow> (db, 'a) sem) \<Rightarrow> (ingest_state, 'a) sem" where
  "on_db E f = (\<lambda>s.
     let i = length (is_log s); d = e_others E i (is_db s) in
     case on_connection (is_failed s) (f i) d of (r, d', failed) \<Rightarrow>
       (r, s\<lparr>is_db := d', is_log := \<lparr>tx_before = d, tx_after = d', tx_files = is_files s\<rparr> # is_log s, is_failed := failed\<rparr>))"

definition on_http :: "'a http \<Rightarrow> (ingest_state, 'a) sem" where
  "on_http m = (\<lambda>s. case m (is_made s) of (r, made) \<Rightarrow> (r, s\<lparr>is_made := made\<rparr>))"

definition on_files :: "(fs, 'a) sem \<Rightarrow> (ingest_state, 'a) sem" where
  "on_files m = (\<lambda>s. case m (is_files s) of (r, fs) \<Rightarrow> (r, s\<lparr>is_files := fs\<rparr>))"

text \<open>\<open>except\<close>: the handler runs in the state the exception left.\<close>

definition catchS :: "('s, 'a) sem \<Rightarrow> (exn \<Rightarrow> ('s, 'a) sem) \<Rightarrow> ('s, 'a) sem" where
  "catchS m h = (\<lambda>s. case m s of (Inl e, s') \<Rightarrow> h e s' | (Inr x, s') \<Rightarrow> (Inr x, s'))"

definition is_forge_error :: "exn \<Rightarrow> bool" where
  "is_forge_error e = (case e of ForgeError _ \<Rightarrow> True | _ \<Rightarrow> False)"

definition is_cheap_check_error :: "exn \<Rightarrow> bool" where
  "is_cheap_check_error e =
     (case e of ForgeError _ \<Rightarrow> True | HTTPError \<Rightarrow> True | SourceConfigError _ \<Rightarrow> True | _ \<Rightarrow> False)"

text \<open>The credential, from the environment and, when it names one, a file.\<close>

definition forge_token :: "string option \<Rightarrow> string option \<Rightarrow> (string \<Rightarrow> string res) \<Rightarrow> string option res" where
  "forge_token DIST_FORGE_TOKEN_FILE DIST_FORGE_TOKEN read_text =
     (if given DIST_FORGE_TOKEN_FILE
      then bindr (read_text (the DIST_FORGE_TOKEN_FILE)) (\<lambda>t. Inr (if strip t = [] then None else Some (strip t)))
      else Inr (if given DIST_FORGE_TOKEN then DIST_FORGE_TOKEN else None))"

section \<open>Job kinds\<close>

definition find_asset :: "source \<Rightarrow> forge_release \<Rightarrow> forge_asset res" where
  "find_asset source r = (case asset r (so_asset_name source) of
     None \<Rightarrow> Inl (ForgeError ''the release has no such asset'') | Some a \<Rightarrow> Inr a)"

definition do_validate :: "'b ingest_env \<Rightarrow> source \<Rightarrow> (ingest_state, dict) sem" where
  "do_validate E source =
     bindS (liftS (release_source (e_net E) source)) (\<lambda>forge.
     bindS (on_http (rl_project_identity forge)) (\<lambda>identity.
     bindS (on_http (rl_latest_release forge)) (\<lambda>release.
     case release of
       None \<Rightarrow> raiseS (ForgeError ''the project has no published release; there is nothing to ingest yet'')
     | Some r \<Rightarrow>
         bindS (liftS (find_asset source r)) (\<lambda>a.
         returnS [(''repository'', JStr (pi_repository identity)),
                  (''repository_id'', JStr (pi_repository_id identity)),
                  (''repository_owner_id'', JStr (pi_repository_owner_id identity)),
                  (''latest_tag'', JStr (fr_tag r)), (''latest_version'', JStr (fr_version r)),
                  (''asset'', JStr (fa_name a)), (''asset_bytes'', JInt (fa_size a))]))))"

fun promotion_text :: "promotion \<Rightarrow> string" where
  "promotion_text PROMOTE = ''promote''"
| "promotion_text HOLD_FOR_CEREMONY = ''hold_for_ceremony''"
| "promotion_text REJECT = ''reject''"

text \<open>The reason as text, up to the text of a refused exception.\<close>

fun reason_text :: "reason \<Rightarrow> string" where
  "reason_text (NotAdmitted e) = ''not admitted: ''"
| "reason_text NoAttestation = ''no provenance attestation; appearing in a GitLab release is not evidence''"
| "reason_text (ProvenanceRejected e) = ''provenance rejected: ''"
| "reason_text (GateFailed e) = ''gate failed: ''"
| "reason_text OfflineKey = ''signs with an offline key; promotion requires a signing ceremony''"
| "reason_text (AllGatesPassed b r) = ''all gates passed; built by '' @ b @ '' at '' @ r"
| "reason_text (GatesSkipped sk b r) =
     ''gates passed, '' @ join ''/'' sk @ '' skipped by configuration; built by '' @ b @ '' at '' @ r"

definition outcome_record :: "string \<Rightarrow> string \<Rightarrow> string \<Rightarrow> nat \<Rightarrow> outcome \<Rightarrow> dict" where
  "outcome_record tag version filename written oc =
     [(''tag'', JStr tag), (''version'', JStr version), (''filename'', JStr filename), (''bytes'', JInt (int written)),
      (''decision'', JStr (promotion_text (oc_decision oc))), (''reason'', JStr (reason_text (oc_reason oc)))]
     @ (case oc_admitted oc of None \<Rightarrow> [] | Some a \<Rightarrow> [(''sha256'', JStr (ad_sha256 a))])
     @ (if oc_decision oc = HOLD_FOR_CEREMONY
        then [(''note'', JStr ''offline key; a human must sign this release'')] else [])"

text \<open>The staged file is read back in one piece: the size of the chunks makes no difference to
  quarantine.\<close>

definition do_poll :: "'b ingest_env \<Rightarrow> source \<Rightarrow> (ingest_state, dict) sem" where
  "do_poll E source =
     bindS (liftS (source_ingest_policy (e_skip_gates E) source)) (\<lambda>policy.
     bindS (liftS (release_source (e_net E) source)) (\<lambda>forge.
     bindS (on_http (rl_latest_release forge)) (\<lambda>release.
     case release of
       None \<Rightarrow> returnS [(''outcome'', JStr ''no release'')]
     | Some r \<Rightarrow>
         bindS (liftS (find_asset source r)) (\<lambda>a.
         bindS (on_http (rl_download forge a)) (\<lambda>content.
         bindS (catchS (on_http (rl_attestation forge (hexdigest (w_sha (e_world E)) content)))
                  (\<lambda>e. if is_forge_error e then returnS None else raiseS e)) (\<lambda>envelope.
         bindS (on_files (ingest (e_world E) policy (e_quarantine E) [Chunk content] envelope None)) (\<lambda>oc.
         returnS (outcome_record (fr_tag r) (fr_version r) (fa_name a) (length content) oc))))))))"

section \<open>The loop\<close>

definition hand_off_to_signer :: "'b ingest_env \<Rightarrow> source \<Rightarrow> job \<Rightarrow> dict \<Rightarrow> (ingest_state, unit) sem" where
  "hand_off_to_signer E source job result =
     (if jo_kind job \<noteq> POLL then returnS ()
      else if get result ''decision'' \<noteq> JStr (promotion_text PROMOTE) then returnS ()
      else bindS (on_db E (\<lambda>i. enqueue (e_clock E i) (e_uuid E i) (so_id source) PUBLISH ''ingest''
             [(''sha256'', get result ''sha256''), (''version'', get result ''version''),
              (''filename'', get result ''filename''), (''tag'', get result ''tag'')])) (\<lambda>_.
           returnS ()))"

definition work :: "'b ingest_env \<Rightarrow> source \<Rightarrow> job \<Rightarrow> (ingest_state, dict) sem" where
  "work E source job =
     (if jo_kind job = VALIDATE then
        bindS (do_validate E source) (\<lambda>result.
        bindS (on_db E (\<lambda>i. record_identity (e_clock E i) (so_id source)
                 (as_str (get result ''repository_id'')) (as_str (get result ''repository_owner_id'')))) (\<lambda>_.
        bindS (on_db E (\<lambda>i. audit (e_clock E i) ''worker'' ''source.validated'' (Some (so_id source)) result)) (\<lambda>_.
        returnS result)))
      else bindS (refuseS (\<not> pollable source) (SourceConfigError ''the source has no delegation yet'')) (\<lambda>_.
        bindS (do_poll E source) (\<lambda>result.
        bindS (on_db E (\<lambda>i. audit (e_clock E i) ''worker'' ''source.polled'' (Some (so_id source)) result)) (\<lambda>_.
        returnS result))))"

definition fail_job :: "'b ingest_env \<Rightarrow> source \<Rightarrow> job \<Rightarrow> string \<Rightarrow> (ingest_state, unit) sem" where
  "fail_job E source job message =
     bindS (on_db E (\<lambda>i. finish_job (e_clock E i) (jo_id job) FAILED None (Some message))) (\<lambda>_.
       if jo_kind job = VALIDATE
       then on_db E (\<lambda>i. set_status (e_clock E i) (so_id source) INVALID (Some message))
       else returnS ())"

text \<open>\<open>run_body\<close> is the \<open>try\<close> block of \<open>run_job\<close>; \<open>message\<close> is the text of an exception.\<close>

definition run_body :: "'b ingest_env \<Rightarrow> source \<Rightarrow> job \<Rightarrow> (ingest_state, unit) sem" where
  "run_body E source job =
     bindS (work E source job) (\<lambda>result.
     bindS (on_db E (\<lambda>i. finish_job (e_clock E i) (jo_id job) DONE (Some result) None)) (\<lambda>_.
     hand_off_to_signer E source job result))"

definition run_job :: "'b ingest_env \<Rightarrow> (exn \<Rightarrow> string) \<Rightarrow> job \<Rightarrow> (ingest_state, unit) sem" where
  "run_job E message job =
     bindS (on_db E (\<lambda>i. get_source (jo_source_id job))) (\<lambda>source. case source of
       None \<Rightarrow> on_db E (\<lambda>i. finish_job (e_clock E i) (jo_id job) FAILED None (Some ''source was deleted''))
     | Some source \<Rightarrow> catchS (run_body E source job) (\<lambda>e. fail_job E source job (message e)))"

definition unchanged_since_last_poll :: "'b ingest_env \<Rightarrow> source \<Rightarrow> (ingest_state, dict option) sem" where
  "unchanged_since_last_poll E source =
     bindS (on_db E (\<lambda>i. last_poll (so_id source))) (\<lambda>last.
       let result = (case last of None \<Rightarrow> [] | Some j \<Rightarrow> (case jo_result j of None \<Rightarrow> [] | Some r \<Rightarrow> r)) in
       case as_str (get result ''tag'') of
         None \<Rightarrow> returnS None
       | Some known \<Rightarrow>
           if known = [] then returnS None
           else (case as_int (get_default result ''consecutive_skips'' (JInt 0)) of
               None \<Rightarrow> returnS None
             | Some skips \<Rightarrow>
                 if MAX_CONSECUTIVE_SKIPS \<le> skips then returnS None
                 else bindS (catchS
                        (bindS (liftS (release_source (e_net E) source)) (\<lambda>forge. on_http (rl_newest_tag_hint forge)))
                        (\<lambda>e. if is_cheap_check_error e then returnS None else raiseS e)) (\<lambda>hint.
                      if hint \<noteq> Some known then returnS None
                      else returnS (Some [(''outcome'', JStr ''unchanged''), (''tag'', JStr known),
                             (''via'', JStr ''release feed''), (''consecutive_skips'', JInt (skips + 1))]))))"

definition schedule :: "'b ingest_env \<Rightarrow> source \<Rightarrow> (ingest_state, unit) sem" where
  "schedule E source =
     bindS (unchanged_since_last_poll E source) (\<lambda>unchanged.
     bindS (on_db E (\<lambda>i. enqueue (e_clock E i) (e_uuid E i) (so_id source) POLL ''schedule'' [])) (\<lambda>job.
     case (unchanged, job) of
       (Some result, Some j) \<Rightarrow> on_db E (\<lambda>i. finish_job (e_clock E i) (jo_id j) DONE (Some result) None)
     | _ \<Rightarrow> returnS ()))"

fun schedule_all :: "'b ingest_env \<Rightarrow> source list \<Rightarrow> (ingest_state, unit) sem" where
  "schedule_all E [] = returnS ()"
| "schedule_all E (s # ss) = bindS (schedule E s) (\<lambda>_. schedule_all E ss)"

definition tick :: "'b ingest_env \<Rightarrow> (exn \<Rightarrow> string) \<Rightarrow> (ingest_state, bool) sem" where
  "tick E message =
     bindS (on_db E (\<lambda>i. reset_stale_jobs (e_clock E i) STALE_AFTER)) (\<lambda>_.
     bindS (on_db E (\<lambda>i. sources_due_for_poll (e_clock E i) POLL_INTERVAL)) (\<lambda>due.
     bindS (schedule_all E due) (\<lambda>_.
     bindS (on_db E (\<lambda>i. claim_job (e_clock E i) (e_locked E i) [VALIDATE, POLL])) (\<lambda>job.
     case job of
       None \<Rightarrow> returnS False
     | Some j \<Rightarrow> bindS (run_job E message j) (\<lambda>_. returnS True)))))"

text \<open>\<open>main\<close>: \<open>n\<close> rounds of the loop, in which every exception of a tick is logged and dropped.  The pool
  rolls back the connection it takes back, so a round starts with one that is not failed.\<close>

fun main_loop :: "nat \<Rightarrow> 'b ingest_env \<Rightarrow> (exn \<Rightarrow> string) \<Rightarrow> ingest_state \<Rightarrow> ingest_state" where
  "main_loop 0 E message s = s"
| "main_loop (Suc n) E message s = main_loop n E message (snd (tick E message (s\<lparr>is_failed := False\<rparr>)))"

end
