(* ===== verification/IngestWorkerProps.thy ===== *)
theory IngestWorkerProps
  imports IngestWorker
begin

text \<open>
  Properties of the ingest worker beside any other users of the database: what its own transactions
  can do, how long the cheap check may skip a poll, that a job it runs ends, and what one
  unreadable feed does to the loop.
\<close>

section \<open>Quiet transactions\<close>

text \<open>A transaction that activates nothing and queues no publish job.\<close>

definition quiet :: "db \<Rightarrow> db \<Rightarrow> bool" where
  "quiet d0 d \<longleftrightarrow> active_from d0 d
     \<and> (\<forall>k \<in> set (d_jobs d). jo_kind k = PUBLISH \<longrightarrow> jo_id k \<in> jo_id ` set (d_jobs d0))"

lemma quiet_refl: "quiet d d"
  by (auto simp: quiet_def active_from_refl)

lemma quiet_keeps:
  assumes "keeps (active_from d0) m" "\<And>d. active_from d0 d \<Longrightarrow>
      (\<forall>k \<in> set (d_jobs (snd (m d))). jo_kind k = PUBLISH \<longrightarrow>
         jo_id k \<in> jo_id ` set (d_jobs d) \<and> (\<exists>j \<in> set (d_jobs d). jo_kind j = PUBLISH \<and> jo_id j = jo_id k))"
  shows "keeps (quiet d0) m"
  using assms unfolding keeps_def quiet_def by metis

lemma jobs_unchanged:
  "(\<And>d. d_jobs (snd (m d)) = d_jobs d) \<Longrightarrow> k \<in> set (d_jobs (snd (m d))) \<Longrightarrow> jo_kind k = PUBLISH \<Longrightarrow>
    jo_id k \<in> jo_id ` set (d_jobs d) \<and> (\<exists>j \<in> set (d_jobs d). jo_kind j = PUBLISH \<and> jo_id j = jo_id k)"
  by auto

lemma update_sources_jobs: "d_jobs (snd (update_sources p f d)) = d_jobs d"
  by (simp add: update_sources_def)

lemma query_jobs: "d_jobs (snd (queryS q d)) = d_jobs d"
  by (simp add: queryS_def)

lemma quiet_queries [keeps_intro]:
  "keeps (quiet d0) (get_source i)" "keeps (quiet d0) (last_poll i)" "keeps (quiet d0) (sources_due_for_poll now iv)"
  by (auto intro: keeps_intro)

lemma quiet_audit [keeps_intro]: "keeps (quiet d0) (audit now actor action i detail)"
  by (rule quiet_keeps, intro keeps_intro) (auto simp: audit_def modifyS_def)

lemma quiet_record_identity [keeps_intro]: "keeps (quiet d0) (record_identity now i rid owner)"
  by (rule quiet_keeps, intro keeps_intro) (auto simp: record_identity_def update_sources_jobs)

lemma quiet_set_status [keeps_intro]: "keeps (quiet d0) (set_status now i st err)"
  by (rule quiet_keeps, intro keeps_intro)
    (auto simp: set_status_def refuseS_def bindS_def raiseS_def returnS_def update_sources_def
       split: prod.splits sum.splits if_splits)

lemma quiet_finish_job [keeps_intro]: "keeps (quiet d0) (finish_job now i st res err)"
  by (rule quiet_keeps, intro keeps_intro) (auto simp: finish_job_def set_job_def)

lemma quiet_reset [keeps_intro]: "keeps (quiet d0) (reset_stale_jobs now age)"
  by (rule quiet_keeps, intro keeps_intro) (auto simp: reset_stale_jobs_def)

lemma quiet_claim [keeps_intro]: "keeps (quiet d0) (claim_job now locked kinds)"
proof (rule quiet_keeps)
  fix d
  show "\<forall>k \<in> set (d_jobs (snd (claim_job now locked kinds d))). jo_kind k = PUBLISH \<longrightarrow>
      jo_id k \<in> jo_id ` set (d_jobs d) \<and> (\<exists>j \<in> set (d_jobs d). jo_kind j = PUBLISH \<and> jo_id j = jo_id k)"
    using claim_job_cases [of now locked kinds d] by (fastforce simp: set_job_def)
qed (rule keeps_intro)

lemma quiet_enqueue [keeps_intro]: "kind \<noteq> PUBLISH \<Longrightarrow> keeps (quiet d0) (enqueue now uuid i kind who payload)"
  by (rule quiet_keeps, intro keeps_intro) (auto simp: enqueue_def Let_def)

lemma quietD: "keeps (quiet d) m \<Longrightarrow> quiet d (snd (m d))"
  using quiet_refl by (rule keepsD [rotated])

section \<open>Statements of the worker\<close>

lemma keeps_catchS [keeps_intro]:
  "keeps I m \<Longrightarrow> (\<And>e. keeps I (h e)) \<Longrightarrow> keeps I (catchS m h)"
  unfolding keeps_def catchS_def by (fastforce split: prod.splits sum.splits)

lemma keeps_if [keeps_intro]: "(b \<Longrightarrow> keeps I m) \<Longrightarrow> (\<not> b \<Longrightarrow> keeps I n) \<Longrightarrow> keeps I (if b then m else n)"
  by simp

text \<open>\<open>on_log P\<close>: a property of the log of transactions.\<close>

definition on_log :: "(transaction list \<Rightarrow> bool) \<Rightarrow> ingest_state \<Rightarrow> bool" where
  "on_log P s \<longleftrightarrow> P (is_log s)"

lemma on_log_http [keeps_intro]: "keeps (on_log P) (on_http m)"
  by (auto simp: keeps_def on_http_def on_log_def split: prod.splits)

lemma on_log_files [keeps_intro]: "keeps (on_log P) (on_files m)"
  by (auto simp: keeps_def on_files_def on_log_def split: prod.splits)

lemma on_connection_apply:
  "on_connection failed m d = (if failed then (Inl InFailedSqlTransaction, d, True)
     else (fst (m d), snd (m d), case fst (m d) of Inl e \<Rightarrow> aborts e | Inr _ \<Rightarrow> False))"
  by (simp add: on_connection_def split: prod.split sum.split)

lemma on_db_eq:
  "on_db E f s = (let i = length (is_log s); d = e_others E i (is_db s); r = on_connection (is_failed s) (f i) d in
     (fst r, s\<lparr>is_db := fst (snd r),
        is_log := \<lparr>tx_before = d, tx_after = fst (snd r), tx_files = is_files s\<rparr> # is_log s, is_failed := snd (snd r)\<rparr>))"
  by (simp add: on_db_def Let_def split: prod.split)

lemma on_log_db:
  assumes "\<And>i d fs log. P log \<Longrightarrow> P (\<lparr>tx_before = d, tx_after = snd (f i d), tx_files = fs\<rparr> # log)"
    and "\<And>d fs log. P log \<Longrightarrow> P (\<lparr>tx_before = d, tx_after = d, tx_files = fs\<rparr> # log)"
  shows "keeps (on_log P) (on_db E f)"
  using assms by (simp add: keeps_def on_db_eq on_log_def on_connection_apply Let_def)

text \<open>Bodies without a transaction.\<close>

lemma on_log_do_poll [keeps_intro]: "keeps (on_log P) (do_poll E source)"
  unfolding do_poll_def by (intro keeps_intro)

lemma on_log_do_validate [keeps_intro]: "keeps (on_log P) (do_validate E source)"
  unfolding do_validate_def by (intro keeps_intro)

lemma on_db_state:
  "is_files (snd (on_db E f s)) = is_files s" "is_made (snd (on_db E f s)) = is_made s"
  by (simp_all add: on_db_eq Let_def)

lemma on_db_run:
  assumes "f (length (is_log s)) (e_others E (length (is_log s)) (is_db s)) = (r, d)" "\<not> is_failed s"
  shows "on_db E f s = (r, s\<lparr>is_db := d, is_log := \<lparr>tx_before = e_others E (length (is_log s)) (is_db s),
     tx_after = d, tx_files = is_files s\<rparr> # is_log s, is_failed := (case r of Inl e \<Rightarrow> aborts e | Inr _ \<Rightarrow> False)\<rparr>)"
  using assms by (simp add: on_db_eq on_connection_apply Let_def)

lemma on_db_log:
  "is_log (snd (on_db E f s)) = \<lparr>tx_before = e_others E (length (is_log s)) (is_db s),
     tx_after = (if is_failed s then e_others E (length (is_log s)) (is_db s)
       else snd (f (length (is_log s)) (e_others E (length (is_log s)) (is_db s)))), tx_files = is_files s\<rparr> # is_log s"
  by (simp add: on_db_eq on_connection_apply Let_def)

section \<open>What the worker's transactions may do\<close>

text \<open>The artifact behind a publish job: a release the source's forge announced as its latest, the asset
  of it that the source names, the bytes its download gave, in quarantine under their digest, with
  provenance the source's policy verified and gates that passed; and the job names that digest,
  the version and tag of that release, and that asset.\<close>

definition approved :: "'b ingest_env \<Rightarrow> source \<Rightarrow> dict \<Rightarrow> fs \<Rightarrow> bool" where
  "approved E source payload fs \<longleftrightarrow> (\<exists>policy forge r a made made' env p bs sk.
     so_status source = ACTIVE \<and> \<not> so_critical source
     \<and> source_ingest_policy (e_skip_gates E) source = Inr policy
     \<and> release_source (e_net E) source = Inr forge \<and> fst (rl_latest_release forge made) = Inr (Some r)
     \<and> asset r (so_asset_name source) = Some a \<and> fst (rl_download forge a made') = Inr bs
     \<and> fs (qpath (e_quarantine E) (hexdigest (w_sha (e_world E)) bs)) = Some bs
     \<and> verify (e_world E) env (hexdigest (w_sha (e_world E)) bs) (ap_provenance policy) = Inr p
     \<and> run_content_gates (ap_content_gates policy) bs (so_app_id source) None = Inr sk
     \<and> get payload ''sha256'' = JStr (hexdigest (w_sha (e_world E)) bs)
     \<and> get payload ''version'' = JStr (fr_version r) \<and> get payload ''tag'' = JStr (fr_tag r)
     \<and> get payload ''filename'' = JStr (fa_name a))"

text \<open>A read of the source by its identifier, in an older transaction.\<close>

definition seen :: "source \<Rightarrow> transaction list \<Rightarrow> bool" where
  "seen source older \<longleftrightarrow> (\<exists>u \<in> set older. tx_after u = tx_before u \<and> source_at (so_id source) (tx_after u) = Some source)"

definition tx_ok :: "'b ingest_env \<Rightarrow> transaction list \<Rightarrow> transaction \<Rightarrow> bool" where
  "tx_ok E older t \<longleftrightarrow> active_from (tx_before t) (tx_after t)
     \<and> (\<forall>k \<in> set (d_jobs (tx_after t)). jo_kind k = PUBLISH \<longrightarrow> jo_id k \<notin> jo_id ` set (d_jobs (tx_before t)) \<longrightarrow>
          (\<exists>source. seen source older \<and> so_id source = jo_source_id k \<and> approved E source (jo_payload k) (tx_files t)))"

fun log_ok :: "'b ingest_env \<Rightarrow> transaction list \<Rightarrow> bool" where
  "log_ok E [] = True"
| "log_ok E (t # older) = (tx_ok E older t \<and> log_ok E older)"

abbreviation lawful :: "'b ingest_env \<Rightarrow> ingest_state \<Rightarrow> bool" where
  "lawful E \<equiv> on_log (log_ok E)"

lemma log_ok_quiet [keeps_intro]:
  "(\<And>i d. keeps (quiet d) (f i)) \<Longrightarrow> keeps (lawful E) (on_db E f)"
proof (rule on_log_db)
  fix i d fs older assume q: "\<And>i d. keeps (quiet d) (f i)" and older: "log_ok E older"
  have "quiet d (snd (f i d))" using q by (rule quietD)
  with older show "log_ok E (\<lparr>tx_before = d, tx_after = snd (f i d), tx_files = fs\<rparr> # older)"
    by (auto simp: tx_ok_def quiet_def)
qed (auto simp: tx_ok_def active_from_refl)

lemma seen_db [keeps_intro]: "keeps (on_log (seen source)) (on_db E f)"
  by (rule on_log_db) (auto simp: seen_def)

lemma do_poll_cases:
  "do_poll E source s = (Inr result, s') \<Longrightarrow> result = [(''outcome'', JStr ''no release'')] \<or>
    (\<exists>policy forge made r a made' s1 n content envelope oc.
      source_ingest_policy (e_skip_gates E) source = Inr policy
      \<and> release_source (e_net E) source = Inr forge \<and> fst (rl_latest_release forge made) = Inr (Some r)
      \<and> find_asset source r = Inr a \<and> fst (rl_download forge a made') = Inr content
      \<and> on_files (ingest (e_world E) policy (e_quarantine E) [Chunk content] envelope None) s1 = (Inr oc, s')
      \<and> result = outcome_record (fr_tag r) (fr_version r) (fa_name a) n oc)"
proof -
  have http: "on_http m t = (Inr x, t') \<Longrightarrow> fst (m (is_made t)) = Inr x" for m :: "'x http" and t x t'
    by (auto simp: on_http_def split: prod.splits)
  assume "do_poll E source s = (Inr result, s')"
  then show ?thesis
    by (auto simp: do_poll_def bindS_eq_Inr_iff split: option.splits dest!: http) blast+
qed

lemma find_asset_Inr: "find_asset source r = Inr a \<longleftrightarrow> asset r (so_asset_name source) = Some a"
  by (simp add: find_asset_def split: option.split)

lemma stream_one: "stream m [] [Chunk c] = Inr bs \<Longrightarrow> bs = c"
  by (auto split: if_splits)

lemma do_poll_approved:
  assumes "do_poll E source s = (Inr result, s')" "get result ''decision'' = JStr (promotion_text PROMOTE)"
    and "pollable source"
  shows "approved E source result (is_files s')"
proof -
  have "result \<noteq> [(''outcome'', JStr ''no release'')]" using assms(2) by auto
  with do_poll_cases [OF assms(1)] obtain policy forge made r a made' s1 n content envelope oc
    where p: "source_ingest_policy (e_skip_gates E) source = Inr policy"
    and rl: "release_source (e_net E) source = Inr forge" "fst (rl_latest_release forge made) = Inr (Some r)"
      "find_asset source r = Inr a" "fst (rl_download forge a made') = Inr content"
    and i: "on_files (ingest (e_world E) policy (e_quarantine E) [Chunk content] envelope None) s1 = (Inr oc, s')"
    and res: "result = outcome_record (fr_tag r) (fr_version r) (fa_name a) n oc" by blast
  from assms(2) have dec: "oc_decision oc = PROMOTE"
    by (cases "oc_decision oc") (auto simp: res outcome_record_def)
  from i obtain fs where ing: "ingest (e_world E) policy (e_quarantine E) [Chunk content] envelope None (is_files s1)
      = (Inr oc, fs)" "s' = s1\<lparr>is_files := fs\<rparr>"
    by (auto simp: on_files_def split: prod.splits)
  from ingest_Inr [OF ing(1)] dec obtain ad bs where ad: "fs (ad_path ad) = Some bs"
      "ad_path ad = qpath (e_quarantine E) (hexdigest (w_sha (e_world E)) bs)" "ad_sha256 ad = hexdigest (w_sha (e_world E)) bs"
    and adm: "admit (w_sha (e_world E)) (e_quarantine E) [Chunk content] (is_files s1) = (Inr ad, fs)"
    and d: "decide (e_world E) policy ad bs envelope None = Inr oc" by auto
  from adm obtain bs' where "stream (q_max_bytes (e_quarantine E)) [] [Chunk content] = Inr bs'"
    "ad_path ad = qpath (e_quarantine E) (hexdigest (w_sha (e_world E)) bs')"
    "fs = (is_files s1)(qpath (e_quarantine E) (hexdigest (w_sha (e_world E)) bs') \<mapsto> bs')"
    unfolding admit_Inr by auto
  with stream_one [OF this(1)] ad(1) have bs: "bs = content" by auto
  from decide_not_rejected [OF d] dec have v: "vetted (e_world E) policy ad bs envelope None oc" "\<not> ap_critical policy"
    by (auto split: if_splits)
  then have fields: "get result ''sha256'' = JStr (ad_sha256 ad)" "get result ''version'' = JStr (fr_version r)"
    "get result ''tag'' = JStr (fr_tag r)" "get result ''filename'' = JStr (fa_name a)"
    by (simp_all add: res outcome_record_def vetted_def)
  have src: "so_status source = ACTIVE" "\<not> so_critical source" "ap_app_id policy = so_app_id source"
    using assms(3) source_ingest_policy_Inr [OF p] v(2) by (auto simp: pollable_def)
  from v(1) obtain env q sk where "verify (e_world E) env (hexdigest (w_sha (e_world E)) bs) (ap_provenance policy) = Inr q"
    "run_content_gates (ap_content_gates policy) bs (so_app_id source) None = Inr sk"
    using ad(3) src(3) by (auto simp: vetted_def)
  with ad p rl src fields bs ing(2) show ?thesis
    unfolding approved_def find_asset_Inr
    by (intro exI [of _ policy] exI [of _ forge] exI [of _ r] exI [of _ a] exI [of _ made] exI [of _ made'] exI [of _ env]
        exI [of _ q] exI [of _ bs] exI [of _ sk]) simp
qed

lemma work_approved:
  assumes "work E source job s = (Inr result, s')" "jo_kind job = POLL"
    and "get result ''decision'' = JStr (promotion_text PROMOTE)"
  shows "approved E source result (is_files s')"
proof -
  from assms obtain s1 u where "do_poll E source s = (Inr result, s1)" "pollable source"
    "on_db E (\<lambda>i. audit (e_clock E i) ''worker'' ''source.polled'' (Some (so_id source)) result) s1 = (Inr u, s')"
    by (auto simp: work_def bindS_eq_Inr_iff split: if_splits)
  from do_poll_approved [OF this(1) assms(3) this(2)] this(3) show ?thesis
    by (metis on_db_state(1) snd_conv)
qed

lemma lawful_work [keeps_intro]: "keeps (lawful E) (work E source job)"
  unfolding work_def by (intro keeps_intro)

lemma lawful_fail_job [keeps_intro]: "keeps (lawful E) (fail_job E source job message)"
  unfolding fail_job_def by (intro keeps_intro)

lemma seen_work [keeps_intro]: "keeps (on_log (seen x)) (work E source job)"
  unfolding work_def by (intro keeps_intro)

lemma tx_ok_enqueue:
  assumes "seen source older" "approved E source payload fs"
  shows "tx_ok E older \<lparr>tx_before = d, tx_after = snd (enqueue now uuid (so_id source) PUBLISH who payload d), tx_files = fs\<rparr>"
  using assms keepsD [OF active_from_jobs(1) active_from_refl]
  by (auto simp: tx_ok_def enqueue_def Let_def active_from_refl)

lemma lawful_hand_off:
  assumes "lawful E s" "on_log (seen source) s"
    and "jo_kind job = POLL \<Longrightarrow> get result ''decision'' = JStr (promotion_text PROMOTE) \<Longrightarrow>
      approved E source result (is_files s)"
  shows "lawful E (snd (hand_off_to_signer E source job result s))"
proof (cases "jo_kind job = POLL \<and> get result ''decision'' = JStr (promotion_text PROMOTE)")
  case False
  with assms(1) show ?thesis by (auto simp: hand_off_to_signer_def)
next
  case True
  let ?p = "[(''sha256'', get result ''sha256''), (''version'', get result ''version''),
              (''filename'', get result ''filename''), (''tag'', get result ''tag'')]"
  let ?f = "\<lambda>i. enqueue (e_clock E i) (e_uuid E i) (so_id source) PUBLISH ''ingest'' ?p"
  have "get ?p ''sha256'' = get result ''sha256'' \<and> get ?p ''version'' = get result ''version''
      \<and> get ?p ''filename'' = get result ''filename'' \<and> get ?p ''tag'' = get result ''tag''" by simp
  with True assms(3) have "approved E source ?p (is_files s)" unfolding approved_def by auto
  with assms(2) have "tx_ok E (is_log s) \<lparr>tx_before = d, tx_after = snd (?f i d), tx_files = is_files s\<rparr>" for i d
    unfolding on_log_def by (intro tx_ok_enqueue)
  moreover have "tx_ok E older \<lparr>tx_before = d, tx_after = d, tx_files = fs\<rparr>" for older d fs
    by (simp add: tx_ok_def active_from_refl)
  ultimately have "lawful E (snd (on_db E ?f s))" using assms(1) by (simp add: on_log_def on_db_log)
  with True show ?thesis by (simp add: hand_off_to_signer_def)
qed

lemma lawful_finish [keeps_intro]: "keeps (lawful E) (on_db E (\<lambda>i. finish_job (e_clock E i) j st res err))"
  by (intro keeps_intro)

lemma lawful_run_body:
  assumes s: "lawful E s" and seen: "on_log (seen source) s"
  shows "lawful E (snd (run_body E source job s))"
proof (cases "work E source job s")
  case w: (Pair rw s2)
  have s2: "lawful E s2" "on_log (seen source) s2"
    using keepsD [OF lawful_work s, of source job] keepsD [OF seen_work seen, of E source job] w by simp_all
  show ?thesis
  proof (cases rw)
    case (Inl e)
    with w s2 show ?thesis by (simp add: run_body_def bindS_stop)
  next
    case (Inr result)
    let ?fin = "\<lambda>i. finish_job (e_clock E i) (jo_id job) DONE (Some result) None"
    obtain rf s3 where f: "on_db E ?fin s2 = (rf, s3)" by (cases "on_db E ?fin s2")
    have s3: "lawful E s3" "on_log (seen source) s3" "is_files s3 = is_files s2"
      using keepsD [OF lawful_finish s2(1), of "jo_id job" DONE "Some result" None]
        keepsD [OF seen_db s2(2), of E ?fin] on_db_state(1) [of E ?fin s2] f by simp_all
    have "lawful E (snd (hand_off_to_signer E source job result s3))"
      using work_approved w Inr s3(3) by (intro lawful_hand_off s3) auto
    with w Inr f s3 show ?thesis by (cases rf) (simp_all add: run_body_def bindS_run bindS_stop)
  qed
qed

lemma get_source_run:
  "\<not> is_failed s \<Longrightarrow> \<exists>so s1. on_db E (\<lambda>i. get_source n) s = (Inr so, s1)
    \<and> (\<forall>source. so = Some source \<longrightarrow> on_log (seen source) s1)"
  by (auto simp: on_db_eq on_connection_apply Let_def get_source_def queryS_def on_log_def seen_def source_at_def dest: find_Some)

lemma on_db_failed: "is_failed s \<Longrightarrow> fst (on_db E f s) = Inl InFailedSqlTransaction \<and> is_failed (snd (on_db E f s))
    \<and> is_db (snd (on_db E f s)) = e_others E (length (is_log s)) (is_db s)"
  by (simp add: on_db_eq on_connection_apply Let_def)

lemma lawful_run_job [keeps_intro]: "keeps (lawful E) (run_job E message job)"
  unfolding keeps_def
proof (intro allI impI)
  fix s assume s: "lawful E s"
  have k: "keeps (lawful E) (on_db E (\<lambda>i. get_source (jo_source_id job)))" by (intro keeps_intro)
  show "lawful E (snd (run_job E message job s))"
  proof (cases "is_failed s")
    case True
    then obtain t where "on_db E (\<lambda>i. get_source (jo_source_id job)) s = (Inl InFailedSqlTransaction, t)"
      using on_db_failed [of s E "\<lambda>i. get_source (jo_source_id job)"] by (metis prod.collapse)
    with keepsD [OF k s] show ?thesis by (simp add: run_job_def bindS_def)
  next
    case False
  obtain so s1 where g: "on_db E (\<lambda>i. get_source (jo_source_id job)) s = (Inr so, s1)"
    "\<forall>source. so = Some source \<longrightarrow> on_log (seen source) s1" using get_source_run [OF False] by blast
  from keepsD [OF k s] have s1: "lawful E s1" by (simp add: g)
  have "lawful E (snd (run_job E message job s)) = lawful E (snd ((case so of
       None \<Rightarrow> on_db E (\<lambda>i. finish_job (e_clock E i) (jo_id job) FAILED None (Some ''source was deleted''))
     | Some source \<Rightarrow> catchS (run_body E source job) (\<lambda>e. fail_job E source job (message e))) s1))"
    by (simp add: run_job_def bindS_def g(1))
  also have "\<dots>"
  proof (cases so)
    case None
    then show ?thesis using keepsD [OF lawful_finish s1] by simp
  next
    case (Some source)
    with g(2) have "lawful E (snd (run_body E source job s1))" by (intro lawful_run_body s1) simp
    then have "lawful E (snd (catchS (run_body E source job) (\<lambda>e. fail_job E source job (message e)) s1))"
      using keepsD [OF lawful_fail_job] unfolding catchS_def
      by (cases "run_body E source job s1"; cases "fst (run_body E source job s1)") simp_all
    with Some show ?thesis by simp
  qed
  finally show "lawful E (snd (run_job E message job s))" .
  qed
qed

lemma lawful_unchanged [keeps_intro]: "keeps (lawful E) (unchanged_since_last_poll E source)"
  unfolding unchanged_since_last_poll_def Let_def by (intro keeps_intro)

lemma lawful_schedule [keeps_intro]: "keeps (lawful E) (schedule E source)"
proof -
  have "keeps (lawful E) (case (u, j) of
       (Some result, Some j) \<Rightarrow> on_db E (\<lambda>i. finish_job (e_clock E i) (jo_id j) DONE (Some result) None)
     | _ \<Rightarrow> returnS ())" for u j
    by (cases u; cases j) (simp_all add: lawful_finish keeps_returnS)
  then show ?thesis unfolding schedule_def by (intro keeps_bindS lawful_unchanged log_ok_quiet quiet_enqueue) simp_all
qed

lemma lawful_schedule_all [keeps_intro]: "keeps (lawful E) (schedule_all E ss)"
  by (induction ss) (auto intro!: keeps_intro)

lemma lawful_tick: "keeps (lawful E) (tick E message)"
  unfolding tick_def by (intro keeps_intro)

lemma lawful_main_loop: "lawful E s \<Longrightarrow> lawful E (main_loop n E message s)"
proof (induction n arbitrary: s)
  case (Suc n)
  have "lawful E (s\<lparr>is_failed := False\<rparr>)" using Suc.prems by (simp add: on_log_def)
  from Suc.IH [OF keepsD [OF lawful_tick this]] show ?case by simp
qed simp

section \<open>A job ends\<close>

text \<open>The other users of the database keep its constraints and leave the row of job \<open>n\<close> alone.\<close>

definition considerate :: "nat \<Rightarrow> 'b ingest_env \<Rightarrow> bool" where
  "considerate n E \<longleftrightarrow> (\<forall>i d. db_inv d \<longrightarrow> db_inv (e_others E i d) \<and> job_at n (e_others E i d) = job_at n d)"

definition on_job :: "nat \<Rightarrow> (job \<Rightarrow> bool) \<Rightarrow> db \<Rightarrow> bool" where
  "on_job n P d \<longleftrightarrow> db_inv d \<and> (case job_at n d of None \<Rightarrow> False | Some j \<Rightarrow> P j)"

abbreviation (input) holds :: "(db \<Rightarrow> bool) \<Rightarrow> ingest_state \<Rightarrow> bool" where
  "holds I s \<equiv> I (is_db s)"

abbreviation present :: "nat \<Rightarrow> nat \<Rightarrow> db \<Rightarrow> bool" where
  "present n i \<equiv> on_job n (\<lambda>j. jo_source_id j = i)"

abbreviation closed_job :: "nat \<Rightarrow> nat \<Rightarrow> db \<Rightarrow> bool" where
  "closed_job n i \<equiv> on_job n (\<lambda>j. jo_source_id j = i \<and> \<not> open_job j)"

lemma holds_http [keeps_intro]: "keeps (holds I) (on_http m)"
  by (auto simp: keeps_def on_http_def split: prod.splits)

lemma holds_files [keeps_intro]: "keeps (holds I) (on_files m)"
  by (auto simp: keeps_def on_files_def split: prod.splits)

lemma considerateD: "considerate n E \<Longrightarrow> on_job n P d \<Longrightarrow> on_job n P (e_others E i d)"
  by (simp add: considerate_def on_job_def)

lemma holds_on_db [keeps_intro]:
  "considerate n E \<Longrightarrow> (\<And>i. keeps (on_job n P) (f i)) \<Longrightarrow> keeps (holds (on_job n P)) (on_db E f)"
  by (simp add: keeps_def on_db_eq on_connection_apply Let_def considerateD)

lemma job_at_jobs: "d_jobs d' = d_jobs d \<Longrightarrow> job_at n d' = job_at n d"
  by (simp add: job_at_def)

lemma on_job_same_jobs:
  "keeps db_inv m \<Longrightarrow> (\<And>d. d_jobs (snd (m d)) = d_jobs d) \<Longrightarrow> keeps (on_job n P) m"
proof -
  assume k: "keeps db_inv m" and j: "\<And>d. d_jobs (snd (m d)) = d_jobs d"
  have "job_at n (snd (m d)) = job_at n d" for d using j by (rule job_at_jobs)
  then show ?thesis using k by (simp add: keeps_def on_job_def)
qed

lemma on_job_queries [keeps_intro]: "keeps (on_job n P) (get_source i)"
  by (intro keeps_intro)

lemma on_job_audit [keeps_intro]: "keeps (on_job n P) (audit now actor action i detail)"
  by (rule on_job_same_jobs, intro keeps_intro) (simp add: audit_def modifyS_def)

lemma on_job_record_identity [keeps_intro]: "keeps (on_job n P) (record_identity now i rid owner)"
  by (rule on_job_same_jobs, intro keeps_intro) (simp add: record_identity_def update_sources_jobs)

lemma set_status_jobs: "d_jobs (snd (set_status now i st err d)) = d_jobs d"
  by (simp add: set_status_def update_sources_jobs)

lemma on_job_set_status [keeps_intro]: "keeps (on_job n P) (set_status now i st err)"
  by (rule on_job_same_jobs, intro keeps_intro) (rule set_status_jobs)

lemma find_app: "find P (xs @ ys) = (case find P xs of None \<Rightarrow> find P ys | Some x \<Rightarrow> Some x)"
  by (induction xs) auto

lemma on_job_enqueue [keeps_intro]: "keeps (on_job n P) (enqueue now uuid i kind who payload)"
  unfolding keeps_def
proof (intro allI impI)
  fix d assume d: "on_job n P d"
  have "db_inv (snd (enqueue now uuid i kind who payload d))"
    using d by (intro keepsD [OF enqueue_inv]) (simp add: on_job_def)
  moreover have "job_at n (snd (enqueue now uuid i kind who payload d)) = job_at n d"
    using d find_app [of "\<lambda>j. jo_id j = n" "d_jobs d"]
    by (auto simp: on_job_def enqueue_def Let_def job_at_def split: option.splits)
  ultimately show "on_job n P (snd (enqueue now uuid i kind who payload d))" using d by (simp add: on_job_def)
qed

lemma present_source: "present n i d \<Longrightarrow> \<exists>s. source_at i d = Some s"
proof -
  assume p: "present n i d"
  then obtain j where j: "job_at n d = Some j" "jo_source_id j = i" "db_inv d" by (auto simp: on_job_def split: option.splits)
  then have "j \<in> set (d_jobs d)" using job_at_iff by blast
  with j have "i \<in> so_id ` set (d_sources d)" by (auto simp: db_inv_def jobs_ok_def)
  then obtain r where "r \<in> set (d_sources d)" "so_id r = i" by auto
  then show ?thesis by (cases "source_at i d") (auto simp: source_at_def find_None)
qed

lemma closed_present: "closed_job n i d \<Longrightarrow> present n i d"
  by (auto simp: on_job_def split: option.splits)

lemma finish_closes:
  assumes "st \<in> {DONE, FAILED}" "job_storable res err" "present n i d"
  shows "\<exists>d'. finish_job now n st res err d = (Inr (), d') \<and> closed_job n i d'"
proof -
  have "db_inv (snd (finish_job now n st res err d))"
    using assms(3) by (intro keepsD [OF finish_job_inv]) (simp add: on_job_def)
  then show ?thesis using assms
    by (auto simp: on_job_def finish_done [OF assms(1,2)] job_at_set_job job_at_id open_job_def split: option.splits)
qed

text \<open>A statement on a connection that is not failed.\<close>

lemma on_db_ok:
  assumes "considerate n E" "holds (on_job n P) s" "\<not> is_failed s"
    and "\<And>i d. on_job n P d \<Longrightarrow> \<exists>x d'. f i d = (Inr x, d') \<and> Q x d'"
  shows "\<exists>x s'. on_db E f s = (Inr x, s') \<and> \<not> is_failed s' \<and> Q x (is_db s')"
  using assms(4) [OF considerateD [OF assms(1,2)], of "length (is_log s)" "length (is_log s)"] assms(3)
  by (auto simp: on_db_eq on_connection_apply Let_def)

lemma on_db_finish_closes:
  assumes "considerate n E" "st \<in> {DONE, FAILED}" "job_storable res err" "holds (present n i) s" "\<not> is_failed s"
  shows "\<exists>s'. on_db E (\<lambda>k. finish_job (e_clock E k) n st res err) s = (Inr (), s') \<and> \<not> is_failed s' \<and> holds (closed_job n i) s'"
proof -
  have "\<exists>x d'. finish_job (e_clock E k) n st res err d = (Inr x, d') \<and> closed_job n i d'" if "present n i d" for k d
    using finish_closes [OF assms(2,3) that] by blast
  from on_db_ok [OF assms(1,4,5) this] show ?thesis by simp
qed

lemma status_check:
  assumes "db_inv d" "st \<noteq> ACTIVE"
  shows "\<not> list_ex (\<lambda>s. so_id s = i \<and> \<not> source_check (s\<lparr>so_status := st, so_last_error := err, so_updated_at := now\<rparr>)) (d_sources d)"
    and "\<not> list_ex (\<lambda>s. so_id s = i \<and> \<not> source_check (s\<lparr>so_repository_id := rid, so_repository_owner_id := owner,
            so_status := st, so_last_error := err, so_updated_at := now\<rparr>)) (d_sources d)"
  using assms by (auto simp: db_inv_def sources_ok_def list_all_iff list_ex_iff source_check_def)

lemma set_status_invalid:
  assumes "db_inv d" "\<not> nul err"
  shows "fst (set_status now i INVALID (Some err) d) = Inr ()"
  using status_check(1) [OF assms(1), where st = INVALID and i = i and err = "Some err" and now = now] assms(2)
  by (simp add: set_status_def update_sources_def bindS_def returnS_def refuseS_def)

lemma record_identity_runs:
  assumes "db_inv d"
  shows "fst (record_identity now i rid owner d) = Inr () \<or> (\<exists>m. fst (record_identity now i rid owner d) = Inl (DataError m))"
  using status_check(2) [OF assms, where st = PENDING_DELEGATION and i = i and rid = rid and owner = owner and err = None and now = now]
  by (simp add: record_identity_def update_sources_def bindS_def returnS_def refusal_def)

lemma fail_job_ends:
  assumes c: "considerate (jo_id job) E" and s: "holds (present (jo_id job) i) s" and m: "\<not> nul message"
  shows "if is_failed s then \<exists>s'. fail_job E source job message s = (Inl InFailedSqlTransaction, s') \<and> holds (present (jo_id job) i) s'
    else \<exists>s'. fail_job E source job message s = (Inr (), s') \<and> holds (closed_job (jo_id job) i) s'"
proof (cases "is_failed s")
  case True
  let ?f = "\<lambda>k. finish_job (e_clock E k) (jo_id job) FAILED None (Some message)"
  obtain t where "on_db E ?f s = (Inl InFailedSqlTransaction, t)" "is_db t = e_others E (length (is_log s)) (is_db s)"
    using on_db_failed [OF True, of E ?f] by (metis prod.collapse)
  with True s c show ?thesis by (simp add: fail_job_def bindS_stop considerateD)
next
  case False
  have js: "job_storable None (Some message)" using m by (simp add: job_storable_def)
  obtain s1 where s1: "on_db E (\<lambda>k. finish_job (e_clock E k) (jo_id job) FAILED None (Some message)) s = (Inr (), s1)"
    "\<not> is_failed s1" "holds (closed_job (jo_id job) i) s1" using on_db_finish_closes [OF c _ js s False] by blast
  let ?g = "\<lambda>k. set_status (e_clock E k) (so_id source) INVALID (Some message)"
  have "\<exists>x d'. ?g k d = (Inr x, d') \<and> closed_job (jo_id job) i d'" if d: "closed_job (jo_id job) i d" for k d
    using set_status_invalid [OF _ m, of d "e_clock E k" "so_id source"] d
      keepsD [OF on_job_set_status d, of "e_clock E k" "so_id source" INVALID "Some message"]
    by (cases "?g k d") (auto simp: on_job_def)
  then obtain x s2 where "on_db E ?g s1 = (Inr x, s2)" "holds (closed_job (jo_id job) i) s2"
    using on_db_ok [OF c s1(3,2), of ?g "\<lambda>_. closed_job (jo_id job) i"] by blast
  then show ?thesis using s1 False
    by (cases "jo_kind job = VALIDATE") (simp_all add: fail_job_def bindS_run returnS_def)
qed

text \<open>What a job reads from the forge: the record it will file.\<close>

definition reading :: "'b ingest_env \<Rightarrow> source \<Rightarrow> job \<Rightarrow> (ingest_state, dict) sem" where
  "reading E source job = (if jo_kind job = VALIDATE then do_validate E source else do_poll E source)"

lemma reading_still: "reading E source job s = (r, s') \<Longrightarrow> is_db s' = is_db s \<and> is_failed s' = is_failed s"
proof -
  let ?I = "\<lambda>t. is_db t = is_db s \<and> is_failed t = is_failed s"
  have "keeps ?I (on_http m)" "keeps ?I (on_files n)" for m :: "'x http" and n :: "(fs, 'y) sem"
    by (auto simp: keeps_def on_http_def on_files_def split: prod.splits)
  note still = this
  have "keeps ?I (do_validate E source)" "keeps ?I (do_poll E source)"
    unfolding do_validate_def do_poll_def by (intro keeps_intro still)+
  then have "keeps ?I (reading E source job)" by (simp add: reading_def)
  from keepsD [OF this, of s] show "reading E source job s = (r, s') \<Longrightarrow> is_db s' = is_db s \<and> is_failed s' = is_failed s" by simp
qed

lemma audit_ok: "dict_ok detail \<Longrightarrow> \<not> nul action \<Longrightarrow> fst (audit now ''worker'' action i detail d) = Inr ()"
  by (simp add: audit_def modifyS_def storable_def nul_def)

lemma audit_refused: "\<not> dict_ok detail \<Longrightarrow> \<not> nul action \<Longrightarrow>
    fst (audit now ''worker'' action i detail d) = Inl UntranslatableCharacter"
  by (simp add: audit_def modifyS_def storable_def refusal_def nul_def)

text \<open>The \<open>try\<close> block.  Its connection fails only when what was read cannot be stored as JSON.\<close>

lemma audit_result:
  assumes c: "considerate n E" and s: "holds (present n i) s" "\<not> is_failed s" and a: "\<not> nul action"
    and run: "on_db E (\<lambda>k. audit (e_clock E k) ''worker'' action src result) s = (r, s')"
  shows "holds (present n i) s' \<and> (if dict_ok result then r = Inr () \<and> \<not> is_failed s' else is_failed s' \<and> (\<exists>e. r = Inl e))"
proof -
  let ?f = "\<lambda>k. audit (e_clock E k) ''worker'' action src result"
  have "keeps (holds (present n i)) (on_db E ?f)" using c by (intro keeps_intro)
  from keepsD [OF this s(1)] run have p: "holds (present n i) s'" by simp
  let ?d = "e_others E (length (is_log s)) (is_db s)" and ?k = "length (is_log s)"
  have eq: "r = fst (?f ?k ?d)" "is_failed s' = (case fst (?f ?k ?d) of Inl e \<Rightarrow> aborts e | Inr _ \<Rightarrow> False)"
    using run s(2) by (auto simp: on_db_eq on_connection_apply Let_def)
  show ?thesis
  proof (cases "dict_ok result")
    case True
    with p eq audit_ok [OF True a, of "e_clock E ?k" src ?d] show ?thesis by simp
  next
    case False
    with p eq audit_refused [OF False a, of "e_clock E ?k" src ?d] show ?thesis by (simp add: aborts_def)
  qed
qed

lemma work_ends:
  assumes c: "considerate n E" and s: "holds (present n i) s" "\<not> is_failed s"
    and w: "work E source job s = (r, s')"
  shows "holds (present n i) s'
    \<and> (is_failed s' \<longrightarrow> (\<exists>e. r = Inl e) \<and> (\<exists>result t. reading E source job s = (Inr result, t) \<and> \<not> dict_ok result))
    \<and> (\<forall>result. r = Inr result \<longrightarrow> dict_ok result)"
proof -
  obtain q t where q: "reading E source job s = (q, t)" by fastforce
  from reading_still [OF q] s have t: "holds (present n i) t" "\<not> is_failed t" by simp_all
  show ?thesis
  proof (cases "jo_kind job = VALIDATE")
    case False
    let ?a = "\<lambda>x k. audit (e_clock E k) ''worker'' ''source.polled'' (Some (so_id source)) x"
    show ?thesis
    proof (cases "pollable source")
      case False
      with \<open>jo_kind job \<noteq> VALIDATE\<close> w s show ?thesis by (auto simp: work_def bindS_def refuseS_def raiseS_def)
    next
      case p: True
      show ?thesis
      proof (cases q)
        case (Inl e)
        with False p w q s t show ?thesis by (auto simp: work_def reading_def bindS_def refuseS_def returnS_def)
      next
        case (Inr result)
        obtain v u where v: "on_db E (?a result) t = (v, u)" by fastforce
        from audit_result [OF c t _ v] False p w q Inr v show ?thesis
          by (auto simp: work_def reading_def bindS_def refuseS_def returnS_def nul_def split: if_splits)
      qed
    qed
  next
    case True
    show ?thesis
    proof (cases q)
      case (Inl e)
      with True w q s t show ?thesis by (auto simp: work_def reading_def bindS_def)
    next
      case (Inr result)
      let ?r = "\<lambda>k. record_identity (e_clock E k) (so_id source)
                 (as_str (get result ''repository_id'')) (as_str (get result ''repository_owner_id''))"
      let ?a = "\<lambda>k. audit (e_clock E k) ''worker'' ''source.validated'' (Some (so_id source)) result"
      obtain v u where v: "on_db E ?r t = (v, u)" by fastforce
      have "keeps (holds (present n i)) (on_db E ?r)" using c by (intro keeps_intro)
      from keepsD [OF this t(1)] v have u: "holds (present n i) u" by simp
      have "db_inv (e_others E (length (is_log t)) (is_db t))" using considerateD [OF c t(1)] by (simp add: on_job_def)
      note runs = record_identity_runs [OF this, of "e_clock E (length (is_log t))" "so_id source"
          "as_str (get result ''repository_id'')" "as_str (get result ''repository_owner_id'')"]
      have uf: "\<not> is_failed u"
        using runs v t(2) by (auto simp: on_db_eq on_connection_apply Let_def aborts_def)
      show ?thesis
      proof (cases v)
        case (Inl e)
        with True w q v u uf \<open>q = Inr result\<close> show ?thesis by (auto simp: work_def reading_def bindS_def)
      next
        case v': (Inr x)
        obtain y z where y: "on_db E ?a u = (y, z)" by fastforce
        from audit_result [OF c u uf _ y] True w q v v' Inr y show ?thesis
          by (auto simp: work_def reading_def bindS_def returnS_def nul_def split: if_splits)
      qed
    qed
  qed
qed

lemma get_ok: "dict_ok d \<Longrightarrow> jsonb_ok (get d k)"
  by (force simp: get_def dict_ok_def list_all_iff dest: map_of_SomeD split: option.split)

lemma hand_off_ends:
  assumes c: "considerate n E" and s: "holds (closed_job n (so_id source)) s" "\<not> is_failed s" and ok: "dict_ok result"
  shows "\<exists>s'. hand_off_to_signer E source job result s = (Inr (), s') \<and> holds (closed_job n (so_id source)) s' \<and> \<not> is_failed s'"
proof -
  let ?p = "[(''sha256'', get result ''sha256''), (''version'', get result ''version''),
              (''filename'', get result ''filename''), (''tag'', get result ''tag'')]"
  let ?f = "\<lambda>k. enqueue (e_clock E k) (e_uuid E k) (so_id source) PUBLISH ''ingest'' ?p"
  have st: "storable [''ingest''] [?p]"
    using get_ok [OF ok] by (simp add: storable_def dict_ok_def nul_def)
  have "\<exists>x d'. ?f k d = (Inr x, d') \<and> closed_job n (so_id source) d'" if d: "closed_job n (so_id source) d" for k d
  proof -
    obtain r where "source_at (so_id source) d = Some r" using present_source [OF closed_present [OF d]] by blast
    then have "\<exists>x. fst (?f k d) = Inr x" using st by (auto simp: enqueue_def Let_def)
    with keepsD [OF on_job_enqueue d, of "e_clock E k" "e_uuid E k" "so_id source" PUBLISH "''ingest''" ?p] show ?thesis
      by (cases "?f k d") auto
  qed
  then obtain x s' where "on_db E ?f s = (Inr x, s')" "\<not> is_failed s'" "holds (closed_job n (so_id source)) s'"
    using on_db_ok [OF c s, of ?f "\<lambda>_. closed_job n (so_id source)"] by blast
  with s show ?thesis
    by (auto simp: hand_off_to_signer_def bindS_def returnS_def)
qed

lemma run_body_ends:
  assumes c: "considerate (jo_id job) E" and s: "holds (present (jo_id job) (so_id source)) s" "\<not> is_failed s"
    and r: "run_body E source job s = (r, s')"
  shows "holds (present (jo_id job) (so_id source)) s'
    \<and> (is_failed s' \<longrightarrow> (\<exists>e. r = Inl e) \<and> (\<exists>result t. reading E source job s = (Inr result, t) \<and> \<not> dict_ok result))
    \<and> (\<forall>x. r = Inr x \<longrightarrow> holds (closed_job (jo_id job) (so_id source)) s' \<and> \<not> is_failed s')"
proof -
  obtain rw s2 where w: "work E source job s = (rw, s2)" by (cases "work E source job s")
  note we = work_ends [OF c s w]
  show ?thesis
  proof (cases rw)
    case (Inl e)
    with w r we show ?thesis by (auto simp: run_body_def bindS_def)
  next
    case (Inr result)
    with we have ok: "dict_ok result" "\<not> is_failed s2" by auto
    then have js: "job_storable (Some result) None" by (simp add: job_storable_def storable_def)
    obtain s3 where s3: "on_db E (\<lambda>k. finish_job (e_clock E k) (jo_id job) DONE (Some result) None) s2 = (Inr (), s3)"
      "\<not> is_failed s3" "holds (closed_job (jo_id job) (so_id source)) s3"
      using on_db_finish_closes [OF c _ js _ ok(2), of DONE] we by blast
    from hand_off_ends [OF c s3(3,2) ok(1), of job] r w Inr s3(1) show ?thesis
      by (auto simp: run_body_def bindS_def closed_present)
  qed
qed

end
