(* ===== verification/IngestWorkerClaims.thy ===== *)
theory IngestWorkerClaims
  imports IngestWorkerProps
begin

text \<open>
  The properties of the ingest worker, with a worked example: one round of the loop that polls a
  GitHub release, verifies its provenance, promotes it and queues it for signing.
\<close>

section \<open>One round of the loop\<close>

definition ex_gh_release :: dict where
  "ex_gh_release = [(''tag_name'', JStr ''v1.0''), (''assets'', JArr [JObj [(''name'', JStr ''a.zip''),
     (''state'', JStr ''uploaded''), (''browser_download_url'', JStr ''https://github.com/a'')]])]"

definition ex_gh_attestations :: dict where
  "ex_gh_attestations = [(''attestations'', JArr [JObj [(''bundle'', JStr ''b'')]])]"

definition ex_json :: "dict \<Rightarrow> response" where
  "ex_json body = (ex_response 200)\<lparr>rs_content := utf8_encode (dumps (JObj body))\<rparr>"

definition ex_api_net :: net where
  "ex_api_net = ex_net\<lparr>nt_get := (\<lambda>made url.
     if url = ''https://api.github.com/repos/h/p/releases/latest'' then Inr (ex_json ex_gh_release)
     else if url = ''https://api.github.com/repos/h/p/attestations/sha256:abcd'' then Inr (ex_json ex_gh_attestations)
     else Inr ((ex_response 200)\<lparr>rs_chunks := [Chunk ex_artifact]\<rparr>))\<rparr>"

definition ex_promoted_source :: source where
  "ex_promoted_source = ex_gh_source\<lparr>so_project_url := ''https://h/p'', so_asset_name := ''a.zip''\<rparr>"

definition ex_worker :: "string ingest_env" where
  "ex_worker = \<lparr>e_world = ex_world, e_net = ex_api_net, e_quarantine = \<lparr>q_root = ''/q'', q_max_bytes = 5\<rparr>,
     e_skip_gates = Some ''malware,publisher,sbom'', e_others = (\<lambda>i d. d), e_clock = (\<lambda>i. 100 + int i),
     e_uuid = (\<lambda>i. 50 + i), e_locked = (\<lambda>i. {})\<rparr>"

lemma ex_json_of:
  "textual (JObj body) \<Longrightarrow> length (utf8_encode (dumps (JObj body))) \<le> MAX_API_RESPONSE_BYTES \<Longrightarrow>
    json_of (ex_json body) url = Inr (Some body)"
  by (simp add: json_of_def ex_json_def ex_response_def del: dumps.simps utf8_encode.simps)

lemma dumps_small:
  assumes "2 * weight (JObj body) \<le> n" shows "length (utf8_encode (dumps (JObj body))) \<le> n"
  using assms utf8_encode_length dumps_length le_trans mult_le_mono2 by meson

lemma ex_api_json:
  "json_of (ex_json ex_gh_release) url = Inr (Some ex_gh_release)"
  "json_of (ex_json ex_gh_attestations) url = Inr (Some ex_gh_attestations)"
  by (rule ex_json_of; (intro dumps_small)?; simp add: ex_gh_release_def ex_gh_attestations_def MAX_API_RESPONSE_BYTES_def)+

abbreviation (input) ex_gh :: github where
  "ex_gh \<equiv> GitHubReleaseSource ''h/p'' ''https://api.github.com'' GITHUB_DOWNLOAD_HOSTS ''v'' 3 ''https://h/p'' (Some ''42'')"

lemma ex_release_source: "release_source ex_api_net ex_promoted_source = Inr (github_source ex_api_net ex_gh)"
proof -
  have "github_hosts ex_api_net ''https://api.github.com'' = Inr GITHUB_DOWNLOAD_HOSTS" by code_simp
  then show ?thesis by (simp add: release_source_def ex_promoted_source_def ex_gh_source_def asset_cap_def)
qed

lemma ex_urls: "gh_repo_url ex_gh @ ''/releases/latest'' = ''https://api.github.com/repos/h/p/releases/latest''"
  "gh_repo_url ex_gh @ ''/attestations/sha256:'' @ ''abcd'' = ''https://api.github.com/repos/h/p/attestations/sha256:abcd''"
  by code_simp+

lemma ex_latest: "gh_latest_release ex_api_net ex_gh made = (Inr (Some \<lparr>fr_tag = ''v1.0'', fr_version = ''1.0'',
    fr_assets = [\<lparr>fa_name = ''a.zip'', fa_size = 0, fa_download_url = ''https://github.com/a'', fa_declared_sha256 = None\<rparr>]\<rparr>),
    ''https://api.github.com/repos/h/p/releases/latest'' # made)"
proof -
  have "gh_release ex_gh ex_gh_release = Inr (Some \<lparr>fr_tag = ''v1.0'', fr_version = ''1.0'',
    fr_assets = [\<lparr>fa_name = ''a.zip'', fa_size = 0, fa_download_url = ''https://github.com/a'', fa_declared_sha256 = None\<rparr>]\<rparr>)"
    by code_simp
  then show ?thesis unfolding gh_latest_release_def ex_urls
    by (simp add: get_json_def request_def bindS_def ex_api_json ex_api_net_def liftS_def)
qed

lemma ex_attestation: "gh_attestation ex_api_net ex_gh ''abcd'' made = (Inr (Some (utf8_encode (dumps_str ''b''))),
    ''https://api.github.com/repos/h/p/attestations/sha256:abcd'' # made)"
proof -
  have "gh_bundle ex_api_net ex_gh_attestations = Some (utf8_encode (dumps_str ''b''))"
    by (simp add: gh_bundle_def ex_gh_attestations_def)
  then show ?thesis unfolding gh_attestation_def ex_urls
    by (simp add: get_json_def request_def bindS_def returnS_def) (simp add: ex_api_net_def ex_api_json)
qed

lemma ex_download: "stream_url ex_api_net GITHUB_DOWNLOAD_HOSTS 3 ''https://github.com/a'' made
    = (Inr ex_artifact, ''https://github.com/a'' # made)"
proof -
  have "host_of ex_api_net ''https://github.com/a'' = Inr ''github.com''" by code_simp
  moreover have "''github.com'' \<in> GITHUB_DOWNLOAD_HOSTS" by (simp add: GITHUB_DOWNLOAD_HOSTS_def)
  ultimately show ?thesis
    by (simp add: stream_url_def MAX_REDIRECTS_def numeral_eq_Suc request_def sem_defs is_redirect_def)
      (simp add: ex_api_net_def is_redirect_def ex_response_def ex_artifact_def liftS_def)
qed

definition ex_wired_policy :: app_ingest_policy where
  "ex_wired_policy = \<lparr>ap_app_id = ''editor'', ap_critical = False, ap_provenance =
     \<lparr>pp_trusted_builders = [], pp_project_url = ''https://h/p'', pp_require_tag_ref_prefix = ''refs/tags/'', pp_trusted_identities = [ex_identity]\<rparr>,
     ap_archive_limits = ArchiveLimits, ap_content_gates = \<lparr>cg_malware = None, cg_publisher = None,
     cg_require_sbom = True, cg_skip = {''malware'', ''publisher'', ''sbom''}\<rparr>\<rparr>"

lemma ex_policy_wired: "source_ingest_policy (Some ''malware,publisher,sbom'') ex_promoted_source = Inr ex_wired_policy"
proof -
  have "skipped_gates (Some ''malware,publisher,sbom'') = Inr {''malware'', ''publisher'', ''sbom''}" by code_simp
  then show ?thesis by (simp add: source_ingest_policy_def source_provenance_policy_def ex_promoted_source_def ex_gh_source_def
      given_def ProvenancePolicy_def ex_wired_policy_def ex_identity_def)
qed

definition ex_worker_db :: db where
  "ex_worker_db = \<lparr>d_sources = [ex_promoted_source], d_jobs = [\<lparr>jo_id = 1, jo_source_id = 7, jo_kind = POLL, jo_state = QUEUED,
     jo_requested_by = ''ops'', jo_requested_at = 2, jo_started_at = None, jo_finished_at = None, jo_attempts = 0,
     jo_payload = [], jo_result = None, jo_error = None\<rparr>], d_audit = [], d_operators = [], d_sessions = []\<rparr>"

lemma ex_bundle_verified:
  "\<exists>c cs p. utf8_encode (dumps_str ''b'') = c # cs
    \<and> verify ex_world (c # cs) (hexdigest (w_sha ex_world) ex_artifact) (ap_provenance ex_wired_policy) = Inr p
    \<and> pv_builder_id p = ''ci@main'' \<and> pv_source_ref p = ''refs/tags/v1''"
proof -
  obtain c cs where cs: "utf8_encode (dumps_str ''b'') = c # cs" by (auto simp: dumps_str_def code_def)
  let ?pol = "ap_provenance ex_wired_policy"
  obtain p where fields: "pv_builder_id p = ''ci@main''" "pv_source_ref p = ''refs/tags/v1''"
    and "accept_payload ex_identity DSSE_PAYLOAD_TYPE ex_payload ''abcd'' ?pol = Inr p"
    using ex_payload_accepted [of ?pol] by (auto simp: ex_wired_policy_def)
  moreover have "load_bundle ex_sigstore (c # cs) = Inr (dumps_str ''b'')"
    using ex_bundle_loads [of "dumps_str ''b''"] dumps_str_length [of "''b''"] by (simp add: cs)
  ultimately have "verify_sigstore_provenance ex_sigstore (c # cs) ''abcd'' ?pol = Inr p"
    by (simp add: verify_sigstore_provenance_def ex_wired_policy_def)
      (simp add: ex_sigstore_def certificate_policy_def ex_identity_def ex_wired_policy_def)
  then have "verify ex_world (c # cs) (hexdigest (w_sha ex_world) ex_artifact) ?pol = Inr p"
    by (simp add: verify_def ex_world_def ex_digest) (simp add: ex_wired_policy_def)
  with cs fields show ?thesis by blast
qed

lemma ex_wired_ingest:
  "\<exists>oc. ingest ex_world ex_wired_policy \<lparr>q_root = ''/q'', q_max_bytes = 5\<rparr> [Chunk ex_artifact]
      (Some (utf8_encode (dumps_str ''b''))) None Map.empty = (Inr oc, [''/q/abcd.bin'' \<mapsto> ex_artifact])
    \<and> oc_decision oc = PROMOTE \<and> oc_admitted oc = Some \<lparr>ad_sha256 = ''abcd'', ad_length = 2, ad_path = ''/q/abcd.bin''\<rparr>
    \<and> oc_reason oc = GatesSkipped [''malware'', ''publisher'', ''sbom''] ''ci@main'' ''refs/tags/v1''"
proof -
  let ?q = "\<lparr>q_root = ''/q'', q_max_bytes = 5\<rparr>"
  obtain c cs p where cs: "utf8_encode (dumps_str ''b'') = c # cs"
    and f: "pv_builder_id p = ''ci@main''" "pv_source_ref p = ''refs/tags/v1''"
    and v: "verify ex_world (c # cs) (hexdigest (w_sha ex_world) ex_artifact) (ap_provenance ex_wired_policy) = Inr p"
    using ex_bundle_verified by blast
  have s: "stream (q_max_bytes ?q) [] [Chunk ex_artifact] = Inr ex_artifact" by code_simp
  have i: "inspect_archive (w_members ex_world) (ap_archive_limits ex_wired_policy) ex_artifact = Inr None"
    by (simp add: inspect_archive_def ex_world_def)
  have g: "run_content_gates (ap_content_gates ex_wired_policy) ex_artifact (ap_app_id ex_wired_policy) None
      = Inr [''malware'', ''publisher'', ''sbom'']"
    by (simp add: run_content_gates_def malware_gate_def publisher_gate_def sbom_gate_def ex_wired_policy_def)
  have "APP_ID_PATTERN ''editor''" by code_simp
  then have n: "APP_ID_PATTERN (ap_app_id ex_wired_policy)" by (simp add: ex_wired_policy_def)
  have "qpath ?q (hexdigest (w_sha ex_world) ex_artifact) = ''/q/abcd.bin''"
    by (simp add: qpath_def ex_world_def ex_digest)
  moreover have "hexdigest (w_sha ex_world) ex_artifact = ''abcd''" "length ex_artifact = 2"
    by (simp add: ex_world_def ex_digest) (simp add: ex_artifact_def)
  moreover have "\<not> ap_critical ex_wired_policy" by (simp add: ex_wired_policy_def)
  ultimately show ?thesis using ingest_vetted [OF s v i g n, of Map.empty] f by (simp add: cs)
qed

lemma ex_do_poll:
  assumes "is_files s = Map.empty"
  shows "\<exists>result made. do_poll ex_worker ex_promoted_source s
      = (Inr result, s\<lparr>is_made := made, is_files := [''/q/abcd.bin'' \<mapsto> ex_artifact]\<rparr>)
    \<and> get result ''decision'' = JStr ''promote'' \<and> dict_ok result"
proof -
  let ?a = "\<lparr>fa_name = ''a.zip'', fa_size = 0, fa_download_url = ''https://github.com/a'', fa_declared_sha256 = None\<rparr>"
  let ?r = "\<lparr>fr_tag = ''v1.0'', fr_version = ''1.0'', fr_assets = [?a]\<rparr>"
  obtain oc where oc: "ingest ex_world ex_wired_policy \<lparr>q_root = ''/q'', q_max_bytes = 5\<rparr> [Chunk ex_artifact]
      (Some (utf8_encode (dumps_str ''b''))) None Map.empty = (Inr oc, [''/q/abcd.bin'' \<mapsto> ex_artifact])"
    "oc_decision oc = PROMOTE" and rec: "oc_reason oc = GatesSkipped [''malware'', ''publisher'', ''sbom''] ''ci@main'' ''refs/tags/v1''"
    "oc_admitted oc = Some \<lparr>ad_sha256 = ''abcd'', ad_length = 2, ad_path = ''/q/abcd.bin''\<rparr>"
    using ex_wired_ingest by blast
  have e: "e_net ex_worker = ex_api_net" "e_skip_gates ex_worker = Some ''malware,publisher,sbom''" "e_world ex_worker = ex_world"
    "e_quarantine ex_worker = \<lparr>q_root = ''/q'', q_max_bytes = 5\<rparr>" "w_sha ex_world = id"
    by (simp_all add: ex_worker_def ex_world_def)
  have rl: "rl_latest_release (github_source ex_api_net ex_gh) = gh_latest_release ex_api_net ex_gh"
    "rl_download (github_source ex_api_net ex_gh) ?a = stream_url ex_api_net GITHUB_DOWNLOAD_HOSTS 3 ''https://github.com/a''"
    "rl_attestation (github_source ex_api_net ex_gh) d = gh_attestation ex_api_net ex_gh d" for d
    by (simp_all add: github_source_def gh_download_def fun_eq_iff) (simp_all add: GitHubReleaseSource_def)
  have "asset ?r ''a.zip'' = Some ?a" by code_simp
  then have f: "find_asset ex_promoted_source ?r = Inr ?a"
    by (simp add: find_asset_def ex_promoted_source_def)
  have ok: "dict_ok (outcome_record ''v1.0'' ''1.0'' ''a.zip'' n oc)" for n
    using oc(2) rec by (simp add: outcome_record_def dict_ok_def nul_def)
  show ?thesis
    unfolding do_poll_def e
    using ok [of "length ex_artifact"]
    by (simp add: ex_policy_wired ex_release_source rl on_http_def bindS_def ex_latest f ex_download ex_digest
        catchS_def ex_attestation on_files_def assms oc returnS_def liftS_def del: utf8_encode.simps) (simp add: outcome_record_def oc(2) exI)
qed


lemma ex_sources:
  "so_id ex_promoted_source = 7" "so_status ex_promoted_source = ACTIVE" "so_app_id ex_promoted_source = ''editor''"
  by (simp_all add: ex_promoted_source_def ex_gh_source_def)

lemma ex_handed_off:
  "\<exists>t \<in> set (is_log (main_loop 1 ex_worker message \<lparr>is_db = ex_worker_db, is_files = Map.empty, is_made = [], is_log = [], is_failed = False\<rparr>)).
     \<exists>k \<in> set (d_jobs (tx_after t)). jo_kind k = PUBLISH \<and> jo_source_id k = 7 \<and> jo_id k \<notin> jo_id ` set (d_jobs (tx_before t))"
proof -
  let ?s0 = "\<lparr>is_db = ex_worker_db, is_files = Map.empty, is_made = [], is_log = [], is_failed = False\<rparr>"
  let ?j = "hd (d_jobs ex_worker_db)\<lparr>jo_state := RUNNING, jo_started_at := Some 102, jo_attempts := 1\<rparr>"
  let ?tx = "\<lambda>d. \<lparr>tx_before = d, tx_after = d, tx_files = Map.empty\<rparr>"
  let ?d1 = "ex_worker_db\<lparr>d_jobs := [?j]\<rparr>"
  let ?s3 = "\<lparr>is_db = ?d1, is_files = Map.empty, is_made = [],
     is_log = [\<lparr>tx_before = ex_worker_db, tx_after = ?d1, tx_files = Map.empty\<rparr>, ?tx ex_worker_db, ?tx ex_worker_db],
     is_failed = False\<rparr>"
  have 1: "on_db ex_worker (\<lambda>i. reset_stale_jobs (e_clock ex_worker i) STALE_AFTER) ?s0 = (Inr 0, ?s0\<lparr>is_log := [?tx ex_worker_db]\<rparr>)"
    by (simp add: on_db_eq on_connection_apply Let_def ex_worker_def reset_stale_jobs_def stale_def ex_worker_db_def)
  have 2: "on_db ex_worker (\<lambda>i. sources_due_for_poll (e_clock ex_worker i) POLL_INTERVAL) (?s0\<lparr>is_log := [?tx ex_worker_db]\<rparr>)
      = (Inr [], ?s0\<lparr>is_log := [?tx ex_worker_db, ?tx ex_worker_db]\<rparr>)"
    by (simp add: on_db_eq on_connection_apply Let_def ex_worker_def sources_due_for_poll_def queryS_def due_for_poll_def ex_worker_db_def
        open_job_def ex_sources)
  have 3: "on_db ex_worker (\<lambda>i. claim_job (e_clock ex_worker i) (e_locked ex_worker i) [VALIDATE, POLL])
      (?s0\<lparr>is_log := [?tx ex_worker_db, ?tx ex_worker_db]\<rparr>) = (Inr (Some ?j), ?s3)"
    by (simp add: on_db_eq on_connection_apply Let_def ex_worker_def claim_job_def claimable_def ex_worker_db_def set_job_def)
  have 4: "on_db ex_worker (\<lambda>i. get_source 7) ?s3 = (Inr (Some ex_promoted_source), ?s3\<lparr>is_log := ?tx ?d1 # is_log ?s3\<rparr>)"
    by (simp add: on_db_eq on_connection_apply Let_def ex_worker_def get_source_def queryS_def source_at_def ex_worker_db_def ex_sources)
  obtain result made where p: "do_poll ex_worker ex_promoted_source (?s3\<lparr>is_log := ?tx ?d1 # is_log ?s3\<rparr>)
      = (Inr result, ?s3\<lparr>is_log := ?tx ?d1 # is_log ?s3, is_made := made, is_files := [''/q/abcd.bin'' \<mapsto> ex_artifact]\<rparr>)"
    "get result ''decision'' = JStr ''promote''" "dict_ok result"
    using ex_do_poll [of "?s3\<lparr>is_log := ?tx ?d1 # is_log ?s3\<rparr>"] by auto
  have st: "storable [''worker'', ''source.polled''] [result]" "job_storable (Some result) None"
    "storable [''ingest''] [[(''sha256'', get result ''sha256''), (''version'', get result ''version''),
              (''filename'', get result ''filename''), (''tag'', get result ''tag'')]]"
    using p(3) get_ok [OF p(3)] by (simp_all add: storable_def nul_def job_storable_def) (simp add: dict_ok_def nul_def)
  let ?s4 = "?s3\<lparr>is_log := ?tx ?d1 # is_log ?s3, is_made := made, is_files := [''/q/abcd.bin'' \<mapsto> ex_artifact]\<rparr>"
  obtain s5 where s5: "on_db ex_worker (\<lambda>i. audit (e_clock ex_worker i) ''worker'' ''source.polled'' (Some 7) result) ?s4 = (Inr (), s5)"
    "d_jobs (is_db s5) = [?j]" "d_sources (is_db s5) = [ex_promoted_source]"
    and f5: "\<not> is_failed s5"
    using st(1) by (simp add: on_db_eq on_connection_apply Let_def ex_worker_def audit_def modifyS_def ex_worker_db_def)
  obtain s6 j6 where s6: "on_db ex_worker (\<lambda>i. finish_job (e_clock ex_worker i) 1 DONE (Some result) None) s5 = (Inr (), s6)"
    "d_jobs (is_db s6) = [j6]" "jo_id j6 = 1" "jo_state j6 = DONE" "d_sources (is_db s6) = [ex_promoted_source]"
    and f6: "\<not> is_failed s6"
    using s5(2,3) f5 st(2) by (simp add: on_db_eq on_connection_apply Let_def ex_worker_def finish_done set_job_def ex_worker_db_def)
  let ?enq = "\<lambda>i. enqueue (e_clock ex_worker i) (e_uuid ex_worker i) 7 PUBLISH ''ingest''
     [(''sha256'', get result ''sha256''), (''version'', get result ''version''),
              (''filename'', get result ''filename''), (''tag'', get result ''tag'')]"
  have "\<exists>x s7. on_db ex_worker ?enq s6 = (Inr x, s7) \<and> (\<exists>t \<in> set (is_log s7). \<exists>k \<in> set (d_jobs (tx_after t)).
      jo_kind k = PUBLISH \<and> jo_source_id k = 7 \<and> jo_id k \<notin> jo_id ` set (d_jobs (tx_before t)))"
    using s6(2-5) f6 st(3) by (simp add: on_db_eq on_connection_apply Let_def ex_worker_def enqueue_def job_at_def has_open_job_def open_job_def source_at_def
        ex_sources)
  then obtain x s7 where s7: "on_db ex_worker ?enq s6 = (Inr x, s7)" "\<exists>t \<in> set (is_log s7). \<exists>k \<in> set (d_jobs (tx_after t)).
      jo_kind k = PUBLISH \<and> jo_source_id k = 7 \<and> jo_id k \<notin> jo_id ` set (d_jobs (tx_before t))" by blast
  have "run_body ex_worker ex_promoted_source ?j (?s3\<lparr>is_log := ?tx ?d1 # is_log ?s3\<rparr>) = (Inr (), s7)"
    using p s5(1) s6(1) s7(1)
    by (simp add: run_body_def work_def bindS_def hand_off_to_signer_def pollable_def ex_sources returnS_def refuseS_def
        ex_worker_db_def)
  then have "run_job ex_worker message ?j ?s3 = (Inr (), s7)"
    using 4 by (simp add: run_job_def bindS_def catchS_def ex_worker_db_def)
  then have "tick ex_worker message ?s0 = (Inr True, s7)"
    using 1 2 3 by (simp add: tick_def bindS_def returnS_def)
  then have "main_loop 1 ex_worker message ?s0 = s7" by simp
  with s7(2) show ?thesis by simp
qed

definition ex_idle :: "db \<Rightarrow> ingest_state" where
  "ex_idle d = \<lparr>is_db = d, is_files = Map.empty, is_made = [], is_log = [], is_failed = False\<rparr>"

text \<open>A worker in front of a feed, and a registry whose first source was polled once.\<close>

definition ex_feed_worker :: "(string option \<times> string option) list res \<Rightarrow> string ingest_env" where
  "ex_feed_worker feed = ex_worker\<lparr>e_net := ex_net\<lparr>nt_get := (\<lambda>made url. Inr (ex_response 200)), nt_xml := (\<lambda>_. feed)\<rparr>,
     e_clock := (\<lambda>i. 10000 + int i)\<rparr>"

definition ex_polled_db :: "int \<Rightarrow> db" where
  "ex_polled_db skips = ex_worker_db\<lparr>d_sources := [ex_gh_source, ex_gh_source\<lparr>so_id := 8, so_app_id := ''viewer'', so_status := DRAFT\<rparr>],
     d_jobs := [(hd (d_jobs ex_worker_db))\<lparr>jo_state := DONE, jo_finished_at := Some 5,
          jo_result := Some [(''tag'', JStr ''v1.0''), (''consecutive_skips'', JInt skips)]\<rparr>,
        (hd (d_jobs ex_worker_db))\<lparr>jo_id := 2, jo_source_id := 8, jo_kind := VALIDATE\<rparr>]\<rparr>"

lemma ex_feed_source:
  "\<exists>S. release_source (e_net (ex_feed_worker feed)) ex_gh_source = Inr S
    \<and> (\<forall>made. rl_newest_tag_hint S made = (case feed of Inl ParseError \<Rightarrow> Inl (ForgeError ''release feed is not parseable XML'')
          | Inl e \<Rightarrow> Inl e | Inr entries \<Rightarrow> feed_tag (Some ''42'') entries, ''https://github.com/h/p/releases.atom'' # made))"
proof -
  let ?N = "ex_net\<lparr>nt_get := (\<lambda>made url. Inr (ex_response 200)), nt_xml := (\<lambda>_. feed)\<rparr>"
  let ?gh = "GitHubReleaseSource ''h/p'' ''https://api.github.com'' GITHUB_DOWNLOAD_HOSTS ''v'' 3 ''https://github.com/h/p'' (Some ''42'')"
  have "urlsplit (\<lambda>_. False) ''https://api.github.com'' = Inr (''https'', ''api.github.com'')"
    "hostname ''api.github.com'' = Some ''api.github.com''" by code_simp+
  then have "github_hosts ?N ''https://api.github.com'' = Inr GITHUB_DOWNLOAD_HOSTS"
    by (simp add: github_hosts_def ex_net_def)
  then have "release_source ?N ex_gh_source = Inr (github_source ?N ?gh)"
    by (simp add: release_source_def ex_gh_source_def asset_cap_def)
  moreover have "gh_newest_tag_hint ?N ?gh made = (case feed of Inl ParseError \<Rightarrow> Inl (ForgeError ''release feed is not parseable XML'')
          | Inl e \<Rightarrow> Inl e | Inr entries \<Rightarrow> feed_tag (Some ''42'') entries, ''https://github.com/h/p/releases.atom'' # made)" for made
  proof -
    have "urlsplit (\<lambda>_. False) ''https://github.com/h/p/releases.atom'' = Inr (''https'', ''github.com'')"
      "hostname ''github.com'' = Some ''github.com''" "lower ''github.com'' = ''github.com''" by code_simp+
    then have "require_allowed_host ?N GITHUB_DOWNLOAD_HOSTS ''https://github.com/h/p/releases.atom'' = Inr ()"
      by (simp add: require_allowed_host_def host_of_def ex_net_def GITHUB_DOWNLOAD_HOSTS_def)
    moreover have "gh_project_url ?gh @ ''/releases.atom'' = ''https://github.com/h/p/releases.atom''"
      "gh_project_url ?gh \<noteq> []" by code_simp+
    moreover have "gh_allowed_hosts ?gh = GITHUB_DOWNLOAD_HOSTS" "gh_repository_id ?gh = Some ''42''"
      by (simp_all add: GitHubReleaseSource_def)
    ultimately show ?thesis
      by (simp add: gh_newest_tag_hint_def Let_def bindS_def liftS_def request_def)
        (simp add: newest_feed_tag_def ex_response_def MAX_FEED_BYTES_def split: sum.split)
  qed
  ultimately show ?thesis by (simp add: ex_feed_worker_def github_source_def)
qed

section \<open>Properties\<close>

text \<open>C18: Whatever the forges answer and the other users of the database do, no transaction of an ingest
  worker activates a source or touches the pins of an active one.  A publish job it queues is for a
  source that an earlier transaction of the worker read, by its identifier, as active and not
  critical; and there are a release that the source's forge gave as its latest, the asset of it the
  source names and bytes that the download of this asset gave, such that the job names the version
  and tag of that release, the name of that asset and the digest of those bytes, which are in
  quarantine under that digest, with provenance the source's own policy verified and gates that
  passed.\<close>

theorem worker_queues_only_approved:
  assumes "is_log (main_loop n E message \<lparr>is_db = d, is_files = fs, is_made = [], is_log = [], is_failed = False\<rparr>)
      = newer @ t # older"
  shows "active_from (tx_before t) (tx_after t)
    \<and> (\<forall>k \<in> set (d_jobs (tx_after t)). jo_kind k = PUBLISH \<longrightarrow> jo_id k \<notin> jo_id ` set (d_jobs (tx_before t)) \<longrightarrow>
         (\<exists>source. seen source older \<and> so_id source = jo_source_id k \<and> approved E source (jo_payload k) (tx_files t)))"
proof -
  have "log_ok E (newer @ t # older) \<Longrightarrow> tx_ok E older t" for newer
    by (induction newer) auto
  moreover have "lawful E (main_loop n E message \<lparr>is_db = d, is_files = fs, is_made = [], is_log = [], is_failed = False\<rparr>)"
    by (rule lawful_main_loop) (simp add: on_log_def)
  ultimately have "tx_ok E older t" using assms unfolding on_log_def by metis
  then show ?thesis unfolding tx_ok_def by blast
qed

theorem worker_queues_only_approved_witness:
  "\<exists>t k older source. t \<in> set (is_log (main_loop 1 ex_worker (\<lambda>_. [])
        \<lparr>is_db = ex_worker_db, is_files = Map.empty, is_made = [], is_log = [], is_failed = False\<rparr>))
     \<and> k \<in> set (d_jobs (tx_after t)) \<and> jo_kind k = PUBLISH \<and> so_id source = 7 \<and> seen source older
     \<and> approved ex_worker source (jo_payload k) (tx_files t)"
proof -
  obtain t k where t: "t \<in> set (is_log (main_loop 1 ex_worker (\<lambda>_. [])
        \<lparr>is_db = ex_worker_db, is_files = Map.empty, is_made = [], is_log = [], is_failed = False\<rparr>))"
    and k: "k \<in> set (d_jobs (tx_after t))" "jo_kind k = PUBLISH" "jo_source_id k = 7"
      "jo_id k \<notin> jo_id ` set (d_jobs (tx_before t))"
    using ex_handed_off by blast
  obtain newer older where log: "is_log (main_loop 1 ex_worker (\<lambda>_. [])
        \<lparr>is_db = ex_worker_db, is_files = Map.empty, is_made = [], is_log = [], is_failed = False\<rparr>) = newer @ t # older"
    using split_list [OF t] by blast
  from worker_queues_only_approved [OF log] k obtain source where "seen source older" "so_id source = 7"
    "approved ex_worker source (jo_payload k) (tx_files t)" by metis
  with t k show ?thesis by blast
qed



text \<open>What the exception above looks like: when a poll has read a record that PostgreSQL cannot store, for
  instance because a tag of the forge holds a NUL, the job is left exactly as it was claimed, and
  stays an open job of its source until \<open>reset_stale_jobs\<close> queues it again.\<close>

theorem unstorable_record_leaves_the_job:
  assumes c: "considerate (jo_id job) E" and d: "db_inv (is_db s)" and row: "job_at (jo_id job) (is_db s) = Some row"
    and s: "\<not> is_failed s" and kind: "jo_kind job = POLL"
    and src: "on_db E (\<lambda>i. get_source (jo_source_id job)) s = (Inr (Some source), s1)" "pollable source"
    and read: "do_poll E source s1 = (Inr result, s2)" "\<not> dict_ok result"
  shows "\<exists>s'. run_job E message job s = (Inl InFailedSqlTransaction, s') \<and> job_at (jo_id job) (is_db s') = Some row"
proof -
  let ?n = "jo_id job" and ?P = "\<lambda>j. j = row"
  let ?I = "\<lambda>t. holds (on_job ?n ?P) t"
  have I: "?I s" using d row by (simp add: on_job_def)
  have kept: "keeps (holds (on_job ?n ?P)) (on_db E f)" if "\<And>i. keeps (on_job ?n ?P) (f i)" for f :: "nat \<Rightarrow> (db, 'x) sem"
    using c that by (rule holds_on_db)
  have s1: "?I s1" "\<not> is_failed s1"
    using keepsD [OF kept I, of "\<lambda>i. get_source (jo_source_id job)"] src(1) s on_job_queries
    by (auto simp: on_db_eq on_connection_apply Let_def get_source_def queryS_def)
  have s2: "?I s2" "\<not> is_failed s2"
    using reading_still [of E source job s1] read(1) s1 kind by (simp_all add: reading_def)
  let ?a = "\<lambda>i. audit (e_clock E i) ''worker'' ''source.polled'' (Some (so_id source)) result"
  obtain s3 where s3: "on_db E ?a s2 = (Inl UntranslatableCharacter, s3)" "is_failed s3"
    using s2(2) audit_refused [OF read(2), of "''source.polled''"]
    by (simp add: on_db_eq on_connection_apply Let_def aborts_def nul_def)
  have i3: "?I s3" using keepsD [OF kept s2(1), of ?a] s3(1) on_job_audit by fastforce
  have body: "run_body E source job s1 = (Inl UntranslatableCharacter, s3)"
    using read(1) s3(1) src(2) kind by (simp add: run_body_def work_def bindS_def refuseS_def returnS_def)
  let ?f = "\<lambda>i. finish_job (e_clock E i) ?n FAILED None (Some (message UntranslatableCharacter))"
  obtain s4 where s4: "on_db E ?f s3 = (Inl InFailedSqlTransaction, s4)" "is_db s4 = e_others E (length (is_log s3)) (is_db s3)"
    using on_db_failed [OF s3(2), of E ?f] by (metis prod.collapse)
  have "?I s4" using considerateD [OF c i3] s4(2) by simp
  moreover have "run_job E message job s = (Inl InFailedSqlTransaction, s4)"
    using src(1) body s4(1) by (simp add: run_job_def bindS_def catchS_def fail_job_def)
  ultimately show ?thesis by (auto simp: on_job_def split: option.splits)
qed

text \<open>The cheap check skips a poll only for the tag the last finished poll recorded, and counts: the
  record it files says one more skip than that poll did, and never more than 24 in a row.\<close>

theorem skips_are_bounded:
  assumes run: "unchanged_since_last_poll E source s = (Inr (Some rec), s')"
  shows "\<exists>d j result known skips. last_poll (so_id source) d = (Inr (Some j), d) \<and> jo_result j = Some result
    \<and> get result ''tag'' = JStr known \<and> known \<noteq> []
    \<and> as_int (get_default result ''consecutive_skips'' (JInt 0)) = Some skips
    \<and> get rec ''tag'' = JStr known \<and> as_int (get_default rec ''consecutive_skips'' (JInt 0)) = Some (skips + 1)
    \<and> skips + 1 \<le> MAX_CONSECUTIVE_SKIPS"
proof -
  let ?d = "e_others E (length (is_log s)) (is_db s)"
  obtain last where l: "last_poll (so_id source) ?d = (Inr last, ?d)" by (simp add: last_poll_def queryS_def)
  have "\<not> is_failed s"
    using run on_db_failed [of s E "\<lambda>i. last_poll (so_id source)"]
    by (auto simp: unchanged_since_last_poll_def bindS_def split: prod.splits sum.splits)
  with l have db: "on_db E (\<lambda>i. last_poll (so_id source)) s = (Inr last, s\<lparr>is_db := ?d,
      is_log := \<lparr>tx_before = ?d, tx_after = ?d, tx_files = is_files s\<rparr> # is_log s, is_failed := False\<rparr>)"
    by (simp add: on_db_run)
  let ?r = "case last of None \<Rightarrow> [] | Some j \<Rightarrow> (case jo_result j of None \<Rightarrow> [] | Some r \<Rightarrow> r)"
  from run obtain known skips where k: "get ?r ''tag'' = JStr known" "known \<noteq> []"
      "as_int (get_default ?r ''consecutive_skips'' (JInt 0)) = Some skips" "\<not> MAX_CONSECUTIVE_SKIPS \<le> skips"
      "rec = [(''outcome'', JStr ''unchanged''), (''tag'', JStr known),
                             (''via'', JStr ''release feed''), (''consecutive_skips'', JInt (skips + 1))]"
    unfolding unchanged_since_last_poll_def bindS_run [where m = "on_db E (\<lambda>i. last_poll (so_id source))" and s = s, OF db] Let_def
    by (auto simp: bindS_eq_Inr_iff split: option.splits if_splits)
  then obtain j result where "last = Some j" "jo_result j = Some result" "?r = result"
    by (cases last; cases "jo_result (the last)") auto
  with l k show ?thesis by (intro exI [of _ ?d]) (auto simp: get_default_def)
qed

theorem skips_are_bounded_witness:
  "\<exists>rec s'. unchanged_since_last_poll (ex_feed_worker (Inr [(None, Some ''Repository/42/v1.0'')])) ex_gh_source (ex_idle (ex_polled_db 23))
      = (Inr (Some rec), s') \<and> as_int (get_default rec ''consecutive_skips'' (JInt 0)) = Some 24 \<and> 24 \<le> MAX_CONSECUTIVE_SKIPS"
proof -
  let ?E = "ex_feed_worker (Inr [(None, Some ''Repository/42/v1.0'')])"
  have tag: "feed_tag (Some ''42'') [(None, Some ''Repository/42/v1.0'')] = Inr (Some ''v1.0'')" by code_simp
  obtain S where S: "release_source (e_net ?E) ex_gh_source = Inr S"
    "\<And>made. rl_newest_tag_hint S made = (Inr (Some ''v1.0''), ''https://github.com/h/p/releases.atom'' # made)"
    using ex_feed_source [of "Inr [(None, Some ''Repository/42/v1.0'')]"] by (auto simp: tag simp del: feed_tag.simps)
  have id: "so_id ex_gh_source = 7" by (simp add: ex_gh_source_def)
  have last: "last_poll 7 (ex_polled_db 23) = (Inr (Some ((hd (d_jobs ex_worker_db))\<lparr>jo_state := DONE, jo_finished_at := Some 5,
          jo_result := Some [(''tag'', JStr ''v1.0''), (''consecutive_skips'', JInt 23)]\<rparr>)), ex_polled_db 23)"
    by (simp add: last_poll_def queryS_def ex_polled_db_def ex_worker_db_def)
  have others: "e_others ?E i d = d" for i d by (simp add: ex_feed_worker_def ex_worker_def)
  obtain s1 where s1: "on_db ?E (\<lambda>i. last_poll (so_id ex_gh_source)) (ex_idle (ex_polled_db 23)) = (Inr (Some ((hd (d_jobs ex_worker_db))\<lparr>jo_state := DONE, jo_finished_at := Some 5,
          jo_result := Some [(''tag'', JStr ''v1.0''), (''consecutive_skips'', JInt 23)]\<rparr>)), s1)"
    by (simp add: on_db_eq on_connection_apply Let_def others id ex_idle_def last)
  have "\<exists>rec s'. unchanged_since_last_poll ?E ex_gh_source (ex_idle (ex_polled_db 23)) = (Inr (Some rec), s')
      \<and> get rec ''consecutive_skips'' = JInt 24"
    by (simp add: unchanged_since_last_poll_def bindS_def s1 S catchS_def liftS_def on_http_def returnS_def
        get_default_def MAX_CONSECUTIVE_SKIPS_def)
  then obtain rec s' where u: "unchanged_since_last_poll ?E ex_gh_source (ex_idle (ex_polled_db 23)) = (Inr (Some rec), s')"
    "get rec ''consecutive_skips'' = JInt 24" by blast
  from skips_are_bounded [OF u(1)] obtain skips where
    sk: "as_int (get_default rec ''consecutive_skips'' (JInt 0)) = Some (skips + 1)" "skips + 1 \<le> MAX_CONSECUTIVE_SKIPS"
    by blast
  moreover have "get_default rec ''consecutive_skips'' (JInt 0) = JInt 24"
    using u(2) by (auto simp: get_def get_default_def split: option.splits)
  ultimately show ?thesis using u(1) by auto
qed

text \<open>An exception of the feed that is not one of the three the cheap check catches stops the loop
  for every source: as long as the source is the first one due, each tick raises before it claims
  a job, and the database never changes again, queued jobs of other sources included.\<close>

theorem feed_error_stops_the_loop:
  assumes others: "\<And>i d. e_others E i d = d"
    and due: "\<And>i. \<exists>rest. filter (due_for_poll (e_clock E i) POLL_INTERVAL (is_db s)) (d_sources (is_db s)) = source # rest"
    and fresh: "\<And>i. filter (stale (e_clock E i) STALE_AFTER) (d_jobs (is_db s)) = []"
    and poll: "fst (last_poll (so_id source) (is_db s)) = Inr (Some j)" "jo_result j = Some result"
      "get result ''tag'' = JStr (c # known)"
      "as_int (get_default result ''consecutive_skips'' (JInt 0)) = Some skips" "skips < MAX_CONSECUTIVE_SKIPS"
    and feed: "release_source (e_net E) source = Inr S" "\<And>made. fst (rl_newest_tag_hint S made) = Inl e"
      "\<not> is_cheap_check_error e"
    and usable: "\<not> is_failed s"
  shows "fst (tick E message s) = Inl e \<and> is_db (main_loop n E message s) = is_db s"
proof -
  have tick: "\<exists>s'. tick E message s0 = (Inl e, s') \<and> is_db s' = is_db s" if d: "is_db s0 = is_db s" "\<not> is_failed s0" for s0
  proof -
    let ?reset = "\<lambda>i. reset_stale_jobs (e_clock E i) STALE_AFTER"
    have nochange: "map (\<lambda>j. if stale now STALE_AFTER j then f j else j) js = js"
      if "filter (stale now STALE_AFTER) js = []" for now f js
      using that by (induction js) (auto split: if_splits)
    have "snd (?reset i (is_db s)) = is_db s" for i
      using nochange [OF fresh [of i]] by (simp add: reset_stale_jobs_def)
    then obtain s1 m where s1: "on_db E ?reset s0 = (Inr m, s1)" "is_db s1 = is_db s" "\<not> is_failed s1"
      by (auto simp: on_db_eq on_connection_apply Let_def others d reset_stale_jobs_def)
    obtain rest s2 where s2: "on_db E (\<lambda>i. sources_due_for_poll (e_clock E i) POLL_INTERVAL) s1 = (Inr (source # rest), s2)"
        "is_db s2 = is_db s" "\<not> is_failed s2"
      using s1(3) due [of "length (is_log s1)"] by (auto simp: on_db_eq on_connection_apply Let_def others s1(2) sources_due_for_poll_def queryS_def)
    obtain s3 where s3: "on_db E (\<lambda>i. last_poll (so_id source)) s2 = (Inr (Some j), s3)" "is_db s3 = is_db s"
      using poll(1) s2(3) by (auto simp: on_db_eq on_connection_apply Let_def others s2(2) last_poll_def queryS_def)
    obtain s4 where s4: "on_http (rl_newest_tag_hint S) s3 = (Inl e, s4)" "is_db s4 = is_db s"
      using feed(2) [of "is_made s3"] s3(2)
      by (cases "rl_newest_tag_hint S (is_made s3)") (auto simp: on_http_def)
    have "unchanged_since_last_poll E source s2 = (Inl e, s4)"
      using poll feed(1,3) s4(1)
      by (simp add: unchanged_since_last_poll_def s3(1) Let_def catchS_def bindS_def liftS_def raiseS_def)
    then have "schedule_all E (source # rest) s2 = (Inl e, s4)"
      by (simp add: schedule_def bindS_stop)
    then have "tick E message s0 = (Inl e, s4)"
      by (simp add: tick_def bindS_run [where m = "on_db E ?reset" and s = s0, OF s1(1)]
         bindS_run [where m = "on_db E (\<lambda>i. sources_due_for_poll (e_clock E i) POLL_INTERVAL)" and s = s1, OF s2(1)]
         bindS_stop)
    with s4(2) show ?thesis by blast
  qed
  have "is_db (main_loop n E message s0) = is_db s" if "is_db s0 = is_db s" for s0
    using that
  proof (induction n arbitrary: s0)
    case (Suc n)
    obtain s' where "tick E message (s0\<lparr>is_failed := False\<rparr>) = (Inl e, s')" "is_db s' = is_db s"
      using tick [of "s0\<lparr>is_failed := False\<rparr>"] Suc.prems by auto
    then show ?case using Suc.IH by simp
  qed simp
  moreover have "fst (tick E message s) = Inl e" using tick [of s] usable by auto
  ultimately show ?thesis by simp
qed

theorem feed_error_stops_the_loop_witness:
  "\<exists>k \<in> set (d_jobs (is_db (main_loop 9 (ex_feed_worker (Inl (ValueError ''unknown encoding''))) (\<lambda>_. []) (ex_idle (ex_polled_db 0))))).
     jo_kind k = VALIDATE \<and> jo_state k = QUEUED \<and> jo_source_id k = 8"
proof -
  let ?E = "ex_feed_worker (Inl (ValueError ''unknown encoding''))" and ?s = "ex_idle (ex_polled_db 0)"
  obtain S where S: "release_source (e_net ?E) ex_gh_source = Inr S"
    "\<And>made. fst (rl_newest_tag_hint S made) = Inl (ValueError ''unknown encoding'')"
    using ex_feed_source [of "Inl (ValueError ''unknown encoding'')"] by auto
  have id: "so_id ex_gh_source = 7" "so_status ex_gh_source = ACTIVE" by (simp_all add: ex_gh_source_def)
  have db: "is_db ?s = ex_polled_db 0" "\<not> is_failed ?s" by (simp_all add: ex_idle_def)
  have env: "e_others ?E i d = d" "e_clock ?E i = 10000 + int i" for i d
    by (simp_all add: ex_feed_worker_def ex_worker_def)
  have due: "\<exists>rest. filter (due_for_poll (e_clock ?E i) POLL_INTERVAL (is_db ?s)) (d_sources (is_db ?s)) = ex_gh_source # rest" for i
    unfolding db(1) by (simp add: env ex_polled_db_def ex_worker_db_def due_for_poll_def id open_job_def POLL_INTERVAL_def)
  have fresh: "filter (stale (e_clock ?E i) STALE_AFTER) (d_jobs (is_db ?s)) = []" for i
    unfolding db(1) by (simp add: env ex_polled_db_def ex_worker_db_def stale_def)
  have last: "fst (last_poll (so_id ex_gh_source) (is_db ?s)) = Inr (Some ((hd (d_jobs ex_worker_db))\<lparr>jo_state := DONE,
      jo_finished_at := Some 5, jo_result := Some [(''tag'', JStr ''v1.0''), (''consecutive_skips'', JInt 0)]\<rparr>))"
    unfolding db(1) by (simp add: last_poll_def queryS_def ex_polled_db_def ex_worker_db_def id)
  have eq: "is_db (main_loop 9 ?E (\<lambda>_. []) ?s) = ex_polled_db 0"
    using db feed_error_stops_the_loop [OF env(1) due fresh last _ _ _ _ S, of _ "CHR ''v''" "''1.0''" 0 "\<lambda>_. []" 9]
    by (simp add: get_default_def is_cheap_check_error_def MAX_CONSECUTIVE_SKIPS_def)
  show ?thesis unfolding eq by (simp add: ex_polled_db_def) (simp add: ex_worker_db_def)
qed

end
