(* ===== verification/Signing.thy ===== *)
theory Signing
  imports Roles "HOL-Library.Multiset"
begin

text \<open>
  \<^verbatim>\<open>packages/dist-core/src/dist_core/signing.py\<close> and the combined backend of
  \<^verbatim>\<open>scripts/ceremony.py\<close>: key custody and the signer backends.

  A KDBX database is the list of entries of its \<open>tuf\<close> group (\<open>None\<close> for one without the group);
  an entry carries the two custom properties.  The file of a database carries what it is sealed with:
  the password, and what the key file held when it was saved.  Each file has one path, and a path that
  holds a file can be read.  What \<open>cryptography\<close> and
  \<open>securesystemslib\<close> compute from a private key, its keyid, is the argument \<open>derive\<close>, which
  raises on a PEM it cannot load.  A signer is represented by the key it signs with.
\<close>

section \<open>Configuration\<close>

definition is_production :: "string option \<Rightarrow> bool" where
  "is_production ENV = (lower (strip (case ENV of None \<Rightarrow> [] | Some v \<Rightarrow> v)) = ''production'')"

record keepass_config =
  kc_database :: string
  kc_password :: "string option"
  kc_keyfile :: "string option"

text \<open>\<open>resolved_parent\<close> is \<open>Path(p).resolve().parent\<close> on the file system at hand.\<close>

definition validate :: "string option \<Rightarrow> (string \<Rightarrow> string) \<Rightarrow> keepass_config \<Rightarrow> unit res" where
  "validate ENV resolved_parent c =
     (if kc_password c = None \<and> kc_keyfile c = None
      then Inl (KeyMaterialError ''no unsealing material supplied'')
      else if \<not> is_production ENV then Inr ()
      else (case (kc_password c, kc_keyfile c) of
          (Some _, Some kf) \<Rightarrow>
            if resolved_parent kf = resolved_parent (kc_database c)
            then Inl (KeyMaterialError ''key file must not sit beside the database'')
            else Inr ()
        | _ \<Rightarrow> Inl (KeyMaterialError ''production requires a composite master key'')))"

section \<open>Keystores and backends\<close>

record key_entry =
  ke_role :: string
  ke_private_key :: string
  ke_keyid :: string

type_synonym keys = "(string \<times> key_entry) list"

record kdbx_entry =
  kx_role :: "string option"
  kx_pem :: "string option"

type_synonym kdbx = "kdbx_entry list option"

text \<open>\<open>self._keys[keyid] = entry\<close>: a dict, so a key seen twice keeps its last entry.\<close>

definition put_key :: "key_entry \<Rightarrow> keys \<Rightarrow> keys" where
  "put_key e ks = (ke_keyid e, e) # filter (\<lambda>(k, _). k \<noteq> ke_keyid e) ks"

fun load_entries :: "(string \<Rightarrow> string res) \<Rightarrow> kdbx_entry list \<Rightarrow> keys \<Rightarrow> keys res" where
  "load_entries derive [] ks = Inr ks"
| "load_entries derive (x # xs) ks =
     (case (kx_role x, kx_pem x) of
        (Some role, Some pem) \<Rightarrow>
          bindr (derive pem) (\<lambda>keyid.
            load_entries derive xs
              (put_key \<lparr>ke_role = role, ke_private_key = pem, ke_keyid = keyid\<rparr> ks))
      | _ \<Rightarrow> load_entries derive xs ks)"

definition load :: "(string \<Rightarrow> string res) \<Rightarrow> kdbx \<Rightarrow> keys res" where
  "load derive db = (case db of
      None \<Rightarrow> Inl (KeyMaterialError ''database has no tuf group'')
    | Some xs \<Rightarrow> load_entries derive xs [])"

definition keyids :: "keys \<Rightarrow> string \<Rightarrow> string list" where
  "keyids ks role = sort (map fst (filter (\<lambda>(_, v). ke_role v = role) ks))"

text \<open>\<open>KeePassSignerBackend._entry\<close> and the plain indexing of \<open>InMemorySignerBackend\<close>
  raise different exceptions on an unknown keyid.\<close>

definition entry :: "keys \<Rightarrow> string \<Rightarrow> key_entry res" where
  "entry ks keyid = (case map_of ks keyid of
     None \<Rightarrow> Inl (KeyMaterialError ''no key'') | Some e \<Rightarrow> Inr e)"

definition memory_entry :: "keys \<Rightarrow> string \<Rightarrow> key_entry res" where
  "memory_entry ks keyid = (case map_of ks keyid of
     None \<Rightarrow> Inl (KeyError keyid) | Some e \<Rightarrow> Inr e)"

text \<open>What the rest of the system sees of a backend (\<open>SignerBackend\<close>).\<close>

record backend =
  be_keyids :: "string \<Rightarrow> string list"
  be_public_key :: "string \<Rightarrow> string res"
  be_signer :: "string \<Rightarrow> string res"

definition keepass_backend :: "keys \<Rightarrow> backend" where
  "keepass_backend ks =
     \<lparr>be_keyids = keyids ks,
      be_public_key = (\<lambda>k. bindr (entry ks k) (\<lambda>e. Inr (ke_keyid e))),
      be_signer = (\<lambda>k. bindr (entry ks k) (\<lambda>e. Inr (ke_private_key e)))\<rparr>"

text \<open>Files: databases, and everything else (a key file may be any of them).  \<open>PyKeePass\<close> opens a
  database with the password and the key file of the configuration.\<close>

datatype 'd fs_file = Database "string option" "'d fs_file option" kdbx | Document 'd

type_synonym 'd file_map = "string \<rightharpoonup> 'd fs_file"

definition key_material :: "'d file_map \<Rightarrow> keepass_config \<Rightarrow> (string option \<times> 'd fs_file option) res" where
  "key_material files config = (case kc_keyfile config of
      None \<Rightarrow> Inr (kc_password config, None)
    | Some path \<Rightarrow> (case files path of
          None \<Rightarrow> Inl (OSError ''no such key file'') | Some f \<Rightarrow> Inr (kc_password config, Some f)))"

definition PyKeePass :: "'d file_map \<Rightarrow> keepass_config \<Rightarrow> kdbx res" where
  "PyKeePass files config = (case files (kc_database config) of
      None \<Rightarrow> Inl (OSError ''no such database'')
    | Some (Document _) \<Rightarrow> Inl (PyKeePassError ''not a database'')
    | Some (Database pw kf db) \<Rightarrow>
        bindr (key_material files config) (\<lambda>material.
          if material = (pw, kf) then Inr db else Inl (PyKeePassError ''invalid credentials'')))"

definition open_keepass ::
  "string option \<Rightarrow> (string \<Rightarrow> string) \<Rightarrow> (string \<Rightarrow> string res) \<Rightarrow> keepass_config \<Rightarrow> 'd file_map \<Rightarrow> backend res" where
  "open_keepass ENV resolved_parent derive config files =
     bindr (validate ENV resolved_parent config) (\<lambda>_.
     bindr (PyKeePass files config) (\<lambda>db.
     bindr (load derive db) (\<lambda>ks. Inr (keepass_backend ks))))"

definition memory_backend :: "keys \<Rightarrow> backend" where
  "memory_backend ks =
     \<lparr>be_keyids = keyids ks,
      be_public_key = (\<lambda>k. bindr (memory_entry ks k) (\<lambda>e. Inr (ke_keyid e))),
      be_signer = (\<lambda>k. bindr (memory_entry ks k) (\<lambda>e. Inr (ke_private_key e)))\<rparr>"

definition new_memory :: "string option \<Rightarrow> keys res" where
  "new_memory ENV =
     (if is_production ENV then Inl (KeyMaterialError ''InMemorySignerBackend must never be used'')
      else Inr [])"

definition generate :: "(string \<Rightarrow> string res) \<Rightarrow> string \<Rightarrow> string \<Rightarrow> keys \<Rightarrow> (string \<times> keys) res" where
  "generate derive pem role ks =
     bindr (derive pem) (\<lambda>keyid.
       Inr (keyid, put_key \<lparr>ke_role = role, ke_private_key = pem, ke_keyid = keyid\<rparr> ks))"

text \<open>
  \<open>create_keystore\<close> and \<open>generate_key\<close> write the files of the machine; a key file is first read when
  the new database is saved.  \<open>pem\<close> is the freshly generated private key.
\<close>

definition create_keystore :: "keepass_config \<Rightarrow> ('d file_map, unit) sem" where
  "create_keystore config = (\<lambda>files.
     if files (kc_database config) \<noteq> None
     then (Inl (KeyMaterialError ''refusing to overwrite existing database''), files)
     else (case key_material files config of
         Inl e \<Rightarrow> (Inl e, files)
       | Inr (pw, kf) \<Rightarrow> (Inr (), files(kc_database config \<mapsto> Database pw kf (Some [])))))"

definition generate_key ::
  "(string \<Rightarrow> string res) \<Rightarrow> string \<Rightarrow> keepass_config \<Rightarrow> string \<Rightarrow> string \<Rightarrow> ('d file_map, string) sem" where
  "generate_key derive pem config role algorithm = (\<lambda>files.
     if algorithm \<noteq> ''ed25519'' \<and> algorithm \<noteq> ''ecdsa'' then (Inl (ValueError ''unsupported algorithm''), files)
     else (case PyKeePass files config of
         Inl e \<Rightarrow> (Inl e, files)
       | Inr None \<Rightarrow> (Inl (KeyMaterialError ''database has no tuf group''), files)
       | Inr (Some xs) \<Rightarrow> (case key_material files config of
             Inl e \<Rightarrow> (Inl e, files)
           | Inr (pw, kf) \<Rightarrow> (derive pem, files(kc_database config \<mapsto>
                 Database pw kf (Some (xs @ [\<lparr>kx_role = Some role, kx_pem = Some pem\<rparr>])))))))"

section \<open>The ceremony's combined backend\<close>

fun owner :: "backend list \<Rightarrow> string \<Rightarrow> backend res" where
  "owner [] keyid = Inl (KeyMaterialError ''no keystore holds the key'')"
| "owner (b # bs) keyid =
     (case be_public_key b keyid of Inl (KeyMaterialError _) \<Rightarrow> owner bs keyid
      | Inl e \<Rightarrow> Inl e | Inr _ \<Rightarrow> Inr b)"

definition combined_backend :: "backend list \<Rightarrow> backend" where
  "combined_backend bs =
     \<lparr>be_keyids = (\<lambda>role. sort (concat (map (\<lambda>b. be_keyids b role) bs))),
      be_public_key = (\<lambda>k. bindr (owner bs k) (\<lambda>b. be_public_key b k)),
      be_signer = (\<lambda>k. bindr (owner bs k) (\<lambda>b. be_signer b k))\<rparr>"

section \<open>The interface\<close>

text \<open>
  What publication relies on: a backend lists its keyids in order, and every keyid it lists
  for a role has a public key and a signer.
\<close>

fun sign_all :: "backend \<Rightarrow> string list \<Rightarrow> (string \<times> string) list res" where
  "sign_all B [] = Inr []"
| "sign_all B (k # ks) =
     bindr (be_signer B k) (\<lambda>sk. bindr (sign_all B ks) (\<lambda>sigs. Inr ((k, sk) # sigs)))"

lemma sign_all_keyids: "sign_all B ks = Inr sigs \<Longrightarrow> map fst sigs = ks"
  by (induction ks arbitrary: sigs) (auto simp: bindr_eq_Inr_iff)

locale signer_backend =
  fixes B :: backend
  assumes keyids_sorted: "sorted (be_keyids B role)"
    and public_key_ok: "k \<in> set (be_keyids B role) \<Longrightarrow> \<exists>pk. be_public_key B k = Inr pk"
    and signer_ok: "k \<in> set (be_keyids B role) \<Longrightarrow> \<exists>sk. be_signer B k = Inr sk"
begin

lemma sign_all_total:
  "set ks \<subseteq> set (be_keyids B role) \<Longrightarrow> \<exists>sigs. sign_all B ks = Inr sigs \<and> map fst sigs = ks"
proof (induction ks)
  case (Cons k ks)
  then obtain sigs sk where "sign_all B ks = Inr sigs" "be_signer B k = Inr sk" "map fst sigs = ks"
    using signer_ok [of k role] by auto
  then show ?case by simp
qed simp

lemma sign_role_total: "\<exists>sigs. sign_all B (be_keyids B role) = Inr sigs \<and> map fst sigs = be_keyids B role"
  by (rule sign_all_total [of _ role]) simp

end

lemma set_keyids: "set (keyids ks role) = {k. \<exists>e. (k, e) \<in> set ks \<and> ke_role e = role}"
  by (force simp: keyids_def)

lemma sorted_keyids: "sorted (keyids ks role)"
  by (simp add: keyids_def)

lemma keyids_lookup: "k \<in> set (keyids ks role) \<Longrightarrow> \<exists>e. map_of ks k = Some e"
  by (auto simp: set_keyids dest: weak_map_of_SomeI)

lemma keepass_simps [simp]:
  "be_keyids (keepass_backend ks) = keyids ks"
  "be_public_key (keepass_backend ks) k = bindr (entry ks k) (\<lambda>e. Inr (ke_keyid e))"
  "be_signer (keepass_backend ks) k = bindr (entry ks k) (\<lambda>e. Inr (ke_private_key e))"
  by (simp_all add: keepass_backend_def)

lemma memory_simps [simp]:
  "be_keyids (memory_backend ks) = keyids ks"
  "be_public_key (memory_backend ks) k = bindr (memory_entry ks k) (\<lambda>e. Inr (ke_keyid e))"
  "be_signer (memory_backend ks) k = bindr (memory_entry ks k) (\<lambda>e. Inr (ke_private_key e))"
  by (simp_all add: memory_backend_def)

interpretation keepass: signer_backend "keepass_backend ks" for ks
  by unfold_locales (auto simp: sorted_keyids entry_def dest!: keyids_lookup)

interpretation memory: signer_backend "memory_backend ks" for ks
  by unfold_locales (auto simp: sorted_keyids memory_entry_def dest!: keyids_lookup)

lemma entry_ne: "(\<exists>e. entry ks k = Inl (KeyMaterialError e)) \<or> (\<exists>e. entry ks k = Inr e)"
  by (auto simp: entry_def split: option.splits)

text \<open>The combined backend over two opened keystores is a signer backend again.\<close>

lemma owner_keepass:
  assumes "ks \<in> set kss" "map_of ks k \<noteq> None"
  shows "\<exists>ks' \<in> set kss. owner (map keepass_backend kss) k = Inr (keepass_backend ks') \<and> map_of ks' k \<noteq> None"
  using assms
proof (induction kss)
  case (Cons x xs)
  show ?case
  proof (cases "map_of x k")
    case None
    with Cons show ?thesis by (auto simp: entry_def)
  qed (auto simp: entry_def)
qed simp

interpretation combined: signer_backend "combined_backend (map keepass_backend kss)" for kss
proof
  fix role k
  assume "k \<in> set (be_keyids (combined_backend (map keepass_backend kss)) role)"
  then obtain ks where "ks \<in> set kss" "k \<in> set (keyids ks role)"
    by (auto simp: combined_backend_def)
  then have "\<exists>ks' \<in> set kss. owner (map keepass_backend kss) k = Inr (keepass_backend ks')
      \<and> map_of ks' k \<noteq> None"
    by (intro owner_keepass) (auto dest: keyids_lookup)
  then show "\<exists>pk. be_public_key (combined_backend (map keepass_backend kss)) k = Inr pk"
    and "\<exists>sk. be_signer (combined_backend (map keepass_backend kss)) k = Inr sk"
    by (auto simp: combined_backend_def entry_def)
qed (simp add: combined_backend_def)

section \<open>Loading\<close>

lemma map_of_put_key: "map_of (put_key e ks) k = (if k = ke_keyid e then Some e else map_of ks k)"
proof -
  have "map_of (filter (\<lambda>(j, _). j \<noteq> ke_keyid e) ks) k = map_of ks k" if "k \<noteq> ke_keyid e"
    using that by (induction ks) auto
  then show ?thesis by (auto simp: put_key_def)
qed

definition keys_ok :: "keys \<Rightarrow> bool" where
  "keys_ok ks \<longleftrightarrow> distinct (map fst ks) \<and> (\<forall>(k, e) \<in> set ks. k = ke_keyid e)"

lemma keys_ok_put: "keys_ok ks \<Longrightarrow> keys_ok (put_key e ks)"
  by (auto simp: keys_ok_def put_key_def distinct_map inj_on_def)

lemma keys_ok_in: "keys_ok ks \<Longrightarrow> (k, e) \<in> set ks \<longleftrightarrow> map_of ks k = Some e"
  by (auto simp: keys_ok_def dest: map_of_SomeD)

lemma keyids_iff:
  "keys_ok ks \<Longrightarrow> k \<in> set (keyids ks role) \<longleftrightarrow> (\<exists>e. map_of ks k = Some e \<and> ke_role e = role)"
  by (auto simp: set_keyids keys_ok_in)

lemma distinct_keyids: "keys_ok ks \<Longrightarrow> distinct (keyids ks role)"
  by (simp add: keys_ok_def keyids_def distinct_map_filter)

lemma load_entries_ok: "load_entries derive xs ks = Inr ks' \<Longrightarrow> keys_ok ks \<Longrightarrow> keys_ok ks'"
  by (induction xs arbitrary: ks) (auto split: option.splits simp: bindr_eq_Inr_iff keys_ok_put)

lemma load_entries_append:
  "load_entries derive (xs @ ys) ks = bindr (load_entries derive xs ks) (load_entries derive ys)"
  by (induction xs arbitrary: ks) (auto simp: bindr_def split: option.splits sum.splits)

lemma load_ok: "load derive db = Inr ks \<Longrightarrow> keys_ok ks"
  using load_entries_ok [of derive _ "[]" ks]
  by (simp add: load_def keys_ok_def split: option.splits)

section \<open>Properties\<close>

text \<open>In production a keystore opens only with a password and a key file that lie in different
  directories after links are resolved; outside production either of the two is enough.\<close>

theorem validate_accepts_iff:
  "validate ENV par c = Inr () \<longleftrightarrow>
     (if is_production ENV
      then \<exists>pw kf. kc_password c = Some pw \<and> kc_keyfile c = Some kf \<and> par kf \<noteq> par (kc_database c)
      else \<not> (kc_password c = None \<and> kc_keyfile c = None))"
  by (auto simp: validate_def split: option.splits)

text \<open>A database that opens is not its own key file, so saving it leaves its key material alone.\<close>

lemma key_material_update:
  assumes "files (kc_database c) = Some (Database pw kf db)" "key_material files c = Inr (pw, kf)"
  shows "key_material (files(kc_database c \<mapsto> f)) c = Inr (pw, kf)"
proof -
  have "kc_keyfile c \<noteq> Some (kc_database c)"
  proof
    assume "kc_keyfile c = Some (kc_database c)"
    then have "kf = Some (Database pw kf db)" using assms by (simp add: key_material_def)
    then have "Database pw kf db = Database pw (Some (Database pw kf db)) db"
      by (rule arg_cong [where f = "\<lambda>k. Database pw k db"])
    then have "size (Database pw kf db) = size (Database pw (Some (Database pw kf db)) db)" by (rule arg_cong)
    then show False by simp
  qed
  then show ?thesis using assms(2) by (auto simp: key_material_def split: option.splits)
qed

lemma PyKeePass_Inr:
  "PyKeePass files c = Inr db \<longleftrightarrow>
     (\<exists>pw kf. files (kc_database c) = Some (Database pw kf db) \<and> key_material files c = Inr (pw, kf))"
  by (auto simp: PyKeePass_def bindr_eq_Inr_iff split: option.splits fs_file.splits if_splits)

text \<open>A key generated into a keystore is there when the keystore is next opened: its keyid is
  listed for its role and has a signer, and the keys of the other roles are untouched unless it
  is the very same key.\<close>

theorem generated_key_loads:
  assumes "generate_key derive pem c role alg files = (Inr keyid, files')"
    and "PyKeePass files c = Inr db" and "load derive db = Inr ks"
  shows "\<exists>db' ks'. PyKeePass files' c = Inr db' \<and> load derive db' = Inr ks'
    \<and> keyid \<in> set (be_keyids (keepass_backend ks') role)
    \<and> be_signer (keepass_backend ks') keyid = Inr pem
    \<and> (\<forall>k r. k \<noteq> keyid \<longrightarrow> (k \<in> set (keyids ks' r) \<longleftrightarrow> k \<in> set (keyids ks r)))"
proof -
  let ?x = "\<lparr>kx_role = Some role, kx_pem = Some pem\<rparr>"
  from assms(1,2) obtain xs pw kf where db: "db = Some xs" and d: "derive pem = Inr keyid"
    and km: "key_material files c = Inr (pw, kf)"
    and f': "files' = files(kc_database c \<mapsto> Database pw kf (Some (xs @ [?x])))"
    by (auto simp: generate_key_def split: if_splits option.splits sum.splits)
  have "files (kc_database c) = Some (Database pw kf db)" using assms(2) km by (auto simp: PyKeePass_Inr)
  then have op: "PyKeePass files' c = Inr (Some (xs @ [?x]))"
    using key_material_update km by (fastforce simp: PyKeePass_Inr f')
  define e where "e = \<lparr>ke_role = role, ke_private_key = pem, ke_keyid = keyid\<rparr>"
  have ks: "load_entries derive xs [] = Inr ks" using assms(3) by (simp add: db load_def)
  have l: "load derive (Some (xs @ [?x])) = Inr (put_key e ks)"
    by (simp add: load_def load_entries_append ks d e_def)
  have ok: "keys_ok ks" "keys_ok (put_key e ks)"
    using load_ok [OF assms(3)] load_ok [OF l] by simp_all
  show ?thesis
    using op l ok by (auto simp: keyids_iff map_of_put_key entry_def e_def)
qed

definition ex_config :: keepass_config where
  "ex_config = \<lparr>kc_database = ''online.kdbx'', kc_password = Some ''pw'', kc_keyfile = Some ''key''\<rparr>"

definition ex_files :: "kdbx_entry list \<Rightarrow> string file_map" where
  "ex_files xs = [''key'' \<mapsto> Document ''abc'',
     ''online.kdbx'' \<mapsto> Database (Some ''pw'') (Some (Document ''abc'')) (Some xs)]"

theorem generated_key_loads_witness:
  "\<exists>db' ks'. PyKeePass (ex_files [\<lparr>kx_role = Some ''snapshot'', kx_pem = Some ''k1''\<rparr>]) ex_config = Inr db'
    \<and> load Inr db' = Inr ks' \<and> ''k1'' \<in> set (be_keyids (keepass_backend ks') ''snapshot'')"
proof -
  have "PyKeePass (ex_files xs) ex_config = Inr (Some xs)" for xs
    by (simp add: PyKeePass_def key_material_def ex_config_def ex_files_def)
  moreover from this have "generate_key Inr ''k1'' ex_config ''snapshot'' ''ed25519'' (ex_files [])
     = (Inr ''k1'', ex_files [\<lparr>kx_role = Some ''snapshot'', kx_pem = Some ''k1''\<rparr>])"
    by (auto simp: generate_key_def key_material_def ex_config_def ex_files_def fun_eq_iff)
  ultimately show ?thesis using generated_key_loads [of Inr "''k1''" ex_config "''snapshot''" "''ed25519''" "ex_files []"]
    by (auto simp: load_def)
qed

text \<open>The ceremony's combined backend can sign with every key it lists, for each role, whichever
  of the two keystores holds the key.\<close>

theorem combined_backend_signs:
  "\<exists>sigs. sign_all (combined_backend [keepass_backend offline, keepass_backend online])
        (be_keyids (combined_backend [keepass_backend offline, keepass_backend online]) role) = Inr sigs
     \<and> mset (map fst sigs) = mset (keyids offline role) + mset (keyids online role)"
proof -
  let ?B = "combined_backend [keepass_backend offline, keepass_backend online]"
  have "\<exists>sigs. sign_all ?B (be_keyids ?B role) = Inr sigs \<and> map fst sigs = be_keyids ?B role"
    using combined.sign_role_total [of "[offline, online]" role] by simp
  moreover have "mset (be_keyids ?B role) = mset (keyids offline role) + mset (keyids online role)"
    by (simp add: combined_backend_def)
  ultimately show ?thesis by (auto simp flip: mset_map)
qed

end
