(* ===== verification/Repository.thy ===== *)
theory Repository
  imports Naming Signing
begin

text \<open>
  \<^verbatim>\<open>packages/dist-core/src/dist_core/repository.py\<close>: the TUF repository over a directory.

  The directory is a log of atomic file replacements, newest first (\<open>r_disk\<close>): looking a name
  up finds its last write, and every suffix of the log is a state the directory was once in, so
  a property of all suffixes is a property of everything a client could ever have fetched.
  Metadata files are named \<^verbatim>\<open>metadata/...\<close> and payloads \<^verbatim>\<open>targets/...\<close>.  Temporary files,
  which no published name refers to, are not in the log; file modes are not modelled.

  The data classes of \<^verbatim>\<open>tuf.api\<close> are records.  \<open>Repository.edit\<close> of \<^verbatim>\<open>tuf.repository\<close> is what
  its documentation says, \<open>open\<close>, the body of the \<open>with\<close>, then \<open>close\<close>, and an exception in the
  body skips \<open>close\<close>.  What \<open>do_snapshot\<close> and \<open>do_timestamp\<close> of that library decide is an
  argument (\<open>tuf_lib\<close>): given what the repository reports and the current metadata they raise,
  leave it alone (\<open>None\<close>) or give its new content.
\<close>

section \<open>Metadata\<close>

record root_body =
  rb_consistent :: bool
  rb_keyids :: "string \<Rightarrow> string list"
  rb_threshold :: "string \<Rightarrow> int"

record target_file =
  tf_length :: nat
  tf_sha256 :: string
  tf_custom :: dict

record delegated_role =
  dr_name :: string
  dr_keyids :: "string list"
  dr_threshold :: int
  dr_terminating :: bool
  dr_paths :: "string list"

record delegations =
  dl_keys :: "string \<rightharpoonup> string"
  dl_roles :: "(string \<times> delegated_role) list option"

record targets_body =
  tb_targets :: "string \<rightharpoonup> target_file"
  tb_delegations :: "delegations option"

datatype signed =
    SRoot root_body
  | STargets targets_body
  | SSnapshot "string \<rightharpoonup> nat"
  | STimestamp nat

record metadata =
  md_signed :: signed
  md_version :: nat
  md_expires :: int
  md_signatures :: "(string \<times> string) list"

datatype repo_file = Meta metadata | Payload string

text \<open>\<open>_INITIAL.get(role, Targets)()\<close>: the library's default bodies.\<close>

definition initial :: "string \<Rightarrow> signed" where
  "initial role =
     (if role = ROOT then
        SRoot \<lparr>rb_consistent = True, rb_keyids = (\<lambda>_. []), rb_threshold = (\<lambda>_. 1)\<rparr>
      else if role = SNAPSHOT then SSnapshot [''targets.json'' \<mapsto> 1]
      else if role = TIMESTAMP then STimestamp 1
      else STargets \<lparr>tb_targets = Map.empty, tb_delegations = None\<rparr>)"

section \<open>State\<close>

record repo =
  r_policies :: "string \<rightharpoonup> role_policy"
  r_versions :: "string \<rightharpoonup> nat"
  r_app_roles :: "string set"
  r_disk :: "(string \<times> repo_file) list"

record tuf_lib =
  tl_snapshot :: "(string \<rightharpoonup> nat) \<Rightarrow> metadata \<Rightarrow> (string \<rightharpoonup> nat) option res"
  tl_timestamp :: "nat \<Rightarrow> metadata \<Rightarrow> nat option res"

definition fresh_repo :: repo where
  "fresh_repo = \<lparr>r_policies = map_of TOP_LEVEL_POLICIES, r_versions = Map.empty,
     r_app_roles = {}, r_disk = []\<rparr>"

abbreviation disk :: "repo \<Rightarrow> string \<rightharpoonup> repo_file" where
  "disk s \<equiv> map_of (r_disk s)"

definition version_of :: "repo \<Rightarrow> string \<Rightarrow> nat" where
  "version_of s role = (case r_versions s role of None \<Rightarrow> 0 | Some v \<Rightarrow> v)"

definition filename :: "string \<Rightarrow> nat \<Rightarrow> string" where
  "filename role version =
     (if role = TIMESTAMP then ''timestamp.json'' else dec version @ ''.'' @ role @ ''.json'')"

definition meta_name :: "string \<Rightarrow> nat \<Rightarrow> string" where
  "meta_name role version = ''metadata/'' @ filename role version"

definition open_role :: "string \<Rightarrow> (repo, metadata) sem" where
  "open_role role = (\<lambda>s.
     let version = version_of s role in
     if version = 0 then
       (Inr \<lparr>md_signed = initial role, md_version = 1, md_expires = 0, md_signatures = []\<rparr>, s)
     else (case disk s (meta_name role version) of
         Some (Meta md) \<Rightarrow> (Inr md, s)
       | _ \<Rightarrow> (Inl (OSError ''cannot read metadata''), s)))"

text \<open>\<open>_write\<close>: one replacement, and for root a second one for its unversioned alias.\<close>

definition write_role :: "string \<Rightarrow> nat \<Rightarrow> metadata \<Rightarrow> (repo, unit) sem" where
  "write_role role version md = modifyS (\<lambda>s. s\<lparr>r_disk :=
     (if role = ROOT then [(''metadata/root.json'', Meta md)] else [])
     @ (meta_name role version, Meta md) # r_disk s\<rparr>)"

definition close_role :: "backend \<Rightarrow> int \<Rightarrow> string \<Rightarrow> metadata \<Rightarrow> (repo, unit) sem" where
  "close_role B now role md = (\<lambda>s.
     case r_policies s role of
       None \<Rightarrow> (Inl (PublicationError ''no policy registered for role''), s)
     | Some policy \<Rightarrow>
         (let version = version_of s role + 1; kids = be_keyids B role in
          if int (length kids) < rp_threshold policy
          then (Inl (PublicationError ''role needs more keys to meet its threshold''), s)
          else bindS (liftS (sign_all B kids)) (\<lambda>sigs.
                 bindS (write_role role version
                     (md\<lparr>md_version := version, md_expires := now + rp_expiry policy,
                         md_signatures := sigs\<rparr>)) (\<lambda>_.
                   modifyS (\<lambda>s. s\<lparr>r_versions := (r_versions s)(role \<mapsto> version)\<rparr>))) s))"

definition edit :: "backend \<Rightarrow> int \<Rightarrow> string \<Rightarrow> (signed \<Rightarrow> signed res) \<Rightarrow> (repo, unit) sem" where
  "edit B now role body =
     bindS (open_role role) (\<lambda>md.
       bindS (liftS (body (md_signed md))) (\<lambda>sd.
         close_role B now role (md\<lparr>md_signed := sd\<rparr>)))"

definition targets_infos :: "repo \<Rightarrow> string \<rightharpoonup> nat" where
  "targets_infos s =
     map_of (map (\<lambda>role. (role @ ''.json'', version_of s role))
       (filter (\<lambda>role. version_of s role \<noteq> 0) (TARGETS # sorted_list_of_set (r_app_roles s))))"

definition snapshot_info :: "repo \<Rightarrow> nat" where
  "snapshot_info s = (case r_versions s SNAPSHOT of None \<Rightarrow> 1 | Some v \<Rightarrow> v)"

definition do_snapshot :: "tuf_lib \<Rightarrow> backend \<Rightarrow> int \<Rightarrow> (repo, unit) sem" where
  "do_snapshot lib B now =
     bindS (open_role SNAPSHOT) (\<lambda>md.
       bindS (\<lambda>s. (tl_snapshot lib (targets_infos s) md, s)) (\<lambda>new.
         case new of
           None \<Rightarrow> returnS ()
         | Some meta \<Rightarrow> close_role B now SNAPSHOT (md\<lparr>md_signed := SSnapshot meta\<rparr>)))"

definition do_timestamp :: "tuf_lib \<Rightarrow> backend \<Rightarrow> int \<Rightarrow> (repo, unit) sem" where
  "do_timestamp lib B now =
     bindS (open_role TIMESTAMP) (\<lambda>md.
       bindS (\<lambda>s. (tl_timestamp lib (snapshot_info s) md, s)) (\<lambda>new.
         case new of
           None \<Rightarrow> returnS ()
         | Some v \<Rightarrow> close_role B now TIMESTAMP (md\<lparr>md_signed := STimestamp v\<rparr>)))"

definition publish :: "tuf_lib \<Rightarrow> backend \<Rightarrow> int \<Rightarrow> (repo, unit) sem" where
  "publish lib B now = bindS (do_snapshot lib B now) (\<lambda>_. do_timestamp lib B now)"

section \<open>Payloads\<close>

definition stored_name :: "string \<Rightarrow> string \<Rightarrow> string" where
  "stored_name target_path digest =
     (case rpartition (CHR ''/'') target_path of
        (dirname, sep, basename) \<Rightarrow> dirname @ sep @ digest @ ''.'' @ basename)"

definition payload_name :: "string \<Rightarrow> string \<Rightarrow> string" where
  "payload_name target_path digest = ''targets/'' @ stored_name target_path digest"

text \<open>\<open>TargetFile.from_file\<close>, with its custom field.\<close>

definition target_from_file :: "(string \<Rightarrow> string) \<Rightarrow> string \<Rightarrow> dict \<Rightarrow> target_file" where
  "target_from_file sha content custom =
     \<lparr>tf_length = length content, tf_sha256 = hexdigest sha content, tf_custom = custom\<rparr>"

definition store_payload :: "string \<Rightarrow> target_file \<Rightarrow> string \<Rightarrow> (repo, unit) sem" where
  "store_payload target_path tf content = modifyS (\<lambda>s. s\<lparr>r_disk :=
     (payload_name target_path (tf_sha256 tf), Payload content) # r_disk s\<rparr>)"

section \<open>Operations\<close>

fun add_root_keys :: "backend \<Rightarrow> string \<Rightarrow> string list \<Rightarrow> root_body \<Rightarrow> root_body res" where
  "add_root_keys B role [] rb = Inr rb"
| "add_root_keys B role (k # ks) rb =
     bindr (be_public_key B k) (\<lambda>_.
       add_root_keys B role ks
         (if k \<in> set (rb_keyids rb role) then rb
          else rb\<lparr>rb_keyids := (rb_keyids rb)(role := rb_keyids rb role @ [k])\<rparr>))"

fun init_root_roles :: "backend \<Rightarrow> (string \<times> role_policy) list \<Rightarrow> root_body \<Rightarrow> root_body res" where
  "init_root_roles B [] rb = Inr rb"
| "init_root_roles B ((role, policy) # rest) rb =
     (let kids = be_keyids B role in
      if kids = [] then Inl (PublicationError ''no signing key available for role'')
      else bindr (add_root_keys B role kids rb) (\<lambda>rb'.
             init_root_roles B rest
               (rb'\<lparr>rb_threshold := (rb_threshold rb')(role := rp_threshold policy)\<rparr>)))"

definition init_root :: "backend \<Rightarrow> signed \<Rightarrow> signed res" where
  "init_root B sd = (case sd of
      SRoot rb \<Rightarrow> bindr (init_root_roles B TOP_LEVEL_POLICIES (rb\<lparr>rb_consistent := True\<rparr>)) (\<lambda>rb'. Inr (SRoot rb'))
    | _ \<Rightarrow> Inl AssertionError)"

definition initialize :: "tuf_lib \<Rightarrow> backend \<Rightarrow> int \<Rightarrow> (repo, unit) sem" where
  "initialize lib B now =
     bindS (\<lambda>s. refuseS (version_of s ROOT \<noteq> 0) (PublicationError ''repository is already initialised'') s) (\<lambda>_.
     bindS (edit B now ROOT (init_root B)) (\<lambda>_.
     bindS (edit B now TARGETS Inr) (\<lambda>_.
     publish lib B now)))"

fun add_delegation_keys :: "backend \<Rightarrow> string list \<Rightarrow> (string \<rightharpoonup> string) \<Rightarrow> (string \<rightharpoonup> string) res" where
  "add_delegation_keys B [] m = Inr m"
| "add_delegation_keys B (k # ks) m =
     bindr (be_public_key B k) (\<lambda>pk. add_delegation_keys B ks (m(k \<mapsto> pk)))"

definition add_delegation ::
  "backend \<Rightarrow> string \<Rightarrow> role_policy \<Rightarrow> string list \<Rightarrow> string \<Rightarrow> signed \<Rightarrow> signed res" where
  "add_delegation B role policy kids app_id sd = (case sd of
      STargets tb \<Rightarrow>
        (let dl = (case tb_delegations tb of
                None \<Rightarrow> \<lparr>dl_keys = Map.empty, dl_roles = Some []\<rparr> | Some dl \<Rightarrow> dl);
             roles = (case dl_roles dl of None \<Rightarrow> [] | Some rs \<Rightarrow> rs)
         in bindr (add_delegation_keys B kids (dl_keys dl)) (\<lambda>ks.
              Inr (STargets (tb\<lparr>tb_delegations := Some
                \<lparr>dl_keys = ks,
                 dl_roles = Some (AList.update role
                   \<lparr>dr_name = role, dr_keyids = kids, dr_threshold = rp_threshold policy,
                    dr_terminating = False, dr_paths = [app_path_pattern app_id]\<rparr> roles)\<rparr>\<rparr>))))
    | _ \<Rightarrow> Inl AssertionError)"

definition add_app :: "tuf_lib \<Rightarrow> backend \<Rightarrow> int \<Rightarrow> string \<Rightarrow> bool \<Rightarrow> (repo, string) sem" where
  "add_app lib B now app_id critical =
     bindS (liftS (app_role_policy app_id critical)) (\<lambda>policy.
       let role = rp_name policy; kids = be_keyids B role in
       bindS (modifyS (\<lambda>s. s\<lparr>r_policies := (r_policies s)(role \<mapsto> policy)\<rparr>)) (\<lambda>_.
       bindS (refuseS (kids = []) (PublicationError ''no signing key available for delegated role'')) (\<lambda>_.
       bindS (edit B now TARGETS (add_delegation B role policy kids app_id)) (\<lambda>_.
       bindS (modifyS (\<lambda>s. s\<lparr>r_app_roles := insert role (r_app_roles s)\<rparr>)) (\<lambda>_.
       bindS (edit B now role Inr) (\<lambda>_.
       bindS (publish lib B now) (\<lambda>_.
       returnS role)))))))"

definition put_target :: "string \<Rightarrow> target_file \<Rightarrow> signed \<Rightarrow> signed res" where
  "put_target target_path tf sd = (case sd of
      STargets tb \<Rightarrow> Inr (STargets (tb\<lparr>tb_targets := (tb_targets tb)(target_path \<mapsto> tf)\<rparr>))
    | _ \<Rightarrow> Inl AssertionError)"

text \<open>\<open>if role not in self._app_roles: raise\<close>, shared by the two operations on a release.\<close>

definition require_delegated :: "string \<Rightarrow> (repo, string) sem" where
  "require_delegated app_id =
     bindS (liftS (app_role_name app_id)) (\<lambda>role.
       bindS (\<lambda>s. refuseS (role \<notin> r_app_roles s)
           (PublicationError ''application has no delegated role; call add_app'') s) (\<lambda>_.
         returnS role))"

definition add_release ::
  "tuf_lib \<Rightarrow> backend \<Rightarrow> (string \<Rightarrow> string) \<Rightarrow> int \<Rightarrow> target_key \<Rightarrow> string \<Rightarrow> release_info \<Rightarrow> (repo, string) sem" where
  "add_release lib B sha now key payload info =
     bindS (refuseS (ri_version info \<noteq> tk_version key)
         (PublicationError ''release info version does not match target path version'')) (\<lambda>_.
     bindS (require_delegated (tk_app_id key)) (\<lambda>role.
       let tf = target_from_file sha payload (to_custom info) in
       bindS (store_payload (path key) tf payload) (\<lambda>_.
       bindS (edit B now role (put_target (path key) tf)) (\<lambda>_.
       bindS (publish lib B now) (\<lambda>_.
       returnS (path key))))))"

definition set_current ::
  "tuf_lib \<Rightarrow> backend \<Rightarrow> (string \<Rightarrow> string) \<Rightarrow> int \<Rightarrow> target_key \<Rightarrow> (repo, string) sem" where
  "set_current lib B sha now key =
     bindS (require_delegated (tk_app_id key)) (\<lambda>role.
     bindS (liftS (ChannelKey (tk_app_id key) (tk_channel key) (tk_platform key) (tk_arch key))) (\<lambda>channel.
     bindS (open_role role) (\<lambda>md.
     bindS (case md_signed md of
         STargets tb \<Rightarrow> refuseS (tb_targets tb (path key) = None)
           (PublicationError ''cannot make it current: it has not been published'')
       | _ \<Rightarrow> raiseS AssertionError) (\<lambda>_.
     bindS (liftS (CurrentRelease (path key) (tk_version key))) (\<lambda>pointer.
     bindS (liftS (ReleaseInfo (tk_version key) JNull JNull JNull False 100)) (\<lambda>info.
       let body = to_json pointer;
           tf = target_from_file sha body (to_custom info) in
       bindS (store_payload (pointer_path channel) tf body) (\<lambda>_.
       bindS (edit B now role (put_target (pointer_path channel) tf)) (\<lambda>_.
       bindS (publish lib B now) (\<lambda>_.
       returnS (pointer_path channel))))))))))"

end
