(* ===== verification/RepositoryInv.thy ===== *)
theory RepositoryInv
  imports Repository
begin

text \<open>
  What every state of the repository directory satisfies, and what a client finds in it after
  each operation.  The invariant speaks about the log, hence about every intermediate state:
  a crash between two writes leaves one of them.
\<close>

section \<open>Names\<close>

lemma meta_name_inj:
  "r \<noteq> TIMESTAMP \<Longrightarrow> r' \<noteq> TIMESTAMP \<Longrightarrow> meta_name r v = meta_name r' v' \<longleftrightarrow> v = v' \<and> r = r'"
  by (auto simp: meta_name_def filename_def dec_dot_inj)

lemma meta_name_TIMESTAMP: "meta_name TIMESTAMP v = ''metadata/timestamp.json''"
  by (simp add: meta_name_def filename_def)

lemma dec_hd: "\<exists>c cs. dec v = c # cs \<and> is_dec c"
proof -
  obtain c cs where "dec v = c # cs" by (cases "dec v") auto
  with dec_is_dec [of c v] show ?thesis by auto
qed

lemma meta_name_not_fixed:
  assumes "r \<noteq> TIMESTAMP"
  shows "meta_name r v \<noteq> ''metadata/timestamp.json'' \<and> meta_name r v \<noteq> ''metadata/root.json''"
  using assms dec_hd [of v] by (auto simp: meta_name_def filename_def char_class_defs)

lemma payload_name_not_meta [simp]:
  "payload_name p h \<noteq> CHR ''m'' # n" "CHR ''m'' # n \<noteq> payload_name p h"
  by (simp_all add: payload_name_def)

lemma payload_name_not_meta_name [simp]:
  "payload_name p h \<noteq> meta_name r v" "meta_name r v \<noteq> payload_name p h"
  by (simp_all add: meta_name_def)

lemma stored_name_segment:
  assumes "CHR ''/'' \<notin> set h"
  shows "\<exists>b. last (split_on (CHR ''/'') (stored_name p h)) = h @ ''.'' @ b"
proof (cases "CHR ''/'' \<in> set p")
  case True
  then obtain a b where p: "p = a @ CHR ''/'' # b" "CHR ''/'' \<notin> set b"
    by (meson split_list_last)
  then have "stored_name p h = a @ CHR ''/'' # (h @ ''.'' @ b)"
    by (simp add: stored_name_def rpartition_last)
  moreover have "split_on (CHR ''/'') (h @ ''.'' @ b) = [h @ ''.'' @ b]"
    using assms p by (intro split_on_atom) auto
  ultimately show ?thesis by (auto simp: split_on_append_sep)
next
  case False
  then have "stored_name p h = h @ ''.'' @ p"
    by (simp add: stored_name_def rpartition_none)
  moreover have "split_on (CHR ''/'') (h @ ''.'' @ p) = [h @ ''.'' @ p]"
    using assms False by (intro split_on_atom) auto
  ultimately show ?thesis by simp
qed

lemma payload_name_digest:
  assumes "payload_name p (hexdigest sha a) = payload_name p' (hexdigest sha' a')"
  shows "hexdigest sha a = hexdigest sha' a'"
proof -
  have plain: "\<forall>c \<in> set (hexdigest s b). c \<noteq> CHR ''.'' \<and> c \<noteq> CHR ''/''" for s b
    using hexdigest_plain by blast
  from assms have "stored_name p (hexdigest sha a) = stored_name p' (hexdigest sha' a')"
    by (simp add: payload_name_def)
  moreover obtain b where "last (split_on (CHR ''/'') (stored_name p (hexdigest sha a))) = hexdigest sha a @ ''.'' @ b"
    using stored_name_segment [of "hexdigest sha a" p] plain by blast
  moreover obtain b' where "last (split_on (CHR ''/'') (stored_name p' (hexdigest sha' a'))) = hexdigest sha' a' @ ''.'' @ b'"
    using stored_name_segment [of "hexdigest sha' a'" p'] plain by blast
  ultimately have "hexdigest sha a @ CHR ''.'' # b = hexdigest sha' a' @ CHR ''.'' # b'"
    by simp
  then show ?thesis
    using span_unique [of "hexdigest sha a" _ b "hexdigest sha' a'" _ b' "\<lambda>c. c \<noteq> CHR ''.''"] plain
    by blast
qed

section \<open>What a client may rely on\<close>

definition entries_on :: "(string \<rightharpoonup> repo_file) \<Rightarrow> (string \<rightharpoonup> nat) \<Rightarrow> bool" where
  "entries_on d meta \<longleftrightarrow> (\<forall>f v. meta f = Some v \<longrightarrow> d (''metadata/'' @ dec v @ ''.'' @ f) \<noteq> None)"

definition payloads_on :: "(string \<Rightarrow> string) \<Rightarrow> (string \<rightharpoonup> repo_file) \<Rightarrow> targets_body \<Rightarrow> bool" where
  "payloads_on sha d tb \<longleftrightarrow> (\<forall>p tf. tb_targets tb p = Some tf \<longrightarrow>
     (\<exists>c. d (payload_name p (tf_sha256 tf)) = Some (Payload c) \<and> hexdigest sha c = tf_sha256 tf))"

text \<open>
  A directory is consistent when the timestamp names a snapshot that is there, every file that
  snapshot names is there, and every target any targets metadata names has its payload stored
  under its digest.
\<close>

definition client_consistent :: "(string \<Rightarrow> string) \<Rightarrow> (string \<rightharpoonup> repo_file) \<Rightarrow> bool" where
  "client_consistent sha d \<longleftrightarrow>
     (\<forall>ts. d ''metadata/timestamp.json'' = Some (Meta ts) \<longrightarrow>
        (\<exists>n sn meta. md_signed ts = STimestamp n \<and> d (meta_name SNAPSHOT n) = Some (Meta sn)
           \<and> md_signed sn = SSnapshot meta \<and> entries_on d meta))
     \<and> (\<forall>name md tb. d name = Some (Meta md) \<and> md_signed md = STargets tb \<longrightarrow> payloads_on sha d tb)"

text \<open>A property of every state of a log.\<close>

fun always :: "(('a \<rightharpoonup> 'b) \<Rightarrow> bool) \<Rightarrow> ('a \<times> 'b) list \<Rightarrow> bool" where
  "always P [] = P Map.empty"
| "always P (x # xs) = (P (map_of (x # xs)) \<and> always P xs)"

lemma always_suffix: "always P xs \<longleftrightarrow> (\<forall>ys. suffix ys xs \<longrightarrow> P (map_of ys))"
  by (induction xs) (auto simp: suffix_Cons)

lemma always_now: "always P xs \<Longrightarrow> P (map_of xs)"
  by (cases xs) auto

fun kind_ok :: "string \<Rightarrow> signed \<Rightarrow> bool" where
  "kind_ok role (SRoot _) = (role = ROOT)"
| "kind_ok role (SSnapshot _) = (role = SNAPSHOT)"
| "kind_ok role (STimestamp _) = (role = TIMESTAMP)"
| "kind_ok role (STargets _) = (role \<noteq> ROOT \<and> role \<noteq> SNAPSHOT \<and> role \<noteq> TIMESTAMP)"

lemma role_names_distinct [simp]:
  "ROOT \<noteq> TARGETS" "ROOT \<noteq> SNAPSHOT" "ROOT \<noteq> TIMESTAMP" "TARGETS \<noteq> SNAPSHOT"
  "TARGETS \<noteq> TIMESTAMP" "SNAPSHOT \<noteq> TIMESTAMP"
  "TARGETS \<noteq> ROOT" "SNAPSHOT \<noteq> ROOT" "TIMESTAMP \<noteq> ROOT" "SNAPSHOT \<noteq> TARGETS"
  "TIMESTAMP \<noteq> TARGETS" "TIMESTAMP \<noteq> SNAPSHOT"
  by (simp_all add: role_name_defs)

lemma kind_ok_initial: "kind_ok role (initial role)"
  by (simp add: initial_def)

definition body_ok :: "(string \<Rightarrow> string) \<Rightarrow> repo \<Rightarrow> signed \<Rightarrow> bool" where
  "body_ok sha s sd = (case sd of
      SRoot _ \<Rightarrow> True
    | STargets tb \<Rightarrow> payloads_on sha (disk s) tb
    | SSnapshot meta \<Rightarrow> entries_on (disk s) meta
    | STimestamp n \<Rightarrow> n = version_of s SNAPSHOT \<and> n \<noteq> 0)"

definition versions_ok :: "repo \<Rightarrow> bool" where
  "versions_ok s \<longleftrightarrow> (\<forall>role v. r_versions s role = Some v \<longrightarrow> 0 < v \<and>
     (\<exists>md. disk s (meta_name role v) = Some (Meta md) \<and> kind_ok role (md_signed md)
        \<and> md_signatures md \<noteq> []))"

definition policies_ok :: "repo \<Rightarrow> bool" where
  "policies_ok s \<longleftrightarrow> (\<forall>role p. r_policies s role = Some p \<longrightarrow> 1 \<le> rp_threshold p)"

definition pointers_ok :: "repo \<Rightarrow> bool" where
  "pointers_ok s \<longleftrightarrow>
     (\<forall>ts n. disk s ''metadata/timestamp.json'' = Some (Meta ts) \<and> md_signed ts = STimestamp n
        \<longrightarrow> n \<le> version_of s SNAPSHOT)
     \<and> (\<forall>sn meta. disk s (meta_name SNAPSHOT (version_of s SNAPSHOT)) = Some (Meta sn)
        \<and> md_signed sn = SSnapshot meta \<and> version_of s SNAPSHOT \<noteq> 0 \<longrightarrow> entries_on (disk s) meta)"

definition apps_ok :: "repo \<Rightarrow> bool" where
  "apps_ok s \<longleftrightarrow> finite (r_app_roles s) \<and> r_app_roles s \<inter> set TOP_LEVEL_ROLES = {}
     \<and> (r_app_roles s \<noteq> {} \<longrightarrow> version_of s TARGETS \<noteq> 0)"

definition repo_inv :: "(string \<Rightarrow> string) \<Rightarrow> repo \<Rightarrow> bool" where
  "repo_inv sha s \<longleftrightarrow> versions_ok s \<and> policies_ok s \<and> pointers_ok s \<and> apps_ok s
     \<and> always (client_consistent sha) (r_disk s)"

section \<open>Adding one file\<close>

lemma entries_on_mono: "entries_on d meta \<Longrightarrow> dom d \<subseteq> dom d' \<Longrightarrow> entries_on d' meta"
  by (auto simp: entries_on_def subset_iff domIff)

lemma payloads_on_put_meta:
  "payloads_on sha d tb \<Longrightarrow> payloads_on sha (d(''metadata/'' @ n \<mapsto> Meta md)) tb"
  by (auto simp: payloads_on_def)

lemma payloads_on_put_payload:
  assumes "payloads_on sha d tb"
  shows "payloads_on sha (d(payload_name p (hexdigest sha c) \<mapsto> Payload c)) tb"
  unfolding payloads_on_def
proof (intro allI impI)
  fix q tf
  assume "tb_targets tb q = Some tf"
  then obtain c' where c': "d (payload_name q (tf_sha256 tf)) = Some (Payload c')"
    "hexdigest sha c' = tf_sha256 tf"
    using assms by (auto simp: payloads_on_def)
  show "\<exists>c''. (d(payload_name p (hexdigest sha c) \<mapsto> Payload c)) (payload_name q (tf_sha256 tf))
      = Some (Payload c'') \<and> hexdigest sha c'' = tf_sha256 tf"
    using c' payload_name_digest [of q sha c' p sha c] by fastforce
qed

lemma consistent_put_payload:
  assumes "client_consistent sha d"
  shows "client_consistent sha (d(payload_name p (hexdigest sha c) \<mapsto> Payload c))"
proof -
  have names: "payload_name p h \<noteq> ''metadata/timestamp.json''" for h
    by (simp add: payload_name_def)
  have "entries_on d m \<Longrightarrow> entries_on (d(payload_name p (hexdigest sha c) \<mapsto> Payload c)) m" for m
    by (erule entries_on_mono) auto
  with assms show ?thesis
    using payloads_on_put_payload [of sha d _ p c] names
    unfolding client_consistent_def by (fastforce split: if_splits)
qed

lemma consistent_put_meta:
  assumes c: "client_consistent sha d"
    and ts: "name = ''metadata/timestamp.json'' \<Longrightarrow>
      \<exists>n sn meta. md_signed md = STimestamp n \<and> d (meta_name SNAPSHOT n) = Some (Meta sn)
        \<and> md_signed sn = SSnapshot meta \<and> entries_on d meta"
    and other: "\<And>t n. d ''metadata/timestamp.json'' = Some (Meta t) \<Longrightarrow> md_signed t = STimestamp n
      \<Longrightarrow> name \<noteq> meta_name SNAPSHOT n"
    and pay: "\<And>tb. md_signed md = STargets tb \<Longrightarrow> payloads_on sha d tb"
    and name: "name = ''metadata/'' @ n0"
  shows "client_consistent sha (d(name \<mapsto> Meta md))"
proof -
  have e: "entries_on d m \<Longrightarrow> entries_on (d(name \<mapsto> Meta md)) m" for m
    by (erule entries_on_mono) auto
  have p: "payloads_on sha d tb \<Longrightarrow> payloads_on sha (d(name \<mapsto> Meta md)) tb" for tb
    unfolding name by (rule payloads_on_put_meta)
  have sn: "meta_name SNAPSHOT n \<noteq> ''metadata/timestamp.json''" for n
    by (simp add: meta_name_not_fixed)
  show ?thesis
    unfolding client_consistent_def
  proof (intro conjI allI impI; (elim conjE)?)
    fix t
    assume t: "(d(name \<mapsto> Meta md)) ''metadata/timestamp.json'' = Some (Meta t)"
    show "\<exists>n sn meta. md_signed t = STimestamp n
      \<and> (d(name \<mapsto> Meta md)) (meta_name SNAPSHOT n) = Some (Meta sn)
      \<and> md_signed sn = SSnapshot meta \<and> entries_on (d(name \<mapsto> Meta md)) meta"
    proof (cases "name = ''metadata/timestamp.json''")
      case True
      with t ts e sn show ?thesis by fastforce
    next
      case False
      with t c obtain n s m where "md_signed t = STimestamp n" "d (meta_name SNAPSHOT n) = Some (Meta s)"
        "md_signed s = SSnapshot m" "entries_on d m" "d ''metadata/timestamp.json'' = Some (Meta t)"
        unfolding client_consistent_def by auto
      with other e show ?thesis by fastforce
    qed
  next
    fix nm m tb
    assume "(d(name \<mapsto> Meta md)) nm = Some (Meta m)" "md_signed m = STargets tb"
    then show "payloads_on sha (d(name \<mapsto> Meta md)) tb"
      using c pay p unfolding client_consistent_def by (auto split: if_splits)
  qed
qed

section \<open>Closing a role\<close>

definition closed :: "string \<Rightarrow> metadata \<Rightarrow> repo \<Rightarrow> repo" where
  "closed role md s = s\<lparr>
     r_disk := (if role = ROOT then [(''metadata/root.json'', Meta md)] else [])
       @ (meta_name role (version_of s role + 1), Meta md) # r_disk s,
     r_versions := (r_versions s)(role \<mapsto> version_of s role + 1)\<rparr>"

lemma close_role_Inr:
  "close_role B now role md s = (Inr u, s') \<longleftrightarrow>
     (\<exists>policy sigs. r_policies s role = Some policy
        \<and> rp_threshold policy \<le> int (length (be_keyids B role))
        \<and> sign_all B (be_keyids B role) = Inr sigs
        \<and> s' = closed role (md\<lparr>md_version := version_of s role + 1,
             md_expires := now + rp_expiry policy, md_signatures := sigs\<rparr>) s)"
  by (auto simp: close_role_def closed_def write_role_def sem_defs Let_def split: option.splits sum.splits)

lemma close_role_Inl: "close_role B now role md s = (Inl e, s') \<Longrightarrow> s' = s"
  by (auto simp: close_role_def write_role_def sem_defs Let_def split: option.splits sum.splits if_splits)

lemma close_role_snd: "snd (close_role B now role md s) = s \<or> (\<exists>m. snd (close_role B now role md s) = closed role m s)"
proof (cases "close_role B now role md s")
  case (Pair r s')
  then have "s' = s \<or> (\<exists>m. s' = closed role m s)"
    by (cases r) (auto dest: close_role_Inl simp: close_role_Inr)
  with Pair show ?thesis by simp
qed

lemma version_of_closed:
  "version_of (closed role md s) r = (if r = role then version_of s role + 1 else version_of s r)"
  by (simp add: closed_def version_of_def)

lemma disk_closed:
  "disk (closed role md s) n =
     (if n = meta_name role (version_of s role + 1) \<or> (role = ROOT \<and> n = ''metadata/root.json'')
      then Some (Meta md) else disk s n)"
  by (simp add: closed_def)

lemma closed_simps [simp]:
  "r_policies (closed role md s) = r_policies s"
  "r_app_roles (closed role md s) = r_app_roles s"
  by (simp_all add: closed_def)

lemma disk_closed_other:
  assumes "r \<noteq> role" "r' = r"
  shows "disk (closed role md s) (meta_name r' v) = disk s (meta_name r v)"
proof -
  have "meta_name r v \<noteq> meta_name role v'" for v'
    using assms meta_name_inj [of r role v v'] meta_name_not_fixed
    by (metis meta_name_TIMESTAMP)
  moreover have "meta_name r v \<noteq> ''metadata/root.json''"
    using meta_name_not_fixed [of r v] by (cases "r = TIMESTAMP") (auto simp: meta_name_TIMESTAMP)
  ultimately show ?thesis using assms by (simp add: disk_closed)
qed

lemma dom_disk_closed: "dom (disk s) \<subseteq> dom (disk (closed role md s))"
  by (auto simp: disk_closed domIff)

lemma meta_name_metadata: "\<exists>n. meta_name r v = ''metadata/'' @ n"
  by (simp add: meta_name_def)

lemma consistent_closed:
  assumes inv: "versions_ok s" "pointers_ok s" "always (client_consistent sha) (r_disk s)"
    and kind: "kind_ok role (md_signed md)" and body: "body_ok sha s (md_signed md)"
  shows "always (client_consistent sha) (r_disk (closed role md s))"
proof -
  let ?d = "disk s" and ?v = "version_of s role + 1"
  let ?name = "meta_name role ?v"
  have c: "client_consistent sha ?d" by (rule always_now [OF inv(3)])
  have le: "n \<le> version_of s SNAPSHOT"
    if "?d ''metadata/timestamp.json'' = Some (Meta t)" "md_signed t = STimestamp n" for t n
    using inv(2) that by (auto simp: pointers_ok_def)
  obtain n0 where n0: "?name = ''metadata/'' @ n0" using meta_name_metadata by blast
  have c1: "client_consistent sha (?d(?name \<mapsto> Meta md))"
  proof (rule consistent_put_meta [OF c _ _ _ n0])
    assume "?name = ''metadata/timestamp.json''"
    then have role: "role = TIMESTAMP" using meta_name_not_fixed by blast
    with kind obtain n where n: "md_signed md = STimestamp n" by (cases "md_signed md") auto
    with body have "n = version_of s SNAPSHOT" "n \<noteq> 0" by (auto simp: body_ok_def)
    then have "r_versions s SNAPSHOT = Some n" by (auto simp: version_of_def split: option.splits)
    with inv(1) obtain sn where sn: "?d (meta_name SNAPSHOT n) = Some (Meta sn)"
      "kind_ok SNAPSHOT (md_signed sn)" by (auto simp: versions_ok_def)
    then obtain meta where "md_signed sn = SSnapshot meta" by (cases "md_signed sn") auto
    with sn n inv(2) \<open>n = version_of s SNAPSHOT\<close> \<open>n \<noteq> 0\<close>
    show "\<exists>n sn meta. md_signed md = STimestamp n \<and> ?d (meta_name SNAPSHOT n) = Some (Meta sn)
        \<and> md_signed sn = SSnapshot meta \<and> entries_on ?d meta"
      by (auto simp: pointers_ok_def)
  next
    fix t n
    assume t: "?d ''metadata/timestamp.json'' = Some (Meta t)" "md_signed t = STimestamp n"
    show "?name \<noteq> meta_name SNAPSHOT n"
    proof (cases "role = TIMESTAMP")
      case True
      have "meta_name SNAPSHOT n \<noteq> meta_name TIMESTAMP ?v"
        using meta_name_not_fixed [of SNAPSHOT n] by (simp add: meta_name_TIMESTAMP)
      with True show ?thesis by metis
    next
      case False
      then show ?thesis using le [OF t] by (auto simp: meta_name_inj)
    qed
  next
    fix tb assume "md_signed md = STargets tb"
    with body show "payloads_on sha ?d tb" by (simp add: body_ok_def)
  qed
  show ?thesis
  proof (cases "role = ROOT")
    case False
    with c1 inv(3) show ?thesis by (simp add: closed_def)
  next
    case True
    with kind obtain rb where rb: "md_signed md = SRoot rb" by (cases "md_signed md") auto
    have "client_consistent sha (?d(?name \<mapsto> Meta md, ''metadata/root.json'' \<mapsto> Meta md))"
    proof (rule consistent_put_meta [OF c1])
      show "''metadata/root.json'' = ''metadata/'' @ ''root.json''" by simp
      show "''metadata/root.json'' \<noteq> meta_name SNAPSHOT n" for n
        using meta_name_not_fixed [of SNAPSHOT n] by auto
    qed (simp_all add: rb)
    with c1 inv(3) True show ?thesis by (simp add: closed_def)
  qed
qed

lemma closed_inv:
  assumes inv: "repo_inv sha s"
    and kind: "kind_ok role (md_signed md)" and body: "body_ok sha s (md_signed md)"
    and sigs: "md_signatures md \<noteq> []"
  shows "repo_inv sha (closed role md s)"
proof -
  let ?s = "closed role md s"
  have mono: "entries_on (disk s) m \<Longrightarrow> entries_on (disk ?s) m" for m
    by (erule entries_on_mono) (rule dom_disk_closed)
  have "always (client_consistent sha) (r_disk ?s)"
    using inv kind body by (intro consistent_closed) (auto simp: repo_inv_def)
  moreover have "versions_ok ?s"
    unfolding versions_ok_def
  proof (intro allI impI)
    fix r v assume v: "r_versions ?s r = Some v"
    show "0 < v \<and> (\<exists>md. disk ?s (meta_name r v) = Some (Meta md) \<and> kind_ok r (md_signed md)
        \<and> md_signatures md \<noteq> [])"
    proof (cases "r = role")
      case True
      with v kind sigs show ?thesis by (auto simp: closed_def)
    next
      case False
      with v have "r_versions s r = Some v" by (simp add: closed_def)
      with inv have "0 < v \<and> (\<exists>md. disk s (meta_name r v) = Some (Meta md) \<and> kind_ok r (md_signed md)
          \<and> md_signatures md \<noteq> [])" by (simp add: repo_inv_def versions_ok_def)
      with False show ?thesis by (simp add: disk_closed_other)
    qed
  qed
  moreover have "pointers_ok ?s"
  proof (cases "role = SNAPSHOT")
    case True
    have "disk ?s ''metadata/timestamp.json'' = disk s ''metadata/timestamp.json''"
      using disk_closed_other [of TIMESTAMP role TIMESTAMP md s 0] True by (simp add: meta_name_TIMESTAMP)
    moreover have "entries_on (disk s) m" if "md_signed md = SSnapshot m" for m
      using body that by (simp add: body_ok_def)
    ultimately show ?thesis
      using inv mono True
      by (auto simp: repo_inv_def pointers_ok_def version_of_closed disk_closed le_SucI)
  next
    case False
    have sn: "disk ?s (meta_name SNAPSHOT n) = disk s (meta_name SNAPSHOT n)" for n
      using False by (intro disk_closed_other) auto
    have ts: "n \<le> version_of s SNAPSHOT"
      if "disk ?s ''metadata/timestamp.json'' = Some (Meta t)" "md_signed t = STimestamp n" for t n
    proof (cases "role = TIMESTAMP")
      case True
      then have "t = md" using that by (simp add: disk_closed meta_name_TIMESTAMP)
      with that body show ?thesis by (simp add: body_ok_def)
    next
      case False
      then have "disk s ''metadata/timestamp.json'' = Some (Meta t)"
        using that disk_closed_other [of TIMESTAMP role TIMESTAMP md s 0] by (simp add: meta_name_TIMESTAMP)
      with that inv show ?thesis by (auto simp: repo_inv_def pointers_ok_def)
    qed
    have "entries_on (disk ?s) m"
      if "disk s (meta_name SNAPSHOT (version_of s SNAPSHOT)) = Some (Meta x)" "md_signed x = SSnapshot m"
        "version_of s SNAPSHOT \<noteq> 0" for x m
      using that inv mono unfolding repo_inv_def pointers_ok_def by blast
    with ts False show ?thesis
      by (simp add: pointers_ok_def version_of_closed sn)
  qed
  moreover have "apps_ok ?s" "policies_ok ?s"
    using inv by (auto simp: repo_inv_def apps_ok_def policies_ok_def version_of_closed)
  ultimately show ?thesis by (simp add: repo_inv_def)
qed

lemma sign_all_nonempty: "sign_all B ks = Inr sigs \<Longrightarrow> ks \<noteq> [] \<Longrightarrow> sigs \<noteq> []"
  using sign_all_keyids by fastforce

lemma close_role_inv:
  assumes "repo_inv sha s" "kind_ok role (md_signed md)" "body_ok sha s (md_signed md)"
  shows "repo_inv sha (snd (close_role B now role md s))"
proof (cases "close_role B now role md s")
  case (Pair r s')
  show ?thesis
  proof (cases r)
    case (Inl e)
    with Pair assms show ?thesis by (auto dest: close_role_Inl)
  next
    case (Inr u)
    with Pair obtain policy sigs where p: "r_policies s role = Some policy"
      "rp_threshold policy \<le> int (length (be_keyids B role))"
      and sg: "sign_all B (be_keyids B role) = Inr sigs"
      and s': "s' = closed role (md\<lparr>md_version := version_of s role + 1,
             md_expires := now + rp_expiry policy, md_signatures := sigs\<rparr>) s"
      by (auto simp: close_role_Inr)
    have "1 \<le> rp_threshold policy" using assms p by (auto simp: repo_inv_def policies_ok_def)
    with p(2) have "be_keyids B role \<noteq> []" by auto
    with sg have "sigs \<noteq> []" by (rule sign_all_nonempty)
    with assms s' Pair show ?thesis by (simp add: closed_inv)
  qed
qed

section \<open>Opening and editing a role\<close>

lemma open_role_state: "open_role role s = (r, s') \<Longrightarrow> s' = s"
  by (auto simp: open_role_def Let_def split: if_splits option.splits repo_file.splits)

lemma open_role_ok:
  assumes "repo_inv sha s" "open_role role s = (Inr md, s')"
  shows "kind_ok role (md_signed md) \<and> (md_signatures md \<noteq> [] \<longrightarrow> version_of s role \<noteq> 0)
    \<and> (version_of s role = 0 \<longrightarrow> md_signed md = initial role \<and> md_signatures md = [])
    \<and> (version_of s role \<noteq> 0 \<longrightarrow> disk s (meta_name role (version_of s role)) = Some (Meta md))"
proof (cases "version_of s role = 0")
  case True
  with assms show ?thesis by (auto simp: open_role_def kind_ok_initial)
next
  case False
  then obtain v where v: "r_versions s role = Some v" by (auto simp: version_of_def split: option.splits)
  then have "version_of s role = v" by (simp add: version_of_def)
  with assms v show ?thesis
    by (fastforce simp: open_role_def repo_inv_def versions_ok_def Let_def split: if_splits)
qed

lemma open_role_total:
  assumes "repo_inv sha s"
  shows "\<exists>md. open_role role s = (Inr md, s)"
proof (cases "r_versions s role")
  case (Some v)
  with assms obtain md where "disk s (meta_name role v) = Some (Meta md)" "0 < v"
    by (auto simp: repo_inv_def versions_ok_def)
  with Some show ?thesis by (simp add: open_role_def version_of_def)
qed (simp add: open_role_def version_of_def)

lemma open_targets_body_ok:
  assumes "repo_inv sha s" "open_role role s = (Inr md, s')" "md_signed md = STargets tb"
  shows "payloads_on sha (disk s) tb"
proof (cases "version_of s role = 0")
  case True
  with open_role_ok [OF assms(1,2)] assms(3) show ?thesis
    by (auto simp: initial_def payloads_on_def split: if_splits)
next
  case False
  with open_role_ok [OF assms(1,2)] have "disk s (meta_name role (version_of s role)) = Some (Meta md)"
    by simp
  with assms show ?thesis
    unfolding repo_inv_def using always_now client_consistent_def by blast
qed

lemma edit_cases:
  assumes "edit B now role body s = (r, s')"
  obtains (refused) e where "r = Inl e" "s' = s"
  | (closed) md sd where "open_role role s = (Inr md, s)" "body (md_signed md) = Inr sd"
      "close_role B now role (md\<lparr>md_signed := sd\<rparr>) s = (r, s')"
proof (cases "open_role role s")
  case (Pair r0 s0)
  with open_role_state have s0: "s0 = s" by blast
  show ?thesis
  proof (cases r0)
    case (Inl e)
    with Pair s0 assms have "r = Inl e \<and> s' = s" by (simp add: edit_def bindS_def)
    then show ?thesis using refused by blast
  next
    case md: (Inr md)
    show ?thesis
    proof (cases "body (md_signed md)")
      case (Inl e)
      with md Pair s0 assms have "r = Inl e \<and> s' = s" by (simp add: edit_def bindS_def liftS_def)
      then show ?thesis using refused by blast
    next
      case (Inr sd)
      with md Pair s0 assms have "close_role B now role (md\<lparr>md_signed := sd\<rparr>) s = (r, s')"
        by (simp add: edit_def bindS_def liftS_def)
      then show ?thesis using closed Inr md Pair s0 by blast
    qed
  qed
qed

lemma edit_inv:
  assumes inv: "repo_inv sha s"
    and ok: "\<And>md sd. open_role role s = (Inr md, s) \<Longrightarrow> body (md_signed md) = Inr sd \<Longrightarrow>
      kind_ok role (md_signed md) \<Longrightarrow> kind_ok role sd \<and> body_ok sha s sd"
  shows "repo_inv sha (snd (edit B now role body s))"
proof (cases "edit B now role body s")
  case (Pair r s')
  then show ?thesis
  proof (cases rule: edit_cases)
    case refused
    with inv Pair show ?thesis by simp
  next
    case (closed md sd)
    have "kind_ok role (md_signed md)" using open_role_ok [OF inv closed(1)] by blast
    then have "kind_ok role sd \<and> body_ok sha s sd" by (rule ok [OF closed(1,2)])
    then have "repo_inv sha (snd (close_role B now role (md\<lparr>md_signed := sd\<rparr>) s))"
      by (intro close_role_inv [OF inv]) simp_all
    with closed(3) Pair show ?thesis by simp
  qed
qed

text \<open>What an edit leaves alone, and what a successful one adds.\<close>

lemma edit_frame:
  assumes "edit B now role body s = (r, s')"
  shows "r_policies s' = r_policies s \<and> r_app_roles s' = r_app_roles s
    \<and> (\<forall>q. version_of s q \<le> version_of s' q)
    \<and> (\<forall>q. q \<noteq> role \<longrightarrow> version_of s' q = version_of s q
          \<and> (\<forall>v. disk s' (meta_name q v) = disk s (meta_name q v)))
    \<and> (\<forall>p h. disk s' (payload_name p h) = disk s (payload_name p h))
    \<and> (r = Inr () \<longrightarrow> version_of s' role = version_of s role + 1)"
  using assms
proof (cases rule: edit_cases)
  case (closed md sd)
  show ?thesis
  proof (cases r)
    case Inl
    with closed close_role_Inl have "s' = s" by blast
    with Inl show ?thesis by simp
  next
    case (Inr u)
    with closed obtain m where "s' = RepositoryInv.closed role m s" by (auto simp: close_role_Inr)
    moreover have "disk (RepositoryInv.closed role m s) (payload_name p h) = disk s (payload_name p h)" for p h
      by (simp add: disk_closed)
    ultimately show ?thesis
      by (simp add: version_of_closed disk_closed_other)
  qed
qed simp

end
