(* ===== verification/RepositoryOps.thy ===== *)
theory RepositoryOps
  imports RepositoryInv
begin

text \<open>
  The operations of the repository keep the invariant, whatever the keystore at hand holds and
  wherever they fail; what a client finds after a release was added or a channel was pointed at
  it.  \<open>tuf_contract\<close> is the documented behaviour of the library's \<open>do_snapshot\<close> and
  \<open>do_timestamp\<close>: the new content names what the repository reports and otherwise keeps what was
  there, and nothing is written only when the signed current content already says the same.
\<close>

definition tuf_contract :: "tuf_lib \<Rightarrow> bool" where
  "tuf_contract lib \<longleftrightarrow>
     (\<forall>infos md meta. md_signed md = SSnapshot meta \<longrightarrow>
        (\<forall>new. tl_snapshot lib infos md = Inr (Some new) \<longrightarrow> new = meta ++ infos)
        \<and> (tl_snapshot lib infos md = Inr None \<longrightarrow> infos \<subseteq>\<^sub>m meta \<and> md_signatures md \<noteq> []))
     \<and> (\<forall>v md n. md_signed md = STimestamp n \<longrightarrow>
        (\<forall>w. tl_timestamp lib v md = Inr (Some w) \<longrightarrow> w = v)
        \<and> (tl_timestamp lib v md = Inr None \<longrightarrow> n = v \<and> md_signatures md \<noteq> []))"

section \<open>What the repository reports\<close>

lemma map_of_map_inj:
  assumes "inj g"
  shows "map_of (map (\<lambda>x. (g x, f x)) xs) k = Some v \<longleftrightarrow> (\<exists>x \<in> set xs. k = g x \<and> v = f x)"
proof (induction xs)
  case (Cons a xs)
  have "g a = g x \<longleftrightarrow> a = x" for x using assms by (auto dest: injD)
  with Cons show ?case by (cases "k = g a") auto
qed simp

lemma targets_infos_iff:
  assumes "finite (r_app_roles s)"
  shows "targets_infos s k = Some v \<longleftrightarrow>
    (\<exists>role \<in> insert TARGETS (r_app_roles s). version_of s role \<noteq> 0 \<and> k = role @ ''.json'' \<and> v = version_of s role)"
proof -
  have "inj (\<lambda>r :: string. r @ ''.json'')" by (auto simp: inj_def)
  then show ?thesis unfolding targets_infos_def using assms by (subst map_of_map_inj) auto
qed

lemma targets_infos_cong:
  assumes "r_app_roles s' = r_app_roles s" "TARGETS \<noteq> q" "q \<notin> r_app_roles s" "finite (r_app_roles s)"
    "\<And>r. r \<noteq> q \<Longrightarrow> version_of s' r = version_of s r"
  shows "targets_infos s' = targets_infos s"
proof -
  have "version_of s' r = version_of s r" if "r \<in> set (TARGETS # sorted_list_of_set (r_app_roles s))" for r
    using that assms(2-4) by (intro assms(5)) auto
  then show ?thesis
    unfolding targets_infos_def assms(1) by (intro arg_cong [where f = map_of]) (auto intro!: filter_cong map_cong)
qed

lemma apps_not_top:
  "repo_inv sha s \<Longrightarrow> r \<in> r_app_roles s \<Longrightarrow> r \<noteq> ROOT \<and> r \<noteq> TARGETS \<and> r \<noteq> SNAPSHOT \<and> r \<noteq> TIMESTAMP"
  by (auto simp: repo_inv_def apps_ok_def TOP_LEVEL_ROLES_def)

lemma meta_name_json: "r \<noteq> TIMESTAMP \<Longrightarrow> ''metadata/'' @ dec v @ ''.'' @ r @ ''.json'' = meta_name r v"
  by (simp add: meta_name_def filename_def)

lemma version_of_exists:
  assumes "repo_inv sha s" "version_of s r \<noteq> 0"
  shows "\<exists>md. disk s (meta_name r (version_of s r)) = Some (Meta md) \<and> kind_ok r (md_signed md)"
proof -
  obtain v where v: "r_versions s r = Some v" using assms(2) by (auto simp: version_of_def split: option.splits)
  then have "version_of s r = v" by (simp add: version_of_def)
  with v assms(1) show ?thesis by (auto simp: repo_inv_def versions_ok_def)
qed

section \<open>Publishing\<close>

definition snapshot_current :: "repo \<Rightarrow> bool" where
  "snapshot_current s \<longleftrightarrow> version_of s SNAPSHOT \<noteq> 0 \<and>
     (\<exists>sn meta. disk s (meta_name SNAPSHOT (version_of s SNAPSHOT)) = Some (Meta sn)
        \<and> md_signed sn = SSnapshot meta \<and> targets_infos s \<subseteq>\<^sub>m meta)"

definition timestamp_current :: "repo \<Rightarrow> bool" where
  "timestamp_current s \<longleftrightarrow>
     (\<exists>ts. disk s ''metadata/timestamp.json'' = Some (Meta ts) \<and> md_signed ts = STimestamp (version_of s SNAPSHOT))"

lemma snapshot_entries:
  assumes inv: "repo_inv sha s" and t: "version_of s TARGETS \<noteq> 0"
    and op: "open_role SNAPSHOT s = (Inr md, s)" and m: "md_signed md = SSnapshot meta"
  shows "entries_on (disk s) (meta ++ targets_infos s)"
  unfolding entries_on_def
proof (intro allI impI)
  fix k v assume kv: "(meta ++ targets_infos s) k = Some v"
  have fin: "finite (r_app_roles s)" using inv by (simp add: repo_inv_def apps_ok_def)
  show "disk s (''metadata/'' @ dec v @ ''.'' @ k) \<noteq> None"
  proof (cases "targets_infos s k")
    case (Some w)
    with kv have "targets_infos s k = Some v" by simp
    then obtain role where r: "role \<in> insert TARGETS (r_app_roles s)" "version_of s role \<noteq> 0"
      "k = role @ ''.json''" "v = version_of s role"
      using fin by (auto simp: targets_infos_iff)
    then have "role \<noteq> TIMESTAMP" using apps_not_top [OF inv] by auto
    with r version_of_exists [OF inv r(2)] show ?thesis by (metis meta_name_json option.distinct(1))
  next
    case None
    with kv have k: "meta k = Some v" by (simp add: map_add_Some_iff)
    show ?thesis
    proof (cases "version_of s SNAPSHOT = 0")
      case True
      with open_role_ok [OF inv op] m k have "k = ''targets.json''"
        by (auto simp: initial_def split: if_splits)
      moreover have "targets_infos s ''targets.json'' = Some (version_of s TARGETS)"
        using t by (subst targets_infos_iff [OF fin]) (auto simp: TARGETS_def)
      ultimately show ?thesis using None by simp
    next
      case False
      with open_role_ok [OF inv op] m inv have "entries_on (disk s) meta"
        unfolding repo_inv_def pointers_ok_def by blast
      with k show ?thesis by (auto simp: entries_on_def)
    qed
  qed
qed

lemma open_kind:
  assumes "repo_inv sha s" "open_role role s = (Inr md, s')"
  shows "kind_ok role (md_signed md)"
  using open_role_ok [OF assms] by blast

lemma open_snapshot_body:
  assumes "repo_inv sha s" "open_role SNAPSHOT s = (Inr md, s')"
  obtains meta where "md_signed md = SSnapshot meta"
  using open_kind [OF assms] by (cases "md_signed md") auto

lemma open_timestamp_body:
  assumes "repo_inv sha s" "open_role TIMESTAMP s = (Inr md, s')"
  obtains n where "md_signed md = STimestamp n"
  using open_kind [OF assms] by (cases "md_signed md") auto

lemma do_snapshot_unfold:
  assumes "open_role SNAPSHOT s = (Inr md, s)"
  shows "do_snapshot lib B now s = (case tl_snapshot lib (targets_infos s) md of
      Inl e \<Rightarrow> (Inl e, s) | Inr None \<Rightarrow> (Inr (), s)
    | Inr (Some meta) \<Rightarrow> close_role B now SNAPSHOT (md\<lparr>md_signed := SSnapshot meta\<rparr>) s)"
  using assms by (auto simp: do_snapshot_def bindS_def returnS_def split: sum.splits option.splits)

lemma do_timestamp_unfold:
  assumes "open_role TIMESTAMP s = (Inr md, s)"
  shows "do_timestamp lib B now s = (case tl_timestamp lib (snapshot_info s) md of
      Inl e \<Rightarrow> (Inl e, s) | Inr None \<Rightarrow> (Inr (), s)
    | Inr (Some v) \<Rightarrow> close_role B now TIMESTAMP (md\<lparr>md_signed := STimestamp v\<rparr>) s)"
  using assms by (auto simp: do_timestamp_def bindS_def returnS_def split: sum.splits option.splits)

lemma do_snapshot_cases:
  assumes "repo_inv sha s" "tuf_contract lib" "do_snapshot lib B now s = (r, s')"
  obtains (same) e where "r = Inl e" "s' = s"
  | (skip) md meta where "open_role SNAPSHOT s = (Inr md, s)" "md_signed md = SSnapshot meta"
      "targets_infos s \<subseteq>\<^sub>m meta" "md_signatures md \<noteq> []" "r = Inr ()" "s' = s"
  | (wrote) md meta where "open_role SNAPSHOT s = (Inr md, s)" "md_signed md = SSnapshot meta"
      "close_role B now SNAPSHOT (md\<lparr>md_signed := SSnapshot (meta ++ targets_infos s)\<rparr>) s = (r, s')"
proof -
  obtain md where op: "open_role SNAPSHOT s = (Inr md, s)" using open_role_total [OF assms(1)] by blast
  obtain meta where m: "md_signed md = SSnapshot meta" by (rule open_snapshot_body [OF assms(1) op])
  show ?thesis
  proof (cases "tl_snapshot lib (targets_infos s) md")
    case (Inl e)
    with assms(3) op show ?thesis by (auto simp: do_snapshot_unfold intro: same)
  next
    case (Inr new)
    show ?thesis
    proof (cases new)
      case None
      with Inr assms(2) m have "targets_infos s \<subseteq>\<^sub>m meta" "md_signatures md \<noteq> []"
        unfolding tuf_contract_def by blast+
      with None Inr assms(3) op m show ?thesis by (auto simp: do_snapshot_unfold intro: skip)
    next
      case (Some x)
      with Inr assms(2) m have "x = meta ++ targets_infos s" unfolding tuf_contract_def by blast
      with Some Inr assms(3) op m show ?thesis by (auto simp: do_snapshot_unfold intro: wrote)
    qed
  qed
qed

lemma do_snapshot_inv:
  assumes "repo_inv sha s" "tuf_contract lib" "version_of s TARGETS \<noteq> 0"
  shows "repo_inv sha (snd (do_snapshot lib B now s))"
proof (cases "do_snapshot lib B now s")
  case (Pair r s')
  show ?thesis
  proof (rule do_snapshot_cases [OF assms(1,2) Pair])
    fix md meta
    assume *: "open_role SNAPSHOT s = (Inr md, s)" "md_signed md = SSnapshot meta"
      "close_role B now SNAPSHOT (md\<lparr>md_signed := SSnapshot (meta ++ targets_infos s)\<rparr>) s = (r, s')"
    have "repo_inv sha (snd (close_role B now SNAPSHOT (md\<lparr>md_signed := SSnapshot (meta ++ targets_infos s)\<rparr>) s))"
      using assms(1) snapshot_entries [OF assms(1,3) *(1,2)]
      by (intro close_role_inv) (simp_all add: body_ok_def)
    with * Pair show ?thesis by simp
  qed (use assms Pair in auto)
qed

lemma do_snapshot_post:
  assumes "repo_inv sha s" "tuf_contract lib" "do_snapshot lib B now s = (Inr u, s')"
  shows "snapshot_current s' \<and> targets_infos s' = targets_infos s
    \<and> r_app_roles s' = r_app_roles s \<and> (\<forall>q. q \<noteq> SNAPSHOT \<longrightarrow> version_of s' q = version_of s q
        \<and> (\<forall>v. disk s' (meta_name q v) = disk s (meta_name q v)))
    \<and> (\<forall>p h. disk s' (payload_name p h) = disk s (payload_name p h))"
proof (rule do_snapshot_cases [OF assms])
  fix e assume "Inr u = Inl e" then show ?thesis by simp
next
  fix md meta
  assume *: "open_role SNAPSHOT s = (Inr md, s)" "md_signed md = SSnapshot meta"
    "targets_infos s \<subseteq>\<^sub>m meta" "md_signatures md \<noteq> []" "s' = s"
  have "version_of s SNAPSHOT \<noteq> 0" using open_role_ok [OF assms(1) *(1)] *(4) by blast
  moreover from this have "disk s (meta_name SNAPSHOT (version_of s SNAPSHOT)) = Some (Meta md)"
    using open_role_ok [OF assms(1) *(1)] by blast
  ultimately show ?thesis using * by (auto simp: snapshot_current_def)
next
  fix md meta
  assume *: "open_role SNAPSHOT s = (Inr md, s)" "md_signed md = SSnapshot meta"
    "close_role B now SNAPSHOT (md\<lparr>md_signed := SSnapshot (meta ++ targets_infos s)\<rparr>) s = (Inr u, s')"
  then obtain m where s': "s' = closed SNAPSHOT m s" and m: "md_signed m = SSnapshot (meta ++ targets_infos s)"
    by (auto simp: close_role_Inr)
  have "SNAPSHOT \<notin> r_app_roles s" "finite (r_app_roles s)"
    using assms(1) apps_not_top by (blast, simp add: repo_inv_def apps_ok_def)
  then have infos: "targets_infos s' = targets_infos s"
    by (intro targets_infos_cong [where q = SNAPSHOT]) (simp_all add: s' version_of_closed)
  have "targets_infos s \<subseteq>\<^sub>m meta ++ targets_infos s" by (rule map_le_map_add)
  with m infos have "snapshot_current s'"
    by (simp add: snapshot_current_def s' version_of_closed disk_closed)
  moreover have "disk s' (payload_name p h) = disk s (payload_name p h)" for p h
    by (simp add: s' disk_closed)
  ultimately show ?thesis using infos
    by (simp add: s' version_of_closed disk_closed_other)
qed

lemma do_timestamp_inv:
  assumes "repo_inv sha s" "tuf_contract lib" "version_of s SNAPSHOT \<noteq> 0"
  shows "repo_inv sha (snd (do_timestamp lib B now s))"
proof -
  obtain md where op: "open_role TIMESTAMP s = (Inr md, s)" using open_role_total [OF assms(1)] by blast
  obtain n where m: "md_signed md = STimestamp n" by (rule open_timestamp_body [OF assms(1) op])
  have si: "snapshot_info s = version_of s SNAPSHOT"
    using assms(3) by (simp add: snapshot_info_def version_of_def split: option.splits)
  have "repo_inv sha (snd (close_role B now TIMESTAMP (md\<lparr>md_signed := STimestamp (version_of s SNAPSHOT)\<rparr>) s))"
    using assms by (intro close_role_inv) (simp_all add: body_ok_def)
  moreover have "w = version_of s SNAPSHOT" if "tl_timestamp lib (snapshot_info s) md = Inr (Some w)" for w
    using that assms(2) m si unfolding tuf_contract_def by blast
  ultimately show ?thesis
    using assms(1) by (auto simp: do_timestamp_unfold [OF op] split: sum.splits option.splits)
qed

lemma do_timestamp_post:
  assumes "repo_inv sha s" "tuf_contract lib" "version_of s SNAPSHOT \<noteq> 0"
    and "do_timestamp lib B now s = (Inr u, s')"
  shows "timestamp_current s' \<and> r_app_roles s' = r_app_roles s
    \<and> (\<forall>q. q \<noteq> TIMESTAMP \<longrightarrow> version_of s' q = version_of s q
        \<and> (\<forall>v. disk s' (meta_name q v) = disk s (meta_name q v)))
    \<and> (\<forall>p h. disk s' (payload_name p h) = disk s (payload_name p h))"
proof -
  obtain md where op: "open_role TIMESTAMP s = (Inr md, s)" using open_role_total [OF assms(1)] by blast
  obtain n where m: "md_signed md = STimestamp n" by (rule open_timestamp_body [OF assms(1) op])
  have si: "snapshot_info s = version_of s SNAPSHOT"
    using assms(3) by (simp add: snapshot_info_def version_of_def split: option.splits)
  show ?thesis
  proof (cases "tl_timestamp lib (snapshot_info s) md")
    case Inl
    with assms(4) show ?thesis by (simp add: do_timestamp_unfold [OF op])
  next
    case (Inr new)
    show ?thesis
    proof (cases new)
      case None
      with Inr assms(2) m si have "n = version_of s SNAPSHOT" "md_signatures md \<noteq> []"
        unfolding tuf_contract_def by blast+
      moreover from this open_role_ok [OF assms(1) op]
      have "disk s (meta_name TIMESTAMP (version_of s TIMESTAMP)) = Some (Meta md)" by blast
      ultimately show ?thesis using None Inr assms(4) m
        by (auto simp: do_timestamp_unfold [OF op] timestamp_current_def meta_name_TIMESTAMP)
    next
      case (Some w)
      then have "w = version_of s SNAPSHOT"
        using assms(2) m si Inr unfolding tuf_contract_def by blast
      with Some Inr assms(4) obtain x where "s' = closed TIMESTAMP x s"
        "md_signed x = STimestamp (version_of s SNAPSHOT)"
        by (auto simp: do_timestamp_unfold [OF op] close_role_Inr)
      then show ?thesis
        using disk_closed_other [where role = TIMESTAMP and md = x and s = s]
        by (simp add: timestamp_current_def disk_closed [of TIMESTAMP x s "''metadata/timestamp.json''"]
            disk_closed [of TIMESTAMP x s "payload_name _ _"] meta_name_TIMESTAMP version_of_closed)
    qed
  qed
qed

lemma publish_inv:
  assumes "repo_inv sha s" "tuf_contract lib" "version_of s TARGETS \<noteq> 0"
  shows "repo_inv sha (snd (publish lib B now s))"
proof (cases "do_snapshot lib B now s")
  case (Pair r s1)
  with do_snapshot_inv [OF assms, of B now] have inv1: "repo_inv sha s1" by simp
  show ?thesis
  proof (cases r)
    case Inl
    with Pair inv1 show ?thesis by (simp add: publish_def bindS_def)
  next
    case (Inr u)
    with Pair do_snapshot_post [OF assms(1,2)] have "version_of s1 SNAPSHOT \<noteq> 0"
      by (fastforce simp: snapshot_current_def)
    with inv1 assms(2) Pair Inr show ?thesis
      by (simp add: publish_def bindS_def do_timestamp_inv)
  qed
qed

text \<open>After a successful publish the timestamp leads to a snapshot that names what the
  repository reports; the other roles and the payloads are as before.\<close>

lemma publish_post:
  assumes "repo_inv sha s" "tuf_contract lib" "version_of s TARGETS \<noteq> 0"
    and "publish lib B now s = (Inr u, s')"
  shows "repo_inv sha s' \<and> snapshot_current s' \<and> timestamp_current s'
    \<and> r_app_roles s' = r_app_roles s
    \<and> (\<forall>q. q \<noteq> SNAPSHOT \<and> q \<noteq> TIMESTAMP \<longrightarrow> version_of s' q = version_of s q
        \<and> (\<forall>v. disk s' (meta_name q v) = disk s (meta_name q v)))
    \<and> (\<forall>p h. disk s' (payload_name p h) = disk s (payload_name p h))"
proof -
  from assms(4) obtain s1 where 1: "do_snapshot lib B now s = (Inr (), s1)"
    and 2: "do_timestamp lib B now s1 = (Inr u, s')"
    unfolding publish_def by (auto elim!: bindS_InrE)
  have inv1: "repo_inv sha s1" using do_snapshot_inv [OF assms(1-3), of B now] 1 by simp
  note post1 = do_snapshot_post [OF assms(1,2) 1]
  then have v1: "version_of s1 SNAPSHOT \<noteq> 0" by (simp add: snapshot_current_def)
  note post2 = do_timestamp_post [OF inv1 assms(2) v1 2]
  have inv2: "repo_inv sha s'" using do_timestamp_inv [OF inv1 assms(2) v1, of B now] 2 by simp
  have fin: "TIMESTAMP \<notin> r_app_roles s1" "finite (r_app_roles s1)"
    using inv1 apps_not_top by (blast, simp add: repo_inv_def apps_ok_def)
  have "targets_infos s' = targets_infos s1"
    using post2 fin by (intro targets_infos_cong [where q = TIMESTAMP]) auto
  with post1 post2 have "snapshot_current s'"
    unfolding snapshot_current_def by (metis role_names_distinct(6))
  with post1 post2 inv2 show ?thesis by simp
qed

section \<open>Payloads and bodies\<close>

lemma store_payload_state:
  "store_payload p tf c s = (Inr (), s\<lparr>r_disk := (payload_name p (tf_sha256 tf), Payload c) # r_disk s\<rparr>)"
  by (simp add: store_payload_def modifyS_def)

lemma store_payload_inv:
  assumes "repo_inv sha s" "tf_sha256 tf = hexdigest sha c"
  shows "repo_inv sha (s\<lparr>r_disk := (payload_name p (tf_sha256 tf), Payload c) # r_disk s\<rparr>)"
    (is "repo_inv sha ?s")
proof -
  have c: "client_consistent sha (disk s)" using assms(1) by (auto simp: repo_inv_def intro: always_now)
  have v [simp]: "version_of ?s r = version_of s r" for r by (simp add: version_of_def)
  have mono: "entries_on (disk s) m \<Longrightarrow> entries_on (disk ?s) m" for m
    by (erule entries_on_mono) auto
  have "client_consistent sha (disk ?s)"
    using consistent_put_payload [OF c, of p c] by (simp add: assms(2))
  moreover have "versions_ok ?s" using assms(1) by (auto simp: repo_inv_def versions_ok_def)
  moreover have "pointers_ok ?s"
    using assms(1) mono unfolding repo_inv_def pointers_ok_def by simp metis
  moreover have "policies_ok ?s" "apps_ok ?s"
    using assms(1) by (auto simp: repo_inv_def policies_ok_def apps_ok_def)
  ultimately show ?thesis using assms(1) by (simp add: repo_inv_def)
qed

lemma put_target_ok:
  assumes "put_target p tf sd = Inr sd'" "kind_ok role sd"
    and tb: "\<And>tb. sd = STargets tb \<Longrightarrow> payloads_on sha (disk s) tb"
    and pay: "disk s (payload_name p (tf_sha256 tf)) = Some (Payload c)" "hexdigest sha c = tf_sha256 tf"
  shows "kind_ok role sd' \<and> body_ok sha s sd'"
proof -
  obtain b where b: "sd = STargets b" "sd' = STargets (b\<lparr>tb_targets := (tb_targets b)(p \<mapsto> tf)\<rparr>)"
    using assms(1) by (auto simp: put_target_def split: signed.splits)
  with tb have "payloads_on sha (disk s) b" by simp
  with pay have "payloads_on sha (disk s) (b\<lparr>tb_targets := (tb_targets b)(p \<mapsto> tf)\<rparr>)"
    by (auto simp: payloads_on_def)
  with b assms(2) show ?thesis by (simp add: body_ok_def)
qed

lemma add_delegation_ok:
  assumes "add_delegation B role policy ks a sd = Inr sd'" "kind_ok r sd"
    and tb: "\<And>tb. sd = STargets tb \<Longrightarrow> payloads_on sha (disk s) tb"
  shows "kind_ok r sd' \<and> body_ok sha s sd'"
proof -
  obtain b d where b: "sd = STargets b" "sd' = STargets (b\<lparr>tb_delegations := d\<rparr>)"
    using assms(1) by (auto simp: add_delegation_def Let_def bindr_eq_Inr_iff split: signed.splits)
  with tb have "payloads_on sha (disk s) b" by simp
  with b assms(2) show ?thesis by (simp add: body_ok_def payloads_on_def)
qed

lemma init_root_ok:
  assumes "init_root B sd = Inr sd'" "kind_ok r sd"
  shows "kind_ok r sd' \<and> body_ok sha s sd'"
  using assms by (auto simp: init_root_def body_ok_def bindr_eq_Inr_iff split: signed.splits)

lemma same_body_ok:
  assumes "repo_inv sha s" "open_role role s = (Inr md, s)" "kind_ok role (md_signed md)"
    "role \<noteq> SNAPSHOT" "role \<noteq> TIMESTAMP"
  shows "body_ok sha s (md_signed md)"
  using assms open_targets_body_ok [OF assms(1,2)]
  by (cases "md_signed md") (auto simp: body_ok_def)

section \<open>Sequences\<close>

text \<open>Two ways a sequence keeps an invariant: the continuation may use that the first part
  returned.\<close>

lemma bindS_inv:
  assumes "P (snd (m s))" and "\<And>x s'. m s = (Inr x, s') \<Longrightarrow> P s' \<Longrightarrow> P (snd (f x s'))"
  shows "P (snd (bindS m f s))"
  using assms by (cases "m s"; cases "fst (m s)") (auto simp: bindS_def)

lemma refuseS_state [simp]: "snd (refuseS b e s) = s"
  by (simp add: sem_defs)

lemmas seq_inv = bindS_inv [where P = "repo_inv sha" for sha]

lemma edit_same_inv:
  assumes "repo_inv sha s" "role \<noteq> SNAPSHOT" "role \<noteq> TIMESTAMP"
  shows "repo_inv sha (snd (edit B now role Inr s))"
  using assms same_body_ok [OF assms(1)] by (intro edit_inv) auto

lemma edit_version:
  "edit B now role body s = (Inr u, s') \<Longrightarrow> version_of s' role = version_of s role + 1"
  using edit_frame by fastforce

lemma edit_app_roles: "edit B now role body s = (r, s') \<Longrightarrow> r_app_roles s' = r_app_roles s"
  using edit_frame by blast

lemma edit_policies: "edit B now role body s = (r, s') \<Longrightarrow> r_policies s' = r_policies s"
  using edit_frame by blast

section \<open>Every operation keeps the invariant\<close>

lemma initialize_inv:
  assumes "repo_inv sha s" "tuf_contract lib"
  shows "repo_inv sha (snd (initialize lib B now s))"
  unfolding initialize_def
proof (intro seq_inv)
  show "repo_inv sha (snd (refuseS (version_of s ROOT \<noteq> 0) (PublicationError ''repository is already initialised'') s))"
    using assms by simp
next
  fix s1 assume 1: "repo_inv sha s1"
  show "repo_inv sha (snd (edit B now ROOT (init_root B) s1))"
    by (rule edit_inv [OF 1]) (erule (1) init_root_ok)
next
  fix s2 :: repo assume 2: "repo_inv sha s2"
  then show "repo_inv sha (snd (edit B now TARGETS Inr s2))" by (simp add: edit_same_inv)
next
  fix s2 s3 :: repo and y
  assume "edit B now TARGETS Inr s2 = (Inr y, s3)" "repo_inv sha s3"
  then show "repo_inv sha (snd (publish lib B now s3))"
    by (intro publish_inv assms) (auto dest: edit_version)
qed

lemma inv_parts_cong [simp]:
  "version_of (s\<lparr>r_policies := ps\<rparr>) = version_of s"
  "version_of (s\<lparr>r_app_roles := rs\<rparr>) = version_of s"
  "pointers_ok (s\<lparr>r_policies := ps\<rparr>) = pointers_ok s"
  "pointers_ok (s\<lparr>r_app_roles := rs\<rparr>) = pointers_ok s"
  "versions_ok (s\<lparr>r_policies := ps\<rparr>) = versions_ok s"
  "versions_ok (s\<lparr>r_app_roles := rs\<rparr>) = versions_ok s"
  by (auto simp: version_of_def pointers_ok_def versions_ok_def fun_eq_iff)

lemma set_policy_inv:
  assumes "repo_inv sha s" "1 \<le> rp_threshold policy"
  shows "repo_inv sha (s\<lparr>r_policies := (r_policies s)(role \<mapsto> policy)\<rparr>)"
  using assms by (simp add: repo_inv_def policies_ok_def apps_ok_def)

lemma add_role_inv:
  assumes "repo_inv sha s" "role \<notin> set TOP_LEVEL_ROLES" "version_of s TARGETS \<noteq> 0"
  shows "repo_inv sha (s\<lparr>r_app_roles := insert role (r_app_roles s)\<rparr>)"
  using assms by (simp add: repo_inv_def policies_ok_def apps_ok_def)

lemma app_role_policy_name:
  assumes "app_role_policy a c = Inr p"
  shows "app_role_name a = Inr (rp_name p) \<and> 1 \<le> rp_threshold p \<and> rp_name p \<notin> set TOP_LEVEL_ROLES"
  using assms app_role_name_not_top by (auto simp: app_role_policy_Inr_iff app_role_name_Inr_iff)

lemma delegate_inv:
  assumes "repo_inv sha s"
  shows "repo_inv sha (snd (edit B now TARGETS (add_delegation B role policy ks a) s))"
  by (rule edit_inv [OF assms]) (erule (1) add_delegation_ok, erule (1) open_targets_body_ok [OF assms])

lemma add_app_inv:
  assumes "repo_inv sha s" "tuf_contract lib"
  shows "repo_inv sha (snd (add_app lib B now app_id critical s))"
proof (cases "app_role_policy app_id critical")
  case Inl
  with assms show ?thesis by (simp add: add_app_def)
next
  case (Inr policy)
  let ?role = "rp_name policy"
  let ?s = "s\<lparr>r_policies := (r_policies s)(?role \<mapsto> policy)\<rparr>"
  have pol: "1 \<le> rp_threshold policy" "?role \<notin> set TOP_LEVEL_ROLES"
    using app_role_policy_name [OF Inr] by auto
  then have top: "?role \<noteq> SNAPSHOT" "?role \<noteq> TIMESTAMP" "?role \<noteq> TARGETS" by (auto simp: TOP_LEVEL_ROLES_def)
  have P: "repo_inv sha ?s" using assms(1) pol(1) by (rule set_policy_inv)
  have rest: "repo_inv sha (snd (bindS (edit B now ?role Inr) (\<lambda>_. bindS (publish lib B now) (\<lambda>_. returnS ?role)) s2))"
    if "repo_inv sha s2" "version_of s2 TARGETS \<noteq> 0" for s2
  proof (rule seq_inv)
    show "repo_inv sha (snd (edit B now ?role Inr s2))" using that top by (intro edit_same_inv) auto
    fix x s3 assume "edit B now ?role Inr s2 = (Inr x, s3)" "repo_inv sha s3"
    moreover from this have "version_of s3 TARGETS \<noteq> 0" using that(2) top(3) by (metis edit_frame)
    ultimately show "repo_inv sha (snd (bindS (publish lib B now) (\<lambda>_. returnS ?role) s3))"
      using assms(2) by (intro seq_inv publish_inv) simp_all
  qed
  have "repo_inv sha (snd (bindS (edit B now TARGETS (add_delegation B ?role policy (be_keyids B ?role) app_id))
      (\<lambda>_. bindS (modifyS (\<lambda>s. s\<lparr>r_app_roles := insert ?role (r_app_roles s)\<rparr>))
        (\<lambda>_. bindS (edit B now ?role Inr) (\<lambda>_. bindS (publish lib B now) (\<lambda>_. returnS ?role)))) ?s))"
  proof (rule seq_inv)
    show "repo_inv sha (snd (edit B now TARGETS (add_delegation B ?role policy (be_keyids B ?role) app_id) ?s))"
      by (rule delegate_inv [OF P])
    fix x s1
    assume "edit B now TARGETS (add_delegation B ?role policy (be_keyids B ?role) app_id) ?s = (Inr x, s1)"
      and i: "repo_inv sha s1"
    then have "version_of s1 TARGETS \<noteq> 0" by (auto dest: edit_version)
    with i show "repo_inv sha (snd (bindS (modifyS (\<lambda>s. s\<lparr>r_app_roles := insert ?role (r_app_roles s)\<rparr>))
        (\<lambda>_. bindS (edit B now ?role Inr) (\<lambda>_. bindS (publish lib B now) (\<lambda>_. returnS ?role))) s1))"
      using rest add_role_inv [OF i pol(2)] by simp
  qed
  with P show ?thesis by (simp add: add_app_def Inr Let_def)
qed

lemma require_delegated_Inr:
  "require_delegated a s = (Inr role, s') \<longleftrightarrow> app_role_name a = Inr role \<and> role \<in> r_app_roles s \<and> s' = s"
  by (auto simp: require_delegated_def bindS_eq_Inr_iff)

lemma require_delegated_state [simp]: "snd (require_delegated a s) = s"
  by (simp add: require_delegated_def sem_defs split: sum.splits)

text \<open>Storing a payload and naming it in a delegated role, then publishing: the common part of
  the two operations on a release.\<close>

definition put_and_publish ::
  "tuf_lib \<Rightarrow> backend \<Rightarrow> int \<Rightarrow> string \<Rightarrow> string \<Rightarrow> target_file \<Rightarrow> string \<Rightarrow> (repo, string) sem" where
  "put_and_publish lib B now role p tf c =
     bindS (store_payload p tf c) (\<lambda>_.
     bindS (edit B now role (put_target p tf)) (\<lambda>_.
     bindS (publish lib B now) (\<lambda>_. returnS p)))"

lemma put_and_publish_inv:
  assumes "repo_inv sha s" "tuf_contract lib" "role \<in> r_app_roles s" "tf_sha256 tf = hexdigest sha c"
  shows "repo_inv sha (snd (put_and_publish lib B now role p tf c s))"
proof -
  let ?s = "s\<lparr>r_disk := (payload_name p (tf_sha256 tf), Payload c) # r_disk s\<rparr>"
  have i: "repo_inv sha ?s" using assms(1,4) by (rule store_payload_inv)
  have top: "role \<noteq> SNAPSHOT" "role \<noteq> TIMESTAMP" "role \<noteq> TARGETS"
    using apps_not_top [OF assms(1,3)] by auto
  have v: "version_of ?s TARGETS \<noteq> 0"
    using i assms(3) by (auto simp: repo_inv_def apps_ok_def)
  have "repo_inv sha (snd (bindS (edit B now role (put_target p tf)) (\<lambda>_. bindS (publish lib B now) (\<lambda>_. returnS p)) ?s))"
  proof (rule seq_inv)
    show "repo_inv sha (snd (edit B now role (put_target p tf) ?s))"
    proof (rule edit_inv [OF i])
      fix md sd
      assume m: "open_role role ?s = (Inr md, ?s)" "put_target p tf (md_signed md) = Inr sd"
        "kind_ok role (md_signed md)"
      have "disk ?s (payload_name p (tf_sha256 tf)) = Some (Payload c)" by simp
      then show "kind_ok role sd \<and> body_ok sha ?s sd"
        using put_target_ok [OF m(2,3) open_targets_body_ok [OF i m(1)]] assms(4) by simp
    qed
    fix x s1
    assume "edit B now role (put_target p tf) ?s = (Inr x, s1)" "repo_inv sha s1"
    moreover from this have "version_of s1 TARGETS \<noteq> 0" using v top(3) by (metis edit_frame)
    ultimately show "repo_inv sha (snd (bindS (publish lib B now) (\<lambda>_. returnS p) s1))"
      using assms(2) by (intro seq_inv publish_inv) simp_all
  qed
  then show ?thesis by (simp add: put_and_publish_def store_payload_def)
qed

lemma add_release_eq:
  "add_release lib B sha now key payload info s =
     (if ri_version info \<noteq> tk_version key
      then (Inl (PublicationError ''release info version does not match target path version''), s)
      else bindS (require_delegated (tk_app_id key)) (\<lambda>role.
        put_and_publish lib B now role (path key) (target_from_file sha payload (to_custom info)) payload) s)"
  by (simp add: add_release_def put_and_publish_def Let_def)

lemma add_release_inv:
  assumes "repo_inv sha s" "tuf_contract lib"
  shows "repo_inv sha (snd (add_release lib B sha now key payload info s))"
  unfolding add_release_eq using assms
  by (auto intro!: seq_inv put_and_publish_inv simp: require_delegated_Inr target_from_file_def)

lemma add_release_keyless:
  "fst (add_release lib B sha now key payload info s) = Inr p \<Longrightarrow> p = path key"
  unfolding add_release_eq put_and_publish_def
  by (auto simp: sem_defs split: prod.splits sum.splits if_splits)

lemma open_role_state_snd [simp]: "snd (open_role role s) = s"
  by (cases "open_role role s") (auto dest: open_role_state)

lemma set_current_eq:
  "set_current lib B sha now key =
     bindS (require_delegated (tk_app_id key)) (\<lambda>role.
     bindS (liftS (ChannelKey (tk_app_id key) (tk_channel key) (tk_platform key) (tk_arch key))) (\<lambda>channel.
     bindS (open_role role) (\<lambda>md.
     bindS (case md_signed md of
         STargets tb \<Rightarrow> refuseS (tb_targets tb (path key) = None)
           (PublicationError ''cannot make it current: it has not been published'')
       | _ \<Rightarrow> raiseS AssertionError) (\<lambda>_.
     bindS (liftS (CurrentRelease (path key) (tk_version key))) (\<lambda>pointer.
     bindS (liftS (ReleaseInfo (tk_version key) JNull JNull JNull False 100)) (\<lambda>info.
       put_and_publish lib B now role (pointer_path channel)
         (target_from_file sha (to_json pointer) (to_custom info)) (to_json pointer)))))))"
  by (simp add: set_current_def put_and_publish_def Let_def)

lemma set_current_InrE:
  assumes "set_current lib B sha now key s = (Inr p, s')"
  obtains role channel md tb pointer info where
    "app_role_name (tk_app_id key) = Inr role" "role \<in> r_app_roles s"
    "ChannelKey (tk_app_id key) (tk_channel key) (tk_platform key) (tk_arch key) = Inr channel"
    "open_role role s = (Inr md, s)" "md_signed md = STargets tb" "tb_targets tb (path key) \<noteq> None"
    "CurrentRelease (path key) (tk_version key) = Inr pointer"
    "ReleaseInfo (tk_version key) JNull JNull JNull False 100 = Inr info"
    "put_and_publish lib B now role (pointer_path channel)
       (target_from_file sha (to_json pointer) (to_custom info)) (to_json pointer) s = (Inr p, s')"
proof -
  obtain role channel md s1 u pointer info where 1: "app_role_name (tk_app_id key) = Inr role" "role \<in> r_app_roles s"
    "ChannelKey (tk_app_id key) (tk_channel key) (tk_platform key) (tk_arch key) = Inr channel"
    and op: "open_role role s = (Inr md, s1)"
    and chk: "(case md_signed md of
         STargets tb \<Rightarrow> refuseS (tb_targets tb (path key) = None)
           (PublicationError ''cannot make it current: it has not been published'')
       | _ \<Rightarrow> raiseS AssertionError) s1 = (Inr (u :: unit), s1)"
    and 2: "CurrentRelease (path key) (tk_version key) = Inr pointer"
    "ReleaseInfo (tk_version key) JNull JNull JNull False 100 = Inr info"
    "put_and_publish lib B now role (pointer_path channel)
       (target_from_file sha (to_json pointer) (to_custom info)) (to_json pointer) s1 = (Inr p, s')"
    using assms unfolding set_current_eq
    by (auto elim!: bindS_InrE simp: require_delegated_Inr split: signed.splits)
  have s1: "s1 = s" using op by (rule open_role_state)
  obtain tb where "md_signed md = STargets tb" "tb_targets tb (path key) \<noteq> None"
    using chk by (cases "md_signed md") auto
  with that 1 2 op s1 show ?thesis by blast
qed

lemma set_current_cases:
  assumes "repo_inv sha s"
  shows "snd (set_current lib B sha now key s) = s \<or>
    (\<exists>role p c cu. role \<in> r_app_roles s \<and>
      set_current lib B sha now key s = put_and_publish lib B now role p (target_from_file sha c cu) c s)"
proof (cases "app_role_name (tk_app_id key)")
  case (Inl e)
  then have "require_delegated (tk_app_id key) s = (Inl e, s)" by (simp add: require_delegated_def)
  then show ?thesis by (simp add: set_current_eq bindS_def)
next
  case (Inr role)
  note role = this
  show ?thesis
  proof (cases "role \<in> r_app_roles s")
    case False
    with role have "require_delegated (tk_app_id key) s =
        (Inl (PublicationError ''application has no delegated role; call add_app''), s)"
      by (simp add: require_delegated_def sem_defs)
    then show ?thesis by (simp add: set_current_eq bindS_def)
  next
    case True
    with role have rd: "require_delegated (tk_app_id key) s = (Inr role, s)"
      by (simp add: require_delegated_Inr)
    obtain md where op: "open_role role s = (Inr md, s)" using open_role_total [OF assms] by blast
    have run: "bindS (require_delegated (tk_app_id key)) f s = f role s"
      "bindS (open_role role) g s = g md s" for f :: "_ \<Rightarrow> (repo, string) sem" and g :: "_ \<Rightarrow> (repo, string) sem"
      using rd op by (simp_all add: bindS_def)
    show ?thesis
      unfolding set_current_eq run(1)
      using True
      by (cases "ChannelKey (tk_app_id key) (tk_channel key) (tk_platform key) (tk_arch key)";
          cases "md_signed md"; cases "CurrentRelease (path key) (tk_version key)";
          cases "ReleaseInfo (tk_version key) JNull JNull JNull False 100")
        (simp_all add: run, blast?)
  qed
qed

lemma set_current_inv:
  assumes "repo_inv sha s" "tuf_contract lib"
  shows "repo_inv sha (snd (set_current lib B sha now key s))"
  using set_current_cases [OF assms(1), of lib B now key]
proof (elim disjE exE conjE)
  fix role p c cu
  assume "role \<in> r_app_roles s"
    "set_current lib B sha now key s = put_and_publish lib B now role p (target_from_file sha c cu) c s"
  then show ?thesis
    using assms by (simp add: put_and_publish_inv target_from_file_def)
qed (use assms in simp)

section \<open>Reachable repositories\<close>

text \<open>What the callers of the class do, from a fresh directory on: each step is one call with
  whatever keystore and clock it runs under, and whether it returns or raises.  \<open>publish\<close> on
  its own is only called on an initialised repository.\<close>

datatype repo_op =
    Initialize
  | AddApp string bool
  | AddRelease target_key string release_info
  | SetCurrent target_key
  | Publish

fun repo_step :: "tuf_lib \<Rightarrow> (string \<Rightarrow> string) \<Rightarrow> backend \<Rightarrow> int \<Rightarrow> repo_op \<Rightarrow> repo \<Rightarrow> repo" where
  "repo_step lib sha B now Initialize s = snd (initialize lib B now s)"
| "repo_step lib sha B now (AddApp a c) s = snd (add_app lib B now a c s)"
| "repo_step lib sha B now (AddRelease k p i) s = snd (add_release lib B sha now k p i s)"
| "repo_step lib sha B now (SetCurrent k) s = snd (set_current lib B sha now k s)"
| "repo_step lib sha B now Publish s =
     (if version_of s TARGETS = 0 then s else snd (publish lib B now s))"

inductive repo_reachable :: "tuf_lib \<Rightarrow> (string \<Rightarrow> string) \<Rightarrow> repo \<Rightarrow> bool" for lib sha where
  start: "repo_reachable lib sha fresh_repo"
| call: "repo_reachable lib sha s \<Longrightarrow> repo_reachable lib sha (repo_step lib sha B now op s)"

lemma fresh_repo_inv: "repo_inv sha fresh_repo"
  by (auto simp: fresh_repo_def repo_inv_def versions_ok_def pointers_ok_def apps_ok_def policies_ok_def
      version_of_def client_consistent_def entries_on_def TOP_LEVEL_POLICIES_def policy_defs)

lemma repo_step_inv:
  "repo_inv sha s \<Longrightarrow> tuf_contract lib \<Longrightarrow> repo_inv sha (repo_step lib sha B now op s)"
  by (cases op) (auto intro: initialize_inv add_app_inv add_release_inv set_current_inv publish_inv)

lemma reachable_inv:
  "repo_reachable lib sha s \<Longrightarrow> tuf_contract lib \<Longrightarrow> repo_inv sha s"
  by (induction rule: repo_reachable.induct) (auto intro: fresh_repo_inv repo_step_inv)

end
