(* ===== verification/RepositoryProps.thy ===== *)
theory RepositoryProps
  imports RepositoryOps
begin

text \<open>
  What the directory promises: every state a client can have fetched is consistent, a numbered
  metadata file is never rewritten, and a release or a channel pointer that was published is
  found by the walk a client makes, timestamp to snapshot to delegated role to payload.
\<close>

section \<open>Numbered metadata files are never rewritten\<close>

definition mutable_names :: "string set" where
  "mutable_names = {''metadata/timestamp.json'', ''metadata/root.json''}"

text \<open>A file that carries its role and version in its name, and a version no later than the
  repository's count for the role.\<close>

definition numbered :: "repo \<Rightarrow> string \<Rightarrow> metadata \<Rightarrow> bool" where
  "numbered s n md \<longleftrightarrow> (\<exists>role. role \<noteq> TIMESTAMP \<and> n = meta_name role (md_version md)
     \<and> 1 \<le> md_version md \<and> md_version md \<le> version_of s role)"

definition names_ok :: "repo \<Rightarrow> bool" where
  "names_ok s \<longleftrightarrow> (\<forall>n md. disk s n = Some (Meta md) \<longrightarrow> n \<in> mutable_names \<or> numbered s n md)
     \<and> (\<forall>md. disk s ''metadata/timestamp.json'' = Some (Meta md) \<longrightarrow> md_version md = version_of s TIMESTAMP)"

definition frozen :: "repo \<Rightarrow> repo \<Rightarrow> bool" where
  "frozen s0 s \<longleftrightarrow> names_ok s \<and>
     (\<forall>n md. n \<notin> mutable_names \<and> disk s0 n = Some (Meta md) \<longrightarrow> disk s n = Some (Meta md))"

lemma names_ok_fresh: "names_ok fresh_repo"
  by (simp add: names_ok_def fresh_repo_def)

lemma numbered_mono:
  "numbered s n md \<Longrightarrow> (\<And>r. version_of s r \<le> version_of s' r) \<Longrightarrow> numbered s' n md"
  unfolding numbered_def by (blast intro: le_trans)

lemma numbered_new:
  assumes "numbered s n md"
  shows "n \<noteq> meta_name role (version_of s role + 1)"
proof
  assume n: "n = meta_name role (version_of s role + 1)"
  obtain r where r: "r \<noteq> TIMESTAMP" "n = meta_name r (md_version md)" "md_version md \<le> version_of s r"
    using assms unfolding numbered_def by blast
  then have "role \<noteq> TIMESTAMP" using n meta_name_not_fixed [of r "md_version md"] by (auto simp: meta_name_TIMESTAMP)
  with r n have "version_of s role + 1 = md_version md" "role = r" by (metis meta_name_inj)+
  with r show False by simp
qed

lemma version_of_disk [simp]: "version_of (s\<lparr>r_disk := d\<rparr>) = version_of s"
  by (simp add: version_of_def fun_eq_iff)

lemma names_ok_cong [simp]:
  "names_ok (s\<lparr>r_policies := ps\<rparr>) = names_ok s"
  "names_ok (s\<lparr>r_app_roles := rs\<rparr>) = names_ok s"
  by (simp_all add: names_ok_def numbered_def)

lemma names_ok_closed:
  assumes "names_ok s" "md_version md = version_of s role + 1"
  shows "names_ok (closed role md s)"
  unfolding names_ok_def
proof (intro conjI allI impI)
  let ?new = "meta_name role (version_of s role + 1)"
  fix n m assume d: "disk (closed role md s) n = Some (Meta m)"
  show "n \<in> mutable_names \<or> numbered (closed role md s) n m"
  proof (cases "n = ?new")
    case True
    show ?thesis
    proof (cases "role = TIMESTAMP")
      case False
      with True d assms have "numbered (closed role md s) n m"
        unfolding numbered_def by (intro exI [of _ role]) (simp add: disk_closed version_of_closed)
      then show ?thesis by simp
    qed (simp add: True mutable_names_def meta_name_TIMESTAMP)
  next
    case False
    with d have "n \<in> mutable_names \<or> disk s n = Some (Meta m)"
      by (auto simp: disk_closed mutable_names_def split: if_splits)
    moreover have "numbered (closed role md s) n m" if "numbered s n m"
      by (rule numbered_mono [OF that]) (simp add: version_of_closed)
    ultimately show ?thesis using assms(1) unfolding names_ok_def by blast
  qed
next
  fix m assume d: "disk (closed role md s) ''metadata/timestamp.json'' = Some (Meta m)"
  show "md_version m = version_of (closed role md s) TIMESTAMP"
  proof (cases "role = TIMESTAMP")
    case True
    with d assms(2) show ?thesis by (simp add: disk_closed meta_name_TIMESTAMP version_of_closed)
  next
    case False
    then have "disk s ''metadata/timestamp.json'' = Some (Meta m)"
      using d disk_closed_other [of TIMESTAMP role TIMESTAMP md s 0] by (simp add: meta_name_TIMESTAMP)
    with False assms(1) show ?thesis by (simp add: names_ok_def version_of_closed)
  qed
qed

lemma frozen_closed:
  assumes "frozen s0 s" "md_version md = version_of s role + 1"
  shows "frozen s0 (closed role md s)"
proof -
  have "disk (closed role md s) n = Some (Meta m)"
    if "n \<notin> mutable_names" "disk s n = Some (Meta m)" for n m
  proof -
    have "numbered s n m" using that assms(1) unfolding frozen_def names_ok_def by blast
    then have "n \<noteq> meta_name role (version_of s role + 1)" by (rule numbered_new)
    with that show ?thesis by (auto simp: disk_closed mutable_names_def)
  qed
  with assms show ?thesis by (simp add: frozen_def names_ok_closed)
qed

lemma frozen_payload:
  assumes "frozen s0 s"
  shows "frozen s0 (s\<lparr>r_disk := (payload_name p h, Payload c) # r_disk s\<rparr>)" (is "frozen s0 ?s")
proof -
  have d: "disk ?s n = Some (Meta md) \<longleftrightarrow> n \<noteq> payload_name p h \<and> disk s n = Some (Meta md)" for n md
    by simp
  have "names_ok ?s"
    using assms unfolding names_ok_def frozen_def d numbered_def version_of_disk by blast
  moreover have "n \<noteq> payload_name p h" if "n \<notin> mutable_names" "disk s n = Some (Meta md)" for n md
  proof -
    have "numbered s n md" using that assms unfolding frozen_def names_ok_def by blast
    then show ?thesis unfolding numbered_def by force
  qed
  ultimately show ?thesis using assms unfolding frozen_def d by blast
qed

text \<open>Every operation is built from these two writes.\<close>

lemma frozen_close_role [keeps_intro]: "keeps (frozen s0) (close_role B now role md)"
  unfolding keeps_def
proof (intro allI impI)
  fix s assume f: "frozen s0 s"
  show "frozen s0 (snd (close_role B now role md s))"
  proof (cases "close_role B now role md s")
    case (Pair r s')
    show ?thesis
    proof (cases r)
      case Inl
      with Pair f show ?thesis by (auto dest: close_role_Inl)
    next
      case (Inr u)
      with Pair obtain m where "s' = closed role m s" "md_version m = version_of s role + 1"
        by (auto simp: close_role_Inr)
      with Pair f show ?thesis by (simp add: frozen_closed)
    qed
  qed
qed

lemma frozen_store_payload [keeps_intro]: "keeps (frozen s0) (store_payload p tf c)"
  by (simp add: keeps_def store_payload_state frozen_payload)

lemma keeps_open_role [keeps_intro]: "keeps P (open_role role)"
  by (simp add: keeps_def)

lemma keeps_read [keeps_intro]: "keeps P (\<lambda>s. (f s, s))"
  by (simp add: keeps_def)

lemma keeps_refuse_state [keeps_intro]: "keeps P (\<lambda>s. refuseS (b s) e s)"
  by (simp add: keeps_def)

lemma keeps_require_delegated [keeps_intro]: "keeps P (require_delegated a)"
  by (simp add: keeps_def)

lemma frozen_policies [keeps_intro]: "keeps (frozen s0) (modifyS (\<lambda>s. s\<lparr>r_policies := f s\<rparr>))"
  by (simp add: keeps_def modifyS_def frozen_def)

lemma frozen_app_roles [keeps_intro]: "keeps (frozen s0) (modifyS (\<lambda>s. s\<lparr>r_app_roles := f s\<rparr>))"
  by (simp add: keeps_def modifyS_def frozen_def)

lemma frozen_edit [keeps_intro]: "keeps (frozen s0) (edit B now role body)"
  unfolding edit_def by (intro keeps_intro)

lemma frozen_publish [keeps_intro]: "keeps (frozen s0) (publish lib B now)"
  unfolding publish_def do_snapshot_def do_timestamp_def
  by (intro keeps_intro; split option.split; intro conjI impI allI keeps_intro)

lemma frozen_put_and_publish [keeps_intro]: "keeps (frozen s0) (put_and_publish lib B now role p tf c)"
  unfolding put_and_publish_def by (intro keeps_intro)

lemma frozen_set_current [keeps_intro]: "keeps (frozen s0) (set_current lib B sha now key)"
  unfolding set_current_eq
  by (intro keeps_intro; split signed.split; intro conjI impI allI keeps_intro)

lemma frozen_add_release: "frozen s0 s \<Longrightarrow> frozen s0 (snd (add_release lib B sha now key payload info s))"
proof -
  have "keeps (frozen s0) (bindS (require_delegated (tk_app_id key)) (\<lambda>role.
        put_and_publish lib B now role (path key) (target_from_file sha payload (to_custom info)) payload))"
    by (intro keeps_intro)
  then show "frozen s0 s \<Longrightarrow> ?thesis" by (simp add: add_release_eq keepsD)
qed

lemma frozen_initialize [keeps_intro]: "keeps (frozen s0) (initialize lib B now)"
  unfolding initialize_def by (intro keeps_intro)

lemma frozen_add_app [keeps_intro]: "keeps (frozen s0) (add_app lib B now a c)"
  unfolding add_app_def Let_def by (intro keeps_intro)

lemma frozen_step: "frozen s0 s \<Longrightarrow> frozen s0 (repo_step lib sha B now op s)"
  by (cases op) (auto intro: frozen_add_release keepsD frozen_initialize frozen_add_app frozen_set_current
      frozen_publish)

lemma reachable_names_ok: "repo_reachable lib sha s \<Longrightarrow> names_ok s"
proof (induction rule: repo_reachable.induct)
  case (call s B now op)
  then have "frozen s s" by (simp add: frozen_def)
  then have "frozen s (repo_step lib sha B now op s)" by (rule frozen_step)
  then show ?case by (simp add: frozen_def)
qed (rule names_ok_fresh)

section \<open>What a client finds\<close>

text \<open>The walk of a TUF client through one state of the directory: timestamp, the snapshot it
  names, the version that names for the role, and the role's entry for a path.\<close>

definition client_lookup :: "(string \<rightharpoonup> repo_file) \<Rightarrow> string \<Rightarrow> string \<Rightarrow> target_file option" where
  "client_lookup d role p =
     (case d ''metadata/timestamp.json'' of Some (Meta ts) \<Rightarrow> (case md_signed ts of STimestamp n \<Rightarrow>
       (case d (meta_name SNAPSHOT n) of Some (Meta sn) \<Rightarrow> (case md_signed sn of SSnapshot meta \<Rightarrow>
         (case meta (role @ ''.json'') of Some v \<Rightarrow>
           (case d (meta_name role v) of Some (Meta md) \<Rightarrow> (case md_signed md of STargets tb \<Rightarrow> tb_targets tb p
             | _ \<Rightarrow> None) | _ \<Rightarrow> None)
         | None \<Rightarrow> None) | _ \<Rightarrow> None) | _ \<Rightarrow> None) | _ \<Rightarrow> None) | _ \<Rightarrow> None)"

lemma lookup_current:
  assumes "snapshot_current s" "timestamp_current s" "finite (r_app_roles s)" "role \<in> r_app_roles s"
    and "version_of s role \<noteq> 0" "disk s (meta_name role (version_of s role)) = Some (Meta md)"
    and "md_signed md = STargets tb"
  shows "client_lookup (disk s) role p = tb_targets tb p"
proof -
  obtain ts where ts: "disk s ''metadata/timestamp.json'' = Some (Meta ts)"
    "md_signed ts = STimestamp (version_of s SNAPSHOT)" using assms(2) by (auto simp: timestamp_current_def)
  obtain sn meta where sn: "disk s (meta_name SNAPSHOT (version_of s SNAPSHOT)) = Some (Meta sn)"
    "md_signed sn = SSnapshot meta" "targets_infos s \<subseteq>\<^sub>m meta" using assms(1) by (auto simp: snapshot_current_def)
  have "targets_infos s (role @ ''.json'') = Some (version_of s role)"
    using assms(3-5) by (auto simp: targets_infos_iff)
  with sn(3) have "meta (role @ ''.json'') = Some (version_of s role)" by (auto simp: map_le_def dom_def)
  with ts sn assms(6,7) show ?thesis by (simp add: client_lookup_def)
qed

lemma edit_InrE:
  assumes "edit B now role body s = (Inr u, s')"
  obtains md sd m where "open_role role s = (Inr md, s)" "body (md_signed md) = Inr sd"
    "s' = closed role m s" "md_signed m = sd" "md_version m = version_of s role + 1"
  using assms
proof (cases rule: edit_cases)
  case (closed md sd)
  then have "close_role B now role (md\<lparr>md_signed := sd\<rparr>) s = (Inr u, s')" by simp
  then obtain m where "s' = RepositoryInv.closed role m s" "md_signed m = sd"
    "md_version m = version_of s role + 1"
    by (auto simp: close_role_Inr)
  with closed(1,2) that show ?thesis by blast
qed simp

lemma disk_closed_self: "role \<noteq> ROOT \<Longrightarrow> disk (closed role m s) (meta_name role (version_of s role + 1)) = Some (Meta m)"
  by (simp add: disk_closed)

lemma close_role_policies [simp]: "r_policies (snd (close_role B now role md s)) = r_policies s"
proof (cases "close_role B now role md s")
  case (Pair r s')
  then have "r_policies s' = r_policies s"
    by (cases r) (auto dest: close_role_Inl simp: close_role_Inr)
  with Pair show ?thesis by simp
qed

lemma do_snapshot_policies: "r_policies (snd (do_snapshot lib B now s)) = r_policies s"
  unfolding do_snapshot_def bindS_def returnS_def
  by (auto dest!: open_role_state split: prod.splits sum.splits option.splits)

lemma do_timestamp_policies: "r_policies (snd (do_timestamp lib B now s)) = r_policies s"
  unfolding do_timestamp_def bindS_def returnS_def
  by (auto dest!: open_role_state split: prod.splits sum.splits option.splits)

lemma publish_policies: "r_policies (snd (publish lib B now s)) = r_policies s"
  using do_snapshot_policies [of lib B now s] do_timestamp_policies
  unfolding publish_def by (auto simp: bindS_def split: prod.splits sum.splits)

lemma put_and_publish_found:
  assumes inv: "repo_inv sha s" and lib: "tuf_contract lib" and role: "role \<in> r_app_roles s"
    and h: "tf_sha256 tf = hexdigest sha c"
    and run: "put_and_publish lib B now role p tf c s = (Inr q, s')"
    and op: "open_role role s = (Inr md, s)" and tb: "md_signed md = STargets tb"
  shows "q = p \<and> client_lookup (disk s') role p = Some tf
    \<and> disk s' (payload_name p (tf_sha256 tf)) = Some (Payload c)
    \<and> (\<forall>p'. p' \<noteq> p \<longrightarrow> client_lookup (disk s') role p' = tb_targets tb p')
    \<and> snapshot_current s' \<and> timestamp_current s' \<and> r_app_roles s' = r_app_roles s
    \<and> r_policies s' = r_policies s
    \<and> (\<exists>m. open_role role s' = (Inr m, s') \<and> md_signed m = STargets (tb\<lparr>tb_targets := (tb_targets tb)(p \<mapsto> tf)\<rparr>))"
proof -
  let ?s = "s\<lparr>r_disk := (payload_name p (tf_sha256 tf), Payload c) # r_disk s\<rparr>"
  have i: "repo_inv sha ?s" using inv h by (rule store_payload_inv)
  have top: "role \<noteq> SNAPSHOT" "role \<noteq> TIMESTAMP" "role \<noteq> TARGETS" "role \<noteq> ROOT"
    using apps_not_top [OF inv role] by auto
  have op': "open_role role ?s = (Inr md, ?s)"
    using op by (auto simp: open_role_def Let_def split: if_splits option.splits repo_file.splits)
  obtain s1 where e: "edit B now role (put_target p tf) ?s = (Inr (), s1)"
    and pub: "publish lib B now s1 = (Inr (), s')" and q: "q = p"
    using run by (auto simp: put_and_publish_def store_payload_def elim!: bindS_InrE)
  obtain m where m: "s1 = closed role m ?s" "md_signed m = STargets (tb\<lparr>tb_targets := (tb_targets tb)(p \<mapsto> tf)\<rparr>)"
  proof (rule edit_InrE [OF e])
    fix md' sd m
    assume "open_role role ?s = (Inr md', ?s)" "put_target p tf (md_signed md') = Inr sd"
      "s1 = closed role m ?s" "md_signed m = sd"
    then show ?thesis using op' tb that by (simp add: put_target_def)
  qed
  have "repo_inv sha (snd (edit B now role (put_target p tf) ?s))"
  proof (rule edit_inv [OF i])
    fix md' sd assume "open_role role ?s = (Inr md', ?s)" "put_target p tf (md_signed md') = Inr sd"
      "kind_ok role (md_signed md')"
    then show "kind_ok role sd \<and> body_ok sha ?s sd"
      using put_target_ok [OF _ _ open_targets_body_ok [OF i]] h by simp
  qed
  with e have i1: "repo_inv sha s1" by simp
  have vT: "version_of s1 TARGETS \<noteq> 0"
    using i1 role m(1) by (auto simp: repo_inv_def apps_ok_def)
  note post = publish_post [OF i1 lib vT pub]
  have v1: "version_of s1 role \<noteq> 0" and d1: "disk s1 (meta_name role (version_of s1 role)) = Some (Meta m)"
    using m(1) top disk_closed_self [of role m ?s] by (simp_all add: version_of_closed)
  have apps: "r_app_roles s' = r_app_roles s" "finite (r_app_roles s')"
    using post m(1) inv by (simp_all add: repo_inv_def apps_ok_def)
  have v': "version_of s' role = version_of s1 role" "disk s' (meta_name role v) = disk s1 (meta_name role v)" for v
    using post top by auto
  have l: "client_lookup (disk s') role p' = ((tb_targets tb)(p \<mapsto> tf)) p'" for p'
    using lookup_current [of s' role m "tb\<lparr>tb_targets := (tb_targets tb)(p \<mapsto> tf)\<rparr>" p']
      post apps role v' v1 d1 m(2) by simp
  have "disk s1 (payload_name p (tf_sha256 tf)) = Some (Payload c)"
    unfolding m(1) by (simp add: disk_closed)
  moreover have "open_role role s' = (Inr m, s')"
    using v1 d1 v' by (simp add: open_role_def)
  moreover have "r_policies s' = r_policies s"
    using publish_policies [of lib B now s1] edit_policies [OF e] pub by simp
  ultimately show ?thesis using post l q apps m(2) by simp
qed


lemma open_app_role:
  assumes "repo_inv sha s" "role \<in> r_app_roles s"
  obtains md tb where "open_role role s = (Inr md, s)" "md_signed md = STargets tb"
proof -
  obtain md where op: "open_role role s = (Inr md, s)" using open_role_total [OF assms(1)] by blast
  have "kind_ok role (md_signed md)" by (rule open_kind [OF assms(1) op])
  then obtain tb where "md_signed md = STargets tb"
    using apps_not_top [OF assms] by (cases "md_signed md") auto
  with op that show ?thesis by blast
qed

section \<open>Progress\<close>

text \<open>A keystore can sign for a role when it holds enough keys for the role's policy and can sign
  with each; the library answers when it never raises on the repository's own metadata.\<close>

definition can_sign :: "backend \<Rightarrow> repo \<Rightarrow> string \<Rightarrow> bool" where
  "can_sign B s role \<longleftrightarrow> (case r_policies s role of None \<Rightarrow> False
     | Some policy \<Rightarrow> rp_threshold policy \<le> int (length (be_keyids B role)))
     \<and> list_all (\<lambda>k. returns (be_signer B k)) (be_keyids B role)"

definition lib_answers :: "tuf_lib \<Rightarrow> bool" where
  "lib_answers lib \<longleftrightarrow>
     (\<forall>infos md meta. md_signed md = SSnapshot meta \<longrightarrow> returns (tl_snapshot lib infos md))
     \<and> (\<forall>v md n. md_signed md = STimestamp n \<longrightarrow> returns (tl_timestamp lib v md))"

lemma sign_all_answers: "list_all (\<lambda>k. returns (be_signer B k)) ks \<Longrightarrow> \<exists>sigs. sign_all B ks = Inr sigs"
  by (induction ks) (auto simp: returns_iff)

lemma close_role_answers: "can_sign B s role \<Longrightarrow> \<exists>s'. close_role B now role md s = (Inr (), s')"
  using sign_all_answers [of B "be_keyids B role"]
  by (auto simp: can_sign_def close_role_Inr split: option.splits)

lemma edit_answers:
  assumes "repo_inv sha s" "can_sign B s role"
    and "\<And>md. open_role role s = (Inr md, s) \<Longrightarrow> kind_ok role (md_signed md) \<Longrightarrow> returns (body (md_signed md))"
  shows "\<exists>s'. edit B now role body s = (Inr (), s')"
proof -
  obtain md where op: "open_role role s = (Inr md, s)" using open_role_total [OF assms(1)] by blast
  moreover obtain sd where "body (md_signed md) = Inr sd"
    using assms(3) [OF op open_kind [OF assms(1) op]] by (auto simp: returns_iff)
  ultimately show ?thesis
    using close_role_answers [OF assms(2), of now "md\<lparr>md_signed := sd\<rparr>"]
    by (simp add: edit_def bindS_run)
qed

lemma can_sign_cong: "r_policies s' = r_policies s \<Longrightarrow> can_sign B s' role = can_sign B s role"
  by (simp add: can_sign_def)

lemma publish_answers:
  assumes inv: "repo_inv sha s" and lib: "tuf_contract lib" "lib_answers lib"
    and sign: "can_sign B s SNAPSHOT" "can_sign B s TIMESTAMP" and t: "version_of s TARGETS \<noteq> 0"
  shows "\<exists>s'. publish lib B now s = (Inr (), s')"
proof -
  obtain md where op: "open_role SNAPSHOT s = (Inr md, s)" using open_role_total [OF inv] by blast
  obtain meta where m: "md_signed md = SSnapshot meta" by (rule open_snapshot_body [OF inv op])
  then obtain new where "tl_snapshot lib (targets_infos s) md = Inr new"
    using lib(2) unfolding lib_answers_def returns_iff by blast
  then obtain s1 where 1: "do_snapshot lib B now s = (Inr (), s1)"
    using close_role_answers [OF sign(1)] by (cases new) (auto simp: do_snapshot_unfold [OF op])
  have i1: "repo_inv sha s1" using do_snapshot_inv [OF inv lib(1) t, of B now] 1 by simp
  have "can_sign B s1 TIMESTAMP"
    using sign(2) can_sign_cong [of s1 s] do_snapshot_policies [of lib B now s] 1 by simp
  then have close: "\<exists>s'. close_role B now TIMESTAMP x s1 = (Inr (), s')" for x by (rule close_role_answers)
  obtain md' where op': "open_role TIMESTAMP s1 = (Inr md', s1)" using open_role_total [OF i1] by blast
  obtain n where "md_signed md' = STimestamp n" by (rule open_timestamp_body [OF i1 op'])
  then obtain new' where "tl_timestamp lib (snapshot_info s1) md' = Inr new'"
    using lib(2) unfolding lib_answers_def returns_iff by blast
  then have "\<exists>s'. do_timestamp lib B now s1 = (Inr (), s')"
    using close by (cases new') (auto simp: do_timestamp_unfold [OF op'])
  with 1 show ?thesis by (simp add: publish_def bindS_run)
qed

lemma put_and_publish_answers:
  assumes inv: "repo_inv sha s" and lib: "tuf_contract lib" "lib_answers lib" and role: "role \<in> r_app_roles s"
    and h: "tf_sha256 tf = hexdigest sha c"
    and sign: "can_sign B s role" "can_sign B s SNAPSHOT" "can_sign B s TIMESTAMP"
  shows "\<exists>s'. put_and_publish lib B now role p tf c s = (Inr p, s')"
proof -
  let ?s = "s\<lparr>r_disk := (payload_name p (tf_sha256 tf), Payload c) # r_disk s\<rparr>"
  have i: "repo_inv sha ?s" using inv h by (rule store_payload_inv)
  have top: "role \<noteq> SNAPSHOT" "role \<noteq> TIMESTAMP" "role \<noteq> TARGETS" "role \<noteq> ROOT"
    using apps_not_top [OF inv role] by auto
  have sign': "can_sign B ?s r = can_sign B s r" for r by (simp add: can_sign_def)
  have put: "returns (put_target p tf sd)" if "kind_ok role sd" for sd
    using that top by (cases sd) (simp_all add: put_target_def)
  then obtain s1 where e: "edit B now role (put_target p tf) ?s = (Inr (), s1)"
    using edit_answers [OF i, of B role "put_target p tf" now] sign(1) sign' by blast
  have "repo_inv sha (snd (edit B now role (put_target p tf) ?s))"
  proof (rule edit_inv [OF i])
    fix md' sd assume "open_role role ?s = (Inr md', ?s)" "put_target p tf (md_signed md') = Inr sd"
      "kind_ok role (md_signed md')"
    then show "kind_ok role sd \<and> body_ok sha ?s sd"
      using put_target_ok [OF _ _ open_targets_body_ok [OF i]] h by simp
  qed
  with e have i1: "repo_inv sha s1" by simp
  have "version_of s1 TARGETS \<noteq> 0"
    using i1 role edit_app_roles [OF e] by (auto simp: repo_inv_def apps_ok_def)
  moreover have "can_sign B s1 r = can_sign B s r" for r
    using edit_policies [OF e] by (simp add: can_sign_def)
  ultimately obtain s2 where "publish lib B now s1 = (Inr (), s2)"
    using publish_answers [OF i1 lib] sign by blast
  with e show ?thesis by (simp add: put_and_publish_def store_payload_def bindS_run)
qed


definition has_public_keys :: "backend \<Rightarrow> string \<Rightarrow> bool" where
  "has_public_keys B role \<longleftrightarrow> list_all (\<lambda>k. returns (be_public_key B k)) (be_keyids B role)"

lemma add_root_keys_answers:
  "list_all (\<lambda>k. returns (be_public_key B k)) ks \<Longrightarrow> \<exists>rb'. add_root_keys B role ks rb = Inr rb'"
  by (induction ks arbitrary: rb) (auto simp: returns_iff)

lemma init_root_roles_answers:
  "\<forall>role \<in> fst ` set rs. be_keyids B role \<noteq> [] \<and> has_public_keys B role \<Longrightarrow>
    \<exists>rb'. init_root_roles B rs rb = Inr rb'"
proof (induction rs arbitrary: rb)
  case (Cons r rs)
  obtain role policy where r: "r = (role, policy)" by (cases r)
  obtain rb1 where "add_root_keys B role (be_keyids B role) rb = Inr rb1"
    using Cons.prems r add_root_keys_answers by (force simp: has_public_keys_def)
  with Cons r show ?case by (simp add: Let_def)
qed simp

lemma add_delegation_keys_answers:
  "list_all (\<lambda>k. returns (be_public_key B k)) ks \<Longrightarrow> \<exists>m'. add_delegation_keys B ks m = Inr m'"
  by (induction ks arbitrary: m) (auto simp: returns_iff)

lemma can_sign_keys: "repo_inv sha s \<Longrightarrow> can_sign B s role \<Longrightarrow> be_keyids B role \<noteq> []"
  by (auto simp: can_sign_def repo_inv_def policies_ok_def split: option.splits) fastforce

lemma initialize_answers:
  assumes inv: "repo_inv sha s" and lib: "tuf_contract lib" "lib_answers lib" and new: "version_of s ROOT = 0"
    and sign: "\<forall>role \<in> set TOP_LEVEL_ROLES. can_sign B s role \<and> has_public_keys B role"
  shows "\<exists>s'. initialize lib B now s = (Inr (), s')"
proof -
  have root: "returns (init_root B sd)" if k: "kind_ok ROOT sd" for sd
  proof -
    obtain rb where sd: "sd = SRoot rb" using k by (cases sd) auto
    have "\<forall>role \<in> fst ` set TOP_LEVEL_POLICIES. be_keyids B role \<noteq> [] \<and> has_public_keys B role"
      using sign can_sign_keys [OF inv]
      by (auto simp: TOP_LEVEL_POLICIES_def TOP_LEVEL_ROLES_def policy_defs)
    then obtain rb' where "init_root_roles B TOP_LEVEL_POLICIES (rb\<lparr>rb_consistent := True\<rparr>) = Inr rb'"
      using init_root_roles_answers by blast
    with sd show ?thesis by (simp add: init_root_def)
  qed
  have sg: "can_sign B s ROOT" "can_sign B s TARGETS" "can_sign B s SNAPSHOT" "can_sign B s TIMESTAMP"
    using sign by (simp_all add: TOP_LEVEL_ROLES_def)
  obtain s1 where 1: "edit B now ROOT (init_root B) s = (Inr (), s1)"
    using edit_answers [OF inv sg(1), of "init_root B" now] root by blast
  have i1: "repo_inv sha s1"
    using edit_inv [OF inv, of ROOT "init_root B" B now] init_root_ok 1 by fastforce
  have c1: "can_sign B s1 r = can_sign B s r" for r using edit_policies [OF 1] by (simp add: can_sign_def)
  obtain s2 where 2: "edit B now TARGETS Inr s1 = (Inr (), s2)"
    using edit_answers [OF i1, of B TARGETS Inr now] sg(2) c1 by auto
  have i2: "repo_inv sha s2" using edit_same_inv [OF i1, of TARGETS B now] 2 by simp
  have c2: "can_sign B s2 r = can_sign B s r" for r using edit_policies [OF 2] c1 by (simp add: can_sign_def)
  obtain s3 where "publish lib B now s2 = (Inr (), s3)"
    using publish_answers [OF i2 lib, of B now] sg(3,4) c2 edit_version [OF 2] by auto
  with 1 2 new show ?thesis by (simp add: initialize_def bindS_run)
qed

lemma add_app_answers:
  assumes inv: "repo_inv sha s" and lib: "tuf_contract lib" "lib_answers lib"
    and pol: "app_role_policy app_id critical = Inr policy"
    and keys: "rp_threshold policy \<le> int (length (be_keyids B (rp_name policy)))"
      "list_all (\<lambda>k. returns (be_signer B k)) (be_keyids B (rp_name policy))" "has_public_keys B (rp_name policy)"
    and sign: "can_sign B s TARGETS" "can_sign B s SNAPSHOT" "can_sign B s TIMESTAMP"
  shows "\<exists>s'. add_app lib B now app_id critical s = (Inr (rp_name policy), s') \<and> rp_name policy \<in> r_app_roles s'
    \<and> r_policies s' = (r_policies s)(rp_name policy \<mapsto> policy)"
proof -
  let ?role = "rp_name policy"
  let ?s = "s\<lparr>r_policies := (r_policies s)(?role \<mapsto> policy)\<rparr>"
  let ?body = "add_delegation B ?role policy (be_keyids B ?role) app_id"
  have p: "1 \<le> rp_threshold policy" "?role \<notin> set TOP_LEVEL_ROLES" using app_role_policy_name [OF pol] by auto
  then have top: "?role \<noteq> ROOT" "?role \<noteq> SNAPSHOT" "?role \<noteq> TIMESTAMP" "?role \<noteq> TARGETS" by (auto simp: TOP_LEVEL_ROLES_def)
  have i: "repo_inv sha ?s" using inv p(1) by (rule set_policy_inv)
  have c: "can_sign B ?s TARGETS" "can_sign B ?s SNAPSHOT" "can_sign B ?s TIMESTAMP" "can_sign B ?s ?role"
    using sign keys top by (auto simp: can_sign_def)
  have body: "returns (?body sd)" if k: "kind_ok TARGETS sd" for sd
  proof -
    obtain tb where "sd = STargets tb" using k by (cases sd) auto
    then show ?thesis using add_delegation_keys_answers keys(3)
      by (fastforce simp: add_delegation_def Let_def has_public_keys_def returns_iff bindr_eq_Inr_iff)
  qed
  obtain s1 where 1: "edit B now TARGETS ?body ?s = (Inr (), s1)"
    using edit_answers [OF i c(1), of ?body now] body by blast
  have i1: "repo_inv sha s1" using delegate_inv [OF i, of B now ?role policy "be_keyids B ?role" app_id] 1 by simp
  let ?s1 = "s1\<lparr>r_app_roles := insert ?role (r_app_roles s1)\<rparr>"
  have v1: "version_of s1 TARGETS \<noteq> 0" using edit_version [OF 1] by simp
  have i1': "repo_inv sha ?s1" using i1 p(2) v1 by (rule add_role_inv)
  have p1: "r_policies ?s1 = r_policies ?s" using edit_policies [OF 1] by simp
  then have "can_sign B ?s1 ?role" using c(4) can_sign_cong by blast
  then obtain s2 where 2: "edit B now ?role Inr ?s1 = (Inr (), s2)"
    using edit_answers [OF i1', of B ?role Inr now] by auto
  have i2: "repo_inv sha s2" using edit_same_inv [OF i1' top(2,3), of B now] 2 by simp
  have p2: "r_policies s2 = r_policies ?s" using edit_policies [OF 2] p1 by simp
  have "version_of s2 TARGETS \<noteq> 0" using edit_frame [OF 2] top v1 by (metis inv_parts_cong(2))
  then obtain s3 where 3: "publish lib B now s2 = (Inr (), s3)"
    using publish_answers [OF i2 lib, of B now] c can_sign_cong [OF p2] by blast
  have "r_app_roles s3 = r_app_roles s2"
    using publish_post [OF i2 lib(1) \<open>version_of s2 TARGETS \<noteq> 0\<close> 3] by blast
  then have "?role \<in> r_app_roles s3" using edit_app_roles [OF 2] by simp
  moreover have "r_policies s3 = r_policies ?s"
    using p2 publish_policies [of lib B now s2] 3 by simp
  moreover have "be_keyids B ?role \<noteq> []" using keys(1) p(1) by auto
  ultimately show ?thesis using 1 2 3 pol by (simp add: add_app_def Let_def bindS_run)
qed

end
