(* ===== verification/RepositoryClaims.thy ===== *)
theory RepositoryClaims
  imports RepositoryProps
begin

text \<open>
  The properties of the repository, over every state its callers can reach, and a reference
  library and keystore at which they are instantiated.
\<close>

section \<open>A reference library and keystore\<close>

definition ref_lib :: tuf_lib where
  "ref_lib = \<lparr>tl_snapshot = (\<lambda>infos md. case md_signed md of
       SSnapshot meta \<Rightarrow> Inr (Some (meta ++ infos)) | _ \<Rightarrow> Inl AssertionError),
     tl_timestamp = (\<lambda>v md. Inr (Some v))\<rparr>"

definition ref_keys :: backend where
  "ref_keys = \<lparr>be_keyids = (\<lambda>_. [''k1'', ''k2'', ''k3'']), be_public_key = Inr,
     be_signer = (\<lambda>k. Inr (''sig-'' @ k))\<rparr>"

definition ref_sha :: "string \<Rightarrow> string" where
  "ref_sha = (\<lambda>_. replicate 32 (CHR ''s''))"

lemma ref_lib_contract: "tuf_contract ref_lib" "lib_answers ref_lib"
  by (auto simp: tuf_contract_def lib_answers_def ref_lib_def)

lemma ref_keys_sign: "can_sign ref_keys s role \<longleftrightarrow>
    (case r_policies s role of None \<Rightarrow> False | Some p \<Rightarrow> rp_threshold p \<le> 3)"
  by (simp add: can_sign_def ref_keys_def split: option.split)

definition ref_key :: target_key where
  "ref_key = \<lparr>tk_app_id = ''demo'', tk_channel = ''stable'', tk_platform = ''linux'', tk_arch = ''amd64'',
     tk_version = ''1.0'', tk_filename = ''demo.zip''\<rparr>"

definition ref_info :: release_info where
  "ref_info = \<lparr>ri_version = ''1.0'', ri_notes_url = JNull, ri_min_os = JNull, ri_min_from_version = JNull,
     ri_mandatory = False, ri_rollout_pct = 100\<rparr>"

lemma ref_app: "app_role_policy ''demo'' False = Inr
    \<lparr>rp_name = ''app-demo'', rp_keystore = ONLINE, rp_threshold = 1, rp_expiry = APP_ROLE_EXPIRY, rp_key_count = 1\<rparr>"
  by code_simp

lemma ref_role: "app_role_name ''demo'' = Inr ''app-demo''"
  by code_simp

definition ref_initialised :: repo where
  "ref_initialised = repo_step ref_lib ref_sha ref_keys 0 Initialize fresh_repo"

definition ref_delegated :: repo where
  "ref_delegated = repo_step ref_lib ref_sha ref_keys 0 (AddApp ''demo'' False) ref_initialised"

definition ref_released :: repo where
  "ref_released = repo_step ref_lib ref_sha ref_keys 0 (AddRelease ref_key ''payload'' ref_info) ref_delegated"

lemma ref_reachable:
  "repo_reachable ref_lib ref_sha ref_initialised"
  "repo_reachable ref_lib ref_sha ref_delegated"
  "repo_reachable ref_lib ref_sha ref_released"
  unfolding ref_released_def ref_delegated_def ref_initialised_def
  by (intro repo_reachable.intros)+

lemmas ref_inv = ref_reachable [THEN reachable_inv, OF ref_lib_contract(1)]

lemma initialize_policies: "initialize lib B now s = (r, s') \<Longrightarrow> r_policies s' = r_policies s"
  unfolding initialize_def
  by (auto simp: bindS_def refuseS_def raiseS_def returnS_def dest!: edit_policies
      split: prod.splits sum.splits if_splits) (metis publish_policies snd_conv)+

lemma ref_initialised_ok: "initialize ref_lib ref_keys 0 fresh_repo = (Inr (), ref_initialised)"
proof -
  have "\<exists>s'. initialize ref_lib ref_keys 0 fresh_repo = (Inr (), s')"
  proof (rule initialize_answers [OF fresh_repo_inv ref_lib_contract])
    show "version_of fresh_repo ROOT = 0" by (simp add: fresh_repo_def version_of_def)
    show "\<forall>role\<in>set TOP_LEVEL_ROLES. can_sign ref_keys fresh_repo role \<and> has_public_keys ref_keys role"
      by (auto simp: ref_keys_sign has_public_keys_def fresh_repo_def TOP_LEVEL_ROLES_def
          TOP_LEVEL_POLICIES_def policy_defs) (simp_all add: ref_keys_def)
  qed
  then show ?thesis by (auto simp: ref_initialised_def)
qed

lemma ref_policies: "r_policies ref_initialised = map_of TOP_LEVEL_POLICIES"
  using initialize_policies [OF ref_initialised_ok] by (simp add: fresh_repo_def)

lemma ref_initialised_signs:
  "role \<in> set TOP_LEVEL_ROLES \<Longrightarrow> can_sign ref_keys ref_initialised role"
  by (auto simp: ref_keys_sign ref_policies TOP_LEVEL_ROLES_def TOP_LEVEL_POLICIES_def policy_defs)

lemma ref_delegated_ok:
  "add_app ref_lib ref_keys 0 ''demo'' False ref_initialised = (Inr ''app-demo'', ref_delegated)"
  "''app-demo'' \<in> r_app_roles ref_delegated"
  "role \<in> {''app-demo'', SNAPSHOT, TIMESTAMP, TARGETS} \<Longrightarrow> can_sign ref_keys ref_delegated role"
proof -
  have "\<exists>s'. add_app ref_lib ref_keys 0 ''demo'' False ref_initialised = (Inr ''app-demo'', s')
      \<and> ''app-demo'' \<in> r_app_roles s' \<and> r_policies s' = (r_policies ref_initialised)(''app-demo'' \<mapsto>
        \<lparr>rp_name = ''app-demo'', rp_keystore = ONLINE, rp_threshold = 1, rp_expiry = APP_ROLE_EXPIRY, rp_key_count = 1\<rparr>)"
    using add_app_answers [OF ref_inv(1) ref_lib_contract ref_app, of ref_keys 0]
      ref_initialised_signs
    by (simp add: TOP_LEVEL_ROLES_def has_public_keys_def) (simp add: ref_keys_def)
  then show 1: "add_app ref_lib ref_keys 0 ''demo'' False ref_initialised = (Inr ''app-demo'', ref_delegated)"
    "''app-demo'' \<in> r_app_roles ref_delegated"
    and "role \<in> {''app-demo'', SNAPSHOT, TIMESTAMP, TARGETS} \<Longrightarrow> can_sign ref_keys ref_delegated role"
    by (auto simp: ref_delegated_def ref_keys_sign ref_policies TOP_LEVEL_POLICIES_def policy_defs role_name_defs)
qed

lemma add_release_answers:
  assumes "repo_inv sha s" "tuf_contract lib" "lib_answers lib"
    and "app_role_name (tk_app_id key) = Inr role" "role \<in> r_app_roles s" "ri_version info = tk_version key"
    and "can_sign B s role" "can_sign B s SNAPSHOT" "can_sign B s TIMESTAMP"
  shows "\<exists>s'. add_release lib B sha now key payload info s = (Inr (path key), s')"
proof -
  have rd: "require_delegated (tk_app_id key) s = (Inr role, s)" using assms(4,5) by (simp add: require_delegated_Inr)
  have "\<exists>s'. put_and_publish lib B now role (path key) (target_from_file sha payload (to_custom info)) payload s
      = (Inr (path key), s')"
    using assms by (intro put_and_publish_answers) (simp_all add: target_from_file_def)
  with assms(6) rd show ?thesis by (simp add: add_release_eq bindS_run)
qed

lemma ref_released_ok:
  "add_release ref_lib ref_keys ref_sha 0 ref_key ''payload'' ref_info ref_delegated
     = (Inr (path ref_key), ref_released)"
proof -
  have "\<exists>s'. add_release ref_lib ref_keys ref_sha 0 ref_key ''payload'' ref_info ref_delegated
      = (Inr (path ref_key), s')"
    using ref_inv ref_lib_contract ref_delegated_ok(2) ref_delegated_ok(3) [of "''app-demo''"]
      ref_delegated_ok(3) [of SNAPSHOT] ref_delegated_ok(3) [of TIMESTAMP] ref_role
    by (intro add_release_answers) (simp_all add: ref_key_def ref_info_def)
  then show ?thesis by (auto simp: ref_released_def)
qed


section \<open>What a release leaves alone\<close>

definition same_role :: "repo \<Rightarrow> repo \<Rightarrow> string \<Rightarrow> bool" where
  "same_role s s' r \<longleftrightarrow> version_of s' r = version_of s r \<and> fst (open_role r s') = fst (open_role r s)"

lemma same_role_of:
  assumes "version_of s' r = version_of s r" "\<And>v. disk s' (meta_name r v) = disk s (meta_name r v)"
  shows "same_role s s' r"
  using assms by (simp add: same_role_def open_role_def Let_def split: option.split repo_file.split)

lemma same_role_trans: "same_role s s' r \<Longrightarrow> same_role s' s'' r \<Longrightarrow> same_role s s'' r"
  by (simp add: same_role_def)

lemma same_role_refl [simp]: "same_role s s r"
  by (simp add: same_role_def)

lemma close_role_same: "r \<noteq> role \<Longrightarrow> same_role s (snd (close_role B now role md s)) r"
  using close_role_snd [of B now role md s]
  by (auto intro!: same_role_of simp: version_of_closed disk_closed_other)

lemma edit_same: "r \<noteq> role \<Longrightarrow> same_role s (snd (edit B now role body s)) r"
  using edit_frame [of B now role body s] by (cases "edit B now role body s") (auto intro: same_role_of)

lemma bindS_same:
  assumes "same_role s (snd (m s)) r" "\<And>x s'. same_role s' (snd (f x s')) r"
  shows "same_role s (snd (bindS m f s)) r"
  using assms same_role_trans by (auto simp: bindS_def split: prod.splits sum.splits)

lemma publish_same:
  assumes "r \<noteq> SNAPSHOT" "r \<noteq> TIMESTAMP"
  shows "same_role s (snd (publish lib B now s)) r"
proof -
  have "same_role s (snd (do_snapshot lib B now s)) r" for s
    unfolding do_snapshot_def
    by (intro bindS_same; simp split: option.split; intro impI allI close_role_same assms)
  moreover have "same_role s (snd (do_timestamp lib B now s)) r" for s
    unfolding do_timestamp_def
    by (intro bindS_same; simp split: option.split; intro impI allI close_role_same assms)
  ultimately show ?thesis unfolding publish_def by (intro bindS_same)
qed

lemma store_payload_same: "same_role s (snd (store_payload p tf c s)) r"
  by (simp add: store_payload_state same_role_def open_role_def Let_def split: option.split repo_file.split)

lemma put_and_publish_same:
  assumes "r \<noteq> role" "r \<noteq> SNAPSHOT" "r \<noteq> TIMESTAMP"
  shows "same_role s (snd (put_and_publish lib B now role p tf c s)) r"
  unfolding put_and_publish_def
  using assms by (intro bindS_same store_payload_same edit_same publish_same) simp_all

section \<open>What a published release and a pointer look like\<close>

lemma add_release_found:
  assumes inv: "repo_inv sha s" and lib: "tuf_contract lib"
    and run: "add_release lib B sha now key payload info s = (Inr p, s')"
  shows "p = path key \<and> (\<exists>role. app_role_name (tk_app_id key) = Inr role \<and> role \<in> r_app_roles s' \<and>
      client_lookup (disk s') role (path key) = Some (target_from_file sha payload (to_custom info)))
    \<and> disk s' (payload_name (path key) (hexdigest sha payload)) = Some (Payload payload)"
proof -
  obtain role where role: "app_role_name (tk_app_id key) = Inr role" "role \<in> r_app_roles s"
    and put: "put_and_publish lib B now role (path key) (target_from_file sha payload (to_custom info)) payload s = (Inr p, s')"
    using run by (auto simp: add_release_eq require_delegated_Inr elim!: bindS_InrE split: if_splits)
  obtain md tb where "open_role role s = (Inr md, s)" "md_signed md = STargets tb"
    by (rule open_app_role [OF inv role(2)])
  from put_and_publish_found [OF inv lib role(2) _ put this] role show ?thesis
    by (simp add: target_from_file_def)
qed

lemma ref_released_found:
  "client_lookup (disk ref_released) ''app-demo'' (path ref_key)
     = Some (target_from_file ref_sha ''payload'' (to_custom ref_info))"
  using add_release_found [OF ref_inv(2) ref_lib_contract(1) ref_released_ok] ref_role
  by (simp add: ref_key_def)

lemma set_current_found:
  assumes inv: "repo_inv sha s" and lib: "tuf_contract lib" and wf: "wf_target_key key"
    and run: "set_current lib B sha now key s = (Inr p, s')"
  shows "\<exists>role c tf body rel. app_role_name (tk_app_id key) = Inr role
    \<and> ChannelKey (tk_app_id key) (tk_channel key) (tk_platform key) (tk_arch key) = Inr c
    \<and> p = pointer_path c \<and> client_lookup (disk s') role p = Some tf
    \<and> disk s' (payload_name p (tf_sha256 tf)) = Some (Payload body) \<and> tf_sha256 tf = hexdigest sha body
    \<and> from_json body = Inr \<lparr>cr_target_path = path key, cr_version = tk_version key\<rparr>
    \<and> covers c (path key) \<and> client_lookup (disk s') role (path key) = Some rel"
  using run
proof (rule set_current_InrE)
  fix role channel md tb pointer info
  assume a: "app_role_name (tk_app_id key) = Inr role" "role \<in> r_app_roles s"
    "ChannelKey (tk_app_id key) (tk_channel key) (tk_platform key) (tk_arch key) = Inr channel"
    and b: "open_role role s = (Inr md, s)" "md_signed md = STargets tb" "tb_targets tb (path key) \<noteq> None"
    and cr: "CurrentRelease (path key) (tk_version key) = Inr pointer"
    and put: "put_and_publish lib B now role (pointer_path channel)
       (target_from_file sha (to_json pointer) (to_custom info)) (to_json pointer) s = (Inr p, s')"
  have ch: "wf_channel_key channel" "covers channel (path key)" using a(3) by (auto simp: own_channel)
  have ne: "path key \<noteq> pointer_path channel" using wf ch(1) by (rule path_not_pointer)
  have ptr: "pointer = \<lparr>cr_target_path = path key, cr_version = tk_version key\<rparr>"
    using cr by (auto simp: CurrentRelease_def bindr_eq_Inr_iff)
  note f = put_and_publish_found [OF inv lib a(2) _ put b(1,2)]
  then have "client_lookup (disk s') role (path key) = tb_targets tb (path key)"
    using ne by (simp add: target_from_file_def)
  with f a ch(2) b(3) from_to_json [OF cr] ptr show ?thesis by (auto simp: target_from_file_def)
qed

lemma wf_key_parts:
  assumes "wf_target_key k"
  shows "\<exists>c. ChannelKey (tk_app_id k) (tk_channel k) (tk_platform k) (tk_arch k) = Inr c"
    "CurrentRelease (path k) (tk_version k) = Inr \<lparr>cr_target_path = path k, cr_version = tk_version k\<rparr>"
    "\<exists>i. ReleaseInfo (tk_version k) JNull JNull JNull False 100 = Inr i"
proof -
  have "CHR 0x5C \<notin> set s" if "SEGMENT s" for s
    using SEGMENT_chars [OF that, of "CHR 0x5C"] by (auto simp: segment_char_def char_class_defs)
  moreover have "CHR 0x5C \<notin> set ch" if "ch \<in> set CHANNELS" for ch
    using that by (auto simp: CHANNELS_def)
  ultimately show "CurrentRelease (path k) (tk_version k) = Inr \<lparr>cr_target_path = path k, cr_version = tk_version k\<rparr>"
    using assms by (auto simp: wf_target_key_iff CurrentRelease_def path_def bindr_eq_Inr_iff)
  show "\<exists>c. ChannelKey (tk_app_id k) (tk_channel k) (tk_platform k) (tk_arch k) = Inr c"
    using assms by (auto simp: wf_target_key_iff ChannelKey_Inr_iff)
  show "\<exists>i. ReleaseInfo (tk_version k) JNull JNull JNull False 100 = Inr i"
    using assms by (auto simp: wf_target_key_iff ReleaseInfo_def bindr_eq_Inr_iff)
qed

lemma set_current_answers:
  assumes inv: "repo_inv sha s" and lib: "tuf_contract lib" "lib_answers lib" and wf: "wf_target_key key"
    and role: "app_role_name (tk_app_id key) = Inr role" "role \<in> r_app_roles s"
    and md: "open_role role s = (Inr md, s)" "md_signed md = STargets tb" "tb_targets tb (path key) \<noteq> None"
    and sign: "can_sign B s role" "can_sign B s SNAPSHOT" "can_sign B s TIMESTAMP"
  shows "\<exists>c s'. ChannelKey (tk_app_id key) (tk_channel key) (tk_platform key) (tk_arch key) = Inr c
    \<and> set_current lib B sha now key s = (Inr (pointer_path c), s')"
proof -
  obtain c i where c: "ChannelKey (tk_app_id key) (tk_channel key) (tk_platform key) (tk_arch key) = Inr c"
    "ReleaseInfo (tk_version key) JNull JNull JNull False 100 = Inr i"
    using wf_key_parts [OF wf] by blast
  define ptr where "ptr = \<lparr>cr_target_path = path key, cr_version = tk_version key\<rparr>"
  have rd: "require_delegated (tk_app_id key) s = (Inr role, s)" using role by (simp add: require_delegated_Inr)
  obtain s' where "put_and_publish lib B now role (pointer_path c)
      (target_from_file sha (to_json ptr) (to_custom i)) (to_json ptr) s = (Inr (pointer_path c), s')"
    using put_and_publish_answers [OF inv lib role(2) _ sign] by (metis target_from_file_def target_file.select_convs(2))
  with c md rd wf_key_parts(2) [OF wf] show ?thesis
    by (simp add: set_current_eq bindS_run ptr_def)
qed

lemma ref_current_ok:
  "\<exists>s'. set_current ref_lib ref_keys ref_sha now ref_key ref_released
     = (Inr ''demo/stable/linux-amd64/_current/release.json'', s')"
proof -
  have wf: "wf_target_key ref_key" by code_simp
  have c: "ChannelKey (tk_app_id ref_key) (tk_channel ref_key) (tk_platform ref_key) (tk_arch ref_key)
      = Inr \<lparr>ck_app_id = ''demo'', ck_channel = ''stable'', ck_platform = ''linux'', ck_arch = ''amd64''\<rparr>" by code_simp
  have pp: "pointer_path \<lparr>ck_app_id = ''demo'', ck_channel = ''stable'', ck_platform = ''linux'', ck_arch = ''amd64''\<rparr>
      = ''demo/stable/linux-amd64/_current/release.json''" by code_simp
  have role: "app_role_name (tk_app_id ref_key) = Inr ''app-demo''" using ref_role by (simp add: ref_key_def)
  obtain md tb where op: "open_role ''app-demo'' ref_delegated = (Inr md, ref_delegated)" "md_signed md = STargets tb"
    by (rule open_app_role [OF ref_inv(2) ref_delegated_ok(2)])
  have put: "put_and_publish ref_lib ref_keys 0 ''app-demo'' (path ref_key)
      (target_from_file ref_sha ''payload'' (to_custom ref_info)) ''payload'' ref_delegated = (Inr (path ref_key), ref_released)"
    using ref_released_ok role ref_delegated_ok(2)
    by (auto simp: add_release_eq require_delegated_Inr elim!: bindS_InrE split: if_splits)
  note f = put_and_publish_found [OF ref_inv(2) ref_lib_contract(1) ref_delegated_ok(2) _ put op]
  then obtain m where m: "open_role ''app-demo'' ref_released = (Inr m, ref_released)"
    "md_signed m = STargets (tb\<lparr>tb_targets := (tb_targets tb)(path ref_key \<mapsto>
       target_from_file ref_sha ''payload'' (to_custom ref_info))\<rparr>)"
    and same: "r_policies ref_released = r_policies ref_delegated" "''app-demo'' \<in> r_app_roles ref_released"
    using ref_delegated_ok(2) by (auto simp: target_from_file_def)
  have sign: "can_sign ref_keys ref_released r" if "r \<in> {''app-demo'', SNAPSHOT, TIMESTAMP, TARGETS}" for r
    using ref_delegated_ok(3) [OF that] can_sign_cong [OF same(1)] by simp
  show ?thesis
    using set_current_answers [OF ref_inv(3) ref_lib_contract wf role same(2) m, of ref_keys now]
      sign [of "''app-demo''"] sign [of SNAPSHOT] sign [of TIMESTAMP] c pp by auto
qed

definition role_entries :: "targets_body \<Rightarrow> (string \<times> delegated_role) list" where
  "role_entries tb = (case tb_delegations tb of None \<Rightarrow> []
     | Some dl \<Rightarrow> (case dl_roles dl of None \<Rightarrow> [] | Some rs \<Rightarrow> rs))"

lemma add_delegation_Inr:
  assumes "add_delegation B role policy ks a (STargets tb) = Inr sd"
  obtains m where "sd = STargets (tb\<lparr>tb_delegations := Some \<lparr>dl_keys = m, dl_roles = Some (AList.update role
      \<lparr>dr_name = role, dr_keyids = ks, dr_threshold = rp_threshold policy,
       dr_terminating = False, dr_paths = [app_path_pattern a]\<rparr> (role_entries tb))\<rparr>\<rparr>)"
  using assms
  by (auto simp: add_delegation_def Let_def bindr_eq_Inr_iff role_entries_def split: option.splits)

lemma add_app_InrE:
  assumes "add_app lib B now app_id critical s = (Inr role, s')"
  obtains policy s1 s2 where "app_role_policy app_id critical = Inr policy" "role = rp_name policy"
    "edit B now TARGETS (add_delegation B role policy (be_keyids B role) app_id)
       (s\<lparr>r_policies := (r_policies s)(role \<mapsto> policy)\<rparr>) = (Inr (), s1)"
    "edit B now role Inr (s1\<lparr>r_app_roles := insert role (r_app_roles s1)\<rparr>) = (Inr (), s2)"
    "publish lib B now s2 = (Inr (), s')"
  using assms unfolding add_app_def Let_def
  by (auto elim!: bindS_InrE split: if_splits)

lemma add_app_found:
  assumes inv: "repo_inv sha s" and lib: "tuf_contract lib"
    and run: "add_app lib B now app_id critical s = (Inr role, s')"
    and op: "open_role TARGETS s = (Inr md, s)" and tb: "md_signed md = STargets tb"
  shows "\<exists>policy md' tb' dl rs. app_role_policy app_id critical = Inr policy \<and> role = rp_name policy
    \<and> open_role TARGETS s' = (Inr md', s') \<and> md_signed md' = STargets tb' \<and> tb_targets tb' = tb_targets tb
    \<and> tb_delegations tb' = Some dl \<and> dl_roles dl = Some rs
    \<and> map_of rs = (map_of (role_entries tb))(role \<mapsto>
          \<lparr>dr_name = role, dr_keyids = be_keyids B role, dr_threshold = rp_threshold policy,
           dr_terminating = False, dr_paths = [app_path_pattern app_id]\<rparr>)
    \<and> role \<in> r_app_roles s'"
  using run
proof (rule add_app_InrE)
  fix policy and s1 s2 :: repo
  let ?s = "s\<lparr>r_policies := (r_policies s)(role \<mapsto> policy)\<rparr>"
  let ?s1 = "s1\<lparr>r_app_roles := insert role (r_app_roles s1)\<rparr>"
  assume pol: "app_role_policy app_id critical = Inr policy" "role = rp_name policy"
    and e1: "edit B now TARGETS (add_delegation B role policy (be_keyids B role) app_id) ?s = (Inr (), s1)"
    and e2: "edit B now role Inr ?s1 = (Inr (), s2)" and pub: "publish lib B now s2 = (Inr (), s')"
  have p: "1 \<le> rp_threshold policy" "role \<notin> set TOP_LEVEL_ROLES" using app_role_policy_name [OF pol(1)] pol(2) by auto
  then have top: "role \<noteq> SNAPSHOT" "role \<noteq> TIMESTAMP" "role \<noteq> TARGETS" "role \<noteq> ROOT"
    by (auto simp: TOP_LEVEL_ROLES_def)
  have i: "repo_inv sha ?s" using inv p(1) by (rule set_policy_inv)
  have op': "open_role TARGETS ?s = (Inr md, ?s)"
    using op by (auto simp: open_role_def Let_def split: if_splits option.splits repo_file.splits)
  obtain m ks where m: "s1 = closed TARGETS m ?s" "md_version m = version_of s TARGETS + 1"
    "md_signed m = STargets (tb\<lparr>tb_delegations := Some \<lparr>dl_keys = ks, dl_roles = Some (AList.update role
      \<lparr>dr_name = role, dr_keyids = be_keyids B role, dr_threshold = rp_threshold policy,
       dr_terminating = False, dr_paths = [app_path_pattern app_id]\<rparr> (role_entries tb))\<rparr>\<rparr>)"
  proof (rule edit_InrE [OF e1])
    fix md' sd m
    assume a: "open_role TARGETS ?s = (Inr md', ?s)"
      "add_delegation B role policy (be_keyids B role) app_id (md_signed md') = Inr sd"
      "s1 = closed TARGETS m ?s" "md_signed m = sd" "md_version m = version_of ?s TARGETS + 1"
    then have "add_delegation B role policy (be_keyids B role) app_id (STargets tb) = Inr sd"
      using op' tb by simp
    then show ?thesis by (rule add_delegation_Inr) (use a that in simp)
  qed
  have i1: "repo_inv sha s1" using delegate_inv [OF i, of B now role policy "be_keyids B role" app_id] e1 by simp
  have v1: "version_of s1 TARGETS = version_of s TARGETS + 1" using edit_version [OF e1] by simp
  have i1': "repo_inv sha ?s1" using i1 p(2) v1 by (intro add_role_inv) auto
  have i2: "repo_inv sha s2" using edit_same_inv [OF i1' top(1,2), of B now] e2 by simp
  have v2: "version_of s2 TARGETS = version_of s1 TARGETS"
    "disk s2 (meta_name TARGETS v) = disk s1 (meta_name TARGETS v)" for v
    using edit_frame [OF e2] top(3) by auto
  note post = publish_post [OF i2 lib _ pub]
  have "version_of s' TARGETS = version_of s1 TARGETS"
    "disk s' (meta_name TARGETS (version_of s1 TARGETS)) = Some (Meta m)"
    using post v1 v2 disk_closed_self [of TARGETS m ?s] m(1) by simp_all
  then have "open_role TARGETS s' = (Inr m, s')" using v1 by (simp add: open_role_def)
  moreover have "role \<in> r_app_roles s'" using post v1 v2 edit_app_roles [OF e2] by simp
  moreover have "map_of (AList.update role x (role_entries tb)) = (map_of (role_entries tb))(role \<mapsto> x)" for x
    by (rule update_conv')
  ultimately show ?thesis using pol m(3) by simp
qed

lemma lookup_disk_ne: "client_lookup (map_of d) role p \<noteq> None \<Longrightarrow> d \<noteq> []"
  by (auto simp: client_lookup_def)

section \<open>Properties\<close>

text \<open>C1: Whatever the callers do and wherever an operation fails, every state the directory was ever
  in is consistent for a client: its timestamp names a snapshot that is there, every file that
  snapshot lists is there, and every target any targets metadata lists has a stored payload with
  its digest.  So no client ever meets a reference to a file that is not yet on disk.\<close>

theorem every_published_state_consistent:
  assumes "tuf_contract lib" "repo_reachable lib sha s" "suffix hist (r_disk s)"
  shows "client_consistent sha (map_of hist)"
  using reachable_inv [OF assms(2,1)] assms(3) by (simp add: repo_inv_def always_suffix)

theorem every_published_state_consistent_witness:
  "client_consistent ref_sha (disk ref_released) \<and> r_disk ref_released \<noteq> []"
proof
  show "client_consistent ref_sha (disk ref_released)"
    using every_published_state_consistent [OF ref_lib_contract(1) ref_reachable(3)] by blast
  show "r_disk ref_released \<noteq> []" using ref_released_found by (intro lookup_disk_ne) auto
qed



text \<open>After a release was added without an error, a client that walks the directory from the
  timestamp finds it in its application's delegated role with its digest, length and signed
  release information, and the payload is stored under that digest.\<close>

theorem added_release_is_found:
  assumes "tuf_contract lib" "repo_reachable lib sha s"
    and "add_release lib B sha now key payload info s = (Inr p, s')"
  shows "p = path key \<and> (\<exists>role. app_role_name (tk_app_id key) = Inr role \<and>
      client_lookup (disk s') role (path key) = Some (target_from_file sha payload (to_custom info)))
    \<and> disk s' (payload_name (path key) (hexdigest sha payload)) = Some (Payload payload)"
  using add_release_found [OF reachable_inv [OF assms(2,1)] assms(1,3)] by blast

theorem added_release_is_found_witness:
  "disk ref_released (payload_name (path ref_key) (hexdigest ref_sha ''payload'')) = Some (Payload ''payload'')"
  using added_release_is_found [OF ref_lib_contract(1) ref_reachable(2) ref_released_ok] by blast

text \<open>C34: Adding a release of a delegated application succeeds, in every reachable state, as soon as the
  keystore can sign for the application's role, snapshot and timestamp: the offline roles are
  not needed.\<close>

theorem add_release_succeeds:
  assumes "tuf_contract lib" "lib_answers lib" "repo_reachable lib sha s"
    and "app_role_name (tk_app_id key) = Inr role" "role \<in> r_app_roles s" "ri_version info = tk_version key"
    and "can_sign B s role" "can_sign B s SNAPSHOT" "can_sign B s TIMESTAMP"
  shows "\<exists>s'. add_release lib B sha now key payload info s = (Inr (path key), s')"
  using assms by (intro add_release_answers reachable_inv)

theorem add_release_succeeds_witness:
  "\<exists>s'. add_release ref_lib ref_keys ref_sha 5 ref_key ''other'' ref_info ref_delegated = (Inr (path ref_key), s')"
proof (rule add_release_succeeds [OF ref_lib_contract ref_reachable(2)])
  show "app_role_name (tk_app_id ref_key) = Inr ''app-demo''" using ref_role by (simp add: ref_key_def)
qed (use ref_delegated_ok(2) ref_delegated_ok(3) in \<open>auto simp: ref_key_def ref_info_def\<close>)

text \<open>Adding a release or moving a channel pointer signs nothing but the application's own role,
  snapshot and timestamp: every other role keeps its version and its content, whether the
  operation succeeds or fails.\<close>

theorem releases_touch_only_their_role:
  assumes "app_role_name (tk_app_id key) = Inr role" "r \<noteq> role" "r \<noteq> SNAPSHOT" "r \<noteq> TIMESTAMP"
  shows "same_role s (repo_step lib sha B now (AddRelease key payload info) s) r
    \<and> same_role s (repo_step lib sha B now (SetCurrent key) s) r"
proof
  have put: "same_role s (snd (put_and_publish lib B now role p tf c s)) r" for p tf c s
    using assms by (intro put_and_publish_same)
  show "same_role s (repo_step lib sha B now (AddRelease key payload info) s) r"
    using put assms(1) by (simp add: add_release_eq require_delegated_def bindS_assoc)
  show "same_role s (repo_step lib sha B now (SetCurrent key) s) r"
    using put assms(1)
    by (simp add: set_current_eq require_delegated_def bindS_assoc)
      (intro impI bindS_same put; simp split: signed.split)
qed

theorem releases_touch_only_their_role_witness:
  "same_role ref_delegated ref_released TARGETS"
  using releases_touch_only_their_role [of ref_key "''app-demo''" TARGETS ref_delegated] ref_role
  by (simp add: ref_released_def ref_key_def TARGETS_def role_name_defs)


text \<open>After a channel was pointed at a release without an error, a client finds the pointer in the
  application's role, its stored document parses back to the release's path and version, the
  channel covers that path, and the release itself is found by the same walk.\<close>

theorem current_pointer_is_found:
  assumes "tuf_contract lib" "repo_reachable lib sha s" "wf_target_key key"
    and "set_current lib B sha now key s = (Inr p, s')"
  shows "\<exists>role c tf body rel. app_role_name (tk_app_id key) = Inr role
    \<and> ChannelKey (tk_app_id key) (tk_channel key) (tk_platform key) (tk_arch key) = Inr c
    \<and> p = pointer_path c \<and> client_lookup (disk s') role p = Some tf
    \<and> disk s' (payload_name p (tf_sha256 tf)) = Some (Payload body) \<and> tf_sha256 tf = hexdigest sha body
    \<and> from_json body = Inr \<lparr>cr_target_path = path key, cr_version = tk_version key\<rparr>
    \<and> covers c (path key) \<and> client_lookup (disk s') role (path key) = Some rel"
  by (rule set_current_found [OF reachable_inv [OF assms(2,1)] assms(1,3,4)])

theorem current_pointer_is_found_witness:
  "\<exists>s' body. disk s' (payload_name ''demo/stable/linux-amd64/_current/release.json'' (hexdigest ref_sha body)) = Some (Payload body)
     \<and> set_current ref_lib ref_keys ref_sha 7 ref_key ref_released = (Inr ''demo/stable/linux-amd64/_current/release.json'', s')"
proof -
  have wf: "wf_target_key ref_key" by code_simp
  have c: "ChannelKey (tk_app_id ref_key) (tk_channel ref_key) (tk_platform ref_key) (tk_arch ref_key)
      = Inr \<lparr>ck_app_id = ''demo'', ck_channel = ''stable'', ck_platform = ''linux'', ck_arch = ''amd64''\<rparr>" by code_simp
  have pp: "pointer_path \<lparr>ck_app_id = ''demo'', ck_channel = ''stable'', ck_platform = ''linux'', ck_arch = ''amd64''\<rparr>
      = ''demo/stable/linux-amd64/_current/release.json''" by code_simp
  obtain s' where s': "set_current ref_lib ref_keys ref_sha 7 ref_key ref_released
      = (Inr ''demo/stable/linux-amd64/_current/release.json'', s')"
    using ref_current_ok by blast
  from current_pointer_is_found [OF ref_lib_contract(1) ref_reachable(3) wf s'] c pp s' show ?thesis by auto
qed


text \<open>After an application was added without an error, the targets metadata delegates exactly its
  five-segment path pattern to its role, under its policy's threshold and the keystore's keyids,
  not terminating, and every other delegation and every target is as it was.\<close>

theorem added_app_is_delegated:
  assumes "tuf_contract lib" "repo_reachable lib sha s" "add_app lib B now app_id critical s = (Inr role, s')"
    and "open_role TARGETS s = (Inr md, s)" "md_signed md = STargets tb"
  shows "\<exists>policy md' tb' dl rs. app_role_policy app_id critical = Inr policy \<and> role = rp_name policy
    \<and> open_role TARGETS s' = (Inr md', s') \<and> md_signed md' = STargets tb' \<and> tb_targets tb' = tb_targets tb
    \<and> tb_delegations tb' = Some dl \<and> dl_roles dl = Some rs
    \<and> map_of rs = (map_of (role_entries tb))(role \<mapsto>
          \<lparr>dr_name = role, dr_keyids = be_keyids B role, dr_threshold = rp_threshold policy,
           dr_terminating = False, dr_paths = [app_path_pattern app_id]\<rparr>)
    \<and> role \<in> r_app_roles s'"
  by (rule add_app_found [OF reachable_inv [OF assms(2,1)] assms(1,3-5)])

theorem added_app_is_delegated_witness:
  "\<exists>md tb dl rs d. open_role TARGETS ref_delegated = (Inr md, ref_delegated) \<and> md_signed md = STargets tb
     \<and> tb_delegations tb = Some dl \<and> dl_roles dl = Some rs \<and> map_of rs ''app-demo'' = Some d
     \<and> dr_paths d = [''demo/*/*/*/*'']"
proof -
  obtain md where op: "open_role TARGETS ref_initialised = (Inr md, ref_initialised)"
    using open_role_total [OF ref_inv(1)] by blast
  have "kind_ok TARGETS (md_signed md)" by (rule open_kind [OF ref_inv(1) op])
  then obtain tb where tb: "md_signed md = STargets tb" by (cases "md_signed md") auto
  have "app_path_pattern ''demo'' = ''demo/*/*/*/*''" by code_simp
  with added_app_is_delegated [OF ref_lib_contract(1) ref_reachable(1) ref_delegated_ok(1) op tb]
  show ?thesis by auto
qed

end
