(* ===== verification/Reopen.thy ===== *)
theory Reopen
  imports RepositoryClaims
begin

text \<open>
  Opening an existing repository: \<open>_scan\<close> of \<^verbatim>\<open>packages/dist-core/src/dist_core/repository.py\<close>,
  by which a new process finds out where the last one stopped.  \<open>names\<close> is what the metadata
  directory lists, in whatever order it does.
\<close>

section \<open>Scanning\<close>

text \<open>\<open>_VERSIONED.match(name)\<close>: \<^verbatim>\<open>^(\d+)\.(.+)\.json$\<close> on a name that ends in \<^verbatim>\<open>.json\<close>.  The dot of
  \<^verbatim>\<open>.+\<close> is any character but a newline.\<close>

definition versioned :: "string \<Rightarrow> (nat \<times> string) option" where
  "versioned name =
     (let ds = takeWhile is_dec name in
      case dropWhile is_dec name of
        [] \<Rightarrow> None
      | c # r \<Rightarrow>
          (let role = take (length r - 5) r in
           if ds \<noteq> [] \<and> c = CHR ''.'' \<and> suffix ''.json'' r \<and> role \<noteq> [] \<and> newline \<notin> set role
           then Some (undec ds, role) else None))"

fun scan_names :: "(string \<rightharpoonup> repo_file) \<Rightarrow> string list \<Rightarrow> (string \<rightharpoonup> nat) \<Rightarrow> (string \<rightharpoonup> nat) res" where
  "scan_names d [] vs = Inr vs"
| "scan_names d (n # ns) vs =
     (case versioned n of
        Some (v, role) \<Rightarrow>
          scan_names d ns (vs(role \<mapsto> max (case vs role of None \<Rightarrow> 0 | Some w \<Rightarrow> w) v))
      | None \<Rightarrow>
          if n = ''timestamp.json'' then
            (case d (''metadata/'' @ n) of
               Some (Meta md) \<Rightarrow> scan_names d ns (vs(TIMESTAMP \<mapsto> md_version md))
             | _ \<Rightarrow> Inl (OSError ''cannot read metadata''))
          else scan_names d ns vs)"

definition policy_from_role_name :: "string \<Rightarrow> role_policy res" where
  "policy_from_role_name role =
     app_role_policy (if prefix ''app-'' role then drop 4 role else role) False"

fun register_apps :: "string list \<Rightarrow> repo \<Rightarrow> repo res" where
  "register_apps [] s = Inr s"
| "register_apps (name # names) s =
     bindr (policy_from_role_name name) (\<lambda>p. register_apps names
       (s\<lparr>r_app_roles := insert name (r_app_roles s),
          r_policies := (case r_policies s name of
            None \<Rightarrow> (r_policies s)(name \<mapsto> p) | Some _ \<Rightarrow> r_policies s)\<rparr>))"

text \<open>\<open>FileSystemRepository(root_dir, backend)\<close> on the directory \<open>hist\<close> describes.\<close>

definition reopen :: "string list \<Rightarrow> (string \<times> repo_file) list \<Rightarrow> repo res" where
  "reopen names hist =
     bindr (scan_names (map_of hist) (filter (suffix ''.json'') names) Map.empty) (\<lambda>vs.
       let s = \<lparr>r_policies = map_of TOP_LEVEL_POLICIES, r_versions = vs, r_app_roles = {}, r_disk = hist\<rparr> in
       if version_of s TARGETS = 0 then Inr s
       else bindr (fst (open_role TARGETS s)) (\<lambda>md.
         case md_signed md of
           STargets tb \<Rightarrow> register_apps (map fst (role_entries tb)) s
         | _ \<Rightarrow> Inl AssertionError))"

text \<open>An empty directory is a fresh repository.\<close>

lemma reopen_empty: "reopen [] [] = Inr fresh_repo"
  by (simp add: reopen_def fresh_repo_def version_of_def)

section \<open>Names the scan can read\<close>

definition readable :: "string \<Rightarrow> bool" where
  "readable role \<longleftrightarrow> role \<noteq> [] \<and> newline \<notin> set role"

lemma versioned_filename:
  assumes "role \<noteq> TIMESTAMP" "role \<noteq> []"
  shows "versioned (filename role v) = (if newline \<in> set role then None else Some (v, role))"
proof -
  have nd: "\<not> is_dec (CHR ''.'')" by (auto dest: is_dec_not_sep)
  have "takeWhile is_dec (dec v @ CHR ''.'' # role @ ''.json'') = dec v"
    "dropWhile is_dec (dec v @ CHR ''.'' # role @ ''.json'') = CHR ''.'' # role @ ''.json''"
    using nd dec_is_dec by (simp_all add: takeWhile_append2 dropWhile_append2)
  moreover have "suffix ''.json'' (role @ ''.json'')" by (rule suffixI) simp
  ultimately show ?thesis using assms by (simp add: versioned_def filename_def)
qed

lemma versioned_fixed [simp]: "versioned ''timestamp.json'' = None" "versioned ''root.json'' = None"
  by code_simp+

lemma filename_not_fixed:
  "role \<noteq> TIMESTAMP \<Longrightarrow> filename role v \<noteq> ''timestamp.json'' \<and> filename role v \<noteq> ''root.json''"
  using meta_name_not_fixed [of role v] by (auto simp: meta_name_def)

text \<open>What the scan meets in a directory whose versions are those of \<open>s\<close>.\<close>

definition known :: "repo \<Rightarrow> string \<Rightarrow> bool" where
  "known s n \<longleftrightarrow>
     (\<exists>role v. n = filename role v \<and> role \<noteq> TIMESTAMP \<and> readable role \<and> 1 \<le> v \<and> v \<le> version_of s role)
     \<or> (n = ''timestamp.json'' \<and> 1 \<le> version_of s TIMESTAMP \<and>
          (\<exists>md. disk s ''metadata/timestamp.json'' = Some (Meta md) \<and> md_version md = version_of s TIMESTAMP))
     \<or> n = ''root.json''"

definition no_later :: "repo \<Rightarrow> (string \<rightharpoonup> nat) \<Rightarrow> bool" where
  "no_later s vs \<longleftrightarrow> (\<forall>role w. vs role = Some w \<longrightarrow> 1 \<le> w \<and> w \<le> version_of s role)"

definition at_least :: "(string \<rightharpoonup> nat) \<Rightarrow> string \<Rightarrow> nat \<Rightarrow> bool" where
  "at_least vs role v \<longleftrightarrow> (\<exists>w. vs role = Some w \<and> v \<le> w)"

lemma scan_names_known:
  "\<forall>n \<in> set ns. known s n \<Longrightarrow> no_later s vs \<Longrightarrow>
   \<exists>vs'. scan_names (disk s) ns vs = Inr vs' \<and> no_later s vs'
     \<and> (\<forall>role v. at_least vs role v \<longrightarrow> at_least vs' role v)
     \<and> (\<forall>role v. role \<noteq> TIMESTAMP \<and> readable role \<and> filename role v \<in> set ns \<longrightarrow> at_least vs' role v)
     \<and> (''timestamp.json'' \<in> set ns \<longrightarrow> at_least vs' TIMESTAMP (version_of s TIMESTAMP))"
proof (induction ns arbitrary: vs)
  case (Cons n ns)
  then have "known s n" by simp
  then consider (role) role v where "n = filename role v" "role \<noteq> TIMESTAMP" "readable role" "1 \<le> v" "v \<le> version_of s role"
    | (ts) md where "n = ''timestamp.json''" "1 \<le> version_of s TIMESTAMP"
        "disk s ''metadata/timestamp.json'' = Some (Meta md)" "md_version md = version_of s TIMESTAMP"
    | (root) "n = ''root.json''"
    unfolding known_def by blast
  then obtain vs1 where step: "scan_names (disk s) (n # ns) vs = scan_names (disk s) ns vs1" "no_later s vs1"
    and mono: "\<And>role v. at_least vs role v \<Longrightarrow> at_least vs1 role v"
    and here: "\<And>role v. role \<noteq> TIMESTAMP \<Longrightarrow> readable role \<Longrightarrow> n = filename role v \<Longrightarrow> at_least vs1 role v"
      "n = ''timestamp.json'' \<Longrightarrow> at_least vs1 TIMESTAMP (version_of s TIMESTAMP)"
  proof cases
    case role
    let ?vs = "vs(role \<mapsto> max (case vs role of None \<Rightarrow> 0 | Some w \<Rightarrow> w) v)"
    have vn: "versioned n = Some (v, role)" using role by (simp add: versioned_filename readable_def)
    have other: "role' = role \<and> v' = v" if "role' \<noteq> TIMESTAMP" "readable role'" "n = filename role' v'" for role' v'
      using vn that by (simp add: versioned_filename readable_def)
    show ?thesis
    proof (rule that [of ?vs])
      show "no_later s ?vs" using Cons.prems(2) role by (auto simp: no_later_def max_def split: option.splits)
      show "at_least ?vs r w" if "at_least vs r w" for r w using that by (auto simp: at_least_def)
      show "at_least ?vs r w" if "r \<noteq> TIMESTAMP" "readable r" "n = filename r w" for r w
        using other [OF that] by (simp add: at_least_def)
      show "at_least ?vs TIMESTAMP (version_of s TIMESTAMP)" if "n = ''timestamp.json''"
        using vn that by simp
    qed (simp add: vn)
  next
    case ts
    show ?thesis
    proof (rule that [of "vs(TIMESTAMP \<mapsto> md_version md)"])
      show "at_least (vs(TIMESTAMP \<mapsto> md_version md)) r w" if "at_least vs r w" for r w
        using that Cons.prems(2) ts by (auto simp: at_least_def no_later_def intro: order_trans)
      show "at_least (vs(TIMESTAMP \<mapsto> md_version md)) r w" if "r \<noteq> TIMESTAMP" "readable r" "n = filename r w" for r w
        using that filename_not_fixed [of r w] ts(1) by simp
    qed (use ts Cons.prems(2) in \<open>auto simp: no_later_def at_least_def\<close>)
  next
    case root
    show ?thesis
    proof (rule that [of vs])
      show "at_least vs r w" if "r \<noteq> TIMESTAMP" "readable r" "n = filename r w" for r w
        using that filename_not_fixed [of r w] root by simp
    qed (use root Cons.prems(2) in auto)
  qed
  obtain vs' where "scan_names (disk s) ns vs1 = Inr vs'" "no_later s vs'"
    "\<forall>role v. at_least vs1 role v \<longrightarrow> at_least vs' role v"
    "\<forall>role v. role \<noteq> TIMESTAMP \<and> readable role \<and> filename role v \<in> set ns \<longrightarrow> at_least vs' role v"
    "''timestamp.json'' \<in> set ns \<longrightarrow> at_least vs' TIMESTAMP (version_of s TIMESTAMP)"
    using Cons.IH [OF _ step(2)] Cons.prems(1) by auto
  with step(1) mono here show ?case by (intro exI [of _ vs']) auto
qed simp

section \<open>What a reachable repository remembers and what its directory says\<close>

definition delegated_now :: "repo \<Rightarrow> bool" where
  "delegated_now s \<longleftrightarrow> (\<exists>md tb. fst (open_role TARGETS s) = Inr md \<and> md_signed md = STargets tb
     \<and> fst ` set (role_entries tb) = r_app_roles s)"

definition policies_known :: "repo \<Rightarrow> bool" where
  "policies_known s \<longleftrightarrow> (\<forall>role \<in> set TOP_LEVEL_ROLES. r_policies s role = map_of TOP_LEVEL_POLICIES role)
     \<and> (\<forall>role \<in> r_app_roles s. \<exists>a c p. app_role_policy a c = Inr p \<and> rp_name p = role \<and> r_policies s role = Some p)"

definition roles_known :: "repo \<Rightarrow> bool" where
  "roles_known s \<longleftrightarrow> dom (r_versions s) \<subseteq> set TOP_LEVEL_ROLES \<union> r_app_roles s"

definition payloads_apart :: "repo \<Rightarrow> bool" where
  "payloads_apart s \<longleftrightarrow> (\<forall>n c. disk s n = Some (Payload c) \<longrightarrow> prefix ''targets/'' n)"

definition timestamp_counted :: "repo \<Rightarrow> bool" where
  "timestamp_counted s \<longleftrightarrow> (disk s ''metadata/timestamp.json'' \<noteq> None \<longrightarrow> version_of s TIMESTAMP \<noteq> 0)"

definition remembered :: "repo \<Rightarrow> bool" where
  "remembered s \<longleftrightarrow> delegated_now s \<and> policies_known s \<and> roles_known s \<and> payloads_apart s
     \<and> timestamp_counted s"

lemma delegated_now_same:
  assumes "same_role s s' TARGETS" "r_app_roles s' = r_app_roles s"
  shows "delegated_now s' = delegated_now s"
  using assms by (simp add: delegated_now_def same_role_def)

lemma remembered_fresh: "remembered fresh_repo"
  by (auto simp: remembered_def delegated_now_def policies_known_def roles_known_def payloads_apart_def
      timestamp_counted_def fresh_repo_def open_role_def version_of_def initial_def role_entries_def)

lemma payloads_apart_closed: "payloads_apart s \<Longrightarrow> payloads_apart (closed role m s)"
  by (auto simp: payloads_apart_def disk_closed split: if_splits)

lemma roles_known_closed:
  "roles_known s \<Longrightarrow> role \<in> set TOP_LEVEL_ROLES \<union> r_app_roles s \<Longrightarrow> roles_known (closed role m s)"
  by (auto simp: roles_known_def closed_def)

lemma policies_known_closed: "policies_known s \<Longrightarrow> policies_known (closed role m s)"
  by (simp add: policies_known_def)

lemma timestamp_counted_closed: "timestamp_counted s \<Longrightarrow> timestamp_counted (closed role m s)"
  using disk_closed_other [of TIMESTAMP role TIMESTAMP m s 0]
  by (cases "role = TIMESTAMP") (simp_all add: timestamp_counted_def version_of_closed meta_name_TIMESTAMP)

lemmas closed_known = timestamp_counted_closed payloads_apart_closed roles_known_closed policies_known_closed

lemma remembered_closed:
  assumes "remembered s" "role \<noteq> TARGETS" "role \<in> set TOP_LEVEL_ROLES \<union> r_app_roles s"
  shows "remembered (closed role m s)"
proof -
  have "same_role s (closed role m s) TARGETS"
    using assms(2) by (auto intro!: same_role_of simp: version_of_closed disk_closed_other)
  then show ?thesis using assms by (simp add: remembered_def closed_known delegated_now_same)
qed

lemma open_closed:
  "fst (open_role TARGETS (closed TARGETS m s)) = Inr m"
  by (simp add: open_role_def version_of_closed disk_closed)

lemma remembered_targets:
  assumes "remembered s" "md_signed m = STargets tb" "fst ` set (role_entries tb) = r_app_roles s"
  shows "remembered (closed TARGETS m s)"
  using assms closed_known by (auto simp: remembered_def delegated_now_def open_closed TOP_LEVEL_ROLES_def)

lemma edit_snd:
  "snd (edit B now role body s) = s \<or> (\<exists>md sd m. fst (open_role role s) = Inr md \<and> body (md_signed md) = Inr sd
     \<and> md_signed m = sd \<and> edit B now role body s = (Inr (), closed role m s))"
proof (cases "edit B now role body s")
  case (Pair r s')
  show ?thesis
  proof (cases r)
    case (Inl e)
    with Pair have "s' = s" by (cases rule: edit_cases) (auto dest: close_role_Inl)
    with Pair show ?thesis by simp
  next
    case (Inr u)
    with Pair obtain md sd m where "open_role role s = (Inr md, s)" "body (md_signed md) = Inr sd"
      "s' = closed role m s" "md_signed m = sd" by (auto elim: edit_InrE)
    with Pair Inr show ?thesis by auto
  qed
qed

lemma remembered_close [keeps_intro]:
  "role \<in> {ROOT, SNAPSHOT, TIMESTAMP} \<Longrightarrow> keeps remembered (close_role B now role md)"
  unfolding keeps_def using close_role_snd [of B now role md]
  by (metis remembered_closed role_names_distinct insertE singletonD UnI1 TOP_LEVEL_ROLES_def list.set_intros)

lemma remembered_edit:
  assumes "remembered s" "role \<noteq> TARGETS" "role \<in> set TOP_LEVEL_ROLES \<union> r_app_roles s"
  shows "remembered (snd (edit B now role body s))"
  using edit_snd [of B now role body s] assms remembered_closed by force

lemma remembered_edit_root [keeps_intro]: "keeps remembered (edit B now ROOT body)"
  by (simp add: keeps_def remembered_edit TOP_LEVEL_ROLES_def)

lemma remembered_edit_targets [keeps_intro]: "keeps remembered (edit B now TARGETS Inr)"
  unfolding keeps_def
proof (intro allI impI)
  fix s assume r: "remembered s"
  from r obtain md tb where "fst (open_role TARGETS s) = Inr md" "md_signed md = STargets tb"
    "fst ` set (role_entries tb) = r_app_roles s" by (auto simp: remembered_def delegated_now_def)
  with r show "remembered (snd (edit B now TARGETS Inr s))"
    using edit_snd [of B now TARGETS Inr s] remembered_targets by force
qed

lemma remembered_publish [keeps_intro]: "keeps remembered (publish lib B now)"
  unfolding publish_def do_snapshot_def do_timestamp_def
  by (intro keeps_intro; split option.split; intro conjI impI allI keeps_intro; simp)

lemma remembered_payload [keeps_intro]: "keeps remembered (store_payload p tf c)"
proof -
  have "remembered (snd (store_payload p tf c s))" if "remembered s" for s
  proof -
    have "r_app_roles (snd (store_payload p tf c s)) = r_app_roles s" by (simp add: store_payload_state)
    moreover have "payloads_apart (snd (store_payload p tf c s))"
      using that by (auto simp: remembered_def payloads_apart_def store_payload_state payload_name_def)
    moreover have "timestamp_counted (snd (store_payload p tf c s))"
      using that by (auto simp: remembered_def timestamp_counted_def store_payload_state)
    moreover have "policies_known (snd (store_payload p tf c s))" "roles_known (snd (store_payload p tf c s))"
      using that by (auto simp: remembered_def policies_known_def roles_known_def store_payload_state)
    ultimately show ?thesis
      using that delegated_now_same [OF store_payload_same] by (simp add: remembered_def)
  qed
  then show ?thesis by (simp add: keeps_def)
qed

lemma remembered_put:
  assumes "remembered s" "role \<in> r_app_roles s" "role \<noteq> TARGETS"
  shows "remembered (snd (put_and_publish lib B now role p tf c s))"
proof -
  let ?s = "snd (store_payload p tf c s)"
  have "remembered ?s" "r_app_roles ?s = r_app_roles s"
    using keepsD [OF remembered_payload assms(1)] by (simp_all add: store_payload_state)
  then have "remembered (snd (edit B now role (put_target p tf) ?s))"
    using assms by (intro remembered_edit) auto
  moreover have "keeps remembered (bindS (publish lib B now) (\<lambda>_. returnS p))" by (intro keeps_intro)
  ultimately have "remembered (snd (bindS (edit B now role (put_target p tf))
      (\<lambda>_. bindS (publish lib B now) (\<lambda>_. returnS p)) ?s))" by (rule keeps_after)
  then show ?thesis by (simp add: put_and_publish_def store_payload_def) (simp add: modifyS_def)
qed

lemma remembered_initialize [keeps_intro]: "keeps remembered (initialize lib B now)"
  unfolding initialize_def by (intro keeps_intro)

lemma delegated_entries:
  assumes "add_delegation B role policy ks a sd = Inr sd'" "sd = STargets tb"
  shows "\<exists>tb'. sd' = STargets tb' \<and> fst ` set (role_entries tb') = insert role (fst ` set (role_entries tb))"
proof -
  from assms have "add_delegation B role policy ks a (STargets tb) = Inr sd'" by simp
  then show ?thesis
    by (rule add_delegation_Inr) (simp add: role_entries_def dom_update)
qed

lemma open_role_cong:
  "fst (open_role r (s\<lparr>r_policies := ps\<rparr>)) = fst (open_role r s)"
  "fst (open_role r (s\<lparr>r_app_roles := rs\<rparr>)) = fst (open_role r s)"
  by (simp_all add: open_role_def version_of_def Let_def split: option.split repo_file.split)

lemma remembered_add_app: "remembered s \<Longrightarrow> remembered (snd (add_app lib B now a c s))"
proof (cases "app_role_policy a c")
  case (Inr policy)
  assume r: "remembered s"
  define role where "role = rp_name policy"
  let ?s = "s\<lparr>r_policies := (r_policies s)(role \<mapsto> policy)\<rparr>"
  have top: "role \<notin> set TOP_LEVEL_ROLES" using app_role_policy_name [OF Inr] by (simp add: role_def)
  note open_same = open_role_cong(1)
  have rs: "remembered ?s"
    using r top Inr role_def open_same
    by (auto simp: remembered_def policies_known_def roles_known_def payloads_apart_def delegated_now_def
        timestamp_counted_def version_of_def)
  let ?body = "add_delegation B role policy (be_keyids B role) a"
  consider "snd (edit B now TARGETS ?body ?s) = ?s" "\<exists>e. fst (edit B now TARGETS ?body ?s) = Inl e"
    | m tb where "edit B now TARGETS ?body ?s = (Inr (), closed TARGETS m ?s)" "md_signed m = STargets tb"
      "fst ` set (role_entries tb) = insert role (r_app_roles s)"
  proof (cases "edit B now TARGETS ?body ?s")
    case (Pair res s1)
    then show ?thesis
    proof (cases res)
      case (Inl e)
      with Pair have "s1 = ?s" by (cases rule: edit_cases) (auto dest: close_role_Inl)
      with Pair Inl that(1) show ?thesis by auto
    next
      case (Inr u)
      with Pair obtain md sd m where e: "open_role TARGETS ?s = (Inr md, ?s)" "?body (md_signed md) = Inr sd"
        "s1 = closed TARGETS m ?s" "md_signed m = sd" by (auto elim: edit_InrE)
      obtain tb where "md_signed md = STargets tb" "fst ` set (role_entries tb) = r_app_roles s"
        using rs e(1) by (auto simp: remembered_def delegated_now_def)
      with delegated_entries [OF e(2)] e(3,4) Pair Inr that(2) show ?thesis by force
    qed
  qed
  then show ?thesis
  proof cases
    case 1
    then show ?thesis using rs r Inr
      by (cases "edit B now TARGETS ?body ?s")
        (auto simp: add_app_def Let_def bindS_def liftS_def modifyS_def refuseS_def raiseS_def returnS_def role_def)
  next
    case 2
    let ?s1 = "(closed TARGETS m ?s)\<lparr>r_app_roles := insert role (r_app_roles s)\<rparr>"
    have c: "timestamp_counted (closed TARGETS m ?s)" "payloads_apart (closed TARGETS m ?s)"
      "roles_known (closed TARGETS m ?s)" "policies_known (closed TARGETS m ?s)"
      using rs closed_known by (simp_all add: remembered_def TOP_LEVEL_ROLES_def)
    have "fst (open_role TARGETS ?s1) = Inr m"
      using open_closed [of m ?s] by (simp add: open_role_cong)
    with c 2(2,3) Inr role_def have "remembered ?s1"
      by (auto simp: remembered_def policies_known_def roles_known_def payloads_apart_def delegated_now_def
          timestamp_counted_def version_of_def)
    then have "remembered (snd (edit B now role Inr ?s1))"
      using top by (intro remembered_edit) (auto simp: TOP_LEVEL_ROLES_def)
    moreover have "keeps remembered (bindS (publish lib B now) (\<lambda>_. returnS role))" by (intro keeps_intro)
    ultimately have "remembered (snd (bindS (edit B now role Inr) (\<lambda>_. bindS (publish lib B now) (\<lambda>_. returnS role)) ?s1))"
      by (rule keeps_after)
    moreover have "add_app lib B now a c s = (if be_keyids B role = []
        then (Inl (PublicationError ''no signing key available for delegated role''), ?s)
        else bindS (edit B now role Inr) (\<lambda>_. bindS (publish lib B now) (\<lambda>_. returnS role)) ?s1)"
      by (simp add: add_app_def Inr Let_def bindS_run [where m = "edit B now TARGETS ?body", OF 2(1)] flip: role_def)
    ultimately show ?thesis using rs by simp
  qed
qed (simp add: add_app_def bindS_def liftS_def)

lemma remembered_add_release:
  assumes "remembered s"
  shows "remembered (snd (add_release lib B sha now key payload info s))"
proof (cases "require_delegated (tk_app_id key) s")
  case (Pair r s1)
  show ?thesis
  proof (cases r)
    case (Inl e)
    then have "s1 = s" using Pair require_delegated_state [of "tk_app_id key" s] by simp
    with Pair Inl assms show ?thesis by (simp add: add_release_eq bindS_stop)
  next
    case (Inr role)
    with Pair have d: "app_role_name (tk_app_id key) = Inr role" "role \<in> r_app_roles s" "s1 = s"
      by (auto simp: require_delegated_Inr)
    then have "role \<noteq> TARGETS" using app_role_name_not_top [OF d(1)] by (auto simp: TOP_LEVEL_ROLES_def)
    with Pair Inr d assms show ?thesis by (simp add: add_release_eq bindS_run remembered_put)
  qed
qed

lemma remembered_set_current:
  assumes "remembered s" "repo_inv sha s"
  shows "remembered (snd (set_current lib B sha now key s))"
  using set_current_cases [OF assms(2), of lib B now key]
proof (elim disjE exE conjE)
  fix role p c cu
  assume "role \<in> r_app_roles s"
    and run: "set_current lib B sha now key s = put_and_publish lib B now role p (target_from_file sha c cu) c s"
  then show ?thesis
    unfolding run using assms(1) apps_not_top [OF assms(2)] by (simp add: remembered_put)
qed (simp add: assms(1))

lemma reachable_remembered:
  assumes "repo_reachable lib sha s" "tuf_contract lib"
  shows "remembered s"
  using assms(1)
proof (induction rule: repo_reachable.induct)
  case (call s B now op)
  have "repo_inv sha s" using call.hyps assms(2) by (rule reachable_inv)
  with call.IH show ?case
    by (cases op) (auto intro: remembered_add_release remembered_set_current remembered_add_app
        keepsD [OF remembered_initialize] keepsD [OF remembered_publish])
qed (rule remembered_fresh)

section \<open>Opening what was left behind\<close>

definition same_terms :: "role_policy \<Rightarrow> role_policy \<Rightarrow> bool" where
  "same_terms p q \<longleftrightarrow> rp_name p = rp_name q \<and> rp_threshold p = rp_threshold q
     \<and> rp_expiry p = rp_expiry q \<and> rp_key_count p = rp_key_count q"

lemma policy_from_app_role:
  assumes "app_role_policy a c = Inr p"
  shows "\<exists>q. policy_from_role_name (rp_name p) = Inr q \<and> same_terms p q"
  using assms
  by (auto simp: app_role_policy_Inr_iff policy_from_role_name_def APP_ROLE_PREFIX_def same_terms_def)

lemma register_apps_ok:
  "\<forall>n \<in> set names. returns (policy_from_role_name n) \<Longrightarrow>
   \<exists>s'. register_apps names s = Inr s' \<and> r_disk s' = r_disk s \<and> r_versions s' = r_versions s
     \<and> r_app_roles s' = r_app_roles s \<union> set names
     \<and> (\<forall>n. r_policies s n \<noteq> None \<longrightarrow> r_policies s' n = r_policies s n)
     \<and> (\<forall>n \<in> set names. r_policies s n = None \<longrightarrow> (\<exists>p. policy_from_role_name n = Inr p \<and> r_policies s' n = Some p))"
proof (induction names arbitrary: s)
  case (Cons n ns)
  obtain p where p: "policy_from_role_name n = Inr p" using Cons.prems by (auto simp: returns_iff)
  let ?s = "s\<lparr>r_app_roles := insert n (r_app_roles s), r_policies := (case r_policies s n of
      None \<Rightarrow> (r_policies s)(n \<mapsto> p) | Some _ \<Rightarrow> r_policies s)\<rparr>"
  obtain s' where IH: "register_apps ns ?s = Inr s'" "r_disk s' = r_disk ?s" "r_versions s' = r_versions ?s"
    "r_app_roles s' = r_app_roles ?s \<union> set ns"
    "\<And>k. r_policies ?s k \<noteq> None \<Longrightarrow> r_policies s' k = r_policies ?s k"
    "\<And>k. k \<in> set ns \<Longrightarrow> r_policies ?s k = None \<Longrightarrow> \<exists>q. policy_from_role_name k = Inr q \<and> r_policies s' k = Some q"
    using Cons.IH [of ?s] Cons.prems by auto
  have old: "r_policies s' k = r_policies s k" if "r_policies s k \<noteq> None" for k
    using IH(5) [of k] that by (auto split: option.splits)
  have new: "\<exists>q. policy_from_role_name k = Inr q \<and> r_policies s' k = Some q"
    if "k = n \<or> k \<in> set ns" "r_policies s k = None" for k
    using IH(5) [of k] IH(6) [of k] that p by (cases "k = n") (auto split: option.splits)
  have "register_apps (n # ns) s = Inr s'" using IH(1) p by simp
  moreover have "r_disk s' = r_disk s" "r_versions s' = r_versions s"
    "r_app_roles s' = r_app_roles s \<union> set (n # ns)" using IH(2-4) by auto
  ultimately show ?case using old new by auto
qed simp

lemma directory_known:
  assumes inv: "repo_inv sha s" and names: "names_ok s" and rem: "remembered s"
    and read: "\<forall>role \<in> r_app_roles s. readable role"
    and n: "''metadata/'' @ n \<in> dom (disk s)"
  shows "known s n"
proof -
  obtain f where f: "disk s (''metadata/'' @ n) = Some f" using n by blast
  have "\<not> (\<exists>c. f = Payload c)" using f rem by (auto simp: remembered_def payloads_apart_def)
  then obtain md where md: "disk s (''metadata/'' @ n) = Some (Meta md)" using f by (cases f) auto
  consider "''metadata/'' @ n \<in> mutable_names" | "numbered s (''metadata/'' @ n) md"
    using names md by (auto simp: names_ok_def)
  then show ?thesis
  proof cases
    case 1
    then consider "n = ''timestamp.json''" | "n = ''root.json''" by (auto simp: mutable_names_def)
    then show ?thesis
    proof cases
      case 1
      then have "disk s ''metadata/timestamp.json'' = Some (Meta md)" using md by simp
      moreover from this have "md_version md = version_of s TIMESTAMP" using names by (simp add: names_ok_def)
      moreover from this have "version_of s TIMESTAMP \<noteq> 0"
        using rem \<open>disk s ''metadata/timestamp.json'' = Some (Meta md)\<close>
        by (simp add: remembered_def timestamp_counted_def)
      ultimately show ?thesis using 1 by (auto simp: known_def)
    qed (simp add: known_def)
  next
    case 2
    then obtain role where r: "role \<noteq> TIMESTAMP" "n = filename role (md_version md)"
      "1 \<le> md_version md" "md_version md \<le> version_of s role"
      by (auto simp: numbered_def meta_name_def)
    then have "role \<in> dom (r_versions s)" by (auto simp: version_of_def split: option.splits)
    then have "role \<in> set TOP_LEVEL_ROLES \<union> r_app_roles s" using rem by (auto simp: remembered_def roles_known_def)
    then have "readable role" using read by (auto simp: readable_def TOP_LEVEL_ROLES_def role_name_defs newline_def)
    with r show ?thesis unfolding known_def by blast
  qed
qed

lemma scanned_versions:
  assumes inv: "repo_inv sha s" and names: "names_ok s" and rem: "remembered s"
    and read: "\<forall>role \<in> r_app_roles s. readable role"
    and ns: "set names = {n. ''metadata/'' @ n \<in> dom (disk s)}"
  shows "scan_names (disk s) (filter (suffix ''.json'') names) Map.empty = Inr (r_versions s)"
proof -
  let ?ns = "filter (suffix ''.json'') names"
  have "\<forall>n \<in> set ?ns. known s n" using ns by (auto intro: directory_known [OF inv names rem read])
  moreover have "no_later s Map.empty" by (simp add: no_later_def)
  ultimately obtain vs where vs: "scan_names (disk s) ?ns Map.empty = Inr vs" "no_later s vs"
    and seen: "\<And>role v. role \<noteq> TIMESTAMP \<Longrightarrow> readable role \<Longrightarrow> filename role v \<in> set ?ns \<Longrightarrow> at_least vs role v"
    and ts: "''timestamp.json'' \<in> set ?ns \<Longrightarrow> at_least vs TIMESTAMP (version_of s TIMESTAMP)"
    using scan_names_known [of ?ns s Map.empty] by blast
  have "vs role = r_versions s role" for role
  proof (cases "r_versions s role")
    case None
    then have "version_of s role = 0" by (simp add: version_of_def)
    with vs(2) have "vs role = None" by (cases "vs role") (fastforce simp: no_later_def)+
    with None show ?thesis by simp
  next
    case (Some v)
    then have v: "version_of s role = v" by (simp add: version_of_def)
    have "disk s (meta_name role v) \<noteq> None" using inv Some by (auto simp: repo_inv_def versions_ok_def)
    then have n: "filename role v \<in> set ?ns"
      using ns by (auto simp: meta_name_def filename_def suffix_def)
    have "role \<in> set TOP_LEVEL_ROLES \<union> r_app_roles s" using rem Some by (auto simp: remembered_def roles_known_def)
    then have "readable role" using read by (auto simp: readable_def TOP_LEVEL_ROLES_def role_name_defs newline_def)
    then have "at_least vs role v"
      using seen [of role v] n ts v by (cases "role = TIMESTAMP") (auto simp: filename_def)
    moreover have "vs role = Some w \<Longrightarrow> w \<le> v" for w using vs(2) v by (auto simp: no_later_def)
    ultimately show ?thesis using Some by (auto simp: at_least_def intro: order_antisym)
  qed
  then have "vs = r_versions s" by blast
  with vs(1) show ?thesis by simp
qed

lemma reopen_same:
  assumes lib: "tuf_contract lib" and reach: "repo_reachable lib sha s"
    and ns: "set names = {n. ''metadata/'' @ n \<in> dom (disk s)}"
    and nl: "\<forall>role \<in> r_app_roles s. newline \<notin> set role"
  shows "\<exists>s'. reopen names (r_disk s) = Inr s' \<and> r_disk s' = r_disk s \<and> r_versions s' = r_versions s
    \<and> r_app_roles s' = r_app_roles s
    \<and> (\<forall>role \<in> set TOP_LEVEL_ROLES \<union> r_app_roles s. \<exists>p q. r_policies s role = Some p
         \<and> r_policies s' role = Some q \<and> same_terms p q)"
proof -
  have inv: "repo_inv sha s" using reach lib by (rule reachable_inv)
  have rem: "remembered s" using reach lib by (rule reachable_remembered)
  have app: "\<exists>a c p. app_role_policy a c = Inr p \<and> rp_name p = role \<and> r_policies s role = Some p"
    if "role \<in> r_app_roles s" for role using rem that by (auto simp: remembered_def policies_known_def)
  have "role \<noteq> []" if "role \<in> r_app_roles s" for role
    using app [OF that] by (auto simp: app_role_policy_Inr_iff APP_ROLE_PREFIX_def)
  then have read: "\<forall>role \<in> r_app_roles s. readable role" using nl by (simp add: readable_def)
  have notop: "r_app_roles s \<inter> set TOP_LEVEL_ROLES = {}" using inv by (simp add: repo_inv_def apps_ok_def)
  note scan = scanned_versions [OF inv reachable_names_ok [OF reach] rem read ns]
  let ?s = "\<lparr>r_policies = map_of TOP_LEVEL_POLICIES, r_versions = r_versions s, r_app_roles = {}, r_disk = r_disk s\<rparr>"
  have op: "open_role TARGETS ?s = (fst (open_role TARGETS s), ?s)"
    by (simp add: open_role_def version_of_def Let_def split: option.split repo_file.split)
  have v: "version_of ?s TARGETS = version_of s TARGETS" by (simp add: version_of_def)
  have top: "\<forall>role \<in> set TOP_LEVEL_ROLES. r_policies s role = r_policies ?s role \<and> r_policies ?s role \<noteq> None"
    using rem by (auto simp: remembered_def policies_known_def TOP_LEVEL_ROLES_def TOP_LEVEL_POLICIES_def policy_defs)
  have none: "map_of TOP_LEVEL_POLICIES role = None" if "role \<in> r_app_roles s" for role
    using notop that by (auto simp: TOP_LEVEL_POLICIES_def policy_defs TOP_LEVEL_ROLES_def)
  obtain md tb where t: "fst (open_role TARGETS s) = Inr md" "md_signed md = STargets tb"
    "fst ` set (role_entries tb) = r_app_roles s" using rem by (auto simp: remembered_def delegated_now_def)
  let ?es = "map fst (role_entries tb)"
  have es: "set ?es = r_app_roles s" using t(3) by simp
  then have "\<forall>n \<in> set ?es. returns (policy_from_role_name n)"
    using app policy_from_app_role by (fastforce simp: returns_iff)
  then obtain s' where reg: "register_apps ?es ?s = Inr s'" "r_disk s' = r_disk ?s" "r_versions s' = r_versions ?s"
    "r_app_roles s' = r_app_roles ?s \<union> set ?es"
    and old: "\<forall>n. r_policies ?s n \<noteq> None \<longrightarrow> r_policies s' n = r_policies ?s n"
    and new: "\<forall>n \<in> set ?es. r_policies ?s n = None \<longrightarrow> (\<exists>p. policy_from_role_name n = Inr p \<and> r_policies s' n = Some p)"
    using register_apps_ok [of ?es ?s] by blast
  have pol: "\<exists>p q. r_policies s role = Some p \<and> r_policies s' role = Some q \<and> same_terms p q"
    if "role \<in> set TOP_LEVEL_ROLES \<union> r_app_roles s" for role
  proof (cases "role \<in> r_app_roles s")
    case True
    then obtain a c p where p: "app_role_policy a c = Inr p" "rp_name p = role" "r_policies s role = Some p"
      using app by blast
    with policy_from_app_role [OF p(1)] new True none es show ?thesis by force
  next
    case False
    with that top old show ?thesis by (auto simp: same_terms_def)
  qed
  show ?thesis
  proof (cases "version_of s TARGETS = 0")
    case True
    then have none: "r_app_roles s = {}" using inv by (auto simp: repo_inv_def apps_ok_def)
    have "reopen names (r_disk s) = Inr ?s" using scan True v by (simp add: reopen_def Let_def)
    moreover have "\<exists>p q. r_policies s role = Some p \<and> r_policies ?s role = Some q \<and> same_terms p q"
      if "role \<in> set TOP_LEVEL_ROLES \<union> r_app_roles s" for role
      using top that none by (auto simp: same_terms_def)
    ultimately show ?thesis using none by (intro exI [of _ ?s]) auto
  next
    case False
    then have "reopen names (r_disk s) = Inr s'" using scan v op t(1,2) reg(1) by (simp add: reopen_def Let_def)
    with reg(2-4) es pol show ?thesis by (intro exI [of _ s']) auto
  qed
qed

section \<open>Properties\<close>

lemma app_roles_close [keeps_intro]: "keeps (\<lambda>s. r_app_roles s = A) (close_role B now role md)"
  unfolding keeps_def using close_role_snd [of B now role md] closed_simps(2) by metis

lemma app_roles_publish: "r_app_roles (snd (publish lib B now s)) = r_app_roles s"
proof -
  have "keeps (\<lambda>t. r_app_roles t = r_app_roles s) (publish lib B now)"
    unfolding publish_def do_snapshot_def do_timestamp_def
    by (intro keeps_intro; split option.split; intro conjI impI allI keeps_intro)
  from keepsD [OF this, of s] show ?thesis by simp
qed

lemma app_roles_initialize: "r_app_roles (snd (initialize lib B now s)) = r_app_roles s"
proof -
  have "keeps (\<lambda>t. r_app_roles t = r_app_roles s) (initialize lib B now)"
    unfolding initialize_def edit_def publish_def do_snapshot_def do_timestamp_def
    by (intro keeps_intro; split option.split; intro conjI impI allI keeps_intro)
  from keepsD [OF this, of s] show ?thesis by simp
qed

lemma ref_app_roles: "r_app_roles ref_delegated = {''app-demo''}"
  using ref_delegated_ok(1)
proof (rule add_app_InrE)
  fix policy and s1 s2 :: repo
  assume "edit ref_keys 0 TARGETS (add_delegation ref_keys ''app-demo'' policy (be_keyids ref_keys ''app-demo'') ''demo'')
       (ref_initialised\<lparr>r_policies := (r_policies ref_initialised)(''app-demo'' \<mapsto> policy)\<rparr>) = (Inr (), s1)"
    and "edit ref_keys 0 ''app-demo'' Inr (s1\<lparr>r_app_roles := insert ''app-demo'' (r_app_roles s1)\<rparr>) = (Inr (), s2)"
    and "publish ref_lib ref_keys 0 s2 = (Inr (), ref_delegated)"
  moreover have "r_app_roles ref_initialised = {}"
    using app_roles_initialize [of ref_lib ref_keys 0 fresh_repo] by (simp add: ref_initialised_def fresh_repo_def)
  ultimately show ?thesis
    using app_roles_publish [of ref_lib ref_keys 0 s2] by (auto dest!: edit_app_roles)
qed



text \<open>A role name with a newline in it is forgotten: its files are not recognised, so a repository
  opened again would write version 1 of that role over the one that is there.\<close>

theorem newline_role_is_forgotten:
  assumes "app_role_name (a @ [newline]) = Inr role"
  shows "versioned (filename role v) = None"
  using assms app_role_name_not_top [OF assms]
  by (simp add: versioned_filename app_role_name_Inr_iff APP_ROLE_PREFIX_def TOP_LEVEL_ROLES_def)

theorem newline_role_is_forgotten_witness:
  "versioned (filename (APP_ROLE_PREFIX @ ''my-app'' @ [newline]) 1) = None"
proof -
  have "app_role_name (''my-app'' @ [newline]) = Inr (APP_ROLE_PREFIX @ ''my-app'' @ [newline])"
    by (rule app_role_name_newline) code_simp
  then show ?thesis by (rule newline_role_is_forgotten)
qed

end
