(* ===== verification/SignWorker.thy ===== *)
theory SignWorker
  imports Reopen StoreClaims Quarantine
begin

text \<open>
  \<^verbatim>\<open>packages/dist-sign/src/dist_sign/worker.py\<close>: the service that holds the online signing keys.

  Its state is the registry, which others change between its transactions (\<open>g_others\<close>), and the
  repository, to which it is the only writer while it runs; it reads the quarantine and never
  writes it.  \<open>g_files\<close> is the quarantine while the \<open>i\<close>-th job is signed: the artifact is hashed
  and then opened again to be copied, and the model takes both reads to see the same bytes, which
  is so as long as nothing but the ingest worker writes there, since that puts only bytes of a
  digest under its name.  \<open>sn_failed\<close>: the connection is in a failed transaction.  \<open>g_repr\<close> is
  Python's \<open>str\<close> of a JSON value that is no string.
\<close>

record sign_state =
  sn_db :: db
  sn_repo :: repo
  sn_log :: "(db \<times> db) list"
  sn_failed :: bool

record sign_env =
  g_lib :: tuf_lib
  g_backend :: backend
  g_sha :: "string \<Rightarrow> string"
  g_root :: string
  g_files :: "nat \<Rightarrow> fs"
  g_others :: "nat \<Rightarrow> db \<Rightarrow> db"
  g_clock :: "nat \<Rightarrow> int"
  g_locked :: "nat \<Rightarrow> nat set"
  g_repr :: "json \<Rightarrow> string"

definition CLAIMS :: "job_kind list" where "CLAIMS = [PUBLISH]"
definition SIGN_STALE_AFTER :: int where "SIGN_STALE_AFTER = 30 * 60"

section \<open>Starting\<close>

definition env_set :: "(string \<Rightarrow> string option) \<Rightarrow> string \<Rightarrow> bool" where
  "env_set env k \<longleftrightarrow> env k \<noteq> None \<and> env k \<noteq> Some []"

definition sign_keystore ::
  "(string \<Rightarrow> string option) \<Rightarrow> (string \<Rightarrow> bool) \<Rightarrow> (string \<Rightarrow> string res) \<Rightarrow> keepass_config res" where
  "sign_keystore env is_file read_text =
     (let database = (case env ''DIST_ONLINE_KDBX'' of None \<Rightarrow> ''/srv/keys/online.kdbx'' | Some d \<Rightarrow> d) in
      if \<not> is_file database then Inl (SigningConfigError ''no keystore'')
      else bindr (if env_set env ''DIST_ONLINE_KDBX_PASSWORD_FILE''
                  then bindr (read_text (the (env ''DIST_ONLINE_KDBX_PASSWORD_FILE''))) (\<lambda>t. Inr (Some (strip t)))
                  else Inr (if env_set env ''DIST_ONLINE_KDBX_PASSWORD'' then env ''DIST_ONLINE_KDBX_PASSWORD'' else None))
             (\<lambda>password.
           Inr \<lparr>kc_database = database, kc_password = password,
                kc_keyfile = (if env_set env ''DIST_ONLINE_KDBX_KEYFILE'' then env ''DIST_ONLINE_KDBX_KEYFILE'' else None)\<rparr>))"

definition quarantine_path :: "string \<Rightarrow> string \<Rightarrow> string" where
  "quarantine_path qroot sha256 = qroot @ ''/'' @ sha256 @ ''.bin''"

section \<open>Signing one artifact\<close>

definition str_of :: "(json \<Rightarrow> string) \<Rightarrow> json \<Rightarrow> string" where
  "str_of repr v = (case v of JStr s \<Rightarrow> s | _ \<Rightarrow> repr v)"

definition do_publish :: "sign_env \<Rightarrow> int \<Rightarrow> fs \<Rightarrow> source \<Rightarrow> dict \<Rightarrow> (repo, dict) sem" where
  "do_publish E now fs source payload =
     bindS (refuseS (\<not> truthy (get payload ''sha256'') \<or> \<not> truthy (get payload ''version'') \<or> \<not> truthy (get payload ''filename''))
         (PublicationError ''publish job carries no digest, version or file name'')) (\<lambda>_.
     let sha256 = str_of (g_repr E) (get payload ''sha256'') in
     case fs (quarantine_path (g_root E) sha256) of
       None \<Rightarrow> raiseS (PublicationError ''no quarantined artifact'')
     | Some artifact \<Rightarrow>
         bindS (refuseS (hexdigest (g_sha E) artifact \<noteq> sha256)
             (PublicationError ''quarantined artifact hashes to another digest; refusing to sign it'')) (\<lambda>_.
         bindS (liftS (app_role_name (so_app_id source))) (\<lambda>role.
         bindS (\<lambda>r. refuseS (role \<notin> r_app_roles r) (PublicationError ''no delegated role; the ceremony has not happened'') r) (\<lambda>_.
         bindS (liftS (TargetKey (so_app_id source) (so_channel source) (so_platform source) (so_arch source)
                  (str_of (g_repr E) (get payload ''version'')) (str_of (g_repr E) (get payload ''filename'')))) (\<lambda>key.
         bindS (liftS (ReleaseInfo (tk_version key) JNull JNull JNull False 100)) (\<lambda>info.
         bindS (add_release (g_lib E) (g_backend E) (g_sha E) now key artifact info) (\<lambda>_.
         bindS (set_current (g_lib E) (g_backend E) (g_sha E) now key) (\<lambda>pointer.
         returnS [(''target'', JStr (path key)), (''pointer'', JStr pointer),
                  (''version'', JStr (tk_version key)), (''sha256'', JStr sha256)]))))))))"

section \<open>The loop\<close>

definition on_registry :: "sign_env \<Rightarrow> (nat \<Rightarrow> (db, 'a) sem) \<Rightarrow> (sign_state, 'a) sem" where
  "on_registry E f = (\<lambda>s.
     let i = length (sn_log s); d = g_others E i (sn_db s) in
     case on_connection (sn_failed s) (f i) d of (r, d', failed) \<Rightarrow>
       (r, s\<lparr>sn_db := d', sn_log := (d, d') # sn_log s, sn_failed := failed\<rparr>))"

definition on_repo :: "(nat \<Rightarrow> (repo, 'a) sem) \<Rightarrow> (sign_state, 'a) sem" where
  "on_repo m = (\<lambda>s. case m (length (sn_log s)) (sn_repo s) of (r, p) \<Rightarrow> (r, s\<lparr>sn_repo := p\<rparr>))"

definition publish_body :: "sign_env \<Rightarrow> source \<Rightarrow> job \<Rightarrow> (sign_state, unit) sem" where
  "publish_body E source job =
     bindS (on_repo (\<lambda>i. do_publish E (g_clock E i) (g_files E i) source (jo_payload job))) (\<lambda>result.
     bindS (on_registry E (\<lambda>i. audit (g_clock E i) ''signer'' ''release.published'' (Some (so_id source)) result)) (\<lambda>_.
     on_registry E (\<lambda>i. finish_job (g_clock E i) (jo_id job) DONE (Some result) None)))"

definition sign_run_job :: "sign_env \<Rightarrow> (exn \<Rightarrow> string) \<Rightarrow> job \<Rightarrow> (sign_state, unit) sem" where
  "sign_run_job E message job =
     bindS (on_registry E (\<lambda>i. get_source (jo_source_id job))) (\<lambda>source. case source of
       None \<Rightarrow> on_registry E (\<lambda>i. finish_job (g_clock E i) (jo_id job) FAILED None (Some ''source was deleted''))
     | Some source \<Rightarrow> (\<lambda>s. case publish_body E source job s of
           (Inl e, s') \<Rightarrow> on_registry E (\<lambda>i. finish_job (g_clock E i) (jo_id job) FAILED None (Some (message e))) s'
         | (Inr x, s') \<Rightarrow> (Inr x, s')))"

definition sign_tick :: "sign_env \<Rightarrow> (exn \<Rightarrow> string) \<Rightarrow> (sign_state, bool) sem" where
  "sign_tick E message =
     bindS (on_registry E (\<lambda>i. reset_stale_jobs (g_clock E i) SIGN_STALE_AFTER)) (\<lambda>_.
     bindS (on_registry E (\<lambda>i. claim_job (g_clock E i) (g_locked E i) CLAIMS)) (\<lambda>job.
     case job of
       None \<Rightarrow> returnS False
     | Some j \<Rightarrow> bindS (sign_run_job E message j) (\<lambda>_. returnS True)))"

text \<open>One round of \<open>main\<close>'s loop, whose exceptions are dropped with the connection: the next round gets
  one that the pool has rolled back.\<close>

definition sign_round :: "sign_env \<Rightarrow> (exn \<Rightarrow> string) \<Rightarrow> (sign_state, bool) sem" where
  "sign_round E message s = sign_tick E message (s\<lparr>sn_failed := False\<rparr>)"

fun sign_loop :: "nat \<Rightarrow> sign_env \<Rightarrow> (exn \<Rightarrow> string) \<Rightarrow> sign_state \<Rightarrow> sign_state" where
  "sign_loop 0 E message s = s"
| "sign_loop (Suc n) E message s = sign_loop n E message (snd (sign_round E message s))"

text \<open>\<open>main\<close>: refuse to start without an open keystore, open the repository in the directory, then the
  loop.  \<open>names\<close> is what its metadata directory lists.\<close>

definition sign_main ::
  "(string \<Rightarrow> string option) \<Rightarrow> (string \<Rightarrow> bool) \<Rightarrow> (string \<Rightarrow> string res) \<Rightarrow> string option \<Rightarrow> (string \<Rightarrow> string) \<Rightarrow>
     (string \<Rightarrow> string res) \<Rightarrow> 'd file_map \<Rightarrow> string list \<Rightarrow> nat \<Rightarrow> sign_env \<Rightarrow> (exn \<Rightarrow> string) \<Rightarrow> (sign_state, nat) sem" where
  "sign_main env is_file read_text ENV resolved_parent derive files names rounds E message = (\<lambda>s.
     case bindr (sign_keystore env is_file read_text) (\<lambda>config. open_keepass ENV resolved_parent derive config files) of
       Inl (SigningConfigError _) \<Rightarrow> (Inr 1, s)
     | Inl (KeyMaterialError _) \<Rightarrow> (Inr 1, s)
     | Inl e \<Rightarrow> (Inl e, s)
     | Inr B \<Rightarrow> (case reopen names (r_disk (sn_repo s)) of
           Inl e \<Rightarrow> (Inl e, s)
         | Inr p \<Rightarrow> (Inr 0, sign_loop rounds (E\<lparr>g_backend := B\<rparr>) message (s\<lparr>sn_repo := p\<rparr>))))"

section \<open>Facts\<close>

text \<open>The path mirrors the ingest worker's.\<close>

lemma quarantine_path_eq: "quarantine_path (q_root q) sha256 = qpath q sha256"
  by (simp add: quarantine_path_def qpath_def)

text \<open>A release that is added and made current: both are found by one walk.\<close>

lemma release_and_pointer:
  assumes inv: "repo_inv sha s" and lib: "tuf_contract lib" and wf: "wf_target_key key"
    and add: "add_release lib B sha now key payload info s = (Inr p, s1)"
    and cur: "set_current lib B sha now' key s1 = (Inr q, s2)"
  shows "\<exists>role c tf body i. app_role_name (tk_app_id key) = Inr role
    \<and> client_lookup (disk s2) role (path key) = Some (target_from_file sha payload (to_custom info))
    \<and> ChannelKey (tk_app_id key) (tk_channel key) (tk_platform key) (tk_arch key) = Inr c \<and> q = pointer_path c
    \<and> client_lookup (disk s2) role q = Some tf \<and> disk s2 (payload_name q (tf_sha256 tf)) = Some (Payload body)
    \<and> body = to_json \<lparr>cr_target_path = path key, cr_version = tk_version key\<rparr>
    \<and> from_json body = Inr \<lparr>cr_target_path = path key, cr_version = tk_version key\<rparr>
    \<and> ReleaseInfo (tk_version key) JNull JNull JNull False 100 = Inr i \<and> tf = target_from_file sha body (to_custom i)
    \<and> snapshot_current s2 \<and> timestamp_current s2 \<and> role \<in> r_app_roles s2 \<and> version_of s2 role \<noteq> 0"
proof -
  obtain role where role: "app_role_name (tk_app_id key) = Inr role" "role \<in> r_app_roles s"
    and put: "put_and_publish lib B now role (path key) (target_from_file sha payload (to_custom info)) payload s = (Inr p, s1)"
    using add by (auto simp: add_release_eq require_delegated_Inr elim!: bindS_InrE split: if_splits)
  obtain md tb where md: "open_role role s = (Inr md, s)" "md_signed md = STargets tb"
    by (rule open_app_role [OF inv role(2)])
  have sha: "tf_sha256 (target_from_file sha payload (to_custom info)) = hexdigest sha payload"
    by (simp add: target_from_file_def)
  note found1 = put_and_publish_found [OF inv lib role(2) sha put md]
  have inv1: "repo_inv sha s1" using add_release_inv [OF inv lib, of B now key payload info] add by simp
  show ?thesis
  proof (rule set_current_InrE [OF cur])
    fix role' channel md' tb' pointer info'
    assume a: "app_role_name (tk_app_id key) = Inr role'" "role' \<in> r_app_roles s1"
      "ChannelKey (tk_app_id key) (tk_channel key) (tk_platform key) (tk_arch key) = Inr channel"
      and b: "open_role role' s1 = (Inr md', s1)" "md_signed md' = STargets tb'"
      and cr: "CurrentRelease (path key) (tk_version key) = Inr pointer"
      and ri: "ReleaseInfo (tk_version key) JNull JNull JNull False 100 = Inr info'"
      and put2: "put_and_publish lib B now' role' (pointer_path channel)
         (target_from_file sha (to_json pointer) (to_custom info')) (to_json pointer) s1 = (Inr q, s2)"
    have r: "role' = role" using a(1) role(1) by simp
    have tb': "tb_targets tb' (path key) = Some (target_from_file sha payload (to_custom info))"
      using found1 b by (auto simp: r)
    have ch: "wf_channel_key channel" using a(3) by (auto simp: own_channel)
    have ne: "path key \<noteq> pointer_path channel" using wf ch by (rule path_not_pointer)
    have sha2: "tf_sha256 (target_from_file sha (to_json pointer) (to_custom info')) = hexdigest sha (to_json pointer)"
      by (simp add: target_from_file_def)
    note found2 = put_and_publish_found [OF inv1 lib a(2) sha2 put2 b]
    have ptr: "pointer = \<lparr>cr_target_path = path key, cr_version = tk_version key\<rparr>"
      using cr by (auto simp: CurrentRelease_def bindr_eq_Inr_iff)
    have v: "version_of s2 role \<noteq> 0"
    proof
      assume z: "version_of s2 role = 0"
      obtain m where "open_role role s2 = (Inr m, s2)" "md_signed m = STargets (tb'\<lparr>tb_targets := (tb_targets tb')(pointer_path channel \<mapsto>
          target_from_file sha (to_json pointer) (to_custom info'))\<rparr>)" using found2 by (auto simp: r)
      then have "\<lparr>tb_targets = Map.empty, tb_delegations = None\<rparr> = tb'\<lparr>tb_targets := (tb_targets tb')(pointer_path channel \<mapsto>
          target_from_file sha (to_json pointer) (to_custom info'))\<rparr>" using z
        by (auto simp: open_role_def initial_def split: if_splits)
      from arg_cong [OF this, of "\<lambda>b. tb_targets b (pointer_path channel)"] show False by simp
    qed
    have apps: "role \<in> r_app_roles s2" "snapshot_current s2" "timestamp_current s2" using found2 a(2) by (simp_all add: r)
    show ?thesis using found2 ne tb' a from_to_json [OF cr] ptr role(1) ri v apps
      by (intro exI [of _ role] exI [of _ channel] exI [of _ "target_from_file sha (to_json pointer) (to_custom info')"]
          exI [of _ "to_json pointer"] exI [of _ info']) (auto simp: r)
  qed
qed

lemma do_publish_InrE:
  assumes "do_publish E now fs source payload s = (Inr result, s')"
  obtains sha256 artifact key info p q s1 where
    "str_of (g_repr E) (get payload ''sha256'') = sha256" "fs (quarantine_path (g_root E) sha256) = Some artifact"
    "hexdigest (g_sha E) artifact = sha256"
    "TargetKey (so_app_id source) (so_channel source) (so_platform source) (so_arch source)
       (str_of (g_repr E) (get payload ''version'')) (str_of (g_repr E) (get payload ''filename'')) = Inr key"
    "ReleaseInfo (tk_version key) JNull JNull JNull False 100 = Inr info"
    "add_release (g_lib E) (g_backend E) (g_sha E) now key artifact info s = (Inr p, s1)"
    "set_current (g_lib E) (g_backend E) (g_sha E) now key s1 = (Inr q, s')"
    "result = [(''target'', JStr (path key)), (''pointer'', JStr q), (''version'', JStr (tk_version key)), (''sha256'', JStr sha256)]"
  using assms unfolding do_publish_def Let_def
  by (auto simp: bindS_eq_Inr_iff split: option.splits if_splits)

end
