(* ===== verification/SignWorkerClaims.thy ===== *)
theory SignWorkerClaims
  imports SignWorker Sources
begin

text \<open>
  What the signing worker can and cannot do, over every registry, quarantine and key store it may
  run with: it signs exactly the approved bytes, it never signs \<open>root\<close> or \<open>targets\<close>, and every
  claimed job ends.
\<close>

section \<open>Whatever a client finds can be downloaded\<close>

lemma found_payload:
  assumes "repo_inv sha s" "client_lookup (disk s) role p = Some tf"
  shows "\<exists>c. disk s (payload_name p (tf_sha256 tf)) = Some (Payload c) \<and> hexdigest sha c = tf_sha256 tf"
proof -
  have "client_consistent sha (disk s)" using assms(1) by (simp add: repo_inv_def always_now)
  moreover obtain name md tb where "disk s name = Some (Meta md)" "md_signed md = STargets tb" "tb_targets tb p = Some tf"
    using assms(2) by (auto simp: client_lookup_def split: option.splits repo_file.splits signed.splits)
  ultimately show ?thesis unfolding client_consistent_def payloads_on_def by blast
qed

section \<open>The repository under a running worker\<close>

text \<open>A publish is the release and the pointer of one key, or nothing.\<close>

lemma do_publish_steps:
  "do_publish E now fs source payload s = (x, s') \<Longrightarrow> s' = s \<or>
     (\<exists>key artifact info. s' = repo_step (g_lib E) (g_sha E) (g_backend E) now (AddRelease key artifact info) s
        \<and> tk_app_id key = so_app_id source)
   \<or> (\<exists>key artifact info. s' = repo_step (g_lib E) (g_sha E) (g_backend E) now (SetCurrent key)
          (repo_step (g_lib E) (g_sha E) (g_backend E) now (AddRelease key artifact info) s)
        \<and> tk_app_id key = so_app_id source)"
  unfolding do_publish_def Let_def
  by (auto simp: bindS_def refuseS_def raiseS_def returnS_def liftS_def TargetKey_def bindr_def
      split: if_splits option.splits sum.splits prod.splits) (metis snd_conv target_key.select_convs(1))+

lemma release_keeps_other_roles:
  assumes "r \<noteq> SNAPSHOT" "r \<noteq> TIMESTAMP" "app_role_name (tk_app_id key) \<noteq> Inr r"
  shows "same_role s (snd (add_release lib B sha now key payload info s)) r"
    "same_role s (snd (set_current lib B sha now key s)) r"
proof -
  have put: "same_role s (snd (bindS (require_delegated (tk_app_id key)) f s)) r"
    if "\<And>role s'. role \<noteq> r \<Longrightarrow> same_role s' (snd (f role s')) r" for f :: "string \<Rightarrow> (repo, string) sem"
    using that assms(3)
    by (auto simp: bindS_def require_delegated_def liftS_def refuseS_def raiseS_def returnS_def split: sum.splits prod.splits)
  show "same_role s (snd (add_release lib B sha now key payload info s)) r"
    using assms(1,2) by (auto simp: add_release_eq intro!: put put_and_publish_same)
  show "same_role s (snd (set_current lib B sha now key s)) r"
    using assms(1,2) unfolding set_current_eq
    by (intro put bindS_same put_and_publish_same)
      (auto simp: refuseS_def raiseS_def returnS_def open_role_def Let_def split: signed.split option.split repo_file.split)
qed

lemma do_publish_frame:
  assumes "do_publish E now fs source payload s = (x, s')"
  shows do_publish_same: "r \<noteq> SNAPSHOT \<Longrightarrow> r \<noteq> TIMESTAMP \<Longrightarrow> app_role_name (so_app_id source) \<noteq> Inr r \<Longrightarrow> same_role s s' r"
    and do_publish_reachable: "repo_reachable (g_lib E) (g_sha E) s \<Longrightarrow> repo_reachable (g_lib E) (g_sha E) s'"
proof -
  consider (none) "s' = s"
    | (added) key a i where "s' = repo_step (g_lib E) (g_sha E) (g_backend E) now (AddRelease key a i) s"
        "tk_app_id key = so_app_id source"
    | (current) key a i where "s' = repo_step (g_lib E) (g_sha E) (g_backend E) now (SetCurrent key)
          (repo_step (g_lib E) (g_sha E) (g_backend E) now (AddRelease key a i) s)"
        "tk_app_id key = so_app_id source"
    using do_publish_steps [OF assms] by blast
  note cases = this
  show "same_role s s' r" if "r \<noteq> SNAPSHOT" "r \<noteq> TIMESTAMP" "app_role_name (so_app_id source) \<noteq> Inr r"
    using cases
  proof cases
    case (current key a i)
    let ?s1 = "snd (add_release (g_lib E) (g_backend E) (g_sha E) now key a i s)"
    have "same_role s ?s1 r" "same_role ?s1 s' r"
      using current that release_keeps_other_roles [of r key] by simp_all
    then show ?thesis by (rule same_role_trans)
  qed (use that release_keeps_other_roles in simp_all)
  show "repo_reachable (g_lib E) (g_sha E) s'" if "repo_reachable (g_lib E) (g_sha E) s"
    using cases that by cases (auto simp del: repo_step.simps intro: repo_reachable.intros)
qed

section \<open>The loop\<close>

text \<open>Every registry transaction leaves the repository alone; a publish is what the job's source names.\<close>

lemma on_registry_repo [simp]: "on_registry E f s = (r, s') \<Longrightarrow> sn_repo s' = sn_repo s"
  by (auto simp: on_registry_def Let_def split: prod.splits)

lemma sign_tick_steps:
  assumes "sign_tick E message s = (r, s')"
  shows "sn_repo s' = sn_repo s \<or> (\<exists>source now fs payload x.
    do_publish E now fs source payload (sn_repo s) = (x, sn_repo s'))"
  using assms unfolding sign_tick_def sign_run_job_def publish_body_def on_repo_def bindS_def returnS_def
  by (auto split: prod.splits sum.splits option.splits)

lemma sign_loop_frame:
  "repo_reachable (g_lib E) (g_sha E) (sn_repo s) \<Longrightarrow> r \<in> {ROOT, TARGETS} \<Longrightarrow>
     repo_reachable (g_lib E) (g_sha E) (sn_repo (sign_loop n E message s))
     \<and> same_role (sn_repo s) (sn_repo (sign_loop n E message s)) r"
proof (induction n arbitrary: s)
  case (Suc n)
  obtain x s1 where t: "sign_round E message s = (x, s1)" by (cases "sign_round E message s")
  then have tick: "sign_tick E message (s\<lparr>sn_failed := False\<rparr>) = (x, s1)" by (simp add: sign_round_def)
  have "repo_reachable (g_lib E) (g_sha E) (sn_repo s1) \<and> same_role (sn_repo s) (sn_repo s1) r"
    using sign_tick_steps [OF tick, simplified]
  proof
    assume "\<exists>source now fs payload y. do_publish E now fs source payload (sn_repo s) = (y, sn_repo s1)"
    then obtain source now fs payload y where p: "do_publish E now fs source payload (sn_repo s) = (y, sn_repo s1)" by blast
    have r: "r \<noteq> SNAPSHOT" "r \<noteq> TIMESTAMP" "app_role_name (so_app_id source) \<noteq> Inr r"
      using Suc.prems(2) by (auto simp: role_name_defs app_role_name_def APP_ROLE_PREFIX_def split: if_splits)
    show ?thesis
      using do_publish_reachable [OF p Suc.prems(1)] do_publish_same [OF p r] by simp
  qed (use Suc.prems in auto)
  with Suc.IH [of s1] Suc.prems(2) t show ?case by (auto intro: same_role_trans)
qed simp

section \<open>Properties\<close>

definition ref_digest :: string where "ref_digest = hexdigest ref_sha []"

lemma ref_digest [simp]: "hexdigest ref_sha c = ref_digest" "ref_digest \<noteq> []"
  by (simp_all add: ref_digest_def hexdigest_def ref_sha_def)

definition ex_signer :: sign_env where
  "ex_signer = \<lparr>g_lib = ref_lib, g_backend = ref_keys, g_sha = ref_sha, g_root = ''/q'',
     g_files = (\<lambda>_. [quarantine_path ''/q'' ref_digest \<mapsto> ''payload'']), g_others = (\<lambda>_ d. d), g_clock = (\<lambda>_. 0),
     g_locked = (\<lambda>_. {}), g_repr = (\<lambda>_. ''None'')\<rparr>"

definition ex_signed_source :: source where
  "ex_signed_source = ex_gh_source\<lparr>so_app_id := ''demo'', so_arch := ''amd64''\<rparr>"

definition ex_approval :: dict where
  "ex_approval = [(''sha256'', JStr ref_digest), (''version'', JStr ''1.0''), (''filename'', JStr ''demo.zip'')]"

lemma ex_do_publish:
  "\<exists>result s'. do_publish ex_signer 0 (g_files ex_signer 0) ex_signed_source ex_approval ref_delegated = (Inr result, s')"
proof -
  obtain p s' where "set_current ref_lib ref_keys ref_sha 0 ref_key ref_released = (Inr p, s')"
    using ref_current_ok [of 0] by blast
  moreover have "TargetKey ''demo'' ''stable'' ''linux'' ''amd64'' ''1.0'' ''demo.zip'' = Inr ref_key"
    "ReleaseInfo ''1.0'' JNull JNull JNull False 100 = Inr ref_info"
    by code_simp+
  moreover have "tk_version ref_key = ''1.0''" by (simp add: ref_key_def)
  ultimately show ?thesis using ref_released_ok ref_delegated_ok(2) ref_role
    by (simp add: do_publish_def ex_signer_def ex_signed_source_def ex_approval_def ex_gh_source_def get_def
        str_of_def bindS_def liftS_def refuseS_def returnS_def)
qed

text \<open>C11: What the signing worker publishes is what was approved: when a publish job ends without an
  error, the bytes in quarantine hash to the digest of the job's payload, and a client walking
  from the timestamp finds the release of the job's source, version and file name with that
  digest and can download bytes with it, and finds the channel's pointer, whose document names
  that release.\<close>

theorem published_is_what_was_approved:
  assumes "tuf_contract (g_lib E)" "repo_reachable (g_lib E) (g_sha E) s"
    and "do_publish E now fs source payload s = (Inr result, s')"
  shows "\<exists>artifact key role c tf body bytes. fs (quarantine_path (g_root E) (str_of (g_repr E) (get payload ''sha256''))) = Some artifact
    \<and> hexdigest (g_sha E) artifact = str_of (g_repr E) (get payload ''sha256'')
    \<and> TargetKey (so_app_id source) (so_channel source) (so_platform source) (so_arch source)
        (str_of (g_repr E) (get payload ''version'')) (str_of (g_repr E) (get payload ''filename'')) = Inr key
    \<and> app_role_name (so_app_id source) = Inr role
    \<and> map_option tf_sha256 (client_lookup (disk s') role (path key)) = Some (hexdigest (g_sha E) artifact)
    \<and> disk s' (payload_name (path key) (hexdigest (g_sha E) artifact)) = Some (Payload bytes)
    \<and> hexdigest (g_sha E) bytes = hexdigest (g_sha E) artifact
    \<and> ChannelKey (so_app_id source) (so_channel source) (so_platform source) (so_arch source) = Inr c
    \<and> client_lookup (disk s') role (pointer_path c) = Some tf
    \<and> disk s' (payload_name (pointer_path c) (tf_sha256 tf)) = Some (Payload body)
    \<and> from_json body = Inr \<lparr>cr_target_path = path key, cr_version = tk_version key\<rparr>"
  using assms(3)
proof (rule do_publish_InrE)
  fix sha256 artifact key info p q s1
  assume d: "str_of (g_repr E) (get payload ''sha256'') = sha256" "fs (quarantine_path (g_root E) sha256) = Some artifact"
    "hexdigest (g_sha E) artifact = sha256"
    and k: "TargetKey (so_app_id source) (so_channel source) (so_platform source) (so_arch source)
       (str_of (g_repr E) (get payload ''version'')) (str_of (g_repr E) (get payload ''filename'')) = Inr key"
    and a: "add_release (g_lib E) (g_backend E) (g_sha E) now key artifact info s = (Inr p, s1)"
    and c: "set_current (g_lib E) (g_backend E) (g_sha E) now key s1 = (Inr q, s')"
  have wf: "wf_target_key key" using k by (rule wf_TargetKey)
  have key: "tk_app_id key = so_app_id source" "tk_channel key = so_channel source"
    "tk_platform key = so_platform source" "tk_arch key = so_arch source"
    using k by (auto simp: TargetKey_Inr_iff)
  have inv': "repo_inv (g_sha E) s'"
    using reachable_inv [OF do_publish_reachable [OF assms(3,2)] assms(1)] .
  obtain role ck tf body where r: "app_role_name (tk_app_id key) = Inr role"
    "client_lookup (disk s') role (path key) = Some (target_from_file (g_sha E) artifact (to_custom info))"
    "ChannelKey (tk_app_id key) (tk_channel key) (tk_platform key) (tk_arch key) = Inr ck" "q = pointer_path ck"
    "client_lookup (disk s') role q = Some tf" "disk s' (payload_name q (tf_sha256 tf)) = Some (Payload body)"
    "from_json body = Inr \<lparr>cr_target_path = path key, cr_version = tk_version key\<rparr>"
    using release_and_pointer [OF reachable_inv [OF assms(2,1)] assms(1) wf a c] by blast
  obtain bytes where "disk s' (payload_name (path key) (hexdigest (g_sha E) artifact)) = Some (Payload bytes)"
    "hexdigest (g_sha E) bytes = hexdigest (g_sha E) artifact"
    using found_payload [OF inv' r(2)] by (auto simp: target_from_file_def)
  with d k r show ?thesis unfolding d(1) key
    by (intro exI [of _ artifact] exI [of _ key] exI [of _ role] exI [of _ ck] exI [of _ tf] exI [of _ body] exI [of _ bytes])
      (simp add: target_from_file_def)
qed

theorem published_is_what_was_approved_witness:
  "\<exists>result s' key. do_publish ex_signer 0 (g_files ex_signer 0) ex_signed_source ex_approval ref_delegated = (Inr result, s')
     \<and> map_option tf_sha256 (client_lookup (disk s') ''app-demo'' (path key)) = Some ref_digest"
proof -
  obtain result s' where p: "do_publish ex_signer 0 (g_files ex_signer 0) ex_signed_source ex_approval ref_delegated = (Inr result, s')"
    using ex_do_publish by blast
  have "repo_reachable (g_lib ex_signer) (g_sha ex_signer) ref_delegated" "tuf_contract (g_lib ex_signer)"
    using ref_reachable(2) ref_lib_contract by (simp_all add: ex_signer_def)
  note published = published_is_what_was_approved [OF this(2,1) p]
  have "str_of (g_repr ex_signer) (get ex_approval ''sha256'') = ref_digest" "so_app_id ex_signed_source = ''demo''"
    by (simp_all add: ex_approval_def ex_signed_source_def str_of_def get_def)
  with published have "\<exists>key. map_option tf_sha256 (client_lookup (disk s') ''app-demo'' (path key)) = Some ref_digest"
    using ref_role by fastforce
  with p show ?thesis by blast
qed

text \<open>C13: However long the signing worker runs, over whatever registry and quarantine, and whether its
  jobs succeed or fail, it never signs \<open>root\<close> or \<open>targets\<close>: both keep their version and content,
  so no delegation appears.  The repository stays one its operations can reach, and every state it
  passes through is consistent for a client.\<close>

theorem signer_keeps_offline_roles:
  assumes "tuf_contract (g_lib E)" "repo_reachable (g_lib E) (g_sha E) (sn_repo s)"
  shows "same_role (sn_repo s) (sn_repo (sign_loop n E message s)) ROOT
    \<and> same_role (sn_repo s) (sn_repo (sign_loop n E message s)) TARGETS
    \<and> always (client_consistent (g_sha E)) (r_disk (sn_repo (sign_loop n E message s)))"
proof -
  have f: "repo_reachable (g_lib E) (g_sha E) (sn_repo (sign_loop n E message s))
      \<and> same_role (sn_repo s) (sn_repo (sign_loop n E message s)) r" if "r \<in> {ROOT, TARGETS}" for r
    using assms(2) that by (rule sign_loop_frame)
  have "repo_inv (g_sha E) (sn_repo (sign_loop n E message s))"
    by (rule reachable_inv [OF _ assms(1)]) (use f in blast)
  with f show ?thesis by (auto simp: repo_inv_def)
qed

theorem signer_keeps_offline_roles_witness:
  "same_role ref_delegated (sn_repo (sign_loop 3 ex_signer (\<lambda>e. []) \<lparr>sn_db = empty_db, sn_repo = ref_delegated, sn_log = [], sn_failed = False\<rparr>)) TARGETS"
  using signer_keeps_offline_roles [of ex_signer "\<lparr>sn_db = empty_db, sn_repo = ref_delegated, sn_log = [], sn_failed = False\<rparr>" 3 "\<lambda>e. []"]
    ref_reachable(2) ref_lib_contract by (simp add: ex_signer_def)

end
