(* ===== verification/Versions.thy ===== *)
theory Versions
  imports SignWorkerClaims
begin

text \<open>
  How far the version of a role can grow: every operation of the repository signs a role a bounded
  number of times, so version numbers stay small for as long as the number of operations does.
  The client's boundary carries versions in 32 bits.
\<close>

section \<open>How far versions grow\<close>

abbreviation "grows_version r n m \<equiv> grows (\<lambda>s. version_of s r) n m"

lemma grows_state: "(\<And>s. snd (m s) = s) \<Longrightarrow> grows f n m"
  by (simp add: grows_def)

lemma grows_same: "(\<And>s. version_of (snd (m s)) r = version_of s r) \<Longrightarrow> grows_version r n m"
  by (simp add: grows_def)

lemma grows_close_role: "grows_version r 1 (close_role B now role md)"
  unfolding grows_def
proof
  fix s
  obtain x s' where c: "close_role B now role md s = (x, s')" by fastforce
  then have "s' = s \<or> (\<exists>m. s' = closed role m s)" by (cases x) (auto dest: close_role_Inl simp: close_role_Inr)
  with c show "version_of (snd (close_role B now role md s)) r \<le> version_of s r + 1"
    by (auto simp: version_of_closed)
qed

lemma grows_read: "(\<And>s. version_of (snd (m s)) r = version_of s r) \<Longrightarrow> (\<And>x. grows_version r n (g x)) \<Longrightarrow> grows_version r n (bindS m g)"
  by (rule grows_bindS [where a = 0 and b = n]) (simp_all add: grows_same)

lemma grows_then: "grows_version r a m \<Longrightarrow> (\<And>x. grows_version r b (g x)) \<Longrightarrow> n = a + b \<Longrightarrow> grows_version r n (bindS m g)"
  by (rule grows_bindS [where a = a and b = b]) simp_all

lemma grows_done: "grows_version r a m \<Longrightarrow> grows_version r a (bindS m (\<lambda>_. returnS x))"
  by (rule grows_then [where b = 0]) simp_all

lemma version_of_update [simp]: "version_of (s\<lparr>r_policies := p\<rparr>) = version_of s" "version_of (s\<lparr>r_app_roles := a\<rparr>) = version_of s"
  by (auto simp: version_of_def fun_eq_iff)

lemma grows_edit: "grows_version r 1 (edit B now role body)"
  unfolding edit_def by (intro grows_read grows_close_role) simp_all

lemma grows_do_snapshot: "grows_version r 1 (do_snapshot lib B now)"
  unfolding do_snapshot_def by (intro grows_read) (auto split: option.split intro: grows_close_role [unfolded One_nat_def])

lemma grows_do_timestamp: "grows_version r 1 (do_timestamp lib B now)"
  unfolding do_timestamp_def by (intro grows_read) (auto split: option.split intro: grows_close_role [unfolded One_nat_def])

lemma grows_publish: "grows_version r 2 (publish lib B now)"
  unfolding publish_def by (rule grows_then [OF grows_do_snapshot grows_do_timestamp]) simp

lemma grows_put_and_publish: "grows_version r 3 (put_and_publish lib B now role p tf c)"
  unfolding put_and_publish_def
  by (intro grows_read grows_then [OF grows_edit, where b = 2] grows_done grows_publish) (simp_all add: store_payload_state)

lemma grows_initialize: "grows_version r 4 (initialize lib B now)"
  unfolding initialize_def
  by (intro grows_read grows_then [OF grows_edit, where b = 3] grows_then [OF grows_edit, where b = 2] grows_publish) simp_all

lemma grows_add_app: "grows_version r 4 (add_app lib B now app_id critical)"
  unfolding add_app_def Let_def
  by (intro grows_read grows_then [OF grows_edit, where b = 3] grows_then [OF grows_edit, where b = 2] grows_done grows_publish)
    (simp_all add: modifyS_def liftS_def)

lemma grows_add_release: "grows_version r 3 (add_release lib B sha now key payload info)"
  unfolding add_release_def Let_def
  by (intro grows_read grows_then [OF grows_edit, where b = 2] grows_done grows_publish) (simp_all add: store_payload_state)

lemma grows_set_current: "grows_version r 3 (set_current lib B sha now key)"
  unfolding set_current_def Let_def
  by (intro grows_read grows_then [OF grows_edit, where b = 2] grows_done grows_publish)
   (simp_all add: liftS_def store_payload_state raiseS_def split: signed.split)

lemma ref_versions: "version_of ref_delegated r \<le> 8"
proof -
  have "version_of ref_initialised r \<le> version_of fresh_repo r + 4" "version_of ref_delegated r \<le> version_of ref_initialised r + 4"
    using grows_initialize [of r ref_lib ref_keys 0] grows_add_app [of r ref_lib ref_keys 0 "''demo''" False]
    by (simp_all add: grows_def ref_initialised_def ref_delegated_def)
  then show ?thesis by (simp add: version_of_def fresh_repo_def)
qed

lemma do_publish_versions: "do_publish E now fs source payload s = (x, s') \<Longrightarrow> version_of s' r \<le> version_of s r + 6"
proof -
  have add: "version_of (snd (add_release lib B sha now key a i s)) r \<le> version_of s r + 3"
    and cur: "version_of (snd (set_current lib B sha now key s)) r \<le> version_of s r + 3" for lib B sha key a i s
    using grows_add_release [of r lib B sha now key a i] grows_set_current [of r lib B sha now key] by (simp_all add: grows_def)
  assume "do_publish E now fs source payload s = (x, s')"
  then consider "s' = s" | key a i where "s' = snd (add_release (g_lib E) (g_backend E) (g_sha E) now key a i s)"
    | key a i where "s' = snd (set_current (g_lib E) (g_backend E) (g_sha E) now key
          (snd (add_release (g_lib E) (g_backend E) (g_sha E) now key a i s)))"
    by (auto dest!: do_publish_steps)
  then show ?thesis
  proof cases
    case (3 key a i)
    then show ?thesis using add [of "g_lib E" "g_backend E" "g_sha E" key a i s]
        cur [of "g_lib E" "g_backend E" "g_sha E" key "snd (add_release (g_lib E) (g_backend E) (g_sha E) now key a i s)"] by simp
  next
    case (2 key a i)
    then show ?thesis using add [of "g_lib E" "g_backend E" "g_sha E" key a i s] by simp
  qed simp
qed

end
