(* ===== verification/Verifier.thy ===== *)
theory Verifier
  imports Naming "HOL-Library.Word"
begin

text \<open>
  The verifier the clients call: \<^verbatim>\<open>client/dist-core-rs/src/lib.rs\<close> (target paths),
  \<^verbatim>\<open>rollout.rs\<close> and \<^verbatim>\<open>verifier.rs\<close>, and the C boundary \<^verbatim>\<open>client/dist-core-ffi/src/lib.rs\<close>.

  The vendored \<^verbatim>\<open>tuf\<close> crate checks signatures, thresholds, versions and expiry; it is the
  argument \<open>T\<close>, over its own type of databases.  So is the platform's range of times.  A Rust
  \<open>u32\<close> or \<open>u64\<close> is a machine word, a \<open>&str\<close> a string, a byte slice a string of octets; a call
  into the crate may panic, which the boundary turns into a status.
\<close>

section \<open>Results\<close>

datatype ('a, 'e) rust = Ok 'a | Err 'e | Panicked

datatype rust_role = Root | Timestamp | Snapshot | Targets | Delegated

datatype verify_error =
    Rejected rust_role
  | UnknownTarget
  | Malformed
  | Length "64 word" "64 word"
  | Digest
  | Clock

section \<open>Target paths and rollout\<close>

text \<open>\<open>TargetPath::parse\<close>: five segments, each safe to use on disk.\<close>

definition safe_segment :: "string \<Rightarrow> bool" where
  "safe_segment s \<longleftrightarrow> s \<noteq> [] \<and> s \<noteq> ''.'' \<and> s \<noteq> ''..''
     \<and> CHR 0x5C \<notin> set s \<and> CHR '':'' \<notin> set s \<and> CHR 0x00 \<notin> set s"

definition TargetPath_parse :: "string \<Rightarrow> string option" where
  "TargetPath_parse raw =
     (let segments = split_on (CHR ''/'') raw in
      if length segments \<noteq> 5 then None
      else if \<not> list_all safe_segment segments then None
      else Some raw)"

definition rust_in_rollout :: "(string \<Rightarrow> string) \<Rightarrow> string \<Rightarrow> string \<Rightarrow> 32 word \<Rightarrow> bool option" where
  "rust_in_rollout sha install_id app_id rollout_pct =
     (if 100 < rollout_pct then None
      else if rollout_pct = 0 then Some False
      else if rollout_pct = 100 then Some True
      else let bytes = sha (utf8_encode install_id @ '':'' @ utf8_encode app_id);
               bucket = (of_nat (be_int (take 4 bytes)) :: 32 word) mod 100
           in Some (bucket < rollout_pct))"

section \<open>Signed release metadata\<close>

record rust_release =
  rr_version :: string
  rr_rollout_pct :: "32 word"
  rr_mandatory :: bool
  rr_notes_url :: "string option"
  rr_min_os :: "string option"
  rr_min_from_version :: "string option"

record rust_target_info =
  rt_length :: "64 word"
  rt_sha256 :: string
  rt_release :: rust_release

text \<open>\<open>Value::as_u64\<close> and \<open>Value::as_bool\<close>; an integer above \<open>u64\<close> is parsed as a float.\<close>

fun as_u64 :: "json \<Rightarrow> 64 word option" where
  "as_u64 (JInt i) = (if 0 \<le> i \<and> i < 2 ^ 64 then Some (of_int i) else None)"
| "as_u64 _ = None"

fun as_bool :: "json \<Rightarrow> bool option" where
  "as_bool (JBool b) = Some b"
| "as_bool _ = None"

definition rust_release_info :: "dict \<Rightarrow> (rust_release, verify_error) rust" where
  "rust_release_info custom =
     (case as_str (get custom ''version'') of
        None \<Rightarrow> Err Malformed
      | Some version \<Rightarrow>
          let pct = (case as_u64 (get custom ''rollout_pct'') of None \<Rightarrow> 100 | Some n \<Rightarrow> n) in
          if 2 ^ 32 \<le> unat pct then Err Malformed
          else if 100 < (ucast pct :: 32 word) then Err Malformed
          else Ok \<lparr>rr_version = version, rr_rollout_pct = ucast pct,
                   rr_mandatory = (case as_bool (get custom ''mandatory'') of None \<Rightarrow> False | Some b \<Rightarrow> b),
                   rr_notes_url = as_str (get custom ''notes_url''), rr_min_os = as_str (get custom ''min_os''),
                   rr_min_from_version = as_str (get custom ''min_from_version'')\<rparr>)"

text \<open>\<open>usize\<close> is 64 bits wide.\<close>

definition rust_verify_payload :: "(string \<Rightarrow> string) \<Rightarrow> rust_target_info \<Rightarrow> string \<Rightarrow> (unit, verify_error) rust" where
  "rust_verify_payload sha info payload =
     (if 2 ^ 64 \<le> length payload then Err (Length (rt_length info) (- 1))
      else if (of_nat (length payload) :: 64 word) \<noteq> rt_length info
      then Err (Length (rt_length info) (of_nat (length payload)))
      else if sha payload = rt_sha256 info then Ok () else Err Digest)"

section \<open>The verifier\<close>

record description =
  de_length :: "64 word"
  de_sha256 :: "string option"
  de_custom :: dict

record 'd tuf =
  tf_from_trusted_root :: "string \<Rightarrow> ('d, unit) rust"
  tf_update_timestamp :: "int \<Rightarrow> string \<Rightarrow> 'd \<Rightarrow> (unit, unit) rust \<times> 'd"
  tf_update_snapshot :: "int \<Rightarrow> string \<Rightarrow> 'd \<Rightarrow> (unit, unit) rust \<times> 'd"
  tf_update_targets :: "int \<Rightarrow> string \<Rightarrow> 'd \<Rightarrow> (unit, unit) rust \<times> 'd"
  tf_update_delegated_targets :: "int \<Rightarrow> string \<Rightarrow> string \<Rightarrow> 'd \<Rightarrow> (unit, unit) rust \<times> 'd"
  tf_timestamp_snapshot :: "'d \<Rightarrow> 32 word option"
  tf_snapshot_meta :: "'d \<Rightarrow> (string \<Rightarrow> 32 word option) option"
  tf_describe :: "int \<Rightarrow> string \<Rightarrow> 'd \<Rightarrow> (description, unit) rust"
  tf_metadata_path :: "string \<Rightarrow> bool"
  tf_target_path :: "string \<Rightarrow> bool"
  tf_epoch_plus :: "64 word \<Rightarrow> bool"
  tf_datetime :: "int \<Rightarrow> bool"

datatype clock = System | Fixed int

record 'd tuf_verifier =
  tv_database :: 'd
  tv_clock :: clock

text \<open>A system time is its number of seconds from the epoch.\<close>

definition to_utc :: "'d tuf \<Rightarrow> int \<Rightarrow> (int, verify_error) rust" where
  "to_utc T time = (if time < 0 \<or> 2 ^ 63 \<le> time \<or> \<not> tf_datetime T time then Err Clock else Ok time)"

definition build :: "'d tuf \<Rightarrow> string \<Rightarrow> clock \<Rightarrow> ('d tuf_verifier, verify_error) rust" where
  "build T trusted_root clk =
     (case tf_from_trusted_root T trusted_root of
        Panicked \<Rightarrow> Panicked
      | Err _ \<Rightarrow> Err (Rejected Root)
      | Ok database \<Rightarrow> Ok \<lparr>tv_database = database, tv_clock = clk\<rparr>)"

definition bootstrap :: "'d tuf \<Rightarrow> string \<Rightarrow> ('d tuf_verifier, verify_error) rust" where
  "bootstrap T trusted_root = build T trusted_root System"

definition bootstrap_at :: "'d tuf \<Rightarrow> string \<Rightarrow> int \<Rightarrow> ('d tuf_verifier, verify_error) rust" where
  "bootstrap_at T trusted_root time =
     (case to_utc T time of
        Panicked \<Rightarrow> Panicked
      | Err e \<Rightarrow> Err e
      | Ok t \<Rightarrow> build T trusted_root (Fixed t))"

text \<open>\<open>sys\<close> is what the system clock reads at the call.\<close>

definition utc_now :: "'d tuf \<Rightarrow> int \<Rightarrow> 'd tuf_verifier \<Rightarrow> (int, verify_error) rust" where
  "utc_now T sys v = (case tv_clock v of System \<Rightarrow> to_utc T sys | Fixed t \<Rightarrow> Ok t)"

text \<open>The body the four updates share: the time, the crate's update, its error under the role.\<close>

definition update_role ::
  "'d tuf \<Rightarrow> int \<Rightarrow> rust_role \<Rightarrow> (int \<Rightarrow> 'd \<Rightarrow> (unit, unit) rust \<times> 'd) \<Rightarrow> 'd tuf_verifier \<Rightarrow>
     (unit, verify_error) rust \<times> 'd tuf_verifier" where
  "update_role T sys role update v =
     (case utc_now T sys v of
        Panicked \<Rightarrow> (Panicked, v)
      | Err e \<Rightarrow> (Err e, v)
      | Ok now \<Rightarrow> (case update now (tv_database v) of
            (Ok _, database) \<Rightarrow> (Ok (), v\<lparr>tv_database := database\<rparr>)
          | (Err _, database) \<Rightarrow> (Err (Rejected role), v\<lparr>tv_database := database\<rparr>)
          | (Panicked, database) \<Rightarrow> (Panicked, v\<lparr>tv_database := database\<rparr>)))"

definition rust_update_timestamp :: "'d tuf \<Rightarrow> int \<Rightarrow> string \<Rightarrow> 'd tuf_verifier \<Rightarrow> (unit, verify_error) rust \<times> 'd tuf_verifier" where
  "rust_update_timestamp T sys raw = update_role T sys Timestamp (\<lambda>now. tf_update_timestamp T now raw)"

definition rust_update_snapshot :: "'d tuf \<Rightarrow> int \<Rightarrow> string \<Rightarrow> 'd tuf_verifier \<Rightarrow> (unit, verify_error) rust \<times> 'd tuf_verifier" where
  "rust_update_snapshot T sys raw = update_role T sys Snapshot (\<lambda>now. tf_update_snapshot T now raw)"

definition rust_update_targets :: "'d tuf \<Rightarrow> int \<Rightarrow> string \<Rightarrow> 'd tuf_verifier \<Rightarrow> (unit, verify_error) rust \<times> 'd tuf_verifier" where
  "rust_update_targets T sys raw = update_role T sys Targets (\<lambda>now. tf_update_targets T now raw)"

definition rust_update_delegated_targets ::
  "'d tuf \<Rightarrow> int \<Rightarrow> string \<Rightarrow> string \<Rightarrow> 'd tuf_verifier \<Rightarrow> (unit, verify_error) rust \<times> 'd tuf_verifier" where
  "rust_update_delegated_targets T sys role raw =
     update_role T sys Delegated (\<lambda>now database.
       if \<not> tf_metadata_path T role then (Err (), database)
       else tf_update_delegated_targets T now role raw database)"

definition rust_snapshot_version :: "'d tuf \<Rightarrow> 'd tuf_verifier \<Rightarrow> 32 word option" where
  "rust_snapshot_version T v = tf_timestamp_snapshot T (tv_database v)"

definition rust_targets_version :: "'d tuf \<Rightarrow> string \<Rightarrow> 'd tuf_verifier \<Rightarrow> 32 word option" where
  "rust_targets_version T role v =
     (case tf_snapshot_meta T (tv_database v) of
        None \<Rightarrow> None
      | Some meta \<Rightarrow> if tf_metadata_path T role then meta role else None)"

definition rust_target :: "'d tuf \<Rightarrow> int \<Rightarrow> string \<Rightarrow> 'd tuf_verifier \<Rightarrow> (rust_target_info, verify_error) rust" where
  "rust_target T sys p v =
     (case utc_now T sys v of
        Panicked \<Rightarrow> Panicked
      | Err e \<Rightarrow> Err e
      | Ok now \<Rightarrow>
          if \<not> tf_target_path T p then Err UnknownTarget
          else (case tf_describe T now p (tv_database v) of
              Panicked \<Rightarrow> Panicked
            | Err _ \<Rightarrow> Err UnknownTarget
            | Ok d \<Rightarrow> (case de_sha256 d of
                  None \<Rightarrow> Err Malformed
                | Some sha256 \<Rightarrow>
                    if length sha256 \<noteq> 32 then Err Malformed
                    else (case rust_release_info (de_custom d) of
                        Panicked \<Rightarrow> Panicked
                      | Err e \<Rightarrow> Err e
                      | Ok r \<Rightarrow> Ok \<lparr>rt_length = de_length d, rt_sha256 = sha256, rt_release = r\<rparr>))))"

section \<open>The C boundary\<close>

datatype status =
    DIST_OK | DIST_NULL_ARGUMENT | DIST_REJECTED | DIST_UNKNOWN_TARGET | DIST_MALFORMED | DIST_LENGTH | DIST_DIGEST | DIST_CLOCK
  | DIST_INVALID_ARGUMENT | DIST_OVERFLOW | DIST_PANIC

fun status_of :: "verify_error \<Rightarrow> status" where
  "status_of (Rejected r) = DIST_REJECTED"
| "status_of UnknownTarget = DIST_UNKNOWN_TARGET"
| "status_of Malformed = DIST_MALFORMED"
| "status_of (Length e a) = DIST_LENGTH"
| "status_of Digest = DIST_DIGEST"
| "status_of Clock = DIST_CLOCK"

text \<open>\<open>guard\<close>, with the usual body: a result or its error's status.\<close>

fun guard :: "('a, verify_error) rust \<Rightarrow> status" where
  "guard (Ok x) = DIST_OK"
| "guard (Err e) = status_of e"
| "guard Panicked = DIST_PANIC"

text \<open>A C string ends at its first NUL, and \<open>utf8\<close> reads it as UTF-8.\<close>

definition c_string :: "string \<Rightarrow> string" where
  "c_string bs = takeWhile (\<lambda>b. b \<noteq> CHR 0x00) bs"

definition utf8 :: "string \<Rightarrow> string option" where
  "utf8 bs = utf8_decode (c_string bs)"

definition DIST_VERSION_CAPACITY :: nat where "DIST_VERSION_CAPACITY = 64"

record dist_target_info =
  di_length :: "64 word"
  di_sha256 :: string
  di_rollout_pct :: "32 word"
  di_mandatory :: "8 word"
  di_version :: string

definition fill_from :: "rust_target_info \<Rightarrow> (dist_target_info, status) rust" where
  "fill_from info =
     (let version = utf8_encode (rr_version (rt_release info)) in
      if DIST_VERSION_CAPACITY < length version then Err DIST_OVERFLOW
      else if DIST_VERSION_CAPACITY - 1 < length version then Err DIST_OVERFLOW
      else Ok \<lparr>di_length = rt_length info, di_sha256 = rt_sha256 info,
               di_rollout_pct = rr_rollout_pct (rt_release info),
               di_mandatory = (if rr_mandatory (rt_release info) then 1 else 0),
               di_version = version @ replicate (DIST_VERSION_CAPACITY - length version) (CHR 0x00)\<rparr>)"

definition to_target_info :: "dist_target_info \<Rightarrow> rust_target_info" where
  "to_target_info i =
     \<lparr>rt_length = di_length i, rt_sha256 = di_sha256 i,
      rt_release = \<lparr>rr_version = [], rr_rollout_pct = di_rollout_pct i, rr_mandatory = (di_mandatory i \<noteq> 0),
        rr_notes_url = None, rr_min_os = None, rr_min_from_version = None\<rparr>\<rparr>"

text \<open>A handle is null or a live verifier; a slice the clients pass is never null.\<close>

type_synonym 'd handle = "'d tuf_verifier option"

definition dist_verifier_new :: "'d tuf \<Rightarrow> string \<Rightarrow> status \<times> 'd handle" where
  "dist_verifier_new T root_bytes =
     (case bootstrap T root_bytes of Ok v \<Rightarrow> (DIST_OK, Some v) | r \<Rightarrow> (guard r, None))"

definition dist_verifier_new_at :: "'d tuf \<Rightarrow> string \<Rightarrow> 64 word \<Rightarrow> status \<times> 'd handle" where
  "dist_verifier_new_at T root_bytes unix_seconds =
     (if \<not> tf_epoch_plus T unix_seconds then (DIST_PANIC, None)
      else (case bootstrap_at T root_bytes (uint unix_seconds) of Ok v \<Rightarrow> (DIST_OK, Some v) | r \<Rightarrow> (guard r, None)))"

definition feed_handle ::
  "('d tuf_verifier \<Rightarrow> (unit, verify_error) rust \<times> 'd tuf_verifier) \<Rightarrow> 'd handle \<Rightarrow> status \<times> 'd handle" where
  "feed_handle update handle =
     (case handle of None \<Rightarrow> (DIST_NULL_ARGUMENT, None)
      | Some v \<Rightarrow> (case update v of (r, v') \<Rightarrow> (guard r, Some v')))"

definition dist_verifier_update_timestamp :: "'d tuf \<Rightarrow> int \<Rightarrow> string \<Rightarrow> 'd handle \<Rightarrow> status \<times> 'd handle" where
  "dist_verifier_update_timestamp T sys raw = feed_handle (rust_update_timestamp T sys raw)"

definition dist_verifier_update_snapshot :: "'d tuf \<Rightarrow> int \<Rightarrow> string \<Rightarrow> 'd handle \<Rightarrow> status \<times> 'd handle" where
  "dist_verifier_update_snapshot T sys raw = feed_handle (rust_update_snapshot T sys raw)"

definition dist_verifier_update_targets :: "'d tuf \<Rightarrow> int \<Rightarrow> string \<Rightarrow> 'd handle \<Rightarrow> status \<times> 'd handle" where
  "dist_verifier_update_targets T sys raw = feed_handle (rust_update_targets T sys raw)"

definition dist_verifier_update_delegated_targets ::
  "'d tuf \<Rightarrow> int \<Rightarrow> string \<Rightarrow> string \<Rightarrow> 'd handle \<Rightarrow> status \<times> 'd handle" where
  "dist_verifier_update_delegated_targets T sys role raw handle =
     (case handle of None \<Rightarrow> (DIST_NULL_ARGUMENT, None)
      | Some v \<Rightarrow> (case utf8 role of None \<Rightarrow> (DIST_INVALID_ARGUMENT, Some v)
          | Some r \<Rightarrow> feed_handle (rust_update_delegated_targets T sys r raw) (Some v)))"

text \<open>The remaining entry points read the verifier: a status and what was written to \<open>out\<close>.\<close>

definition dist_verifier_target ::
  "'d tuf \<Rightarrow> int \<Rightarrow> string \<Rightarrow> 'd handle \<Rightarrow> status \<times> dist_target_info option" where
  "dist_verifier_target T sys p handle =
     (case handle of None \<Rightarrow> (DIST_NULL_ARGUMENT, None)
      | Some v \<Rightarrow> (case utf8 p of None \<Rightarrow> (DIST_INVALID_ARGUMENT, None)
          | Some s \<Rightarrow> (case TargetPath_parse s of None \<Rightarrow> (DIST_INVALID_ARGUMENT, None)
              | Some tp \<Rightarrow> (case rust_target T sys tp v of
                    Ok info \<Rightarrow> (case fill_from info of
                        Ok filled \<Rightarrow> (DIST_OK, Some filled)
                      | Err st \<Rightarrow> (st, None)
                      | Panicked \<Rightarrow> (DIST_PANIC, None))
                  | r \<Rightarrow> (guard r, None)))))"

definition dist_verifier_snapshot_version :: "'d tuf \<Rightarrow> 'd handle \<Rightarrow> status \<times> 32 word option" where
  "dist_verifier_snapshot_version T handle =
     (case handle of None \<Rightarrow> (DIST_NULL_ARGUMENT, None)
      | Some v \<Rightarrow> (case rust_snapshot_version T v of Some n \<Rightarrow> (DIST_OK, Some n) | None \<Rightarrow> (DIST_MALFORMED, None)))"

definition dist_verifier_targets_version :: "'d tuf \<Rightarrow> string \<Rightarrow> 'd handle \<Rightarrow> status \<times> 32 word option" where
  "dist_verifier_targets_version T role handle =
     (case handle of None \<Rightarrow> (DIST_NULL_ARGUMENT, None)
      | Some v \<Rightarrow> (case utf8 role of None \<Rightarrow> (DIST_INVALID_ARGUMENT, None)
          | Some r \<Rightarrow> (case rust_targets_version T r v of Some n \<Rightarrow> (DIST_OK, Some n) | None \<Rightarrow> (DIST_MALFORMED, None))))"

definition dist_verify_payload :: "(string \<Rightarrow> string) \<Rightarrow> dist_target_info \<Rightarrow> string \<Rightarrow> status" where
  "dist_verify_payload sha info payload = guard (rust_verify_payload sha (to_target_info info) payload)"

definition dist_in_rollout :: "(string \<Rightarrow> string) \<Rightarrow> string \<Rightarrow> string \<Rightarrow> 32 word \<Rightarrow> status \<times> bool option" where
  "dist_in_rollout sha install_id app_id rollout_pct =
     (case (utf8 install_id, utf8 app_id) of
        (Some i, Some a) \<Rightarrow> (case rust_in_rollout sha i a rollout_pct of
            Some inside \<Rightarrow> (DIST_OK, Some inside) | None \<Rightarrow> (DIST_INVALID_ARGUMENT, None))
      | _ \<Rightarrow> (DIST_INVALID_ARGUMENT, None))"

end
