(* ===== verification/Client.thy ===== *)
theory Client
  imports Verifier
begin

text \<open>
  The Python binding an application embeds, \<^verbatim>\<open>bindings/python/src/dist_client/__init__.py\<close>, and
  the update check over it, \<^verbatim>\<open>update.py\<close>.

  The state is the handle of the verifier, the number of calls made through the boundary (the
  system clock \<open>ce_clock\<close> is read once per call) and the paths fetched so far, newest first.  The
  application's \<open>fetch\<close> is an argument that may answer anything, and differently every time.
  \<^verbatim>\<open>ctypes\<close> stores an integer in a \<open>uint32\<close> or \<open>uint64\<close> modulo its width.
\<close>

section \<open>Status codes as exceptions\<close>

fun Status :: "status \<Rightarrow> nat" where
  "Status DIST_OK = 0"
| "Status DIST_NULL_ARGUMENT = 1"
| "Status DIST_REJECTED = 2"
| "Status DIST_UNKNOWN_TARGET = 3"
| "Status DIST_MALFORMED = 4"
| "Status DIST_LENGTH = 5"
| "Status DIST_DIGEST = 6"
| "Status DIST_CLOCK = 7"
| "Status DIST_INVALID_ARGUMENT = 8"
| "Status DIST_OVERFLOW = 9"
| "Status DIST_PANIC = 10"

text \<open>\<open>DistError n\<close> is the exception class \<open>_EXCEPTIONS\<close> assigns to the code \<open>n\<close>.\<close>

abbreviation "UnknownTargetError \<equiv> DistError 3"

definition raise_status :: "status \<Rightarrow> unit res" where
  "raise_status st = (if st = DIST_OK then Inr () else Inl (DistError (Status st)))"

record target_info =
  in_version :: string
  in_length :: int
  in_sha256 :: string
  in_rollout_pct :: int
  in_mandatory :: bool

definition hex :: "string \<Rightarrow> string" where
  "hex bs = concat (map (\<lambda>c. [hex_char (code c div 16), hex_char (code c mod 16)]) bs)"

definition sha256_hex :: "target_info \<Rightarrow> string" where
  "sha256_hex info = hex (in_sha256 info)"

definition to_python_info :: "dist_target_info \<Rightarrow> target_info res" where
  "to_python_info raw =
     (case utf8_decode (takeWhile (\<lambda>b. b \<noteq> CHR 0x00) (di_version raw)) of
        None \<Rightarrow> Inl UnicodeDecodeError
      | Some version \<Rightarrow> Inr \<lparr>in_version = version, in_length = uint (di_length raw), in_sha256 = di_sha256 raw,
          in_rollout_pct = uint (di_rollout_pct raw), in_mandatory = (di_mandatory raw \<noteq> 0)\<rparr>)"

section \<open>The verifier object\<close>

record 'd client =
  cl_handle :: "'d handle"
  cl_calls :: nat
  cl_made :: "string list"

record 'd client_env =
  ce_tuf :: "'d tuf"
  ce_sha :: "string \<Rightarrow> string"
  ce_clock :: "nat \<Rightarrow> int"
  ce_fetch :: "string list \<Rightarrow> string \<Rightarrow> string res"

type_synonym ('d, 'a) client_sem = "('d client, 'a) sem"

definition Verifier_init :: "'d client_env \<Rightarrow> string \<Rightarrow> int option \<Rightarrow> ('d, unit) client_sem" where
  "Verifier_init E root_bytes now = (\<lambda>s.
     let (st, handle) = (case now of
           None \<Rightarrow> dist_verifier_new (ce_tuf E) root_bytes
         | Some t \<Rightarrow> dist_verifier_new_at (ce_tuf E) root_bytes (of_int t));
         s' = s\<lparr>cl_handle := handle, cl_calls := Suc (cl_calls s)\<rparr>
     in case handle of None \<Rightarrow> (raise_status st, s') | Some _ \<Rightarrow> (Inr (), s'))"

definition close :: "('d, unit) client_sem" where
  "close = modifyS (\<lambda>s. s\<lparr>cl_handle := None\<rparr>)"

definition live :: "('d, unit) client_sem" where
  "live = (\<lambda>s. refuseS (cl_handle s = None) (DistError (Status DIST_NULL_ARGUMENT)) s)"

text \<open>The body \<open>_feed\<close> and \<open>update_delegated_targets\<close> share: call, release after a panic, raise.\<close>

definition feed_with :: "'d client_env \<Rightarrow> (int \<Rightarrow> 'd handle \<Rightarrow> status \<times> 'd handle) \<Rightarrow> ('d, unit) client_sem" where
  "feed_with E call =
     bindS live (\<lambda>_ s.
       case call (ce_clock E (cl_calls s)) (cl_handle s) of (st, handle) \<Rightarrow>
         (raise_status st, s\<lparr>cl_handle := (if st = DIST_PANIC then None else handle), cl_calls := Suc (cl_calls s)\<rparr>))"

definition py_update_timestamp :: "'d client_env \<Rightarrow> string \<Rightarrow> ('d, unit) client_sem" where
  "py_update_timestamp E raw = feed_with E (\<lambda>t. dist_verifier_update_timestamp (ce_tuf E) t raw)"

definition py_update_snapshot :: "'d client_env \<Rightarrow> string \<Rightarrow> ('d, unit) client_sem" where
  "py_update_snapshot E raw = feed_with E (\<lambda>t. dist_verifier_update_snapshot (ce_tuf E) t raw)"

definition py_update_targets :: "'d client_env \<Rightarrow> string \<Rightarrow> ('d, unit) client_sem" where
  "py_update_targets E raw = feed_with E (\<lambda>t. dist_verifier_update_targets (ce_tuf E) t raw)"

definition py_update_delegated_targets :: "'d client_env \<Rightarrow> string \<Rightarrow> string \<Rightarrow> ('d, unit) client_sem" where
  "py_update_delegated_targets E role raw =
     feed_with E (\<lambda>t. dist_verifier_update_delegated_targets (ce_tuf E) t (utf8_encode role) raw)"

definition py_version :: "('d handle \<Rightarrow> status \<times> 32 word option) \<Rightarrow> ('d, int option) client_sem" where
  "py_version call =
     bindS live (\<lambda>_ s.
       let (st, out) = call (cl_handle s); s' = s\<lparr>cl_calls := Suc (cl_calls s)\<rparr> in
       if st = DIST_MALFORMED then (Inr None, s')
       else (bindr (raise_status st) (\<lambda>_. Inr (Some (case out of None \<Rightarrow> 0 | Some n \<Rightarrow> uint n))),
             if st = DIST_PANIC then s'\<lparr>cl_handle := None\<rparr> else s'))"

definition snapshot_version :: "'d client_env \<Rightarrow> ('d, int option) client_sem" where
  "snapshot_version E = py_version (dist_verifier_snapshot_version (ce_tuf E))"

definition targets_version :: "'d client_env \<Rightarrow> string \<Rightarrow> ('d, int option) client_sem" where
  "targets_version E role = py_version (dist_verifier_targets_version (ce_tuf E) (utf8_encode role))"

text \<open>What a call does not write stays zero.\<close>

definition zeroed :: dist_target_info where
  "zeroed = \<lparr>di_length = 0, di_sha256 = replicate 32 (CHR 0x00), di_rollout_pct = 0, di_mandatory = 0,
     di_version = replicate DIST_VERSION_CAPACITY (CHR 0x00)\<rparr>"

definition py_target :: "'d client_env \<Rightarrow> string \<Rightarrow> ('d, target_info) client_sem" where
  "py_target E p =
     bindS live (\<lambda>_ s.
       let (st, out) = dist_verifier_target (ce_tuf E) (ce_clock E (cl_calls s)) (utf8_encode p) (cl_handle s);
           s' = s\<lparr>cl_handle := (if st = DIST_PANIC then None else cl_handle s), cl_calls := Suc (cl_calls s)\<rparr>
       in (bindr (raise_status st) (\<lambda>_. to_python_info (case out of None \<Rightarrow> zeroed | Some i \<Rightarrow> i)), s'))"

section \<open>Payloads and rollout\<close>

definition verify_payload :: "'d client_env \<Rightarrow> target_info \<Rightarrow> string \<Rightarrow> unit res" where
  "verify_payload E info payload =
     (if 32 < length (in_sha256 info) then Inl (IndexError ''invalid index'')
      else let encoded = take 63 (utf8_encode (in_version info)) in
        raise_status (dist_verify_payload (ce_sha E)
          \<lparr>di_length = of_int (in_length info),
           di_sha256 = in_sha256 info @ replicate (32 - length (in_sha256 info)) (CHR 0x00),
           di_rollout_pct = of_int (in_rollout_pct info), di_mandatory = (if in_mandatory info then 1 else 0),
           di_version = encoded @ replicate (64 - length encoded) (CHR 0x00)\<rparr> payload))"

definition client_in_rollout :: "'d client_env \<Rightarrow> string \<Rightarrow> string \<Rightarrow> int \<Rightarrow> bool res" where
  "client_in_rollout E install_id app_id rollout_pct =
     (case dist_in_rollout (ce_sha E) (utf8_encode install_id) (utf8_encode app_id) (of_int rollout_pct) of
        (st, out) \<Rightarrow> bindr (raise_status st) (\<lambda>_. Inr (out = Some True)))"

section \<open>Channels and pointers\<close>

definition MAX_POINTER_BYTES :: nat where "MAX_POINTER_BYTES = 64 * 1024"

record channel =
  ch_app_id :: string
  ch_channel :: string
  ch_platform :: string
  ch_arch :: string

definition ch_prefix :: "channel \<Rightarrow> string" where
  "ch_prefix c = ch_app_id c @ ''/'' @ ch_channel c @ ''/'' @ ch_platform c @ ''-'' @ ch_arch c @ ''/''"

definition ch_pointer_path :: "channel \<Rightarrow> string" where
  "ch_pointer_path c = ch_prefix c @ ''_current'' @ ''/'' @ ''release.json''"

definition ch_role :: "channel \<Rightarrow> string" where
  "ch_role c = ''app-'' @ ch_app_id c"

record available =
  av_version :: string
  av_target_path :: string
  av_info :: target_info

definition stored_target_path :: "string \<Rightarrow> string \<Rightarrow> string" where
  "stored_target_path target_path digest =
     (case rpartition (CHR ''/'') target_path of
        (dirname, sep, basename) \<Rightarrow> dirname @ sep @ digest @ ''.'' @ basename)"

definition parse_pointer :: "string \<Rightarrow> (string \<times> string) res" where
  "parse_pointer raw =
     (case loads_bytes raw of
        Inl _ \<Rightarrow> Inl (UpdateError ''channel pointer is not JSON'')
      | Inr body \<Rightarrow> (case as_dict body of
            None \<Rightarrow> Inl (UpdateError ''channel pointer is not an object'')
          | Some d \<Rightarrow> (case (as_str (get d ''target_path''), as_str (get d ''version'')) of
                (Some target_path, Some version) \<Rightarrow> Inr (target_path, version)
              | _ \<Rightarrow> Inl (UpdateError ''channel pointer must carry target_path and version strings''))))"

section \<open>The check\<close>

definition fetch :: "'d client_env \<Rightarrow> string \<Rightarrow> ('d, string) client_sem" where
  "fetch E p = (\<lambda>s. (ce_fetch E (cl_made s) p, s\<lparr>cl_made := p # cl_made s\<rparr>))"

definition fetch_verified :: "'d client_env \<Rightarrow> target_info \<Rightarrow> string \<Rightarrow> ('d, string) client_sem" where
  "fetch_verified E info p =
     bindS (fetch E (''targets/'' @ stored_target_path p (sha256_hex info))) (\<lambda>body.
     bindS (liftS (verify_payload E info body)) (\<lambda>_. returnS body))"

text \<open>\<open>try: verifier.target(p) except UnknownTargetError\<close>: \<open>None\<close> stands for the handler.\<close>

definition try_target :: "'d client_env \<Rightarrow> string \<Rightarrow> ('d, target_info option) client_sem" where
  "try_target E p = (\<lambda>s. case py_target E p s of
       (Inr info, s') \<Rightarrow> (Inr (Some info), s')
     | (Inl e, s') \<Rightarrow> if e = UnknownTargetError then (Inr None, s') else (Inl e, s'))"

text \<open>The chain of metadata: whether the snapshot describes the application at all.\<close>

definition refresh :: "'d client_env \<Rightarrow> channel \<Rightarrow> ('d, bool) client_sem" where
  "refresh E channel =
     bindS (fetch E ''timestamp.json'') (\<lambda>ts.
     bindS (py_update_timestamp E ts) (\<lambda>_.
     bindS (snapshot_version E) (\<lambda>snapshot. case snapshot of
       None \<Rightarrow> raiseS (UpdateError ''timestamp named no snapshot version'')
     | Some sv \<Rightarrow>
     bindS (fetch E (dec_int sv @ ''.snapshot.json'')) (\<lambda>sn.
     bindS (py_update_snapshot E sn) (\<lambda>_.
     bindS (targets_version E ''targets'') (\<lambda>targets. case targets of
       None \<Rightarrow> raiseS (UpdateError ''snapshot named no targets version'')
     | Some tv \<Rightarrow>
     bindS (fetch E (dec_int tv @ ''.targets.json'')) (\<lambda>tg.
     bindS (py_update_targets E tg) (\<lambda>_.
     bindS (targets_version E (ch_role channel)) (\<lambda>delegated. case delegated of
       None \<Rightarrow> returnS False
     | Some dv \<Rightarrow>
     bindS (fetch E (dec_int dv @ ''.'' @ ch_role channel @ ''.json'')) (\<lambda>dg.
     bindS (py_update_delegated_targets E (ch_role channel) dg) (\<lambda>_. returnS True)))))))))))"

text \<open>From the pointer to an offer.\<close>

definition offer :: "'d client_env \<Rightarrow> channel \<Rightarrow> string \<Rightarrow> string \<Rightarrow> ('d, available option) client_sem" where
  "offer E channel install_id pointer =
     bindS (refuseS (MAX_POINTER_BYTES < length pointer) (UpdateError ''channel pointer is implausibly large'')) (\<lambda>_.
     bindS (liftS (parse_pointer pointer)) (\<lambda>(target_path, version).
     bindS (refuseS (\<not> prefix (ch_prefix channel) target_path) (RedirectRefusedError ''pointed at another channel'')) (\<lambda>_.
     bindS (try_target E target_path) (\<lambda>found. case found of
       None \<Rightarrow> raiseS (UpdateError ''channel points at a target no trusted role describes'')
     | Some info \<Rightarrow>
     bindS (refuseS (in_version info \<noteq> version) (UpdateError ''pointer and target disagree on the version'')) (\<lambda>_.
     bindS (liftS (client_in_rollout E install_id (ch_app_id channel) (in_rollout_pct info))) (\<lambda>inside.
       returnS (if inside then Some \<lparr>av_version = version, av_target_path = target_path, av_info = info\<rparr> else None)))))))"

definition check :: "'d client_env \<Rightarrow> channel \<Rightarrow> string \<Rightarrow> ('d, available option) client_sem" where
  "check E channel install_id =
     bindS (refresh E channel) (\<lambda>described.
       if \<not> described then returnS None
       else bindS (try_target E (ch_pointer_path channel)) (\<lambda>found. case found of
           None \<Rightarrow> returnS None
         | Some info \<Rightarrow> bindS (fetch_verified E info (ch_pointer_path channel)) (offer E channel install_id)))"

text \<open>\<open>with Verifier(root) as verifier\<close>: the handle is released however the body ends.\<close>

definition run :: "'d client_env \<Rightarrow> string \<Rightarrow> int option \<Rightarrow> channel \<Rightarrow> string \<Rightarrow> ('d, available option) client_sem" where
  "run E root_bytes now channel install_id =
     bindS (Verifier_init E root_bytes now) (\<lambda>_ s.
       case check E channel install_id s of (r, s') \<Rightarrow> (r, snd (close s')))"

section \<open>Comparing versions\<close>

text \<open>\<open>int\<close> refuses more than 4300 digits, and a superscript although \<open>isdigit\<close> accepts it.\<close>

definition int_segment :: "string \<Rightarrow> int res" where
  "int_segment s =
     (if 4300 < length s \<or> \<not> list_all is_dec s then Inl (ValueError ''invalid literal for int()'')
      else Inr (int (undec s)))"

fun version_parts :: "string list \<Rightarrow> int list option res" where
  "version_parts [] = Inr (Some [])"
| "version_parts (segment # segments) =
     (if \<not> isdigit segment then Inr None
      else bindr (int_segment segment) (\<lambda>n.
           bindr (version_parts segments) (\<lambda>rest. Inr (map_option ((#) n) rest))))"

definition is_newer :: "string \<Rightarrow> string \<Rightarrow> bool res" where
  "is_newer candidate installed =
     bindr (version_parts (split_on (CHR ''.'') candidate)) (\<lambda>left.
     bindr (version_parts (split_on (CHR ''.'') installed)) (\<lambda>right.
       Inr (case (left, right) of (Some l, Some r) \<Rightarrow> r < l | _ \<Rightarrow> False)))"

end
