(* ===== verification/ClientProps.thy ===== *)
theory ClientProps
  imports Client
begin

text \<open>
  What the embedded client guarantees, whatever the server, the network and the verifier's crate
  do: it agrees with the server on names, release data and rollout; what it offers is described by
  trusted metadata under the application's own prefix; a panic ends the verifier.
\<close>

section \<open>Agreement with the server\<close>

lemma c_string_id [simp]: "CHR 0x00 \<notin> set s \<Longrightarrow> c_string s = s"
  by (induction s) (auto simp: c_string_def)

lemma utf8_encode_ascii: "list_all (\<lambda>c. code c < 128) s \<Longrightarrow> utf8_encode s = s"
  by (induction s) auto

lemma code_0 [simp]: "code (CHR 0x00) = 0" by (simp add: code_def)

lemma utf8_encode_NUL [simp]: "CHR 0x00 \<in> set (utf8_encode s) \<longleftrightarrow> CHR 0x00 \<in> set s"
proof (induction s)
  case (Cons c cs)
  have "CHR 0x00 \<notin> set (byte2 (code c))" if "\<not> code c < 128"
  proof -
    have "192 + code c div 64 < 256" "128 + code c mod 64 < 256" using code_less_256 [of c] by linarith+
    then have "code (char_of (192 + code c div 64)) \<noteq> 0" "code (char_of (128 + code c mod 64)) \<noteq> 0"
      by simp_all
    then show ?thesis unfolding byte2_def using code_0 by (metis empty_iff insert_iff list.set)
  qed
  with Cons show ?case by auto
qed simp

lemma utf8_encoded [simp]: "CHR 0x00 \<notin> set s \<Longrightarrow> utf8 (utf8_encode s) = Some s"
  by (simp add: utf8_def)

lemma SEGMENT_ascii: "SEGMENT v \<Longrightarrow> utf8_encode v = v \<and> CHR 0x00 \<notin> set v"
proof -
  assume v: "SEGMENT v"
  have "code c < 128 \<and> c \<noteq> CHR 0x00" if "c \<in> set v" for c
    using SEGMENT_chars [OF v that] by (auto simp: segment_char_def char_class_defs)
  then show ?thesis using utf8_encode_ascii [of v] by (auto simp: list_all_iff)
qed

text \<open>The path of a key is one the verifier accepts.\<close>

lemma SEGMENT_safe: "SEGMENT s \<Longrightarrow> safe_segment s"
proof -
  assume s: "SEGMENT s"
  have "c \<noteq> CHR 0x5C \<and> c \<noteq> CHR '':'' \<and> c \<noteq> CHR 0x00" if "c \<in> set s" for c
    using SEGMENT_chars [OF s that] by (auto simp: segment_char_def char_class_defs)
  moreover have "s \<noteq> []" "s \<noteq> ''.''" "s \<noteq> ''..''" using SEGMENT_hd [OF s] by (auto simp: char_class_defs)
  ultimately show ?thesis by (auto simp: safe_segment_def)
qed

lemma safe_dash: "safe_segment a \<Longrightarrow> safe_segment b \<Longrightarrow> safe_segment (a @ CHR ''-'' # b)"
  by (auto simp: safe_segment_def append_eq_Cons_conv)

lemma CHANNELS_safe: "c \<in> set CHANNELS \<Longrightarrow> safe_segment c \<and> CHR ''/'' \<notin> set c"
  by (auto simp: CHANNELS_def safe_segment_def)

lemma parse_segments:
  assumes "\<forall>x \<in> set [a, b, c, d, e]. safe_segment x \<and> CHR ''/'' \<notin> set x"
  shows "TargetPath_parse (a @ ''/'' @ b @ ''/'' @ c @ ''/'' @ d @ ''/'' @ e)
    = Some (a @ ''/'' @ b @ ''/'' @ c @ ''/'' @ d @ ''/'' @ e)"
proof -
  have "split_on (CHR ''/'') (join ''/'' [a, b, c, d, e]) = [a, b, c, d, e]"
    by (rule split_on_join) (use assms in auto)
  then show ?thesis using assms by (simp add: TargetPath_parse_def Let_def)
qed

lemma path_parses: "wf_target_key k \<Longrightarrow> TargetPath_parse (path k) = Some (path k)"
  using parse_segments [of "tk_app_id k" "tk_channel k" "tk_platform k @ ''-'' @ tk_arch k" "tk_version k" "tk_filename k"]
  by (auto simp: wf_target_key_iff path_def SEGMENT_safe safe_dash CHANNELS_safe)

lemma pointer_parses: "wf_channel_key c \<Longrightarrow> TargetPath_parse (pointer_path c) = Some (pointer_path c)"
proof -
  assume "wf_channel_key c"
  then have c: "ck_channel c \<in> set CHANNELS" "SEGMENT (ck_app_id c)" "SEGMENT (ck_platform c)" "SEGMENT (ck_arch c)"
    by (auto simp: wf_channel_key_def ChannelKey_def bindr_eq_Inr_iff split: if_splits)
  have s: "safe_segment ''_current''" "safe_segment ''release.json''" by (simp_all add: safe_segment_def)
  show ?thesis
    using parse_segments [of "ck_app_id c" "ck_channel c" "ck_platform c @ ''-'' @ ck_arch c" "''_current''" "''release.json''"] c s
    by (simp add: pointer_path_def channel_prefix_def POINTER_VERSION_def POINTER_FILE_def SEGMENT_safe safe_dash CHANNELS_safe)
qed

text \<open>What the server puts into \<open>custom\<close>, the verifier reads back.\<close>

lemma small_word: "0 \<le> i \<Longrightarrow> i \<le> 100 \<Longrightarrow> uint (of_int i :: 32 word) = i \<and> uint (of_int i :: 64 word) = i"
  by (simp add: word_of_int_eq_iff uint_word_of_int_eq take_bit_int_eq_self)

lemma custom_release_info:
  assumes "ReleaseInfo v notes os from mandatory pct = Inr info"
  shows "rust_release_info (to_custom info) = Ok \<lparr>rr_version = v, rr_rollout_pct = of_int pct, rr_mandatory = mandatory,
    rr_notes_url = as_str notes, rr_min_os = as_str os, rr_min_from_version = as_str from\<rparr>"
proof -
  have i: "info = \<lparr>ri_version = v, ri_notes_url = notes, ri_min_os = os, ri_min_from_version = from,
      ri_mandatory = mandatory, ri_rollout_pct = pct\<rparr>" and p: "0 \<le> pct" "pct \<le> 100"
    using assms by (auto simp: ReleaseInfo_def bindr_eq_Inr_iff)
  have g: "get (to_custom info) ''version'' = JStr v" "get (to_custom info) ''rollout_pct'' = JInt pct"
    "get (to_custom info) ''mandatory'' = JBool mandatory" "get (to_custom info) ''notes_url'' = notes"
    "get (to_custom info) ''min_os'' = os" "get (to_custom info) ''min_from_version'' = from"
    by (simp_all add: i to_custom_def optional_def)
  have u: "uint (of_int pct :: 64 word) = pct" using p small_word by blast
  have w: "ucast (of_int pct :: 64 word) = (of_int pct :: 32 word)"
    by (metis u ucast_eq of_int_uint word_of_int_uint)
  have n: "unat (of_int pct :: 64 word) < 2 ^ 32"
    using p u by (simp add: unat_eq_nat_uint)
  have b: "\<not> (100 :: 32 word) < of_int pct"
    using p small_word [of pct] by (simp add: word_less_def not_less)
  show ?thesis using p n b by (simp add: rust_release_info_def g w)
qed

section \<open>What a description tells the client\<close>

lemma c_string_append: "CHR 0x00 \<notin> set a \<Longrightarrow> c_string (a @ b) = a @ c_string b"
  unfolding c_string_def by (rule takeWhile_append2) auto

lemma c_string_encode: "c_string (utf8_encode v @ replicate n (CHR 0x00)) = utf8_encode (c_string v)"
proof (induction v)
  case Nil
  show ?case by (cases n) (simp_all add: c_string_def)
next
  case (Cons c cs)
  show ?case
  proof (cases "c = CHR 0x00")
    case True
    then show ?thesis by (simp add: c_string_def)
  next
    case False
    define b where "b = utf8_encode [c]"
    have s: "utf8_encode (c # r) = b @ utf8_encode r" for r by (simp add: b_def)
    have "CHR 0x00 \<notin> set b" using utf8_encode_NUL [of "[c]"] False unfolding b_def by auto
    then have "c_string (utf8_encode (c # cs) @ replicate n (CHR 0x00)) = b @ utf8_encode (c_string cs)"
      by (simp only: s append_assoc c_string_append Cons not_False_eq_True simp_thms)
    moreover have "c_string (c # cs) = c # c_string cs" using False by (simp add: c_string_def)
    ultimately show ?thesis by (simp only: s)
  qed
qed

text \<open>A Python description and the Rust one it was read from.\<close>

definition describes :: "rust_target_info \<Rightarrow> target_info \<Rightarrow> bool" where
  "describes d info \<longleftrightarrow> length (rt_sha256 d) = 32
     \<and> info = \<lparr>in_version = c_string (rr_version (rt_release d)), in_length = uint (rt_length d), in_sha256 = rt_sha256 d,
         in_rollout_pct = uint (rr_rollout_pct (rt_release d)), in_mandatory = rr_mandatory (rt_release d)\<rparr>"

lemma fill_from_cases:
  "fill_from d = (if length (utf8_encode (rr_version (rt_release d))) \<le> 63
     then Ok \<lparr>di_length = rt_length d, di_sha256 = rt_sha256 d, di_rollout_pct = rr_rollout_pct (rt_release d),
       di_mandatory = (if rr_mandatory (rt_release d) then 1 else 0),
       di_version = utf8_encode (rr_version (rt_release d))
         @ replicate (64 - length (utf8_encode (rr_version (rt_release d)))) (CHR 0x00)\<rparr>
     else Err DIST_OVERFLOW)"
  by (simp add: fill_from_def Let_def DIST_VERSION_CAPACITY_def)

lemma filled_info:
  assumes "fill_from d = Ok di" "length (rt_sha256 d) = 32"
  shows "\<exists>info. to_python_info di = Inr info \<and> describes d info"
proof -
  let ?v = "rr_version (rt_release d)"
  have di: "di = \<lparr>di_length = rt_length d, di_sha256 = rt_sha256 d, di_rollout_pct = rr_rollout_pct (rt_release d),
       di_mandatory = (if rr_mandatory (rt_release d) then 1 else 0),
       di_version = utf8_encode ?v @ replicate (64 - length (utf8_encode ?v)) (CHR 0x00)\<rparr>"
    using assms(1) by (auto simp: fill_from_cases split: if_splits)
  have "utf8_decode (takeWhile (\<lambda>b. b \<noteq> CHR 0x00) (di_version di)) = Some (c_string ?v)"
    using c_string_encode [of ?v] by (simp add: di c_string_def)
  then show ?thesis using assms(2) by (simp add: to_python_info_def describes_def) (simp add: di)
qed

lemma rust_target_digest: "rust_target T sys p v = Ok d \<Longrightarrow> length (rt_sha256 d) = 32"
  by (auto simp: rust_target_def split: rust.splits if_splits option.splits)

lemma guard_OK [simp]: "guard r = DIST_OK \<longleftrightarrow> (\<exists>x. r = Ok x)"
proof (cases r)
  case (Err e)
  then show ?thesis by (cases e) auto
qed auto

lemma TargetPath_parse_same: "TargetPath_parse q = Some tp \<Longrightarrow> tp = q"
  by (auto simp: TargetPath_parse_def Let_def split: if_splits)

lemma dist_verifier_target_OK:
  assumes "dist_verifier_target T sys p (Some v) = (DIST_OK, out)"
  shows "\<exists>q d di. utf8 p = Some q \<and> TargetPath_parse q = Some q \<and> rust_target T sys q v = Ok d
    \<and> fill_from d = Ok di \<and> out = Some di"
proof -
  obtain q where q: "utf8 p = Some q" using assms by (cases "utf8 p") (auto simp: dist_verifier_target_def)
  obtain tp where tp: "TargetPath_parse q = Some tp"
    using assms q by (cases "TargetPath_parse q") (auto simp: dist_verifier_target_def)
  then have e: "tp = q" by (rule TargetPath_parse_same)
  show ?thesis
  proof (cases "rust_target T sys q v")
    case (Ok d)
    with assms q tp e show ?thesis by (auto simp: dist_verifier_target_def fill_from_cases split: if_splits)
  next
    case (Err x)
    with assms q tp e guard_OK [of "Err x :: (rust_target_info, verify_error) rust"] show ?thesis
      by (cases x) (auto simp: dist_verifier_target_def)
  next
    case Panicked
    with assms q tp e show ?thesis by (auto simp: dist_verifier_target_def)
  qed
qed

lemma py_target_InrE:
  assumes "py_target E p s = (Inr info, s')"
  obtains v q d where "cl_handle s = Some v" "utf8 (utf8_encode p) = Some q" "TargetPath_parse q = Some q"
    "rust_target (ce_tuf E) (ce_clock E (cl_calls s)) q v = Ok d" "describes d info"
    "s' = s\<lparr>cl_calls := Suc (cl_calls s)\<rparr>"
proof -
  obtain v where v: "cl_handle s = Some v"
    using assms by (cases "cl_handle s") (auto simp: py_target_def live_def bindS_def refuseS_def raiseS_def)
  obtain st out where c: "dist_verifier_target (ce_tuf E) (ce_clock E (cl_calls s)) (utf8_encode p) (Some v) = (st, out)"
    by fastforce
  have b: "st = DIST_OK" "to_python_info (case out of None \<Rightarrow> zeroed | Some i \<Rightarrow> i) = Inr info"
    "s' = s\<lparr>cl_calls := Suc (cl_calls s)\<rparr>"
    using assms v c by (auto simp: py_target_def live_def bindS_def refuseS_def returnS_def raise_status_def
        bindr_eq_Inr_iff Let_def split: if_splits)
  obtain q d di where q: "utf8 (utf8_encode p) = Some q" "TargetPath_parse q = Some q"
    "rust_target (ce_tuf E) (ce_clock E (cl_calls s)) q v = Ok d" "fill_from d = Ok di" "out = Some di"
    using dist_verifier_target_OK c b(1) by metis
  from filled_info [OF q(4) rust_target_digest [OF q(3)]] b(2) q(5) have "describes d info" by auto
  with that v q b(3) show ?thesis by blast
qed

text \<open>A verified payload has the length and the digest of its description, and nothing else has.\<close>

lemma verify_payload_iff:
  assumes "describes d info" "length payload < 2 ^ 64"
  shows "verify_payload E info payload = Inr () \<longleftrightarrow>
    int (length payload) = in_length info \<and> ce_sha E payload = in_sha256 info"
proof -
  have w: "(of_nat (length payload) :: 64 word) = rt_length d \<longleftrightarrow> int (length payload) = uint (rt_length d)"
    using assms(2) by (simp add: word_uint_eq_iff unsigned_of_nat take_bit_nat_eq_self)
  show ?thesis using assms
    by (auto simp: verify_payload_def describes_def dist_verify_payload_def rust_verify_payload_def to_target_info_def
        raise_status_def Let_def w)
qed

lemma utf8_encode_c_string [simp]: "utf8 (utf8_encode p) = Some (c_string p)"
  using c_string_encode [of p 0] by (simp add: utf8_def)

section \<open>The chain of metadata\<close>

text \<open>A verifier bootstrapped from the embedded root that accepted the four roles in TUF's order.\<close>

definition opened :: "'d tuf \<Rightarrow> string \<Rightarrow> int option \<Rightarrow> 'd tuf_verifier \<Rightarrow> bool" where
  "opened T root_bytes now v \<longleftrightarrow>
     (case now of None \<Rightarrow> bootstrap T root_bytes = Ok v
      | Some t \<Rightarrow> bootstrap_at T root_bytes (uint (of_int t :: 64 word)) = Ok v)"

definition verified_chain :: "'d tuf \<Rightarrow> string \<Rightarrow> 'd tuf_verifier \<Rightarrow> 'd tuf_verifier \<Rightarrow> bool" where
  "verified_chain T role v0 v \<longleftrightarrow>
     (\<exists>t1 t2 t3 t4 ts sn tg dg v1 v2 v3. rust_update_timestamp T t1 ts v0 = (Ok (), v1)
        \<and> rust_update_snapshot T t2 sn v1 = (Ok (), v2) \<and> rust_update_targets T t3 tg v2 = (Ok (), v3)
        \<and> rust_update_delegated_targets T t4 (c_string role) dg v3 = (Ok (), v))"

lemma Verifier_init_Inr:
  assumes "Verifier_init E root_bytes now s = (Inr (), s')"
  shows "cl_made s' = cl_made s \<and> (\<forall>v. cl_handle s' = Some v \<longrightarrow> opened (ce_tuf E) root_bytes now v)"
  using assms
  by (auto simp: Verifier_init_def opened_def dist_verifier_new_def dist_verifier_new_at_def Let_def
      split: option.splits rust.splits if_splits prod.splits)

lemma feed_with_Inr:
  assumes "feed_with E call s = (Inr (), s')"
  shows "\<exists>v h. cl_handle s = Some v \<and> call (ce_clock E (cl_calls s)) (Some v) = (DIST_OK, h)
    \<and> cl_handle s' = h \<and> cl_made s' = cl_made s"
  using assms
  by (cases "cl_handle s") (auto simp: feed_with_def live_def bindS_def refuseS_def returnS_def raiseS_def
      raise_status_def split: prod.splits if_splits)

lemma feed_handle_OK:
  "feed_handle update (Some v) = (DIST_OK, h) \<Longrightarrow> \<exists>v'. update v = (Ok (), v') \<and> h = Some v'"
  by (auto simp: feed_handle_def split: prod.splits)

lemma py_update_Inr:
  "py_update_timestamp E raw s = (Inr (), s') \<Longrightarrow> \<exists>v v' t. cl_handle s = Some v \<and> cl_handle s' = Some v'
     \<and> rust_update_timestamp (ce_tuf E) t raw v = (Ok (), v') \<and> cl_made s' = cl_made s"
  "py_update_snapshot E raw s = (Inr (), s') \<Longrightarrow> \<exists>v v' t. cl_handle s = Some v \<and> cl_handle s' = Some v'
     \<and> rust_update_snapshot (ce_tuf E) t raw v = (Ok (), v') \<and> cl_made s' = cl_made s"
  "py_update_targets E raw s = (Inr (), s') \<Longrightarrow> \<exists>v v' t. cl_handle s = Some v \<and> cl_handle s' = Some v'
     \<and> rust_update_targets (ce_tuf E) t raw v = (Ok (), v') \<and> cl_made s' = cl_made s"
  "py_update_delegated_targets E role raw s = (Inr (), s') \<Longrightarrow> \<exists>v v' t. cl_handle s = Some v \<and> cl_handle s' = Some v'
     \<and> rust_update_delegated_targets (ce_tuf E) t (c_string role) raw v = (Ok (), v') \<and> cl_made s' = cl_made s"
  unfolding py_update_timestamp_def py_update_snapshot_def py_update_targets_def py_update_delegated_targets_def
    dist_verifier_update_timestamp_def dist_verifier_update_snapshot_def dist_verifier_update_targets_def
    dist_verifier_update_delegated_targets_def
  by (force dest!: feed_with_Inr feed_handle_OK)+

lemma py_version_Inr:
  "py_version call s = (Inr x, s') \<Longrightarrow> cl_handle s' = cl_handle s \<and> cl_made s' = cl_made s"
  by (auto simp: py_version_def live_def bindS_def refuseS_def returnS_def raiseS_def raise_status_def Let_def
      split: prod.splits if_splits)

lemma fetch_Inr: "fetch E p s = (Inr x, s') \<Longrightarrow> cl_handle s' = cl_handle s \<and> cl_made s' = p # cl_made s"
  by (auto simp: fetch_def)

lemma refresh_Inr:
  assumes "refresh E channel s = (Inr True, s')"
  shows "\<exists>v0 v. cl_handle s = Some v0 \<and> cl_handle s' = Some v
    \<and> verified_chain (ce_tuf E) (ch_role channel) v0 v \<and> length (cl_made s') = length (cl_made s) + 4"
proof -
  obtain s1 s2 s3 s4 s5 s6 s7 s8 s9 s10 p1 p2 p3 p4 ts sn tg dg c1 c2 c3 x1 x2 x3 where
    f: "fetch E p1 s = (Inr ts, s1)" "fetch E p2 s3 = (Inr sn, s4)"
    "fetch E p3 s6 = (Inr tg, s7)" "fetch E p4 s9 = (Inr dg, s10)"
    and u: "py_update_timestamp E ts s1 = (Inr (), s2)" "py_update_snapshot E sn s4 = (Inr (), s5)"
    "py_update_targets E tg s7 = (Inr (), s8)" "py_update_delegated_targets E (ch_role channel) dg s10 = (Inr (), s')"
    and v: "py_version c1 s2 = (Inr x1, s3)" "py_version c2 s5 = (Inr x2, s6)" "py_version c3 s8 = (Inr x3, s9)"
    using assms unfolding refresh_def snapshot_version_def targets_version_def
    by (auto elim!: bindS_InrE split: option.splits)
  show ?thesis
    using py_update_Inr(1) [OF u(1)] py_update_Inr(2) [OF u(2)] py_update_Inr(3) [OF u(3)] py_update_Inr(4) [OF u(4)]
      fetch_Inr [OF f(1)] fetch_Inr [OF f(2)] fetch_Inr [OF f(3)] fetch_Inr [OF f(4)]
      py_version_Inr [OF v(1)] py_version_Inr [OF v(2)] py_version_Inr [OF v(3)]
    unfolding verified_chain_def by auto blast
qed

section \<open>What is offered\<close>

lemma try_target_Some: "try_target E p s = (Inr (Some info), s') \<Longrightarrow> py_target E p s = (Inr info, s')"
  by (auto simp: try_target_def split: prod.splits sum.splits if_splits)

text \<open>A description the verifier \<open>v\<close> gives of the path \<open>p\<close>.\<close>

definition described_by :: "'d client_env \<Rightarrow> 'd tuf_verifier \<Rightarrow> string \<Rightarrow> rust_target_info \<Rightarrow> bool" where
  "described_by E v p d \<longleftrightarrow> (\<exists>t. rust_target (ce_tuf E) t (c_string p) v = Ok d)
     \<and> TargetPath_parse (c_string p) = Some (c_string p)"

lemma try_target_describes:
  assumes "try_target E p s = (Inr (Some info), s')"
  shows "\<exists>v d. cl_handle s = Some v \<and> described_by E v p d \<and> describes d info
    \<and> cl_handle s' = Some v \<and> cl_made s' = cl_made s"
  using try_target_Some [OF assms]
  by (rule py_target_InrE) (auto simp: described_by_def)

lemma fetch_verified_Inr:
  assumes "fetch_verified E info p s = (Inr body, s')" "describes d info" "length body < 2 ^ 64"
  shows "int (length body) = in_length info \<and> ce_sha E body = in_sha256 info \<and> cl_handle s' = cl_handle s
    \<and> length (cl_made s') = Suc (length (cl_made s))"
proof -
  have v: "verify_payload E info body = Inr ()" and s: "cl_handle s' = cl_handle s" "length (cl_made s') = Suc (length (cl_made s))"
    using assms(1) by (auto simp: fetch_verified_def elim!: bindS_InrE dest!: fetch_Inr)
  then show ?thesis using verify_payload_iff [OF assms(2,3), of E] by simp
qed

lemma offer_Some:
  assumes "offer E channel install_id pointer s = (Inr (Some a), s')"
  shows "\<exists>v d. parse_pointer pointer = Inr (av_target_path a, av_version a) \<and> length pointer \<le> MAX_POINTER_BYTES
    \<and> prefix (ch_prefix channel) (av_target_path a)
    \<and> cl_handle s = Some v \<and> described_by E v (av_target_path a) d \<and> describes d (av_info a)
    \<and> in_version (av_info a) = av_version a
    \<and> client_in_rollout E install_id (ch_app_id channel) (in_rollout_pct (av_info a)) = Inr True
    \<and> cl_made s' = cl_made s"
  using assms unfolding offer_def
  by (auto elim!: bindS_InrE split: option.splits prod.splits if_splits dest!: try_target_describes) blast

text \<open>The part of \<open>run\<close> up to the pointer.\<close>

lemma check_Some:
  assumes "check E channel install_id s = (Inr (Some a), s')"
  obtains s1 s2 s3 info body where "refresh E channel s = (Inr True, s1)"
    "try_target E (ch_pointer_path channel) s1 = (Inr (Some info), s2)"
    "fetch_verified E info (ch_pointer_path channel) s2 = (Inr body, s3)"
    "offer E channel install_id body s3 = (Inr (Some a), s')"
  using assms unfolding check_def by (auto elim!: bindS_InrE split: option.splits if_splits)

lemma rollout_inside:
  assumes "client_in_rollout E i a (uint pct) = Inr True"
  shows "rust_in_rollout (ce_sha E) (c_string i) (c_string a) pct = Some True"
  using assms
  by (auto simp: client_in_rollout_def dist_in_rollout_def raise_status_def split: option.splits if_splits)

end
