(* ===== verification/ClientRun.thy ===== *)
theory ClientRun
  imports ClientProps
begin

text \<open>
  Running the update check forwards: what an honest server and a crate that accepts its metadata
  make of it.  The time is fixed, so a state is described by the crate's database alone.
\<close>

definition on_database :: "int \<Rightarrow> 'd \<Rightarrow> 'd client \<Rightarrow> bool" where
  "on_database t db s \<longleftrightarrow> cl_handle s = Some \<lparr>tv_database = db, tv_clock = Fixed t\<rparr>"

definition served :: "'d client_env \<Rightarrow> string \<Rightarrow> string \<Rightarrow> bool" where
  "served E p body \<longleftrightarrow> (\<forall>made. ce_fetch E made p = Inr body)"

lemma fetch_run:
  "served E p body \<Longrightarrow> on_database t db s \<Longrightarrow> \<exists>s'. fetch E p s = (Inr body, s') \<and> on_database t db s'"
  by (simp add: fetch_def served_def on_database_def)

lemma feed_with_run:
  assumes "cl_handle s = Some v" "call (ce_clock E (cl_calls s)) (Some v) = (DIST_OK, Some v')"
  shows "\<exists>s'. feed_with E call s = (Inr (), s') \<and> cl_handle s' = Some v'"
  using assms by (simp add: feed_with_def live_def bindS_def refuseS_def returnS_def raise_status_def)

lemma py_update_run:
  assumes "on_database t db s"
  shows "tf_update_timestamp (ce_tuf E) t raw db = (Ok (), db') \<Longrightarrow>
      \<exists>s'. py_update_timestamp E raw s = (Inr (), s') \<and> on_database t db' s'"
    and "tf_update_snapshot (ce_tuf E) t raw db = (Ok (), db') \<Longrightarrow>
      \<exists>s'. py_update_snapshot E raw s = (Inr (), s') \<and> on_database t db' s'"
    and "tf_update_targets (ce_tuf E) t raw db = (Ok (), db') \<Longrightarrow>
      \<exists>s'. py_update_targets E raw s = (Inr (), s') \<and> on_database t db' s'"
    and "CHR 0x00 \<notin> set role \<Longrightarrow> tf_metadata_path (ce_tuf E) role \<Longrightarrow>
      tf_update_delegated_targets (ce_tuf E) t role raw db = (Ok (), db') \<Longrightarrow>
      \<exists>s'. py_update_delegated_targets E role raw s = (Inr (), s') \<and> on_database t db' s'"
  using assms unfolding py_update_timestamp_def py_update_snapshot_def py_update_targets_def py_update_delegated_targets_def
    on_database_def
  by (auto intro!: feed_with_run simp: dist_verifier_update_timestamp_def dist_verifier_update_snapshot_def
      dist_verifier_update_targets_def dist_verifier_update_delegated_targets_def feed_handle_def
      rust_update_timestamp_def rust_update_snapshot_def rust_update_targets_def rust_update_delegated_targets_def
      update_role_def utc_now_def)

lemma py_version_run:
  assumes "on_database t db s"
  shows "tf_timestamp_snapshot (ce_tuf E) db = Some w \<Longrightarrow>
      \<exists>s'. snapshot_version E s = (Inr (Some (uint w)), s') \<and> on_database t db s'"
    and "CHR 0x00 \<notin> set role \<Longrightarrow> tf_metadata_path (ce_tuf E) role \<Longrightarrow> tf_snapshot_meta (ce_tuf E) db = Some meta \<Longrightarrow>
      meta role = Some w \<Longrightarrow> \<exists>s'. targets_version E role s = (Inr (Some (uint w)), s') \<and> on_database t db s'"
  using assms unfolding on_database_def
  by (auto simp: snapshot_version_def targets_version_def py_version_def live_def bindS_def refuseS_def returnS_def
      dist_verifier_snapshot_version_def rust_snapshot_version_def dist_verifier_targets_version_def
      rust_targets_version_def raise_status_def)

text \<open>The chain, when every file it names is served and accepted.\<close>

lemma refresh_run:
  assumes T: "T = ce_tuf E" and s: "on_database t db0 s" and role: "CHR 0x00 \<notin> set (ch_role channel)"
    and ok: "tf_metadata_path T ''targets''" "tf_metadata_path T (ch_role channel)"
    and ts: "served E ''timestamp.json'' ts" "tf_update_timestamp T t ts db0 = (Ok (), db1)" "tf_timestamp_snapshot T db1 = Some w1"
    and sn: "served E (dec_int (uint w1) @ ''.snapshot.json'') sn" "tf_update_snapshot T t sn db1 = (Ok (), db2)"
      "tf_snapshot_meta T db2 = Some meta" "meta ''targets'' = Some w2"
    and tg: "served E (dec_int (uint w2) @ ''.targets.json'') tg" "tf_update_targets T t tg db2 = (Ok (), db3)"
      "tf_snapshot_meta T db3 = Some meta" "meta (ch_role channel) = Some w3"
    and dg: "served E (dec_int (uint w3) @ ''.'' @ ch_role channel @ ''.json'') dg"
      "tf_update_delegated_targets T t (ch_role channel) dg db3 = (Ok (), db4)"
  shows "\<exists>s'. refresh E channel s = (Inr True, s') \<and> on_database t db4 s'"
proof -
  obtain s1 where 1: "fetch E ''timestamp.json'' s = (Inr ts, s1)" "on_database t db0 s1" using fetch_run [OF ts(1) s] by blast
  obtain s2 where 2: "py_update_timestamp E ts s1 = (Inr (), s2)" "on_database t db1 s2" using py_update_run(1) [OF 1(2)] ts(2) T by blast
  obtain s3 where 3: "snapshot_version E s2 = (Inr (Some (uint w1)), s3)" "on_database t db1 s3" using py_version_run(1) [OF 2(2)] ts(3) T by blast
  obtain s4 where 4: "fetch E (dec_int (uint w1) @ ''.snapshot.json'') s3 = (Inr sn, s4)" "on_database t db1 s4" using fetch_run [OF sn(1) 3(2)] by blast
  obtain s5 where 5: "py_update_snapshot E sn s4 = (Inr (), s5)" "on_database t db2 s5" using py_update_run(2) [OF 4(2)] sn(2) T by blast
  obtain s6 where 6: "targets_version E ''targets'' s5 = (Inr (Some (uint w2)), s6)" "on_database t db2 s6"
    using py_version_run(2) [OF 5(2), where role = "''targets''" and E = E and meta = meta and w = w2] ok(1) sn(3,4) T by auto
  obtain s7 where 7: "fetch E (dec_int (uint w2) @ ''.targets.json'') s6 = (Inr tg, s7)" "on_database t db2 s7" using fetch_run [OF tg(1) 6(2)] by blast
  obtain s8 where 8: "py_update_targets E tg s7 = (Inr (), s8)" "on_database t db3 s8" using py_update_run(3) [OF 7(2)] tg(2) T by blast
  obtain s9 where 9: "targets_version E (ch_role channel) s8 = (Inr (Some (uint w3)), s9)" "on_database t db3 s9"
    using py_version_run(2) [OF 8(2) role, where E = E and meta = meta and w = w3] ok(2) tg(3,4) T by auto
  obtain s10 where 10: "fetch E (dec_int (uint w3) @ ''.'' @ ch_role channel @ ''.json'') s9 = (Inr dg, s10)" "on_database t db3 s10"
    using fetch_run [OF dg(1) 9(2)] by blast
  obtain s11 where 11: "py_update_delegated_targets E (ch_role channel) dg s10 = (Inr (), s11)" "on_database t db4 s11"
    using py_update_run(4) [OF 10(2) role] ok(2) dg(2) T by blast
  have "refresh E channel s = (Inr True, s11)"
    unfolding refresh_def using 1(1) 2(1) 3(1) 4(1) 5(1) 6(1) 7(1) 8(1) 9(1) 10(1) 11(1)
    by (simp add: bindS_def returnS_def)
  with 11(2) show ?thesis by blast
qed

text \<open>A lookup the crate answers.\<close>

definition info_of :: "description \<Rightarrow> string \<Rightarrow> rust_release \<Rightarrow> target_info" where
  "info_of d h r = \<lparr>in_version = c_string (rr_version r), in_length = uint (de_length d), in_sha256 = h,
     in_rollout_pct = uint (rr_rollout_pct r), in_mandatory = rr_mandatory r\<rparr>"

definition answers :: "'d client_env \<Rightarrow> int \<Rightarrow> 'd \<Rightarrow> string \<Rightarrow> target_info \<Rightarrow> bool" where
  "answers E t db p info \<longleftrightarrow> CHR 0x00 \<notin> set p \<and> TargetPath_parse p = Some p \<and> tf_target_path (ce_tuf E) p
     \<and> (\<exists>d h r. tf_describe (ce_tuf E) t p db = Ok d \<and> de_sha256 d = Some h \<and> length h = 32
          \<and> rust_release_info (de_custom d) = Ok r \<and> length (utf8_encode (rr_version r)) \<le> 63 \<and> info = info_of d h r)"

lemma try_target_run:
  assumes "on_database t db s" "answers E t db p info"
  shows "\<exists>s' d. try_target E p s = (Inr (Some info), s') \<and> on_database t db s' \<and> describes d info"
proof -
  obtain d h r where p: "CHR 0x00 \<notin> set p" "TargetPath_parse p = Some p" "tf_target_path (ce_tuf E) p"
    and d: "tf_describe (ce_tuf E) t p db = Ok d" "de_sha256 d = Some h" "length h = 32"
      "rust_release_info (de_custom d) = Ok r" "length (utf8_encode (rr_version r)) \<le> 63" "info = info_of d h r"
    using assms(2) by (auto simp: answers_def)
  let ?d = "\<lparr>rt_length = de_length d, rt_sha256 = h, rt_release = r\<rparr>"
  obtain di where di: "fill_from ?d = Ok di" using d(5) by (simp add: fill_from_cases)
  obtain i where i: "to_python_info di = Inr i" "describes ?d i" using filled_info [OF di] d(3) by auto
  have "i = info" using i(2) d(6) by (simp add: describes_def info_of_def)
  moreover have "rust_target (ce_tuf E) sys p \<lparr>tv_database = db, tv_clock = Fixed t\<rparr> = Ok ?d" for sys
    using p(3) d by (simp add: rust_target_def utc_now_def)
  ultimately show ?thesis using assms(1) p di i
    by (auto simp: try_target_def py_target_def live_def bindS_def refuseS_def returnS_def on_database_def
        dist_verifier_target_def raise_status_def)
qed

text \<open>The client parses a pointer as the server does.\<close>

lemma parse_pointer_from_json: "from_json raw = Inr r \<Longrightarrow> parse_pointer raw = Inr (cr_target_path r, cr_version r)"
  by (auto simp: from_json_def parse_pointer_def CurrentRelease_def bindr_eq_Inr_iff split: sum.splits option.splits)

text \<open>The whole check.\<close>

lemma check_run:
  assumes r: "\<exists>s1. refresh E channel s = (Inr True, s1) \<and> on_database t db s1"
    and pi: "answers E t db (ch_pointer_path channel) pinfo"
    and sv: "served E (''targets/'' @ stored_target_path (ch_pointer_path channel) (sha256_hex pinfo)) pointer"
    and len: "int (length pointer) = in_length pinfo" "ce_sha E pointer = in_sha256 pinfo" "length pointer \<le> MAX_POINTER_BYTES"
    and pp: "parse_pointer pointer = Inr (target_path, in_version info)" "prefix (ch_prefix channel) target_path"
    and ti: "answers E t db target_path info" "in_rollout_pct info = 100"
    and nul: "CHR 0x00 \<notin> set install_id" "CHR 0x00 \<notin> set (ch_app_id channel)"
  shows "\<exists>s'. check E channel install_id s
    = (Inr (Some \<lparr>av_version = in_version info, av_target_path = target_path, av_info = info\<rparr>), s')"
proof -
  obtain s1 where 1: "refresh E channel s = (Inr True, s1)" "on_database t db s1" using r by blast
  obtain s2 pd where 2: "try_target E (ch_pointer_path channel) s1 = (Inr (Some pinfo), s2)" "on_database t db s2" "describes pd pinfo"
    using try_target_run [OF 1(2) pi] by blast
  obtain s3 where 3: "fetch E (''targets/'' @ stored_target_path (ch_pointer_path channel) (sha256_hex pinfo)) s2 = (Inr pointer, s3)"
    "on_database t db s3" using fetch_run [OF sv 2(2)] by blast
  have "length pointer < 2 ^ 64" using len(3) by (simp add: MAX_POINTER_BYTES_def)
  then have v: "verify_payload E pinfo pointer = Inr ()" using verify_payload_iff [OF 2(3)] len(1,2) by blast
  obtain s4 where 4: "try_target E target_path s3 = (Inr (Some info), s4)" using try_target_run [OF 3(2) ti(1)] by blast
  have "client_in_rollout E install_id (ch_app_id channel) 100 = Inr True"
    using nul by (simp add: client_in_rollout_def dist_in_rollout_def rust_in_rollout_def raise_status_def)
  then have "offer E channel install_id pointer s3
      = (Inr (Some \<lparr>av_version = in_version info, av_target_path = target_path, av_info = info\<rparr>), s4)"
    using len(3) pp 4 ti(2) by (simp add: offer_def bindS_def refuseS_def returnS_def liftS_def)
  moreover have "fetch_verified E pinfo (ch_pointer_path channel) s2 = (Inr pointer, s3)"
    using 3(1) v by (simp add: fetch_verified_def bindS_def liftS_def returnS_def)
  ultimately have "check E channel install_id s
      = (Inr (Some \<lparr>av_version = in_version info, av_target_path = target_path, av_info = info\<rparr>), s4)"
    using 1(1) 2(1) by (simp add: check_def bindS_def)
  then show ?thesis by blast
qed

lemma run_run:
  assumes "bootstrap_at (ce_tuf E) root_bytes t = Ok \<lparr>tv_database = db, tv_clock = Fixed t\<rparr>"
    and "0 \<le> t" "t < 2 ^ 64" "tf_epoch_plus (ce_tuf E) (of_int t)"
    and "\<And>s. on_database t db s \<Longrightarrow> \<exists>s'. check E channel install_id s = (Inr x, s')"
  shows "\<exists>s'. run E root_bytes (Some t) channel install_id s = (Inr x, s')"
proof -
  have "uint (of_int t :: 64 word) = t" using assms(2,3) by (simp add: unsigned_of_int take_bit_int_eq_self)
  then obtain s0 where "Verifier_init E root_bytes (Some t) s = (Inr (), s0)" "on_database t db s0"
    using assms(1,4) by (auto simp: Verifier_init_def dist_verifier_new_at_def on_database_def)
  with assms(5) show ?thesis by (fastforce simp: run_def bindS_def close_def modifyS_def)
qed

end
