(* ===== verification/EndToEnd.thy ===== *)
theory EndToEnd
  imports Versions ClientRun
begin

text \<open>
  The whole path of a release: the signing worker publishes what was approved, an edge serves the
  directory as it is, and the embedded client offers it.

  The \<^verbatim>\<open>tuf\<close> crate is an argument.  What the composition relies on is its documented behaviour on a
  repository that verifies (\<open>accepts\<close>): anchored on the root, it takes the timestamp, the snapshot
  that names, and the targets roles that names, in order, and then reports the versions and the
  target descriptions these documents contain.  \<open>ser\<close> is the serialisation of metadata.
\<close>

section \<open>What a verifying client reads\<close>

definition reads_meta :: "'d tuf \<Rightarrow> string set \<Rightarrow> 'd \<Rightarrow> (string \<rightharpoonup> nat) \<Rightarrow> bool" where
  "reads_meta T roles db meta \<longleftrightarrow>
     (\<exists>f. tf_snapshot_meta T db = Some f
        \<and> (\<forall>r \<in> roles. \<forall>v. meta (r @ ''.json'') = Some v \<longrightarrow> (\<exists>w. f r = Some w \<and> unat w = v)))"

definition reads_targets :: "'d tuf \<Rightarrow> int \<Rightarrow> string set \<Rightarrow> 'd \<Rightarrow> targets_body \<Rightarrow> bool" where
  "reads_targets T t paths db tb \<longleftrightarrow>
     (\<forall>p \<in> paths. \<forall>tf. tb_targets tb p = Some tf \<longrightarrow> tf_target_path T p
        \<and> (\<exists>d h. tf_describe T t p db = Ok d \<and> de_sha256 d = Some h \<and> hex h = tf_sha256 tf
             \<and> unat (de_length d) = tf_length tf \<and> de_custom d = tf_custom tf))"

definition accepts ::
  "'d tuf \<Rightarrow> (metadata \<Rightarrow> string) \<Rightarrow> (string \<rightharpoonup> repo_file) \<Rightarrow> string \<Rightarrow> string set \<Rightarrow> string \<Rightarrow> int \<Rightarrow> bool" where
  "accepts T ser d role paths root_bytes t \<longleftrightarrow>
     (\<exists>db0 db1 db2 db3 db4. tf_from_trusted_root T root_bytes = Ok db0
        \<and> (\<forall>ts n sn meta v md v' md' tb.
             d ''metadata/timestamp.json'' = Some (Meta ts) \<and> md_signed ts = STimestamp n
             \<and> d (meta_name SNAPSHOT n) = Some (Meta sn) \<and> md_signed sn = SSnapshot meta
             \<and> meta ''targets.json'' = Some v \<and> d (meta_name TARGETS v) = Some (Meta md)
             \<and> meta (role @ ''.json'') = Some v' \<and> d (meta_name role v') = Some (Meta md') \<and> md_signed md' = STargets tb \<longrightarrow>
               tf_update_timestamp T t (ser ts) db0 = (Ok (), db1) \<and> (\<exists>w. tf_timestamp_snapshot T db1 = Some w \<and> unat w = n)
             \<and> tf_update_snapshot T t (ser sn) db1 = (Ok (), db2) \<and> reads_meta T {TARGETS} db2 meta
             \<and> tf_update_targets T t (ser md) db2 = (Ok (), db3) \<and> tf_snapshot_meta T db3 = tf_snapshot_meta T db2
             \<and> reads_meta T {role} db3 meta
             \<and> tf_update_delegated_targets T t role (ser md') db3 = (Ok (), db4) \<and> reads_targets T t paths db4 tb))
     \<and> tf_metadata_path T TARGETS \<and> tf_metadata_path T role
     \<and> 0 \<le> t \<and> t < 2 ^ 63 \<and> tf_datetime T t \<and> tf_epoch_plus T (of_int t)"

text \<open>The edge serves \<^verbatim>\<open>metadata/\<close> and \<^verbatim>\<open>targets/\<close> byte for byte.\<close>

definition serves :: "'d client_env \<Rightarrow> (metadata \<Rightarrow> string) \<Rightarrow> (string \<rightharpoonup> repo_file) \<Rightarrow> bool" where
  "serves E ser d \<longleftrightarrow>
     (\<forall>n md. d (''metadata/'' @ n) = Some (Meta md) \<longrightarrow> served E n (ser md))
     \<and> (\<forall>n c. d (''targets/'' @ n) = Some (Payload c) \<longrightarrow> served E (''targets/'' @ n) c)"

section \<open>The documents in force\<close>

lemma current_chain:
  assumes inv: "repo_inv sha s" and cur: "snapshot_current s" "timestamp_current s"
    and role: "role \<in> r_app_roles s" "version_of s role \<noteq> 0"
  obtains ts sn meta md md' tb where
    "disk s ''metadata/timestamp.json'' = Some (Meta ts)" "md_signed ts = STimestamp (version_of s SNAPSHOT)"
    "disk s (meta_name SNAPSHOT (version_of s SNAPSHOT)) = Some (Meta sn)" "md_signed sn = SSnapshot meta"
    "meta ''targets.json'' = Some (version_of s TARGETS)" "disk s (meta_name TARGETS (version_of s TARGETS)) = Some (Meta md)"
    "meta (role @ ''.json'') = Some (version_of s role)" "disk s (meta_name role (version_of s role)) = Some (Meta md')"
    "md_signed md' = STargets tb" "\<And>p. client_lookup (disk s) role p = tb_targets tb p"
proof -
  have apps: "finite (r_app_roles s)" "version_of s TARGETS \<noteq> 0" using inv role(1) by (auto simp: repo_inv_def apps_ok_def)
  have top: "role \<noteq> SNAPSHOT" "role \<noteq> TIMESTAMP" "role \<noteq> TARGETS" "role \<noteq> ROOT" using apps_not_top [OF inv role(1)] by auto
  have doc: "\<exists>md. disk s (meta_name r (version_of s r)) = Some (Meta md) \<and> kind_ok r (md_signed md)" if "version_of s r \<noteq> 0" for r
    using inv that by (auto simp: repo_inv_def versions_ok_def version_of_def split: option.splits)
  obtain ts where ts: "disk s ''metadata/timestamp.json'' = Some (Meta ts)" "md_signed ts = STimestamp (version_of s SNAPSHOT)"
    using cur(2) by (auto simp: timestamp_current_def)
  obtain sn meta where sn: "disk s (meta_name SNAPSHOT (version_of s SNAPSHOT)) = Some (Meta sn)" "md_signed sn = SSnapshot meta"
    "targets_infos s \<subseteq>\<^sub>m meta" using cur(1) by (auto simp: snapshot_current_def)
  have entry: "meta (r @ ''.json'') = Some (version_of s r)" if "r \<in> insert TARGETS (r_app_roles s)" "version_of s r \<noteq> 0" for r
  proof -
    have "targets_infos s (r @ ''.json'') = Some (version_of s r)" using that apps(1) by (auto simp: targets_infos_iff)
    with sn(3) show ?thesis by (auto simp: map_le_def dom_def)
  qed
  obtain md where md: "disk s (meta_name TARGETS (version_of s TARGETS)) = Some (Meta md)" using doc apps(2) by blast
  obtain md' where md': "disk s (meta_name role (version_of s role)) = Some (Meta md')" "kind_ok role (md_signed md')"
    using doc role(2) by blast
  obtain tb where tb: "md_signed md' = STargets tb" using md'(2) top by (cases "md_signed md'") auto
  have "client_lookup (disk s) role p = tb_targets tb p" for p
    by (rule lookup_current [OF cur apps(1) role md'(1) tb])
  with that ts sn(1,2) md md'(1) tb entry [of TARGETS] entry [of role] role apps(2) show ?thesis
    by (simp add: TARGETS_def)
qed

lemma dec_int_uint: "dec_int (uint w) = dec (unat w)"
proof -
  have "\<not> uint w < 0" using uint_ge_0 [of w] by linarith
  then show ?thesis by (simp only: dec_int_def unat_eq_nat_uint if_False)
qed

lemma accepted_refresh:
  assumes inv: "repo_inv sha s" and cur: "snapshot_current s" "timestamp_current s"
    and role: "role \<in> r_app_roles s" "version_of s role \<noteq> 0"
    and acc: "accepts (ce_tuf E) ser (disk s) role paths root_bytes t" and sv: "serves E ser (disk s)"
    and ch: "ch_role channel = role" "CHR 0x00 \<notin> set role"
  shows "\<exists>db0 db4. tf_from_trusted_root (ce_tuf E) root_bytes = Ok db0
    \<and> (\<forall>st. on_database t db0 st \<longrightarrow> (\<exists>st'. refresh E channel st = (Inr True, st') \<and> on_database t db4 st'))
    \<and> (\<forall>p \<in> paths. \<forall>tf. client_lookup (disk s) role p = Some tf \<longrightarrow> tf_target_path (ce_tuf E) p
         \<and> (\<exists>d h. tf_describe (ce_tuf E) t p db4 = Ok d \<and> de_sha256 d = Some h \<and> hex h = tf_sha256 tf
              \<and> unat (de_length d) = tf_length tf \<and> de_custom d = tf_custom tf))"
proof (rule current_chain [OF inv cur role])
  fix ts sn meta md md' tb
  assume f: "disk s ''metadata/timestamp.json'' = Some (Meta ts)" "md_signed ts = STimestamp (version_of s SNAPSHOT)"
    "disk s (meta_name SNAPSHOT (version_of s SNAPSHOT)) = Some (Meta sn)" "md_signed sn = SSnapshot meta"
    "meta ''targets.json'' = Some (version_of s TARGETS)" "disk s (meta_name TARGETS (version_of s TARGETS)) = Some (Meta md)"
    "meta (role @ ''.json'') = Some (version_of s role)" "disk s (meta_name role (version_of s role)) = Some (Meta md')"
    "md_signed md' = STargets tb" and l: "\<And>p. client_lookup (disk s) role p = tb_targets tb p"
  have ok: "tf_metadata_path (ce_tuf E) ''targets''" "tf_metadata_path (ce_tuf E) role"
    using acc by (simp_all add: accepts_def TARGETS_def)
  obtain db0 db1 db2 db3 db4 w1 where db0: "tf_from_trusted_root (ce_tuf E) root_bytes = Ok db0"
    and u: "tf_update_timestamp (ce_tuf E) t (ser ts) db0 = (Ok (), db1)" "tf_timestamp_snapshot (ce_tuf E) db1 = Some w1"
      "unat w1 = version_of s SNAPSHOT" "tf_update_snapshot (ce_tuf E) t (ser sn) db1 = (Ok (), db2)"
      "reads_meta (ce_tuf E) {TARGETS} db2 meta" "tf_update_targets (ce_tuf E) t (ser md) db2 = (Ok (), db3)"
      "tf_snapshot_meta (ce_tuf E) db3 = tf_snapshot_meta (ce_tuf E) db2" "reads_meta (ce_tuf E) {role} db3 meta"
      "tf_update_delegated_targets (ce_tuf E) t role (ser md') db3 = (Ok (), db4)" "reads_targets (ce_tuf E) t paths db4 tb"
    using acc f unfolding accepts_def by blast
  obtain g w2 w3 where g: "tf_snapshot_meta (ce_tuf E) db2 = Some g" "g ''targets'' = Some w2" "unat w2 = version_of s TARGETS"
    "g role = Some w3" "unat w3 = version_of s role"
    using u(5,7,8) f(5,7) by (auto simp: reads_meta_def TARGETS_def)
  have top: "role \<noteq> TIMESTAMP" using apps_not_top [OF inv role(1)] by auto
  have m: "served E n (ser x)" if "disk s (''metadata/'' @ n) = Some (Meta x)" for n x using sv that by (simp add: serves_def)
  have sts: "served E ''timestamp.json'' (ser ts)" using m [of "''timestamp.json''"] f(1) by simp
  have ssn: "served E (dec_int (uint w1) @ ''.snapshot.json'') (ser sn)"
    using m [of "dec_int (uint w1) @ ''.snapshot.json''"] f(3) u(3)
    by (simp add: dec_int_uint meta_name_def filename_def role_name_defs)
  have stg: "served E (dec_int (uint w2) @ ''.targets.json'') (ser md)"
    using m [of "dec_int (uint w2) @ ''.targets.json''"] f(6) g(3)
    by (simp add: dec_int_uint meta_name_def filename_def role_name_defs)
  have sdg: "served E (dec_int (uint w3) @ ''.'' @ ch_role channel @ ''.json'') (ser md')"
    using m [of "dec_int (uint w3) @ ''.'' @ role @ ''.json''"] f(8) g(5) top ch(1)
    by (simp add: dec_int_uint meta_name_def filename_def)
  have "\<exists>st'. refresh E channel st = (Inr True, st') \<and> on_database t db4 st'" if st: "on_database t db0 st" for st
    by (rule refresh_run [OF refl st _ _ _ sts u(1,2) ssn u(4) g(1,2) stg u(6) _ _ sdg])
      (use ch ok g(1,4) u(7,9) in simp_all)
  moreover have "\<forall>p \<in> paths. \<forall>tf. client_lookup (disk s) role p = Some tf \<longrightarrow> tf_target_path (ce_tuf E) p
         \<and> (\<exists>d h. tf_describe (ce_tuf E) t p db4 = Ok d \<and> de_sha256 d = Some h \<and> hex h = tf_sha256 tf
              \<and> unat (de_length d) = tf_length tf \<and> de_custom d = tf_custom tf)"
    using u(10) by (simp add: l reads_targets_def)
  ultimately show ?thesis using db0 by blast
qed

section \<open>Digests\<close>

lemma hexdigest_hex: "hexdigest sha c = hex (sha c)"
  by (simp add: hexdigest_def hex_def)

lemma hex_char_inj: "a < 16 \<Longrightarrow> b < 16 \<Longrightarrow> hex_char a = hex_char b \<Longrightarrow> a = b"
proof -
  assume a: "a < 16" "b < 16" and e: "hex_char a = hex_char b"
  have "code (hex_char n) = (if n < 10 then 48 + n else 87 + n)" if "n < 16" for n
    using that by (simp add: hex_char_def)
  with a have "(if a < 10 then 48 + a else 87 + a) = (if b < 10 then 48 + b else 87 + b)" using e by metis
  then show "a = b" using a by (simp split: if_splits)
qed

lemma hex_inj: "hex a = hex b \<Longrightarrow> a = b"
proof (induction a arbitrary: b)
  case (Cons x xs)
  then obtain y ys where b: "b = y # ys" by (cases b) (auto simp: hex_def)
  have "hex_char (code x div 16) = hex_char (code y div 16)" "hex_char (code x mod 16) = hex_char (code y mod 16)"
    and t: "hex xs = hex ys" using Cons.prems by (simp_all add: b hex_def)
  then have "code x div 16 = code y div 16" "code x mod 16 = code y mod 16"
    using code_less_256 [of x] code_less_256 [of y] hex_char_inj by (simp_all add: less_mult_imp_div_less)
  then have "code x = code y" by (metis div_mult_mod_eq)
  with Cons.IH [OF t] b show ?case by simp
qed (auto simp: hex_def)

section \<open>Published, therefore offered\<close>

definition full_release :: "string \<Rightarrow> rust_release" where
  "full_release v = \<lparr>rr_version = v, rr_rollout_pct = 100, rr_mandatory = False, rr_notes_url = None, rr_min_os = None,
     rr_min_from_version = None\<rparr>"

lemma pct_100: "uint (100 :: 32 word) = 100"
  by simp

text \<open>A target the server wrote, read through the crate.\<close>

lemma answers_release:
  assumes "TargetPath_parse p = Some p" "CHR 0x00 \<notin> set p" "tf_target_path (ce_tuf E) p"
    and "tf_describe (ce_tuf E) t p db = Ok d" "de_sha256 d = Some h" "hex h = hexdigest sha c" "length (sha c) = 32"
    and "de_custom d = to_custom i" "ReleaseInfo v JNull JNull JNull False 100 = Inr i" "SEGMENT v" "length v \<le> 63"
  shows "answers E t db p (info_of d (sha c) (full_release v))"
proof -
  have h: "h = sha c" using assms(6) by (simp add: hexdigest_hex hex_inj)
  have "rust_release_info (de_custom d) = Ok (full_release v)"
    using custom_release_info [OF assms(9)] by (simp add: assms(8) full_release_def)
  moreover have "length (utf8_encode (rr_version (full_release v))) \<le> 63"
    using SEGMENT_ascii [OF assms(10)] assms(11) by (simp add: full_release_def)
  ultimately show ?thesis using assms h unfolding answers_def by blast
qed

lemma path_no_NUL: "wf_target_key k \<Longrightarrow> CHR 0x00 \<notin> set (path k)"
  by (auto simp: wf_target_key_iff path_def CHANNELS_def dest!: SEGMENT_ascii)

lemma pointer_no_NUL: "wf_channel_key c \<Longrightarrow> CHR 0x00 \<notin> set (pointer_path c)"
  by (auto simp: wf_channel_key_def ChannelKey_def bindr_eq_Inr_iff pointer_path_def channel_prefix_def
      POINTER_VERSION_def POINTER_FILE_def CHANNELS_def dest!: SEGMENT_ascii split: if_splits)

definition channel_of :: "source \<Rightarrow> channel" where
  "channel_of source = \<lparr>ch_app_id = so_app_id source, ch_channel = so_channel source, ch_platform = so_platform source,
     ch_arch = so_arch source\<rparr>"

text \<open>The client's names of what one publish wrote.\<close>

lemma channel_of_names:
  assumes "TargetKey (so_app_id source) (so_channel source) (so_platform source) (so_arch source) version file_name = Inr key"
    and "ChannelKey (so_app_id source) (so_channel source) (so_platform source) (so_arch source) = Inr c"
    and "app_role_name (so_app_id source) = Inr role"
  shows "ch_pointer_path (channel_of source) = pointer_path c" "ch_role (channel_of source) = role"
    "prefix (ch_prefix (channel_of source)) (path key)" "CHR 0x00 \<notin> set (so_app_id source)" "CHR 0x00 \<notin> set role"
proof -
  have "SEGMENT (so_app_id source)" using assms(1) by (auto simp: TargetKey_Inr_iff wf_target_key_iff)
  with SEGMENT_ascii show "CHR 0x00 \<notin> set (so_app_id source)" by blast
  with assms(3) show "CHR 0x00 \<notin> set role" by (auto simp: app_role_name_def APP_ROLE_PREFIX_def split: if_splits)
  show "ch_pointer_path (channel_of source) = pointer_path c" "ch_role (channel_of source) = role"
    "prefix (ch_prefix (channel_of source)) (path key)"
    using assms by (auto simp: channel_of_def ch_pointer_path_def pointer_path_def POINTER_VERSION_def POINTER_FILE_def ch_prefix_def
        channel_prefix_def ch_role_def app_role_name_def APP_ROLE_PREFIX_def TargetKey_Inr_iff ChannelKey_def bindr_eq_Inr_iff
        path_def split: if_splits)
qed

section \<open>A repository, an edge and a client\<close>

text \<open>A crate that accepts what a repository serves and reads the served documents.\<close>

definition ex_reader :: "repo \<Rightarrow> unit tuf" where
  "ex_reader s = \<lparr>tf_from_trusted_root = (\<lambda>_. Ok ()), tf_update_timestamp = (\<lambda>_ _ d. (Ok (), d)),
     tf_update_snapshot = (\<lambda>_ _ d. (Ok (), d)), tf_update_targets = (\<lambda>_ _ d. (Ok (), d)),
     tf_update_delegated_targets = (\<lambda>_ _ _ d. (Ok (), d)), tf_timestamp_snapshot = (\<lambda>_. Some (of_nat (version_of s SNAPSHOT))),
     tf_snapshot_meta = (\<lambda>_. Some (\<lambda>r. Some (of_nat (version_of s r)))),
     tf_describe = (\<lambda>_ p _. case client_lookup (disk s) ''app-demo'' p of
         None \<Rightarrow> Err ()
       | Some tf \<Rightarrow> Ok \<lparr>de_length = of_nat (tf_length tf), de_sha256 = Some (ref_sha []), de_custom = tf_custom tf\<rparr>),
     tf_metadata_path = (\<lambda>_. True), tf_target_path = (\<lambda>_. True), tf_epoch_plus = (\<lambda>_. True), tf_datetime = (\<lambda>_. True)\<rparr>"

definition ex_edge :: "repo \<Rightarrow> unit client_env" where
  "ex_edge s = \<lparr>ce_tuf = ex_reader s, ce_sha = ref_sha, ce_clock = (\<lambda>_. 0),
     ce_fetch = (\<lambda>_ p. case disk s p of
         Some (Payload c) \<Rightarrow> if prefix ''targets/'' p then Inr c else Inr []
       | _ \<Rightarrow> Inr [])\<rparr>"

lemma no_nested_metadata: "repo_reachable lib sha s \<Longrightarrow> disk s (''metadata/targets/'' @ n) \<noteq> Some (Meta md)"
proof
  assume s: "repo_reachable lib sha s" "disk s (''metadata/targets/'' @ n) = Some (Meta md)"
  then have "''metadata/targets/'' @ n \<in> mutable_names \<or> numbered s (''metadata/targets/'' @ n) md"
    using reachable_names_ok [OF s(1)] unfolding names_ok_def by blast
  moreover have "CHR ''t'' # CHR ''a'' # m \<noteq> filename r v" for r v m
    using dec_hd [of v] by (auto simp: filename_def char_class_defs Cons_eq_append_conv)
  ultimately show False by (auto simp: numbered_def mutable_names_def meta_name_def)
qed

lemma ex_edge_serves: "repo_reachable lib sha s \<Longrightarrow> serves (ex_edge s) (\<lambda>_. []) (disk s)"
  using no_nested_metadata [of lib sha s]
  by (auto simp: serves_def served_def ex_edge_def prefix_def split: option.split repo_file.split)

lemma ex_edge_accepts:
  assumes inv: "repo_inv ref_sha s" and cur: "snapshot_current s" "timestamp_current s"
    and role: "''app-demo'' \<in> r_app_roles s" "version_of s ''app-demo'' \<noteq> 0" and v: "\<And>r. version_of s r < 2 ^ 32"
    and len: "\<And>p tf. p \<in> paths \<Longrightarrow> client_lookup (disk s) ''app-demo'' p = Some tf \<Longrightarrow> tf_length tf < 2 ^ 64"
  shows "accepts (ce_tuf (ex_edge s)) (\<lambda>_. []) (disk s) ''app-demo'' paths [] 0"
proof (rule current_chain [OF inv cur role])
  fix ts sn meta md md' tb
  assume f: "disk s ''metadata/timestamp.json'' = Some (Meta ts)" "md_signed ts = STimestamp (version_of s SNAPSHOT)"
    "disk s (meta_name SNAPSHOT (version_of s SNAPSHOT)) = Some (Meta sn)" "md_signed sn = SSnapshot meta"
    "meta ''targets.json'' = Some (version_of s TARGETS)" "disk s (meta_name TARGETS (version_of s TARGETS)) = Some (Meta md)"
    "meta (''app-demo'' @ ''.json'') = Some (version_of s ''app-demo'')"
    "disk s (meta_name ''app-demo'' (version_of s ''app-demo'')) = Some (Meta md')"
    "md_signed md' = STargets tb" and l: "\<And>p. client_lookup (disk s) ''app-demo'' p = tb_targets tb p"
  have u: "unat (of_nat (version_of s r) :: 32 word) = version_of s r" for r
    using v [of r] by (simp add: unsigned_of_nat take_bit_nat_eq_self)
  have d: "hex (ref_sha []) = tf_sha256 tf" "unat (of_nat (tf_length tf) :: 64 word) = tf_length tf"
    if "tb_targets tb p = Some tf" "p \<in> paths" for p tf
  proof -
    have tf: "client_lookup (disk s) ''app-demo'' p = Some tf" using that l by simp
    show "hex (ref_sha []) = tf_sha256 tf" using found_payload [OF inv tf] by (auto simp: ref_sha_def hexdigest_hex)
    show "unat (of_nat (tf_length tf) :: 64 word) = tf_length tf" using len [OF that(2) tf] by (simp add: unsigned_of_nat take_bit_nat_eq_self)
  qed
  have m: "reads_meta (ex_reader s) {TARGETS} () meta" "reads_meta (ex_reader s) {''app-demo''} () meta"
    using f(5,7) u by (auto simp: reads_meta_def ex_reader_def TARGETS_def)
  have r: "reads_targets (ex_reader s) 0 paths () tb"
    unfolding reads_targets_def using d l by (auto simp: ex_reader_def)
  show ?thesis unfolding accepts_def
    by (intro conjI exI [of _ "()"] allI impI; (elim conjE)?) (use f m r u in \<open>auto simp: ex_edge_def ex_reader_def\<close>)
qed

lemma ref_pointer_short: "length (to_json \<lparr>cr_target_path = path ref_key, cr_version = ''1.0''\<rparr>) < 100"
  by code_simp

lemma ex_published_lengths:
  assumes p: "do_publish ex_signer 0 (g_files ex_signer 0) ex_signed_source ex_approval ref_delegated = (Inr result, s')"
  shows "snapshot_current s' \<and> timestamp_current s' \<and> ''app-demo'' \<in> r_app_roles s' \<and> version_of s' ''app-demo'' \<noteq> 0
    \<and> (\<forall>q tf. q \<in> {path ref_key, ch_pointer_path (channel_of ex_signed_source)}
          \<and> client_lookup (disk s') ''app-demo'' q = Some tf \<longrightarrow> tf_length tf < 2 ^ 64)"
  using p
proof (rule do_publish_InrE)
  fix sha256 artifact key info pa q s1
  assume f: "g_files ex_signer 0 (quarantine_path (g_root ex_signer) sha256) = Some artifact"
    and k: "TargetKey (so_app_id ex_signed_source) (so_channel ex_signed_source) (so_platform ex_signed_source) (so_arch ex_signed_source)
       (str_of (g_repr ex_signer) (get ex_approval ''version'')) (str_of (g_repr ex_signer) (get ex_approval ''filename'')) = Inr key"
    and a: "add_release (g_lib ex_signer) (g_backend ex_signer) (g_sha ex_signer) 0 key artifact info ref_delegated = (Inr pa, s1)"
    and c: "set_current (g_lib ex_signer) (g_backend ex_signer) (g_sha ex_signer) 0 key s1 = (Inr q, s')"
  have key: "key = ref_key" using k
    by (auto simp: TargetKey_Inr_iff ref_key_def ex_signed_source_def ex_gh_source_def ex_approval_def get_def str_of_def)
  have art: "length artifact = 7" using f by (auto simp: ex_signer_def split: if_splits)
  have wf: "wf_target_key key" using k by (rule wf_TargetKey)
  obtain role ck tf body i' where r: "app_role_name (tk_app_id key) = Inr role"
    "client_lookup (disk s') role (path key) = Some (target_from_file (g_sha ex_signer) artifact (to_custom info))"
    "ChannelKey (tk_app_id key) (tk_channel key) (tk_platform key) (tk_arch key) = Inr ck" "q = pointer_path ck"
    "client_lookup (disk s') role q = Some tf" "body = to_json \<lparr>cr_target_path = path key, cr_version = tk_version key\<rparr>"
    "tf = target_from_file (g_sha ex_signer) body (to_custom i')"
    "snapshot_current s'" "timestamp_current s'" "role \<in> r_app_roles s'" "version_of s' role \<noteq> 0"
    using release_and_pointer [OF reachable_inv [of "g_lib ex_signer" "g_sha ex_signer"] _ wf a c] ref_reachable(2) ref_lib_contract(1)
    by (auto simp: ex_signer_def)
  have role: "role = ''app-demo''" using r(1) ref_role by (simp add: key ref_key_def)
  have "ch_pointer_path (channel_of ex_signed_source) = q"
    using channel_of_names(1) [OF k _ ] r(1,3,4) by (simp add: key ref_key_def ex_signed_source_def ex_gh_source_def)
  moreover have "length body < 100" using ref_pointer_short r(6) by (simp add: key ref_key_def)
  ultimately show ?thesis using r art by (auto simp: role key target_from_file_def)
qed

text \<open>What a publish job that ended without an error left in the repository.\<close>

lemma published_pair:
  assumes "tuf_contract (g_lib E)" "repo_reachable (g_lib E) (g_sha E) s"
    and publish: "do_publish E now fs source payload s = (Inr result, s')"
    and key: "TargetKey (so_app_id source) (so_channel source) (so_platform source) (so_arch source)
        (str_of (g_repr E) (get payload ''version'')) (str_of (g_repr E) (get payload ''filename'')) = Inr key"
  obtains role ck artifact body i where
    "hexdigest (g_sha E) artifact = str_of (g_repr E) (get payload ''sha256'')"
    "ReleaseInfo (tk_version key) JNull JNull JNull False 100 = Inr i"
    "app_role_name (so_app_id source) = Inr role"
    "ChannelKey (so_app_id source) (so_channel source) (so_platform source) (so_arch source) = Inr ck"
    "client_lookup (disk s') role (path key) = Some (target_from_file (g_sha E) artifact (to_custom i))"
    "client_lookup (disk s') role (pointer_path ck) = Some (target_from_file (g_sha E) body (to_custom i))"
    "disk s' (payload_name (pointer_path ck) (hexdigest (g_sha E) body)) = Some (Payload body)"
    "body = to_json \<lparr>cr_target_path = path key, cr_version = tk_version key\<rparr>"
    "from_json body = Inr \<lparr>cr_target_path = path key, cr_version = tk_version key\<rparr>"
    "snapshot_current s'" "timestamp_current s'" "role \<in> r_app_roles s'" "version_of s' role \<noteq> 0"
  using publish
proof (rule do_publish_InrE)
  fix sha256 artifact key' info p q s1
  assume d: "str_of (g_repr E) (get payload ''sha256'') = sha256" "hexdigest (g_sha E) artifact = sha256"
    and k: "TargetKey (so_app_id source) (so_channel source) (so_platform source) (so_arch source)
       (str_of (g_repr E) (get payload ''version'')) (str_of (g_repr E) (get payload ''filename'')) = Inr key'"
    and i: "ReleaseInfo (tk_version key') JNull JNull JNull False 100 = Inr info"
    and a: "add_release (g_lib E) (g_backend E) (g_sha E) now key' artifact info s = (Inr p, s1)"
    and c: "set_current (g_lib E) (g_backend E) (g_sha E) now key' s1 = (Inr q, s')"
  have k': "key' = key" using k key by simp
  have "tk_app_id key = so_app_id source" "tk_channel key = so_channel source" "tk_platform key = so_platform source"
    "tk_arch key = so_arch source" using key by (auto simp: TargetKey_Inr_iff)
  with release_and_pointer [OF reachable_inv [OF assms(2,1)] assms(1) wf_TargetKey [OF key] a [unfolded k'] c [unfolded k']]
  show ?thesis using that d i k' by (fastforce simp: target_from_file_def)
qed

lemma described_release:
  assumes "tf_target_path (ce_tuf C) p
      \<and> (\<exists>d h. tf_describe (ce_tuf C) t p db = Ok d \<and> de_sha256 d = Some h \<and> hex h = tf_sha256 tf
          \<and> unat (de_length d) = tf_length tf \<and> de_custom d = tf_custom tf)"
    and "tf = target_from_file sha c (to_custom i)" "TargetPath_parse p = Some p" "CHR 0x00 \<notin> set p" "length (sha c) = 32"
    and "ReleaseInfo v JNull JNull JNull False 100 = Inr i" "SEGMENT v" "length v \<le> 63"
  obtains d where "answers C t db p (info_of d (sha c) (full_release v))" "unat (de_length d) = length c"
proof -
  obtain d h where d: "tf_describe (ce_tuf C) t p db = Ok d" "de_sha256 d = Some h" "hex h = hexdigest sha c"
    "unat (de_length d) = length c" "de_custom d = to_custom i" using assms(1,2) by (auto simp: target_from_file_def)
  have "answers C t db p (info_of d (sha c) (full_release v))"
    using answers_release [OF assms(3,4) _ d(1-3) assms(5) d(5) assms(6-8)] assms(1) by blast
  with d(4) show ?thesis using that by blast
qed



end
