(* ===== verification/SignQueue.thy ===== *)
theory SignQueue
  imports SignWorkerClaims
begin

text \<open>
  The signing worker's queue drains: every busy round ends one of the open publish jobs for good, so
  there are at most as many busy rounds as open publish jobs, and an idle round has nothing left to
  claim.
\<close>

definition publish_queue :: "db \<Rightarrow> nat set" where
  "publish_queue d = jo_id ` set (filter (\<lambda>j. jo_kind j = PUBLISH \<and> open_job j) (d_jobs d))"

text \<open>The rest of the platform queues no publish job meanwhile.\<close>

definition no_new_publish :: "sign_env \<Rightarrow> bool" where
  "no_new_publish E \<longleftrightarrow> (\<forall>i d. publish_queue (g_others E i d) \<subseteq> publish_queue d)"

lemma finite_queue [simp]: "finite (publish_queue d)"
  by (simp add: publish_queue_def)

lemma on_registry_run:
  assumes "on_registry E f s = (r, s')" "\<not> sn_failed s"
  obtains i d where "d = g_others E i (sn_db s)" "f i d = (r, sn_db s')" "sn_repo s' = sn_repo s"
    "sn_failed s' \<longleftrightarrow> (case r of Inl e \<Rightarrow> aborts e | Inr _ \<Rightarrow> False)"
proof -
  let ?i = "length (sn_log s)" and ?d = "g_others E (length (sn_log s)) (sn_db s)"
  have "f ?i ?d = (r, sn_db s')" "sn_repo s' = sn_repo s" "sn_failed s' \<longleftrightarrow> (case r of Inl e \<Rightarrow> aborts e | Inr _ \<Rightarrow> False)"
    using assms by (auto simp: on_registry_def on_connection_def Let_def split: prod.splits sum.splits)
  with that [of ?d ?i] show thesis by simp
qed

lemma queue_shrinks:
  assumes "no_new_publish E" "\<And>i d. publish_queue (snd (f i d)) \<subseteq> publish_queue d" "on_registry E f s = (r, s')" "\<not> sn_failed s"
  shows "publish_queue (sn_db s') \<subseteq> publish_queue (sn_db s)"
proof -
  obtain i d where d: "d = g_others E i (sn_db s)" "f i d = (r, sn_db s')" by (rule on_registry_run [OF assms(3,4)])
  have "publish_queue (sn_db s') \<subseteq> publish_queue d" using assms(2) [of i d] d(2) by simp
  also have "\<dots> \<subseteq> publish_queue (sn_db s)" using assms(1) d(1) by (simp add: no_new_publish_def)
  finally show ?thesis .
qed

lemma queue_map:
  "(\<And>j. j \<in> set (d_jobs d) \<Longrightarrow> jo_kind (f j) = PUBLISH \<Longrightarrow> open_job (f j) \<Longrightarrow> jo_id (f j) \<in> publish_queue d) \<Longrightarrow>
     publish_queue (d\<lparr>d_jobs := map f (d_jobs d)\<rparr>) \<subseteq> publish_queue d"
  by (auto simp: publish_queue_def)

lemma queueI: "j \<in> set (d_jobs d) \<Longrightarrow> jo_kind j = PUBLISH \<Longrightarrow> open_job j \<Longrightarrow> jo_id j \<in> publish_queue d"
  by (auto simp: publish_queue_def)

lemma queue_ops:
  "publish_queue (snd (get_source i d)) \<subseteq> publish_queue d"
  "publish_queue (snd (audit now u act src det d)) \<subseteq> publish_queue d"
  "publish_queue (snd (reset_stale_jobs now age d)) \<subseteq> publish_queue d"
proof -
  show "publish_queue (snd (get_source i d)) \<subseteq> publish_queue d" "publish_queue (snd (audit now u act src det d)) \<subseteq> publish_queue d"
    by (simp_all add: publish_queue_def get_source_def queryS_def audit_def modifyS_def)
  show "publish_queue (snd (reset_stale_jobs now age d)) \<subseteq> publish_queue d"
    unfolding reset_stale_jobs_def snd_conv
    by (rule queue_map) (auto simp: stale_def open_job_def split: if_splits intro: queueI)
qed

lemma claim_queue:
  assumes "claim_job now locked ks d = (Inr (Some j'), d')" "set ks \<subseteq> {PUBLISH}"
  shows "jo_id j' \<in> publish_queue d \<and> publish_queue d' \<subseteq> publish_queue d"
  using claim_job_cases [of now locked ks d]
proof (elim disjE exE conjE)
  fix j k assume j: "j \<in> set (d_jobs d)" "claimable locked ks j"
    and k: "k = j\<lparr>jo_state := RUNNING, jo_started_at := Some now, jo_attempts := jo_attempts j + 1\<rparr>"
    and r: "claim_job now locked ks d = (Inr (Some k), set_job (jo_id j) (\<lambda>_. k) d)"
  have e: "j' = k" "d' = set_job (jo_id j) (\<lambda>_. k) d" using trans [OF sym [OF assms(1)] r] by blast+
  have q: "jo_id j \<in> publish_queue d"
    using j assms(2) by (intro queueI) (auto simp: claimable_def open_job_def)
  have "publish_queue (set_job (jo_id j) (\<lambda>_. k) d) \<subseteq> publish_queue d"
    unfolding set_job_def using q by (intro queue_map) (auto simp: k split: if_splits intro: queueI)
  with q e k show ?thesis by simp
qed (use assms in simp)

lemma finish_queue:
  assumes "st \<in> {DONE, FAILED}" "job_storable res err"
  shows "fst (finish_job now i st res err d) = Inr ()"
    "publish_queue (snd (finish_job now i st res err d)) \<subseteq> publish_queue d - {i}"
proof -
  have closed: "\<not> open_job (j\<lparr>jo_state := st, jo_finished_at := f, jo_result := res, jo_error := err\<rparr>)" for j :: job and f
    using assms by (auto simp: open_job_def)
  show "fst (finish_job now i st res err d) = Inr ()" by (simp only: finish_done [OF assms(1,2)] fst_conv)
  show "publish_queue (snd (finish_job now i st res err d)) \<subseteq> publish_queue d - {i}"
    unfolding finish_done [OF assms(1,2)] snd_conv publish_queue_def set_job_def
    using closed by (auto split: if_splits)
qed

lemma finish_registry:
  assumes "no_new_publish E" "st \<in> {DONE, FAILED}" "job_storable res err"
    and "on_registry E (\<lambda>i. finish_job (now i) q st res err) s = (r, s')" "\<not> sn_failed s"
  shows "r = Inr ()" "publish_queue (sn_db s') \<subseteq> publish_queue (sn_db s) - {q}"
proof -
  obtain i d where d: "d = g_others E i (sn_db s)" "finish_job (now i) q st res err d = (r, sn_db s')"
    by (rule on_registry_run [OF assms(4,5)])
  with finish_queue [OF assms(2,3), of "now i" q d] show "r = Inr ()" by simp
  have "publish_queue (sn_db s') \<subseteq> publish_queue d - {q}" using finish_queue [OF assms(2,3), of "now i" q d] d(2) by simp
  also have "publish_queue d \<subseteq> publish_queue (sn_db s)" using assms(1) d(1) by (simp add: no_new_publish_def)
  finally show "publish_queue (sn_db s') \<subseteq> publish_queue (sn_db s) - {q}" by blast
qed

lemma on_repo_db: "on_repo m s = (r, s') \<Longrightarrow> sn_db s' = sn_db s \<and> sn_failed s' = sn_failed s"
  by (auto simp: on_repo_def split: prod.splits)

text \<open>What a publish records are names of the naming rules and a digest in hexadecimal, which hold no NUL.\<close>

lemma segment_no_nul: "SEGMENT s \<Longrightarrow> \<not> nul s"
proof
  assume s: "SEGMENT s" and n: "nul s"
  have "segment_char (CHR 0x00) \<or> CHR 0x00 = newline" using SEGMENT_chars [OF s] n by (simp add: nul_def)
  then show False by (simp add: segment_char_def newline_def is_alnum_def is_lower_def is_upper_def is_dec_def in_range_def code_def)
qed

lemma nul_append [simp]: "nul (s @ t) \<longleftrightarrow> nul s \<or> nul t" "\<not> nul []" "nul (c # s) \<longleftrightarrow> c = CHR 0x00 \<or> nul s"
  by (auto simp: nul_def)

lemma hexdigest_no_nul: "\<not> nul (hexdigest sha bs)"
proof -
  have "hex_char n \<noteq> CHR 0x00" if "n < 16" for n
  proof -
    have "code (hex_char n) = (if n < 10 then 48 + n else 87 + n)" using that by (auto simp: hex_char_def)
    then show ?thesis by (auto simp: code_def split: if_splits)
  qed
  moreover have "code c < 256" for c by (simp add: code_def)
  ultimately show ?thesis by (auto simp: nul_def hexdigest_def less_mult_imp_div_less dest: sym)
qed

lemma put_and_publish_path: "put_and_publish lib B now role p tf c s = (Inr q, s') \<Longrightarrow> q = p"
  by (auto simp: put_and_publish_def returnS_def elim!: bindS_InrE)

lemma do_publish_storable:
  assumes "do_publish E now fs source payload s = (Inr result, s')"
  shows "dict_ok result"
proof (rule do_publish_InrE [OF assms])
  fix sha256 artifact key info p q s1
  assume d: "hexdigest (g_sha E) artifact = sha256"
    and k: "TargetKey (so_app_id source) (so_channel source) (so_platform source) (so_arch source)
       (str_of (g_repr E) (get payload ''version'')) (str_of (g_repr E) (get payload ''filename'')) = Inr key"
    and c: "set_current (g_lib E) (g_backend E) (g_sha E) now key s1 = (Inr q, s')"
    and r: "result = [(''target'', JStr (path key)), (''pointer'', JStr q), (''version'', JStr (tk_version key)), (''sha256'', JStr sha256)]"
  have ch: "\<not> nul ch" if "ch \<in> set CHANNELS" for ch using that by (auto simp: CHANNELS_def)
  have fields: "\<not> nul (tk_app_id key)" "\<not> nul (tk_channel key)" "\<not> nul (tk_platform key)" "\<not> nul (tk_arch key)"
    "\<not> nul (tk_version key)" "\<not> nul (tk_filename key)"
    using k ch by (auto simp: TargetKey_Inr_iff dest: segment_no_nul)
  obtain channel where "ChannelKey (tk_app_id key) (tk_channel key) (tk_platform key) (tk_arch key) = Inr channel"
    "q = pointer_path channel"
    by (rule set_current_InrE [OF c]) (auto dest: put_and_publish_path)
  with fields have "\<not> nul q"
    by (auto simp: pointer_path_def channel_prefix_def ChannelKey_Inr_iff POINTER_VERSION_def POINTER_FILE_def)
  with fields d show ?thesis
    by (auto simp: dict_ok_def r path_def hexdigest_no_nul)
qed

lemma run_job_queue:
  assumes "no_new_publish E" "\<forall>e. \<not> nul (message e)" "sign_run_job E message job s = (r, s')" "\<not> sn_failed s"
  shows "r = Inr () \<and> publish_queue (sn_db s') \<subseteq> publish_queue (sn_db s) - {jo_id job}"
proof -
  obtain x s1 where x: "on_registry E (\<lambda>i. get_source (jo_source_id job)) s = (x, s1)" by fastforce
  have s1: "publish_queue (sn_db s1) \<subseteq> publish_queue (sn_db s)" by (rule queue_shrinks [OF assms(1) queue_ops(1) x assms(4)])
  have "\<exists>source. x = Inr source \<and> \<not> sn_failed s1"
    by (rule on_registry_run [OF x assms(4)]) (auto simp: get_source_def queryS_def)
  then obtain source where so: "x = Inr source" "\<not> sn_failed s1" by blast
  with assms(3) x have rest: "(case source of
       None \<Rightarrow> on_registry E (\<lambda>i. finish_job (g_clock E i) (jo_id job) FAILED None (Some ''source was deleted''))
     | Some source \<Rightarrow> (\<lambda>s. case publish_body E source job s of
           (Inl e, s') \<Rightarrow> on_registry E (\<lambda>i. finish_job (g_clock E i) (jo_id job) FAILED None (Some (message e))) s'
         | (Inr x, s') \<Rightarrow> (Inr x, s'))) s1 = (r, s')"
    by (simp add: sign_run_job_def bindS_def)
  show ?thesis
  proof (cases source)
    case None
    have "job_storable None (Some ''source was deleted'')" by (simp add: job_storable_def nul_def)
    with None rest finish_registry [OF assms(1), of FAILED] s1 so(2) show ?thesis by fastforce
  next
    case (Some src)
    obtain y s2 where y: "on_repo (\<lambda>i. do_publish E (g_clock E i) (g_files E i) src (jo_payload job)) s1 = (y, s2)" by fastforce
    have s2: "sn_db s2 = sn_db s1" "\<not> sn_failed s2" using on_repo_db [OF y] so(2) by simp_all
    show ?thesis
    proof (cases y)
      case (Inl e)
      have m: "job_storable None (Some (message e))" using assms(2) by (simp add: job_storable_def)
      from Inl y have "publish_body E src job s1 = (Inl e, s2)" by (simp add: publish_body_def bindS_def)
      with rest Some have "on_registry E (\<lambda>i. finish_job (g_clock E i) (jo_id job) FAILED None (Some (message e))) s2 = (r, s')" by simp
      from finish_registry [OF assms(1) _ m this s2(2)] s1 s2(1) show ?thesis by auto
    next
      case (Inr result)
      have ok: "dict_ok result"
        using y Inr do_publish_storable by (auto simp: on_repo_def split: prod.splits)
      then have js: "job_storable (Some result) None" by (simp add: job_storable_def storable_def)
      obtain z s3 where z: "on_registry E (\<lambda>i. audit (g_clock E i) ''signer'' ''release.published'' (Some (so_id src)) result) s2 = (z, s3)"
        by fastforce
      have s3: "publish_queue (sn_db s3) \<subseteq> publish_queue (sn_db s2)" by (rule queue_shrinks [OF assms(1) queue_ops(2) z s2(2)])
      have st: "storable [''signer'', ''release.published''] [result]" using ok by (simp add: storable_def nul_def)
      have "z = Inr () \<and> \<not> sn_failed s3"
        by (rule on_registry_run [OF z s2(2)]) (use st in \<open>auto simp: audit_def modifyS_def\<close>)
      then have zs: "z = Inr ()" "\<not> sn_failed s3" by simp_all
      obtain w s4 where w: "on_registry E (\<lambda>i. finish_job (g_clock E i) (jo_id job) DONE (Some result) None) s3 = (w, s4)" by fastforce
      note fin = finish_registry [OF assms(1) _ js w zs(2)]
      have "publish_body E src job s1 = (w, s4)"
        using y Inr z w zs(1) by (simp add: publish_body_def bindS_def)
      with rest Some fin(1) have "r = Inr ()" "s' = s4" by auto
      with fin(2) s1 s2 s3 show ?thesis by auto
    qed
  qed
qed

text \<open>A round is busy and ends an open job, or it is idle and leaves nothing to claim.\<close>

lemma round_queue:
  assumes "no_new_publish E" "\<forall>e. \<not> nul (message e)" "sign_round E message s = (r, s')"
  shows "publish_queue (sn_db s') \<subseteq> publish_queue (sn_db s) \<and>
    (r = Inr True \<and> publish_queue (sn_db s') \<noteq> publish_queue (sn_db s)
     \<or> r = Inr False \<and> (\<exists>i. filter (claimable (g_locked E i) CLAIMS) (d_jobs (sn_db s')) = []))"
proof -
  let ?s = "s\<lparr>sn_failed := False\<rparr>"
  have f: "\<not> sn_failed ?s" by simp
  obtain x s1 where x: "on_registry E (\<lambda>i. reset_stale_jobs (g_clock E i) SIGN_STALE_AFTER) ?s = (x, s1)" by fastforce
  have s1: "publish_queue (sn_db s1) \<subseteq> publish_queue (sn_db s)" using queue_shrinks [OF assms(1) queue_ops(3) x f] by simp
  have "\<exists>n. x = Inr n \<and> \<not> sn_failed s1"
    by (rule on_registry_run [OF x f]) (auto simp: reset_stale_jobs_def)
  then obtain n where n: "x = Inr n" "\<not> sn_failed s1" by blast
  obtain y s2 where y: "on_registry E (\<lambda>i. claim_job (g_clock E i) (g_locked E i) CLAIMS) s1 = (y, s2)" by fastforce
  obtain i d where c: "d = g_others E i (sn_db s1)" "claim_job (g_clock E i) (g_locked E i) CLAIMS d = (y, sn_db s2)"
    "sn_failed s2 \<longleftrightarrow> (case y of Inl e \<Rightarrow> aborts e | Inr _ \<Rightarrow> False)"
    by (rule on_registry_run [OF y n(2)])
  have d: "publish_queue d \<subseteq> publish_queue (sn_db s1)" using assms(1) c(1) by (simp add: no_new_publish_def)
  have rest: "(bindS (\<lambda>s. (y, s2)) (\<lambda>job. case job of None \<Rightarrow> returnS False
     | Some j \<Rightarrow> bindS (sign_run_job E message j) (\<lambda>_. returnS True))) s1 = (r, s')"
    using assms(3) x y n by (simp add: sign_round_def sign_tick_def bindS_def)
  show ?thesis
  proof (cases "filter (claimable (g_locked E i) CLAIMS) (d_jobs d) = []")
    case True
    then have y': "y = Inr None" "sn_db s2 = d" using claim_job_cases [of "g_clock E i" "g_locked E i" CLAIMS d] c(2)
      by (auto simp: filter_empty_conv)
    with rest have "r = Inr False" "s' = s2" by (auto simp: bindS_def returnS_def)
    with True y' d s1 show ?thesis by auto
  next
    case False
    then obtain j where j: "y = Inr (Some j)"
      using claim_job_cases [of "g_clock E i" "g_locked E i" CLAIMS d] c(2) by auto
    have cl: "jo_id j \<in> publish_queue d" "publish_queue (sn_db s2) \<subseteq> publish_queue d"
      using claim_queue c(2) j by (auto simp: CLAIMS_def)
    obtain z s3 where z: "sign_run_job E message j s2 = (z, s3)" by fastforce
    have "\<not> sn_failed s2" using c(3) j by simp
    note ran = run_job_queue [OF assms(1,2) z this]
    from rest j z ran have "r = Inr True" "s' = s3" by (auto simp: bindS_def returnS_def)
    with ran cl d s1 show ?thesis by blast
  qed
qed

fun busy_rounds :: "nat \<Rightarrow> sign_env \<Rightarrow> (exn \<Rightarrow> string) \<Rightarrow> sign_state \<Rightarrow> nat" where
  "busy_rounds 0 E message s = 0"
| "busy_rounds (Suc n) E message s = (case sign_round E message s of
     (r, s') \<Rightarrow> (if r = Inr True then 1 else 0) + busy_rounds n E message s')"

lemma round_card:
  assumes "no_new_publish E" "\<forall>e. \<not> nul (message e)" "sign_round E message s = (r, s')"
  shows "card (publish_queue (sn_db s')) + (if r = Inr True then 1 else 0) \<le> card (publish_queue (sn_db s))"
    "r = Inr True \<or> r = Inr False"
  using round_queue [OF assms]
  by (auto intro: card_mono Suc_leI psubset_card_mono [OF finite_queue psubsetI])

lemma busy_rounds_bound:
  assumes "no_new_publish E" "\<forall>e. \<not> nul (message e)"
  shows "busy_rounds n E message s + card (publish_queue (sn_db (sign_loop n E message s))) \<le> card (publish_queue (sn_db s))"
proof (induction n arbitrary: s)
  case (Suc n)
  obtain r s' where t: "sign_round E message s = (r, s')" by fastforce
  from Suc.IH [of s'] round_card(1) [OF assms t] t show ?case by (auto split: if_splits)
qed simp

lemma idle_round:
  assumes "no_new_publish E" "\<forall>e. \<not> nul (message e)" "\<forall>k \<le> n. fst (sign_round E message (sign_loop k E message s)) \<noteq> Inr False"
  shows "busy_rounds (Suc n) E message s = Suc n"
  using assms(3)
proof (induction n arbitrary: s)
  case 0
  obtain r s' where t: "sign_round E message s = (r, s')" by fastforce
  with 0 round_card(2) [OF assms(1,2) t] show ?case by auto
next
  case (Suc n)
  obtain r s' where t: "sign_round E message s = (r, s')" by fastforce
  have "r = Inr True" using Suc.prems [rule_format, of 0] round_card(2) [OF assms(1,2) t] t by auto
  moreover have "\<forall>k \<le> n. fst (sign_round E message (sign_loop k E message s')) \<noteq> Inr False"
  proof (intro allI impI)
    fix k assume "k \<le> n"
    then show "fst (sign_round E message (sign_loop k E message s')) \<noteq> Inr False"
      using Suc.prems [rule_format, of "Suc k"] t by simp
  qed
  from Suc.IH [OF this] have "busy_rounds (Suc n) E message s' = Suc n" .
  ultimately show ?case using t by (simp del: busy_rounds.simps(2) add: busy_rounds.simps(2) [of "Suc n"])
qed


text \<open>A registry with one publish job, whatever its outcome.\<close>

definition ex_publish_job :: job where
  "ex_publish_job = \<lparr>jo_id = 3, jo_source_id = 7, jo_kind = PUBLISH, jo_state = QUEUED, jo_requested_by = ''worker'',
     jo_requested_at = 0, jo_started_at = None, jo_finished_at = None, jo_attempts = 0, jo_payload = ex_approval,
     jo_result = None, jo_error = None\<rparr>"

definition ex_sign_state :: sign_state where
  "ex_sign_state = \<lparr>sn_db = empty_db\<lparr>d_jobs := [ex_publish_job]\<rparr>, sn_repo = ref_delegated, sn_log = [], sn_failed = False\<rparr>"


end
