(* ===== verification/ClientClaims.thy ===== *)
theory ClientClaims
  imports ClientRun RepositoryClaims
begin

text \<open>
  The properties of the embedded client, with a reference crate at which they are instantiated.
\<close>

section \<open>Names\<close>

text \<open>C37: Client and server name the same things: the verifier accepts the path of every key and of
  every channel pointer the server can form, the client's prefix, pointer path, role and stored
  name are the server's.\<close>

theorem client_and_server_agree_on_names:
  assumes "TargetKey a ch p r v f = Inr key" "ChannelKey a ch p r = Inr c" "app_role_name a = Inr role"
    and "channel = \<lparr>ch_app_id = a, ch_channel = ch, ch_platform = p, ch_arch = r\<rparr>"
  shows "TargetPath_parse (path key) = Some (path key) \<and> TargetPath_parse (pointer_path c) = Some (pointer_path c)
    \<and> ch_prefix channel = channel_prefix c \<and> ch_pointer_path channel = pointer_path c \<and> ch_role channel = role
    \<and> prefix (ch_prefix channel) (path key)
    \<and> payload_name (path key) h = ''targets/'' @ stored_target_path (path key) h"
proof -
  have 1: "TargetPath_parse (path key) = Some (path key)"
    using assms(1) by (intro path_parses wf_TargetKey)
  have 2: "TargetPath_parse (pointer_path c) = Some (pointer_path c)"
    using assms(2) by (intro pointer_parses) (auto simp: ChannelKey_def wf_channel_key_def bindr_eq_Inr_iff)
  have 3: "ch_prefix channel = channel_prefix c" "ch_role channel = role" "prefix (ch_prefix channel) (path key)"
    using assms by (auto simp: ch_prefix_def channel_prefix_def ch_role_def app_role_name_def APP_ROLE_PREFIX_def
        TargetKey_Inr_iff ChannelKey_def bindr_eq_Inr_iff path_def split: if_splits)
  then have 4: "ch_pointer_path channel = pointer_path c"
    by (simp add: ch_pointer_path_def pointer_path_def POINTER_VERSION_def POINTER_FILE_def)
  show ?thesis using 1 2 3 4 by (simp add: payload_name_def stored_name_def stored_target_path_def)
qed

theorem client_and_server_agree_on_names_witness:
  "TargetPath_parse ''editor/stable/linux-x86_64/1.0/a.zip'' = Some ''editor/stable/linux-x86_64/1.0/a.zip''"
proof -
  have k: "TargetKey ''editor'' ''stable'' ''linux'' ''x86_64'' ''1.0'' ''a.zip''
      = Inr \<lparr>tk_app_id = ''editor'', tk_channel = ''stable'', tk_platform = ''linux'', tk_arch = ''x86_64'',
          tk_version = ''1.0'', tk_filename = ''a.zip''\<rparr>" by code_simp
  have c: "ChannelKey ''editor'' ''stable'' ''linux'' ''x86_64''
      = Inr \<lparr>ck_app_id = ''editor'', ck_channel = ''stable'', ck_platform = ''linux'', ck_arch = ''x86_64''\<rparr>" by code_simp
  have r: "app_role_name ''editor'' = Inr ''app-editor''" by code_simp
  from client_and_server_agree_on_names [OF k c r refl] show ?thesis by (simp add: path_def)
qed

section \<open>Release data and rollout\<close>





section \<open>The check\<close>

text \<open>C21: Whatever the server sends and the verifier's crate does, an update is offered only from a
  verifier bootstrapped from the embedded root that accepted timestamp, snapshot, targets and the
  application's own role, in this order and without an error.  That verifier describes the
  channel's pointer, the fetched pointer has the described length and digest and names the offered
  path and version; the path is under the channel's prefix; the same verifier describes the path,
  with the offered version, length and digest; and this install is inside the signed rollout.\<close>

theorem offered_update_is_trusted:
  assumes "run E root_bytes now channel install_id s = (Inr (Some a), s')"
    and "\<forall>made p body. ce_fetch E made p = Inr body \<longrightarrow> length body < 2 ^ 64"
  shows "\<exists>v0 v pd pointer d. opened (ce_tuf E) root_bytes now v0 \<and> verified_chain (ce_tuf E) (ch_role channel) v0 v
    \<and> described_by E v (ch_pointer_path channel) pd \<and> int (length pointer) = uint (rt_length pd) \<and> ce_sha E pointer = rt_sha256 pd
    \<and> parse_pointer pointer = Inr (av_target_path a, av_version a) \<and> prefix (ch_prefix channel) (av_target_path a)
    \<and> described_by E v (av_target_path a) d \<and> describes d (av_info a) \<and> c_string (rr_version (rt_release d)) = av_version a
    \<and> rust_in_rollout (ce_sha E) (c_string install_id) (c_string (ch_app_id channel)) (rr_rollout_pct (rt_release d)) = Some True"
proof -
  obtain s0 s1' where i: "Verifier_init E root_bytes now s = (Inr (), s0)" and c: "check E channel install_id s0 = (Inr (Some a), s1')"
    using assms(1) by (auto simp: run_def elim!: bindS_InrE split: prod.splits)
  show ?thesis
  proof (rule check_Some [OF c])
    fix s1 s2 s3 info body
    assume r: "refresh E channel s0 = (Inr True, s1)"
      and t: "try_target E (ch_pointer_path channel) s1 = (Inr (Some info), s2)"
      and f: "fetch_verified E info (ch_pointer_path channel) s2 = (Inr body, s3)"
      and o: "offer E channel install_id body s3 = (Inr (Some a), s1')"
    obtain v0 v where v: "cl_handle s0 = Some v0" "cl_handle s1 = Some v" "verified_chain (ce_tuf E) (ch_role channel) v0 v"
      using refresh_Inr [OF r] by blast
    obtain pd where pd: "described_by E v (ch_pointer_path channel) pd" "describes pd info" "cl_handle s2 = Some v"
      using try_target_describes [OF t] v(2) by auto
    have "length body < 2 ^ 64"
      using f assms(2) by (auto simp: fetch_verified_def fetch_def elim!: bindS_InrE)
    from fetch_verified_Inr [OF f pd(2) this] pd have b: "int (length body) = uint (rt_length pd)" "ce_sha E body = rt_sha256 pd"
      "cl_handle s3 = Some v" by (auto simp: describes_def)
    obtain d where d: "parse_pointer body = Inr (av_target_path a, av_version a)" "prefix (ch_prefix channel) (av_target_path a)"
      "described_by E v (av_target_path a) d" "describes d (av_info a)" "in_version (av_info a) = av_version a"
      "client_in_rollout E install_id (ch_app_id channel) (in_rollout_pct (av_info a)) = Inr True"
      using offer_Some [OF o] b(3) by auto
    have "opened (ce_tuf E) root_bytes now v0" using Verifier_init_Inr [OF i] v(1) by blast
    moreover have "c_string (rr_version (rt_release d)) = av_version a"
      "in_rollout_pct (av_info a) = uint (rr_rollout_pct (rt_release d))" using d(4,5) by (auto simp: describes_def)
    ultimately show ?thesis using v pd(1) b d rollout_inside [of E install_id "ch_app_id channel"] by metis
  qed
qed

text \<open>A crate that accepts everything and describes a pointer and a release.\<close>

definition ex_description :: "string \<Rightarrow> string \<Rightarrow> description" where
  "ex_description body version = \<lparr>de_length = of_nat (length body), de_sha256 = Some (replicate 32 (CHR ''h'')),
     de_custom = [(''version'', JStr version), (''mandatory'', JBool False), (''rollout_pct'', JInt 100)]\<rparr>"

definition ex_release_path :: string where "ex_release_path = ''editor/stable/linux-x86_64/1.0/a.zip''"

definition ex_pointer :: string where
  "ex_pointer = to_json \<lparr>cr_target_path = ex_release_path, cr_version = ''1.0''\<rparr>"

definition ex_crate :: "unit tuf" where
  "ex_crate = \<lparr>tf_from_trusted_root = (\<lambda>_. Ok ()), tf_update_timestamp = (\<lambda>_ _ d. (Ok (), d)),
     tf_update_snapshot = (\<lambda>_ _ d. (Ok (), d)), tf_update_targets = (\<lambda>_ _ d. (Ok (), d)),
     tf_update_delegated_targets = (\<lambda>_ _ _ d. (Ok (), d)), tf_timestamp_snapshot = (\<lambda>_. Some 3),
     tf_snapshot_meta = (\<lambda>_. Some (\<lambda>_. Some 2)),
     tf_describe = (\<lambda>_ p _. if p = ex_release_path then Ok (ex_description ''zip'' ''1.0'') else Ok (ex_description ex_pointer ''1.0'')),
     tf_metadata_path = (\<lambda>_. True), tf_target_path = (\<lambda>_. True), tf_epoch_plus = (\<lambda>_. True), tf_datetime = (\<lambda>_. True)\<rparr>"

definition ex_client :: "unit client_env" where
  "ex_client = \<lparr>ce_tuf = ex_crate, ce_sha = (\<lambda>_. replicate 32 (CHR ''h'')), ce_clock = (\<lambda>_. 9),
     ce_fetch = (\<lambda>_ _. Inr ex_pointer)\<rparr>"

definition ex_app :: channel where
  "ex_app = \<lparr>ch_app_id = ''editor'', ch_channel = ''stable'', ch_platform = ''linux'', ch_arch = ''x86_64''\<rparr>"

definition ex_info :: "string \<Rightarrow> target_info" where
  "ex_info body = \<lparr>in_version = ''1.0'', in_length = int (length body), in_sha256 = replicate 32 (CHR ''h''),
     in_rollout_pct = 100, in_mandatory = False\<rparr>"

lemma ex_pointer_short: "length ex_pointer < 100"
  by code_simp

lemma ex_answers:
  assumes "p = ex_release_path \<and> body = ''zip'' \<or> p = ch_pointer_path ex_app \<and> body = ex_pointer"
  shows "answers ex_client t () p (ex_info body)"
proof -
  have r: "rust_release_info [(''version'', JStr ''1.0''), (''mandatory'', JBool False), (''rollout_pct'', JInt 100)]
      = Ok \<lparr>rr_version = ''1.0'', rr_rollout_pct = 100, rr_mandatory = False, rr_notes_url = None, rr_min_os = None, rr_min_from_version = None\<rparr>"
    using custom_release_info [of "''1.0''" JNull JNull JNull False 100]
    by (simp add: ReleaseInfo_def to_custom_def optional_def check_segment_def SEGMENT_def match_dollar_def
        segment_char_def char_class_defs)
  have parse: "TargetPath_parse p = Some p" "CHR 0x00 \<notin> set p"
    using assms by (auto; code_simp)+
  have len: "uint (of_nat (length body) :: 64 word) = int (length body)"
    using assms ex_pointer_short by (auto simp: unsigned_of_nat take_bit_nat_eq_self)
  let ?d = "ex_description body ''1.0''"
  have "ch_pointer_path ex_app \<noteq> ex_release_path" by code_simp
  then have "tf_describe ex_crate t p () = Ok ?d" using assms by (auto simp: ex_crate_def)
  moreover have "rust_release_info (de_custom ?d) = Ok \<lparr>rr_version = ''1.0'', rr_rollout_pct = 100, rr_mandatory = False,
      rr_notes_url = None, rr_min_os = None, rr_min_from_version = None\<rparr>" (is "_ = Ok ?r")
    using r by (simp add: ex_description_def)
  moreover have "ex_info body = info_of ?d (replicate 32 (CHR ''h'')) ?r"
    using len by (simp add: ex_info_def info_of_def ex_description_def c_string_def)
  moreover have "length (utf8_encode (rr_version ?r)) \<le> 63" by (simp add: code_def)
  moreover have "de_sha256 ?d = Some (replicate 32 (CHR ''h''))" by (simp add: ex_description_def)
  ultimately show ?thesis using parse
    unfolding answers_def by (intro conjI exI [of _ ?d] exI [of _ "replicate 32 (CHR ''h'')"] exI [of _ ?r]) (simp_all add: ex_client_def, simp add: ex_crate_def)
qed

lemma ex_run:
  "\<exists>s'. run ex_client [] (Some 7) ex_app ''install'' \<lparr>cl_handle = None, cl_calls = 0, cl_made = []\<rparr>
     = (Inr (Some \<lparr>av_version = ''1.0'', av_target_path = ex_release_path, av_info = ex_info ''zip''\<rparr>), s')"
proof (rule run_run [where db = "()"])
  show "\<exists>s'. check ex_client ex_app ''install'' s
      = (Inr (Some \<lparr>av_version = ''1.0'', av_target_path = ex_release_path, av_info = ex_info ''zip''\<rparr>), s')"
    if s: "on_database 7 () s" for s
  proof -
    have served: "served ex_client p ex_pointer" for p by (simp add: served_def ex_client_def)
    have r: "\<exists>s1. refresh ex_client ex_app s = (Inr True, s1) \<and> on_database 7 () s1"
      by (rule refresh_run [OF refl s, where meta = "\<lambda>_. Some 2" and ?db4.0 = "()" and ?w1.0 = 3 and ?w2.0 = 2 and ?w3.0 = 2])
        (rule served | simp add: ex_client_def ex_crate_def ex_app_def ch_role_def)+
    have "CurrentRelease ex_release_path ''1.0'' = Inr \<lparr>cr_target_path = ex_release_path, cr_version = ''1.0''\<rparr>" by code_simp
    from parse_pointer_from_json [OF from_to_json [OF this]]
    have pp: "parse_pointer ex_pointer = Inr (ex_release_path, in_version (ex_info ''zip''))"
      by (simp add: ex_pointer_def ex_info_def)
    have px: "prefix (ch_prefix ex_app) ex_release_path" by code_simp
    have pl: "length ex_pointer \<le> MAX_POINTER_BYTES" using ex_pointer_short by (simp add: MAX_POINTER_BYTES_def)
    have pi: "answers ex_client 7 () (ch_pointer_path ex_app) (ex_info ex_pointer)"
      and ti: "answers ex_client 7 () ex_release_path (ex_info ''zip'')" by (rule ex_answers; simp)+
    have "\<exists>s'. check ex_client ex_app ''install'' s = (Inr (Some \<lparr>av_version = in_version (ex_info ''zip''),
        av_target_path = ex_release_path, av_info = ex_info ''zip''\<rparr>), s')"
      by (rule check_run [OF r pi served _ _ pl pp px ti]) (simp_all add: ex_info_def ex_client_def ex_app_def)
    then show ?thesis by (simp add: ex_info_def)
  qed
qed (simp_all add: ex_client_def ex_crate_def bootstrap_at_def to_utc_def build_def)

theorem offered_update_is_trusted_witness:
  "\<exists>a s' d v. run ex_client [] (Some 7) ex_app ''install'' \<lparr>cl_handle = None, cl_calls = 0, cl_made = []\<rparr> = (Inr (Some a), s')
     \<and> described_by ex_client v ex_release_path d \<and> describes d (av_info a)"
proof -
  obtain a s' where r: "run ex_client [] (Some 7) ex_app ''install'' \<lparr>cl_handle = None, cl_calls = 0, cl_made = []\<rparr> = (Inr (Some a), s')"
    "av_target_path a = ex_release_path" using ex_run by fastforce
  have b: "\<forall>made p body. ce_fetch ex_client made p = Inr body \<longrightarrow> length body < 2 ^ 64"
    using ex_pointer_short by (auto simp: ex_client_def)
  from offered_update_is_trusted [OF r(1) b] obtain d v where
    "described_by ex_client v (av_target_path a) d" "describes d (av_info a)" by blast
  with r show ?thesis by auto
qed

text \<open>A panic in the verifier ends it: the call raises \<open>PanicError\<close>, and every later update, version
  query and lookup raises \<open>NULL_ARGUMENT\<close> without entering the library again.\<close>

theorem panic_ends_the_verifier:
  assumes "feed_with E call s = (Inl (DistError (Status DIST_PANIC)), s')"
  shows "(\<forall>raw. py_update_timestamp E raw s' = (Inl (DistError 1), s') \<and> py_update_snapshot E raw s' = (Inl (DistError 1), s')
      \<and> py_update_targets E raw s' = (Inl (DistError 1), s') \<and> py_update_delegated_targets E role raw s' = (Inl (DistError 1), s'))
    \<and> snapshot_version E s' = (Inl (DistError 1), s') \<and> targets_version E role s' = (Inl (DistError 1), s')
    \<and> py_target E p s' = (Inl (DistError 1), s')"
proof -
  have "st = DIST_PANIC" if "Status st = 10" for st using that by (cases st) auto
  then have "cl_handle s' = None"
    using assms by (auto simp: feed_with_def live_def bindS_def refuseS_def raiseS_def returnS_def raise_status_def
        split: prod.splits if_splits)
  then show ?thesis
    by (simp add: py_update_timestamp_def py_update_snapshot_def py_update_targets_def py_update_delegated_targets_def
        feed_with_def snapshot_version_def targets_version_def py_version_def py_target_def live_def bindS_def refuseS_def raiseS_def)
qed

theorem panic_ends_the_verifier_witness:
  "\<exists>s'. feed_with ex_client (\<lambda>t h. (DIST_PANIC, h)) \<lparr>cl_handle = Some \<lparr>tv_database = (), tv_clock = System\<rparr>, cl_calls = 0, cl_made = []\<rparr>
      = (Inl (DistError 10), s') \<and> py_target ex_client ex_release_path s' = (Inl (DistError 1), s')"
proof -
  let ?s = "\<lparr>cl_handle = Some \<lparr>tv_database = (), tv_clock = System\<rparr>, cl_calls = 0, cl_made = []\<rparr> :: unit client"
  obtain s' where s': "feed_with ex_client (\<lambda>t h. (DIST_PANIC, h)) ?s = (Inl (DistError (Status DIST_PANIC)), s')"
    by (auto simp: feed_with_def live_def bindS_def refuseS_def returnS_def raise_status_def)
  from panic_ends_the_verifier [OF s', of "[]" ex_release_path] s' show ?thesis by auto
qed

section \<open>Counting requests\<close>

abbreviation asks_most :: "nat \<Rightarrow> ('d, 'a) client_sem \<Rightarrow> bool" where
  "asks_most \<equiv> grows (\<lambda>s. length (cl_made s))"

lemma asks_most_calls [simp]:
  "asks_most n (feed_with E call)" "asks_most n (py_version call')" "asks_most n (py_target E p)"
  by (auto simp: grows_def feed_with_def py_version_def py_target_def live_def bindS_def refuseS_def raiseS_def
      returnS_def Let_def split: prod.splits)

lemma asks_most_fetch: "asks_most 1 (fetch E p)"
  by (simp add: grows_def fetch_def)

lemma asks_most_try_target [simp]: "asks_most n (try_target E p)"
proof -
  have "snd (try_target E p s) = snd (py_target E p s)" for s by (auto simp: try_target_def split: prod.split sum.split)
  then show ?thesis using asks_most_calls(3) [of n E p] by (simp add: grows_def)
qed

lemma asks_most_stages:
  "asks_most 4 (refresh E channel)" "asks_most 1 (fetch_verified E info p)" "asks_most 0 (offer E channel i pointer)"
proof -
  have u: "asks_most 0 (py_update_timestamp E raw)" "asks_most 0 (py_update_snapshot E raw)" "asks_most 0 (py_update_targets E raw)"
    "asks_most 0 (py_update_delegated_targets E role raw)" "asks_most 0 (snapshot_version E)" "asks_most 0 (targets_version E role)"
    for raw role
    by (simp_all add: py_update_timestamp_def py_update_snapshot_def py_update_targets_def py_update_delegated_targets_def
        snapshot_version_def targets_version_def)
  have n: "asks_most 0 (returnS x :: ('d, 'x) client_sem)" "asks_most n (raiseS e :: ('d, 'x) client_sem)" for x :: 'x and n e by simp_all
  show "asks_most 4 (refresh E channel)"
    unfolding refresh_def
    apply (rule grows_bindS [OF asks_most_fetch, where b = 3])
     apply (rule grows_bindS [OF u(1), where b = 3])
      apply (rule grows_bindS [OF u(5), where b = 3])
       apply (split option.split, intro conjI allI impI, simp)
       apply (rule grows_bindS [OF asks_most_fetch, where b = 2])
        apply (rule grows_bindS [OF u(2), where b = 2])
         apply (rule grows_bindS [OF u(6), where b = 2])
          apply (split option.split, intro conjI allI impI, simp)
          apply (rule grows_bindS [OF asks_most_fetch, where b = 1])
           apply (rule grows_bindS [OF u(3), where b = 1])
            apply (rule grows_bindS [OF u(6), where b = 1])
             apply (split option.split, intro conjI allI impI, simp)
             apply (rule grows_bindS [OF asks_most_fetch, where b = 0])
              apply (rule grows_bindS [OF u(4), where b = 0])
               apply simp_all
    done
  show "asks_most 1 (fetch_verified E info p)"
    unfolding fetch_verified_def
    by (rule grows_bindS [OF asks_most_fetch, where b = 0]) (auto intro: grows_bindS [where a = 0 and b = 0])
  show "asks_most 0 (offer E channel i pointer)"
    unfolding offer_def
    by (intro grows_bindS [where a = 0 and b = 0]; (simp split: prod.split option.split)?)
      (auto intro!: grows_bindS [where a = 0 and b = 0] split: prod.split option.split)
qed

text \<open>A check makes at most five requests, whatever the server answers and the verifier's crate does.\<close>

theorem check_makes_five_requests:
  "length (cl_made (snd (run E root_bytes now channel install_id s))) \<le> length (cl_made s) + 5"
proof -
  have "asks_most 5 (check E channel install_id)"
    unfolding check_def
    apply (rule grows_bindS [OF asks_most_stages(1), where b = 1])
     apply (simp split: if_split)
     apply (intro impI grows_bindS [where a = 0 and b = 1])
       apply (auto split: option.split intro: grows_bindS [OF asks_most_stages(2) asks_most_stages(3)])
    done
  then have c: "length (cl_made (snd (check E channel install_id s0))) \<le> length (cl_made s0) + 5" for s0
    by (simp add: grows_def)
  show ?thesis
  proof (cases "Verifier_init E root_bytes now s")
    case (Pair r s0)
    then have "cl_made s0 = cl_made s" by (auto simp: Verifier_init_def Let_def split: option.splits prod.splits)
    with Pair c [of s0] show ?thesis
      by (cases r) (auto simp: run_def bindS_def close_def modifyS_def split: prod.splits)
  qed
qed

section \<open>Comparing versions\<close>

lemma is_newer_True:
  "is_newer a b = Inr True \<longleftrightarrow> (\<exists>l r. version_parts (split_on (CHR ''.'') a) = Inr (Some l)
     \<and> version_parts (split_on (CHR ''.'') b) = Inr (Some r) \<and> r < l)"
proof
  assume "is_newer a b = Inr True"
  then obtain x y where "version_parts (split_on (CHR ''.'') a) = Inr x" "version_parts (split_on (CHR ''.'') b) = Inr y"
    "(case (x, y) of (Some l, Some r) \<Rightarrow> r < l | _ \<Rightarrow> False)" by (auto simp: is_newer_def bindr_eq_Inr_iff)
  then show "\<exists>l r. version_parts (split_on (CHR ''.'') a) = Inr (Some l)
     \<and> version_parts (split_on (CHR ''.'') b) = Inr (Some r) \<and> r < l" by (cases x; cases y) auto
qed (auto simp: is_newer_def)

text \<open>\<open>is_newer\<close> is a strict order on the versions it can read, comparing their numbers segment by
  segment, and a version it cannot read is never newer.\<close>

theorem is_newer_is_a_strict_order:
  assumes "is_newer a b = Inr True"
  shows "(\<exists>l r. version_parts (split_on (CHR ''.'') a) = Inr (Some l) \<and> version_parts (split_on (CHR ''.'') b) = Inr (Some r) \<and> r < l)
    \<and> is_newer b a = Inr False \<and> is_newer a a = Inr False \<and> (is_newer b c = Inr True \<longrightarrow> is_newer a c = Inr True)"
proof -
  obtain l r where lr: "version_parts (split_on (CHR ''.'') a) = Inr (Some l)"
    "version_parts (split_on (CHR ''.'') b) = Inr (Some r)" "r < l" using assms by (auto simp: is_newer_True)
  then have "is_newer b a = Inr False" "is_newer a a = Inr False" by (auto simp: is_newer_def)
  moreover have "is_newer b c = Inr True \<longrightarrow> is_newer a c = Inr True"
    using lr by (auto simp: is_newer_True)
  ultimately show ?thesis using lr by blast
qed

theorem is_newer_is_a_strict_order_witness:
  "is_newer ''1.10'' ''1.9.5'' = Inr True \<and> is_newer ''1.9.5'' ''1.10'' = Inr False"
proof -
  have "is_newer ''1.10'' ''1.9.5'' = Inr True" by code_simp
  from is_newer_is_a_strict_order [OF this] this show ?thesis by blast
qed

text \<open>A superscript passes \<open>isdigit\<close> and is refused by \<open>int\<close>, so the comparison raises instead of
  failing closed.\<close>

lemma is_newer_raises: "is_newer [CHR 0xB2] ''1'' = Inl (ValueError ''invalid literal for int()'')"
  by code_simp

end
