(* ===== verification/Delegate.thy ===== *)
theory Delegate
  imports StoreClaims
begin

text \<open>
  \<^verbatim>\<open>packages/dist-registry/src/dist_registry/delegate.py\<close>: activating a source whose delegation the
  published targets metadata carries.  The \<^verbatim>\<open>metadata\<close> directory is the list of its regular
  files, name and bytes; printing and argument parsing are left out.
\<close>

type_synonym files = "(string \<times> string) list"

section \<open>Reading the metadata\<close>

text \<open>The candidates, with the number before the first dot; \<open>int()\<close> refuses some of the characters
  \<open>isdigit\<close> accepts.\<close>

fun versioned_targets :: "string list \<Rightarrow> (int \<times> string) list res" where
  "versioned_targets [] = Inr []"
| "versioned_targets (n # ns) =
     (let head = hd (split_on (CHR ''.'') n) in
      if suffix ''.targets.json'' n \<and> isdigit head then
        (case int_of_str head of
           None \<Rightarrow> Inl (ValueError ''invalid literal for int()'')
         | Some v \<Rightarrow> bindr (versioned_targets ns) (\<lambda>vs. Inr ((v, n) # vs)))
      else versioned_targets ns)"

definition current_targets :: "files \<Rightarrow> string res" where
  "current_targets fs =
     (if ''targets.json'' \<in> fst ` set fs then Inr ''targets.json''
      else bindr (versioned_targets (map fst fs)) (\<lambda>versioned.
        case versioned of
          [] \<Rightarrow> Inl (DelegationMissingError ''no targets metadata'')
        | v # vs \<Rightarrow> Inr (snd (foldl max v vs))))"

text \<open>\<^verbatim>\<open>read_text\<close> decodes, and its error is not one the function catches.\<close>

definition delegated_roles :: "files \<Rightarrow> string \<Rightarrow> string set res" where
  "delegated_roles fs name =
     (case map_of fs name of
        None \<Rightarrow> Inl (DelegationMissingError ''cannot read'')
      | Some raw \<Rightarrow>
          (case utf8_decode raw of
             None \<Rightarrow> Inl UnicodeDecodeError
           | Some text \<Rightarrow>
               (case loads text of
                  None \<Rightarrow> Inl (DelegationMissingError ''cannot read'')
                | Some doc \<Rightarrow>
                    (case as_dict doc of
                       None \<Rightarrow> Inl AttributeError
                     | Some document \<Rightarrow>
                         (let delegations = (case as_dict (get document ''signed'') of
                                None \<Rightarrow> JNull | Some signed \<Rightarrow> get signed ''delegations'');
                              roles = (case as_dict delegations of
                                None \<Rightarrow> JNull | Some d \<Rightarrow> get d ''roles'')
                          in case roles of
                               JObj d \<Rightarrow> Inr (fst ` set d)
                             | JArr rs \<Rightarrow> Inr (set (List.map_filter (\<lambda>r.
                                 case as_dict r of None \<Rightarrow> None | Some d \<Rightarrow> as_str (get d ''name'')) rs))
                             | _ \<Rightarrow> Inr {})))))"

section \<open>The command\<close>

text \<open>Who runs the command.  A variable of the environment is a C string, which ends at its first NUL.\<close>

definition actor_name :: "string option \<Rightarrow> string option \<Rightarrow> string" where
  "actor_name USER USERNAME =
     (let environ = (\<lambda>v. case v of None \<Rightarrow> [] | Some t \<Rightarrow> takeWhile (\<lambda>c. c \<noteq> CHR 0x00) t) in
      if environ USER \<noteq> [] then environ USER else if environ USERNAME \<noteq> [] then environ USERNAME
      else ''ceremony'')"

lemma actor_name_plain: "\<not> nul (actor_name USER USERNAME)"
  by (auto simp: actor_name_def Let_def nul_def split: option.splits dest: set_takeWhileD)

text \<open>\<open>fs\<close> is what the directory holds; the result is the exit status.\<close>

definition delegate_main :: "int \<Rightarrow> string option \<Rightarrow> string option \<Rightarrow> files \<Rightarrow> string \<Rightarrow> (db, nat) sem" where
  "delegate_main now USER USERNAME fs app_id = (\<lambda>d.
     case app_role_name app_id of
       Inl e \<Rightarrow> (Inl e, d)
     | Inr role \<Rightarrow>
         (case bindr (current_targets fs) (delegated_roles fs) of
            Inl (DelegationMissingError _) \<Rightarrow> (Inr 2, d)
          | Inl e \<Rightarrow> (Inl e, d)
          | Inr roles \<Rightarrow>
              if role \<notin> roles then (Inr 1, d)
              else (case mark_delegated now app_id d of
                  (Inl (StoreError _), d') \<Rightarrow> (Inr 1, d')
                | (Inl e, d') \<Rightarrow> (Inl e, d')
                | (Inr source, d') \<Rightarrow>
                    bindS (audit now (actor_name USER USERNAME) ''source.activated'' (Some (so_id source))
                        [(''app_id'', JStr (so_app_id source)), (''role'', JStr role)])
                      (\<lambda>_. returnS 0) d')))"

section \<open>Facts\<close>

lemma versioned_targets_names:
  "versioned_targets ns = Inr vs \<Longrightarrow> (v, n) \<in> set vs \<Longrightarrow>
    n \<in> set ns \<and> suffix ''.targets.json'' n \<and> int_of_str (hd (split_on (CHR ''.'') n)) = Some v"
  by (induction ns arbitrary: vs)
    (auto simp: Let_def bindr_eq_Inr_iff split: if_splits option.splits)

lemma versioned_targets_all:
  "versioned_targets ns = Inr vs \<Longrightarrow> n \<in> set ns \<Longrightarrow> suffix ''.targets.json'' n \<Longrightarrow>
    isdigit (hd (split_on (CHR ''.'') n)) \<Longrightarrow> \<exists>v. (v, n) \<in> set vs"
  by (induction ns arbitrary: vs)
    (auto simp: Let_def bindr_eq_Inr_iff split: if_splits option.splits; blast)+

lemma foldl_max: "foldl max v vs \<in> set (v # vs) \<and> (\<forall>w \<in> set (v # vs). w \<le> foldl max v vs)"
  for v :: "'a :: linorder"
proof (induction vs arbitrary: v)
  case (Cons w ws)
  from Cons [of "max v w"] show ?case by (auto simp: max_def split: if_splits)
qed simp

lemma mark_delegated_Inr:
  assumes "mark_delegated now a d = (Inr s, d')"
  shows "so_app_id s = a \<and> so_status s = ACTIVE \<and> s \<in> set (d_sources d')
    \<and> (\<exists>s0 \<in> set (d_sources d). so_app_id s0 = a \<and> so_status s0 \<in> {PENDING_DELEGATION, PAUSED}
         \<and> identity s0 = identity s \<and> pins s0 = pins s)
    \<and> d_jobs d' = d_jobs d \<and> d_audit d' = d_audit d"
proof -
  let ?p = "\<lambda>s. so_app_id s = a \<and> so_status s \<in> {PENDING_DELEGATION, PAUSED}"
  let ?f = "\<lambda>s. s\<lparr>so_status := ACTIVE, so_last_error := None, so_updated_at := now\<rparr>"
  from assms obtain rest where u0: "update_sources ?p ?f d = (Inr (s # rest), d')"
    unfolding mark_delegated_def by (auto elim!: bindS_InrE split: list.splits if_splits)
  define rows where "rows = s # rest"
  have u: "update_sources ?p ?f d = (Inr rows, d')" "s \<in> set rows" using u0 by (simp_all add: rows_def)
  then have rows: "rows = map ?f (filter ?p (d_sources d))"
    and d': "d' = d\<lparr>d_sources := map (\<lambda>s. if ?p s then ?f s else s) (d_sources d)\<rparr>"
    by (auto simp: update_sources_def split: if_splits)
  from u(2) obtain s0 where s0: "s0 \<in> set (d_sources d)" "?p s0" "s = ?f s0" unfolding rows by auto
  then have "s \<in> set (d_sources d')" unfolding d' by force
  with s0 show ?thesis unfolding d' by (auto simp: identity_def pins_def)
qed

lemma update_none: "filter p xs = [] \<Longrightarrow> map (\<lambda>x. if p x then f x else x) xs = xs"
  by (simp add: filter_empty_conv map_idI)

lemma mark_delegated_Inl:
  assumes "mark_delegated now a d = (Inl e, d')"
  shows "d' = d"
proof -
  let ?p = "\<lambda>s. so_app_id s = a \<and> so_status s \<in> {PENDING_DELEGATION, PAUSED}"
  let ?f = "\<lambda>s. s\<lparr>so_status := ACTIVE, so_last_error := None, so_updated_at := now\<rparr>"
  show ?thesis
  proof (cases "nul a")
    case True
    with assms show ?thesis by (simp add: mark_delegated_def bindS_stop)
  next
    case plain: False
    show ?thesis
    proof (cases "update_sources ?p ?f d")
      case (Pair r d1)
      show ?thesis
      proof (cases r)
        case (Inl x)
        with Pair plain assms show ?thesis
          by (auto simp: mark_delegated_def bindS_stop update_sources_def split: if_splits)
      next
        case (Inr rows)
        with Pair plain assms have "rows = []" "d' = d1"
          by (auto simp: mark_delegated_def bindS_run raiseS_def returnS_def split: list.splits)
        with Inr Pair show ?thesis
          using update_none [of ?p "d_sources d" ?f] by (simp add: update_sources_def split: if_splits)
      qed
    qed
  qed
qed

section \<open>Properties\<close>

text \<open>The command reads the targets file with the highest number, whatever order the directory
  lists the files in, unless there is an unnumbered one.\<close>

theorem current_targets_is_newest:
  assumes "current_targets fs = Inr n" "''targets.json'' \<notin> fst ` set fs"
    and "m \<in> fst ` set fs" "suffix ''.targets.json'' m" "isdigit (hd (split_on (CHR ''.'') m))"
  shows "\<exists>v w. n \<in> fst ` set fs \<and> suffix ''.targets.json'' n
    \<and> int_of_str (hd (split_on (CHR ''.'') n)) = Some v \<and> int_of_str (hd (split_on (CHR ''.'') m)) = Some w \<and> w \<le> v"
proof -
  obtain x vs where vs: "versioned_targets (map fst fs) = Inr (x # vs)" "n = snd (foldl max x vs)"
  proof -
    obtain xs where xs: "versioned_targets (map fst fs) = Inr xs"
      "(case xs of [] \<Rightarrow> Inl (DelegationMissingError ''no targets metadata'')
        | v # vs \<Rightarrow> Inr (snd (foldl max v vs))) = Inr n"
      using assms(1,2) by (auto simp: current_targets_def bindr_eq_Inr_iff)
    with that show ?thesis by (cases xs) auto
  qed
  obtain v where v: "(v, n) = foldl max x vs" using vs(2) by (metis surjective_pairing)
  have in_vs: "(v, n) \<in> set (x # vs)" and le: "\<forall>w \<in> set (x # vs). w \<le> (v, n)"
    using foldl_max [of x vs] unfolding v [symmetric] by blast+
  obtain w where w: "(w, m) \<in> set (x # vs)" using versioned_targets_all [OF vs(1)] assms(3-5) by auto
  from le w have "(w, m) \<le> (v, n)" by blast
  then have "w \<le> v" by (auto simp: less_eq_prod_def)
  with versioned_targets_names [OF vs(1) in_vs] versioned_targets_names [OF vs(1) w] show ?thesis by simp
qed

definition ex_files :: files where
  "ex_files = [(''9.targets.json'', []), (''10.targets.json'', []), (''3.root.json'', [])]"

theorem current_targets_is_newest_witness:
  "current_targets ex_files = Inr ''10.targets.json'' \<and> ''10.targets.json'' \<in> fst ` set ex_files"
proof -
  have c: "current_targets ex_files = Inr ''10.targets.json''" by code_simp
  have "''targets.json'' \<notin> fst ` set ex_files" "''9.targets.json'' \<in> fst ` set ex_files"
    "suffix ''.targets.json'' ''9.targets.json''" "isdigit (hd (split_on (CHR ''.'') ''9.targets.json''))"
    by code_simp+
  from current_targets_is_newest [OF c this] c show ?thesis by blast
qed

text \<open>C35: The command changes the registry only when the targets metadata in force delegates the
  application's role: then exactly the waiting source of that application is active and the
  activation is in the audit log; in every other case, errors included, the registry is as it
  was.\<close>

theorem activation_needs_delegation:
  assumes "delegate_main now USER USERNAME fs app_id d = (r, d')"
  shows "d' = d \<or> (\<exists>role name roles s. r = Inr 0 \<and> app_role_name app_id = Inr role
    \<and> current_targets fs = Inr name \<and> delegated_roles fs name = Inr roles \<and> role \<in> roles
    \<and> s \<in> set (d_sources d') \<and> so_app_id s = app_id \<and> so_status s = ACTIVE
    \<and> (\<exists>s0 \<in> set (d_sources d). identity s0 = identity s \<and> so_status s0 \<in> {PENDING_DELEGATION, PAUSED})
    \<and> map au_source_id (d_audit d') = map au_source_id (d_audit d) @ [Some (so_id s)])"
proof (cases "app_role_name app_id")
  case Inl
  with assms show ?thesis by (simp add: delegate_main_def)
next
  case role: (Inr role)
  show ?thesis
  proof (cases "bindr (current_targets fs) (delegated_roles fs)")
    case (Inl e)
    with role assms show ?thesis by (cases e) (auto simp: delegate_main_def)
  next
    case (Inr roles)
    then obtain name where name: "current_targets fs = Inr name" "delegated_roles fs name = Inr roles" by auto
    show ?thesis
    proof (cases "role \<in> roles")
      case False
      with role Inr assms show ?thesis by (simp add: delegate_main_def)
    next
      case True
      show ?thesis
      proof (cases "mark_delegated now app_id d")
        case (Pair m d1)
        show ?thesis
        proof (cases m)
          case (Inl e)
          with Pair mark_delegated_Inl have "d1 = d" by blast
          with Inl Pair True role Inr assms show ?thesis by (cases e) (auto simp: delegate_main_def)
        next
          case s: (Inr s)
          with Pair have "mark_delegated now app_id d = (Inr s, d1)" by simp
          note m = mark_delegated_Inr [OF this]
          have plain: "\<not> nul app_id" "\<not> nul role" using role
            by (auto simp: app_role_name_Inr_iff nul_def APP_ROLE_PREFIX_def char_class_defs app_id_char_def
                dest!: APP_ID_PATTERN_chars)
          with m have ok: "storable [actor_name USER USERNAME, ''source.activated''] [[(''app_id'', JStr (so_app_id s)), (''role'', JStr role)]]"
            using actor_name_plain by (simp add: storable_def dict_ok_def) (simp add: nul_def)
          from s Pair True role Inr assms have "r = Inr 0 \<and> d' = snd (audit now (actor_name USER USERNAME) ''source.activated'' (Some (so_id s))
                        [(''app_id'', JStr (so_app_id s)), (''role'', JStr role)] d1)"
            by (auto simp: delegate_main_def returnS_def run_audit [OF ok])
          with m name True role ok show ?thesis by (auto simp: audit_def modifyS_def)
        qed
      qed
    qed
  qed
qed


definition ex_pending :: db where
  "ex_pending = db_run [(1, AddSource ex_source), (4, RecordIdentity 7 (Some ''42'') (Some ''9''))]"

definition ex_targets :: files where
  "ex_targets = [(''4.targets.json'',
     ''{\"signed\":{\"delegations\":{\"roles\":[{\"name\":\"app-editor\"}]}}}'')]"

lemma ex_activation:
  "fst (delegate_main 9 (Some ''root'') None ex_targets ''editor'' ex_pending) = Inr 0
    \<and> map so_status (d_sources ex_pending) = [PENDING_DELEGATION]
    \<and> map so_status (d_sources (snd (delegate_main 9 (Some ''root'') None ex_targets ''editor'' ex_pending))) = [ACTIVE]"
  by code_simp

theorem activation_needs_delegation_witness:
  "\<exists>roles. delegated_roles ex_targets ''4.targets.json'' = Inr roles \<and> ''app-editor'' \<in> roles"
proof -
  obtain d' where d': "delegate_main 9 (Some ''root'') None ex_targets ''editor'' ex_pending = (Inr 0, d')"
    "map so_status (d_sources d') = [ACTIVE]"
    using ex_activation by (metis prod.collapse)
  then have "d' \<noteq> ex_pending" using ex_activation by auto
  moreover have "app_role_name ''editor'' = Inr ''app-editor''" "current_targets ex_targets = Inr ''4.targets.json''"
    by code_simp+
  ultimately show ?thesis using activation_needs_delegation [OF d'(1)] by auto
qed

end
