(* ===== verification/Forms.thy ===== *)
theory Forms
  imports Sources Store
begin

text \<open>
  \<^verbatim>\<open>packages/dist-admin/src/dist_admin/forms.py\<close>: turning what an operator typed into a source, or
  refusing to.

  A submitted form is the dictionary of its fields; a field is text or an uploaded file, of which
  only its \<open>str()\<close> matters.  Whether the host of a bracketed URL is an IP address and whether a PEM
  key loads are arguments.  A suggestion in a message is set off by a dash, in ASCII here; other
  interpolated values are dropped from messages.
\<close>

section \<open>Fields\<close>

datatype form_value = FText string | FFile string

type_synonym form = "string \<rightharpoonup> form_value"

record form_env =
  fe_bracketed :: "string \<Rightarrow> bool"
  fe_pem :: "string \<Rightarrow> bool"

definition form_text :: "form \<Rightarrow> string \<Rightarrow> string \<Rightarrow> string res" where
  "form_text data key fallback =
     (case data key of
        None \<Rightarrow> Inr (strip fallback)
      | Some (FText v) \<Rightarrow> Inr (strip v)
      | Some (FFile _) \<Rightarrow> Inl (FormError (key @ '' must be text'')))"

definition require :: "string \<Rightarrow> string \<Rightarrow> string res" where
  "require value field = (if value = [] then Inl (FormError (field @ '' is required'')) else Inr value)"

definition checkbox :: "form \<Rightarrow> string \<Rightarrow> bool res" where
  "checkbox data key = bindr (form_text data key []) (\<lambda>v. Inr (lower v \<in> {''on'', ''true'', ''1'', ''yes''}))"

definition positive_int :: "form \<Rightarrow> string \<Rightarrow> int \<Rightarrow> int res" where
  "positive_int data key fallback =
     bindr (form_text data key []) (\<lambda>raw.
       if raw = [] then Inr fallback
       else (case int_of_str raw of
           None \<Rightarrow> Inl (FormError (key @ '' must be a whole number''))
         | Some v \<Rightarrow> if v \<le> 0 then Inl (FormError (key @ '' must be greater than zero'')) else Inr v))"

section \<open>URLs\<close>

text \<open>The parts of \<^verbatim>\<open>urlsplit\<close> after the network location.\<close>

record split_result =
  su_scheme :: string
  su_netloc :: string
  su_path :: string
  su_query :: string
  su_fragment :: string

definition split_url :: "form_env \<Rightarrow> string \<Rightarrow> split_result res" where
  "split_url F url =
     bindr (urlsplit (fe_bracketed F) url) (\<lambda>(scheme, netloc).
       let u = url_clean url;
           rest = (if scheme \<noteq> [] then after (CHR '':'') u else u);
           tail = (if prefix ''//'' rest then drop (2 + length netloc) rest else rest);
           no_fragment = before (CHR ''#'') tail
       in Inr \<lparr>su_scheme = scheme, su_netloc = netloc, su_path = before (CHR ''?'') no_fragment,
               su_query = after (CHR ''?'') no_fragment, su_fragment = after (CHR ''#'') tail\<rparr>)"

definition https :: "form_env \<Rightarrow> string \<Rightarrow> string \<Rightarrow> string res" where
  "https F value field =
     bindr (split_url F value) (\<lambda>parts.
       if su_scheme parts \<noteq> ''https'' \<or> hostname (su_netloc parts) = None
       then Inl (FormError (field @ '' must be an https:// URL with a host''))
       else if su_query parts \<noteq> [] \<or> su_fragment parts \<noteq> []
       then Inl (FormError (field @ '' must not carry a query string or fragment''))
       else Inr (rstrip_char (CHR ''/'') value))"

section \<open>Patterns\<close>

definition project_char :: "char \<Rightarrow> bool" where
  "project_char c \<longleftrightarrow> is_alnum c \<or> c \<in> {CHR ''.'', CHR ''_'', CHR ''-''}"

definition PROJECT :: "string \<Rightarrow> bool" where
  "PROJECT s \<longleftrightarrow> (let segments = split_on (CHR ''/'') s in
     2 \<le> length segments \<and> length segments \<le> 5 \<and> list_all (\<lambda>g. g \<noteq> [] \<and> list_all project_char g) segments)"

definition no_traversal :: "string \<Rightarrow> bool" where
  "no_traversal p \<longleftrightarrow> list_all (\<lambda>g. g \<notin> {''.'', ''..''}) (split_on (CHR ''/'') p)"

definition asset_char :: "char \<Rightarrow> bool" where
  "asset_char c \<longleftrightarrow> is_alnum c \<or> c \<in> {CHR ''.'', CHR ''_'', CHR ''+'', CHR ''{'', CHR ''}'', CHR ''-''}"

fun ASSET :: "string \<Rightarrow> bool" where
  "ASSET [] = False"
| "ASSET (c # cs) \<longleftrightarrow> is_alnum c \<and> length cs \<le> 127 \<and> list_all asset_char cs"

text \<open>\<open>_ASSET_PLACEHOLDER.findall\<close>: what stands between a brace and the next one, if that closes.\<close>

function placeholders :: "string \<Rightarrow> string list" where
  "placeholders [] = []"
| "placeholders (c # cs) =
     (if c \<noteq> CHR ''{'' then placeholders cs
      else (case dropWhile (\<lambda>x. x \<notin> {CHR ''{'', CHR ''}''}) cs of
          [] \<Rightarrow> placeholders cs
        | d # rest \<Rightarrow> if d = CHR ''}'' then takeWhile (\<lambda>x. x \<notin> {CHR ''{'', CHR ''}''}) cs # placeholders rest
            else placeholders cs))"
  by pat_completeness auto
termination
proof (relation "measure length")
  fix c :: char and cs d rest
  assume d: "dropWhile (\<lambda>x. x \<notin> {CHR ''{'', CHR ''}''}) cs = d # rest"
  have "length (d # rest) \<le> length cs" using length_dropWhile_le [of _ cs] by (metis d)
  then show "(rest, c # cs) \<in> measure length" by simp
qed auto

definition TAG_PREFIX :: "string \<Rightarrow> bool" where
  "TAG_PREFIX s \<longleftrightarrow> length s \<le> 16 \<and> list_all project_char s"

fun SLUG :: "string \<Rightarrow> bool" where
  "SLUG [] = False"
| "SLUG (c # cs) \<longleftrightarrow> app_id_char c \<and> length cs \<le> 31 \<and> list_all (\<lambda>x. app_id_char x \<or> x = CHR ''-'') cs"

definition MAX_ASSET_BYTES_CEILING :: int where "MAX_ASSET_BYTES_CEILING = 8 * 1024 * 1024 * 1024"

fun DEFAULT_API_BASE :: "forge \<Rightarrow> string" where
  "DEFAULT_API_BASE GITHUB = ''https://api.github.com''"
| "DEFAULT_API_BASE GITLAB = ''https://gitlab.com''"

definition DEFAULT_OIDC_ISSUER :: string where "DEFAULT_OIDC_ISSUER = ''https://token.actions.githubusercontent.com''"

definition DEFAULT_WORKFLOW_PATH :: string where "DEFAULT_WORKFLOW_PATH = ''.github/workflows/release.yml''"

definition derived_workflow_uri :: "string \<Rightarrow> string" where
  "derived_workflow_uri project_url = project_url @ ''/'' @ DEFAULT_WORKFLOW_PATH"

definition forge_of :: "string \<Rightarrow> forge option" where
  "forge_of raw = (if raw = ''github'' then Some GITHUB else if raw = ''gitlab'' then Some GITLAB else None)"

section \<open>Suggestions\<close>

text \<open>\<open>re.sub(r"[^a-z0-9]+", "-", s)\<close>\<close>

fun collapse :: "string \<Rightarrow> string" where
  "collapse [] = []"
| "collapse [c] = (if app_id_char c then [c] else ''-'')"
| "collapse (c # d # cs) =
     (if app_id_char c then c # collapse (d # cs)
      else if app_id_char d then CHR ''-'' # collapse (d # cs) else collapse (d # cs))"

definition suggest_app_id :: "string \<Rightarrow> string option" where
  "suggest_app_id typed =
     (let candidate = strip_char (CHR ''-'') (collapse (lower (strip typed))) in
      if candidate = typed \<or> \<not> APP_ID_PATTERN candidate then None else Some candidate)"

definition suggest_project :: "form_env \<Rightarrow> string \<Rightarrow> string option res" where
  "suggest_project F typed =
     bindr (split_url F typed) (\<lambda>parts.
       if su_scheme parts = [] \<or> hostname (su_netloc parts) = None then Inr None
       else let candidate = removesuffix ''.git'' (strip_char (CHR ''/'') (su_path parts)) in
         if candidate = [] \<or> \<not> PROJECT candidate \<or> \<not> no_traversal candidate then Inr None
         else Inr (Some candidate))"

definition did_you_mean :: "string option \<Rightarrow> string" where
  "did_you_mean suggestion = (case suggestion of None \<Rightarrow> [] | Some s \<Rightarrow> '' - did you mean '' @ s)"

section \<open>Registration\<close>

definition project_url_of :: "form_env \<Rightarrow> forge \<Rightarrow> string \<Rightarrow> string \<Rightarrow> string res" where
  "project_url_of F forge api_base project =
     (if forge = GITHUB then
        bindr (if api_base = DEFAULT_API_BASE GITHUB then Inr ''github.com''
               else bindr (split_url F api_base) (\<lambda>parts.
                 Inr (case hostname (su_netloc parts) of None \<Rightarrow> ''None'' | Some h \<Rightarrow> h)))
          (\<lambda>host. Inr (''https://'' @ host @ ''/'' @ project))
      else Inr (api_base @ ''/'' @ project))"

definition or_else :: "string \<Rightarrow> string \<Rightarrow> string" where
  "or_else v fallback = (if v = [] then fallback else v)"

definition github_fields :: "form_env \<Rightarrow> form \<Rightarrow> string \<Rightarrow> source \<Rightarrow> source res" where
  "github_fields F data project_url s =
     bindr (form_text data ''workflow_uri'' []) (\<lambda>submitted.
     bindr (https F (or_else submitted (derived_workflow_uri project_url)) ''Release workflow URI'') (\<lambda>workflow_uri.
     if CHR ''@'' \<in> set workflow_uri then Inl (FormError ''give the workflow without a ref'')
     else bindr (form_text data ''oidc_issuer'' []) (\<lambda>issuer.
       bindr (https F (or_else issuer DEFAULT_OIDC_ISSUER) ''OIDC issuer'') (\<lambda>oidc_issuer.
       bindr (form_text data ''runner_environment'' []) (\<lambda>runner.
       Inr (s\<lparr>so_workflow_uri := Some workflow_uri, so_oidc_issuer := Some oidc_issuer,
              so_runner_environment := or_else runner ''github-hosted''\<rparr>))))))"

definition gitlab_fields :: "form_env \<Rightarrow> form \<Rightarrow> source \<Rightarrow> source res" where
  "gitlab_fields F data s =
     bindr (form_text data ''builder_public_key_pem'' []) (\<lambda>typed.
     bindr (require typed ''Builder public key'') (\<lambda>pem.
     if \<not> fe_pem F (utf8_encode pem) then Inl (FormError ''builder public key is not a usable PEM public key'')
     else bindr (form_text data ''builder_id'' []) (\<lambda>bi.
       bindr (require bi ''Builder id'') (\<lambda>builder_id.
       bindr (form_text data ''builder_keyid'' []) (\<lambda>bk.
       bindr (require bk ''Builder key id'') (\<lambda>builder_keyid.
       bindr (form_text data ''attestation_asset'' []) (\<lambda>asset.
       Inr (s\<lparr>so_builder_id := Some builder_id, so_builder_keyid := Some builder_keyid,
              so_builder_public_key_pem := Some pem,
              so_attestation_asset := or_else asset ''provenance.intoto.jsonl''\<rparr>))))))))"

text \<open>The checks of the asset name, the tag prefix, the ref prefix and the cap, which registration and
  edit share.\<close>

definition asset_field :: "form \<Rightarrow> string res" where
  "asset_field data =
     bindr (form_text data ''asset_name'' []) (\<lambda>typed.
     bindr (require typed ''Installer asset'') (\<lambda>asset_name.
     if \<not> ASSET asset_name then Inl (FormError ''installer asset must be a bare filename with no path separators'')
     else if list_ex (\<lambda>found. found \<noteq> ''version'') (placeholders asset_name)
     then Inl (FormError ''unknown placeholder in the installer asset; only {version} is substituted'')
     else if length (filter (\<lambda>c. c = CHR ''{'') asset_name) \<noteq> length (filter (\<lambda>c. c = CHR ''}'') asset_name)
     then Inl (FormError ''unbalanced braces in the installer asset name'')
     else Inr asset_name))"

definition tag_prefix_field :: "form \<Rightarrow> string \<Rightarrow> string res" where
  "tag_prefix_field data fallback =
     bindr (form_text data ''tag_prefix'' fallback) (\<lambda>tag_prefix.
     if \<not> TAG_PREFIX tag_prefix
     then Inl (FormError ''tag prefix may only contain letters, digits, dot, dash and underscore'')
     else Inr tag_prefix)"

definition ref_prefix_field :: "form \<Rightarrow> string \<Rightarrow> string res" where
  "ref_prefix_field data fallback =
     bindr (form_text data ''require_tag_ref_prefix'' []) (\<lambda>typed.
     let ref_prefix = or_else typed fallback in
     if \<not> prefix ''refs/'' ref_prefix then Inl (FormError ''the required ref prefix must start with refs/'')
     else Inr ref_prefix)"

definition cap_field :: "form \<Rightarrow> int \<Rightarrow> int res" where
  "cap_field data fallback =
     bindr (positive_int data ''max_asset_bytes'' fallback) (\<lambda>cap.
     if MAX_ASSET_BYTES_CEILING < cap then Inl (FormError ''the asset cap may not exceed the ceiling'')
     else Inr cap)"

definition project_field :: "form_env \<Rightarrow> form \<Rightarrow> string res" where
  "project_field F data =
     bindr (form_text data ''project'' []) (\<lambda>typed.
     bindr (require typed ''Project'') (\<lambda>project.
     if \<not> PROJECT project \<or> \<not> no_traversal project
     then bindr (suggest_project F project) (\<lambda>suggestion.
       Inl (FormError (''project must look like owner/repo, with no scheme and no ..'' @ did_you_mean suggestion)))
     else Inr project))"

text \<open>The dictionary \<open>common\<close>, with the defaults of the dataclass for everything else.\<close>

definition common_fields ::
  "nat \<Rightarrow> string \<Rightarrow> forge \<Rightarrow> string \<Rightarrow> string \<Rightarrow> string \<Rightarrow> bool \<Rightarrow> string \<Rightarrow> string \<Rightarrow> string \<Rightarrow> int \<Rightarrow> string \<Rightarrow> source" where
  "common_fields uuid app_id forge project api_base project_url critical asset_name tag_prefix ref_prefix max_asset_bytes actor =
     \<lparr>so_id = uuid, so_app_id = app_id, so_forge = forge, so_project = project, so_api_base = api_base,
      so_project_url = project_url, so_status = DRAFT, so_critical = critical, so_asset_name = asset_name,
      so_tag_prefix = tag_prefix, so_require_tag_ref_prefix = ref_prefix, so_max_asset_bytes = max_asset_bytes,
      so_channel = ''stable'', so_platform = ''windows'', so_arch = ''amd64'', so_workflow_uri = None,
      so_oidc_issuer = None, so_repository_id = None, so_repository_owner_id = None,
      so_runner_environment = ''github-hosted'', so_builder_id = None, so_builder_keyid = None,
      so_builder_public_key_pem = None, so_attestation_asset = ''provenance.intoto.jsonl'', so_created_at = 0,
      so_updated_at = 0, so_created_by = actor, so_last_error = None\<rparr>"

definition source_from_form :: "form_env \<Rightarrow> nat \<Rightarrow> form \<Rightarrow> string \<Rightarrow> source res" where
  "source_from_form F uuid data actor =
     bindr (form_text data ''app_id'' []) (\<lambda>typed.
     bindr (require typed ''Application id'') (\<lambda>app_id.
     if \<not> APP_ID_PATTERN app_id
     then Inl (FormError (''application id must be lower case letters, digits and hyphens, 2 to 63 characters''
       @ did_you_mean (suggest_app_id app_id)))
     else bindr (form_text data ''forge'' []) (\<lambda>chosen.
     bindr (require chosen ''Forge'') (\<lambda>raw_forge.
     case forge_of raw_forge of
       None \<Rightarrow> Inl (FormError ''unknown forge'')
     | Some forge \<Rightarrow>
     bindr (project_field F data) (\<lambda>project.
     bindr (form_text data ''api_base'' []) (\<lambda>base.
     bindr (https F (or_else base (DEFAULT_API_BASE forge)) ''API base'') (\<lambda>api_base.
     bindr (asset_field data) (\<lambda>asset_name.
     bindr (tag_prefix_field data ''v'') (\<lambda>tag_prefix.
     bindr (ref_prefix_field data ''refs/tags/'') (\<lambda>ref_prefix.
     bindr (cap_field data (2 * 1024 * 1024 * 1024)) (\<lambda>max_asset_bytes.
     bindr (project_url_of F forge api_base project) (\<lambda>project_url.
     bindr (checkbox data ''critical'') (\<lambda>critical.
     let common = common_fields uuid app_id forge project api_base project_url critical asset_name tag_prefix ref_prefix
           max_asset_bytes actor in
     if forge = GITHUB then github_fields F data project_url common
     else gitlab_fields F data common)))))))))))))"

section \<open>Editing\<close>

definition EDITABLE_FIELDS :: "string set" where
  "EDITABLE_FIELDS = {''asset_name'', ''tag_prefix'', ''require_tag_ref_prefix'', ''max_asset_bytes'',
     ''critical'', ''channel'', ''platform'', ''arch''}"

definition slug_field :: "form \<Rightarrow> string \<Rightarrow> string \<Rightarrow> string \<Rightarrow> string res" where
  "slug_field data key fallback field =
     bindr (form_text data key []) (\<lambda>typed.
     let value = or_else typed fallback in
     if \<not> SLUG value then Inl (FormError (field @ '' must be lower case letters, digits and hyphens'')) else Inr value)"

text \<open>Only what differs from the stored value.\<close>

definition changed :: "(bool \<times> string \<times> column_value) list \<Rightarrow> (string \<times> column_value) list" where
  "changed proposed = map snd (filter fst proposed)"

definition source_edit_from_form :: "form \<Rightarrow> source \<Rightarrow> (string \<times> column_value) list res" where
  "source_edit_from_form data existing =
     bindr (asset_field data) (\<lambda>asset_name.
     bindr (tag_prefix_field data (so_tag_prefix existing)) (\<lambda>tag_prefix.
     bindr (ref_prefix_field data (so_require_tag_ref_prefix existing)) (\<lambda>ref_prefix.
     bindr (cap_field data (so_max_asset_bytes existing)) (\<lambda>max_asset_bytes.
     bindr (checkbox data ''critical'') (\<lambda>critical.
     bindr (slug_field data ''channel'' (so_channel existing) ''Channel'') (\<lambda>channel.
     bindr (slug_field data ''platform'' (so_platform existing) ''Platform'') (\<lambda>platform.
     bindr (slug_field data ''arch'' (so_arch existing) ''Architecture'') (\<lambda>arch.
     Inr (changed
       [(so_asset_name existing \<noteq> asset_name, (''asset_name'', CText asset_name)),
        (so_tag_prefix existing \<noteq> tag_prefix, (''tag_prefix'', CText tag_prefix)),
        (so_require_tag_ref_prefix existing \<noteq> ref_prefix, (''require_tag_ref_prefix'', CText ref_prefix)),
        (so_max_asset_bytes existing \<noteq> max_asset_bytes, (''max_asset_bytes'', CInt max_asset_bytes)),
        (so_critical existing \<noteq> critical, (''critical'', CBool critical)),
        (so_channel existing \<noteq> channel, (''channel'', CText channel)),
        (so_platform existing \<noteq> platform, (''platform'', CText platform)),
        (so_arch existing \<noteq> arch, (''arch'', CText arch))])))))))))"

end
