(* ===== verification/FormsProps.thy ===== *)
theory FormsProps
  imports Forms
begin

text \<open>
  What a form that was accepted guarantees to the rest of the system: the store takes it, the worker
  can build its clients and its policy from it, its requests stay on the host that was typed; and
  an edit reaches handling settings only.
\<close>

section \<open>Typed text\<close>

lemma strip_hd: "strip s \<noteq> [] \<Longrightarrow> \<not> is_space (hd (strip s))"
proof -
  let ?t = "dropWhile is_space s"
  assume e: "strip s \<noteq> []"
  have "rev ?t = takeWhile is_space (rev ?t) @ dropWhile is_space (rev ?t)" by simp
  then have d: "?t = strip s @ rev (takeWhile is_space (rev ?t))" unfolding strip_def by (metis rev_append rev_rev_ident)
  with e have "?t \<noteq> []" by (metis Nil_is_append_conv)
  moreover have "hd ?t = hd (strip s)" using d e by (metis hd_append2)
  ultimately show ?thesis using hd_dropWhile [of is_space s] by (metis)
qed

lemma strip_last: "strip s \<noteq> [] \<Longrightarrow> \<not> is_space (last (strip s))"
  unfolding strip_def by (metis (no_types, lifting) hd_dropWhile last_rev rev_is_Nil_conv)

lemma form_text_stripped: "form_text data key d = Inr v \<Longrightarrow> v \<noteq> [] \<Longrightarrow> \<not> is_space (hd v) \<and> \<not> is_space (last v)"
proof -
  assume v: "form_text data key d = Inr v" "v \<noteq> []"
  obtain s where "v = strip s" using v(1) by (auto simp: form_text_def split: option.splits form_value.splits)
  with v(2) show ?thesis using strip_hd strip_last by metis
qed

lemma require_eq [simp]: "require v f = Inr w \<longleftrightarrow> w = v \<and> v \<noteq> []"
  by (auto simp: require_def)

lemma typed_app_id: "APP_ID_PATTERN a \<Longrightarrow> \<not> is_space (last a) \<Longrightarrow> app_id_body a"
  unfolding APP_ID_PATTERN_def by (erule match_dollarE) (auto simp: is_space_def newline_def code_def)

section \<open>URLs\<close>

lemma rstrip_char_decomp: "\<exists>n. s = rstrip_char c s @ replicate n c"
proof -
  have "rev s = takeWhile (\<lambda>x. x = c) (rev s) @ dropWhile (\<lambda>x. x = c) (rev s)" by simp
  then have "s = rstrip_char c s @ rev (takeWhile (\<lambda>x. x = c) (rev s))"
    unfolding rstrip_char_def by (metis rev_append rev_rev_ident)
  moreover have "takeWhile (\<lambda>x. x = c) (rev s) = replicate (length (takeWhile (\<lambda>x. x = c) (rev s))) c"
    by (rule replicate_eqI) (auto dest: set_takeWhileD)
  ultimately show ?thesis by (metis rev_replicate)
qed

lemma rstrip_char_idem [simp]: "rstrip_char c (rstrip_char c s) = rstrip_char c s"
  by (simp add: rstrip_char_def)

lemma url_clean_slashes:
  "url_clean (s @ replicate n (CHR ''/'')) = url_clean s @ replicate n (CHR ''/'')"
proof -
  have f: "filter (\<lambda>c. code c \<notin> {9, 10, 13}) (replicate n (CHR ''/'')) = replicate n (CHR ''/'')"
    by (induction n) (auto simp: code_def)
  have "dropWhile (\<lambda>c. code c \<le> 32) (replicate n (CHR ''/'')) = replicate n (CHR ''/'')"
    by (cases n) (auto simp: code_def)
  moreover define d where "d = dropWhile (\<lambda>c. code c \<le> 32) s"
  moreover have "dropWhile P (s @ r) = (if dropWhile P s = [] then dropWhile P r else dropWhile P s @ r)" for P and r :: string
    by (induction s) auto
  ultimately have "dropWhile (\<lambda>c. code c \<le> 32) (s @ replicate n (CHR ''/'')) = d @ replicate n (CHR ''/'')"
    by (metis append_Nil)
  with f show ?thesis unfolding url_clean_def d_def by simp
qed

text \<open>Slashes at the end change neither the scheme nor the network location.\<close>

lemma urlsplit_slashes:
  assumes "urlsplit B (s @ replicate n (CHR ''/'')) = Inr (''https'', netloc)" "netloc \<noteq> []"
  shows "urlsplit B s = Inr (''https'', netloc)"
proof -
  define c where "c = url_clean s"
  have u: "url_clean (s @ replicate n (CHR ''/'')) = c @ replicate n (CHR ''/'')" by (simp add: url_clean_slashes c_def)
  have colon: "CHR '':'' \<in> set c"
    using assms(1) by (auto simp: urlsplit_def u Let_def split: if_splits)
  have b: "before (CHR '':'') (c @ r) = before (CHR '':'') c" "after (CHR '':'') (c @ r) = after (CHR '':'') c @ r" for r
  proof -
    obtain x y where c: "c = x @ CHR '':'' # y" "CHR '':'' \<notin> set x" using split_list_first [OF colon] by blast
    show "before (CHR '':'') (c @ r) = before (CHR '':'') c" "after (CHR '':'') (c @ r) = after (CHR '':'') c @ r"
      using c(2) by (auto simp: c(1) before_def after_def takeWhile_append dropWhile_append)
  qed
  let ?rest = "after (CHR '':'') c" and ?p = "\<lambda>c. c \<notin> {CHR ''/'', CHR ''?'', CHR ''#''}"
  have h: "c \<noteq> []" "hd (c @ r) = hd c" for r using colon by (cases c; simp)+
  have tw: "takeWhile ?p (xs @ replicate n (CHR ''/'')) = takeWhile ?p xs" for xs
    by (cases n) (simp_all add: takeWhile_tail)
  have nl: "prefix ''//'' (?rest @ replicate n (CHR ''/''))" "netloc = takeWhile ?p (drop 2 (?rest @ replicate n (CHR ''/'')))"
    using assms by (auto simp: urlsplit_def u b h Let_def split: if_splits)
  have "2 \<le> length ?rest"
  proof (rule ccontr)
    assume "\<not> 2 \<le> length ?rest"
    then have "drop 2 (?rest @ replicate n (CHR ''/'')) = replicate (n - (2 - length ?rest)) (CHR ''/'')" by simp
    then have "netloc = []" using nl(2) by (cases "n - (2 - length ?rest)") auto
    with assms(2) show False by simp
  qed
  then obtain x y z where r: "?rest = x # y # z" by (cases ?rest; cases "tl ?rest") auto
  have "prefix ''//'' ?rest" "netloc = takeWhile ?p (drop 2 ?rest)" using nl tw by (auto simp: r)
  moreover have "before (CHR '':'') c \<noteq> []" "is_lower (hd c) \<or> is_upper (hd c)" "list_all scheme_char (before (CHR '':'') c)"
    "lower (before (CHR '':'') c) = ''https''" "(CHR ''['' \<in> set netloc) = (CHR '']'' \<in> set netloc)"
    "\<not> (CHR ''['' \<in> set netloc \<and> \<not> B netloc)"
    using assms(1) colon nl(1) by (auto simp: urlsplit_def u b h Let_def nl(2) [symmetric] split: if_splits)
  ultimately show ?thesis using colon
    by (simp only: urlsplit_def Let_def c_def [symmetric] if_True if_False HOL.simp_thms)
qed

lemma https_Inr:
  assumes "https F v field = Inr r" "nt_bracketed N = fe_bracketed F"
  shows "\<exists>h. host_of N r = Inr h" "rstrip_char (CHR ''/'') r = r"
proof -
  obtain netloc h where u: "urlsplit (fe_bracketed F) v = Inr (''https'', netloc)" "hostname netloc = Some h" "r = rstrip_char (CHR ''/'') v"
    using assms(1) by (auto simp: https_def split_url_def bindr_eq_Inr_iff Let_def split: if_splits)
  then show "rstrip_char (CHR ''/'') r = r" by simp
  obtain n where v: "v = r @ replicate n (CHR ''/'')" using rstrip_char_decomp [of v "CHR ''/''"] u(3) by blast
  have "netloc \<noteq> []" using u(2) by auto
  with u(1) have "urlsplit (fe_bracketed F) r = Inr (''https'', netloc)" unfolding v by (rule urlsplit_slashes)
  then show "\<exists>h. host_of N r = Inr h" using u(2) assms(2) by (simp add: host_of_def)
qed

section \<open>An accepted form\<close>

lemma project_field_Inr: "project_field F data = Inr p \<longleftrightarrow> form_text data ''project'' [] = Inr p \<and> p \<noteq> [] \<and> PROJECT p \<and> no_traversal p"
  by (auto simp: project_field_def bindr_eq_Inr_iff split: if_splits)

lemma asset_field_Inr:
  "asset_field data = Inr a \<longleftrightarrow> form_text data ''asset_name'' [] = Inr a \<and> ASSET a \<and> set (placeholders a) \<subseteq> {''version''}
     \<and> length (filter (\<lambda>c. c = CHR ''{'') a) = length (filter (\<lambda>c. c = CHR ''}'') a)"
  by (auto simp: asset_field_def bindr_eq_Inr_iff list_ex_iff)

lemma cap_field_Inr: "cap_field data d = Inr c \<Longrightarrow> 0 < d \<Longrightarrow> 0 < c \<and> c \<le> MAX_ASSET_BYTES_CEILING"
  by (auto simp: cap_field_def positive_int_def bindr_eq_Inr_iff split: if_splits option.splits)

text \<open>The pins of the forge.\<close>

definition pinned :: "source \<Rightarrow> bool" where
  "pinned s \<longleftrightarrow> (case so_forge s of
     GITHUB \<Rightarrow> given (so_workflow_uri s) \<and> given (so_oidc_issuer s)
   | GITLAB \<Rightarrow> given (so_builder_id s) \<and> given (so_builder_keyid s) \<and> given (so_builder_public_key_pem s))"

lemma https_ne: "https F v field = Inr r \<Longrightarrow> r \<noteq> []"
proof
  assume h: "https F v field = Inr r" and "r = []"
  let ?N = "\<lparr>nt_get = \<lambda>_ _. Inl HTTPError, nt_join = \<lambda>_ u. Inr u, nt_xml = \<lambda>_. Inr [], nt_bracketed = fe_bracketed F, nt_float = \<lambda>_. []\<rparr>"
  have "\<exists>h. host_of ?N r = Inr h" by (rule https_Inr(1) [OF h]) simp
  with \<open>r = []\<close> show False by (auto simp: host_of_def urlsplit_def url_clean_def before_def)
qed

definition same_common :: "source \<Rightarrow> source \<Rightarrow> bool" where
  "same_common c s \<longleftrightarrow> (so_id s, so_app_id s, so_forge s, so_project s, so_api_base s, so_project_url s, so_status s) =
     (so_id c, so_app_id c, so_forge c, so_project c, so_api_base c, so_project_url c, so_status c)
   \<and> (so_asset_name s, so_tag_prefix s, so_require_tag_ref_prefix s, so_max_asset_bytes s, so_channel s, so_platform s, so_arch s) =
     (so_asset_name c, so_tag_prefix c, so_require_tag_ref_prefix c, so_max_asset_bytes c, so_channel c, so_platform c, so_arch c)
   \<and> (so_repository_id s, so_repository_owner_id s, so_created_by s, so_critical s) =
     (so_repository_id c, so_repository_owner_id c, so_created_by c, so_critical c)"

lemma github_fields_Inr:
  "github_fields F data url c = Inr s \<Longrightarrow> same_common c s \<and> given (so_workflow_uri s) \<and> given (so_oidc_issuer s)
     \<and> (\<forall>w. so_workflow_uri s = Some w \<longrightarrow> CHR ''@'' \<notin> set w)"
  by (auto simp: github_fields_def bindr_eq_Inr_iff given_def same_common_def dest!: https_ne split: if_splits)

lemma gitlab_fields_Inr:
  "gitlab_fields F data c = Inr s \<Longrightarrow> same_common c s \<and> given (so_builder_id s) \<and> given (so_builder_keyid s)
     \<and> given (so_builder_public_key_pem s)"
  by (auto simp: gitlab_fields_def bindr_eq_Inr_iff given_def same_common_def split: if_splits)

lemma source_from_form_Inr:
  assumes "source_from_form F uuid data actor = Inr s"
  shows "app_id_body (so_app_id s)" "so_id s = uuid" "so_status s = DRAFT" "so_created_by s = actor"
    "so_repository_id s = None" "so_repository_owner_id s = None" "so_channel s = ''stable''"
    "PROJECT (so_project s)" "no_traversal (so_project s)" "\<exists>v. https F v ''API base'' = Inr (so_api_base s)"
    "ASSET (so_asset_name s)" "set (placeholders (so_asset_name s)) \<subseteq> {''version''}" "prefix ''refs/'' (so_require_tag_ref_prefix s)"
    "0 < so_max_asset_bytes s" "so_max_asset_bytes s \<le> MAX_ASSET_BYTES_CEILING" "pinned s"
proof -
  obtain app_id forge project base api_base asset_name tag_prefix ref_prefix cap url critical where
    a: "form_text data ''app_id'' [] = Inr app_id" "app_id \<noteq> []" "APP_ID_PATTERN app_id"
    and f: "project_field F data = Inr project" "https F base ''API base'' = Inr api_base" "asset_field data = Inr asset_name"
      "tag_prefix_field data ''v'' = Inr tag_prefix" "ref_prefix_field data ''refs/tags/'' = Inr ref_prefix"
      "cap_field data (2 * 1024 * 1024 * 1024) = Inr cap"
    and s: "if forge = GITHUB then github_fields F data url (common_fields uuid app_id forge project api_base url critical asset_name
          tag_prefix ref_prefix cap actor) = Inr s
        else gitlab_fields F data (common_fields uuid app_id forge project api_base url critical asset_name
          tag_prefix ref_prefix cap actor) = Inr s"
  proof -
    obtain app_id forge where a: "form_text data ''app_id'' [] = Inr app_id" "app_id \<noteq> []" "APP_ID_PATTERN app_id"
      and r: "bindr (project_field F data) (\<lambda>project.
     bindr (form_text data ''api_base'' []) (\<lambda>base.
     bindr (https F (or_else base (DEFAULT_API_BASE forge)) ''API base'') (\<lambda>api_base.
     bindr (asset_field data) (\<lambda>asset_name.
     bindr (tag_prefix_field data ''v'') (\<lambda>tag_prefix.
     bindr (ref_prefix_field data ''refs/tags/'') (\<lambda>ref_prefix.
     bindr (cap_field data (2 * 1024 * 1024 * 1024)) (\<lambda>max_asset_bytes.
     bindr (project_url_of F forge api_base project) (\<lambda>project_url.
     bindr (checkbox data ''critical'') (\<lambda>critical.
     let common = common_fields uuid app_id forge project api_base project_url critical asset_name tag_prefix ref_prefix
           max_asset_bytes actor in
     if forge = GITHUB then github_fields F data project_url common
     else gitlab_fields F data common))))))))) = Inr s"
      using assms by (simp only: source_from_form_def bindr_eq_Inr_iff [of "form_text _ _ _"] bindr_eq_Inr_iff [of "require _ _"]
          require_eq if_Inl_eq_Inr not_not) (auto split: option.splits)
    from r show thesis by (elim bindr_InrE, unfold Let_def if_distrib [of "\<lambda>x. x = Inr s"]) (rule that [OF a])
  qed
  define c where "c = common_fields uuid app_id forge project api_base url critical asset_name tag_prefix ref_prefix cap actor"
  have c: "so_id c = uuid" "so_app_id c = app_id" "so_forge c = forge" "so_project c = project" "so_api_base c = api_base"
      "so_status c = DRAFT" "so_asset_name c = asset_name" "so_require_tag_ref_prefix c = ref_prefix" "so_max_asset_bytes c = cap"
      "so_channel c = ''stable''" "so_repository_id c = None" "so_repository_owner_id c = None" "so_created_by c = actor"
    by (simp_all add: c_def common_fields_def)
  have e: "same_common c s" "pinned s"
    using s [folded c_def] github_fields_Inr [of F data url c s] gitlab_fields_Inr [of F data c s] c(3)
    by (cases forge; auto simp: pinned_def same_common_def)+
  show "app_id_body (so_app_id s)" using a e c form_text_stripped [OF a(1,2)] by (auto simp: same_common_def typed_app_id)
  show "so_id s = uuid" "so_status s = DRAFT" "so_created_by s = actor" "so_repository_id s = None" "so_repository_owner_id s = None"
    "so_channel s = ''stable''" using e(1) c by (simp_all add: same_common_def)
  show "PROJECT (so_project s)" "no_traversal (so_project s)" using e(1) c f(1) by (simp_all add: same_common_def project_field_Inr)
  show "\<exists>v. https F v ''API base'' = Inr (so_api_base s)" using e(1) c f(2) by (auto simp: same_common_def)
  show "ASSET (so_asset_name s)" "set (placeholders (so_asset_name s)) \<subseteq> {''version''}"
    using e(1) c f(3) by (simp_all add: same_common_def asset_field_Inr)
  show "prefix ''refs/'' (so_require_tag_ref_prefix s)"
    using e(1) c f(5) by (auto simp: same_common_def ref_prefix_field_def bindr_eq_Inr_iff Let_def split: if_splits)
  show "0 < so_max_asset_bytes s" "so_max_asset_bytes s \<le> MAX_ASSET_BYTES_CEILING"
    using e(1) c cap_field_Inr [OF f(6)] by (simp_all add: same_common_def)
  show "pinned s" by (rule e(2))
qed

end
