(* ===== verification/FormsClaims.thy ===== *)
theory FormsClaims
  imports FormsProps StoreClaims
begin

text \<open>
  The properties of the operator's forms, from the form to the registry and to the requests the
  worker makes for what was registered.
\<close>

section \<open>Editing\<close>

lemma strip_idem [simp]: "strip (strip s) = strip s"
proof (cases "strip s = []")
  case False
  have hd: "dropWhile is_space t = t" if "t \<noteq> []" "\<not> is_space (hd t)" for t using that by (cases t) auto
  have "dropWhile is_space (strip s) = strip s" using False strip_hd hd by blast
  moreover have "dropWhile is_space (rev (strip s)) = rev (strip s)"
    using False strip_last [OF False] hd [of "rev (strip s)"] by (simp add: hd_rev)
  ultimately show ?thesis unfolding strip_def [of "strip s"] by simp
next
  case True
  have "strip [] = []" by (simp add: strip_def)
  with True show ?thesis by metis
qed

lemma form_text_idem: "form_text data key d = Inr v \<Longrightarrow> form_text data key v = Inr v"
  by (auto simp: form_text_def split: option.splits form_value.splits)

text \<open>The columns of the edit form, with what an edit makes of a row.\<close>

definition edited :: "string \<Rightarrow> string \<Rightarrow> string \<Rightarrow> int \<Rightarrow> bool \<Rightarrow> string \<Rightarrow> string \<Rightarrow> string \<Rightarrow> source \<Rightarrow> source" where
  "edited a t r m c ch p ar s = s\<lparr>so_asset_name := a, so_tag_prefix := t, so_require_tag_ref_prefix := r,
     so_max_asset_bytes := m, so_critical := c, so_channel := ch, so_platform := p, so_arch := ar\<rparr>"

lemma changed_Cons:
  "changed ((b, c) # xs) = (if b then c # changed xs else changed xs)" "changed [] = []"
  by (simp_all add: changed_def)

lemma assign_changed:
  "so_asset_name s = x \<Longrightarrow> assign_all (changed ((x \<noteq> a, (''asset_name'', CText a)) # xs)) s = assign_all (changed xs) (s\<lparr>so_asset_name := a\<rparr>)"
  "so_tag_prefix s = x \<Longrightarrow> assign_all (changed ((x \<noteq> a, (''tag_prefix'', CText a)) # xs)) s = assign_all (changed xs) (s\<lparr>so_tag_prefix := a\<rparr>)"
  "so_require_tag_ref_prefix s = x \<Longrightarrow>
    assign_all (changed ((x \<noteq> a, (''require_tag_ref_prefix'', CText a)) # xs)) s = assign_all (changed xs) (s\<lparr>so_require_tag_ref_prefix := a\<rparr>)"
  "so_channel s = x \<Longrightarrow> assign_all (changed ((x \<noteq> a, (''channel'', CText a)) # xs)) s = assign_all (changed xs) (s\<lparr>so_channel := a\<rparr>)"
  "so_platform s = x \<Longrightarrow> assign_all (changed ((x \<noteq> a, (''platform'', CText a)) # xs)) s = assign_all (changed xs) (s\<lparr>so_platform := a\<rparr>)"
  "so_arch s = x \<Longrightarrow> assign_all (changed ((x \<noteq> a, (''arch'', CText a)) # xs)) s = assign_all (changed xs) (s\<lparr>so_arch := a\<rparr>)"
  "so_max_asset_bytes s = y \<Longrightarrow> assign_all (changed ((y \<noteq> i, (''max_asset_bytes'', CInt i)) # xs)) s = assign_all (changed xs) (s\<lparr>so_max_asset_bytes := i\<rparr>)"
  "so_critical s = z \<Longrightarrow> assign_all (changed ((z = (\<not> b), (''critical'', CBool b)) # xs)) s = assign_all (changed xs) (s\<lparr>so_critical := b\<rparr>)"
  by (cases s; auto simp: changed_Cons assign_def)+

lemma source_edit_InrE:
  assumes "source_edit_from_form data s = Inr cols"
  obtains a t r m c ch p ar where
    "asset_field data = Inr a" "tag_prefix_field data (so_tag_prefix s) = Inr t"
    "ref_prefix_field data (so_require_tag_ref_prefix s) = Inr r" "cap_field data (so_max_asset_bytes s) = Inr m"
    "checkbox data ''critical'' = Inr c" "slug_field data ''channel'' (so_channel s) ''Channel'' = Inr ch"
    "slug_field data ''platform'' (so_platform s) ''Platform'' = Inr p" "slug_field data ''arch'' (so_arch s) ''Architecture'' = Inr ar"
    "\<And>s'. so_asset_name s' = so_asset_name s \<Longrightarrow> so_tag_prefix s' = so_tag_prefix s \<Longrightarrow>
       so_require_tag_ref_prefix s' = so_require_tag_ref_prefix s \<Longrightarrow> so_max_asset_bytes s' = so_max_asset_bytes s \<Longrightarrow>
       so_critical s' = so_critical s \<Longrightarrow> so_channel s' = so_channel s \<Longrightarrow> so_platform s' = so_platform s \<Longrightarrow>
       so_arch s' = so_arch s \<Longrightarrow> assign_all cols s' = Some (edited a t r m c ch p ar s')"
    "cols = [] \<Longrightarrow> edited a t r m c ch p ar s = s" "fst ` set cols \<subseteq> EDITABLE_FIELDS"
proof -
  obtain a t r m c ch p ar where x:
    "asset_field data = Inr a" "tag_prefix_field data (so_tag_prefix s) = Inr t"
    "ref_prefix_field data (so_require_tag_ref_prefix s) = Inr r" "cap_field data (so_max_asset_bytes s) = Inr m"
    "checkbox data ''critical'' = Inr c" "slug_field data ''channel'' (so_channel s) ''Channel'' = Inr ch"
    "slug_field data ''platform'' (so_platform s) ''Platform'' = Inr p" "slug_field data ''arch'' (so_arch s) ''Architecture'' = Inr ar"
    and cols: "cols = changed
       [(so_asset_name s \<noteq> a, (''asset_name'', CText a)), (so_tag_prefix s \<noteq> t, (''tag_prefix'', CText t)),
        (so_require_tag_ref_prefix s \<noteq> r, (''require_tag_ref_prefix'', CText r)),
        (so_max_asset_bytes s \<noteq> m, (''max_asset_bytes'', CInt m)), (so_critical s \<noteq> c, (''critical'', CBool c)),
        (so_channel s \<noteq> ch, (''channel'', CText ch)), (so_platform s \<noteq> p, (''platform'', CText p)),
        (so_arch s \<noteq> ar, (''arch'', CText ar))]"
    using assms unfolding source_edit_from_form_def by (elim bindr_InrE) auto
  show thesis
  proof (rule that [OF x])
    show "assign_all cols s' = Some (edited a t r m c ch p ar s')"
      if "so_asset_name s' = so_asset_name s" "so_tag_prefix s' = so_tag_prefix s"
       "so_require_tag_ref_prefix s' = so_require_tag_ref_prefix s" "so_max_asset_bytes s' = so_max_asset_bytes s"
       "so_critical s' = so_critical s" "so_channel s' = so_channel s" "so_platform s' = so_platform s"
       "so_arch s' = so_arch s" for s'
      unfolding cols using that by (simp add: assign_changed edited_def changed_Cons(2))
    show "edited a t r m c ch p ar s = s" if "cols = []"
      using that by (auto simp: cols changed_Cons edited_def split: if_splits)
    show "fst ` set cols \<subseteq> EDITABLE_FIELDS" by (auto simp: cols changed_def EDITABLE_FIELDS_def)
  qed
qed

text \<open>A second identical submission changes nothing.\<close>

lemma edit_again:
  assumes "source_edit_from_form data s = Inr cols" "assign_all cols (s\<lparr>so_updated_at := now\<rparr>) = Some s'"
  shows "source_edit_from_form data s' = Inr []"
  using assms(1)
proof (rule source_edit_InrE)
  fix a t r m c ch p ar
  assume f: "asset_field data = Inr a" "tag_prefix_field data (so_tag_prefix s) = Inr t"
    "ref_prefix_field data (so_require_tag_ref_prefix s) = Inr r" "cap_field data (so_max_asset_bytes s) = Inr m"
    "checkbox data ''critical'' = Inr c" "slug_field data ''channel'' (so_channel s) ''Channel'' = Inr ch"
    "slug_field data ''platform'' (so_platform s) ''Platform'' = Inr p" "slug_field data ''arch'' (so_arch s) ''Architecture'' = Inr ar"
    and as: "\<And>s'. so_asset_name s' = so_asset_name s \<Longrightarrow> so_tag_prefix s' = so_tag_prefix s \<Longrightarrow>
       so_require_tag_ref_prefix s' = so_require_tag_ref_prefix s \<Longrightarrow> so_max_asset_bytes s' = so_max_asset_bytes s \<Longrightarrow>
       so_critical s' = so_critical s \<Longrightarrow> so_channel s' = so_channel s \<Longrightarrow> so_platform s' = so_platform s \<Longrightarrow>
       so_arch s' = so_arch s \<Longrightarrow> assign_all cols s' = Some (edited a t r m c ch p ar s')"
  have s': "s' = edited a t r m c ch p ar (s\<lparr>so_updated_at := now\<rparr>)" using assms(2) as [of "s\<lparr>so_updated_at := now\<rparr>"] by simp
  have "tag_prefix_field data t = Inr t" "ref_prefix_field data r = Inr r" "cap_field data m = Inr m"
    using f(2-4) form_text_idem
    by (auto simp: tag_prefix_field_def ref_prefix_field_def cap_field_def positive_int_def bindr_eq_Inr_iff or_else_def Let_def
        split: if_splits option.splits)
  moreover have "slug_field data k v f = Inr v" if "slug_field data k d f = Inr v" for k d v f
    using that by (auto simp: slug_field_def bindr_eq_Inr_iff or_else_def Let_def split: if_splits)
  ultimately show ?thesis using f
    by (simp add: source_edit_from_form_def s' edited_def changed_Cons)
qed

lemma lower_idem [simp]: "lower (lower s) = lower s"
proof -
  have "lower_char (lower_char c) = lower_char c" for c
    by (simp add: lower_char_def Let_def)
  then show ?thesis by (simp add: lower_def)
qed

section \<open>Properties\<close>


text \<open>C25: Whatever an operator typed into a form that was accepted, and however the source was edited,
  validated and paused since, the worker can build its client, and every request it ever makes for
  the source, redirects included, goes over https to the host of the API base that was typed, or
  for api.github.com to one of GitHub's listed hosts.\<close>

theorem registered_source_stays_on_its_host:
  assumes "source_from_form F uuid data actor = Inr s" "nt_bracketed N = fe_bracketed F" "identity s' = identity s"
  shows "\<exists>S api. release_source N s' = Inr S \<and> host_of N (so_api_base s) = Inr api
    \<and> (\<forall>calls. \<forall>url \<in> set (fold (after_call S) calls []). \<exists>h. host_of N url = Inr h
         \<and> (h = api \<or> so_forge s = GITHUB \<and> api = ''api.github.com'' \<and> h \<in> GITHUB_DOWNLOAD_HOSTS))"
proof -
  obtain v where v: "https F v ''API base'' = Inr (so_api_base s)" using source_from_form_Inr(10) [OF assms(1)] by blast
  obtain api where api: "host_of N (so_api_base s) = Inr api" and r: "rstrip_char (CHR ''/'') (so_api_base s) = so_api_base s"
    using https_Inr [OF v assms(2)] by blast
  have i: "so_api_base s' = so_api_base s" "so_forge s' = so_forge s" using assms(3) by (auto simp: identity_def)
  obtain netloc h where u: "urlsplit (nt_bracketed N) (so_api_base s) = Inr (''https'', netloc)" "hostname netloc = Some h" "api = lower h"
    using api by (auto simp: host_of_def bindr_eq_Inr_iff split: if_splits option.splits)
  have g: "github_hosts N (so_api_base s) = Inr (if h = ''api.github.com'' then GITHUB_DOWNLOAD_HOSTS else {h})"
    by (simp add: github_hosts_def u)
  have S: "\<exists>S. release_source N s' = Inr S"
    using g api r by (cases "so_forge s") (simp_all add: release_source_def i GitLabReleaseSource_def Let_def)
  then obtain S where S: "release_source N s' = Inr S" by blast
  have api': "host_of N (rstrip_char (CHR ''/'') (so_api_base s')) = Inr api" using api r i by simp
  have "\<exists>h'. host_of N url = Inr h' \<and> (h' = api \<or> so_forge s = GITHUB \<and> api = ''api.github.com'' \<and> h' \<in> GITHUB_DOWNLOAD_HOSTS)"
    if "url \<in> set (fold (after_call S) calls [])" for calls url
  proof -
    have "source_url_ok N s' url"
      using that confined_source.session_confined [OF source_confined [OF S api'], of "[]" calls] by (simp add: list_all_iff)
    then obtain h' where h': "host_of N url = Inr h'" "h' = api \<or> so_forge s = GITHUB
        \<and> h' \<in> (if h = ''api.github.com'' then GITHUB_DOWNLOAD_HOSTS else {h})"
      unfolding source_url_ok_def i r g api by blast
    have "lower h' = h'" if "h' = h"
      using h'(1) by (auto simp: host_of_def bindr_eq_Inr_iff split: if_splits option.splits)
    then have "h' = api" if "h' = h" using that u(3) by simp
    moreover have "api = ''api.github.com''" if "h = ''api.github.com''" using that u(3) by (simp add: lower_def lower_char_def code_def)
    ultimately show ?thesis using h' by (auto split: if_splits)
  qed
  with S api show ?thesis by blast
qed

text \<open>An edit reaches handling settings only, and completely: it names columns the store accepts, with
  values of their types; the store takes it unless the channel is not one of its channels or a text
  holds a NUL; the
  edited row keeps its identity, status and pinned repository ids, and submitting the same form
  again changes nothing.\<close>

theorem edit_is_confined_and_idempotent:
  assumes "source_edit_from_form data s = Inr cols" "source_at i d = Some s" "source_check s"
  shows "fst ` set cols \<subseteq> UPDATABLE_COLUMNS
    \<and> (case update_source now i cols d of
         (Inr s', d') \<Rightarrow> identity s' = identity s \<and> so_status s' = so_status s \<and> pins s' = pins s
           \<and> source_edit_from_form data s' = Inr []
       | (Inl e, d') \<Rightarrow> d' = d \<and> (e = refusal (column_texts cols) \<and> list_ex nul (column_texts cols)
           \<or> e = CheckViolation ''sources'' \<and> (\<exists>ch. slug_field data ''channel'' (so_channel s) ''Channel'' = Inr ch \<and> ch \<notin> set CHANNELS)))"
  using assms(1)
proof (rule source_edit_InrE)
  fix a t r m c ch p ar
  assume as: "\<And>s'. so_asset_name s' = so_asset_name s \<Longrightarrow> so_tag_prefix s' = so_tag_prefix s \<Longrightarrow>
       so_require_tag_ref_prefix s' = so_require_tag_ref_prefix s \<Longrightarrow> so_max_asset_bytes s' = so_max_asset_bytes s \<Longrightarrow>
       so_critical s' = so_critical s \<Longrightarrow> so_channel s' = so_channel s \<Longrightarrow> so_platform s' = so_platform s \<Longrightarrow>
       so_arch s' = so_arch s \<Longrightarrow> assign_all cols s' = Some (edited a t r m c ch p ar s')"
    and none: "cols = [] \<Longrightarrow> edited a t r m c ch p ar s = s" and e: "fst ` set cols \<subseteq> EDITABLE_FIELDS"
    and ch: "slug_field data ''channel'' (so_channel s) ''Channel'' = Inr ch"
  have u: "fst ` set cols \<subseteq> UPDATABLE_COLUMNS" using e by (simp add: EDITABLE_FIELDS_def UPDATABLE_COLUMNS_def)
  let ?s' = "edited a t r m c ch p ar (s\<lparr>so_updated_at := now\<rparr>)"
  have s': "assign_all cols (s\<lparr>so_updated_at := now\<rparr>) = Some ?s'" by (rule as) simp_all
  have i: "identity ?s' = identity s" "so_status ?s' = so_status s" "pins ?s' = pins s" "so_channel ?s' = ch"
    by (simp_all add: edited_def identity_def pins_def)
  have check: "source_check ?s'" if "ch \<in> set CHANNELS"
    using assms(3) that by (simp add: source_check_def edited_def CHANNELS_def)
  have again: "source_edit_from_form data ?s' = Inr []" by (rule edit_again [OF assms(1) s'])
  show ?thesis
  proof (cases "cols = []")
    case True
    then show ?thesis using assms(1,2) by (simp add: update_source_def require_source_def)
  next
    case False
    have upd: "update_sources (\<lambda>r. so_id r = i) (\<lambda>_. ?s') d
        = (if list_ex (\<lambda>r. so_id r = i) (d_sources d) \<and> \<not> source_check ?s' then (Inl (CheckViolation ''sources''), d)
           else (Inr (map (\<lambda>_. ?s') (filter (\<lambda>r. so_id r = i) (d_sources d))),
                 d\<lparr>d_sources := map (\<lambda>r. if so_id r = i then ?s' else r) (d_sources d)\<rparr>))"
      by (auto simp: update_sources_def list_ex_iff)
    have run: "\<not> list_ex nul (column_texts cols) \<Longrightarrow> update_source now i cols d = bindS (update_sources (\<lambda>r. so_id r = i) (\<lambda>_. ?s')) (\<lambda>_. returnS ?s') d"
      using u False assms(2) s' by (simp add: update_source_def)
    show ?thesis
    proof (cases "list_ex nul (column_texts cols)")
      case True
      then show ?thesis using u False by (simp add: update_source_def)
    next
      case ok: False
      show ?thesis using u i again check ch unfolding run [OF ok] by (auto simp: upd bindS_def returnS_def)
    qed
  qed
qed

text \<open>A source registered from a form can be judged once the worker has read the repository's ids:
  its provenance policy is complete, and names the project that was typed and nothing else.\<close>

theorem registered_source_can_be_judged:
  assumes "source_from_form F uuid data actor = Inr s" "identity s' = identity s"
    and "so_forge s = GITHUB \<longrightarrow> given (so_repository_id s') \<and> given (so_repository_owner_id s')"
  shows "\<exists>p. source_provenance_policy s' = Inr p \<and> pp_project_url p = so_project_url s
    \<and> pp_require_tag_ref_prefix p = so_require_tag_ref_prefix s'
    \<and> length (pp_trusted_builders p) + length (pp_trusted_identities p) = 1
    \<and> (\<forall>c \<in> set (pp_trusted_identities p). ci_repository c = so_project s \<and> Some (ci_workflow_uri c) = so_workflow_uri s
         \<and> Some (ci_issuer c) = so_oidc_issuer s)
    \<and> (\<forall>b \<in> set (pp_trusted_builders p). Some (tb_builder_id b) = so_builder_id s)"
proof -
  have "so_forge s' = so_forge s" "so_project s' = so_project s" "so_project_url s' = so_project_url s"
    "so_workflow_uri s' = so_workflow_uri s" "so_oidc_issuer s' = so_oidc_issuer s" "so_builder_id s' = so_builder_id s"
    "so_builder_keyid s' = so_builder_keyid s" "so_builder_public_key_pem s' = so_builder_public_key_pem s"
    using assms(2) by (auto simp: identity_def)
  with source_from_form_Inr(16) [OF assms(1)] assms(3) show ?thesis
    by (cases "so_forge s") (auto simp: source_provenance_policy_def pinned_def ProvenancePolicy_def given_def)
qed

section \<open>Witnesses\<close>

definition ex_forms :: form_env where
  "ex_forms = \<lparr>fe_bracketed = (\<lambda>_. False), fe_pem = (\<lambda>_. True)\<rparr>"

definition ex_form :: form where
  "ex_form = [''app_id'' \<mapsto> FText '' editor '', ''forge'' \<mapsto> FText ''github'', ''project'' \<mapsto> FText ''h/p'',
     ''asset_name'' \<mapsto> FText ''app-{version}.zip'', ''critical'' \<mapsto> FText ''on'']"

lemma ex_form_fields:
  "form_text ex_form ''app_id'' [] = Inr ''editor''" "APP_ID_PATTERN ''editor''"
  "form_text ex_form ''forge'' [] = Inr ''github''" "project_field ex_forms ex_form = Inr ''h/p''"
  "form_text ex_form ''api_base'' [] = Inr []"
  "https ex_forms ''https://api.github.com'' ''API base'' = Inr ''https://api.github.com''"
  "asset_field ex_form = Inr ''app-{version}.zip''" "tag_prefix_field ex_form ''v'' = Inr ''v''"
  "ref_prefix_field ex_form ''refs/tags/'' = Inr ''refs/tags/''" "checkbox ex_form ''critical'' = Inr True"
  "form_text ex_form ''max_asset_bytes'' [] = Inr []" "form_text ex_form ''workflow_uri'' [] = Inr []"
  "form_text ex_form ''oidc_issuer'' [] = Inr []" "form_text ex_form ''runner_environment'' [] = Inr []"
  "https ex_forms ''https://token.actions.githubusercontent.com'' ''OIDC issuer'' = Inr ''https://token.actions.githubusercontent.com''"
  "https ex_forms ''https://github.com/h/p/.github/workflows/release.yml'' ''Release workflow URI''
     = Inr ''https://github.com/h/p/.github/workflows/release.yml''"
  by code_simp+

lemma ex_form_accepted:
  "case source_from_form ex_forms 7 ex_form ''ops'' of Inl e \<Rightarrow> False
   | Inr s \<Rightarrow> \<not> list_ex nul (source_texts s) \<and> so_app_id s = ''editor'' \<and> so_forge s = GITHUB \<and> so_api_base s = ''https://api.github.com''
       \<and> so_workflow_uri s = Some ''https://github.com/h/p/.github/workflows/release.yml''"
proof -
  have "cap_field ex_form (2 * 1024 * 1024 * 1024) = Inr (2 * 1024 * 1024 * 1024)"
    by (simp add: cap_field_def positive_int_def ex_form_fields MAX_ASSET_BYTES_CEILING_def)
  then show ?thesis
    by (simp add: source_from_form_def ex_form_fields require_def forge_of_def or_else_def project_url_of_def
        github_fields_def derived_workflow_uri_def DEFAULT_WORKFLOW_PATH_def DEFAULT_OIDC_ISSUER_def common_fields_def Let_def
        source_texts_def nul_def)
qed

lemma ex_form_source:
  obtains s where "source_from_form ex_forms 7 ex_form ''ops'' = Inr s" "\<not> list_ex nul (source_texts s)" "so_app_id s = ''editor''" "so_forge s = GITHUB"
    "so_api_base s = ''https://api.github.com''" "so_workflow_uri s = Some ''https://github.com/h/p/.github/workflows/release.yml''"
  using ex_form_accepted by (cases "source_from_form ex_forms 7 ex_form ''ops''") auto


theorem registered_source_stays_on_its_host_witness:
  "\<exists>s S h. source_from_form ex_forms 7 ex_form ''ops'' = Inr s \<and> release_source ex_hostile_net s = Inr S
     \<and> fold (after_call S) [LatestRelease] [] \<noteq> []
     \<and> host_of ex_hostile_net (last (fold (after_call S) [LatestRelease] [])) = Inr h \<and> (h = ''api.github.com'' \<or> h \<in> GITHUB_DOWNLOAD_HOSTS)"
proof (rule ex_form_source)
  fix s
  assume s: "source_from_form ex_forms 7 ex_form ''ops'' = Inr s" "so_api_base s = ''https://api.github.com''" "so_forge s = GITHUB"
  have "nt_bracketed ex_hostile_net = fe_bracketed ex_forms" by (simp add: ex_hostile_net_def ex_net_def ex_forms_def)
  from registered_source_stays_on_its_host [OF s(1) this refl] obtain S api where S: "release_source ex_hostile_net s = Inr S"
    "host_of ex_hostile_net (so_api_base s) = Inr api"
    "\<forall>calls. \<forall>url \<in> set (fold (after_call S) calls []). \<exists>h. host_of ex_hostile_net url = Inr h
         \<and> (h = api \<or> so_forge s = GITHUB \<and> api = ''api.github.com'' \<and> h \<in> GITHUB_DOWNLOAD_HOSTS)" by blast
  have "host_of ex_hostile_net ''https://api.github.com'' = Inr ''api.github.com''" by code_simp
  then have api: "api = ''api.github.com''" using S(2) s(2) by simp
  obtain gh where gh: "S = github_source ex_hostile_net gh" using S(1) s(3) by (auto simp: release_source_def bindr_eq_Inr_iff)
  have j: "get_json ex_hostile_net u [] = (fst (get_json ex_hostile_net u []), [u])" for u
    by (simp add: get_json_def request_def split: sum.split exn.split)
  have ne: "fold (after_call S) [LatestRelease] [] \<noteq> []"
    by (simp add: gh github_source_def gh_latest_release_def bindS_def liftS_def returnS_def, subst j)
      (simp split: sum.split option.split)
  then have "last (fold (after_call S) [LatestRelease] []) \<in> set (fold (after_call S) [LatestRelease] [])" by (rule last_in_set)
  with S(3) api have "\<exists>h. host_of ex_hostile_net (last (fold (after_call S) [LatestRelease] [])) = Inr h
      \<and> (h = ''api.github.com'' \<or> h \<in> GITHUB_DOWNLOAD_HOSTS)" by blast
  with s S ne show ?thesis by blast
qed

text \<open>An edit that moves a source to the beta channel.\<close>

definition ex_edit :: form where
  "ex_edit = [''asset_name'' \<mapsto> FText ''editor.zip'', ''channel'' \<mapsto> FText ''beta'', ''max_asset_bytes'' \<mapsto> FText ''1_000'']"

lemma ex_edit_changes: "source_edit_from_form ex_edit ex_source = Inr [(''channel'', CText ''beta'')]"
  by code_simp

theorem edit_is_confined_and_idempotent_witness:
  "\<exists>s' d'. update_source 9 7 [(''channel'', CText ''beta'')] ex_run = (Inr s', d')
     \<and> pins s' = (Some ''42'', Some ''9'') \<and> so_status s' = ACTIVE \<and> source_edit_from_form ex_edit s' = Inr []"
proof -
  let ?s = "hd (d_sources ex_run)"
  have s: "source_at 7 ex_run = Some ?s" "source_check ?s" "source_edit_from_form ex_edit ?s = Inr [(''channel'', CText ''beta'')]"
    "so_status ?s = ACTIVE" "pins ?s = (Some ''42'', Some ''9'')" "so_channel ?s = ''stable''"
    unfolding ex_run_db by code_simp+
  have "slug_field ex_edit ''channel'' ''stable'' ''Channel'' = Inr ''beta''" by code_simp
  with edit_is_confined_and_idempotent [OF s(3,1,2), of 9] s(4-6) show ?thesis
    by (auto simp: CHANNELS_def column_texts_def nul_def split: prod.splits sum.splits)
qed

text \<open>A source of a GitLab project, judged by the pinned builder key.\<close>

lemma ex_judged_fields:
  "pinned (s\<lparr>so_repository_id := a, so_repository_owner_id := b\<rparr>) = pinned s"
  by (simp add: pinned_def split: forge.split)

theorem registered_source_can_be_judged_witness:
  "\<exists>s p. source_from_form ex_forms 7 ex_form ''ops'' = Inr s
     \<and> source_provenance_policy (s\<lparr>so_repository_id := Some ''42'', so_repository_owner_id := Some ''9''\<rparr>) = Inr p
     \<and> pp_project_url p = so_project_url s"
proof (rule ex_form_source)
  fix s
  assume s: "source_from_form ex_forms 7 ex_form ''ops'' = Inr s"
  let ?s = "s\<lparr>so_repository_id := Some ''42'', so_repository_owner_id := Some ''9''\<rparr>"
  have "identity ?s = identity s" "so_forge s = GITHUB \<longrightarrow> given (so_repository_id ?s) \<and> given (so_repository_owner_id ?s)"
    by (simp_all add: identity_def given_def)
  from registered_source_can_be_judged [OF s this] s show ?thesis by blast
qed

section \<open>What the forms let through\<close>

text \<open>A NUL passes the checks of a field that has none but its length: this form is accepted, and then
  the registry refuses it with an error that the handler of the form does not catch.\<close>

definition nul_form :: form where
  "nul_form = ex_form(''runner_environment'' \<mapsto> FText (''a'' @ [CHR 0x00]))"

lemma nul_form_fields:
  "form_text nul_form ''app_id'' [] = Inr ''editor''"
  "form_text nul_form ''forge'' [] = Inr ''github''" "project_field ex_forms nul_form = Inr ''h/p''"
  "form_text nul_form ''api_base'' [] = Inr []"
  "asset_field nul_form = Inr ''app-{version}.zip''" "tag_prefix_field nul_form ''v'' = Inr ''v''"
  "ref_prefix_field nul_form ''refs/tags/'' = Inr ''refs/tags/''" "checkbox nul_form ''critical'' = Inr True"
  "form_text nul_form ''max_asset_bytes'' [] = Inr []" "form_text nul_form ''workflow_uri'' [] = Inr []"
  "form_text nul_form ''oidc_issuer'' [] = Inr []" "form_text nul_form ''runner_environment'' [] = Inr (''a'' @ [CHR 0x00])"
  by code_simp+

lemma nul_form_accepted:
  "case source_from_form ex_forms 7 nul_form ''ops'' of Inl e \<Rightarrow> False | Inr s \<Rightarrow> list_ex nul (source_texts s)"
proof -
  have "cap_field nul_form (2 * 1024 * 1024 * 1024) = Inr (2 * 1024 * 1024 * 1024)"
    by (simp add: cap_field_def positive_int_def nul_form_fields MAX_ASSET_BYTES_CEILING_def)
  then show ?thesis
    by (simp add: source_from_form_def nul_form_fields ex_form_fields(2,6,15,16) require_def forge_of_def or_else_def project_url_of_def
        github_fields_def derived_workflow_uri_def DEFAULT_WORKFLOW_PATH_def DEFAULT_OIDC_ISSUER_def common_fields_def Let_def
        source_texts_def nul_def)
qed

theorem nul_in_a_form_is_an_error:
  "\<exists>s m. source_from_form ex_forms 7 nul_form ''ops'' = Inr s \<and> add_source 1 s empty_db = (Inl (DataError m), empty_db)"
  using nul_form_accepted
  by (cases "source_from_form ex_forms 7 nul_form ''ops''") (auto simp: add_source_def refusal_def)

text \<open>Counting braces does not match them: these names pass, although nothing substitutes what is left.\<close>

lemma braces_slip_through:
  "ASSET n \<and> list_all (\<lambda>f. f = ''version'') (placeholders n)
     \<and> length (filter (\<lambda>c. c = CHR ''{'') n) = length (filter (\<lambda>c. c = CHR ''}'') n)"
  if "n = ''a}{b'' \<or> n = ''a{{version}}b''"
  using that by (elim disjE; simp only:; code_simp)

text \<open>An empty query or fragment is none: the path the worker appends to this API base is a fragment.\<close>

lemma empty_fragment_accepted: "https ex_forms ''https://api.example.com/#'' f = Inr ''https://api.example.com/#''"
  by (simp add: https_def) code_simp

text \<open>A URL that \<^verbatim>\<open>urlsplit\<close> cannot parse raises past the handler of form errors.\<close>

lemma unbalanced_bracket_raises: "https ex_forms ''https://['' f = Inl (ValueError ''Invalid IPv6 URL'')"
  by (simp add: https_def) code_simp

end
