(* ===== verification/Auth.thy ===== *)
theory Auth
  imports Store
begin

text \<open>
  \<^verbatim>\<open>packages/dist-admin/src/dist_admin/auth.py\<close>, \<^verbatim>\<open>operators.py\<close> and \<^verbatim>\<open>config.py\<close>: passwords,
  sessions and CSRF tokens of the admin plane, the command that manages operators, and the settings.

  The state is the registry, which others change between this process's transactions
  (\<open>a_others\<close>), the log of those transactions with the registry before and after each, and the
  number of scrypt calls made so far.  Clocks and what \<^verbatim>\<open>secrets\<close> and \<^verbatim>\<open>uuid4\<close> draw are indexed by
  the number of transactions, salts by the number of hashes.  scrypt and SHA-256 are arguments.
\<close>

record admin_state =
  as_db :: db
  as_log :: "(db \<times> db) list"
  as_hashes :: nat

record admin_env =
  a_others :: "nat \<Rightarrow> db \<Rightarrow> db"
  a_clock :: "nat \<Rightarrow> int"
  a_now :: "nat \<Rightarrow> int"
  a_token :: "nat \<Rightarrow> string"
  a_csrf :: "nat \<Rightarrow> string"
  a_uuid :: "nat \<Rightarrow> nat"
  a_salt :: "nat \<Rightarrow> string"
  a_scrypt :: "string \<Rightarrow> string \<Rightarrow> string"
  a_sha :: "string \<Rightarrow> string"

definition on_db :: "admin_env \<Rightarrow> (nat \<Rightarrow> (db, 'a) sem) \<Rightarrow> (admin_state, 'a) sem" where
  "on_db E f = (\<lambda>s.
     let i = length (as_log s); d = a_others E i (as_db s) in
     case f i d of (r, d') \<Rightarrow> (r, s\<lparr>as_db := d', as_log := (d, d') # as_log s\<rparr>))"

definition at_step :: "(nat \<Rightarrow> (admin_state, 'a) sem) \<Rightarrow> (admin_state, 'a) sem" where
  "at_step f = (\<lambda>s. f (length (as_log s)) s)"

section \<open>Passwords\<close>

definition SALT_LEN :: nat where "SALT_LEN = 16"

definition hash_password :: "admin_env \<Rightarrow> string \<Rightarrow> string option \<Rightarrow> (admin_state, string \<times> string) sem" where
  "hash_password E password salt = (\<lambda>s.
     let salt' = (case salt of None \<Rightarrow> a_salt E (as_hashes s) | Some x \<Rightarrow> x) in
     (Inr (a_scrypt E (utf8_encode password) salt', salt'), s\<lparr>as_hashes := as_hashes s + 1\<rparr>))"

definition verify_password :: "admin_env \<Rightarrow> string \<Rightarrow> string \<Rightarrow> string \<Rightarrow> (admin_state, bool) sem" where
  "verify_password E password expected salt =
     bindS (hash_password E password (Some salt)) (\<lambda>(candidate, _). returnS (candidate = expected))"

definition token_digest :: "admin_env \<Rightarrow> string \<Rightarrow> string" where
  "token_digest E token = a_sha E (utf8_encode token)"

definition authenticate :: "admin_env \<Rightarrow> string \<Rightarrow> string \<Rightarrow> (admin_state, bool) sem" where
  "authenticate E username password =
     bindS (on_db E (\<lambda>i. get_operator username)) (\<lambda>rec. case rec of
       None \<Rightarrow> bindS (hash_password E password (Some (replicate SALT_LEN (char_of (0::nat))))) (\<lambda>_. returnS False)
     | Some r \<Rightarrow> if op_disabled r then returnS False
         else verify_password E password (op_password_hash r) (op_salt r))"

section \<open>Sessions\<close>

definition SESSION_COOKIE :: string where "SESSION_COOKIE = ''dist_admin_session''"

definition SESSION_LIFETIME :: int where "SESSION_LIFETIME = 12 * 60 * 60"

definition begin_session :: "admin_env \<Rightarrow> string \<Rightarrow> (admin_state, string \<times> string) sem" where
  "begin_session E username =
     at_step (\<lambda>i. bindS (on_db E (\<lambda>i. create_session (token_digest E (a_token E i)) username (a_csrf E i)
         (a_now E i + SESSION_LIFETIME))) (\<lambda>_. returnS (a_token E i, a_csrf E i)))"

definition end_session :: "admin_env \<Rightarrow> string option \<Rightarrow> (admin_state, unit) sem" where
  "end_session E token =
     (if token \<in> {None, Some []} then returnS ()
      else on_db E (\<lambda>i. delete_session (token_digest E (the token))))"

definition session_for :: "admin_env \<Rightarrow> string option \<Rightarrow> (admin_state, session option) sem" where
  "session_for E token =
     (if token \<in> {None, Some []} then returnS None
      else on_db E (\<lambda>i. get_session (a_clock E i) (token_digest E (the token))))"

text \<open>\<open>hmac.compare_digest\<close> takes two \<open>str\<close> only when both are ASCII.\<close>

definition is_ascii :: "string \<Rightarrow> bool" where
  "is_ascii s \<longleftrightarrow> list_all (\<lambda>c. code c < 128) s"

definition csrf_ok :: "string \<Rightarrow> string option \<Rightarrow> bool res" where
  "csrf_ok expected supplied =
     (if supplied \<in> {None, Some []} then Inr False
      else if \<not> is_ascii expected \<or> \<not> is_ascii (the supplied)
      then Inl (TypeError ''comparing strings with non-ASCII characters is not supported'')
      else Inr (expected = the supplied))"

section \<open>Settings\<close>

record settings =
  st_database_url :: string
  st_secure_cookie :: bool
  st_bootstrap_password :: "string option"

definition set_env :: "(string \<Rightarrow> string option) \<Rightarrow> string \<Rightarrow> string option" where
  "set_env env k = (case env k of Some [] \<Rightarrow> None | v \<Rightarrow> v)"

definition database_url :: "(string \<Rightarrow> string option) \<Rightarrow> string res" where
  "database_url env = (case set_env env ''DIST_DATABASE_URL'' of
     None \<Rightarrow> Inl (RuntimeError ''DIST_DATABASE_URL is not set'') | Some url \<Rightarrow> Inr url)"

definition from_env :: "(string \<Rightarrow> string option) \<Rightarrow> settings res" where
  "from_env env =
     bindr (case set_env env ''DIST_DATABASE_URL'' of
         None \<Rightarrow> Inl (RuntimeError ''DIST_DATABASE_URL is not set'') | Some url \<Rightarrow> Inr url) (\<lambda>url.
     Inr \<lparr>st_database_url = url,
          st_secure_cookie = lower (case env ''DIST_ADMIN_SECURE_COOKIE'' of None \<Rightarrow> [] | Some v \<Rightarrow> v) \<in> {''1'', ''true'', ''yes''},
          st_bootstrap_password = set_env env ''DIST_ADMIN_BOOTSTRAP_PASSWORD''\<rparr>)"

definition bootstrap_operator :: "admin_env \<Rightarrow> settings \<Rightarrow> (admin_state, unit) sem" where
  "bootstrap_operator E settings = (case st_bootstrap_password settings of
     None \<Rightarrow> returnS ()
   | Some password \<Rightarrow>
       bindS (on_db E (\<lambda>i. operator_count)) (\<lambda>n. if n > 0 then returnS () else
       bindS (hash_password E password None) (\<lambda>(digest, salt).
       bindS (on_db E (\<lambda>i. put_operator ''admin'' digest salt)) (\<lambda>_.
       on_db E (\<lambda>i. audit (a_clock E i) ''system'' ''operator.bootstrap'' None [(''username'', JStr ''admin'')])))))"

section \<open>The operators command\<close>

definition MIN_PASSWORD_LENGTH :: nat where "MIN_PASSWORD_LENGTH = 12"

text \<open>The console: the first line of standard input, and what is typed at the two prompts.  A result
  is the exit status with the lines written to the two output streams.\<close>

record console =
  co_stdin :: string
  co_password :: string
  co_repeat :: string

type_synonym outcome_lines = "nat \<times> string list \<times> string list"

definition read_password :: "console \<Rightarrow> bool \<Rightarrow> string + string" where
  "read_password C from_stdin =
     (let password = (if from_stdin then rstrip_char newline (co_stdin C) else co_password C) in
      if \<not> from_stdin \<and> password \<noteq> co_repeat C then Inl ''error: passwords do not match''
      else if length password < MIN_PASSWORD_LENGTH then Inl ''error: password must be at least 12 characters''
      else Inr password)"

datatype operator_command = OpAdd | OpPasswd | OpList

fun command_name :: "operator_command \<Rightarrow> string" where
  "command_name OpAdd = ''add''"
| "command_name OpPasswd = ''passwd''"
| "command_name OpList = ''list''"

text \<open>\<open>created\<close> is the date column of an operator's row, which the model does not keep.\<close>

definition list_operators :: "(string \<Rightarrow> string) \<Rightarrow> (db, string list) sem" where
  "list_operators created = queryS (\<lambda>d.
     map (\<lambda>r. op_username r @ (if op_disabled r then '' (disabled)'' else []) @ [char_of (9::nat)] @ created (op_username r))
       (sort_key op_username (d_operators d)))"

definition operators_main ::
  "admin_env \<Rightarrow> (string \<Rightarrow> string) \<Rightarrow> console \<Rightarrow> operator_command \<Rightarrow> string option \<Rightarrow> bool \<Rightarrow> (admin_state, outcome_lines) sem" where
  "operators_main E created C command username from_stdin =
     (if command = OpList then bindS (on_db E (\<lambda>i. list_operators created)) (\<lambda>rows. returnS (0, rows, []))
      else bindS (refuseS (username \<in> {None, Some []}) (SystemExit ''needs a username'')) (\<lambda>_.
        let name = the username in
        bindS (on_db E (\<lambda>i. get_operator name)) (\<lambda>existing.
        if command = OpAdd \<and> existing \<noteq> None then returnS (1, [], [''error: already exists; use passwd''])
        else if command = OpPasswd \<and> existing = None then returnS (1, [], [''error: no such operator''])
        else case read_password C from_stdin of
            Inl err \<Rightarrow> returnS (1, [], [err])
          | Inr password \<Rightarrow>
              bindS (hash_password E password None) (\<lambda>(digest, salt).
              bindS (on_db E (\<lambda>i. put_operator name digest salt)) (\<lambda>_.
              bindS (on_db E (\<lambda>i. audit (a_clock E i) ''cli'' (''operator.'' @ command_name command) None
                 [(''username'', JStr name)])) (\<lambda>_.
              returnS (0, [name @ '' updated''], [])))))))"

end
