(* ===== verification/Buildinfo.thy ===== *)
theory Buildinfo
  imports Json "HOL-Library.Multiset"
begin

text \<open>
  \<^verbatim>\<open>packages/dist-core/src/dist_core/buildinfo.py\<close>: which code a service is running.

  \<open>installed\<close> is what the import system and the file system say of a package: the parts of its
  directory and its files, each with the parts of its relative path and its content.
\<close>

type_synonym package_files = "(string list \<times> string) list"

definition TRACKED_PACKAGES :: "string list" where
  "TRACKED_PACKAGES = [''dist_core'', ''dist_ingest'', ''dist_registry'', ''dist_admin'']"

definition DIGEST_CHARS :: nat where "DIGEST_CHARS = 8"

definition UNKNOWN :: string where "UNKNOWN = ''unknown''"

definition tracked_file :: "string list \<Rightarrow> string list \<times> string \<Rightarrow> bool" where
  "tracked_file dir f \<longleftrightarrow> suffix ''.py'' (last (fst f)) \<and> ''__pycache__'' \<notin> set (dir @ fst f)"

definition package_bytes :: "string list \<Rightarrow> package_files \<Rightarrow> string" where
  "package_bytes dir files =
     concat (map (\<lambda>(path, content). utf8_encode (join ''/'' path) @ content)
       (filter (tracked_file dir) (sort_key (\<lambda>f. join ''/'' (fst f)) files)))"

definition source_digest ::
  "(string \<Rightarrow> string) \<Rightarrow> (string \<Rightarrow> (string list \<times> package_files) option) \<Rightarrow> string" where
  "source_digest sha installed =
     take DIGEST_CHARS (hexdigest sha (concat (map (\<lambda>name. case installed name of
         None \<Rightarrow> [] | Some (dir, files) \<Rightarrow> package_bytes dir files) TRACKED_PACKAGES)))"

definition build_value :: "(string \<Rightarrow> string option) \<Rightarrow> string \<Rightarrow> string" where
  "build_value env k = (let v = strip (case env k of None \<Rightarrow> [] | Some x \<Rightarrow> x) in if v = [] then UNKNOWN else v)"

definition build_ref :: "(string \<Rightarrow> string option) \<Rightarrow> string" where
  "build_ref env = build_value env ''DIST_BUILD_REF''"

definition build_time :: "(string \<Rightarrow> string option) \<Rightarrow> string" where
  "build_time env = build_value env ''DIST_BUILD_TIME''"

definition describe :: "string \<Rightarrow> (string \<Rightarrow> string option) \<Rightarrow> string \<Rightarrow> string" where
  "describe digest env service =
     join ''; '' ([service @ '' starting'', ''source '' @ digest]
       @ (if build_ref env \<noteq> UNKNOWN then [''built '' @ build_ref env @ '' at '' @ build_time env] else []))"

text \<open>The digest does not depend on where the packages are installed or in which order their files
  are listed.\<close>

lemma package_bytes_perm:
  assumes "mset files = mset files'" "distinct (map (\<lambda>f. join ''/'' (fst f)) files)"
    and "\<And>f. f \<in> set files \<Longrightarrow> tracked_file dir f = tracked_file dir' f"
  shows "package_bytes dir files = package_bytes dir' files'"
proof -
  have inj: "inj_on (\<lambda>f. join ''/'' (fst f)) (set files)" using assms(2) by (simp add: distinct_map)
  have "sort_key (\<lambda>f. join ''/'' (fst f)) files' = sort_key (\<lambda>f. join ''/'' (fst f)) files"
  proof (rule properties_for_sort_key)
    show "mset (sort_key (\<lambda>f. join ''/'' (fst f)) files) = mset files'" using assms(1) by simp
    show "filter (\<lambda>x. join ''/'' (fst k) = join ''/'' (fst x)) (sort_key (\<lambda>f. join ''/'' (fst f)) files)
        = filter (\<lambda>x. join ''/'' (fst k) = join ''/'' (fst x)) files'" if "k \<in> set (sort_key (\<lambda>f. join ''/'' (fst f)) files)" for k
    proof -
      have k: "k \<in> set files" "k \<in> set files'" using that assms(1) by (auto dest: mset_eq_setD)
      have same: "filter (\<lambda>x. join ''/'' (fst k) = join ''/'' (fst x)) xs = filter (\<lambda>x. x = k) xs"
        if "set xs = set files" for xs :: package_files
        using that inj k(1) by (intro filter_cong) (auto simp: inj_on_def)
      have fs: "set files' = set files" using assms(1) by (metis mset_eq_setD)
      have d: "distinct files" using assms(2) by (simp add: distinct_map)
      then have d': "distinct files'" using assms(1) by (metis mset_eq_imp_distinct_iff)
      have one: "distinct xs \<Longrightarrow> k \<in> set xs \<Longrightarrow> filter (\<lambda>x. x = k) xs = [k]" for xs
        by (induction xs) (auto simp: filter_empty_conv)
      show ?thesis using same [of "sort_key (\<lambda>f. join ''/'' (fst f)) files"] same [OF fs] one [OF d']
          one [of "sort_key (\<lambda>f. join ''/'' (fst f)) files"] d k by simp
    qed
  qed simp
  moreover have "filter (tracked_file dir) (sort_key (\<lambda>f. join ''/'' (fst f)) files)
      = filter (tracked_file dir') (sort_key (\<lambda>f. join ''/'' (fst f)) files)"
    using assms(3) by (intro filter_cong) auto
  ultimately show ?thesis by (simp add: package_bytes_def)
qed

end
