(* ===== verification/Admin.thy ===== *)
theory Admin
  imports Auth Forms Buildinfo
begin

text \<open>
  \<^verbatim>\<open>packages/dist-admin/src/dist_admin/app.py\<close>: the operator web application.

  A request is the route that matched with its path, query and form parameters, and the value of
  the session cookie.  The routing itself, the templates, the autoescaping and the HTTP encoding
  belong to the libraries: a page is a template with the values it is given.  A handler is a
  sequence of the store's transactions, between which others may run.
\<close>

section \<open>Responses\<close>

datatype page =
    LoginPage "string option"
  | SourcesPage string "source list"
  | NewSourcePage string forge string "string option" form
  | NotFoundPage string
  | SourceDetailPage string source "job list"
  | SourceEditPage string source "string option"
  | AuditPage string "audit_event list"

record cookie =
  ck_name :: string
  ck_value :: string
  ck_httponly :: bool
  ck_samesite :: string
  ck_secure :: bool
  ck_max_age :: int
  ck_path :: string

datatype cookie_change = KeepCookie | SetCookie cookie | DeleteCookie string string

datatype web_response =
    SeeOther string cookie_change
  | Html page "(string \<times> string) list"
  | PlainText string
  | Css string "(string \<times> string) list"

record web_operator =
  wo_username :: string
  wo_csrf :: string

record web_env =
  w_admin :: admin_env
  w_forms :: form_env
  w_settings :: settings
  w_css :: string
  w_digest :: string
  w_environ :: "string \<Rightarrow> string option"

definition in_quotes :: "string \<Rightarrow> string" where
  "in_quotes s = CHR 0x27 # s @ [CHR 0x27]"

definition CSP :: string where
  "CSP = join ''; '' [''default-src '' @ in_quotes ''none'', ''style-src '' @ in_quotes ''self'',
     ''form-action '' @ in_quotes ''self'', ''frame-ancestors '' @ in_quotes ''none'', ''base-uri '' @ in_quotes ''none'']"

definition render :: "page \<Rightarrow> ('s, web_response) sem" where
  "render p = returnS (Html p
     [(''Content-Security-Policy'', CSP), (''X-Content-Type-Options'', ''nosniff''),
      (''Referrer-Policy'', ''no-referrer''), (''Cache-Control'', ''no-store'')])"

definition redirect :: "string \<Rightarrow> ('s, web_response) sem" where
  "redirect url = returnS (SeeOther url KeepCookie)"

definition login_required :: "('s, web_response) sem" where
  "login_required = redirect ''/login''"

text \<open>\<open>str\<close> of a UUID.\<close>

fun hex_digits :: "nat \<Rightarrow> nat \<Rightarrow> string" where
  "hex_digits 0 n = []"
| "hex_digits (Suc k) n = hex_digits k (n div 16) @ [hex_char (n mod 16)]"

definition uuid_text :: "nat \<Rightarrow> string" where
  "uuid_text u = (let h = hex_digits 32 u in
     join ''-'' [take 8 h, take 4 (drop 8 h), take 4 (drop 12 h), take 4 (drop 16 h), drop 20 h])"

definition source_url :: "nat \<Rightarrow> string" where
  "source_url i = ''/sources/'' @ uuid_text i"

text \<open>\<open>try: m except <the classes that caught names> as exc: handler(str(exc)) else: rest\<close>\<close>

definition catchS ::
  "(exn \<Rightarrow> string option) \<Rightarrow> ('s, 'a) sem \<Rightarrow> (string \<Rightarrow> ('s, 'b) sem) \<Rightarrow> ('a \<Rightarrow> ('s, 'b) sem) \<Rightarrow> ('s, 'b) sem" where
  "catchS caught m handler rest = (\<lambda>s. case m s of
     (Inl e, s') \<Rightarrow> (case caught e of None \<Rightarrow> (Inl e, s') | Some t \<Rightarrow> handler t s')
   | (Inr x, s') \<Rightarrow> rest x s')"

fun form_error :: "exn \<Rightarrow> string option" where
  "form_error (FormError m) = Some m" | "form_error _ = None"

fun store_error :: "exn \<Rightarrow> string option" where
  "store_error (StoreError m) = Some m" | "store_error _ = None"

definition form_or_store_error :: "exn \<Rightarrow> string option" where
  "form_or_store_error e = (case form_error e of None \<Rightarrow> store_error e | Some m \<Rightarrow> Some m)"

section \<open>Sessions\<close>

definition current_operator :: "admin_env \<Rightarrow> string option \<Rightarrow> (admin_state, web_operator option) sem" where
  "current_operator A cookie = bindS (session_for A cookie) (\<lambda>session.
     returnS (map_option (\<lambda>s. \<lparr>wo_username = se_username s, wo_csrf = se_csrf_token s\<rparr>) session))"

definition check_csrf :: "web_operator \<Rightarrow> string \<Rightarrow> unit res" where
  "check_csrf operator supplied = bindr (csrf_ok (wo_csrf operator) (Some supplied)) (\<lambda>ok.
     if ok then Inr () else Inl (FormError ''this form expired; reload the page and try again''))"

definition healthz :: "web_env \<Rightarrow> web_response" where
  "healthz E = PlainText (''ok'' @ [newline] @ ''source '' @ w_digest E @ [newline] @ ''built '' @
     build_ref (w_environ E) @ '' '' @ build_time (w_environ E) @ [newline])"

definition stylesheet :: "web_env \<Rightarrow> web_response" where
  "stylesheet E = Css (w_css E) [(''Cache-Control'', ''max-age=300'')]"

definition login_form :: "admin_env \<Rightarrow> string option \<Rightarrow> (admin_state, web_response) sem" where
  "login_form A cookie = bindS (current_operator A cookie) (\<lambda>operator.
     if operator \<noteq> None then redirect ''/sources'' else render (LoginPage None))"

definition login :: "web_env \<Rightarrow> string \<Rightarrow> string \<Rightarrow> (admin_state, web_response) sem" where
  "login E username password =
     (let A = w_admin E in
      bindS (authenticate A username password) (\<lambda>ok.
      if \<not> ok then
        bindS (on_db A (\<lambda>i. audit (a_clock A i) username ''login.failed'' None [(''outcome'', JStr ''rejected'')])) (\<lambda>_.
        render (LoginPage (Some ''Incorrect username or password.'')))
      else
        bindS (begin_session A username) (\<lambda>(token, _).
        bindS (on_db A (\<lambda>i. audit (a_clock A i) username ''login.succeeded'' None [])) (\<lambda>_.
        returnS (SeeOther ''/sources'' (SetCookie
          \<lparr>ck_name = SESSION_COOKIE, ck_value = token, ck_httponly = True, ck_samesite = ''strict'',
           ck_secure = st_secure_cookie (w_settings E), ck_max_age = SESSION_LIFETIME, ck_path = ''/''\<rparr>))))))"

definition logout :: "admin_env \<Rightarrow> string option \<Rightarrow> (admin_state, web_response) sem" where
  "logout A cookie = bindS (end_session A cookie) (\<lambda>_.
     returnS (SeeOther ''/login'' (DeleteCookie SESSION_COOKIE ''/'')))"

section \<open>Sources\<close>

text \<open>\<open>if operator is None: return _login_required()\<close>\<close>

definition guarded ::
  "admin_env \<Rightarrow> string option \<Rightarrow> (web_operator \<Rightarrow> (admin_state, web_response) sem) \<Rightarrow> (admin_state, web_response) sem" where
  "guarded A cookie f = bindS (current_operator A cookie) (\<lambda>operator.
     case operator of None \<Rightarrow> login_required | Some op \<Rightarrow> f op)"

text \<open>The handlers of one source first look it up.\<close>

definition with_source ::
  "admin_env \<Rightarrow> web_operator \<Rightarrow> nat \<Rightarrow> (source \<Rightarrow> (admin_state, web_response) sem) \<Rightarrow> (admin_state, web_response) sem" where
  "with_source A op i f = bindS (on_db A (\<lambda>_. get_source i)) (\<lambda>source.
     case source of None \<Rightarrow> render (NotFoundPage (wo_username op)) | Some s \<Rightarrow> f s)"

definition sources_page :: "admin_env \<Rightarrow> web_operator \<Rightarrow> (admin_state, web_response) sem" where
  "sources_page A op = bindS (on_db A (\<lambda>_. list_sources)) (\<lambda>xs. render (SourcesPage (wo_username op) xs))"

definition selected_forge :: "string \<Rightarrow> forge" where
  "selected_forge raw = (case forge_of raw of None \<Rightarrow> GITHUB | Some f \<Rightarrow> f)"

definition new_source :: "string \<Rightarrow> web_operator \<Rightarrow> (admin_state, web_response) sem" where
  "new_source forge op = (let selected = selected_forge forge in
     render (NewSourcePage (wo_username op) selected (DEFAULT_API_BASE selected) None Map.empty))"

text \<open>\<open>str(data.get(key, fallback))\<close>, and \<open>str(data.get(key) or fallback)\<close>.\<close>

definition field_str :: "form \<Rightarrow> string \<Rightarrow> string \<Rightarrow> string" where
  "field_str data key fallback = (case data key of
     None \<Rightarrow> fallback | Some (FText v) \<Rightarrow> v | Some (FFile v) \<Rightarrow> v)"

definition field_or :: "form \<Rightarrow> string \<Rightarrow> string \<Rightarrow> string" where
  "field_or data key fallback = (case data key of
     None \<Rightarrow> fallback | Some (FText v) \<Rightarrow> or_else v fallback | Some (FFile v) \<Rightarrow> v)"

fun forge_name :: "forge \<Rightarrow> string" where
  "forge_name GITHUB = ''github''" | "forge_name GITLAB = ''gitlab''"

definition create_source :: "web_env \<Rightarrow> form \<Rightarrow> web_operator \<Rightarrow> (admin_state, web_response) sem" where
  "create_source E data op =
     (let A = w_admin E; user = wo_username op; selected = selected_forge (field_str data ''forge'' ''github'') in
      catchS form_or_store_error
        (bindS (liftS (check_csrf op (field_str data ''csrf'' []))) (\<lambda>_.
         at_step (\<lambda>i. bindS (liftS (source_from_form (w_forms E) (a_uuid A i) data user)) (\<lambda>source.
           on_db A (\<lambda>i. add_source (a_clock A i) source)))))
        (\<lambda>message. render (NewSourcePage user selected (field_or data ''api_base'' (DEFAULT_API_BASE selected)) (Some message) data))
        (\<lambda>created.
         bindS (on_db A (\<lambda>i. audit (a_clock A i) user ''source.added'' (Some (so_id created))
           [(''app_id'', JStr (so_app_id created)), (''forge'', JStr (forge_name (so_forge created))),
            (''project'', JStr (so_project created)), (''critical'', JBool (so_critical created))])) (\<lambda>_.
         bindS (on_db A (\<lambda>i. enqueue (a_clock A i) (a_uuid A i) (so_id created) VALIDATE user [])) (\<lambda>_.
         bindS (on_db A (\<lambda>i. set_status (a_clock A i) (so_id created) VALIDATING None)) (\<lambda>_.
         redirect (source_url (so_id created)))))))"

definition source_detail :: "admin_env \<Rightarrow> nat \<Rightarrow> web_operator \<Rightarrow> (admin_state, web_response) sem" where
  "source_detail A i op = with_source A op i (\<lambda>s.
     bindS (on_db A (\<lambda>_. recent_jobs i 10)) (\<lambda>jobs. render (SourceDetailPage (wo_username op) s jobs)))"

definition edit_source_form :: "admin_env \<Rightarrow> nat \<Rightarrow> web_operator \<Rightarrow> (admin_state, web_response) sem" where
  "edit_source_form A i op = with_source A op i (\<lambda>s. render (SourceEditPage (wo_username op) s None))"

definition column_text :: "column_value \<Rightarrow> string" where
  "column_text v = (case v of CText t \<Rightarrow> t | CInt n \<Rightarrow> dec_int n | CBool b \<Rightarrow> (if b then ''True'' else ''False''))"

definition edit_source :: "web_env \<Rightarrow> nat \<Rightarrow> form \<Rightarrow> web_operator \<Rightarrow> (admin_state, web_response) sem" where
  "edit_source E i data op =
     (let A = w_admin E; user = wo_username op in
      with_source A op i (\<lambda>source.
        let failed = (\<lambda>message. render (SourceEditPage user source (Some message))) in
        catchS form_error
          (liftS (bindr (check_csrf op (field_str data ''csrf'' [])) (\<lambda>_. source_edit_from_form data source)))
          failed
          (\<lambda>cols. if cols = [] then redirect (source_url i)
            else catchS store_error (on_db A (\<lambda>k. update_source (a_clock A k) i cols)) failed
              (\<lambda>_. bindS (on_db A (\<lambda>k. audit (a_clock A k) user ''source.edited'' (Some i)
                     (map (\<lambda>(k, v). (k, JStr (column_text v))) cols))) (\<lambda>_.
                   redirect (source_url i))))))"

text \<open>The effect of a control, and the action to record for it.\<close>

definition source_action :: "admin_env \<Rightarrow> nat \<Rightarrow> string \<Rightarrow> string \<Rightarrow> web_operator \<Rightarrow> (admin_state, web_response) sem" where
  "source_action A i action csrf op =
     (let user = wo_username op;
          recording = (\<lambda>recorded. bindS (on_db A (\<lambda>k. audit (a_clock A k) user recorded (Some i) [])) (\<lambda>_.
            redirect (source_url i))) in
      with_source A op i (\<lambda>source.
        catchS form_error (liftS (check_csrf op csrf)) (\<lambda>_. redirect (source_url i)) (\<lambda>_.
          if action = ''validate'' then
            bindS (on_db A (\<lambda>k. enqueue (a_clock A k) (a_uuid A k) i VALIDATE user [])) (\<lambda>_.
            bindS (on_db A (\<lambda>k. set_status (a_clock A k) i VALIDATING None)) (\<lambda>_.
            recording (''source.'' @ action)))
          else if action = ''poll'' then
            if pollable source
            then bindS (on_db A (\<lambda>k. enqueue (a_clock A k) (a_uuid A k) i POLL user [])) (\<lambda>_.
              recording (''source.'' @ action))
            else recording ''source.poll.refused''
          else if action = ''pause'' then
            bindS (on_db A (\<lambda>k. set_status (a_clock A k) i PAUSED None)) (\<lambda>_.
            recording (''source.'' @ action))
          else if action = ''delete'' then
            bindS (on_db A (\<lambda>_. delete_source i)) (\<lambda>_.
            bindS (on_db A (\<lambda>k. audit (a_clock A k) user ''source.deleted'' None [(''app_id'', JStr (so_app_id source))])) (\<lambda>_.
            redirect ''/sources''))
          else redirect (source_url i))))"

definition audit_page :: "admin_env \<Rightarrow> web_operator \<Rightarrow> (admin_state, web_response) sem" where
  "audit_page A op = bindS (on_db A (\<lambda>_. recent_audit 100)) (\<lambda>xs. render (AuditPage (wo_username op) xs))"

section \<open>The application\<close>

datatype request =
    Healthz
  | Stylesheet
  | LoginForm
  | Login string string
  | Logout
  | Index
  | ListSources
  | NewSource string
  | CreateSource form
  | SourceDetail nat
  | EditSourceForm nat
  | EditSource nat form
  | SourceAction nat string string
  | AuditLog

fun handle :: "web_env \<Rightarrow> string option \<Rightarrow> request \<Rightarrow> (admin_state, web_response) sem" where
  "handle E cookie Healthz = returnS (healthz E)"
| "handle E cookie Stylesheet = returnS (stylesheet E)"
| "handle E cookie LoginForm = login_form (w_admin E) cookie"
| "handle E cookie (Login username password) = login E username password"
| "handle E cookie Logout = logout (w_admin E) cookie"
| "handle E cookie Index = redirect ''/sources''"
| "handle E cookie ListSources = guarded (w_admin E) cookie (sources_page (w_admin E))"
| "handle E cookie (NewSource forge) = guarded (w_admin E) cookie (new_source forge)"
| "handle E cookie (CreateSource data) = guarded (w_admin E) cookie (create_source E data)"
| "handle E cookie (SourceDetail i) = guarded (w_admin E) cookie (source_detail (w_admin E) i)"
| "handle E cookie (EditSourceForm i) = guarded (w_admin E) cookie (edit_source_form (w_admin E) i)"
| "handle E cookie (EditSource i data) = guarded (w_admin E) cookie (edit_source E i data)"
| "handle E cookie (SourceAction i action csrf) = guarded (w_admin E) cookie (source_action (w_admin E) i action csrf)"
| "handle E cookie AuditLog = guarded (w_admin E) cookie (audit_page (w_admin E))"

text \<open>Starting: the schema is already applied.\<close>

definition startup :: "web_env \<Rightarrow> (admin_state, unit) sem" where
  "startup E = bindS (bootstrap_operator (w_admin E) (w_settings E)) (\<lambda>_.
     on_db (w_admin E) (\<lambda>i. purge_expired_sessions (a_clock (w_admin E) i)))"

fun serve :: "web_env \<Rightarrow> (string option \<times> request) list \<Rightarrow> admin_state \<Rightarrow> admin_state" where
  "serve E [] s = s"
| "serve E ((cookie, req) # rest) s = serve E rest (snd (handle E cookie req s))"

end
