(* ===== verification/AdminProps.thy ===== *)
theory AdminProps
  imports Admin StoreClaims
begin

text \<open>
  What the transactions of a request do: \<open>emits P m\<close> says that every transaction \<open>m\<close> runs takes the
  registry from \<open>d\<close> to a \<open>d'\<close> with \<open>P d d'\<close>, \<open>surely P m\<close> that one of them does whenever \<open>m\<close> returns.
  Both compose along the handlers.
\<close>

definition own_steps :: "admin_state \<Rightarrow> admin_state \<Rightarrow> (db \<times> db) list" where
  "own_steps s s' = take (length (as_log s') - length (as_log s)) (as_log s')"

definition emits :: "(db \<Rightarrow> db \<Rightarrow> bool) \<Rightarrow> (admin_state, 'a) sem \<Rightarrow> bool" where
  "emits P m \<longleftrightarrow> (\<forall>s. \<exists>new. as_log (snd (m s)) = new @ as_log s \<and> (\<forall>(d, d') \<in> set new. P d d'))"

named_theorems emits_intro "rules for the transactions of a statement"

lemma emits_own:
  assumes "emits P m" "m s = (r, s')"
  shows "as_log s' = own_steps s s' @ as_log s" "(d, d') \<in> set (own_steps s s') \<Longrightarrow> P d d'"
proof -
  obtain new where n: "as_log s' = new @ as_log s" "\<forall>(d, d') \<in> set new. P d d'"
    using assms unfolding emits_def by (metis snd_conv)
  then have "own_steps s s' = new" by (simp add: own_steps_def)
  with n show "as_log s' = own_steps s s' @ as_log s" "(d, d') \<in> set (own_steps s s') \<Longrightarrow> P d d'" by auto
qed

lemma own_steps_self [simp]: "own_steps s s = []"
  by (simp add: own_steps_def)

lemma own_steps_trans:
  assumes "as_log s1 = new1 @ as_log s" "as_log s2 = new2 @ as_log s1"
  shows "own_steps s s2 = own_steps s1 s2 @ own_steps s s1"
  using assms by (simp add: own_steps_def)

lemma emits_mono: "emits P m \<Longrightarrow> (\<And>d d'. P d d' \<Longrightarrow> Q d d') \<Longrightarrow> emits Q m"
  unfolding emits_def by fast

lemma emits_pure [emits_intro]:
  "emits P (returnS x)" "emits P (raiseS e)" "emits P (liftS r)" "emits P (refuseS b e)"
  by (auto simp: emits_def sem_defs)

lemma emits_page [emits_intro]: "emits P (render p)" "emits P (redirect u)" "emits P login_required"
  by (simp_all add: render_def redirect_def login_required_def emits_intro)

lemma emits_on_db [emits_intro]:
  assumes "\<And>i d. P d (snd (f i d))"
  shows "emits P (on_db E f)"
  unfolding emits_def
proof
  fix s
  have "as_log (snd (on_db E f s)) = [(a_others E (length (as_log s)) (as_db s),
      snd (f (length (as_log s)) (a_others E (length (as_log s)) (as_db s))))] @ as_log s"
    by (simp add: on_db_def Let_def split: prod.split)
  then show "\<exists>new. as_log (snd (on_db E f s)) = new @ as_log s \<and> (\<forall>(d, d') \<in> set new. P d d')"
    using assms by fastforce
qed

lemma emits_hash [emits_intro]: "emits P (hash_password E p salt)"
  by (simp add: emits_def hash_password_def Let_def)

lemma emits_at_step [emits_intro]: "(\<And>i. emits P (f i)) \<Longrightarrow> emits P (at_step f)"
  by (simp add: emits_def at_step_def)

lemma emits_bindS [emits_intro]:
  assumes "emits P m" "\<And>x. emits P (f x)"
  shows "emits P (bindS m f)"
  unfolding emits_def
proof
  fix s
  obtain r s1 where m: "m s = (r, s1)" by fastforce
  obtain new1 where n1: "as_log s1 = new1 @ as_log s" "\<forall>(d, d') \<in> set new1. P d d'"
    using assms(1) m unfolding emits_def by (metis snd_conv)
  show "\<exists>new. as_log (snd (bindS m f s)) = new @ as_log s \<and> (\<forall>(d, d') \<in> set new. P d d')"
  proof (cases r)
    case (Inr x)
    obtain new2 where "as_log (snd (f x s1)) = new2 @ as_log s1" "\<forall>(d, d') \<in> set new2. P d d'"
      using assms(2) [of x] unfolding emits_def by metis
    with n1 m Inr show ?thesis by (intro exI [of _ "new2 @ new1"]) (auto simp: bindS_def)
  qed (use n1 m in \<open>auto simp: bindS_def\<close>)
qed

lemma catchS_eq: "catchS c m h rest s = (case m s of
    (Inl e, s1) \<Rightarrow> (case c e of None \<Rightarrow> (Inl e, s1) | Some t \<Rightarrow> h t s1) | (Inr x, s1) \<Rightarrow> rest x s1)"
  by (simp add: catchS_def)

lemma emits_catchS [emits_intro]:
  assumes "emits P m" "\<And>t. emits P (h t)" "\<And>x. emits P (rest x)"
  shows "emits P (catchS c m h rest)"
  unfolding emits_def
proof
  fix s
  obtain r s1 where m: "m s = (r, s1)" by fastforce
  obtain new1 where n1: "as_log s1 = new1 @ as_log s" "\<forall>(d, d') \<in> set new1. P d d'"
    using assms(1) m unfolding emits_def by (metis snd_conv)
  have after: "\<exists>new. as_log (snd (k s1)) = new @ as_log s \<and> (\<forall>(d, d') \<in> set new. P d d')"
    if k: "emits P k" for k :: "(admin_state, 'b) sem"
  proof -
    obtain new2 where "as_log (snd (k s1)) = new2 @ as_log s1" "\<forall>(d, d') \<in> set new2. P d d'"
      using k unfolding emits_def by metis
    with n1 show ?thesis by (intro exI [of _ "new2 @ new1"]) auto
  qed
  show "\<exists>new. as_log (snd (catchS c m h rest s)) = new @ as_log s \<and> (\<forall>(d, d') \<in> set new. P d d')"
  proof (cases r)
    case (Inl e)
    then show ?thesis using after [OF assms(2)] n1 m by (cases "c e") (auto simp: catchS_eq)
  next
    case (Inr x)
    then show ?thesis using after [OF assms(3)] m by (simp add: catchS_eq)
  qed
qed

lemma emits_branch [emits_intro]:
  "emits P m \<Longrightarrow> emits P n \<Longrightarrow> emits P (if b then m else n)"
  "emits P n \<Longrightarrow> (\<And>x. emits P (k x)) \<Longrightarrow> emits P (case z of None \<Rightarrow> n | Some x \<Rightarrow> k x)"
  "(\<And>x y. emits P (g x y)) \<Longrightarrow> emits P (case p of (x, y) \<Rightarrow> g x y)"
  by (simp_all split: option.split prod.split)

lemma emits_query [emits_intro]:
  assumes "\<And>d. P d d"
  shows "emits P (on_db E (\<lambda>i. queryS (q i)))"
  by (intro emits_intro) (simp add: queryS_def assms)

lemmas query_defs = get_source_def list_sources_def recent_jobs_def recent_audit_def get_operator_def operator_count_def
  get_session_def list_operators_def

section \<open>The transactions of the application\<close>

fun admin_op :: "db_op \<Rightarrow> bool" where
  "admin_op (AddSource s) = True"
| "admin_op (UpdateSource i cols) = True"
| "admin_op (SetStatus i st err) \<longleftrightarrow> st \<in> {VALIDATING, PAUSED}"
| "admin_op (DeleteSource i) = True"
| "admin_op (Enqueue uuid i kind who payload) \<longleftrightarrow> kind \<in> {VALIDATE, POLL} \<and> payload = []"
| "admin_op (Audit actor action src detail) = True"
| "admin_op (CreateSession t u c e) = True"
| "admin_op (DeleteSession t) = True"
| "admin_op op = False"

definition admin_step :: "db \<Rightarrow> db \<Rightarrow> bool" where
  "admin_step d d' \<longleftrightarrow> d' = d \<or> (\<exists>now op. admin_op op \<and> d' = db_step now op d)"

lemma admin_stepI:
  "admin_step d d"
  "admin_step d (snd (add_source now s d))"
  "admin_step d (snd (update_source now i cols d))"
  "admin_step d (snd (set_status now i VALIDATING err d))"
  "admin_step d (snd (set_status now i PAUSED err d))"
  "admin_step d (snd (delete_source i d))"
  "admin_step d (snd (enqueue now u i VALIDATE who [] d))"
  "admin_step d (snd (enqueue now u i POLL who [] d))"
  "admin_step d (snd (audit now actor action src detail d))"
  "admin_step d (snd (create_session t u' c e d))"
  "admin_step d (snd (delete_session t d))"
  unfolding admin_step_def
  by (rule disjI1, simp)
    (rule disjI2, (metis db_step.simps admin_op.simps insertI1 insertI2))+

lemma emits_session [emits_intro]:
  assumes "\<And>d. P d d"
  shows "emits P (current_operator A cookie)" "emits P (session_for A cookie)"
  unfolding current_operator_def session_for_def query_defs by (intro emits_intro assms)+

lemma emits_guarded [emits_intro]: "(\<And>d. P d d) \<Longrightarrow> (\<And>op. emits P (f op)) \<Longrightarrow> emits P (guarded A cookie f)"
  unfolding guarded_def by (intro emits_intro)

lemma emits_with_source [emits_intro]: "(\<And>d. P d d) \<Longrightarrow> (\<And>s. emits P (f s)) \<Longrightarrow> emits P (with_source A op i f)"
  unfolding with_source_def query_defs by (intro emits_intro)

lemma emits_authenticate [emits_intro]: "(\<And>d. P d d) \<Longrightarrow> emits P (authenticate A u p)"
  unfolding authenticate_def verify_password_def by (intro emits_intro) (simp add: get_operator_def queryS_def)

lemma emits_reads [emits_intro]:
  assumes "\<And>d. P d d"
  shows "emits P (sources_page A op)" "emits P (new_source f op)" "emits P (source_detail A i op)"
    "emits P (edit_source_form A i op)" "emits P (audit_page A op)" "emits P (login_form A cookie)"
  unfolding sources_page_def new_source_def source_detail_def edit_source_form_def audit_page_def login_form_def query_defs Let_def
  by (intro emits_intro assms)+

lemma handler_steps [emits_intro]:
  "emits admin_step (login E u p)" "emits admin_step (logout A cookie)"
  "emits admin_step (create_source E data op)" "emits admin_step (edit_source E i data op)"
  "emits admin_step (source_action A i action csrf op)"
  unfolding login_def logout_def begin_session_def end_session_def create_source_def edit_source_def source_action_def Let_def
  by (intro emits_intro admin_stepI)+

lemma handle_steps: "emits admin_step (handle E cookie req)"
  by (cases req; simp only: handle.simps; intro emits_intro admin_stepI)

section \<open>What a request that returns has done\<close>

definition surely :: "(db \<Rightarrow> db \<Rightarrow> bool) \<Rightarrow> (admin_state, 'a) sem \<Rightarrow> bool" where
  "surely P m \<longleftrightarrow> (\<forall>s x s'. m s = (Inr x, s') \<longrightarrow> (\<exists>(d, d') \<in> set (own_steps s s'). P d d'))"

text \<open>\<open>settles Q P m\<close>: when \<open>m\<close> returns, either each of its transactions is a \<open>Q\<close> or one is a \<open>P\<close>.\<close>

definition settles :: "(db \<Rightarrow> db \<Rightarrow> bool) \<Rightarrow> (db \<Rightarrow> db \<Rightarrow> bool) \<Rightarrow> (admin_state, 'a) sem \<Rightarrow> bool" where
  "settles Q P m \<longleftrightarrow> (\<forall>s x s'. m s = (Inr x, s') \<longrightarrow>
     (\<forall>(d, d') \<in> set (own_steps s s'). Q d d') \<or> (\<exists>(d, d') \<in> set (own_steps s s'). P d d'))"

abbreviation logs :: "(admin_state, 'a) sem \<Rightarrow> bool" where
  "logs \<equiv> emits (\<lambda>_ _. True)"

lemma logsI: "emits P m \<Longrightarrow> logs m"
  by (erule emits_mono) simp

lemma own_steps_bind:
  assumes "logs m" "m s = (r, s1)" "logs n" "n s1 = (r', s')"
  shows "own_steps s s' = own_steps s1 s' @ own_steps s s1"
  by (rule own_steps_trans [OF emits_own(1) [OF assms(1,2)] emits_own(1) [OF assms(3,4)]])

lemma settles_surely: "surely P m \<Longrightarrow> settles Q P m"
  by (simp add: surely_def settles_def)

lemma settles_emits: "emits Q m \<Longrightarrow> settles Q P m"
  unfolding settles_def using emits_own(2) by fastforce

lemma surely_then:
  assumes "logs m" "\<And>x. surely P (f x)" "\<And>x. logs (f x)"
  shows "surely P (bindS m f)"
  unfolding surely_def
proof (intro allI impI)
  fix s y s' assume "bindS m f s = (Inr y, s')"
  then obtain x s1 where x: "m s = (Inr x, s1)" "f x s1 = (Inr y, s')" by (rule bindS_InrE)
  with assms(2) have "\<exists>(d, d') \<in> set (own_steps s1 s'). P d d'" unfolding surely_def by blast
  then show "\<exists>(d, d') \<in> set (own_steps s s'). P d d'"
    unfolding own_steps_bind [OF assms(1) x(1) assms(3) x(2)] by auto
qed

lemma surely_first:
  assumes "surely P m" "logs m" "\<And>x. logs (f x)"
  shows "surely P (bindS m f)"
  unfolding surely_def
proof (intro allI impI)
  fix s y s' assume "bindS m f s = (Inr y, s')"
  then obtain x s1 where x: "m s = (Inr x, s1)" "f x s1 = (Inr y, s')" by (rule bindS_InrE)
  with assms(1) have "\<exists>(d, d') \<in> set (own_steps s s1). P d d'" unfolding surely_def by blast
  then show "\<exists>(d, d') \<in> set (own_steps s s'). P d d'"
    unfolding own_steps_bind [OF assms(2) x(1) assms(3) x(2)] by auto
qed

lemma surely_on_db:
  assumes "\<And>i d x d'. f i d = (Inr x, d') \<Longrightarrow> P d d'"
  shows "surely P (on_db E f)"
  unfolding surely_def
proof (intro allI impI)
  fix s x s' assume run: "on_db E f s = (Inr x, s')"
  let ?i = "length (as_log s)" and ?d = "a_others E (length (as_log s)) (as_db s)"
  obtain d' where d': "f ?i ?d = (Inr x, d')" "own_steps s s' = [(?d, d')]"
    using run by (auto simp: on_db_def own_steps_def Let_def split: prod.splits)
  from assms [OF d'(1)] d'(2) show "\<exists>(d, d') \<in> set (own_steps s s'). P d d'" by simp
qed

lemma settles_then:
  assumes "emits Q m" "\<And>x. settles Q P (f x)" "\<And>x. logs (f x)"
  shows "settles Q P (bindS m f)"
  unfolding settles_def
proof (intro allI impI)
  fix s y s' assume "bindS m f s = (Inr y, s')"
  then obtain x s1 where x: "m s = (Inr x, s1)" "f x s1 = (Inr y, s')" by (rule bindS_InrE)
  with assms(2) have "(\<forall>(d, d') \<in> set (own_steps s1 s'). Q d d') \<or> (\<exists>(d, d') \<in> set (own_steps s1 s'). P d d')"
    unfolding settles_def by blast
  then show "(\<forall>(d, d') \<in> set (own_steps s s'). Q d d') \<or> (\<exists>(d, d') \<in> set (own_steps s s'). P d d')"
    unfolding own_steps_bind [OF logsI [OF assms(1)] x(1) assms(3) x(2)] using emits_own(2) [OF assms(1) x(1)] by auto
qed

text \<open>\<open>raising Q m\<close>: when \<open>m\<close> raises, each of its transactions is a \<open>Q\<close>.\<close>

definition raising :: "(db \<Rightarrow> db \<Rightarrow> bool) \<Rightarrow> (admin_state, 'a) sem \<Rightarrow> bool" where
  "raising Q m \<longleftrightarrow> (\<forall>s e s'. m s = (Inl e, s') \<longrightarrow> (\<forall>(d, d') \<in> set (own_steps s s'). Q d d'))"

lemma raising_emits: "emits Q m \<Longrightarrow> raising Q m"
  unfolding raising_def using emits_own(2) by fastforce

lemma raising_on_db: "(\<And>i d e d'. f i d = (Inl e, d') \<Longrightarrow> Q d d') \<Longrightarrow> raising Q (on_db E f)"
  by (auto simp: raising_def on_db_def own_steps_def Let_def split: prod.splits)

lemma raising_at_step: "(\<And>i. raising Q (f i)) \<Longrightarrow> raising Q (at_step f)"
  by (simp add: raising_def at_step_def)

lemma raising_bindS:
  assumes "emits Q m" "\<And>x. raising Q (f x)" "\<And>x. logs (f x)"
  shows "raising Q (bindS m f)"
  unfolding raising_def
proof (intro allI impI)
  fix s e s' assume run: "bindS m f s = (Inl e, s')"
  obtain r s1 where m: "m s = (r, s1)" by fastforce
  show "\<forall>(d, d') \<in> set (own_steps s s'). Q d d'"
  proof (cases r)
    case (Inl e')
    with run m have "s' = s1" by (simp add: bindS_def)
    then show ?thesis using emits_own(2) [OF assms(1) m] by auto
  next
    case (Inr x)
    with run m have x: "f x s1 = (Inl e, s')" by (simp add: bindS_def)
    with assms(2) have "\<forall>(d, d') \<in> set (own_steps s1 s'). Q d d'" unfolding raising_def by blast
    then show ?thesis
      unfolding own_steps_bind [OF logsI [OF assms(1)] m assms(3) x] using emits_own(2) [OF assms(1) m] by auto
  qed
qed

text \<open>A \<open>try\<close> whose body is a \<open>Q\<close> where it raises.\<close>

lemma settles_catchS:
  assumes "logs m" "raising Q m"
    and "\<And>t. emits Q (h t)"
    and "(\<forall>x. surely P (rest x)) \<or> emits Q m \<and> (\<forall>x. settles Q P (rest x))" "\<And>x. logs (rest x)"
  shows "settles Q P (catchS c m h rest)"
  unfolding settles_def
proof (intro allI impI)
  fix s y s' assume run: "catchS c m h rest s = (Inr y, s')"
  obtain r s1 where m: "m s = (r, s1)" by fastforce
  show "(\<forall>(d, d') \<in> set (own_steps s s'). Q d d') \<or> (\<exists>(d, d') \<in> set (own_steps s s'). P d d')"
  proof (cases r)
    case (Inl e)
    with m run obtain t where t: "h t s1 = (Inr y, s')" by (auto simp: catchS_eq split: option.splits)
    have "own_steps s s' = own_steps s1 s' @ own_steps s s1"
      by (rule own_steps_bind [OF assms(1) m logsI [OF assms(3)] t])
    moreover have "\<forall>(d, d') \<in> set (own_steps s s1). Q d d'" using assms(2) m Inl unfolding raising_def by blast
    ultimately show ?thesis using emits_own(2) [OF assms(3) t] by auto
  next
    case (Inr x)
    with m run have x: "rest x s1 = (Inr y, s')" by (simp add: catchS_eq)
    have o: "own_steps s s' = own_steps s1 s' @ own_steps s s1"
      by (rule own_steps_bind [OF assms(1) m assms(5) x])
    from assms(4) show ?thesis
    proof
      assume "\<forall>x. surely P (rest x)"
      then have "\<exists>(d, d') \<in> set (own_steps s1 s'). P d d'" using x unfolding surely_def by blast
      then show ?thesis unfolding o by auto
    next
      assume q: "emits Q m \<and> (\<forall>x. settles Q P (rest x))"
      then have "(\<forall>(d, d') \<in> set (own_steps s1 s'). Q d d') \<or> (\<exists>(d, d') \<in> set (own_steps s1 s'). P d d')"
        using x unfolding settles_def by blast
      then show ?thesis unfolding o using emits_own(2) [OF conjunct1 [OF q] m] by auto
    qed
  qed
qed

lemma settles_with_source:
  assumes "\<And>d. Q d d" "\<And>s. settles Q P (f s)" "\<And>s. logs (f s)"
  shows "settles Q P (with_source A op i f)"
  unfolding with_source_def get_source_def
proof (rule settles_then)
  show "settles Q P (case x of None \<Rightarrow> render (NotFoundPage (wo_username op)) | Some s \<Rightarrow> f s)" for x
    using assms(2) by (auto split: option.split intro: settles_emits emits_intro)
qed (intro emits_intro assms; simp)+

lemma settles_check:
  "(\<And>t. emits Q (h t)) \<Longrightarrow> (\<And>x. settles Q P (rest x)) \<Longrightarrow> (\<And>x. logs (rest x)) \<Longrightarrow>
     settles Q P (catchS c (liftS r) h rest)"
  by (intro settles_catchS raising_emits disjI2 conjI allI emits_intro)

lemma settles_if: "(b \<Longrightarrow> settles Q P m) \<Longrightarrow> (\<not> b \<Longrightarrow> settles Q P n) \<Longrightarrow> settles Q P (if b then m else n)"
  by simp

end
