(* ===== verification/AuthClaims.thy ===== *)
theory AuthClaims
  imports AdminProps
begin

text \<open>
  Passwords, accounts and sessions: what a login proves, how long a session lasts, and that neither
  the bootstrap variable nor \<^verbatim>\<open>operators add\<close> replaces an account.
\<close>

section \<open>The session table as an interface\<close>

text \<open>What the admin plane relies on: a token opened for a live account answers until it expires, a
  token that was dropped never does, and neither touches another token.\<close>

type_synonym session_ops = "((string \<times> string \<times> string \<times> int) + string) list"

text \<open>Logins and logouts as a list of steps: \<open>Inl\<close> opens a session, \<open>Inr\<close> ends one.\<close>

fun begun :: "session_ops \<Rightarrow> string set" where
  "begun [] = {}"
| "begun (Inl (t, u, c, e) # ops) = insert t (begun ops)"
| "begun (Inr t # ops) = begun ops"

fun ended :: "session_ops \<Rightarrow> string set" where
  "ended [] = {}"
| "ended (Inl x # ops) = ended ops"
| "ended (Inr t # ops) = insert t (ended ops)"

fun session_steps ::
  "(string \<Rightarrow> string \<Rightarrow> string \<Rightarrow> int \<Rightarrow> 'd \<Rightarrow> 'd) \<Rightarrow> (string \<Rightarrow> 'd \<Rightarrow> 'd) \<Rightarrow> session_ops \<Rightarrow> 'd \<Rightarrow> 'd" where
  "session_steps create erase [] d = d"
| "session_steps create erase (Inl (t, u, c, e) # ops) d = session_steps create erase ops (create t u c e d)"
| "session_steps create erase (Inr t # ops) d = session_steps create erase ops (erase t d)"

locale session_store =
  fixes live :: "string \<Rightarrow> 'd \<Rightarrow> bool"
    and create :: "string \<Rightarrow> string \<Rightarrow> string \<Rightarrow> int \<Rightarrow> 'd \<Rightarrow> 'd"
    and opened :: "string \<Rightarrow> 'd \<Rightarrow> bool"
    and look :: "int \<Rightarrow> string \<Rightarrow> 'd \<Rightarrow> (string \<times> string) option"
    and erase :: "string \<Rightarrow> 'd \<Rightarrow> 'd"
    and fits :: "string \<Rightarrow> string \<Rightarrow> bool"
  assumes create_look: "\<not> opened t d \<Longrightarrow> fits u c \<Longrightarrow> look now t (create t u c e d) = (if live u d \<and> now < e then Some (u, c) else None)"
    and create_frame: "t' \<noteq> t \<Longrightarrow> look now t' (create t u c e d) = look now t' d"
    and create_live: "live u' (create t u c e d) = live u' d"
    and create_opened: "opened t' (create t u c e d) \<Longrightarrow> opened t' d \<or> t' = t"
    and closed_look: "\<not> opened t d \<Longrightarrow> look now t d = None"
    and erase_opened: "opened t' (erase t d) \<longleftrightarrow> opened t' d \<and> t' \<noteq> t"
    and erase_frame: "t' \<noteq> t \<Longrightarrow> look now t' (erase t d) = look now t' d"
    and erase_live: "live u (erase t d) = live u d"
begin

lemma others_do_not_matter:
  "t \<notin> begun ops \<Longrightarrow> t \<notin> ended ops \<Longrightarrow>
     look now t (session_steps create erase ops d) = look now t d"
  by (induction ops arbitrary: d rule: begun.induct) (auto simp: create_frame erase_frame)

lemma session_lives:
  assumes "\<not> opened t d" "fits u c" "live u d" "t \<notin> begun ops" "t \<notin> ended ops"
  shows "look now t (session_steps create erase ops (create t u c e d)) = (if now < e then Some (u, c) else None)"
  using assms others_do_not_matter create_look by simp

lemma logout_is_final:
  assumes "t \<notin> begun ops"
  shows "look now t (session_steps create erase ops (erase t d)) = None"
proof -
  have "\<not> opened t d \<Longrightarrow> \<not> opened t (session_steps create erase ops d)" for d
    using assms
    by (induction ops arbitrary: d rule: begun.induct) (auto simp: erase_opened dest: create_opened)
  then show ?thesis by (intro closed_look) (simp add: erase_opened)
qed

end

definition live_account :: "string \<Rightarrow> db \<Rightarrow> bool" where
  "live_account u d \<longleftrightarrow> (\<exists>r. operator_at u d = Some r \<and> \<not> op_disabled r)"

definition token_open :: "string \<Rightarrow> db \<Rightarrow> bool" where
  "token_open t d \<longleftrightarrow> session_at t d \<noteq> None"

definition open_session :: "string \<Rightarrow> string \<Rightarrow> string \<Rightarrow> int \<Rightarrow> db \<Rightarrow> db" where
  "open_session t u c e d = snd (create_session t u c e d)"

definition who_is :: "int \<Rightarrow> string \<Rightarrow> db \<Rightarrow> (string \<times> string) option" where
  "who_is now t d = (case get_session now t d of
     (Inr (Some se), _) \<Rightarrow> Some (se_username se, se_csrf_token se) | _ \<Rightarrow> None)"

definition session_fits :: "string \<Rightarrow> string \<Rightarrow> bool" where
  "session_fits u c \<longleftrightarrow> storable [u, c] []"

definition close_session :: "string \<Rightarrow> db \<Rightarrow> db" where
  "close_session t d = snd (delete_session t d)"

lemma session_at_append:
  "session_at t (d\<lparr>d_sessions := d_sessions d @ [x]\<rparr>) = (case session_at t d of
     None \<Rightarrow> if se_token_sha256 x = t then Some x else None | Some y \<Rightarrow> Some y)"
proof -
  have "find (\<lambda>s. se_token_sha256 s = t) (xs @ [x]) = (case find (\<lambda>s. se_token_sha256 s = t) xs of
     None \<Rightarrow> if se_token_sha256 x = t then Some x else None | Some y \<Rightarrow> Some y)" for xs
    by (induction xs) auto
  then show ?thesis by (simp add: session_at_def)
qed

lemma session_at_filter:
  "session_at t' (d\<lparr>d_sessions := filter (\<lambda>s. se_token_sha256 s \<noteq> t) (d_sessions d)\<rparr>) = (if t' = t then None else session_at t' d)"
proof -
  have "find (\<lambda>s. se_token_sha256 s = t') (filter (\<lambda>s. se_token_sha256 s \<noteq> t) xs)
      = (if t' = t then None else find (\<lambda>s. se_token_sha256 s = t') xs)" for xs
    by (induction xs) auto
  from this [of "d_sessions d"] show ?thesis by (simp add: session_at_def)
qed

lemma operator_at_sessions [simp]: "operator_at u (d\<lparr>d_sessions := x\<rparr>) = operator_at u d"
  by (simp add: operator_at_def)

lemma who_is_eq: "who_is now t d = (case session_at t d of None \<Rightarrow> None | Some s \<Rightarrow>
    if now < se_expires_at s \<and> live_account (se_username s) d then Some (se_username s, se_csrf_token s) else None)"
  by (auto simp: who_is_def get_session_def queryS_def live_account_def split: option.split)

interpretation sessions: session_store live_account open_session token_open who_is close_session session_fits
proof
  fix t t' u u' c e d now
  show "\<not> token_open t d \<Longrightarrow> session_fits u c \<Longrightarrow> who_is now t (open_session t u c e d) = (if live_account u d \<and> now < e then Some (u, c) else None)"
    by (auto simp: who_is_eq open_session_def create_session_def token_open_def session_at_append live_account_def session_fits_def)
  show "t' \<noteq> t \<Longrightarrow> who_is now t' (open_session t u c e d) = who_is now t' d"
    by (auto simp: who_is_eq open_session_def create_session_def session_at_append live_account_def split: option.split)
  show "live_account u' (open_session t u c e d) = live_account u' d"
    by (auto simp: open_session_def create_session_def live_account_def)
  show "token_open t' (open_session t u c e d) \<Longrightarrow> token_open t' d \<or> t' = t"
    by (auto simp: open_session_def create_session_def token_open_def session_at_append split: if_splits option.splits)
  show "\<not> token_open t d \<Longrightarrow> who_is now t d = None"
    by (simp add: who_is_eq token_open_def)
  show "token_open t' (close_session t d) \<longleftrightarrow> token_open t' d \<and> t' \<noteq> t"
    by (auto simp: close_session_def delete_session_def modifyS_def token_open_def session_at_filter)
  show "t' \<noteq> t \<Longrightarrow> who_is now t' (close_session t d) = who_is now t' d"
    by (auto simp: who_is_eq close_session_def delete_session_def modifyS_def session_at_filter live_account_def split: option.split)
  show "live_account u (close_session t d) = live_account u d"
    by (simp add: close_session_def delete_session_def modifyS_def live_account_def)
qed

section \<open>Passwords and accounts\<close>

lemma authenticate_run:
  "authenticate E u p s =
    (let d = a_others E (length (as_log s)) (as_db s); found = operator_at u d;
         t = s\<lparr>as_db := d, as_log := (d, d) # as_log s\<rparr> in
     if nul u then (Inl (refusal [u]), t)
     else (Inr (case found of None \<Rightarrow> False
           | Some r \<Rightarrow> \<not> op_disabled r \<and> a_scrypt E (utf8_encode p) (op_salt r) = op_password_hash r),
       t\<lparr>as_hashes := as_hashes s + (case found of None \<Rightarrow> 1 | Some r \<Rightarrow> if op_disabled r then 0 else 1)\<rparr>))"
  by (simp add: authenticate_def on_db_def get_operator_def queryS_def verify_password_def hash_password_def bindS_def
      returnS_def Let_def split: option.split)

text \<open>The login check, exactly: it accepts when the account exists, is enabled and scrypt of the typed
  password with the stored salt is the stored hash, and only then; it changes nothing in the
  registry; a username with a NUL ends the request in the driver's error; and it pays for one scrypt call whether the account is unknown or its password wrong,
  but for none when the account is disabled.\<close>

theorem authenticate_is_the_password_check:
  "authenticate E u p s =
    (let d = a_others E (length (as_log s)) (as_db s); found = operator_at u d;
         t = s\<lparr>as_db := d, as_log := (d, d) # as_log s\<rparr> in
     if nul u then (Inl (refusal [u]), t)
     else (Inr (case found of None \<Rightarrow> False
           | Some r \<Rightarrow> \<not> op_disabled r \<and> a_scrypt E (utf8_encode p) (op_salt r) = op_password_hash r),
       t\<lparr>as_hashes := as_hashes s + (case found of None \<Rightarrow> 1 | Some r \<Rightarrow> if op_disabled r then 0 else 1)\<rparr>))"
  by (rule authenticate_run)

lemma operator_at_put:
  "\<not> nul u \<Longrightarrow> operator_at u (snd (put_operator u h salt d)) = Some (case operator_at u d of
     None \<Rightarrow> \<lparr>op_username = u, op_password_hash = h, op_salt = salt, op_disabled = False\<rparr>
   | Some r \<Rightarrow> r\<lparr>op_password_hash := h, op_salt := salt\<rparr>)"
proof -
  let ?g = "\<lambda>r. if op_username r = u then r\<lparr>op_password_hash := h, op_salt := salt\<rparr> else r"
  have new: "find (\<lambda>r. op_username r = u) (xs @ [x]) = Some x" if "find (\<lambda>r. op_username r = u) xs = None" "op_username x = u"
    for xs and x :: operator using that by (induction xs) (auto split: if_splits)
  have old: "find (\<lambda>r. op_username r = u) (map ?g xs) = map_option ?g (find (\<lambda>r. op_username r = u) xs)" for xs
    by (induction xs) auto
  assume u: "\<not> nul u"
  have name: "op_username r = u" if "find (\<lambda>r. op_username r = u) xs = Some r" for xs and r :: operator
    using that by (auto dest: find_Some)
  show ?thesis
    by (cases "operator_at u d") (use u in \<open>auto simp: put_operator_def modifyS_def operator_at_def new old dest: name\<close>)
qed

text \<open>An account added by \<^verbatim>\<open>operators add\<close>, in a registry where nobody else touches that account, did
  not exist before; its password has at least twelve characters; and from then on, as long as its
  row stays, a login with a password succeeds exactly when scrypt does not tell it from the one
  that was typed, so the typed one succeeds.\<close>

theorem added_operator_can_log_in:
  assumes "operators_main E created C OpAdd (Some u) from_stdin s = (Inr (0, out, err), s')"
    and "\<forall>i d. operator_at u (a_others E i d) = operator_at u d"
  shows "operator_at u (as_db s) = None \<and> (\<exists>password salt. read_password C from_stdin = Inr password
    \<and> MIN_PASSWORD_LENGTH \<le> length password
    \<and> (\<forall>p t. operator_at u (as_db t) = operator_at u (as_db s') \<longrightarrow>
        fst (authenticate E u p t) = Inr (a_scrypt E (utf8_encode p) salt = a_scrypt E (utf8_encode password) salt)))"
proof -
  note defs = operators_main_def on_db_def hash_password_def Let_def get_operator_def queryS_def audit_def modifyS_def
  from assms(1) have u: "u \<noteq> []" by (auto simp: operators_main_def sem_defs)
  have n: "\<not> nul u"
    using assms(1) u by (auto simp: defs bindS_def returnS_def refuseS_def)
  have none: "operator_at u (as_db s) = None"
    using assms u n by (auto simp: defs bindS_def returnS_def refuseS_def split: if_splits option.splits)
  obtain password where pw: "read_password C from_stdin = Inr password"
    using assms none u n by (cases "read_password C from_stdin") (auto simp: defs bindS_def returnS_def refuseS_def)
  have st: "storable [''cli'', ''operator.add''] [[(''username'', JStr u)]]"
    using n by (simp add: storable_def dict_ok_def nul_def)
  have long: "MIN_PASSWORD_LENGTH \<le> length password"
    using pw by (auto simp: read_password_def Let_def split: if_splits)
  define salt where "salt = a_salt E (as_hashes s)"
  have put: "operator_at u (as_db s') = operator_at u (snd (put_operator u (a_scrypt E (utf8_encode password) salt) salt
      (a_others E (Suc (length (as_log s))) (a_others E (length (as_log s)) (as_db s)))))"
    using assms none pw u n st
    by (auto simp: defs bindS_def returnS_def refuseS_def salt_def put_operator_def operator_at_def)
  have row: "operator_at u (as_db s') = Some \<lparr>op_username = u, op_password_hash = a_scrypt E (utf8_encode password) salt,
      op_salt = salt, op_disabled = False\<rparr>"
    unfolding put operator_at_put [OF n] using none assms(2) by simp
  have "fst (authenticate E u p t) = Inr (a_scrypt E (utf8_encode p) salt = a_scrypt E (utf8_encode password) salt)"
    if "operator_at u (as_db t) = operator_at u (as_db s')" for p t
    using that row assms(2) n
    by (simp add: authenticate_def on_db_def get_operator_def queryS_def verify_password_def hash_password_def bindS_def
        returnS_def Let_def)
  with none pw long show ?thesis by blast
qed

text \<open>Starting the admin plane with a bootstrap password creates the \<^verbatim>\<open>admin\<close> account in a registry
  without operators, and never again: where there is an operator, or the variable is not set, every
  account stays as it is, so a variable left set resets no password.\<close>

theorem bootstrap_resets_nothing:
  assumes "\<forall>i d. d_operators (a_others E i d) = d_operators d"
  shows "d_operators (as_db (snd (bootstrap_operator E settings s))) =
    (case (st_bootstrap_password settings, d_operators (as_db s)) of
       (Some password, []) \<Rightarrow>
         (let salt = a_salt E (as_hashes s) in
          [\<lparr>op_username = ''admin'', op_password_hash = a_scrypt E (utf8_encode password) salt, op_salt = salt, op_disabled = False\<rparr>])
     | (_, accounts) \<Rightarrow> accounts)"
proof (cases "st_bootstrap_password settings")
  case None
  then show ?thesis by (simp add: bootstrap_operator_def returnS_def)
next
  case (Some password)
  with assms show ?thesis
    by (cases "d_operators (as_db s)")
      (simp_all add: bootstrap_operator_def on_db_def operator_count_def queryS_def hash_password_def put_operator_def
        audit_def modifyS_def operator_at_def bindS_def returnS_def Let_def nul_def)
qed

section \<open>Sessions\<close>

lemma begin_session_run:
  "begin_session E u s = (Inr (token, csrf), s') \<Longrightarrow>
     \<exists>d d' k. k = length (as_log s) \<and> own_steps s s' = [(d, d')] \<and> token = a_token E k \<and> csrf = a_csrf E k
       \<and> session_fits u csrf \<and> d' = open_session (token_digest E token) u csrf (a_now E k + SESSION_LIFETIME) d
       \<and> \<not> token_open (token_digest E token) d \<and> operator_at u d \<noteq> None \<and> as_db s' = d' \<and> d = a_others E k (as_db s)"
  by (auto simp: begin_session_def at_step_def on_db_def bindS_def returnS_def Let_def own_steps_def open_session_def
      create_session_def token_open_def session_fits_def split: prod.splits sum.splits if_splits)

text \<open>C31: A login that sets a cookie comes from a password that \<open>authenticate\<close> accepted, and opens one
  session: its cookie is not readable by scripts, not sent across sites and lives twelve hours, and
  whatever other logins and logouts follow, the registry answers the cookie's token with that
  operator and CSRF token until the registry's clock is twelve hours past what this process's clock
  showed when it opened the session, not a second longer, and with nobody once it was ended.\<close>

theorem login_opens_a_session:
  assumes "login E u p s = (Inr (SeeOther url (SetCookie ck)), s')"
  shows "fst (authenticate (w_admin E) u p s) = Inr True
    \<and> ck_httponly ck \<and> ck_samesite ck = ''strict'' \<and> ck_max_age ck = 43200 \<and> ck_name ck = SESSION_COOKIE
    \<and> (\<exists>d d' csrf. (d, d') \<in> set (own_steps s s')
      \<and> (let t = token_digest (w_admin E) (ck_value ck); opened_at = a_now (w_admin E) (Suc (length (as_log s))) in
        (\<forall>ops now. t \<notin> begun ops \<longrightarrow>
           (live_account u d \<and> t \<notin> ended ops \<longrightarrow>
             who_is now t (session_steps open_session close_session ops d') = (if now < opened_at + 43200 then Some (u, csrf) else None))
         \<and> (\<forall>d''. who_is now t (session_steps open_session close_session ops (close_session t d'')) = None))))"
proof -
  let ?A = "w_admin E"
  obtain ok s1 where auth: "authenticate ?A u p s = (Inr ok, s1)"
    using assms by (cases "nul u") (auto simp: authenticate_run Let_def login_def bindS_def)
  then have "\<not> nul u" by (auto simp: authenticate_run Let_def split: if_splits)
  then have st: "storable [u, ''login.succeeded''] [[]]" by (simp add: storable_def dict_ok_def nul_def)
  from auth have n1: "length (as_log s1) = Suc (length (as_log s))" by (auto simp: authenticate_run Let_def split: if_splits)
  from assms have ok: "ok"
    by (auto simp: login_def Let_def bindS_def auth on_db_def audit_def modifyS_def render_def returnS_def split: if_splits prod.splits)
  with assms obtain token csrf s2 where b: "begin_session ?A u s1 = (Inr (token, csrf), s2)"
    and a: "bindS (on_db ?A (\<lambda>i. audit (a_clock ?A i) u ''login.succeeded'' None []))
      (\<lambda>_. returnS (SeeOther ''/sources'' (SetCookie \<lparr>ck_name = SESSION_COOKIE, ck_value = token, ck_httponly = True,
        ck_samesite = ''strict'', ck_secure = st_secure_cookie (w_settings E), ck_max_age = SESSION_LIFETIME, ck_path = ''/''\<rparr>))) s2
      = (Inr (SeeOther url (SetCookie ck)), s')"
    by (auto simp: login_def Let_def auth bindS_run elim!: bindS_InrE)
  have ck: "ck = \<lparr>ck_name = SESSION_COOKIE, ck_value = token, ck_httponly = True,
        ck_samesite = ''strict'', ck_secure = st_secure_cookie (w_settings E), ck_max_age = SESSION_LIFETIME, ck_path = ''/''\<rparr>"
    using a st by (auto simp: bindS_def on_db_def audit_def modifyS_def returnS_def Let_def)
  define k where "k = Suc (length (as_log s))"
  obtain d d' where open_d: "own_steps s1 s2 = [(d, d')]" "session_fits u csrf"
      "d' = open_session (token_digest ?A token) u csrf (a_now ?A k + SESSION_LIFETIME) d"
      "\<not> token_open (token_digest ?A token) d"
    using begin_session_run [OF b] n1 unfolding k_def by metis
  have logs: "as_log s1 = own_steps s s1 @ as_log s" "as_log s2 = own_steps s1 s2 @ as_log s1" "as_log s' = own_steps s2 s' @ as_log s2"
  proof -
    show "as_log s1 = own_steps s s1 @ as_log s"
      by (rule emits_own(1) [where m = "authenticate ?A u p" and P = "\<lambda>_ _. True", OF emits_authenticate auth]) simp
    have "emits (\<lambda>_ _. True) (begin_session ?A u)" unfolding begin_session_def by (intro emits_intro) simp
    then show "as_log s2 = own_steps s1 s2 @ as_log s1" by (rule emits_own(1) [where m = "begin_session ?A u", OF _ b])
    show "as_log s' = own_steps s2 s' @ as_log s2" 
      by (rule emits_own(1) [where P = "\<lambda>_ _. True" and m = "bindS m f" for m f, OF _ a]) (intro emits_intro, simp)
  qed
  then have "(d, d') \<in> set (own_steps s s')"
    using own_steps_trans [OF logs(1) logs(2)] open_d(1) own_steps_trans [of s2 "own_steps s s2" s s' "own_steps s2 s'"] by (simp add: own_steps_def)
  moreover have "who_is now t (session_steps open_session close_session ops d') = (if now < a_now ?A k + 43200 then Some (u, csrf) else None)"
    if "t = token_digest ?A token" "live_account u d" "t \<notin> begun ops" "t \<notin> ended ops" for now t ops
    using sessions.session_lives [of t d u csrf ops now "a_now ?A k + SESSION_LIFETIME"] that open_d(2,3,4)
    by (simp add: SESSION_LIFETIME_def)
  moreover have "who_is now t (session_steps open_session close_session ops (close_session t d'')) = None"
    if "t \<notin> begun ops" for now t ops d''
    using that by (rule sessions.logout_is_final)
  ultimately show ?thesis
    using auth ok by (intro conjI exI [of _ d] exI [of _ d'] exI [of _ csrf])
      (auto simp: ck SESSION_LIFETIME_def Let_def k_def)
qed

section \<open>Witnesses\<close>

text \<open>A console, an application and a registry with one operator: scrypt appends the salt.\<close>

definition ex_admin :: admin_env where
  "ex_admin = \<lparr>a_others = (\<lambda>_ d. d), a_clock = (\<lambda>i. int i), a_now = (\<lambda>i. int i), a_token = (\<lambda>_. ''token''),
     a_csrf = (\<lambda>_. ''csrf''), a_uuid = (\<lambda>i. 100 + i), a_salt = (\<lambda>_. ''salt''), a_scrypt = (\<lambda>p s. p @ s), a_sha = (\<lambda>x. x)\<rparr>"

definition ex_web :: web_env where
  "ex_web = \<lparr>w_admin = ex_admin, w_forms = \<lparr>fe_bracketed = (\<lambda>_. False), fe_pem = (\<lambda>_. True)\<rparr>,
     w_settings = \<lparr>st_database_url = ''db'', st_secure_cookie = False, st_bootstrap_password = Some ''bootstrap''\<rparr>,
     w_css = [], w_digest = ''4f2a1c9e'', w_environ = (\<lambda>_. None)\<rparr>"

definition ex_account :: operator where
  "ex_account = \<lparr>op_username = ''alice'', op_password_hash = ''hunter2salt'', op_salt = ''salt'', op_disabled = False\<rparr>"

definition admin_state_of :: "db \<Rightarrow> admin_state" where
  "admin_state_of d = \<lparr>as_db = d, as_log = [], as_hashes = 0\<rparr>"

definition ex_accounts :: db where
  "ex_accounts = empty_db\<lparr>d_operators := [ex_account]\<rparr>"

lemmas ex_admin_defs = ex_admin_def ex_web_def ex_account_def admin_state_of_def ex_accounts_def empty_db_def

definition ex_console :: console where
  "ex_console = \<lparr>co_stdin = ''correct horse'' @ [newline], co_password = [], co_repeat = []\<rparr>"

theorem added_operator_can_log_in_witness:
  "fst (authenticate ex_admin ''bob'' ''correct horse'' (snd (operators_main ex_admin (\<lambda>_. []) ex_console OpAdd (Some ''bob'') True
     (admin_state_of ex_accounts)))) = Inr True"
proof -
  let ?m = "operators_main ex_admin (\<lambda>_. []) ex_console OpAdd (Some ''bob'') True (admin_state_of ex_accounts)"
  have pw: "read_password ex_console True = Inr ''correct horse''" by code_simp
  have run: "?m = (Inr (0, [''bob updated''], []), snd ?m)"
    by (simp add: operators_main_def on_db_def get_operator_def queryS_def hash_password_def put_operator_def audit_def
        modifyS_def bindS_def returnS_def refuseS_def Let_def pw operator_at_def ex_admin_defs nul_def storable_def dict_ok_def)
  have "\<forall>i d. operator_at ''bob'' (a_others ex_admin i d) = operator_at ''bob'' d" by (simp add: ex_admin_def)
  from added_operator_can_log_in [OF run this] pw show ?thesis by (auto simp: refl)
qed

theorem bootstrap_resets_nothing_witness:
  "d_operators (as_db (snd (bootstrap_operator ex_admin (w_settings ex_web) (admin_state_of ex_accounts)))) = [ex_account]
   \<and> map op_username (d_operators (as_db (snd (bootstrap_operator ex_admin (w_settings ex_web) (admin_state_of empty_db))))) = [''admin'']"
proof -
  have "\<forall>i d. d_operators (a_others ex_admin i d) = d_operators d" by (simp add: ex_admin_def)
  from bootstrap_resets_nothing [OF this, of "w_settings ex_web"] show ?thesis
    by (simp add: ex_web_def admin_state_of_def ex_accounts_def empty_db_def Let_def)
qed

theorem login_opens_a_session_witness:
  "\<exists>ck s'. login ex_web ''alice'' ''hunter2'' (admin_state_of ex_accounts) = (Inr (SeeOther ''/sources'' (SetCookie ck)), s')
     \<and> ck_value ck = ''token'' \<and> ck_max_age ck = 43200 \<and> who_is 5 ''token'' (close_session ''token'' (as_db s')) = None"
proof -
  let ?m = "login ex_web ''alice'' ''hunter2'' (admin_state_of ex_accounts)"
  have u: "utf8_encode ''hunter2'' = ''hunter2''" "token_digest (w_admin ex_web) ''token'' = ''token''" by code_simp+
  obtain ck s' where run: "?m = (Inr (SeeOther ''/sources'' (SetCookie ck)), s')" and v: "ck_value ck = ''token''"
    by (simp add: nul_def storable_def dict_ok_def login_def authenticate_run begin_session_def at_step_def on_db_def create_session_def session_at_def operator_at_def
        audit_def modifyS_def bindS_def returnS_def Let_def u ex_admin_defs del: utf8_encode.simps)
  have "''token'' \<notin> begun []" by simp
  with login_opens_a_session [OF run] have "who_is 5 ''token'' (session_steps open_session close_session [] (close_session ''token'' (as_db s'))) = None"
    unfolding v u(2) Let_def by blast
  with login_opens_a_session [OF run] run v show ?thesis by auto
qed

end
