(* ===== verification/AdminClaims.thy ===== *)
theory AdminClaims
  imports AuthClaims
begin

text \<open>
  What the admin plane can and cannot do, over every registry, every interleaving with other writers
  and every sequence of requests.
\<close>

section \<open>Requests\<close>

definition unmoved :: "db \<Rightarrow> db \<Rightarrow> bool" where
  "unmoved d d' \<longleftrightarrow> d_sources d' = d_sources d \<and> d_jobs d' = d_jobs d"

lemma unmoved_refl [simp]: "unmoved d d"
  by (simp add: unmoved_def)

lemma unmoved_ops [simp]:
  "unmoved d (snd (audit now actor action src detail d))" "unmoved d (snd (create_session t u c e d))"
  "unmoved d (snd (delete_session t d))"
  by (auto simp: unmoved_def audit_def create_session_def delete_session_def modifyS_def)

lemma catchS_raise: "catchS c (raiseS e) h rest = (case c e of None \<Rightarrow> raiseS e | Some t \<Rightarrow> h t)"
  by (simp add: catchS_def raiseS_def fun_eq_iff split: option.split)

lemma bindS_lift_Inl: "bindS (raiseS e) f = raiseS e" "liftS (Inl e) = raiseS e"
  by (simp_all add: fun_eq_iff sem_defs)

lemma check_csrf_Inr: "check_csrf op x = Inr y \<longleftrightarrow> x \<noteq> [] \<and> is_ascii x \<and> wo_csrf op = x"
  by (auto simp: check_csrf_def csrf_ok_def)

text \<open>Without the session's token, the three handlers that change something only read.\<close>

lemma refused_handlers_unmoved:
  assumes "check_csrf op x = Inl e"
  shows "field_str data ''csrf'' [] = x \<Longrightarrow> emits unmoved (create_source E data op)"
    "field_str data ''csrf'' [] = x \<Longrightarrow> emits unmoved (edit_source E i data op)"
    "emits unmoved (source_action A i action x op)"
  unfolding create_source_def edit_source_def source_action_def Let_def
  by (simp_all add: assms catchS_raise bindS_lift_Inl emits_intro)

definition csrf_field :: "request \<Rightarrow> string option" where
  "csrf_field req = (case req of
     CreateSource data \<Rightarrow> Some (field_str data ''csrf'' [])
   | EditSource i data \<Rightarrow> Some (field_str data ''csrf'' [])
   | SourceAction i action csrf \<Rightarrow> Some csrf
   | _ \<Rightarrow> None)"

fun handler :: "web_env \<Rightarrow> request \<Rightarrow> web_operator \<Rightarrow> (admin_state, web_response) sem" where
  "handler E (CreateSource data) = create_source E data"
| "handler E (EditSource i data) = edit_source E i data"
| "handler E (SourceAction i action csrf) = source_action (w_admin E) i action csrf"
| "handler E req = (\<lambda>_. login_required)"

lemma handle_unmoved_or_guarded:
  "csrf_field req = None \<Longrightarrow> emits unmoved (handle E cookie req)"
  "csrf_field req \<noteq> None \<Longrightarrow> handle E cookie req = guarded (w_admin E) cookie (handler E req)"
proof -
  show "csrf_field req = None \<Longrightarrow> emits unmoved (handle E cookie req)"
    by (cases req; simp only: handle.simps csrf_field_def request.case option.distinct;
      (unfold login_def logout_def begin_session_def end_session_def Let_def)?; intro emits_intro; simp)
qed (cases req; simp add: csrf_field_def)

lemma csrf_refused_unmoved:
  assumes "csrf_field req = Some x" "check_csrf op x = Inl e"
  shows "emits unmoved (handler E req op)"
  using assms refused_handlers_unmoved by (cases req) (auto simp: csrf_field_def)

lemma handler_steps_log: "csrf_field req \<noteq> None \<Longrightarrow> emits admin_step (handler E req op)"
  by (cases req) (auto simp: csrf_field_def intro: emits_intro)

text \<open>A guarded request first reads the session.\<close>

lemma session_for_run:
  obtains se s1 where "session_for A cookie s = (Inr se, s1)"
proof -
  have "\<exists>se s1. session_for A cookie s = (Inr se, s1)"
    by (auto simp: session_for_def returnS_def on_db_def get_session_def queryS_def Let_def)
  then show ?thesis using that by blast
qed

lemma guarded_run:
  obtains (none) s1 where "session_for A cookie s = (Inr None, s1)" "guarded A cookie f s = login_required s1"
    | (some) se s1 where "session_for A cookie s = (Inr (Some se), s1)"
      "guarded A cookie f s = f \<lparr>wo_username = se_username se, wo_csrf = se_csrf_token se\<rparr> s1"
proof (rule session_for_run)
  fix se s1 assume se: "session_for A cookie s = (Inr se, s1)"
  have "guarded A cookie f s = (case se of None \<Rightarrow> login_required
      | Some x \<Rightarrow> f \<lparr>wo_username = se_username x, wo_csrf = se_csrf_token x\<rparr>) s1"
    by (simp add: guarded_def current_operator_def bindS_def se returnS_def split: option.split)
  with se show thesis by (cases se) (auto intro: none some)
qed

lemma own_steps_session:
  assumes "session_for A cookie s = (x, s1)" "emits P m" "m s1 = (r, s')" "(d, d') \<in> set (own_steps s s')"
  shows "d' = d \<or> (d, d') \<in> set (own_steps s1 s')"
proof -
  have q: "emits (\<lambda>d d'. d' = d) (session_for A cookie)" by (intro emits_intro) simp
  note e = emits_own [OF q assms(1)]
  have "own_steps s s' = own_steps s1 s' @ own_steps s s1"
    by (rule own_steps_trans [OF e(1) emits_own(1) [OF assms(2,3)]])
  with assms(4) e(2) show ?thesis by auto
qed

section \<open>Nothing without a session and its token\<close>

lemma change_authorised:
  assumes "handle E cookie req s = (r, s')" "(d, d') \<in> set (own_steps s s')"
    and "d_sources d' \<noteq> d_sources d \<or> d_jobs d' \<noteq> d_jobs d"
  shows "\<exists>se. fst (session_for (w_admin E) cookie s) = Inr (Some se)
    \<and> csrf_field req = Some (se_csrf_token se) \<and> se_csrf_token se \<noteq> []"
proof (cases "csrf_field req")
  case None
  then have "unmoved d d'" using emits_own(2) [OF handle_unmoved_or_guarded(1)] assms(1,2) by blast
  with assms(3) show ?thesis by (simp add: unmoved_def)
next
  case (Some x)
  have g: "handle E cookie req = guarded (w_admin E) cookie (handler E req)"
    using Some by (intro handle_unmoved_or_guarded(2)) simp
  show ?thesis
  proof (rule guarded_run [of "w_admin E" cookie s "handler E req"])
    fix s1 assume s1: "session_for (w_admin E) cookie s = (Inr None, s1)"
      and "guarded (w_admin E) cookie (handler E req) s = login_required s1"
    with assms(1) g have "login_required s1 = (r, s')" "s' = s1" by (simp_all add: login_required_def redirect_def returnS_def)
    with own_steps_session [OF s1 emits_page(3) _ assms(2)] assms(3) show ?thesis by simp
  next
    fix se s1 assume se: "session_for (w_admin E) cookie s = (Inr (Some se), s1)"
      and "guarded (w_admin E) cookie (handler E req) s
        = handler E req \<lparr>wo_username = se_username se, wo_csrf = se_csrf_token se\<rparr> s1"
    with assms(1) g have run: "handler E req \<lparr>wo_username = se_username se, wo_csrf = se_csrf_token se\<rparr> s1 = (r, s')" by simp
    show ?thesis
    proof (cases "check_csrf \<lparr>wo_username = se_username se, wo_csrf = se_csrf_token se\<rparr> x")
      case (Inl e)
      note q = csrf_refused_unmoved [OF Some Inl]
      from own_steps_session [OF se q run assms(2)] emits_own(2) [OF q run] assms(3)
      show ?thesis by (auto simp: unmoved_def)
    next
      case (Inr y)
      with se Some show ?thesis by (auto simp: check_csrf_Inr)
    qed
  qed
qed

text \<open>C19: Whatever the registry holds and whoever else writes to it, a request whose own transactions
  change a source or a job comes with the cookie of a live session and with that session's CSRF
  token in its form; a GET, a stale session or a forged form changes neither.\<close>

theorem change_needs_session_and_token:
  assumes "handle E cookie req s = (r, s')" "(d, d') \<in> set (own_steps s s')"
    and "d_sources d' \<noteq> d_sources d \<or> d_jobs d' \<noteq> d_jobs d"
  shows "\<exists>se. fst (session_for (w_admin E) cookie s) = Inr (Some se)
    \<and> csrf_field req = Some (se_csrf_token se) \<and> se_csrf_token se \<noteq> []"
  using assms by (rule change_authorised)

section \<open>Every change is in the audit log\<close>

definition records :: "request \<Rightarrow> audit_event \<Rightarrow> bool" where
  "records req ev = (case req of
     CreateSource data \<Rightarrow> au_action ev = ''source.added'' \<and> au_source_id ev \<noteq> None
   | EditSource i data \<Rightarrow> au_action ev = ''source.edited'' \<and> au_source_id ev = Some i
   | SourceAction i action csrf \<Rightarrow> au_action ev = ''source.'' @ (if action = ''delete'' then ''deleted'' else action)
       \<and> au_source_id ev = (if action = ''delete'' then None else Some i)
   | _ \<Rightarrow> False)"

definition audits :: "string \<Rightarrow> request \<Rightarrow> db \<Rightarrow> db \<Rightarrow> bool" where
  "audits user req d d' \<longleftrightarrow> (\<exists>ev. d_audit d' = d_audit d @ [ev] \<and> au_actor ev = user \<and> records req ev)"

lemma audits_audit:
  "audit now actor action src detail d = (Inr x, d') \<Longrightarrow> actor = user \<Longrightarrow>
     records req \<lparr>au_id = length (d_audit d) + 1, au_at = now, au_actor = actor, au_action = action,
       au_source_id = src, au_detail = detail\<rparr> \<Longrightarrow> audits user req d d'"
  by (auto simp: audits_def audit_def modifyS_def split: if_splits)

lemma raising_steps_unmoved:
  "add_source now s d = (Inl e, d') \<Longrightarrow> unmoved d d'"
  "update_source now i cols d = (Inl e, d') \<Longrightarrow> unmoved d d'"
  by (auto simp: add_source_def update_source_def require_source_def update_sources_def bindS_def returnS_def Let_def
      split: if_splits option.splits)

lemma create_settles:
  "settles unmoved (audits (wo_username op) (CreateSource data)) (create_source E data op)"
  unfolding create_source_def Let_def
proof (intro settles_catchS disjI1 allI)
  show "raising unmoved (bindS (liftS (check_csrf op (field_str data ''csrf'' []))) (\<lambda>_. at_step (\<lambda>i.
      bindS (liftS (source_from_form (w_forms E) (a_uuid (w_admin E) i) data (wo_username op)))
        (\<lambda>source. on_db (w_admin E) (\<lambda>i. add_source (a_clock (w_admin E) i) source)))))"
    by (intro raising_bindS raising_at_step raising_on_db emits_intro) (auto dest: raising_steps_unmoved)
  show "surely (audits (wo_username op) (CreateSource data)) (bindS
      (on_db (w_admin E) (\<lambda>i. audit (a_clock (w_admin E) i) (wo_username op) ''source.added'' (Some (so_id created))
         [(''app_id'', JStr (so_app_id created)), (''forge'', JStr (forge_name (so_forge created))),
          (''project'', JStr (so_project created)), (''critical'', JBool (so_critical created))])) (\<lambda>_.
      bindS (on_db (w_admin E) (\<lambda>i. enqueue (a_clock (w_admin E) i) (a_uuid (w_admin E) i) (so_id created) VALIDATE (wo_username op) [])) (\<lambda>_.
      bindS (on_db (w_admin E) (\<lambda>i. set_status (a_clock (w_admin E) i) (so_id created) VALIDATING None)) (\<lambda>_.
      redirect (source_url (so_id created))))))" for created
    by (intro surely_first surely_on_db emits_intro; (erule audits_audit)?; simp add: records_def)
qed (intro emits_intro; simp)+

lemma edit_settles:
  "settles unmoved (audits (wo_username op) (EditSource i data)) (edit_source E i data op)"
proof -
  let ?P = "audits (wo_username op) (EditSource i data)"
  let ?failed = "\<lambda>source message. render (SourceEditPage (wo_username op) source (Some message))"
  have rec: "surely ?P (bindS (on_db (w_admin E) (\<lambda>k. audit (a_clock (w_admin E) k) (wo_username op) ''source.edited'' (Some i)
      (map (\<lambda>(k, v). (k, JStr (column_text v))) cols))) (\<lambda>_. redirect (source_url i)))" for cols
    by (intro surely_first surely_on_db emits_intro; (erule audits_audit)?; simp add: records_def)
  have upd: "settles unmoved ?P (catchS store_error (on_db (w_admin E) (\<lambda>k. update_source (a_clock (w_admin E) k) i cols)) (?failed source)
      (\<lambda>_. bindS (on_db (w_admin E) (\<lambda>k. audit (a_clock (w_admin E) k) (wo_username op) ''source.edited'' (Some i)
        (map (\<lambda>(k, v). (k, JStr (column_text v))) cols))) (\<lambda>_. redirect (source_url i))))" for cols source
    by (intro settles_catchS disjI1 allI rec raising_on_db emits_intro) (auto dest: raising_steps_unmoved)
  show ?thesis
    unfolding edit_source_def Let_def
    by (intro settles_with_source settles_check settles_if upd settles_emits emits_intro; simp)
qed

lemma action_settles:
  "settles unmoved (audits (wo_username op) (SourceAction i action csrf)) (source_action A i action csrf op)"
proof -
  let ?P = "audits (wo_username op) (SourceAction i action csrf)"
  define recording where "recording = bindS (on_db A (\<lambda>k. audit (a_clock A k) (wo_username op) (''source.'' @ action) (Some i) []))
    (\<lambda>_. redirect (source_url i))"
  define deleted where "deleted source = bindS (on_db A (\<lambda>k. audit (a_clock A k) (wo_username op) ''source.deleted'' None
    [(''app_id'', JStr (so_app_id source))])) (\<lambda>_. redirect ''/sources'')" for source :: source
  have rec: "action \<noteq> ''delete'' \<Longrightarrow> surely ?P recording" "logs recording"
    unfolding recording_def by (intro surely_first surely_on_db emits_intro; (erule audits_audit)?; simp add: records_def)+
  have del: "action = ''delete'' \<Longrightarrow> surely ?P (deleted source)" "logs (deleted source)" for source
    unfolding deleted_def by (intro surely_first surely_on_db emits_intro; (erule audits_audit)?; simp add: records_def)+
  have refused: "settles unmoved ?P (bindS (on_db A (\<lambda>k. audit (a_clock A k) (wo_username op) ''source.poll.refused'' (Some i) []))
      (\<lambda>_. redirect (source_url i)))"
    by (intro settles_emits emits_intro) simp
  have on_db: "logs (on_db A f)" for f :: "nat \<Rightarrow> (db, 'x) sem" by (intro emits_intro) simp
  have one: "settles unmoved ?P (bindS (on_db A f) (\<lambda>_. recording))" if "action \<noteq> ''delete''" for f :: "nat \<Rightarrow> (db, 'x) sem"
    using that by (intro settles_surely surely_then rec on_db)
  have two: "settles unmoved ?P (bindS (on_db A f) (\<lambda>_. bindS (on_db A g) (\<lambda>_. recording)))" if "action \<noteq> ''delete''"
    for f :: "nat \<Rightarrow> (db, 'x) sem" and g :: "nat \<Rightarrow> (db, 'y) sem"
    using that by (intro settles_surely surely_then rec on_db emits_bindS)
  have gone: "settles unmoved ?P (bindS (on_db A f) (\<lambda>_. deleted source))" if "action = ''delete''"
    for f :: "nat \<Rightarrow> (db, 'x) sem" and source
    using that by (intro settles_surely surely_then del on_db)
  have page: "settles unmoved ?P (redirect u)" for u by (intro settles_emits emits_intro)
  show ?thesis
    unfolding source_action_def Let_def recording_def [symmetric] deleted_def [symmetric]
    by (intro settles_with_source settles_check settles_if refused one two gone page unmoved_refl emits_intro rec(2) del(2) TrueI; simp)
qed


section \<open>Neither activation nor publication\<close>

lemma admin_step_keeps:
  assumes "admin_step d d'"
  shows "active_from d d'" "db_inv d \<Longrightarrow> db_inv d'" "d_operators d' = d_operators d"
    "j \<in> set (d_jobs d') \<Longrightarrow> jo_kind j = PUBLISH \<Longrightarrow> j \<in> set (d_jobs d)"
    "j \<in> set (d_jobs d) \<Longrightarrow> j \<in> set (d_jobs d') \<or> jo_source_id j \<notin> so_id ` set (d_sources d')"
proof -
  from assms consider "d' = d" | now op where "admin_op op" "d' = db_step now op d" unfolding admin_step_def by blast
  note cases = this
  show "active_from d d'"
    using cases
  proof cases
    case (2 now op)
    then show ?thesis using active_from_refl [of d]
      by (cases op) (auto intro: keepsD keeps_intro)
  qed (simp add: active_from_refl)
  show "db_inv d \<Longrightarrow> db_inv d'" using cases by cases (auto intro: db_step_inv)
  show "d_operators d' = d_operators d"
    using cases
  proof cases
    case (2 now op)
    then show ?thesis
      by (cases op) (auto simp: add_source_def update_source_def require_source_def update_sources_def set_status_def
          delete_source_def enqueue_def audit_def create_session_def delete_session_def sem_defs Let_def split: option.split)
  qed simp
  show "j \<in> set (d_jobs d') \<Longrightarrow> jo_kind j = PUBLISH \<Longrightarrow> j \<in> set (d_jobs d)"
    using cases
  proof cases
    case (2 now op)
    then show "j \<in> set (d_jobs d') \<Longrightarrow> jo_kind j = PUBLISH \<Longrightarrow> j \<in> set (d_jobs d)"
      by (cases op) (auto simp: add_source_def update_source_def require_source_def update_sources_def set_status_def
          delete_source_def enqueue_def audit_def create_session_def delete_session_def sem_defs Let_def
          split: option.splits if_splits)
  qed simp
  show "j \<in> set (d_jobs d) \<Longrightarrow> j \<in> set (d_jobs d') \<or> jo_source_id j \<notin> so_id ` set (d_sources d')"
    using cases
  proof cases
    case (2 now op)
    then show "j \<in> set (d_jobs d) \<Longrightarrow> j \<in> set (d_jobs d') \<or> jo_source_id j \<notin> so_id ` set (d_sources d')"
      by (cases op) (auto simp: add_source_def update_source_def require_source_def update_sources_def set_status_def
          delete_source_def enqueue_def audit_def create_session_def delete_session_def sem_defs Let_def
          split: option.splits if_splits)
  qed simp
qed

lemma serve_steps:
  "\<exists>new. as_log (serve E requests s) = new @ as_log s \<and> (\<forall>(d, d') \<in> set new. admin_step d d')"
proof (induction requests arbitrary: s)
  case (Cons r rs)
  obtain cookie req where r: "r = (cookie, req)" by fastforce
  obtain x s1 where h: "handle E cookie req s = (x, s1)" by fastforce
  obtain new1 where "as_log s1 = new1 @ as_log s" "\<forall>(d, d') \<in> set new1. admin_step d d'"
    using handle_steps [of E cookie req] h unfolding emits_def by (metis snd_conv)
  moreover obtain new2 where "as_log (serve E rs s1) = new2 @ as_log s1" "\<forall>(d, d') \<in> set new2. admin_step d d'"
    using Cons.IH by blast
  ultimately show ?case using r h by (intro exI [of _ "new2 @ new1"]) auto
qed simp

text \<open>C7: Whatever requests the admin plane serves, in whatever order and with whatever cookies and forms,
  none of its transactions activates a source, changes what identifies an active one or its pinned
  repository ids, queues a publish job or edits any job, or changes an operator; a job that is gone
  went with its source, which the transaction deleted; and each keeps the invariant of the
  registry.\<close>

theorem admin_cannot_activate_or_publish:
  assumes "(d, d') \<in> set (own_steps s (serve E requests s))"
  shows "active_from d d' \<and> d_operators d' = d_operators d
    \<and> {j \<in> set (d_jobs d'). jo_kind j = PUBLISH} \<subseteq> {j \<in> set (d_jobs d). jo_kind j = PUBLISH}
    \<and> {j \<in> set (d_jobs d). jo_source_id j \<in> so_id ` set (d_sources d')} \<subseteq> set (d_jobs d')
    \<and> (db_inv d \<longrightarrow> db_inv d')"
proof -
  obtain new where "as_log (serve E requests s) = new @ as_log s" "\<forall>(d, d') \<in> set new. admin_step d d'"
    using serve_steps by blast
  with assms have "admin_step d d'" by (auto simp: own_steps_def)
  note kept = admin_step_keeps [OF this]
  from kept(1-4) kept(5) show ?thesis by blast
qed

section \<open>Every change comes from a login\<close>

definition sessions_in :: "session set \<Rightarrow> admin_state \<Rightarrow> bool" where
  "sessions_in S s \<longleftrightarrow> set (d_sessions (as_db s)) \<subseteq> S"

definition adds_no_session :: "(nat \<Rightarrow> db \<Rightarrow> db) \<Rightarrow> bool" where
  "adds_no_session others \<longleftrightarrow> (\<forall>i d. set (d_sessions (others i d)) \<subseteq> set (d_sessions d))"

lemma keeps_statements [keeps_intro]:
  "keeps I m \<Longrightarrow> (\<And>t. keeps I (h t)) \<Longrightarrow> (\<And>x. keeps I (rest x)) \<Longrightarrow> keeps I (catchS c m h rest)"
  "(\<And>i. keeps I (f i)) \<Longrightarrow> keeps I (at_step f)"
  "keeps I m1 \<Longrightarrow> keeps I m2 \<Longrightarrow> keeps I (if b then m1 else m2)"
  "keeps I n \<Longrightarrow> (\<And>x. keeps I (k x)) \<Longrightarrow> keeps I (case z of None \<Rightarrow> n | Some x \<Rightarrow> k x)"
  "(\<And>x y. keeps I (g x y)) \<Longrightarrow> keeps I (case p of (x, y) \<Rightarrow> g x y)"
  "keeps I (render pg)" "keeps I (redirect u)" "keeps I login_required"
  unfolding keeps_def catchS_eq
  by (fastforce split: prod.splits sum.splits option.splits)
    (simp_all add: at_step_def render_def redirect_def login_required_def returnS_def split: option.split prod.split)

lemma keeps_hash [keeps_intro]: "keeps (sessions_in S) (hash_password E p salt)"
  by (simp add: keeps_def hash_password_def sessions_in_def Let_def)

lemma keeps_on_db_within:
  assumes "adds_no_session (a_others A)" "\<And>i d. set (d_sessions d) \<subseteq> S \<Longrightarrow> set (d_sessions (snd (f i d))) \<subseteq> S"
  shows "keeps (sessions_in S) (on_db A f)"
  unfolding keeps_def sessions_in_def
proof (intro allI impI)
  fix s :: admin_state
  assume s: "set (d_sessions (as_db s)) \<subseteq> S"
  let ?d = "a_others A (length (as_log s)) (as_db s)"
  have "set (d_sessions ?d) \<subseteq> S" using s assms(1) unfolding adds_no_session_def by blast
  then have "set (d_sessions (snd (f (length (as_log s)) ?d))) \<subseteq> S" by (rule assms(2))
  then show "set (d_sessions (as_db (snd (on_db A f s)))) \<subseteq> S"
    by (cases "f (length (as_log s)) ?d") (simp add: on_db_def Let_def)
qed

lemma keeps_on_db:
  assumes "adds_no_session (a_others A)" "\<And>i d. set (d_sessions (snd (f i d))) \<subseteq> set (d_sessions d)"
  shows "keeps (sessions_in S) (on_db A f)"
  using assms(2) by (intro keeps_on_db_within assms(1)) (meson subset_trans)

lemma no_new_session:
  "set (d_sessions (snd (queryS q d))) \<subseteq> set (d_sessions d)"
  "set (d_sessions (snd (params ts js (queryS q) d))) \<subseteq> set (d_sessions d)"
  "set (d_sessions (snd (add_source now x d))) \<subseteq> set (d_sessions d)"
  "set (d_sessions (snd (update_source now i cols d))) \<subseteq> set (d_sessions d)"
  "set (d_sessions (snd (set_status now i st err d))) \<subseteq> set (d_sessions d)"
  "set (d_sessions (snd (delete_source i d))) \<subseteq> set (d_sessions d)"
  "set (d_sessions (snd (enqueue now uuid i kind who payload d))) \<subseteq> set (d_sessions d)"
  "set (d_sessions (snd (audit now actor action src detail d))) \<subseteq> set (d_sessions d)"
  "set (d_sessions (snd (delete_session t d))) \<subseteq> set (d_sessions d)"
  by (auto simp: queryS_def add_source_def update_source_def require_source_def update_sources_def set_status_def
      delete_source_def enqueue_def audit_def delete_session_def sem_defs Let_def split: option.split)

lemma handle_sessions:
  assumes "adds_no_session (a_others (w_admin E))" "\<forall>u p. req \<noteq> Login u p"
  shows "keeps (sessions_in S) (handle E cookie req)"
proof (cases req)
  case (Login u p)
  with assms(2) show ?thesis by simp
qed (simp only: handle.simps guarded_def current_operator_def session_for_def with_source_def sources_page_def new_source_def
    source_detail_def edit_source_form_def audit_page_def login_form_def logout_def end_session_def create_source_def edit_source_def
    source_action_def query_defs Let_def; intro keeps_intro keeps_on_db [OF assms(1)] no_new_session)+

lemma authenticate_sessions:
  assumes "adds_no_session (a_others A)"
  shows "keeps (sessions_in S) (authenticate A u p)"
  unfolding authenticate_def verify_password_def query_defs
  by (intro keeps_intro keeps_on_db [OF assms] no_new_session)

lemma login_sessions:
  assumes "adds_no_session (a_others (w_admin E))" "login E u p s = (r, s')" "se \<in> set (d_sessions (as_db s'))"
  shows "se \<in> set (d_sessions (as_db s)) \<or> se_username se = u \<and> fst (authenticate (w_admin E) u p s) = Inr True"
proof -
  let ?A = "w_admin E" and ?S = "set (d_sessions (as_db s))"
  have kept: "sessions_in ?S (snd (authenticate ?A u p s))"
    by (rule keepsD [OF authenticate_sessions [OF assms(1)]]) (simp add: sessions_in_def)
  show ?thesis
  proof (cases "authenticate ?A u p s")
    case (Pair v s1)
    show ?thesis
    proof (cases v)
      case (Inl e)
      with Pair assms(2) have "s' = s1" by (simp add: login_def Let_def bindS_stop [where m = "authenticate ?A u p"])
      with Pair kept assms(3) show ?thesis by (auto simp: sessions_in_def)
    next
      case (Inr ok)
      with Pair have auth: "authenticate ?A u p s = (Inr ok, s1)" by simp
  have s1: "sessions_in ?S s1" using kept auth by simp
  have log: "keeps (sessions_in S) (bindS (on_db ?A (\<lambda>i. audit (a_clock ?A i) u act None det)) (\<lambda>_. n))"
    if "keeps (sessions_in S) n" for S act det and n :: "(admin_state, web_response) sem"
    using that by (intro keeps_intro keeps_on_db [OF assms(1)] no_new_session)
  show ?thesis
  proof (cases ok)
    case False
    with assms(2) have run: "bindS (on_db ?A (\<lambda>i. audit (a_clock ?A i) u ''login.failed'' None [(''outcome'', JStr ''rejected'')]))
        (\<lambda>_. render (LoginPage (Some ''Incorrect username or password.''))) s1 = (r, s')"
      by (simp add: login_def Let_def bindS_run [where m = "authenticate ?A u p", OF auth])
    have "sessions_in ?S (snd (r, s'))"
      unfolding run [symmetric] by (rule keepsD [OF log [OF keeps_statements(6)] s1])
    with assms(3) show ?thesis by (auto simp: sessions_in_def)
  next
    case True
    obtain b s2 where b: "begin_session ?A u s1 = (b, s2)" by fastforce
    let ?T = "{x. x \<in> ?S \<or> se_username x = u}"
    have s2: "sessions_in ?T s2"
    proof -
      have "keeps (sessions_in ?T) (begin_session ?A u)"
        unfolding begin_session_def
        by (intro keeps_intro keeps_on_db_within assms(1)) (auto simp: create_session_def)
      moreover have "sessions_in ?T s1" using s1 by (auto simp: sessions_in_def)
      ultimately show ?thesis using b by (auto dest: keepsD)
    qed
    have "sessions_in ?T s'"
    proof (cases b)
      case (Inl e)
      with assms(2) True b s2 show ?thesis
        by (simp add: login_def Let_def bindS_run [where m = "authenticate ?A u p", OF auth] bindS_stop [where m = "begin_session ?A u"])
    next
      case (Inr tc)
      obtain token csrf where "tc = (token, csrf)" by fastforce
      with Inr assms(2) True b have run: "bindS (on_db ?A (\<lambda>i. audit (a_clock ?A i) u ''login.succeeded'' None [])) (\<lambda>_.
        returnS (SeeOther ''/sources'' (SetCookie \<lparr>ck_name = SESSION_COOKIE, ck_value = token, ck_httponly = True,
          ck_samesite = ''strict'', ck_secure = st_secure_cookie (w_settings E), ck_max_age = SESSION_LIFETIME, ck_path = ''/''\<rparr>))) s2 = (r, s')"
        by (simp add: login_def Let_def bindS_run [where m = "authenticate ?A u p", OF auth] bindS_run [where m = "begin_session ?A u"])
      have "sessions_in ?T (snd (r, s'))"
        unfolding run [symmetric] by (rule keepsD [OF log [OF keeps_returnS] s2])
      then show ?thesis by simp
    qed
    with assms(3) auth True show ?thesis by (auto simp: sessions_in_def)
  qed
    qed
  qed
qed

text \<open>Every session of a run was opened by one of its logins.\<close>

lemma sessions_from_logins:
  assumes "adds_no_session (a_others (w_admin E))" "d_sessions (as_db s) = []"
    and "se \<in> set (d_sessions (as_db (serve E reqs s)))"
  shows "\<exists>pre c p post. reqs = pre @ (c, Login (se_username se) p) # post
    \<and> fst (authenticate (w_admin E) (se_username se) p (serve E pre s)) = Inr True"
  using assms(3)
proof (induction reqs rule: rev_induct)
  case Nil
  with assms(2) show ?case by simp
next
  case (snoc r reqs)
  have app: "serve E (reqs @ [(c, q)]) s = snd (handle E c q (serve E reqs s))" for c q
  proof -
    have "serve E (xs @ ys) t = serve E ys (serve E xs t)" for xs ys t
      by (induction xs arbitrary: t) auto
    then show ?thesis by simp
  qed
  obtain c q where r: "r = (c, q)" by fastforce
  let ?t = "serve E reqs s"
  obtain x t' where h: "handle E c q ?t = (x, t')" by fastforce
  have se: "se \<in> set (d_sessions (as_db t'))" using snoc.prems app [of c q] r h by simp
  have "se \<in> set (d_sessions (as_db ?t)) \<or> (\<exists>p. q = Login (se_username se) p \<and>
      fst (authenticate (w_admin E) (se_username se) p ?t) = Inr True)"
  proof (cases "\<exists>u p. q = Login u p")
    case True
    then obtain u p where q: "q = Login u p" by blast
    with login_sessions [OF assms(1) _ se, of u p ?t x] h show ?thesis by auto
  next
    case False
    then have "keeps (sessions_in (set (d_sessions (as_db ?t)))) (handle E c q)" using handle_sessions [OF assms(1)] by blast
    from keepsD [OF this, of ?t] h se show ?thesis by (auto simp: sessions_in_def)
  qed
  then show ?case
  proof (elim disjE exE conjE)
    assume "se \<in> set (d_sessions (as_db ?t))"
    from snoc.IH [OF this] obtain pre c' p post where "reqs = pre @ (c', Login (se_username se) p) # post"
      "fst (authenticate (w_admin E) (se_username se) p (serve E pre s)) = Inr True" by blast
    then show ?thesis by (intro exI [of _ pre] exI [of _ c'] exI [of _ p] exI [of _ "post @ [r]"]) simp
  qed (use r in blast)
qed

text \<open>C12: In a registry whose sessions only this application opens, and which starts without any, a
  request can change a source or a job only after a login of the operator in whose name it is
  made: earlier in the run there is a login request with that user name and a password that the
  check accepted at that moment.\<close>

theorem changes_come_from_a_login:
  assumes "adds_no_session (a_others (w_admin E))" "d_sessions (as_db s) = []"
    and "handle E cookie req (serve E earlier s) = (r, s')" "(d, d') \<in> set (own_steps (serve E earlier s) s')"
    and "d_sources d' \<noteq> d_sources d \<or> d_jobs d' \<noteq> d_jobs d"
  shows "\<exists>se pre c p post. fst (session_for (w_admin E) cookie (serve E earlier s)) = Inr (Some se)
    \<and> earlier = pre @ (c, Login (se_username se) p) # post
    \<and> fst (authenticate (w_admin E) (se_username se) p (serve E pre s)) = Inr True"
proof -
  obtain se where se: "fst (session_for (w_admin E) cookie (serve E earlier s)) = Inr (Some se)"
    using change_authorised [OF assms(3-5)] by blast
  then have "se \<in> set (d_sessions (a_others (w_admin E) (length (as_log (serve E earlier s))) (as_db (serve E earlier s))))"
    by (auto simp: session_for_def on_db_def get_session_def queryS_def returnS_def session_at_def Let_def
        split: if_splits option.splits dest: find_Some)
  then have "se \<in> set (d_sessions (as_db (serve E earlier s)))"
    using assms(1) unfolding adds_no_session_def by blast
  from sessions_from_logins [OF assms(1,2) this] se show ?thesis by blast
qed

section \<open>Polling waits for a delegation\<close>

lemma with_source_run:
  obtains (none) s2 e where "source_at i e = None" "with_source A op i f s = render (NotFoundPage (wo_username op)) s2"
      "own_steps s s2 = [(e, e)]" "as_log s2 = (e, e) # as_log s"
    | (some) src s2 e where "source_at i e = Some src" "with_source A op i f s = f src s2"
      "own_steps s s2 = [(e, e)]" "as_log s2 = (e, e) # as_log s"
proof -
  let ?e = "a_others A (length (as_log s)) (as_db s)"
  let ?s2 = "s\<lparr>as_db := ?e, as_log := (?e, ?e) # as_log s\<rparr>"
  have "with_source A op i f s = (case source_at i ?e of None \<Rightarrow> render (NotFoundPage (wo_username op)) | Some x \<Rightarrow> f x) ?s2"
    by (simp add: with_source_def on_db_def get_source_def queryS_def bindS_def Let_def)
  moreover have "own_steps s ?s2 = [(?e, ?e)]" by (simp add: own_steps_def)
  ultimately show thesis by (cases "source_at i ?e") (auto intro: none some)
qed

definition no_poll :: "db \<Rightarrow> db \<Rightarrow> bool" where
  "no_poll d d' \<longleftrightarrow> d_jobs d' = d_jobs d \<and> (\<forall>ev. d_audit d' = d_audit d @ [ev] \<longrightarrow> au_action ev \<noteq> ''source.poll'')"

definition poll_step :: "nat \<Rightarrow> string \<Rightarrow> db \<Rightarrow> db \<Rightarrow> bool" where
  "poll_step i user d d' \<longleftrightarrow> d_jobs d' = d_jobs d \<or>
     (\<exists>j. d_jobs d' = d_jobs d @ [j] \<and> jo_kind j = POLL \<and> jo_source_id j = i \<and> jo_state j = QUEUED \<and> jo_requested_by j = user)"

lemma poll_steps:
  "no_poll d d" "poll_step i user d d"
  "act \<noteq> ''source.poll'' \<Longrightarrow> no_poll d (snd (audit now u act src det d))"
  "poll_step i user d (snd (audit now u act src det d))"
  "poll_step i user d (snd (enqueue now uuid i POLL user [] d))"
  by (auto simp: no_poll_def poll_step_def audit_def modifyS_def enqueue_def Let_def)

text \<open>The \<^verbatim>\<open>poll\<close> control queues a job, or records \<^verbatim>\<open>source.poll\<close> in the audit log, only when the handler
  has read the source as active; what it queues is a poll of that source for that operator.  A
  poll of a source without a delegation queues nothing and is not recorded as a poll.\<close>

theorem poll_needs_delegation:
  assumes "handle E cookie (SourceAction i ''poll'' csrf) s = (r, s')" "(d, d') \<in> set (own_steps s s')"
    and "d_jobs d' \<noteq> d_jobs d \<or> (\<exists>ev. d_audit d' = d_audit d @ [ev] \<and> au_action ev = ''source.poll'')"
  shows "\<exists>se e src. fst (session_for (w_admin E) cookie s) = Inr (Some se)
    \<and> (e, e) \<in> set (own_steps s s') \<and> source_at i e = Some src \<and> so_status src = ACTIVE
    \<and> poll_step i (se_username se) d d'"
proof (rule guarded_run [of "w_admin E" cookie s "source_action (w_admin E) i ''poll'' csrf"])
  let ?A = "w_admin E"
  have no: "\<not> no_poll d d'" using assms(3) by (auto simp: no_poll_def)
  then have ne: "d' \<noteq> d" using poll_steps(1) by metis
  {
    fix s1 assume s1: "session_for ?A cookie s = (Inr None, s1)"
      and "guarded ?A cookie (source_action ?A i ''poll'' csrf) s = login_required s1"
    with assms(1) have "login_required s1 = (r, s')" "s' = s1" by (simp_all add: login_required_def redirect_def returnS_def)
    with own_steps_session [OF s1 emits_page(3) _ assms(2)] ne show ?thesis by simp
  }
  fix se s1 assume se: "session_for ?A cookie s = (Inr (Some se), s1)"
    and g: "guarded ?A cookie (source_action ?A i ''poll'' csrf) s
      = source_action ?A i ''poll'' csrf \<lparr>wo_username = se_username se, wo_csrf = se_csrf_token se\<rparr> s1"
  let ?op = "\<lparr>wo_username = se_username se, wo_csrf = se_csrf_token se\<rparr>"
  let ?f = "\<lambda>src. catchS form_error (liftS (check_csrf ?op csrf)) (\<lambda>_. redirect (source_url i)) (\<lambda>_.
      if pollable src
      then bindS (on_db ?A (\<lambda>k. enqueue (a_clock ?A k) (a_uuid ?A k) i POLL (se_username se) [])) (\<lambda>_.
        bindS (on_db ?A (\<lambda>k. audit (a_clock ?A k) (se_username se) (''source.'' @ ''poll'') (Some i) [])) (\<lambda>_. redirect (source_url i)))
      else bindS (on_db ?A (\<lambda>k. audit (a_clock ?A k) (se_username se) ''source.poll.refused'' (Some i) [])) (\<lambda>_. redirect (source_url i)))"
  have run: "with_source ?A ?op i ?f s1 = (r, s')"
    using assms(1) g by (simp add: source_action_def Let_def)
  have poll: "emits (poll_step i (se_username se)) (?f src)" for src
    by (intro emits_intro poll_steps)
  have refused: "emits no_poll (?f src)" if "\<not> pollable src" for src
    using that by (simp add: emits_catchS emits_pure emits_page emits_bindS emits_on_db poll_steps)
  have logged: "emits (poll_step i (se_username se)) (with_source ?A ?op i ?f)"
    by (intro emits_with_source poll poll_steps)
  have in1: "(d, d') \<in> set (own_steps s1 s')" using own_steps_session [OF se logged run assms(2)] ne by simp
  have step: "poll_step i (se_username se) d d'" by (rule emits_own(2) [OF logged run in1])
  have sub: "set (own_steps s1 s') \<subseteq> set (own_steps s s')"
    using own_steps_trans [OF emits_own(1) [OF emits_session(2) se, of "\<lambda>_ _. True"] emits_own(1) [OF logged run]] by auto
  show ?thesis
  proof (rule with_source_run [of i ?A ?op ?f s1])
    fix s2 e assume "with_source ?A ?op i ?f s1 = render (NotFoundPage (wo_username ?op)) s2" "own_steps s1 s2 = [(e, e)]"
    with run in1 ne show ?thesis by (auto simp: render_def returnS_def)
  next
    fix src s2 e assume src: "source_at i e = Some src" "with_source ?A ?op i ?f s1 = ?f src s2"
      "own_steps s1 s2 = [(e, e)]" "as_log s2 = (e, e) # as_log s1"
    have r2: "?f src s2 = (r, s')" using run src(2) by simp
    have own: "own_steps s1 s' = own_steps s2 s' @ [(e, e)]"
      using own_steps_trans [of s2 "[(e, e)]" s1 s' "own_steps s2 s'"] src(3,4) emits_own(1) [OF poll r2] by simp
    have "pollable src"
    proof (rule ccontr)
      assume "\<not> pollable src"
      from emits_own(2) [OF refused [OF this] r2, of d d'] in1 own no ne show False by auto
    qed
    moreover have "(e, e) \<in> set (own_steps s s')" using own sub by auto
    ultimately show ?thesis using se src(1) step by (auto simp: pollable_def)
  qed
qed

section \<open>Witnesses\<close>

text \<open>A registry with an active source, on which Alice is logged in.\<close>

definition ex_source_7 :: source where
  "ex_source_7 = ex_gh_source\<lparr>so_id := 7, so_status := ACTIVE, so_repository_id := Some ''1'', so_repository_owner_id := Some ''2''\<rparr>"

definition ex_session :: session where
  "ex_session = \<lparr>se_token_sha256 = ''token'', se_username = ''alice'', se_csrf_token = ''csrf'', se_expires_at = 100\<rparr>"

definition ex_registry :: db where
  "ex_registry = ex_accounts\<lparr>d_sources := [ex_source_7], d_sessions := [ex_session]\<rparr>"

definition ex_poll :: "(exn + web_response) \<times> admin_state" where
  "ex_poll = handle ex_web (Some ''token'') (SourceAction 7 ''poll'' ''csrf'') (admin_state_of ex_registry)"

lemma ex_csrf: "check_csrf \<lparr>wo_username = u, wo_csrf = ''csrf''\<rparr> ''csrf'' = Inr ()"
  by (simp add: check_csrf_Inr) code_simp

lemma ex_token_digest: "token_digest ex_admin ''token'' = ''token''" "w_admin ex_web = ex_admin"
  by code_simp (simp add: ex_web_def)

lemma ex_fields:
  "a_others ex_admin i d = d" "a_clock ex_admin i = int i" "a_uuid ex_admin i = 100 + i"
  by (simp_all add: ex_admin_def)

lemma ex_session_for:
  "session_for ex_admin (Some ''token'') (admin_state_of ex_registry)
    = (Inr (Some ex_session), \<lparr>as_db = ex_registry, as_log = [(ex_registry, ex_registry)], as_hashes = 0\<rparr>)"
  by (simp add: session_for_def on_db_def get_session_def queryS_def Let_def ex_token_digest ex_fields session_at_def operator_at_def
      ex_registry_def ex_session_def ex_accounts_def ex_account_def admin_state_of_def)

lemma ex_poll_from:
  assumes "session_for ex_admin (Some ''token'') s = (Inr (Some se), s\<lparr>as_log := (as_db s, as_db s) # as_log s\<rparr>)"
    and "se_csrf_token se = ''csrf''" "source_at 7 (as_db s) = Some ex_source_7" "d_jobs (as_db s) = []"
    and "\<not> nul (se_username se)"
  shows "\<exists>resp s' d d'. handle ex_web (Some ''token'') (SourceAction 7 ''poll'' ''csrf'') s = (Inr resp, s')
    \<and> (d, d') \<in> set (own_steps s s') \<and> d_jobs d' \<noteq> d_jobs d"
proof -
  let ?op = "\<lparr>wo_username = se_username se, wo_csrf = ''csrf''\<rparr>" and ?d = "as_db s" and ?k = "length (as_log s)"
  have st: "storable [se_username se] [[]]" "storable [se_username se, ''source.poll''] [[]]"
    using assms(5) by (simp_all add: storable_def dict_ok_def nul_def)
  have pollable: "pollable ex_source_7" by (simp add: ex_source_7_def pollable_def)
  have "handle ex_web (Some ''token'') (SourceAction 7 ''poll'' ''csrf'') s
      = source_action ex_admin 7 ''poll'' ''csrf'' ?op (s\<lparr>as_log := (?d, ?d) # as_log s\<rparr>)"
    by (simp add: guarded_def current_operator_def bindS_def ex_token_digest assms(1,2) returnS_def)
  moreover define d1 where "d1 = snd (enqueue (int (?k + 2)) (100 + (?k + 2)) 7 POLL (se_username se) [] ?d)"
  moreover define d2 where "d2 = snd (audit (int (?k + 3)) (se_username se) ''source.poll'' (Some 7) [] d1)"
  ultimately have run: "handle ex_web (Some ''token'') (SourceAction 7 ''poll'' ''csrf'') s =
      (Inr (SeeOther (source_url 7) KeepCookie), s\<lparr>as_db := d2, as_log := [(d1, d2), (?d, d1), (?d, ?d), (?d, ?d)] @ as_log s\<rparr>)"
    using assms(3,4) pollable st
    by (simp add: source_action_def with_source_def get_source_def catchS_eq ex_csrf Let_def on_db_def queryS_def bindS_def
        ex_fields liftS_def enqueue_def job_at_def has_open_job_def audit_def modifyS_def redirect_def returnS_def)
  moreover have "d_jobs d1 \<noteq> d_jobs ?d"
    using assms(3,4) st by (simp add: d1_def enqueue_def job_at_def has_open_job_def Let_def)
  ultimately show ?thesis by (fastforce simp: own_steps_def)
qed

lemma ex_poll_run:
  "\<exists>resp s' d d'. ex_poll = (Inr resp, s') \<and> (d, d') \<in> set (own_steps (admin_state_of ex_registry) s') \<and> d_jobs d' \<noteq> d_jobs d"
  unfolding ex_poll_def
  by (rule ex_poll_from [where se = ex_session])
    (simp_all add: ex_session_for, simp_all add: admin_state_of_def ex_session_def source_at_def ex_registry_def ex_source_7_def
      ex_accounts_def empty_db_def nul_def)

theorem change_needs_session_and_token_witness:
  "\<exists>se. fst (session_for ex_admin (Some ''token'') (admin_state_of ex_registry)) = Inr (Some se) \<and> se_csrf_token se = ''csrf''"
proof -
  obtain resp s' d d' where run: "handle ex_web (Some ''token'') (SourceAction 7 ''poll'' ''csrf'') (admin_state_of ex_registry) = (Inr resp, s')"
    "(d, d') \<in> set (own_steps (admin_state_of ex_registry) s')" "d_jobs d' \<noteq> d_jobs d"
    using ex_poll_run unfolding ex_poll_def by blast
  from change_needs_session_and_token [OF run(1,2)] run(3) show ?thesis by (auto simp: ex_token_digest csrf_field_def)
qed


theorem poll_needs_delegation_witness:
  "\<exists>e src. source_at 7 e = Some src \<and> so_status src = ACTIVE"
proof -
  obtain resp s' d d' where run: "handle ex_web (Some ''token'') (SourceAction 7 ''poll'' ''csrf'') (admin_state_of ex_registry) = (Inr resp, s')"
    "(d, d') \<in> set (own_steps (admin_state_of ex_registry) s')" "d_jobs d' \<noteq> d_jobs d"
    using ex_poll_run unfolding ex_poll_def by blast
  from poll_needs_delegation [OF run(1,2)] run(3) show ?thesis by blast
qed

theorem admin_cannot_activate_or_publish_witness:
  "\<exists>d d'. (d, d') \<in> set (own_steps (admin_state_of ex_registry)
      (serve ex_web [(Some ''token'', SourceAction 7 ''poll'' ''csrf'')] (admin_state_of ex_registry)))
    \<and> d_jobs d' \<noteq> d_jobs d \<and> active_from d d'"
proof -
  obtain resp s' d d' where run: "ex_poll = (Inr resp, s')" "(d, d') \<in> set (own_steps (admin_state_of ex_registry) s')" "d_jobs d' \<noteq> d_jobs d"
    using ex_poll_run by blast
  then have "(d, d') \<in> set (own_steps (admin_state_of ex_registry)
      (serve ex_web [(Some ''token'', SourceAction 7 ''poll'' ''csrf'')] (admin_state_of ex_registry)))"
    by (simp add: ex_poll_def)
  from admin_cannot_activate_or_publish [OF this] this run(3) show ?thesis by blast
qed

text \<open>A run: Alice logs in, and then polls the source.\<close>

definition ex_logins :: "(string option \<times> request) list" where
  "ex_logins = [(None, Login ''alice'' ''hunter2'')]"

definition ex_closed :: db where
  "ex_closed = ex_accounts\<lparr>d_sources := [ex_source_7]\<rparr>"

definition ex_opened :: session where
  "ex_opened = \<lparr>se_token_sha256 = ''token'', se_username = ''alice'', se_csrf_token = ''csrf'', se_expires_at = 43201\<rparr>"

lemma ex_login_run:
  "\<exists>s1. serve ex_web ex_logins (admin_state_of ex_closed) = s1 \<and> d_sources (as_db s1) = [ex_source_7] \<and> d_jobs (as_db s1) = []
     \<and> d_operators (as_db s1) = [ex_account] \<and> length (as_log s1) = 3 \<and> d_sessions (as_db s1) = [ex_opened]"
proof -
  have u: "utf8_encode ''hunter2'' = ''hunter2''" by code_simp
  have f: "a_scrypt ex_admin x y = x @ y" "a_token ex_admin i = ''token''" "a_csrf ex_admin i = ''csrf''" "a_now ex_admin i = int i" for x y i
    by (simp_all add: ex_admin_def)
  show ?thesis
    by (simp add: ex_logins_def login_def authenticate_run begin_session_def at_step_def on_db_def create_session_def session_at_def
        operator_at_def audit_def modifyS_def bindS_def returnS_def Let_def u ex_fields ex_token_digest f SESSION_LIFETIME_def ex_opened_def
        ex_closed_def ex_accounts_def ex_account_def empty_db_def admin_state_of_def nul_def storable_def dict_ok_def del: utf8_encode.simps)
qed

theorem changes_come_from_a_login_witness:
  "\<exists>pre c p post. ex_logins = pre @ (c, Login ''alice'' p) # post
     \<and> fst (authenticate ex_admin ''alice'' p (serve ex_web pre (admin_state_of ex_closed))) = Inr True"
proof -
  obtain s1 where s1: "serve ex_web ex_logins (admin_state_of ex_closed) = s1" "d_sources (as_db s1) = [ex_source_7]" "d_jobs (as_db s1) = []"
    "d_operators (as_db s1) = [ex_account]" "length (as_log s1) = 3" "d_sessions (as_db s1) = [ex_opened]"
    using ex_login_run by blast
  have se: "session_for ex_admin (Some ''token'') s1 = (Inr (Some ex_opened), s1\<lparr>as_log := (as_db s1, as_db s1) # as_log s1\<rparr>)"
    using s1(4-6) by (simp add: session_for_def on_db_def get_session_def queryS_def Let_def ex_token_digest ex_fields session_at_def
        operator_at_def ex_account_def ex_opened_def)
  obtain resp s' d d' where h: "handle ex_web (Some ''token'') (SourceAction 7 ''poll'' ''csrf'') s1 = (Inr resp, s')"
    "(d, d') \<in> set (own_steps s1 s')" "d_jobs d' \<noteq> d_jobs d"
    using ex_poll_from [OF se] s1(2,3) by (auto simp: ex_opened_def source_at_def ex_source_7_def nul_def)
  have "adds_no_session (a_others (w_admin ex_web))" "d_sessions (as_db (admin_state_of ex_closed)) = []"
    by (simp_all add: adds_no_session_def ex_token_digest ex_fields admin_state_of_def ex_closed_def ex_accounts_def empty_db_def)
  from changes_come_from_a_login [where E = ex_web and earlier = ex_logins and s = "admin_state_of ex_closed", unfolded s1(1), OF this h(1,2)] h(3)
  obtain se' pre c p post where "fst (session_for (w_admin ex_web) (Some ''token'') s1) = Inr (Some se')"
    "ex_logins = pre @ (c, Login (se_username se') p) # post"
    "fst (authenticate (w_admin ex_web) (se_username se') p (serve ex_web pre (admin_state_of ex_closed))) = Inr True" by blast
  moreover from this(1) have "se_username se' = ''alice''" by (auto simp: ex_token_digest se ex_opened_def)
  ultimately show ?thesis by (auto simp: ex_token_digest)
qed

end
