(* ===== verification/Ceremony.thy ===== *)
theory Ceremony
  imports RepositoryClaims
begin

text \<open>
  \<^verbatim>\<open>scripts/ceremony.py\<close>: the key ceremony, which creates the two keystores and the first version
  of the repository.  (Its combined backend, used at this one moment, is in \<open>Signing\<close>.)

  The machine is its files (the databases, the key files, an exported root, anything else), the
  directory the repository is to live in, the repository there, and how many private keys were
  generated so far: the \<open>i\<close>-th one is \<open>ce_pem i\<close>.  \<open>ce_ask\<close> is what the operator types at a prompt, or
  what reading it raises; \<open>ce_parent\<close> is \<open>Path(p).resolve().parent\<close>.  A path given on the command line
  lies outside the repository's directory and can be written; making its parent directories is left out.
\<close>

section \<open>The machine\<close>

record ceremony_args =
  ca_out :: string
  ca_offline_db :: string
  ca_online_db :: string
  ca_offline_keyfile :: "string option"
  ca_online_keyfile :: "string option"
  ca_export_root :: "string option"
  ca_passwords_from_stdin :: bool
  ca_dev :: bool

record ceremony_env =
  ce_ENV :: "string option"
  ce_parent :: "string \<Rightarrow> string"
  ce_stdin :: string
  ce_ask :: "string \<Rightarrow> string res"
  ce_derive :: "string \<Rightarrow> string res"
  ce_pem :: "nat \<Rightarrow> string"
  ce_lib :: tuf_lib
  ce_now :: int

datatype out_path = Absent | NotADirectory | Directory "string list"

datatype content = Copied repo_file | Bytes string

record machine =
  mc_files :: "content file_map"
  mc_out :: out_path
  mc_repo :: "repo option"
  mc_drawn :: nat

section \<open>Passwords\<close>

definition OFFLINE_ROLES :: "string list" where "OFFLINE_ROLES = [ROOT, TARGETS]"
definition ONLINE_ROLES :: "string list" where "ONLINE_ROLES = [SNAPSHOT, TIMESTAMP]"

definition DEV_PASSWORD :: string where "DEV_PASSWORD = ''dev-only-not-a-secret''"

definition is_line_end :: "char \<Rightarrow> bool" where
  "is_line_end c \<longleftrightarrow> c \<in> set [CHR 0x0A, CHR 0x0B, CHR 0x0C, CHR 0x0D, CHR 0x1C, CHR 0x1D, CHR 0x1E, CHR 0x85]"

text \<open>\<open>str.splitlines()\<close>: a carriage return and a newline together end one line, and a final line
  end opens no further line.  \<open>acc\<close> is the line so far, reversed.\<close>

fun split_lines :: "string \<Rightarrow> string \<Rightarrow> string list" where
  "split_lines acc [] = (if acc = [] then [] else [rev acc])"
| "split_lines acc (c # cs) =
     (if is_line_end c
      then rev acc # split_lines [] (drop (if c = CHR 0x0D \<and> take 1 cs = [CHR 0x0A] then 1 else 0) cs)
      else split_lines (c # acc) cs)"

definition password ::
  "(string \<Rightarrow> string res) \<Rightarrow> string \<Rightarrow> bool \<Rightarrow> string list option \<Rightarrow> (string \<times> string list option) res" where
  "password ask label dev stdin = (case stdin of
      Some [] \<Rightarrow> Inl (SystemExit ''stdin ran out of passwords'')
    | Some (v # vs) \<Rightarrow>
        if v = [] then Inl (SystemExit ''empty password'') else Inr (v, Some vs)
    | None \<Rightarrow>
        if dev then Inr (DEV_PASSWORD, None)
        else bindr (ask (''Password for '' @ label @ '': '')) (\<lambda>first.
             bindr (ask (''Repeat password for '' @ label @ '': '')) (\<lambda>again.
               if first \<noteq> again then Inl (SystemExit ''passwords did not match'')
               else if first = [] then Inl (SystemExit ''empty password'')
               else Inr (first, None))))"

section \<open>Keys\<close>

definition top_level_policy :: "string \<Rightarrow> role_policy res" where
  "top_level_policy role = (case map_of TOP_LEVEL_POLICIES role of
     None \<Rightarrow> Inl (KeyError role) | Some p \<Rightarrow> Inr p)"

fun check_placement :: "key_store \<Rightarrow> string list \<Rightarrow> unit res" where
  "check_placement ks [] = Inr ()"
| "check_placement ks (role # roles) =
     bindr (top_level_policy role) (\<lambda>p.
       if rp_keystore p \<noteq> ks then Inl (SystemExit ''role is not declared for this keystore'')
       else check_placement ks roles)"

definition check_role_placement :: "unit res" where
  "check_role_placement =
     bindr (check_placement OFFLINE OFFLINE_ROLES) (\<lambda>_. check_placement ONLINE ONLINE_ROLES)"

text \<open>An operation on the files alone.\<close>

definition on_files :: "(content file_map, 'a) sem \<Rightarrow> (machine, 'a) sem" where
  "on_files f = (\<lambda>m. case f (mc_files m) of (r, files) \<Rightarrow> (r, m\<lparr>mc_files := files\<rparr>))"

definition create_store :: "keepass_config \<Rightarrow> (machine, unit) sem" where
  "create_store config = on_files (create_keystore config)"

definition draw_key :: "ceremony_env \<Rightarrow> keepass_config \<Rightarrow> string \<Rightarrow> (machine, unit) sem" where
  "draw_key E config role = (\<lambda>m.
     bindS (on_files (generate_key (ce_derive E) (ce_pem E (mc_drawn m)) config role ''ed25519''))
       (\<lambda>keyid. returnS ()) (m\<lparr>mc_drawn := mc_drawn m + 1\<rparr>))"

fun draw_keys :: "ceremony_env \<Rightarrow> keepass_config \<Rightarrow> string \<Rightarrow> nat \<Rightarrow> (machine, unit) sem" where
  "draw_keys E config role 0 = returnS ()"
| "draw_keys E config role (Suc n) = bindS (draw_key E config role) (\<lambda>_. draw_keys E config role n)"

fun fill_store :: "ceremony_env \<Rightarrow> keepass_config \<Rightarrow> string list \<Rightarrow> (machine, unit) sem" where
  "fill_store E config [] = returnS ()"
| "fill_store E config (role # roles) =
     bindS (liftS (top_level_policy role)) (\<lambda>policy.
     bindS (draw_keys E config role (nat (rp_key_count policy))) (\<lambda>_.
     fill_store E config roles))"

section \<open>The ceremony\<close>

definition refuse_used :: "out_path \<Rightarrow> unit res" where
  "refuse_used out = (case out of
     Absent \<Rightarrow> Inr ()
   | NotADirectory \<Rightarrow> Inl (OSError ''not a directory'')
   | Directory entries \<Rightarrow>
       if entries = [] then Inr ()
       else Inl (SystemExit ''already exists and is not empty; refusing to overwrite a keyset''))"

text \<open>\<open>Path(p) if p else None\<close>\<close>

definition path_option :: "string option \<Rightarrow> string option" where
  "path_option p = (if p = Some [] then None else p)"

text \<open>The two configurations, validated; nothing is written up to here.\<close>

definition prepare ::
  "ceremony_env \<Rightarrow> ceremony_args \<Rightarrow> out_path \<Rightarrow> (keepass_config \<times> keepass_config) res" where
  "prepare E a out =
     bindr check_role_placement (\<lambda>_.
     if ca_dev a \<and> is_production (ce_ENV E) then Inl (SystemExit ''--dev refused with ENV=production'') else
     bindr (refuse_used out) (\<lambda>_.
     let piped = (if ca_passwords_from_stdin a then Some (split_lines [] (ce_stdin E)) else None) in
     bindr (password (ce_ask E) ''offline.kdbx (root and targets)'' (ca_dev a) piped) (\<lambda>(pw, piped).
     let offline = \<lparr>kc_database = ca_offline_db a, kc_password = Some pw,
                    kc_keyfile = path_option (ca_offline_keyfile a)\<rparr> in
     bindr (password (ce_ask E) ''online.kdbx (snapshot, timestamp, apps)'' (ca_dev a) piped) (\<lambda>(pw, piped).
     let online = \<lparr>kc_database = ca_online_db a, kc_password = Some pw,
                   kc_keyfile = path_option (ca_online_keyfile a)\<rparr> in
     bindr (validate (ce_ENV E) (ce_parent E) offline) (\<lambda>_.
     bindr (validate (ce_ENV E) (ce_parent E) online) (\<lambda>_.
     Inr (offline, online)))))))"

definition open_store :: "ceremony_env \<Rightarrow> keepass_config \<Rightarrow> (machine, backend) sem" where
  "open_store E config = (\<lambda>m. (open_keepass (ce_ENV E) (ce_parent E) (ce_derive E) config (mc_files m), m))"

definition create_repository :: "ceremony_env \<Rightarrow> backend \<Rightarrow> (machine, unit) sem" where
  "create_repository E B = (\<lambda>m. case initialize (ce_lib E) B (ce_now E) fresh_repo of
     (r, repo) \<Rightarrow> (r, m\<lparr>mc_out := Directory [''metadata'', ''targets''], mc_repo := Some repo\<rparr>))"

text \<open>\<open>shutil.copyfile\<close> replaces whatever file the destination is.\<close>

definition export_root :: "ceremony_args \<Rightarrow> (machine, unit) sem" where
  "export_root a = (\<lambda>m. case ca_export_root a of
     None \<Rightarrow> (Inr (), m)
   | Some dest \<Rightarrow>
       if dest = [] then (Inr (), m)
       else (case mc_repo m of
           None \<Rightarrow> (Inl (OSError ''no such file''), m)
         | Some repo \<Rightarrow> (case disk repo ''metadata/root.json'' of
               None \<Rightarrow> (Inl (OSError ''no such file''), m)
             | Some f \<Rightarrow> (Inr (), m\<lparr>mc_files := (mc_files m)(dest \<mapsto> Document (Copied f))\<rparr>))))"

definition perform ::
  "ceremony_env \<Rightarrow> ceremony_args \<Rightarrow> keepass_config \<Rightarrow> keepass_config \<Rightarrow> (machine, int) sem" where
  "perform E a offline online =
     bindS (create_store offline) (\<lambda>_.
     bindS (create_store online) (\<lambda>_.
     bindS (fill_store E offline OFFLINE_ROLES) (\<lambda>_.
     bindS (fill_store E online ONLINE_ROLES) (\<lambda>_.
     bindS (open_store E offline) (\<lambda>b1.
     bindS (open_store E online) (\<lambda>b2.
     bindS (create_repository E (combined_backend [b1, b2])) (\<lambda>_.
     bindS (export_root a) (\<lambda>_.
     returnS 0))))))))"

definition ceremony :: "ceremony_env \<Rightarrow> ceremony_args \<Rightarrow> (machine, int) sem" where
  "ceremony E a = (\<lambda>m.
     bindS (liftS (prepare E a (mc_out m))) (\<lambda>(offline, online). perform E a offline online) m)"

end
