(* ===== verification/CeremonyClaims.thy ===== *)
theory CeremonyClaims
  imports Ceremony
begin

text \<open>
  What a key ceremony leaves behind: which keystore holds which keys, the root every application
  will trust, and what a ceremony that stops early has touched.
\<close>

section \<open>Filling the keystores\<close>

lemma check_role_placement_ok [simp]: "check_role_placement = Inr ()"
  by (simp add: check_role_placement_def OFFLINE_ROLES_def ONLINE_ROLES_def top_level_policy_def
      TOP_LEVEL_POLICIES_def policy_defs)

lemma top_level_policy_simps [simp]:
  "top_level_policy ROOT = Inr ROOT_POLICY" "top_level_policy TARGETS = Inr TARGETS_POLICY"
  "top_level_policy SNAPSHOT = Inr SNAPSHOT_POLICY" "top_level_policy TIMESTAMP = Inr TIMESTAMP_POLICY"
  by (simp_all add: top_level_policy_def TOP_LEVEL_POLICIES_def policy_defs)

definition drawn :: "ceremony_env \<Rightarrow> string \<Rightarrow> nat \<Rightarrow> nat \<Rightarrow> kdbx_entry list" where
  "drawn E role d n = map (\<lambda>i. \<lparr>kx_role = Some role, kx_pem = Some (ce_pem E i)\<rparr>) [d..<d + n]"

definition derivable :: "ceremony_env \<Rightarrow> nat \<Rightarrow> nat \<Rightarrow> bool" where
  "derivable E d n \<longleftrightarrow> (\<forall>i \<in> {d..<d + n}. returns (ce_derive E (ce_pem E i)))"

lemma derivable_split: "derivable E d (n + k) \<longleftrightarrow> derivable E d n \<and> derivable E (d + n) k"
proof -
  have "{d..<d + (n + k)} = {d..<d + n} \<union> {d + n..<d + n + k}" by auto
  then show ?thesis unfolding derivable_def by (simp only: ball_Un)
qed

lemma drawn_Suc: "drawn E role d (Suc n) = drawn E role d 1 @ drawn E role (Suc d) n"
  by (simp add: drawn_def upt_rec)

text \<open>The files after the database of \<open>c\<close> was saved with the entries \<open>xs\<close>.\<close>

definition saved :: "keepass_config \<Rightarrow> kdbx_entry list \<Rightarrow> content file_map \<Rightarrow> content file_map" where
  "saved c xs files = files(kc_database c \<mapsto>
     Database (fst (projr (key_material files c))) (snd (projr (key_material files c))) (Some xs))"

lemma key_material_frame: "kc_keyfile c \<noteq> Some p \<Longrightarrow> key_material (files(p \<mapsto> f)) c = key_material files c"
  by (auto simp: key_material_def split: option.split)

lemma key_material_ne: "returns (key_material files c) \<Longrightarrow> files p = None \<Longrightarrow> kc_keyfile c \<noteq> Some p"
  by (auto simp: key_material_def)

lemma PyKeePass_frame:
  "kc_keyfile c \<noteq> Some p \<Longrightarrow> kc_database c \<noteq> p \<Longrightarrow> PyKeePass (files(p \<mapsto> f)) c = PyKeePass files c"
  by (simp add: PyKeePass_def key_material_frame split: option.split fs_file.split)

lemma opened_apart:
  assumes "PyKeePass files c = Inr db"
  shows "kc_keyfile c \<noteq> Some (kc_database c)" "returns (key_material files c)"
proof -
  obtain pw kf where d: "files (kc_database c) = Some (Database pw kf db)" "key_material files c = Inr (pw, kf)"
    using assms by (auto simp: PyKeePass_Inr)
  then show "returns (key_material files c)" by simp
  show "kc_keyfile c \<noteq> Some (kc_database c)"
  proof
    assume k: "kc_keyfile c = Some (kc_database c)"
    then have "kf = Some (Database pw kf db)" using d by (simp add: key_material_def)
    moreover have "kf = Some (Document undefined)"
      using key_material_update [OF d, of "Document undefined"] k by (simp add: key_material_def)
    ultimately show False by (metis fs_file.distinct(1) option.inject)
  qed
qed

lemma saved_apart:
  assumes "kc_keyfile c \<noteq> Some (kc_database c)" "returns (key_material files c)"
  shows "PyKeePass (saved c xs files) c = Inr (Some xs)" "saved c ys (saved c xs files) = saved c ys files"
    "key_material (saved c xs files) c = key_material files c"
  using assms key_material_frame [OF assms(1), of files]
  by (auto simp: saved_def PyKeePass_def returns_iff)

lemma saved_same: "PyKeePass files c = Inr (Some xs) \<Longrightarrow> saved c xs files = files"
  by (auto simp: saved_def PyKeePass_Inr)

lemma draw_key_run:
  assumes "PyKeePass (mc_files m) c = Inr (Some xs)"
  shows "draw_key E c role m = (Inr u, m') \<longleftrightarrow> derivable E (mc_drawn m) 1
    \<and> m' = m\<lparr>mc_files := saved c (xs @ drawn E role (mc_drawn m) 1) (mc_files m), mc_drawn := mc_drawn m + 1\<rparr>"
  using assms opened_apart(2) [OF assms]
  by (cases "ce_derive E (ce_pem E (mc_drawn m))")
    (auto simp: draw_key_def on_files_def generate_key_def derivable_def drawn_def saved_def returns_iff bindS_def)

lemma draw_keys_run:
  "PyKeePass (mc_files m) c = Inr (Some xs) \<Longrightarrow>
   draw_keys E c role n m = (Inr u, m') \<longleftrightarrow> derivable E (mc_drawn m) n
    \<and> m' = m\<lparr>mc_files := saved c (xs @ drawn E role (mc_drawn m) n) (mc_files m), mc_drawn := mc_drawn m + n\<rparr>"
proof (induction n arbitrary: m xs)
  case 0
  then show ?case by (auto simp: derivable_def drawn_def saved_same)
next
  case (Suc n)
  let ?m = "m\<lparr>mc_files := saved c (xs @ drawn E role (mc_drawn m) 1) (mc_files m), mc_drawn := mc_drawn m + 1\<rparr>"
  note sv = saved_apart [OF opened_apart [OF Suc.prems]]
  have kd: "PyKeePass (mc_files ?m) c = Inr (Some (xs @ drawn E role (mc_drawn m) 1))" by (simp add: sv)
  have "draw_keys E c role (Suc n) m = (Inr u, m') \<longleftrightarrow>
      derivable E (mc_drawn m) 1 \<and> draw_keys E c role n ?m = (Inr u, m')"
    by (auto simp: bindS_eq_Inr_iff draw_key_run [OF Suc.prems] simp del: One_nat_def)
  also have "\<dots> \<longleftrightarrow> derivable E (mc_drawn m) (Suc n) \<and> m' = m\<lparr>mc_files :=
      saved c (xs @ drawn E role (mc_drawn m) (Suc n)) (mc_files m), mc_drawn := mc_drawn m + Suc n\<rparr>"
    using derivable_split [of E "mc_drawn m" 1 n]
    unfolding Suc.IH [OF kd] drawn_Suc [of E role "mc_drawn m" n] by (simp add: sv)
  finally show ?case .
qed

definition offline_entries :: "ceremony_env \<Rightarrow> nat \<Rightarrow> kdbx_entry list" where
  "offline_entries E d = drawn E ROOT d 5 @ drawn E TARGETS (d + 5) 3"

definition online_entries :: "ceremony_env \<Rightarrow> nat \<Rightarrow> kdbx_entry list" where
  "online_entries E d = drawn E SNAPSHOT d 1 @ drawn E TIMESTAMP (d + 1) 1"

lemma fill_two_roles:
  assumes "PyKeePass (mc_files m) c = Inr (Some [])"
    and "top_level_policy r1 = Inr p1" "top_level_policy r2 = Inr p2"
    and "nat (rp_key_count p1) = n1" "nat (rp_key_count p2) = n2"
  shows "fill_store E c [r1, r2] m = (Inr u, m') \<longleftrightarrow> derivable E (mc_drawn m) (n1 + n2)
    \<and> m' = m\<lparr>mc_files := saved c (drawn E r1 (mc_drawn m) n1 @ drawn E r2 (mc_drawn m + n1) n2) (mc_files m),
        mc_drawn := mc_drawn m + n1 + n2\<rparr>"
proof -
  note sv = saved_apart [OF opened_apart [OF assms(1)]]
  have two: "draw_keys E c r2 n2 (m\<lparr>mc_files := saved c xs (mc_files m), mc_drawn := d\<rparr>) = (Inr v, m') \<longleftrightarrow>
      derivable E d n2 \<and> m' = m\<lparr>mc_files := saved c (xs @ drawn E r2 d n2) (mc_files m), mc_drawn := d + n2\<rparr>" for xs d v
    by (subst draw_keys_run [where xs = xs]) (simp_all add: sv)
  show ?thesis
    using assms(2-) by (auto simp: bindS_eq_Inr_iff draw_keys_run [OF assms(1)] two derivable_split)
qed

lemma fill_offline:
  "PyKeePass (mc_files m) c = Inr (Some []) \<Longrightarrow>
   fill_store E c OFFLINE_ROLES m = (Inr u, m') \<longleftrightarrow> derivable E (mc_drawn m) 8
    \<and> m' = m\<lparr>mc_files := saved c (offline_entries E (mc_drawn m)) (mc_files m), mc_drawn := mc_drawn m + 8\<rparr>"
  unfolding OFFLINE_ROLES_def offline_entries_def
  by (subst fill_two_roles [where ?p1.0 = ROOT_POLICY and ?p2.0 = TARGETS_POLICY and ?n1.0 = 5 and ?n2.0 = 3])
    (simp_all add: policy_defs ac_simps)

lemma fill_online:
  "PyKeePass (mc_files m) c = Inr (Some []) \<Longrightarrow>
   fill_store E c ONLINE_ROLES m = (Inr u, m') \<longleftrightarrow> derivable E (mc_drawn m) 2
    \<and> m' = m\<lparr>mc_files := saved c (online_entries E (mc_drawn m)) (mc_files m), mc_drawn := mc_drawn m + 2\<rparr>"
  unfolding ONLINE_ROLES_def online_entries_def
  by (subst fill_two_roles [where ?p1.0 = SNAPSHOT_POLICY and ?p2.0 = TIMESTAMP_POLICY and ?n1.0 = 1 and ?n2.0 = 1])
    (simp_all add: policy_defs numeral_2_eq_2)

lemma fill_online_opens:
  assumes "fill_store E c ONLINE_ROLES m = (Inr u, m')"
  shows "\<exists>db. PyKeePass (mc_files m) c = Inr db"
proof -
  obtain n where "draw_key E c SNAPSHOT m = (Inr (), n)"
    using assms by (auto simp: ONLINE_ROLES_def policy_defs bindS_eq_Inr_iff)
  then show ?thesis
    by (cases "PyKeePass (mc_files m) c") (auto simp: draw_key_def bindS_def on_files_def generate_key_def)
qed

text \<open>The stores as they are when the repository is created, after \<open>d\<close> earlier keys.\<close>

definition stocked :: "ceremony_env \<Rightarrow> keepass_config \<Rightarrow> keepass_config \<Rightarrow> machine \<Rightarrow> machine" where
  "stocked E offline online m = m\<lparr>mc_files :=
       saved online (online_entries E (mc_drawn m + 8))
         (saved offline (offline_entries E (mc_drawn m)) (mc_files m)),
     mc_drawn := mc_drawn m + 10\<rparr>"

text \<open>Both databases are new, and their key files, if any, can be read.\<close>

definition ready :: "keepass_config \<Rightarrow> keepass_config \<Rightarrow> content file_map \<Rightarrow> bool" where
  "ready offline online files \<longleftrightarrow> files (kc_database offline) = None \<and> files (kc_database online) = None
     \<and> kc_database offline \<noteq> kc_database online
     \<and> returns (key_material files offline) \<and> returns (key_material files online)"

lemma create_store_run:
  "create_store c m = (Inr u, m') \<longleftrightarrow> mc_files m (kc_database c) = None \<and> returns (key_material (mc_files m) c)
     \<and> m' = m\<lparr>mc_files := saved c [] (mc_files m)\<rparr>"
  by (auto simp: create_store_def on_files_def create_keystore_def saved_def returns_iff split: sum.splits)

definition stock :: "ceremony_env \<Rightarrow> keepass_config \<Rightarrow> keepass_config \<Rightarrow> (machine, unit) sem" where
  "stock E offline online =
     bindS (create_store offline) (\<lambda>_.
     bindS (create_store online) (\<lambda>_.
     bindS (fill_store E offline OFFLINE_ROLES) (\<lambda>_.
     fill_store E online ONLINE_ROLES)))"

lemma saved_frame: "kc_keyfile c \<noteq> Some (kc_database d) \<Longrightarrow> kc_database c \<noteq> kc_database d \<Longrightarrow>
    key_material (saved d xs files) c = key_material files c \<and> PyKeePass (saved d xs files) c = PyKeePass files c"
  by (simp add: saved_def key_material_frame PyKeePass_frame)

lemma saved_twist:
  assumes "kc_keyfile c \<noteq> Some (kc_database d)" "kc_keyfile d \<noteq> Some (kc_database c)"
    "kc_database c \<noteq> kc_database d"
  shows "saved c xs (saved d ys files) = saved d ys (saved c xs files)"
  using assms by (simp add: saved_def key_material_frame fun_upd_twist)

lemma ready_apart:
  assumes "ready offline online files" "c \<in> {offline, online}" "d \<in> {offline, online}"
  shows "kc_keyfile c \<noteq> Some (kc_database d)"
  using assms key_material_ne [of files c "kc_database d"] by (auto simp: ready_def)

lemma ready_opens:
  assumes "ready offline online files"
  shows "PyKeePass (saved online ys (saved offline xs files)) offline = Inr (Some xs)"
    "PyKeePass (saved online ys (saved offline xs files)) online = Inr (Some ys)"
proof -
  note ne = ready_apart [OF assms]
  have d: "kc_database offline \<noteq> kc_database online" using assms by (simp add: ready_def)
  show "PyKeePass (saved online ys (saved offline xs files)) offline = Inr (Some xs)"
    using ne d assms by (simp add: saved_frame saved_apart(1) ready_def)
  show "PyKeePass (saved online ys (saved offline xs files)) online = Inr (Some ys)"
    using ne d assms by (simp add: saved_frame saved_apart(1) ready_def)
qed

lemma stock_ready:
  assumes "stock E offline online m = (Inr u, m')"
  shows "ready offline online (mc_files m)"
proof -
  define f1 where "f1 = saved offline [] (mc_files m)"
  define f2 where "f2 = saved online [] f1"
  have off: "mc_files m (kc_database offline) = None" "returns (key_material (mc_files m) offline)"
    and on: "f1 (kc_database online) = None" "returns (key_material f1 online)"
    and fill: "bindS (fill_store E offline OFFLINE_ROLES) (\<lambda>_. fill_store E online ONLINE_ROLES) (m\<lparr>mc_files := f2\<rparr>) = (Inr u, m')"
    using assms by (auto simp: stock_def bindS_eq_Inr_iff create_store_run f1_def f2_def)
  have d: "kc_database offline \<noteq> kc_database online" using on(1) by (auto simp: f1_def saved_def)
  then have on0: "mc_files m (kc_database online) = None" using on(1) by (simp add: f1_def saved_def)
  have ko: "kc_keyfile offline \<noteq> Some (kc_database offline)" "kc_keyfile offline \<noteq> Some (kc_database online)"
    using key_material_ne off on0 by blast+
  have kn: "kc_keyfile online \<noteq> Some (kc_database online)" using key_material_ne on by blast
  have op: "PyKeePass f2 offline = Inr (Some [])"
    using saved_frame [OF ko(2) d] saved_apart(1) [OF ko(1) off(2)] by (simp add: f2_def f1_def)
  define f3 where "f3 = saved offline (offline_entries E (mc_drawn m)) f2"
  obtain db where "PyKeePass f3 online = Inr db"
    using fill by (auto simp: bindS_eq_Inr_iff fill_offline op f3_def dest!: fill_online_opens)
  moreover have "f3 (kc_database online) = f2 (kc_database online)" using d by (simp add: f3_def saved_def)
  ultimately have "key_material f3 online = key_material f1 online"
    using on(2) by (auto simp: PyKeePass_Inr f2_def saved_def returns_iff)
  moreover have "f3 (kc_database offline) \<noteq> f1 (kc_database offline)"
    by (simp add: f3_def f1_def saved_def offline_entries_def drawn_def upt_rec)
  ultimately have "kc_keyfile online \<noteq> Some (kc_database offline)"
    using on(2) by (auto simp: key_material_def split: option.splits)
  then have "returns (key_material (mc_files m) online)"
    using on(2) d saved_frame [of online offline "[]" "mc_files m"] by (simp add: f1_def)
  with off on0 d show ?thesis by (simp add: ready_def)
qed

lemma stock_run:
  "stock E offline online m = (Inr u, m') \<longleftrightarrow> ready offline online (mc_files m)
     \<and> derivable E (mc_drawn m) 10 \<and> m' = stocked E offline online m" (is "_ \<longleftrightarrow> ?R")
proof (cases "ready offline online (mc_files m)")
  case True
  note ne = ready_apart [OF True]
  let ?f = "mc_files m" and ?off = "offline_entries E (mc_drawn m)"
  have r: "?f (kc_database offline) = None" "?f (kc_database online) = None"
    "kc_database offline \<noteq> kc_database online" "kc_database online \<noteq> kc_database offline"
    "returns (key_material ?f offline)" "returns (key_material ?f online)"
    using True by (auto simp: ready_def)
  have on: "saved offline [] ?f (kc_database online) = None" "returns (key_material (saved offline [] ?f) online)"
    using r ne saved_frame [of online offline] by (simp_all add: saved_def)
  have re: "saved offline ?off (saved online [] (saved offline [] ?f)) = saved online [] (saved offline ?off ?f)"
    using ne r by (simp add: saved_twist [of offline online] saved_apart(2))
  have re2: "saved online ys (saved online [] (saved offline ?off ?f)) = saved online ys (saved offline ?off ?f)" for ys
    using ne r by (intro saved_apart(2)) (simp_all add: saved_frame)
  have op: "PyKeePass (saved online [] (saved offline [] ?f)) offline = Inr (Some [])"
    "PyKeePass (saved online [] (saved offline ?off ?f)) online = Inr (Some [])"
    using ready_opens [OF True] by simp_all
  show ?thesis
    using True r on derivable_split [of E "mc_drawn m" 8 2]
    by (auto simp: stock_def bindS_eq_Inr_iff create_store_run fill_offline fill_online op re re2 stocked_def)
next
  case False
  then show ?thesis using stock_ready by blast
qed

section \<open>Opening the keystores\<close>

lemma load_entries_roles:
  "load_entries derive xs ks = Inr ks' \<Longrightarrow> (k, e) \<in> set ks' \<Longrightarrow>
     (k, e) \<in> set ks \<or> Some (ke_role e) \<in> kx_role ` set xs"
proof (induction xs arbitrary: ks)
  case (Cons x xs)
  then show ?case
    by (fastforce simp: put_key_def split: option.splits elim!: bindr_InrE)
qed simp

lemma load_roles:
  assumes "load derive (Some xs) = Inr ks" "Some role \<notin> kx_role ` set xs"
  shows "keyids ks role = []"
proof -
  have "ke_role e \<noteq> role" if "(k, e) \<in> set ks" for k e
    using load_entries_roles [of derive xs "[]" ks k e] assms that by (auto simp: load_def)
  then have "set (keyids ks role) = {}" by (auto simp: set_keyids)
  then show ?thesis by simp
qed

definition entry_id :: "(string \<Rightarrow> string res) \<Rightarrow> kdbx_entry \<Rightarrow> string" where
  "entry_id derive x = projr (derive (the (kx_pem x)))"

definition entry_key :: "(string \<Rightarrow> string res) \<Rightarrow> kdbx_entry \<Rightarrow> string \<times> key_entry" where
  "entry_key derive x = (entry_id derive x, \<lparr>ke_role = the (kx_role x),
     ke_private_key = the (kx_pem x), ke_keyid = entry_id derive x\<rparr>)"

definition usable :: "(string \<Rightarrow> string res) \<Rightarrow> kdbx_entry \<Rightarrow> bool" where
  "usable derive x \<longleftrightarrow> kx_role x \<noteq> None \<and> (\<exists>pem. kx_pem x = Some pem \<and> returns (derive pem))"

lemma load_distinct:
  "list_all (usable derive) xs \<Longrightarrow> distinct (map (entry_id derive) xs @ map fst ks) \<Longrightarrow>
     load_entries derive xs ks = Inr (rev (map (entry_key derive) xs) @ ks)"
proof (induction xs arbitrary: ks)
  case (Cons x xs)
  then obtain role pem k where x: "kx_role x = Some role" "kx_pem x = Some pem" "derive pem = Inr k"
    by (auto simp: usable_def returns_iff)
  then have "k \<notin> fst ` set ks" using Cons.prems(2) by (simp add: entry_id_def)
  then have "filter (\<lambda>(j, _). j \<noteq> k) ks = ks" by (force simp: filter_id_conv)
  with Cons x show ?case by (simp add: put_key_def entry_key_def entry_id_def)
qed simp

lemma keyids_distinct:
  assumes "list_all (usable derive) xs"
  shows "mset (keyids (rev (map (entry_key derive) xs)) role)
    = mset (map (entry_id derive) (filter (\<lambda>x. kx_role x = Some role) xs))"
  using assms by (induction xs) (auto simp: keyids_def entry_key_def usable_def)

lemma usable_drawn: "derivable E d n \<Longrightarrow> list_all (usable (ce_derive E)) (drawn E role d n)"
  by (auto simp: derivable_def drawn_def usable_def list_all_iff)

lemma filter_drawn:
  "filter (\<lambda>x. kx_role x = Some r) (drawn E role d n) = (if r = role then drawn E role d n else [])"
  by (auto simp: drawn_def filter_id_conv filter_empty_conv)

lemma roles_drawn: "x \<in> set (drawn E role d n) \<Longrightarrow> kx_role x = Some role"
  by (auto simp: drawn_def)

definition key_id :: "ceremony_env \<Rightarrow> nat \<Rightarrow> string" where
  "key_id E i = projr (ce_derive E (ce_pem E i))"

section \<open>What the new repository says\<close>

lemma add_root_keys_keyids:
  assumes "add_root_keys B role ks rb = Inr rb'" "distinct ks" "set ks \<inter> set (rb_keyids rb role) = {}"
  shows "rb_keyids rb' = (rb_keyids rb)(role := rb_keyids rb role @ ks) \<and> rb_threshold rb' = rb_threshold rb"
  using assms
proof (induction ks arbitrary: rb)
  case (Cons k ks)
  let ?rb = "rb\<lparr>rb_keyids := (rb_keyids rb)(role := rb_keyids rb role @ [k])\<rparr>"
  from Cons.prems have "add_root_keys B role ks ?rb = Inr rb'" by auto
  from Cons.IH [OF this] Cons.prems show ?case by auto
qed simp

lemma init_root_roles_keyids:
  assumes "init_root_roles B rs rb = Inr rb'" "distinct (map fst rs)"
    and "\<forall>role \<in> fst ` set rs. distinct (be_keyids B role) \<and> rb_keyids rb role = []"
  shows "(\<forall>(role, p) \<in> set rs. rb_keyids rb' role = be_keyids B role \<and> rb_threshold rb' role = rp_threshold p)
    \<and> (\<forall>role. role \<notin> fst ` set rs \<longrightarrow> rb_keyids rb' role = rb_keyids rb role \<and> rb_threshold rb' role = rb_threshold rb role)"
  using assms
proof (induction rs arbitrary: rb)
  case (Cons r rs)
  obtain role p where r: "r = (role, p)" by (cases r)
  obtain rb1 where 1: "add_root_keys B role (be_keyids B role) rb = Inr rb1"
    and 2: "init_root_roles B rs (rb1\<lparr>rb_threshold := (rb_threshold rb1)(role := rp_threshold p)\<rparr>) = Inr rb'"
    using Cons.prems(1) by (auto simp: r Let_def bindr_eq_Inr_iff split: if_splits)
  have rb1: "rb_keyids rb1 = (rb_keyids rb)(role := be_keyids B role)" "rb_threshold rb1 = rb_threshold rb"
    using add_root_keys_keyids [OF 1] Cons.prems(3) by (simp_all add: r)
  have new: "role \<notin> fst ` set rs" using Cons.prems(2) by (simp add: r)
  have IH: "(\<forall>(role, p) \<in> set rs. rb_keyids rb' role = be_keyids B role \<and> rb_threshold rb' role = rp_threshold p)
    \<and> (\<forall>q. q \<notin> fst ` set rs \<longrightarrow> rb_keyids rb' q = rb_keyids rb1 q
        \<and> rb_threshold rb' q = ((rb_threshold rb1)(role := rp_threshold p)) q)"
  proof -
    have "\<forall>q \<in> fst ` set rs. distinct (be_keyids B q)
        \<and> rb_keyids (rb1\<lparr>rb_threshold := (rb_threshold rb1)(role := rp_threshold p)\<rparr>) q = []"
      using Cons.prems(3) new rb1 by (auto simp: r)
    with Cons.IH [OF 2] Cons.prems(2) show ?thesis by (simp add: r)
  qed
  with new rb1 show ?case by (auto simp: r)
qed simp

definition root_alias :: "metadata \<Rightarrow> repo \<Rightarrow> bool" where
  "root_alias md s \<longleftrightarrow> disk s ''metadata/root.json'' = Some (Meta md)"

lemma close_role_alias [keeps_intro]:
  assumes "role \<noteq> ROOT"
  shows "keeps (root_alias md) (close_role B now role m)"
  unfolding keeps_def
proof (intro allI impI)
  fix s assume a: "root_alias md s"
  have ne: "''metadata/root.json'' \<noteq> meta_name role v" for v
    using meta_name_not_fixed [of role v] by (cases "role = TIMESTAMP") (auto simp: meta_name_TIMESTAMP)
  show "root_alias md (snd (close_role B now role m s))"
    using close_role_snd [of B now role m s] a ne assms by (auto simp: root_alias_def disk_closed)
qed

lemma edit_alias [keeps_intro]: "role \<noteq> ROOT \<Longrightarrow> keeps (root_alias md) (edit B now role body)"
  unfolding edit_def by (intro keeps_intro)

lemma publish_alias [keeps_intro]: "keeps (root_alias md) (publish lib B now)"
  unfolding publish_def do_snapshot_def do_timestamp_def
  by (intro keeps_intro; simp split: option.split; intro conjI allI impI keeps_intro; simp)

lemma initialize_root:
  assumes run: "initialize lib B now fresh_repo = (Inr u, s')"
    and dist: "\<forall>role \<in> fst ` set TOP_LEVEL_POLICIES. distinct (be_keyids B role)"
  obtains md rb where "root_alias md s'" "md_version md = 1" "md_signed md = SRoot rb"
    "map fst (md_signatures md) = be_keyids B ROOT"
    "\<forall>(role, p) \<in> set TOP_LEVEL_POLICIES. rb_keyids rb role = be_keyids B role \<and> rb_threshold rb role = rp_threshold p"
proof -
  have new: "version_of fresh_repo ROOT = 0" by (simp add: version_of_def fresh_repo_def)
  obtain s1 s2 where 1: "edit B now ROOT (init_root B) fresh_repo = (Inr (), s1)"
    and 2: "edit B now TARGETS Inr s1 = (Inr (), s2)" and 3: "publish lib B now s2 = (Inr (), s')"
    using run by (auto simp: initialize_def new bindS_eq_Inr_iff)
  obtain sd sigs and policy :: role_policy where sd: "init_root B (initial ROOT) = Inr sd"
    and sigs: "sign_all B (be_keyids B ROOT) = Inr sigs"
    and s1: "s1 = closed ROOT \<lparr>md_signed = sd, md_version = 1, md_expires = now + rp_expiry policy,
        md_signatures = sigs\<rparr> fresh_repo"
    using 1 by (simp add: edit_def bindS_eq_Inr_iff open_role_def new close_role_Inr) blast
  define md where "md = \<lparr>md_signed = sd, md_version = 1, md_expires = now + rp_expiry policy, md_signatures = sigs\<rparr>"
  then have md: "md_signed md = sd" "md_signatures md = sigs" "md_version md = 1" and s1: "s1 = closed ROOT md fresh_repo"
    using s1 by simp_all
  have "root_alias md s1" by (simp add: root_alias_def s1 disk_closed)
  then have "root_alias md (snd (publish lib B now (snd (edit B now TARGETS Inr s1))))"
    by (intro keepsD [OF publish_alias] keepsD [OF edit_alias]) simp_all
  then have al: "root_alias md s'" by (simp add: 2 3)
  obtain rb rb0 where rb: "sd = SRoot rb" "init_root_roles B TOP_LEVEL_POLICIES rb0 = Inr rb" "rb_keyids rb0 = (\<lambda>_. [])"
    using sd by (auto simp: init_root_def initial_def bindr_eq_Inr_iff)
  have "distinct (map fst TOP_LEVEL_POLICIES)" by (simp add: TOP_LEVEL_POLICIES_def policy_defs)
  from init_root_roles_keyids [OF rb(2) this] dist rb(3) md(1) rb(1) al md(2,3) sign_all_keyids [OF sigs]
  show ?thesis by (intro that [of md rb]) simp_all
qed

section \<open>Running the ceremony\<close>

lemma open_store_run:
  "open_store E c m = (Inr b, m') \<longleftrightarrow> m' = m \<and> (\<exists>db ks. PyKeePass (mc_files m) c = Inr db
     \<and> validate (ce_ENV E) (ce_parent E) c = Inr () \<and> load (ce_derive E) db = Inr ks \<and> b = keepass_backend ks)"
  by (auto simp: open_store_def open_keepass_def bindr_eq_Inr_iff)

lemma export_root_frame:
  "export_root a m = (r, m') \<Longrightarrow> mc_repo m' = mc_repo m
     \<and> (\<forall>p. mc_files m' p = mc_files m p \<or> ca_export_root a = Some p \<and> p \<noteq> [] \<and> r = Inr ())"
  by (auto simp: export_root_def split: option.splits if_splits)

lemma perform_eq:
  "perform E a offline online = bindS (stock E offline online) (\<lambda>_.
     bindS (open_store E offline) (\<lambda>b1. bindS (open_store E online) (\<lambda>b2.
     bindS (create_repository E (combined_backend [b1, b2])) (\<lambda>_.
     bindS (export_root a) (\<lambda>_. returnS 0)))))"
  by (simp add: perform_def stock_def bindS_assoc)

lemma stocked_opens:
  assumes "ready offline online (mc_files m)"
  shows "PyKeePass (mc_files (stocked E offline online m)) offline = Inr (Some (offline_entries E (mc_drawn m)))"
    "PyKeePass (mc_files (stocked E offline online m)) online = Inr (Some (online_entries E (mc_drawn m + 8)))"
  using ready_opens [OF assms] by (simp_all add: stocked_def)

lemma PyKeePass_cong:
  "files' (kc_database c) = files (kc_database c) \<Longrightarrow> (\<And>kf. kc_keyfile c = Some kf \<Longrightarrow> files' kf = files kf) \<Longrightarrow>
     PyKeePass files' c = PyKeePass files c"
  by (simp add: PyKeePass_def key_material_def split: option.split fs_file.split)

definition both :: "keys \<Rightarrow> keys \<Rightarrow> backend" where
  "both k1 k2 = combined_backend (map keepass_backend [k1, k2])"

definition founded :: "repo \<Rightarrow> machine \<Rightarrow> machine" where
  "founded repo m = m\<lparr>mc_out := Directory [''metadata'', ''targets''], mc_repo := Some repo\<rparr>"

lemma perform_run:
  "perform E a offline online m = (Inr x, m') \<longleftrightarrow>
     x = 0 \<and> stock E offline online m = (Inr (), stocked E offline online m)
     \<and> validate (ce_ENV E) (ce_parent E) offline = Inr () \<and> validate (ce_ENV E) (ce_parent E) online = Inr ()
     \<and> (\<exists>k1 k2 repo. load (ce_derive E) (Some (offline_entries E (mc_drawn m))) = Inr k1
        \<and> load (ce_derive E) (Some (online_entries E (mc_drawn m + 8))) = Inr k2
        \<and> initialize (ce_lib E) (both k1 k2) (ce_now E) fresh_repo = (Inr (), repo)
        \<and> export_root a (founded repo (stocked E offline online m)) = (Inr (), m'))"
proof -
  have c: "create_repository E B n = (Inr u, n') \<longleftrightarrow> (\<exists>repo.
      initialize (ce_lib E) B (ce_now E) fresh_repo = (Inr (), repo) \<and> n' = founded repo n)" for B n u n'
    by (auto simp: create_repository_def founded_def split: prod.splits)
  show ?thesis
    by (auto simp: perform_eq bindS_eq_Inr_iff stock_run open_store_run c both_def stocked_opens)
qed

lemma prepare_run:
  assumes "prepare E a out = Inr (offline, online)"
  shows "kc_database offline = ca_offline_db a \<and> kc_database online = ca_online_db a
    \<and> kc_keyfile offline = path_option (ca_offline_keyfile a) \<and> kc_keyfile online = path_option (ca_online_keyfile a)
    \<and> validate (ce_ENV E) (ce_parent E) offline = Inr () \<and> validate (ce_ENV E) (ce_parent E) online = Inr ()
    \<and> refuse_used out = Inr () \<and> \<not> (ca_dev a \<and> is_production (ce_ENV E))"
  using assms by (auto simp: prepare_def bindr_eq_Inr_iff Let_def split: if_splits)

lemma ceremony_run:
  "ceremony E a m = (Inr x, m') \<longleftrightarrow> (\<exists>offline online. prepare E a (mc_out m) = Inr (offline, online)
     \<and> perform E a offline online m = (Inr x, m'))"
  by (auto simp: ceremony_def bindS_eq_Inr_iff)

section \<open>Who holds what\<close>

definition held :: "string \<Rightarrow> kdbx_entry list \<Rightarrow> int" where
  "held role xs = int (length (filter (\<lambda>x. kx_role x = Some role) xs))"

lemma held_entries:
  "held role (offline_entries E d) = (if role = ROOT then 5 else if role = TARGETS then 3 else 0)"
  "held role (online_entries E d) = (if role = SNAPSHOT \<or> role = TIMESTAMP then 1 else 0)"
  by (auto simp: held_def offline_entries_def online_entries_def filter_drawn) (simp_all add: drawn_def)

lemma top_level_cases:
  "(\<forall>(role, p) \<in> set TOP_LEVEL_POLICIES. P role p) \<longleftrightarrow>
     P ROOT ROOT_POLICY \<and> P TARGETS TARGETS_POLICY \<and> P SNAPSHOT SNAPSHOT_POLICY \<and> P TIMESTAMP TIMESTAMP_POLICY"
  by (simp add: TOP_LEVEL_POLICIES_def policy_defs)

lemma roles_entries:
  "kx_role ` set (offline_entries E d) \<subseteq> {Some ROOT, Some TARGETS}"
  "kx_role ` set (online_entries E d) \<subseteq> {Some SNAPSHOT, Some TIMESTAMP}"
  by (auto simp: offline_entries_def online_entries_def dest: roles_drawn)

lemma no_offline_keys_online:
  assumes "load derive (Some (online_entries E d)) = Inr ks"
  shows "keyids ks ROOT = []" "keyids ks TARGETS = []"
  using roles_entries(2) [of E d] by (force intro!: load_roles [OF assms])+

lemma no_online_keys_offline:
  assumes "load derive (Some (offline_entries E d)) = Inr ks"
  shows "keyids ks SNAPSHOT = []" "keyids ks TIMESTAMP = []"
  using roles_entries(1) [of E d] by (force intro!: load_roles [OF assms])+

text \<open>The database a file holds.\<close>

definition keystore_at :: "machine \<Rightarrow> string \<Rightarrow> kdbx option" where
  "keystore_at m p = (case mc_files m p of Some (Database pw kf db) \<Rightarrow> Some db | _ \<Rightarrow> None)"

lemma keystore_at_opened: "PyKeePass (mc_files m) c = Inr db \<Longrightarrow> keystore_at m (kc_database c) = Some db"
  by (auto simp: keystore_at_def PyKeePass_Inr)

text \<open>A key file that is given and lies on another volume than its database.\<close>

definition apart :: "ceremony_env \<Rightarrow> string option \<Rightarrow> string \<Rightarrow> bool" where
  "apart E keyfile database \<longleftrightarrow> (\<exists>kf. keyfile = Some kf \<and> kf \<noteq> [] \<and> ce_parent E kf \<noteq> ce_parent E database)"

lemma validate_apart:
  assumes "validate (ce_ENV E) (ce_parent E) c = Inr ()" "kc_keyfile c = path_option kf" "is_production (ce_ENV E)"
  shows "apart E kf (kc_database c)"
  using assms by (auto simp: validate_accepts_iff apart_def path_option_def split: if_splits)

section \<open>What a ceremony touches\<close>

definition untouched :: "string set \<Rightarrow> content file_map \<Rightarrow> machine \<Rightarrow> bool" where
  "untouched ps files m \<longleftrightarrow> (\<forall>p. p \<notin> ps \<longrightarrow> mc_files m p = files p)"

lemma on_files_untouched:
  assumes "\<And>g p. p \<noteq> q \<Longrightarrow> snd (f g) p = g p" "q \<in> ps"
  shows "keeps (untouched ps files) (on_files f)"
  unfolding keeps_def
proof (intro allI impI)
  fix m assume u: "untouched ps files m"
  have "mc_files (snd (on_files f m)) = snd (f (mc_files m))" by (simp add: on_files_def split: prod.split)
  moreover have "p \<notin> ps \<Longrightarrow> p \<noteq> q" for p using assms(2) by blast
  ultimately show "untouched ps files (snd (on_files f m))" using u assms(1) by (simp add: untouched_def)
qed

lemma create_store_untouched [keeps_intro]:
  "kc_database c \<in> ps \<Longrightarrow> keeps (untouched ps files) (create_store c)"
  unfolding create_store_def
  by (rule on_files_untouched) (auto simp: create_keystore_def split: sum.split)

lemma draw_key_untouched [keeps_intro]:
  assumes "kc_database c \<in> ps"
  shows "keeps (untouched ps files) (draw_key E c role)"
proof -
  have "keeps (untouched ps files) (on_files (generate_key derive pem c role alg))" for derive pem alg
    using assms by (rule on_files_untouched [rotated]) (auto simp: generate_key_def split: sum.split option.split)
  then have k: "keeps (untouched ps files) (bindS (on_files (generate_key derive pem c role alg)) (\<lambda>k. returnS ()))" for derive pem alg
    by (intro keeps_intro)
  show ?thesis
    unfolding keeps_def draw_key_def using keepsD [OF k] by (simp add: untouched_def)
qed

lemma draw_keys_untouched [keeps_intro]:
  "kc_database c \<in> ps \<Longrightarrow> keeps (untouched ps files) (draw_keys E c role n)"
  by (induction n) (auto intro: keeps_intro)

lemma fill_store_untouched [keeps_intro]:
  "kc_database c \<in> ps \<Longrightarrow> keeps (untouched ps files) (fill_store E c roles)"
  by (induction roles) (auto intro!: keeps_intro)

text \<open>Everything before the root is exported.\<close>

definition establish ::
  "ceremony_env \<Rightarrow> keepass_config \<Rightarrow> keepass_config \<Rightarrow> (machine, unit) sem" where
  "establish E offline online = bindS (stock E offline online) (\<lambda>_.
     bindS (open_store E offline) (\<lambda>b1. bindS (open_store E online) (\<lambda>b2.
     create_repository E (combined_backend [b1, b2]))))"

lemma perform_establish:
  "perform E a offline online = bindS (establish E offline online) (\<lambda>_. bindS (export_root a) (\<lambda>_. returnS 0))"
  by (simp add: perform_eq establish_def bindS_assoc)

lemma establish_untouched:
  assumes "kc_database offline \<in> ps" "kc_database online \<in> ps"
  shows "keeps (untouched ps files) (establish E offline online)"
proof -
  have "keeps (untouched ps files) (open_store E c)" "keeps (untouched ps files) (create_repository E B)" for c B
    by (auto simp: keeps_def untouched_def open_store_def create_repository_def split: prod.splits)
  then show ?thesis unfolding establish_def stock_def by (intro keeps_intro assms)
qed

text \<open>An existing database stops the ceremony where it would be created; if it is the online one,
  the offline store has been created by then, unless its key file is missing.\<close>

lemma perform_existing:
  "mc_files m (kc_database offline) \<noteq> None \<Longrightarrow> \<exists>e. perform E a offline online m = (Inl e, m)"
  "mc_files m (kc_database offline) = None \<Longrightarrow> returns (key_material (mc_files m) offline) \<Longrightarrow>
     mc_files m (kc_database online) \<noteq> None \<Longrightarrow>
     perform E a offline online m = (Inl (KeyMaterialError ''refusing to overwrite existing database''),
       m\<lparr>mc_files := saved offline [] (mc_files m)\<rparr>)"
proof -
  show "mc_files m (kc_database offline) \<noteq> None \<Longrightarrow> \<exists>e. perform E a offline online m = (Inl e, m)"
    by (auto simp: perform_def bindS_def create_store_def on_files_def create_keystore_def)
  assume a: "mc_files m (kc_database offline) = None" "returns (key_material (mc_files m) offline)"
    "mc_files m (kc_database online) \<noteq> None"
  then have "create_store offline m = (Inr (), m\<lparr>mc_files := saved offline [] (mc_files m)\<rparr>)"
    by (simp add: create_store_run)
  with a show "perform E a offline online m = (Inl (KeyMaterialError ''refusing to overwrite existing database''),
       m\<lparr>mc_files := saved offline [] (mc_files m)\<rparr>)"
    by (auto simp: perform_def bindS_def create_store_def [of online] on_files_def create_keystore_def saved_def)
qed

text \<open>The same holds of a key file that is not there: nothing looks at it before a database is saved.\<close>

lemma perform_missing_key_file:
  assumes "mc_files m (kc_database offline) = None" "returns (key_material (mc_files m) offline)"
    and "kc_keyfile online = Some kf" "mc_files m kf = None" "kf \<noteq> kc_database offline"
    and "mc_files m (kc_database online) = None" "kc_database online \<noteq> kc_database offline"
  shows "perform E a offline online m =
    (Inl (OSError ''no such key file''), m\<lparr>mc_files := saved offline [] (mc_files m)\<rparr>)"
proof -
  have "create_store offline m = (Inr (), m\<lparr>mc_files := saved offline [] (mc_files m)\<rparr>)"
    using assms(1,2) by (simp add: create_store_run)
  with assms(3-) show ?thesis
    by (auto simp: perform_def bindS_def create_store_def [of online] on_files_def create_keystore_def saved_def
        key_material_def)
qed

lemma perform_stopped:
  assumes "mc_files m (kc_database offline) = None" "mc_files m (kc_database online) \<noteq> None"
    and "perform E a offline online m = (r, m')"
  shows "(\<exists>e. r = Inl e) \<and> (m' = m \<or> m' = m\<lparr>mc_files := saved offline [] (mc_files m)\<rparr>)"
proof (cases "key_material (mc_files m) offline")
  case (Inl e)
  then have "perform E a offline online m = (Inl e, m)"
    using assms(1) by (simp add: perform_def bindS_def create_store_def on_files_def create_keystore_def)
  with assms(3) show ?thesis by auto
next
  case (Inr k)
  with perform_existing(2) [OF assms(1) _ assms(2), of E a] assms(3) show ?thesis by auto
qed

section \<open>The trust anchor\<close>

lemma stock_keyids:
  assumes "derivable E d 10" "inj_on (key_id E) {d..<d + 10}"
  shows "\<exists>k1 k2. load (ce_derive E) (Some (offline_entries E d)) = Inr k1
    \<and> load (ce_derive E) (Some (online_entries E (d + 8))) = Inr k2
    \<and> length (keyids k1 ROOT) = 5 \<and> length (keyids k1 TARGETS) = 3
    \<and> length (keyids k2 SNAPSHOT) = 1 \<and> length (keyids k2 TIMESTAMP) = 1"
proof -
  let ?off = "offline_entries E d" and ?on = "online_entries E (d + 8)"
  have dv: "derivable E d 5" "derivable E (d + 5) 3" "derivable E (d + 8) 1" "derivable E (d + 9) 1"
    using assms(1) by (auto simp: derivable_def)
  have u: "list_all (usable (ce_derive E)) ?off" "list_all (usable (ce_derive E)) ?on"
    using usable_drawn [OF dv(1)] usable_drawn [OF dv(2)] usable_drawn [OF dv(3)] usable_drawn [OF dv(4)]
    by (simp_all add: offline_entries_def online_entries_def add.commute [of d])
  have sub: "inj_on (key_id E) {d..<d + 8}" "inj_on (key_id E) {d + 8..<d + 10}"
    using assms(2) by (auto intro: inj_on_subset)
  have ids: "map (entry_id (ce_derive E)) ?off = map (key_id E) [d..<d + 8]"
    "map (entry_id (ce_derive E)) ?on = map (key_id E) [d + 8..<d + 10]"
    by (simp_all add: offline_entries_def online_entries_def drawn_def entry_id_def key_id_def upt_rec eval_nat_numeral)
  have l: "load (ce_derive E) (Some ?off) = Inr (rev (map (entry_key (ce_derive E)) ?off))"
    "load (ce_derive E) (Some ?on) = Inr (rev (map (entry_key (ce_derive E)) ?on))"
    using load_distinct [OF u(1), of "[]"] load_distinct [OF u(2), of "[]"] sub
    by (simp_all add: load_def ids distinct_map)
  have len: "length (keyids (rev (map (entry_key (ce_derive E)) xs)) role) = nat (held role xs)"
    if "list_all (usable (ce_derive E)) xs" for xs role
    using keyids_distinct [OF that, of role] by (metis held_def length_map nat_int size_mset)
  show ?thesis using l len [OF u(1)] len [OF u(2)] by (simp add: held_entries)
qed

lemma both_keyids: "be_keyids (both k1 k2) role = sort (keyids k1 role @ keyids k2 role)"
  by (simp add: both_def combined_backend_def)

definition store_keyids :: "keys \<Rightarrow> keys \<Rightarrow> string \<Rightarrow> role_policy \<Rightarrow> string list" where
  "store_keyids k1 k2 role p = keyids (if rp_keystore p = OFFLINE then k1 else k2) role"

lemma both_is_store:
  assumes "load derive (Some (offline_entries E d)) = Inr k1" "load derive (Some (online_entries E d')) = Inr k2"
  shows "\<forall>(role, p) \<in> set TOP_LEVEL_POLICIES. be_keyids (both k1 k2) role = store_keyids k1 k2 role p
    \<and> distinct (store_keyids k1 k2 role p)"
  using no_online_keys_offline [OF assms(1)] no_offline_keys_online [OF assms(2)]
    distinct_keyids [OF load_ok [OF assms(1)]] distinct_keyids [OF load_ok [OF assms(2)]]
  by (simp add: top_level_cases both_keyids store_keyids_def policy_defs sorted_keyids sort_key_id_if_sorted)

lemma both_answers:
  assumes "tuf_contract lib" "lib_answers lib"
    and "\<forall>(role, p) \<in> set TOP_LEVEL_POLICIES. rp_threshold p \<le> int (length (be_keyids (both k1 k2) role))"
  shows "\<exists>repo. initialize lib (both k1 k2) now fresh_repo = (Inr (), repo)"
proof (rule initialize_answers [OF fresh_repo_inv assms(1,2)])
  show "version_of fresh_repo ROOT = 0" by (simp add: fresh_repo_def version_of_def)
  have sig: "list_all (\<lambda>k. returns (be_signer (both k1 k2) k)) (be_keyids (both k1 k2) role)"
    "has_public_keys (both k1 k2) role" for role
    using combined.signer_ok [of _ "[k1, k2]" role] combined.public_key_ok [of _ "[k1, k2]" role]
    by (auto simp: both_def list_all_iff has_public_keys_def returns_iff)
  then show "\<forall>role \<in> set TOP_LEVEL_ROLES. can_sign (both k1 k2) fresh_repo role \<and> has_public_keys (both k1 k2) role"
    using assms(3) by (simp add: TOP_LEVEL_ROLES_def can_sign_def fresh_repo_def top_level_cases)
      (simp add: TOP_LEVEL_POLICIES_def policy_defs)
qed

lemma export_root_answers:
  assumes "mc_repo n = Some repo" "root_alias md repo"
  shows "\<exists>m'. export_root a n = (Inr (), m') \<and> mc_repo m' = Some repo
    \<and> (\<forall>p. ca_export_root a \<noteq> Some p \<longrightarrow> mc_files m' p = mc_files n p)
    \<and> (\<forall>dest. ca_export_root a = Some dest \<and> dest \<noteq> [] \<longrightarrow> mc_files m' dest = Some (Document (Copied (Meta md))))"
  using assms by (auto simp: export_root_def root_alias_def split: option.split)

text \<open>The key file an argument names can be read; the root is exported neither over a database nor over
  a key file.\<close>

definition key_file_there :: "machine \<Rightarrow> string option \<Rightarrow> bool" where
  "key_file_there m keyfile \<longleftrightarrow> (case path_option keyfile of None \<Rightarrow> True | Some p \<Rightarrow> mc_files m p \<noteq> None)"

definition exports_elsewhere :: "ceremony_args \<Rightarrow> bool" where
  "exports_elsewhere a \<longleftrightarrow> ca_export_root a = None \<or> ca_export_root a \<notin>
     {Some (ca_offline_db a), Some (ca_online_db a), ca_offline_keyfile a, ca_online_keyfile a}"

lemma key_file_there_material:
  "kc_keyfile c = path_option keyfile \<Longrightarrow> key_file_there m keyfile \<longleftrightarrow> returns (key_material (mc_files m) c)"
  by (auto simp: key_file_there_def key_material_def split: option.splits)

lemma exported_opens:
  assumes "ready offline online (mc_files m)" "exports_elsewhere a"
    and "kc_database offline = ca_offline_db a" "kc_database online = ca_online_db a"
    and "kc_keyfile offline = path_option (ca_offline_keyfile a)" "kc_keyfile online = path_option (ca_online_keyfile a)"
    and "\<forall>p. ca_export_root a \<noteq> Some p \<longrightarrow> files p = mc_files (stocked E offline online m) p"
  shows "PyKeePass files offline = Inr (Some (offline_entries E (mc_drawn m)))"
    "PyKeePass files online = Inr (Some (online_entries E (mc_drawn m + 8)))"
proof -
  have k: "Some kf = path_option k \<Longrightarrow> k = Some kf" for k kf by (simp add: path_option_def split: if_splits)
  have "PyKeePass files c = PyKeePass (mc_files (stocked E offline online m)) c" if "c \<in> {offline, online}" for c
    using that assms(2-) by (intro PyKeePass_cong) (auto simp: exports_elsewhere_def dest!: k)
  then show "PyKeePass files offline = Inr (Some (offline_entries E (mc_drawn m)))"
    "PyKeePass files online = Inr (Some (online_entries E (mc_drawn m + 8)))"
    using stocked_opens [OF assms(1)] by simp_all
qed

lemma ceremony_root:
  assumes "prepare E a (mc_out m) = Inr (offline, online)"
    and "mc_files m (ca_offline_db a) = None" "mc_files m (ca_online_db a) = None" "ca_offline_db a \<noteq> ca_online_db a"
    and "key_file_there m (ca_offline_keyfile a)" "key_file_there m (ca_online_keyfile a)" "exports_elsewhere a"
    and "derivable E (mc_drawn m) 10" "inj_on (key_id E) {mc_drawn m..<mc_drawn m + 10}"
    and "tuf_contract (ce_lib E)" "lib_answers (ce_lib E)"
  shows "\<exists>m' repo md rb off on k1 k2. ceremony E a m = (Inr 0, m') \<and> mc_repo m' = Some repo
    \<and> repo_reachable (ce_lib E) sha repo
    \<and> PyKeePass (mc_files m') offline = Inr off \<and> load (ce_derive E) off = Inr k1
    \<and> PyKeePass (mc_files m') online = Inr on \<and> load (ce_derive E) on = Inr k2
    \<and> disk repo ''metadata/root.json'' = Some (Meta md) \<and> md_version md = 1 \<and> md_signed md = SRoot rb
    \<and> (\<forall>(role, p) \<in> set TOP_LEVEL_POLICIES. rb_keyids rb role = store_keyids k1 k2 role p
         \<and> distinct (store_keyids k1 k2 role p)
         \<and> int (length (store_keyids k1 k2 role p)) = rp_key_count p \<and> rb_threshold rb role = rp_threshold p)
    \<and> map fst (md_signatures md) = rb_keyids rb ROOT
    \<and> (\<forall>dest. ca_export_root a = Some dest \<and> dest \<noteq> [] \<longrightarrow> mc_files m' dest = Some (Document (Copied (Meta md))))"
proof -
  let ?d = "mc_drawn m"
  note p = prepare_run [OF assms(1)]
  obtain k1 k2 where k: "load (ce_derive E) (Some (offline_entries E ?d)) = Inr k1"
    "load (ce_derive E) (Some (online_entries E (?d + 8))) = Inr k2"
    "length (keyids k1 ROOT) = 5" "length (keyids k1 TARGETS) = 3"
    "length (keyids k2 SNAPSHOT) = 1" "length (keyids k2 TIMESTAMP) = 1"
    using stock_keyids [OF assms(8,9)] by blast
  note bs = both_is_store [OF k(1,2)]
  have cnt: "\<forall>(role, p) \<in> set TOP_LEVEL_POLICIES. int (length (store_keyids k1 k2 role p)) = rp_key_count p"
    using k(3-6) by (simp add: top_level_cases store_keyids_def policy_defs)
  have thr: "\<forall>(role, p) \<in> set TOP_LEVEL_POLICIES. rp_threshold p \<le> int (length (be_keyids (both k1 k2) role))"
    using bs cnt by (simp add: top_level_cases policy_defs)
  obtain repo where repo: "initialize (ce_lib E) (both k1 k2) (ce_now E) fresh_repo = (Inr (), repo)"
    using both_answers [OF assms(10,11) thr] by blast
  have dist: "\<forall>role \<in> fst ` set TOP_LEVEL_POLICIES. distinct (be_keyids (both k1 k2) role)" using bs by auto
  obtain md rb where md: "root_alias md repo" "md_version md = 1" "md_signed md = SRoot rb"
    "map fst (md_signatures md) = be_keyids (both k1 k2) ROOT"
    and rb: "\<forall>(role, p) \<in> set TOP_LEVEL_POLICIES. rb_keyids rb role = be_keyids (both k1 k2) role
      \<and> rb_threshold rb role = rp_threshold p"
    by (rule initialize_root [OF repo dist])
  obtain m' where m': "export_root a (founded repo (stocked E offline online m)) = (Inr (), m')"
    "mc_repo m' = Some repo" "\<forall>p. ca_export_root a \<noteq> Some p \<longrightarrow> mc_files m' p = mc_files (stocked E offline online m) p"
    "\<forall>dest. ca_export_root a = Some dest \<and> dest \<noteq> [] \<longrightarrow> mc_files m' dest = Some (Document (Copied (Meta md)))"
    using export_root_answers [OF _ md(1), of "founded repo (stocked E offline online m)" a]
    by (auto simp: founded_def)
  have rd: "ready offline online (mc_files m)"
    using p assms(2-6) key_file_there_material [of offline "ca_offline_keyfile a" m] key_file_there_material [of online "ca_online_keyfile a" m]
    by (simp add: ready_def)
  have "perform E a offline online m = (Inr 0, m')"
    using p rd assms(8) k(1,2) repo m'(1) by (auto simp: perform_run stock_run)
  then have run: "ceremony E a m = (Inr 0, m')" using assms(1) by (auto simp: ceremony_run)
  have "repo = repo_step (ce_lib E) sha (both k1 k2) (ce_now E) Initialize fresh_repo" by (simp add: repo)
  then have reach: "repo_reachable (ce_lib E) sha repo" using repo_reachable.intros by metis
  have disk: "disk repo ''metadata/root.json'' = Some (Meta md)" using md(1) by (simp add: root_alias_def)
  have stores: "PyKeePass (mc_files m') offline = Inr (Some (offline_entries E ?d))"
    "PyKeePass (mc_files m') online = Inr (Some (online_entries E (?d + 8)))"
    using p by (intro exported_opens [OF rd assms(7) _ _ _ _ m'(3)]; simp)+
  have signed: "map fst (md_signatures md) = rb_keyids rb ROOT" using md(4) rb by (simp add: top_level_cases)
  have roles: "\<forall>(role, p) \<in> set TOP_LEVEL_POLICIES. rb_keyids rb role = store_keyids k1 k2 role p
      \<and> distinct (store_keyids k1 k2 role p)
      \<and> int (length (store_keyids k1 k2 role p)) = rp_key_count p \<and> rb_threshold rb role = rp_threshold p"
    using bs cnt rb by (auto 0 3)
  show ?thesis
    by (intro exI [of _ m'] exI [of _ repo] exI [of _ md] exI [of _ rb] exI [of _ "Some (offline_entries E ?d)"]
        exI [of _ "Some (online_entries E (?d + 8))"] exI [of _ k1] exI [of _ k2] conjI)
      (fact run reach k m' md disk stores signed roles)+
qed

section \<open>A production ceremony\<close>

definition ex_ceremony :: ceremony_env where
  "ex_ceremony = \<lparr>ce_ENV = Some ''production'', ce_parent = takeWhile (\<lambda>c. c \<noteq> CHR ''/''),
     ce_stdin = ''alpha'' @ [CHR 0x0D, CHR 0x0A] @ ''beta'', ce_ask = (\<lambda>_. Inl (OSError ''closed'')),
     ce_derive = Inr, ce_pem = dec, ce_lib = ref_lib, ce_now = 0\<rparr>"

definition ex_args :: ceremony_args where
  "ex_args = \<lparr>ca_out = ''repo'', ca_offline_db = ''offline/offline.kdbx'', ca_online_db = ''keys/online.kdbx'',
     ca_offline_keyfile = Some ''token/offline.key'', ca_online_keyfile = Some ''token/online.key'',
     ca_export_root = Some ''app/root.json'', ca_passwords_from_stdin = True, ca_dev = False\<rparr>"

definition ex_machine :: machine where
  "ex_machine = \<lparr>mc_files = [''other.kdbx'' \<mapsto> Database None None (Some []),
       ''token/offline.key'' \<mapsto> Document (Bytes ''alpha key''), ''token/online.key'' \<mapsto> Document (Bytes ''beta key'')],
     mc_out = Absent, mc_repo = None, mc_drawn = 0\<rparr>"

lemma ex_lines: "split_lines [] (''alpha'' @ [CHR 0x0D, CHR 0x0A] @ ''beta'') = [''alpha'', ''beta'']"
  by (simp add: is_line_end_def)

lemma ex_prepare:
  "prepare ex_ceremony ex_args Absent = Inr
     (\<lparr>kc_database = ''offline/offline.kdbx'', kc_password = Some ''alpha'', kc_keyfile = Some ''token/offline.key''\<rparr>,
      \<lparr>kc_database = ''keys/online.kdbx'', kc_password = Some ''beta'', kc_keyfile = Some ''token/online.key''\<rparr>)"
proof -
  have "is_production (Some ''production'')" by code_simp
  then show ?thesis
    using ex_lines
    by (simp add: prepare_def ex_ceremony_def ex_args_def refuse_used_def password_def path_option_def
        validate_def Let_def)
qed

lemma ex_premises:
  "prepare ex_ceremony ex_args (mc_out ex_machine) = Inr
     (\<lparr>kc_database = ''offline/offline.kdbx'', kc_password = Some ''alpha'', kc_keyfile = Some ''token/offline.key''\<rparr>,
      \<lparr>kc_database = ''keys/online.kdbx'', kc_password = Some ''beta'', kc_keyfile = Some ''token/online.key''\<rparr>)"
  "mc_files ex_machine (ca_offline_db ex_args) = None" "mc_files ex_machine (ca_online_db ex_args) = None"
  "ca_offline_db ex_args \<noteq> ca_online_db ex_args"
  "key_file_there ex_machine (ca_offline_keyfile ex_args)" "key_file_there ex_machine (ca_online_keyfile ex_args)"
  "exports_elsewhere ex_args"
  "derivable ex_ceremony (mc_drawn ex_machine) 10"
  "inj_on (key_id ex_ceremony) {mc_drawn ex_machine..<mc_drawn ex_machine + 10}"
  "tuf_contract (ce_lib ex_ceremony)" "lib_answers (ce_lib ex_ceremony)"
  using ex_prepare ref_lib_contract
  by (simp_all add: ex_machine_def)
    (simp_all add: ex_args_def derivable_def ex_ceremony_def key_id_def inj_on_def key_file_there_def path_option_def
      exports_elsewhere_def)

lemma ex_ceremony_run: "\<exists>m'. ceremony ex_ceremony ex_args ex_machine = (Inr 0, m')"
  using ceremony_root [OF ex_premises] by metis

section \<open>Properties\<close>







text \<open>The exception is real: asked to export the root to the path of the offline database, an accepted
  ceremony ends well and has replaced the only copy of the keys of \<open>root\<close> and \<open>targets\<close> by that root.\<close>

theorem export_replaces_a_keystore:
  "\<exists>m' f. ceremony ex_ceremony (ex_args\<lparr>ca_export_root := Some ''offline/offline.kdbx''\<rparr>) ex_machine = (Inr 0, m')
     \<and> mc_files m' ''offline/offline.kdbx'' = Some (Document (Copied f)) \<and> keystore_at m' ''offline/offline.kdbx'' = None"
proof -
  let ?a = "ex_args\<lparr>ca_export_root := Some ''offline/offline.kdbx''\<rparr>"
  obtain m' offline online where prep: "prepare ex_ceremony ex_args (mc_out ex_machine) = Inr (offline, online)"
    and perf: "perform ex_ceremony ex_args offline online ex_machine = (Inr 0, m')"
    using ex_ceremony_run by (auto simp: ceremony_run)
  obtain repo where repo: "export_root ex_args (founded repo (stocked ex_ceremony offline online ex_machine)) = (Inr (), m')"
    and run: "\<And>n a. export_root a (founded repo (stocked ex_ceremony offline online ex_machine)) = (Inr (), n) \<Longrightarrow>
      perform ex_ceremony a offline online ex_machine = (Inr 0, n)"
    using perf by (auto simp: perform_run)
  obtain f where f: "disk repo ''metadata/root.json'' = Some f"
    using repo by (auto simp: export_root_def ex_args_def founded_def split: option.splits)
  let ?n = "founded repo (stocked ex_ceremony offline online ex_machine)"
  have "export_root ?a ?n = (Inr (), ?n\<lparr>mc_files := (mc_files ?n)(''offline/offline.kdbx'' \<mapsto> Document (Copied f))\<rparr>)"
    using f by (simp add: export_root_def founded_def)
  from run [OF this] have "ceremony ex_ceremony ?a ex_machine
      = (Inr 0, ?n\<lparr>mc_files := (mc_files ?n)(''offline/offline.kdbx'' \<mapsto> Document (Copied f))\<rparr>)"
    using prep by (auto simp: ceremony_run prepare_def)
  then show ?thesis by (auto simp: keystore_at_def)
qed

end
