(* ===== verification/Migrate.thy ===== *)
theory Migrate
  imports Prelude
begin

text \<open>
  Schema application, \<^verbatim>\<open>packages/dist-registry/src/dist_registry/db.py\<close>: \<open>migrate\<close> as every service
  runs it at start-up, each on a database session of its own, interleaved statement by statement.

  A session is where it stands in \<open>migrate\<close>, what it will return or raise, and its open transaction.
  The server grants the advisory lock to one session at a time and keeps it until that session
  unlocks or ends; a statement sees what is committed; after a statement that failed every other
  one of that transaction is refused.  Whether a statement fails is an argument of its step.
\<close>

definition SCHEMA_VERSION :: nat where "SCHEMA_VERSION = 2"

section \<open>The database\<close>

text \<open>The committed catalog: whether the table \<open>schema_migrations\<close> is there, its rows, and how often
  the schema was applied, which no statement reads.\<close>

record catalog =
  ct_migrations :: bool
  ct_versions :: "nat list"
  ct_runs :: nat

definition up_to_date :: "catalog \<Rightarrow> bool" where
  "up_to_date c \<longleftrightarrow> ct_migrations c \<and> (\<exists>v \<in> set (ct_versions c). SCHEMA_VERSION \<le> v)"

text \<open>What committing the script and the row, inserted \<open>ON CONFLICT DO NOTHING\<close>, leaves.\<close>

definition apply_schema :: "catalog \<Rightarrow> catalog" where
  "apply_schema c =
     \<lparr>ct_migrations = True,
      ct_versions = (if SCHEMA_VERSION \<in> set (ct_versions c) then ct_versions c else ct_versions c @ [SCHEMA_VERSION]),
      ct_runs = Suc (ct_runs c)\<rparr>"

section \<open>Sessions\<close>

datatype db_error = StatementFailed | InFailedSqlTransaction | ConnectionLost

datatype migrate_pc =
  At_lock | At_table | At_version | At_schema | At_record | At_commit | At_unlock | Returned

record session =
  se_pc :: migrate_pc
  se_result :: "(db_error + bool) option"
  se_aborted :: bool
  se_ran_schema :: bool
  se_recorded :: bool

record system =
  sy_holder :: "nat option"
  sy_catalog :: catalog
  sy_sessions :: "nat \<Rightarrow> session"

definition new_session :: session where
  "new_session = \<lparr>se_pc = At_lock, se_result = None, se_aborted = False, se_ran_schema = False, se_recorded = False\<rparr>"

definition start :: "catalog \<Rightarrow> system" where
  "start c = \<lparr>sy_holder = None, sy_catalog = c, sy_sessions = (\<lambda>_. new_session)\<rparr>"

definition put :: "nat \<Rightarrow> session \<Rightarrow> system \<Rightarrow> system" where
  "put p s S = S\<lparr>sy_sessions := (sy_sessions S)(p := s)\<rparr>"

text \<open>A statement inside the \<open>try\<close> raises: its transaction is lost and \<open>finally\<close> comes next.\<close>

definition statement_fails :: "session \<Rightarrow> session" where
  "statement_fails s =
     s\<lparr>se_pc := At_unlock, se_result := Some (Inl StatementFailed), se_aborted := True,
       se_ran_schema := False, se_recorded := False\<rparr>"

text \<open>The next statement of \<open>migrate\<close> in session \<open>p\<close>; \<open>None\<close> while it waits for the lock and once it has
  returned.  A failed \<open>commit\<close> ends the transaction, so the unlock that follows is one of its own;
  an unlock that is refused raises in place of what was raised before.\<close>

definition migrate_step :: "nat \<Rightarrow> bool \<Rightarrow> system \<Rightarrow> system option" where
  "migrate_step p ok S = (let s = sy_sessions S p; c = sy_catalog S in case se_pc s of
     At_lock \<Rightarrow>
       if \<not> ok then Some (put p (s\<lparr>se_pc := Returned, se_result := Some (Inl StatementFailed), se_aborted := True\<rparr>) S)
       else if sy_holder S = None then Some ((put p (s\<lparr>se_pc := At_table\<rparr>) S)\<lparr>sy_holder := Some p\<rparr>)
       else None
   | At_table \<Rightarrow>
       Some (put p (if \<not> ok then statement_fails s
                    else if ct_migrations c then s\<lparr>se_pc := At_version\<rparr> else s\<lparr>se_pc := At_schema\<rparr>) S)
   | At_version \<Rightarrow>
       Some (put p (if \<not> ok then statement_fails s
                    else if \<exists>v \<in> set (ct_versions c). SCHEMA_VERSION \<le> v
                    then s\<lparr>se_pc := At_unlock, se_result := Some (Inr False)\<rparr> else s\<lparr>se_pc := At_schema\<rparr>) S)
   | At_schema \<Rightarrow>
       Some (put p (if \<not> ok then statement_fails s else s\<lparr>se_pc := At_record, se_ran_schema := True\<rparr>) S)
   | At_record \<Rightarrow>
       Some (put p (if \<not> ok then statement_fails s else s\<lparr>se_pc := At_commit, se_recorded := True\<rparr>) S)
   | At_commit \<Rightarrow>
       if \<not> ok then Some (put p ((statement_fails s)\<lparr>se_aborted := False\<rparr>) S)
       else Some ((put p (s\<lparr>se_pc := At_unlock, se_result := Some (Inr True), se_ran_schema := False, se_recorded := False\<rparr>) S)
                    \<lparr>sy_catalog := (if se_ran_schema s \<and> se_recorded s then apply_schema c else c)\<rparr>)
   | At_unlock \<Rightarrow>
       if se_aborted s then Some (put p (s\<lparr>se_pc := Returned, se_result := Some (Inl InFailedSqlTransaction)\<rparr>) S)
       else if \<not> ok then Some (put p (s\<lparr>se_pc := Returned, se_result := Some (Inl StatementFailed), se_aborted := True\<rparr>) S)
       else Some ((put p (s\<lparr>se_pc := Returned\<rparr>) S)\<lparr>sy_holder := None\<rparr>)
   | Returned \<Rightarrow> None)"

text \<open>The session ends, at any time: the connection is closed or lost, or its process dies.  What was
  not committed is gone and the lock is free again.\<close>

definition disconnect :: "nat \<Rightarrow> system \<Rightarrow> system" where
  "disconnect p S = (let s = sy_sessions S p in
     (put p (if se_pc s = Returned then s
             else \<lparr>se_pc = Returned, se_result = Some (Inl ConnectionLost), se_aborted = True,
                   se_ran_schema = False, se_recorded = False\<rparr>) S)
       \<lparr>sy_holder := (if sy_holder S = Some p then None else sy_holder S)\<rparr>)"

inductive migrating :: "catalog \<Rightarrow> system \<Rightarrow> bool" for c where
  started: "migrating c (start c)"
| stepped: "migrating c S \<Longrightarrow> migrate_step p ok S = Some S' \<Longrightarrow> migrating c S'"
| gone: "migrating c S \<Longrightarrow> migrating c (disconnect p S)"

text \<open>A schedule: statements that succeed or fail, and sessions that end.\<close>

datatype event = Runs nat | Fails nat | Ends nat

fun schedule :: "event list \<Rightarrow> system \<Rightarrow> system option" where
  "schedule [] S = Some S"
| "schedule (Runs p # es) S = Option.bind (migrate_step p True S) (schedule es)"
| "schedule (Fails p # es) S = Option.bind (migrate_step p False S) (schedule es)"
| "schedule (Ends p # es) S = schedule es (disconnect p S)"

section \<open>Where a session stands\<close>

definition in_section :: "session \<Rightarrow> bool" where
  "in_section s \<longleftrightarrow> se_pc s \<noteq> At_lock \<and> se_pc s \<noteq> Returned"

definition applying :: "session \<Rightarrow> bool" where
  "applying s \<longleftrightarrow> se_pc s \<in> {At_schema, At_record, At_commit}"

fun statements_left :: "migrate_pc \<Rightarrow> nat" where
  "statements_left At_lock = 7"
| "statements_left At_table = 6"
| "statements_left At_version = 5"
| "statements_left At_schema = 4"
| "statements_left At_record = 3"
| "statements_left At_commit = 2"
| "statements_left At_unlock = 1"
| "statements_left Returned = 0"

section \<open>Invariant\<close>

text \<open>What holds of a session on its own, given the catalog.\<close>

definition session_ok :: "catalog \<Rightarrow> session \<Rightarrow> bool" where
  "session_ok c s \<longleftrightarrow>
     (se_ran_schema s \<longleftrightarrow> se_pc s \<in> {At_record, At_commit}) \<and> (se_recorded s \<longleftrightarrow> se_pc s = At_commit)
     \<and> (se_pc s = At_version \<longrightarrow> ct_migrations c) \<and> (applying s \<longrightarrow> \<not> up_to_date c)
     \<and> (se_result s = None \<longleftrightarrow> se_pc s \<notin> {At_unlock, Returned})
     \<and> (\<forall>b. se_result s = Some (Inr b) \<longrightarrow> up_to_date c)"

text \<open>The lock is held by the session inside, or by one that raised and could not let go.\<close>

definition lock_ok :: "nat option \<Rightarrow> (nat \<Rightarrow> session) \<Rightarrow> bool" where
  "lock_ok h ss \<longleftrightarrow>
     (\<forall>p. in_section (ss p) \<longrightarrow> h = Some p)
     \<and> (\<forall>p. h = Some p \<longrightarrow> in_section (ss p) \<or> se_pc (ss p) = Returned \<and> (\<exists>e. se_result (ss p) = Some (Inl e)))"

definition won :: "session \<Rightarrow> bool" where
  "won s \<longleftrightarrow> se_result s = Some (Inr True)"

definition migrate_inv :: "catalog \<Rightarrow> system \<Rightarrow> bool" where
  "migrate_inv c S \<longleftrightarrow>
     (\<forall>p. session_ok (sy_catalog S) (sy_sessions S p))
     \<and> lock_ok (sy_holder S) (sy_sessions S)
     \<and> (sy_catalog S = c \<and> (\<forall>p. \<not> won (sy_sessions S p))
        \<or> \<not> up_to_date c \<and> sy_catalog S = apply_schema c
          \<and> (\<forall>p q. won (sy_sessions S p) \<and> won (sy_sessions S q) \<longrightarrow> p = q))"

lemma up_to_date_apply [simp]: "up_to_date (apply_schema c)"
  by (auto simp: up_to_date_def apply_schema_def)

lemma migrations_apply [simp]: "ct_migrations (apply_schema c)"
  by (simp add: apply_schema_def)

lemma migrate_inv_start: "migrate_inv c (start c)"
  by (simp add: migrate_inv_def start_def new_session_def session_ok_def applying_def in_section_def lock_ok_def won_def)

lemma session_ok_later: "session_ok c s \<Longrightarrow> \<not> applying s \<Longrightarrow> session_ok (apply_schema c) s"
  by (auto simp: session_ok_def)

lemma alone: "lock_ok h ss \<Longrightarrow> in_section (ss p) \<Longrightarrow> q \<noteq> p \<Longrightarrow> \<not> in_section (ss q)"
  by (auto simp: lock_ok_def)

lemma applying_in_section: "applying s \<Longrightarrow> in_section s"
  by (auto simp: applying_def in_section_def)

text \<open>A step that leaves the catalog: what has to be shown of the session that makes it.\<close>

lemma migrate_inv_put:
  assumes "migrate_inv c S" "session_ok (sy_catalog S) s" "lock_ok h ((sy_sessions S)(p := s))"
    and "won s \<longrightarrow> won (sy_sessions S p)"
  shows "migrate_inv c ((put p s S)\<lparr>sy_holder := h\<rparr>)"
proof -
  have w: "won (((sy_sessions S)(p := s)) q) \<Longrightarrow> won (sy_sessions S q)" for q
    using assms(4) by (cases "q = p") auto
  have "\<forall>q. session_ok (sy_catalog S) (((sy_sessions S)(p := s)) q)"
    using assms(1,2) by (simp add: migrate_inv_def)
  then show ?thesis using assms(1,3) w unfolding migrate_inv_def
    by (simp add: put_def del: fun_upd_apply) blast
qed

lemma lock_ok_put:
  assumes "lock_ok h ss" "in_section (ss p)"
    and "in_section s \<or> se_pc s = Returned \<and> (\<exists>e. se_result s = Some (Inl e))"
  shows "lock_ok h (ss(p := s))"
  using assms by (auto simp: lock_ok_def)

lemma lock_ok_release:
  assumes "lock_ok h ss" "in_section (ss p)" "\<not> in_section s"
  shows "lock_ok None (ss(p := s))"
  using assms by (auto simp: lock_ok_def)

lemma inv_session: "migrate_inv c S \<Longrightarrow> session_ok (sy_catalog S) (sy_sessions S p)"
  by (simp add: migrate_inv_def)

lemma inv_lock: "migrate_inv c S \<Longrightarrow> lock_ok (sy_holder S) (sy_sessions S)"
  by (simp add: migrate_inv_def)

lemma put_holder: "(put p s S)\<lparr>sy_holder := sy_holder S\<rparr> = put p s S"
  by (simp add: put_def)

lemma inv_stays:
  assumes "migrate_inv c S" "in_section (sy_sessions S p)" "session_ok (sy_catalog S) s" "\<not> won s"
    and "in_section s \<or> se_pc s = Returned \<and> (\<exists>e. se_result s = Some (Inl e))"
  shows "migrate_inv c (put p s S)"
  using migrate_inv_put [OF assms(1,3) lock_ok_put [OF inv_lock [OF assms(1)] assms(2,5)]] assms(4)
  by (simp add: put_holder)

text \<open>The one step that changes the catalog.\<close>

lemma inv_commit:
  assumes inv: "migrate_inv c S" and pc: "se_pc (sy_sessions S p) = At_commit"
    and s: "session_ok (apply_schema (sy_catalog S)) s" "in_section s"
  shows "migrate_inv c ((put p s S)\<lparr>sy_catalog := apply_schema (sy_catalog S)\<rparr>)"
proof -
  have app: "applying (sy_sessions S p)" using pc by (simp add: applying_def)
  then have inp: "in_section (sy_sessions S p)" by (rule applying_in_section)
  have "\<not> up_to_date (sy_catalog S)" using inv_session [OF inv, of p] app by (simp add: session_ok_def)
  then have c: "sy_catalog S = c" "\<And>q. \<not> won (sy_sessions S q)" "\<not> up_to_date c"
    using inv by (auto simp: migrate_inv_def)
  have "session_ok (apply_schema (sy_catalog S)) (sy_sessions S q)" if "q \<noteq> p" for q
    using session_ok_later [OF inv_session [OF inv, of q]] alone [OF inv_lock [OF inv] inp that] applying_in_section
    by blast
  moreover have "lock_ok (sy_holder S) ((sy_sessions S)(p := s))"
    using lock_ok_put [OF inv_lock [OF inv] inp] s(2) by blast
  ultimately show ?thesis using s(1) c by (simp add: migrate_inv_def put_def)
qed

lemmas step_simps = session_ok_def applying_def in_section_def won_def statement_fails_def

lemma inv_at_lock:
  assumes inv: "migrate_inv c S" and step: "migrate_step p ok S = Some S'" and At_lock: "se_pc (sy_sessions S p) = At_lock"
  shows "migrate_inv c S'"
proof -
  let ?s = "sy_sessions S p"
  have s: "session_ok (sy_catalog S) ?s" by (rule inv_session [OF inv])
  note lock = inv_lock [OF inv]
  have out: "\<not> in_section ?s" "sy_holder S \<noteq> Some p"
    using At_lock lock by (auto simp: in_section_def lock_ok_def)
  show ?thesis
  proof (cases ok)
    case True
    with At_lock step have "sy_holder S = None" and S': "S' = (put p (?s\<lparr>se_pc := At_table\<rparr>) S)\<lparr>sy_holder := Some p\<rparr>"
      by (auto simp: migrate_step_def Let_def split: if_splits)
    then have "lock_ok (Some p) ((sy_sessions S)(p := ?s\<lparr>se_pc := At_table\<rparr>))"
      using lock by (auto simp: lock_ok_def in_section_def)
    then show ?thesis unfolding S' using At_lock s by (intro migrate_inv_put [OF inv]) (auto simp: step_simps)
  next
    case False
    let ?t = "?s\<lparr>se_pc := Returned, se_result := Some (Inl StatementFailed), se_aborted := True\<rparr>"
    have S': "S' = (put p ?t S)\<lparr>sy_holder := sy_holder S\<rparr>"
      using At_lock step False unfolding put_holder by (simp add: migrate_step_def Let_def)
    have "lock_ok (sy_holder S) ((sy_sessions S)(p := ?t))"
      using lock out by (auto simp: lock_ok_def in_section_def)
    then show ?thesis unfolding S' using At_lock s by (intro migrate_inv_put [OF inv]) (auto simp: step_simps)
  qed
qed

lemma inv_at_commit:
  assumes inv: "migrate_inv c S" and step: "migrate_step p ok S = Some S'" and At_commit: "se_pc (sy_sessions S p) = At_commit"
  shows "migrate_inv c S'"
proof -
  let ?s = "sy_sessions S p"
  have s: "session_ok (sy_catalog S) ?s" by (rule inv_session [OF inv])
  note lock = inv_lock [OF inv]
  have ran: "se_ran_schema ?s \<and> se_recorded ?s" using s At_commit by (simp add: session_ok_def)
  show ?thesis
  proof (cases ok)
    case True
    have S': "S' = (put p (?s\<lparr>se_pc := At_unlock, se_result := Some (Inr True), se_ran_schema := False, se_recorded := False\<rparr>) S)
        \<lparr>sy_catalog := apply_schema (sy_catalog S)\<rparr>"
      using At_commit step True ran by (simp add: migrate_step_def Let_def)
    show ?thesis unfolding S' by (rule inv_commit [OF inv At_commit]) (simp_all add: step_simps)
  next
    case False
    with At_commit step have S': "S' = put p ((statement_fails ?s)\<lparr>se_aborted := False\<rparr>) S"
      by (simp add: migrate_step_def Let_def)
    show ?thesis unfolding S' using At_commit s by (intro inv_stays [OF inv]) (auto simp: step_simps)
  qed
qed

lemma inv_at_unlock:
  assumes inv: "migrate_inv c S" and step: "migrate_step p ok S = Some S'" and At_unlock: "se_pc (sy_sessions S p) = At_unlock"
  shows "migrate_inv c S'"
proof -
  let ?s = "sy_sessions S p"
  have s: "session_ok (sy_catalog S) ?s" by (rule inv_session [OF inv])
  note lock = inv_lock [OF inv]
  show ?thesis
  proof (cases "se_aborted ?s \<or> \<not> ok")
    case True
    with At_unlock step obtain e a where
      S': "S' = put p (?s\<lparr>se_pc := Returned, se_result := Some (Inl e), se_aborted := a\<rparr>) S"
      by (cases ?s) (auto simp: migrate_step_def Let_def split: if_splits)
    show ?thesis unfolding S' using At_unlock s by (intro inv_stays [OF inv]) (auto simp: step_simps)
  next
    case False
    with At_unlock step have S': "S' = (put p (?s\<lparr>se_pc := Returned\<rparr>) S)\<lparr>sy_holder := None\<rparr>"
      by (auto simp: migrate_step_def Let_def)
    have "lock_ok None ((sy_sessions S)(p := ?s\<lparr>se_pc := Returned\<rparr>))"
      using At_unlock by (intro lock_ok_release [OF lock]) (simp_all add: in_section_def)
    then show ?thesis unfolding S' using At_unlock s by (intro migrate_inv_put [OF inv]) (auto simp: step_simps)
  qed
qed

text \<open>The queries and statements in between, which change nothing but their session.\<close>

lemma migrate_inv_step:
  assumes inv: "migrate_inv c S" and step: "migrate_step p ok S = Some S'"
  shows "migrate_inv c S'"
proof -
  let ?s = "sy_sessions S p"
  have s: "session_ok (sy_catalog S) ?s" by (rule inv_session [OF inv])
  show ?thesis
  proof (cases "se_pc ?s")
    case At_lock
    with inv step show ?thesis by (rule inv_at_lock)
  next
    case At_commit
    with inv step show ?thesis by (rule inv_at_commit)
  next
    case At_unlock
    with inv step show ?thesis by (rule inv_at_unlock)
  next
    case At_table
    with step obtain t where S': "S' = put p t S" and
      "t = statement_fails ?s \<or> ct_migrations (sy_catalog S) \<and> t = ?s\<lparr>se_pc := At_version\<rparr>
        \<or> \<not> ct_migrations (sy_catalog S) \<and> t = ?s\<lparr>se_pc := At_schema\<rparr>"
      by (auto simp: migrate_step_def Let_def split: if_splits)
    then show ?thesis unfolding S' using At_table s
      by (intro inv_stays [OF inv]) (auto simp: step_simps up_to_date_def)
  next
    case At_version
    with step obtain t where S': "S' = put p t S" and
      "t = statement_fails ?s \<or> up_to_date (sy_catalog S) \<and> t = ?s\<lparr>se_pc := At_unlock, se_result := Some (Inr False)\<rparr>
        \<or> \<not> up_to_date (sy_catalog S) \<and> t = ?s\<lparr>se_pc := At_schema\<rparr>"
      using s by (auto simp: migrate_step_def Let_def session_ok_def up_to_date_def split: if_splits)
    then show ?thesis unfolding S' using At_version s by (intro inv_stays [OF inv]) (auto simp: step_simps)
  next
    case At_schema
    with step obtain t where S': "S' = put p t S" and
      "t = statement_fails ?s \<or> t = ?s\<lparr>se_pc := At_record, se_ran_schema := True\<rparr>"
      by (auto simp: migrate_step_def Let_def split: if_splits)
    then show ?thesis unfolding S' using At_schema s by (intro inv_stays [OF inv]) (auto simp: step_simps)
  next
    case At_record
    with step obtain t where S': "S' = put p t S" and
      "t = statement_fails ?s \<or> t = ?s\<lparr>se_pc := At_commit, se_recorded := True\<rparr>"
      by (auto simp: migrate_step_def Let_def split: if_splits)
    then show ?thesis unfolding S' using At_record s by (intro inv_stays [OF inv]) (auto simp: step_simps)
  next
    case Returned
    with step show ?thesis by (simp add: migrate_step_def Let_def)
  qed
qed

lemma lock_ok_leave:
  assumes "lock_ok h ss" "se_pc s = Returned"
  shows "lock_ok (if h = Some p then None else h) (ss(p := s))"
proof (cases "h = Some p")
  case True
  then have "\<not> in_section (ss q)" if "q \<noteq> p" for q using assms(1) that by (auto simp: lock_ok_def)
  with True assms(2) show ?thesis by (simp add: lock_ok_def) (simp add: in_section_def)
next
  case False
  have "\<not> in_section s" using assms(2) by (simp add: in_section_def)
  with False assms(1) show ?thesis by (simp add: lock_ok_def)
qed

lemma migrate_inv_disconnect:
  assumes inv: "migrate_inv c S"
  shows "migrate_inv c (disconnect p S)"
proof -
  let ?s = "sy_sessions S p"
  let ?h = "if sy_holder S = Some p then None else sy_holder S"
  define t where "t = (if se_pc ?s = Returned then ?s
    else \<lparr>se_pc = Returned, se_result = Some (Inl ConnectionLost), se_aborted = True, se_ran_schema = False, se_recorded = False\<rparr>)"
  have S': "disconnect p S = (put p t S)\<lparr>sy_holder := ?h\<rparr>"
    by (simp add: disconnect_def Let_def t_def)
  have t: "se_pc t = Returned" by (simp add: t_def)
  have "session_ok (sy_catalog S) t"
    using inv_session [OF inv, of p] by (simp add: t_def step_simps)
  moreover have "lock_ok ?h ((sy_sessions S)(p := t))"
    by (rule lock_ok_leave [OF inv_lock [OF inv] t])
  moreover have "won t \<longrightarrow> won ?s" by (simp add: t_def won_def)
  ultimately show ?thesis unfolding S' by (rule migrate_inv_put [OF inv])
qed

lemma migrating_inv: "migrating c S \<Longrightarrow> migrate_inv c S"
  by (induction rule: migrating.induct) (auto intro: migrate_inv_start migrate_inv_step migrate_inv_disconnect)

end
