(* ===== verification/MigrateClaims.thy ===== *)
theory MigrateClaims
  imports Migrate
begin

text \<open>
  What \<open>migrate\<close> guarantees when any number of services start at once, statements fail and sessions
  are lost: one of them is inside at a time, the schema is applied once, and everybody gets to its end.
\<close>

section \<open>Exclusion\<close>

text \<open>C27: The migration is exclusive.  However the statements of the starting services interleave, fail
  or are cut off, at most one session is between its lock and its unlock, it is the one the server
  granted the lock, and only such a session has run a statement of the schema that is not committed.\<close>

theorem migration_is_exclusive:
  assumes "migrating c S"
  shows "(in_section (sy_sessions S p) \<longrightarrow> sy_holder S = Some p)
    \<and> (in_section (sy_sessions S p) \<and> in_section (sy_sessions S q) \<longrightarrow> p = q)
    \<and> (se_ran_schema (sy_sessions S p) \<or> se_recorded (sy_sessions S p) \<longrightarrow> in_section (sy_sessions S p))"
proof -
  note inv = migrating_inv [OF assms]
  have "in_section (sy_sessions S p) \<longrightarrow> sy_holder S = Some p" for p
    using inv_lock [OF inv] by (simp add: lock_ok_def)
  moreover have "se_ran_schema (sy_sessions S p) \<or> se_recorded (sy_sessions S p) \<longrightarrow> in_section (sy_sessions S p)"
    using inv_session [OF inv, of p] by (auto simp: session_ok_def in_section_def)
  ultimately show ?thesis by (metis option.inject)
qed

lemma schedule_migrating: "schedule es S = Some S' \<Longrightarrow> migrating c S \<Longrightarrow> migrating c S'"
  by (induction es S rule: schedule.induct)
    (auto split: bind_splits intro: migrating.stepped migrating.gone)

lemma scheduled: "schedule es (start c) = Some S \<Longrightarrow> migrating c S"
  by (rule schedule_migrating [OF _ migrating.started])

definition ex_catalog :: catalog where
  "ex_catalog = \<lparr>ct_migrations = True, ct_versions = [1], ct_runs = 0\<rparr>"

text \<open>Two services on a database of version 1; the second waits for the first.\<close>

definition ex_race :: system where
  "ex_race = the (schedule [Runs 1, Runs 1, Runs 1, Runs 1] (start ex_catalog))"

lemma ex_race_migrating: "migrating ex_catalog ex_race"
proof -
  have "schedule [Runs 1, Runs 1, Runs 1, Runs 1] (start ex_catalog) = Some ex_race"
    by (simp add: ex_race_def migrate_step_def Let_def start_def new_session_def put_def ex_catalog_def SCHEMA_VERSION_def)
  then show ?thesis by (rule scheduled)
qed

lemma ex_race_state:
  "se_ran_schema (sy_sessions ex_race 1)" "migrate_step 2 True ex_race = None" "sy_catalog ex_race = ex_catalog"
  by (simp_all add: ex_race_def migrate_step_def Let_def start_def new_session_def put_def ex_catalog_def SCHEMA_VERSION_def)

theorem migration_is_exclusive_witness:
  "in_section (sy_sessions ex_race 1) \<and> sy_holder ex_race = Some 1 \<and> \<not> in_section (sy_sessions ex_race 2)"
  using migration_is_exclusive [OF ex_race_migrating, of 1 2] ex_race_state(1) by auto

section \<open>Once\<close>

text \<open>C26: The schema is applied once, and whoever returns finds it applied.  The committed catalog is
  the one there was before or that one with the script and its row committed in one go, the latter
  only if it was behind; \<open>migrate\<close> returns in no session before the version is recorded, returns \<open>True\<close>
  in at most one, and only if that one committed; on a database that was up to date it changes
  nothing and returns \<open>False\<close>.\<close>

theorem schema_applied_once:
  assumes "migrating c S"
  shows "(sy_catalog S = c \<or> \<not> up_to_date c \<and> sy_catalog S = apply_schema c)
    \<and> (\<forall>p b. se_result (sy_sessions S p) = Some (Inr b) \<longrightarrow> up_to_date (sy_catalog S))
    \<and> (\<forall>p. se_result (sy_sessions S p) = Some (Inr True) \<longrightarrow> \<not> up_to_date c \<and> sy_catalog S = apply_schema c)
    \<and> (\<forall>p q. se_result (sy_sessions S p) = Some (Inr True) \<and> se_result (sy_sessions S q) = Some (Inr True) \<longrightarrow> p = q)"
proof -
  note inv = migrating_inv [OF assms]
  have "se_result (sy_sessions S p) = Some (Inr b) \<longrightarrow> up_to_date (sy_catalog S)" for p b
    using inv_session [OF inv, of p] by (simp add: session_ok_def)
  then show ?thesis using inv by (auto simp: migrate_inv_def won_def)
qed

definition ex_both_back :: system where
  "ex_both_back = the (schedule (replicate 7 (Runs 1) @ replicate 4 (Runs 2)) (start ex_catalog))"

lemmas run_simps = migrate_step_def Let_def start_def new_session_def put_def ex_catalog_def SCHEMA_VERSION_def
  apply_schema_def statement_fails_def

lemma ex_both_back_run:
  "schedule (replicate 7 (Runs 1) @ replicate 4 (Runs 2)) (start ex_catalog) = Some ex_both_back"
  by (simp add: ex_both_back_def eval_nat_numeral run_simps)

lemma ex_both_back_results:
  "se_result (sy_sessions ex_both_back 1) = Some (Inr True)" "se_result (sy_sessions ex_both_back 2) = Some (Inr False)"
  by (simp_all add: ex_both_back_def eval_nat_numeral run_simps)

theorem schema_applied_once_witness:
  "ct_versions (sy_catalog ex_both_back) = [1, 2] \<and> ct_runs (sy_catalog ex_both_back) = 1"
proof -
  have "sy_catalog ex_both_back = apply_schema ex_catalog"
    using schema_applied_once [OF scheduled [OF ex_both_back_run]] ex_both_back_results(1) by blast
  then show ?thesis by (simp add: apply_schema_def ex_catalog_def SCHEMA_VERSION_def)
qed

section \<open>Progress\<close>

lemma step_progress:
  assumes "migrate_step p ok S = Some S'"
  shows "statements_left (se_pc (sy_sessions S' p)) < statements_left (se_pc (sy_sessions S p))"
    and "q \<noteq> p \<Longrightarrow> sy_sessions S' q = sy_sessions S q"
  using assms by (auto simp: migrate_step_def Let_def put_def statement_fails_def split: migrate_pc.splits if_splits)

lemma disconnect_left: "statements_left (se_pc (sy_sessions (disconnect q S) p)) \<le> statements_left (se_pc (sy_sessions S p))"
  by (auto simp: disconnect_def Let_def put_def)

lemma statements_bounded: "statements_left pc \<le> 7"
  by (cases pc) auto

definition own :: "nat \<Rightarrow> event \<Rightarrow> bool" where
  "own p e \<longleftrightarrow> e = Runs p \<or> e = Fails p"

lemma own_statements:
  "schedule es S = Some S' \<Longrightarrow> length (filter (own p) es) + statements_left (se_pc (sy_sessions S' p)) \<le> statements_left (se_pc (sy_sessions S p))"
proof (induction es S rule: schedule.induct)
  case (2 q es S)
  then obtain T where T: "migrate_step q True S = Some T" "schedule es T = Some S'" by (auto split: bind_splits)
  show ?case using 2(1) [OF T] step_progress(2) [OF T(1), of p] step_progress(1) [OF T(1)] by (cases "q = p") (auto simp: own_def)
next
  case (3 q es S)
  then obtain T where T: "migrate_step q False S = Some T" "schedule es T = Some S'" by (auto split: bind_splits)
  show ?case using 3(1) [OF T] step_progress(2) [OF T(1), of p] step_progress(1) [OF T(1)] by (cases "q = p") (auto simp: own_def)
next
  case (4 q es S)
  then have "schedule es (disconnect q S) = Some S'" by simp
  from 4(1) [OF this] show ?case using disconnect_left [of q S p] by (simp add: own_def)
qed simp

lemma moves: "se_pc (sy_sessions S p) \<noteq> Returned \<Longrightarrow> se_pc (sy_sessions S p) \<noteq> At_lock \<or> sy_holder S = None
    \<Longrightarrow> migrate_step p True S \<noteq> None"
  by (auto simp: migrate_step_def Let_def split: migrate_pc.splits)

text \<open>Without a failure nobody raises.\<close>

definition calm :: "system \<Rightarrow> bool" where
  "calm S \<longleftrightarrow> (\<forall>p e. se_result (sy_sessions S p) \<noteq> Some (Inl e)) \<and> (\<forall>p. \<not> se_aborted (sy_sessions S p))"

lemma calm_step: "calm S \<Longrightarrow> migrate_step p True S = Some S' \<Longrightarrow> calm S'"
  by (auto simp: calm_def migrate_step_def Let_def put_def split: migrate_pc.splits if_splits)

lemma calm_schedule: "schedule (map Runs ps) S = Some S' \<Longrightarrow> calm S \<Longrightarrow> calm S'"
  by (induction ps arbitrary: S) (auto split: bind_splits dest: calm_step)

text \<open>Who waits for the lock waits for a session that can move, or that raised and whose end frees it.\<close>

definition held_up :: "nat \<Rightarrow> system \<Rightarrow> bool" where
  "held_up p S \<longleftrightarrow> (case sy_holder S of None \<Rightarrow> False | Some q \<Rightarrow>
     migrate_step q True S \<noteq> None
     \<or> (\<exists>e. se_result (sy_sessions S q) = Some (Inl e)) \<and> migrate_step p True (disconnect q S) \<noteq> None)"

lemma someone_moves:
  assumes "migrating c S" and p: "se_pc (sy_sessions S p) \<noteq> Returned"
  shows "migrate_step p True S \<noteq> None \<or> held_up p S"
proof (cases "sy_holder S")
  case None
  then show ?thesis using moves [OF p] by blast
next
  case (Some q)
  show ?thesis
  proof (cases "in_section (sy_sessions S q)")
    case True
    then show ?thesis using Some moves [of S q] by (auto simp: in_section_def held_up_def)
  next
    case False
    then have q: "se_pc (sy_sessions S q) = Returned" "\<exists>e. se_result (sy_sessions S q) = Some (Inl e)"
      using inv_lock [OF migrating_inv [OF assms(1)]] Some by (auto simp: lock_ok_def)
    have "se_pc (sy_sessions (disconnect q S) p) \<noteq> Returned" "sy_holder (disconnect q S) = None"
      using p q(1) Some by (auto simp: disconnect_def Let_def put_def)
    then show ?thesis using moves [of "disconnect q S" p] Some q(2) by (auto simp: held_up_def)
  qed
qed

lemma calm_returned:
  assumes "migrating c S" "calm S" and p: "se_pc (sy_sessions S p) = Returned"
  shows "sy_holder S \<noteq> Some p \<and> (\<exists>b. se_result (sy_sessions S p) = Some (Inr b))"
proof -
  note inv = migrating_inv [OF assms(1)]
  have "se_result (sy_sessions S p) \<noteq> Some (Inl e)" for e using assms(2) by (simp add: calm_def)
  moreover have "se_result (sy_sessions S p) \<noteq> None"
    using inv_session [OF inv, of p] p by (simp add: session_ok_def)
  ultimately have "\<exists>b. se_result (sy_sessions S p) = Some (Inr b)" by (metis option.exhaust sum.exhaust)
  moreover have "sy_holder S \<noteq> Some p"
    using calculation p inv_lock [OF inv] by (auto simp: lock_ok_def in_section_def)
  ultimately show ?thesis by blast
qed

text \<open>C28: Every service gets through its migration.  In any schedule a session makes at most seven
  steps.  As long as it has not returned it can make one, or the lock is with another that can make
  one, or with one that has raised and whose end frees it; and when nothing fails nobody raises and no
  returned session keeps the lock.\<close>

theorem migration_terminates:
  assumes "schedule es (start c) = Some S"
  shows "length (filter (own p) es) \<le> 7
    \<and> (se_pc (sy_sessions S p) \<noteq> Returned \<longrightarrow> migrate_step p True S \<noteq> None \<or> held_up p S)
    \<and> (\<forall>ps. es = map Runs ps \<and> se_pc (sy_sessions S p) = Returned \<longrightarrow>
         sy_holder S \<noteq> Some p \<and> (\<exists>b. se_result (sy_sessions S p) = Some (Inr b)))"
proof -
  note mig = scheduled [OF assms]
  have "length (filter (own p) es) \<le> 7"
    using own_statements [OF assms, of p] statements_bounded [of "se_pc (sy_sessions (start c) p)"] by linarith
  moreover have "sy_holder S \<noteq> Some p \<and> (\<exists>b. se_result (sy_sessions S p) = Some (Inr b))"
    if "es = map Runs ps" "se_pc (sy_sessions S p) = Returned" for ps
  proof -
    have "calm (start c)" by (simp add: calm_def start_def new_session_def)
    then have "calm S" using calm_schedule assms that(1) by blast
    then show ?thesis using calm_returned [OF mig _ that(2)] by blast
  qed
  ultimately show ?thesis using someone_moves [OF mig] by blast
qed

theorem migration_terminates_witness:
  "sy_holder ex_both_back \<noteq> Some 2 \<and> length (filter (own 2) (replicate 7 (Runs 1) @ replicate 4 (Runs 2))) \<le> 7"
proof -
  have e: "replicate 7 (Runs 1) @ replicate 4 (Runs 2) = map Runs (replicate 7 1 @ replicate 4 2)" by simp
  have r: "se_pc (sy_sessions ex_both_back 2) = Returned" by (simp add: ex_both_back_def eval_nat_numeral run_simps)
  show ?thesis using migration_terminates [OF ex_both_back_run, of 2] e r by blast
qed

text \<open>What a service that starts alone does.\<close>

lemma migrate_alone:
  "\<exists>es S. schedule es (start c) = Some S \<and> se_result (sy_sessions S p) = Some (Inr (\<not> up_to_date c))
     \<and> sy_holder S = None \<and> sy_catalog S = (if up_to_date c then c else apply_schema c)"
proof -
  consider (upto) "up_to_date c" | (table) "\<not> up_to_date c" "ct_migrations c" | (none) "\<not> ct_migrations c" by blast
  then show ?thesis
  proof cases
    case upto
    then show ?thesis
      by (intro exI [of _ "[Runs p, Runs p, Runs p, Runs p]"])
        (simp add: up_to_date_def migrate_step_def Let_def start_def new_session_def put_def)
  next
    case table
    then show ?thesis
      by (intro exI [of _ "[Runs p, Runs p, Runs p, Runs p, Runs p, Runs p, Runs p]"])
        (simp add: up_to_date_def migrate_step_def Let_def start_def new_session_def put_def)
  next
    case none
    then show ?thesis
      by (intro exI [of _ "[Runs p, Runs p, Runs p, Runs p, Runs p, Runs p]"])
        (simp add: up_to_date_def migrate_step_def Let_def start_def new_session_def put_def)
  qed
qed

text \<open>A statement of the schema that fails keeps the lock: the unlock in \<open>finally\<close> is refused in the
  transaction that failed, its error takes the place of the first, and a second service waits until
  the session ends.\<close>

lemma failed_schema_keeps_the_lock:
  "(case schedule [Runs 1, Runs 1, Runs 1, Fails 1, Runs 1] (start ex_catalog) of
      None \<Rightarrow> False
    | Some S \<Rightarrow> sy_holder S = Some 1 \<and> se_result (sy_sessions S 1) = Some (Inl InFailedSqlTransaction)
        \<and> migrate_step 2 True S = None \<and> migrate_step 2 True (disconnect 1 S) \<noteq> None)"
  by (simp add: run_simps disconnect_def)

end
