(* ===== verification/Ffi.thy ===== *)
theory Ffi
  imports Client
begin

text \<open>
  The foreign interface of the Python client, \<^verbatim>\<open>bindings/python/src/dist_client/_ffi.py\<close>: where the
  native verifier is looked for, the structure both sides write and read, and the declared
  signatures, against those of \<^verbatim>\<open>client/dist-core-ffi/src/lib.rs\<close>.

  \<^verbatim>\<open>ctypes\<close> and Rust's \<^verbatim>\<open>repr(C)\<close> lay a structure out by the rules of the C compiler of the platform:
  fields in order, each at the next multiple of its alignment, the whole padded to the largest
  one.  The platforms are 64 bits wide and little endian.  A path is a string; \<open>Path(d) / n\<close> is \<open>d\<close>,
  a slash and \<open>n\<close>.
\<close>

section \<open>Structure layout\<close>

datatype c_type =
    c_uint8 | c_uint32 | c_uint64 | c_int | c_size_t | c_char_p | c_void_p
  | c_array c_type nat
  | c_struct "(string \<times> c_type) list"
  | c_pointer c_type

definition align_up :: "nat \<Rightarrow> nat \<Rightarrow> nat" where
  "align_up n a = (n + a - 1) div a * a"

text \<open>Of the types that stand in a structure; a structure is not itself a field here.\<close>

fun c_size :: "c_type \<Rightarrow> nat" where
  "c_size c_uint8 = 1"
| "c_size c_uint32 = 4"
| "c_size c_uint64 = 8"
| "c_size c_int = 4"
| "c_size (c_array t n) = c_size t * n"
| "c_size _ = 8"

fun c_align :: "c_type \<Rightarrow> nat" where
  "c_align (c_array t n) = c_align t"
| "c_align t = c_size t"

type_synonym fields = "(string \<times> c_type) list"

fun offsets :: "nat \<Rightarrow> fields \<Rightarrow> (string \<times> nat) list" where
  "offsets pos [] = []"
| "offsets pos ((name, t) # fs) =
     (let off = align_up pos (c_align t) in (name, off) # offsets (off + c_size t) fs)"

fun fields_end :: "nat \<Rightarrow> fields \<Rightarrow> nat" where
  "fields_end pos [] = pos"
| "fields_end pos ((name, t) # fs) = fields_end (align_up pos (c_align t) + c_size t) fs"

definition c_sizeof :: "fields \<Rightarrow> nat" where
  "c_sizeof fs = align_up (fields_end 0 fs) (foldr (\<lambda>(_, t) m. max (c_align t) m) fs 1)"

definition VERSION_CAPACITY :: nat where "VERSION_CAPACITY = 64"

definition EXPECTED_SIZE :: nat where "EXPECTED_SIZE = 112"

definition EXPECTED_OFFSETS :: "(string \<times> nat) list" where
  "EXPECTED_OFFSETS = [(''length'', 0), (''sha256'', 8), (''rollout_pct'', 40), (''mandatory'', 44), (''version'', 45)]"

definition DistTargetInfo :: fields where
  "DistTargetInfo =
     [(''length'', c_uint64), (''sha256'', c_array c_uint8 32), (''rollout_pct'', c_uint32),
      (''mandatory'', c_uint8), (''version'', c_array c_uint8 VERSION_CAPACITY)]"

text \<open>\<open>_check_layout\<close> on the fields \<open>fs\<close>; a field that is missing has no attribute.\<close>

fun check_offsets :: "fields \<Rightarrow> (string \<times> nat) list \<Rightarrow> unit res" where
  "check_offsets fs [] = Inr ()"
| "check_offsets fs ((name, off) # rest) =
     (case map_of (offsets 0 fs) name of
        None \<Rightarrow> Inl AttributeError
      | Some found \<Rightarrow>
          if found \<noteq> off then Inl (RuntimeError ''wrong offset'') else check_offsets fs rest)"

definition check_layout :: "fields \<Rightarrow> unit res" where
  "check_layout fs =
     (if c_sizeof fs \<noteq> EXPECTED_SIZE then Inl (RuntimeError ''wrong size'')
      else check_offsets fs EXPECTED_OFFSETS)"

section \<open>Bytes\<close>

text \<open>Little endian.\<close>

fun le_bytes :: "nat \<Rightarrow> nat \<Rightarrow> string" where
  "le_bytes 0 v = []"
| "le_bytes (Suc n) v = char_of (v mod 256) # le_bytes n (v div 256)"

fun le_nat :: "string \<Rightarrow> nat" where
  "le_nat [] = 0"
| "le_nat (c # cs) = code c + 256 * le_nat cs"

text \<open>What a structure looks like in memory, when its fields hold \<open>vals\<close>; \<open>pad\<close> is whatever was
  in the bytes between and behind them.\<close>

fun write_fields :: "(nat \<Rightarrow> char) \<Rightarrow> (string \<Rightarrow> string) \<Rightarrow> nat \<Rightarrow> fields \<Rightarrow> string" where
  "write_fields pad vals pos [] = []"
| "write_fields pad vals pos ((name, t) # fs) =
     (let off = align_up pos (c_align t) in
      map pad [pos..<off] @ vals name @ write_fields pad vals (off + c_size t) fs)"

definition struct_bytes :: "(nat \<Rightarrow> char) \<Rightarrow> (string \<Rightarrow> string) \<Rightarrow> fields \<Rightarrow> string" where
  "struct_bytes pad vals fs =
     write_fields pad vals 0 fs @ map pad [fields_end 0 fs..<c_sizeof fs]"

definition read_field :: "fields \<Rightarrow> string \<Rightarrow> string \<Rightarrow> string" where
  "read_field fs mem name =
     (case (map_of (offsets 0 fs) name, map_of fs name) of
        (Some off, Some t) \<Rightarrow> take (c_size t) (drop off mem) | _ \<Rightarrow> [])"

text \<open>The Rust side of the boundary stores a \<^typ>\<open>dist_target_info\<close>, its own layout being that of
  \<open>repr_c\<close>; the Python side reads the memory by its declaration.\<close>

datatype rust_type =
    u8 | u32 | u64 | usize | DistStatus_t | CChar | DistVerifier_t | DistTargetInfo_t
  | rust_array rust_type nat
  | rust_ptr rust_type

definition rust_DistTargetInfo :: "(string \<times> rust_type) list" where
  "rust_DistTargetInfo =
     [(''length'', u64), (''sha256'', rust_array u8 32), (''rollout_pct'', u32), (''mandatory'', u8),
      (''version'', rust_array u8 DIST_VERSION_CAPACITY)]"

text \<open>The C type of a Rust type that stands in a structure.\<close>

fun repr_field :: "rust_type \<Rightarrow> c_type" where
  "repr_field u8 = c_uint8"
| "repr_field u32 = c_uint32"
| "repr_field u64 = c_uint64"
| "repr_field usize = c_size_t"
| "repr_field DistStatus_t = c_int"
| "repr_field (rust_array t n) = c_array (repr_field t) n"
| "repr_field t = c_void_p"

definition rust_fields :: fields where
  "rust_fields = map (\<lambda>(n, t). (n, repr_field t)) rust_DistTargetInfo"

fun repr_c :: "rust_type \<Rightarrow> c_type" where
  "repr_c (rust_ptr t) = c_pointer (repr_c t)"
| "repr_c DistTargetInfo_t = c_struct rust_fields"
| "repr_c t = repr_field t"

definition info_vals :: "dist_target_info \<Rightarrow> string \<Rightarrow> string" where
  "info_vals i name =
     (if name = ''length'' then le_bytes 8 (unat (di_length i))
      else if name = ''sha256'' then di_sha256 i
      else if name = ''rollout_pct'' then le_bytes 4 (unat (di_rollout_pct i))
      else if name = ''mandatory'' then le_bytes 1 (unat (di_mandatory i))
      else di_version i)"

definition store_info :: "(nat \<Rightarrow> char) \<Rightarrow> dist_target_info \<Rightarrow> string" where
  "store_info pad i = struct_bytes pad (info_vals i) rust_fields"

definition load_info :: "fields \<Rightarrow> string \<Rightarrow> dist_target_info" where
  "load_info fs mem =
     \<lparr>di_length = of_nat (le_nat (read_field fs mem ''length'')),
      di_sha256 = read_field fs mem ''sha256'',
      di_rollout_pct = of_nat (le_nat (read_field fs mem ''rollout_pct'')),
      di_mandatory = of_nat (le_nat (read_field fs mem ''mandatory'')),
      di_version = read_field fs mem ''version''\<rparr>"

text \<open>\<open>as_bytes\<close>: the buffer, never empty, and the length that is passed with it.\<close>

definition as_bytes :: "string \<Rightarrow> string \<times> nat" where
  "as_bytes data = (data @ replicate (max (length data) 1 - length data) (CHR 0x00), length data)"

text \<open>\<open>bytes(ptr, len)\<close> on the Rust side; a null pointer is refused.\<close>

definition rust_bytes :: "string option \<Rightarrow> nat \<Rightarrow> string option" where
  "rust_bytes ptr len = map_option (take len) ptr"

section \<open>Finding the library\<close>

record process_env =
  pe_platform :: string
  pe_dist_core_lib :: "string option"
  pe_meipass :: "string option"
  pe_package_dir :: string
  pe_program_dir :: string

definition library_name :: "string \<Rightarrow> string" where
  "library_name platform =
     (if platform = ''win32'' then ''dist_core_ffi.dll''
      else if platform = ''darwin'' then ''libdist_core_ffi.dylib''
      else ''libdist_core_ffi.so'')"

definition in_dir :: "string \<Rightarrow> string \<Rightarrow> string" where
  "in_dir d n = d @ ''/'' @ n"

definition given :: "string option \<Rightarrow> string list" where
  "given p = (case p of None \<Rightarrow> [] | Some s \<Rightarrow> if s = [] then [] else [s])"

definition candidates :: "process_env \<Rightarrow> string list" where
  "candidates P = (let name = library_name (pe_platform P) in
     given (pe_dist_core_lib P)
     @ map (\<lambda>frozen. in_dir frozen name) (given (pe_meipass P))
     @ [in_dir (pe_package_dir P) name, in_dir (pe_program_dir P) name])"

text \<open>\<open>CDLL\<close> is \<open>ctypes.CDLL\<close> with \<open>_bind\<close>, and may raise.\<close>

fun load_first :: "(string \<Rightarrow> bool) \<Rightarrow> (string \<Rightarrow> 'l res) \<Rightarrow> string list \<Rightarrow> 'l res" where
  "load_first is_file CDLL [] = Inl (OSError ''not found'')"
| "load_first is_file CDLL (c # cs) = (if is_file c then CDLL c else load_first is_file CDLL cs)"

definition load_library :: "process_env \<Rightarrow> (string \<Rightarrow> bool) \<Rightarrow> (string \<Rightarrow> 'l res) \<Rightarrow> 'l res" where
  "load_library P is_file CDLL = load_first is_file CDLL (candidates P)"

text \<open>\<open>_lib()\<close>, over the module's global.\<close>

definition the_lib :: "'l res \<Rightarrow> ('l option, 'l) sem" where
  "the_lib load = (\<lambda>LIB. case LIB of
     Some l \<Rightarrow> (Inr l, LIB)
   | None \<Rightarrow> (case load of Inl e \<Rightarrow> (Inl e, None) | Inr l \<Rightarrow> (Inr l, Some l)))"

definition core_version :: "string option \<Rightarrow> string res" where
  "core_version raw = (case raw of
     None \<Rightarrow> Inr []
   | Some bs \<Rightarrow> if c_string bs = [] then Inr []
       else (case utf8_decode (c_string bs) of None \<Rightarrow> Inl UnicodeDecodeError | Some s \<Rightarrow> Inr s))"

section \<open>Signatures\<close>

text \<open>\<open>_bind\<close>: argument types and result type of every function; no result type is void.\<close>

type_synonym signature = "c_type list \<times> c_type option"

definition u8p :: c_type where "u8p = c_pointer c_uint8"

definition bind_signatures :: "(string \<times> signature) list" where
  "bind_signatures =
     [(''dist_verifier_new'', [u8p, c_size_t, c_pointer c_int], Some c_void_p),
      (''dist_verifier_new_at'', [u8p, c_size_t, c_uint64, c_pointer c_int], Some c_void_p),
      (''dist_verifier_free'', [c_void_p], None)]
     @ map (\<lambda>name. (name, [c_void_p, u8p, c_size_t], Some c_int))
       [''dist_verifier_update_timestamp'', ''dist_verifier_update_snapshot'', ''dist_verifier_update_targets'']
     @ [(''dist_verifier_update_delegated_targets'', [c_void_p, c_char_p, u8p, c_size_t], Some c_int),
      (''dist_verifier_target'', [c_void_p, c_char_p, c_pointer (c_struct DistTargetInfo)], Some c_int),
      (''dist_verifier_snapshot_version'', [c_void_p, c_pointer c_uint32], Some c_int),
      (''dist_verifier_targets_version'', [c_void_p, c_char_p, c_pointer c_uint32], Some c_int),
      (''dist_verify_payload'', [c_pointer (c_struct DistTargetInfo), u8p, c_size_t], Some c_int),
      (''dist_in_rollout'', [c_char_p, c_char_p, c_uint32, c_pointer c_uint8], Some c_int),
      (''dist_core_version'', [], Some c_char_p)]"

text \<open>The exported functions of the native library.\<close>

definition rust_exports :: "(string \<times> rust_type list \<times> rust_type option) list" where
  "rust_exports =
     [(''dist_verifier_new'', [rust_ptr u8, usize, rust_ptr DistStatus_t], Some (rust_ptr DistVerifier_t)),
      (''dist_verifier_new_at'', [rust_ptr u8, usize, u64, rust_ptr DistStatus_t], Some (rust_ptr DistVerifier_t)),
      (''dist_verifier_free'', [rust_ptr DistVerifier_t], None),
      (''dist_verifier_update_timestamp'', [rust_ptr DistVerifier_t, rust_ptr u8, usize], Some DistStatus_t),
      (''dist_verifier_update_snapshot'', [rust_ptr DistVerifier_t, rust_ptr u8, usize], Some DistStatus_t),
      (''dist_verifier_update_targets'', [rust_ptr DistVerifier_t, rust_ptr u8, usize], Some DistStatus_t),
      (''dist_verifier_update_delegated_targets'',
         [rust_ptr DistVerifier_t, rust_ptr CChar, rust_ptr u8, usize], Some DistStatus_t),
      (''dist_verifier_target'', [rust_ptr DistVerifier_t, rust_ptr CChar, rust_ptr DistTargetInfo_t], Some DistStatus_t),
      (''dist_verifier_snapshot_version'', [rust_ptr DistVerifier_t, rust_ptr u32], Some DistStatus_t),
      (''dist_verifier_targets_version'', [rust_ptr DistVerifier_t, rust_ptr CChar, rust_ptr u32], Some DistStatus_t),
      (''dist_verify_payload'', [rust_ptr DistTargetInfo_t, rust_ptr u8, usize], Some DistStatus_t),
      (''dist_in_rollout'', [rust_ptr CChar, rust_ptr CChar, u32, rust_ptr u8], Some DistStatus_t),
      (''dist_core_version'', [], Some (rust_ptr CChar))]"

text \<open>A declared type carries a Rust type when it is its C type, or an untyped pointer or a C string
  where that is.  The word a register holds arrives truncated to the declared width; without a
  declaration \<^verbatim>\<open>ctypes\<close> takes it for an \<open>int\<close> and extends its sign.\<close>

fun carries :: "c_type \<Rightarrow> rust_type \<Rightarrow> bool" where
  "carries c_void_p (rust_ptr t) \<longleftrightarrow> t = DistVerifier_t"
| "carries c_char_p (rust_ptr t) \<longleftrightarrow> t = CChar"
| "carries c t \<longleftrightarrow> c = repr_c t"

definition arrives :: "c_type option \<Rightarrow> 64 word \<Rightarrow> 64 word" where
  "arrives c w = (case c of
     None \<Rightarrow> scast (ucast w :: 32 word)
   | Some c \<Rightarrow> if c_size c = 1 then ucast (ucast w :: 8 word)
       else if c_size c = 4 then ucast (ucast w :: 32 word) else w)"

end
