(* ===== verification/Wheel.thy ===== *)
theory Wheel
  imports Ffi
begin

text \<open>
  The build of the client's wheel: \<^verbatim>\<open>scripts/build_python_wheel.py\<close> and
  \<^verbatim>\<open>bindings/python/hatch_build.py\<close>.  What \<^verbatim>\<open>cargo\<close> and \<^verbatim>\<open>uv\<close> do, and what the archive they
  leave contains, are arguments; a path below the repository's root is relative to it.
\<close>

record build_run =
  br_platform :: string
  br_cargo :: "unit res"
  br_is_file :: "string \<Rightarrow> bool"
  br_copy :: "unit res"
  br_uv :: "unit res"
  br_dist :: "string list"
  br_namelist :: "string \<Rightarrow> string list res"

definition LIBRARY_NAMES :: "(string \<times> string) list" where
  "LIBRARY_NAMES = [(''win32'', ''dist_core_ffi.dll''), (''darwin'', ''libdist_core_ffi.dylib'')]"

definition DEFAULT_LIBRARY :: string where "DEFAULT_LIBRARY = ''libdist_core_ffi.so''"

definition wheel_library_name :: "string \<Rightarrow> string" where
  "wheel_library_name platform = (case map_of LIBRARY_NAMES platform of None \<Rightarrow> DEFAULT_LIBRARY | Some n \<Rightarrow> n)"

definition build_library :: "build_run \<Rightarrow> string res" where
  "build_library R =
     bindr (br_cargo R) (\<lambda>_.
       let built = ''client/target/release/'' @ wheel_library_name (br_platform R) in
       if \<not> br_is_file R built then Inl (SystemExit ''cargo reported success but the library is missing'')
       else Inr built)"

text \<open>\<open>main\<close>: the library is copied beside \<^verbatim>\<open>_ffi.py\<close> before the archive is built; the names in
  \<^verbatim>\<open>dist/\<close> are read after that, and the last of them in the order of strings is looked into.
  \<^verbatim>\<open>glob("dist_client-*.whl")\<close>\<close>

definition is_wheel :: "string \<Rightarrow> bool" where
  "is_wheel n \<longleftrightarrow> prefix ''dist_client-'' n \<and> suffix ''.whl'' (drop (length ''dist_client-'') n)"

definition wheel_main :: "build_run \<Rightarrow> string res" where
  "wheel_main R =
     bindr (build_library R) (\<lambda>built.
     bindr (br_copy R) (\<lambda>_.
     bindr (br_uv R) (\<lambda>_.
       let wheels = sort (filter is_wheel (br_dist R)) in
       if wheels = [] then Inl (SystemExit ''no wheel was produced'')
       else bindr (br_namelist R (last wheels)) (\<lambda>names.
         if ''dist_client/'' @ wheel_library_name (br_platform R) \<notin> set names
         then Inl (SystemExit ''the wheel does not contain the verifier'')
         else Inr (last wheels)))))"

text \<open>\<open>platform_tag\<close>, of what \<open>sysconfig.get_platform()\<close> says, and the tag the hook sets.\<close>

definition platform_tag :: "string \<Rightarrow> string" where
  "platform_tag p = map (\<lambda>c. if c = CHR ''-'' \<or> c = CHR ''.'' then CHR ''_'' else c) p"

definition wheel_tag :: "string \<Rightarrow> string" where
  "wheel_tag p = ''py3-none-'' @ platform_tag p"

end
