(* ===== verification/FfiClaims.thy ===== *)
theory FfiClaims
  imports Wheel
begin

text \<open>
  What the binding's interface to the native library guarantees: a structure written on one side is
  read unchanged on the other, every argument arrives, and the library that is loaded is the one
  that was packaged.
\<close>

section \<open>Little-endian numbers\<close>

lemma length_le_bytes [simp]: "length (le_bytes n v) = n"
  by (induction n arbitrary: v) auto

lemma code_of_nat [simp]: "code (char_of v) = v mod 256" for v :: nat
  by (simp add: code_def)

lemma le_nat_le_bytes: "le_nat (le_bytes n v) = v mod 256 ^ n"
proof (induction n arbitrary: v)
  case (Suc n)
  show ?case using Suc [of "v div 256"] by (simp add: mod_mult2_eq)
qed simp

lemma le_word: "of_nat (le_nat (le_bytes n (unat w))) = w" if "LENGTH('a) \<le> 8 * n" for w :: "'a::len word"
proof -
  have "unat w < 2 ^ LENGTH('a)" by (rule unsigned_less)
  also have "\<dots> \<le> 256 ^ n" using that power_increasing [of "LENGTH('a)" "8 * n" "2 :: nat"] by (simp add: power_mult)
  finally show ?thesis by (simp add: le_nat_le_bytes)
qed

section \<open>Layout\<close>

lemma align_up_ge:
  assumes "0 < a"
  shows "n \<le> align_up n a"
proof -
  define q r where "q = (n + a - 1) div a * a" and "r = (n + a - 1) mod a"
  have "q + r = n + a - 1" by (simp add: q_def r_def)
  moreover have "r < a" using assms by (simp add: r_def)
  ultimately have "n \<le> q" by linarith
  then show ?thesis by (simp add: align_up_def q_def)
qed

lemma c_align_pos: "0 < c_align t"
  by (induction t) auto

lemma offsets_ge: "map_of (offsets pos fs) n = Some off \<Longrightarrow> pos \<le> off"
proof (induction pos fs rule: offsets.induct)
  case (2 pos name t fs)
  have "pos \<le> align_up pos (c_align t)" by (rule align_up_ge [OF c_align_pos])
  with 2 show ?case by (fastforce simp: Let_def split: if_splits)
qed simp

lemma fields_end_ge: "pos \<le> fields_end pos fs"
proof (induction pos fs rule: fields_end.induct)
  case (2 pos name t fs)
  have "pos \<le> align_up pos (c_align t)" by (rule align_up_ge [OF c_align_pos])
  with 2 show ?case by simp
qed simp

definition sized :: "(string \<Rightarrow> string) \<Rightarrow> fields \<Rightarrow> bool" where
  "sized vals fs \<longleftrightarrow> (\<forall>(n, t) \<in> set fs. length (vals n) = c_size t)"

lemma length_write_fields: "sized vals fs \<Longrightarrow> length (write_fields pad vals pos fs) = fields_end pos fs - pos"
proof (induction pos fs rule: fields_end.induct)
  case (2 pos name t fs)
  let ?off = "align_up pos (c_align t)"
  have "pos \<le> ?off" by (rule align_up_ge [OF c_align_pos])
  moreover have "?off + c_size t \<le> fields_end (?off + c_size t) fs" by (rule fields_end_ge)
  ultimately show ?case using 2 by (simp add: sized_def Let_def)
qed simp

text \<open>A field is found at its offset, whatever the padding holds.\<close>

lemma read_written:
  assumes "sized vals fs" "map_of (offsets pos fs) n = Some off" "map_of fs n = Some t"
  shows "take (c_size t) (drop (off - pos) (write_fields pad vals pos fs @ rest)) = vals n"
  using assms
proof (induction pos fs rule: offsets.induct)
  case (2 pos name u fs)
  let ?off = "align_up pos (c_align u)"
  have le: "pos \<le> ?off" by (rule align_up_ge [OF c_align_pos])
  have len: "length (vals name) = c_size u" using "2.prems"(1) by (simp add: sized_def)
  show ?case
  proof (cases "n = name")
    case True
    with "2.prems" le len show ?thesis by (simp add: Let_def)
  next
    case False
    with "2.prems" have o: "map_of (offsets (?off + c_size u) fs) n = Some off" "map_of fs n = Some t"
      by (simp_all add: Let_def)
    then have ge: "?off + c_size u \<le> off" by (simp add: offsets_ge)
    have "drop (off - pos) (map pad [pos..<?off] @ vals name @ W) = drop (off - (?off + c_size u)) W" for W
      using le len ge by (simp add: diff_diff_eq)
    moreover have "write_fields pad vals pos ((name, u) # fs) @ rest
        = map pad [pos..<?off] @ vals name @ (write_fields pad vals (?off + c_size u) fs @ rest)"
      by (simp add: Let_def)
    ultimately have "drop (off - pos) (write_fields pad vals pos ((name, u) # fs) @ rest)
        = drop (off - (?off + c_size u)) (write_fields pad vals (?off + c_size u) fs @ rest)" by metis
    moreover have "sized vals fs" using "2.prems"(1) by (simp add: sized_def)
    ultimately show ?thesis using "2.IH" [OF refl _ o] by metis
  qed
qed simp

lemma read_struct:
  assumes "sized vals fs" "map_of (offsets 0 fs) n = Some off" "map_of fs n = Some t"
  shows "take (c_size t) (drop off (struct_bytes pad vals fs)) = vals n"
  using read_written [OF assms] by (simp add: struct_bytes_def)

lemma layout_numbers:
  "offsets 0 rust_fields = EXPECTED_OFFSETS" "c_sizeof rust_fields = EXPECTED_SIZE" "fields_end 0 rust_fields = 109"
  "DistTargetInfo = rust_fields"
  by code_simp+

lemma check_offsets_ok:
  "check_offsets fs es = Inr () \<Longrightarrow> (n, off) \<in> set es \<Longrightarrow> map_of (offsets 0 fs) n = Some off"
  by (induction es) (auto split: option.splits if_splits)

lemma check_layout_ok: "check_layout fs = Inr () \<Longrightarrow> (n, off) \<in> set EXPECTED_OFFSETS \<Longrightarrow> map_of (offsets 0 fs) n = Some off"
  by (auto simp: check_layout_def dest: check_offsets_ok split: if_splits)

lemma info_sized:
  "length (di_sha256 i) = 32 \<Longrightarrow> length (di_version i) = DIST_VERSION_CAPACITY \<Longrightarrow> sized (info_vals i) rust_fields"
  by (simp add: sized_def rust_fields_def rust_DistTargetInfo_def info_vals_def DIST_VERSION_CAPACITY_def)

definition same_sizes :: "fields \<Rightarrow> fields \<Rightarrow> bool" where
  "same_sizes fs gs \<longleftrightarrow> (\<forall>(n, t) \<in> set gs. map_option c_size (map_of fs n) = Some (c_size t))"

lemma read_declared:
  assumes ok: "check_layout fs = Inr ()" "same_sizes fs rust_fields"
    and i: "length (di_sha256 i) = 32" "length (di_version i) = DIST_VERSION_CAPACITY"
    and n: "map_of rust_fields n = Some t" "(n, off) \<in> set EXPECTED_OFFSETS"
  shows "read_field fs (store_info pad i) n = info_vals i n"
proof -
  have "map_of (offsets 0 rust_fields) n = Some off"
    using n(2) by (auto simp: layout_numbers EXPECTED_OFFSETS_def)
  from read_struct [OF info_sized [OF i] this n(1), of pad]
  have "take (c_size t) (drop off (store_info pad i)) = info_vals i n" by (simp add: store_info_def)
  moreover obtain u where "map_of fs n = Some u" "c_size u = c_size t"
    using ok(2) map_of_SomeD [OF n(1)] by (auto simp: same_sizes_def)
  ultimately show ?thesis using check_layout_ok [OF ok(1) n(2)] by (simp add: read_field_def)
qed

lemma load_declared:
  assumes "check_layout fs = Inr ()" "same_sizes fs rust_fields"
    and "length (di_sha256 i) = 32" "length (di_version i) = DIST_VERSION_CAPACITY"
  shows "load_info fs (store_info pad i) = i"
proof -
  have r: "read_field fs (store_info pad i) ''length'' = info_vals i ''length''"
    "read_field fs (store_info pad i) ''sha256'' = info_vals i ''sha256''"
    "read_field fs (store_info pad i) ''rollout_pct'' = info_vals i ''rollout_pct''"
    "read_field fs (store_info pad i) ''mandatory'' = info_vals i ''mandatory''"
    "read_field fs (store_info pad i) ''version'' = info_vals i ''version''"
    by (rule read_declared [OF assms], (simp add: rust_fields_def rust_DistTargetInfo_def; fail), simp add: EXPECTED_OFFSETS_def; fail)+
  have "unat (di_mandatory i) < 256" using unsigned_less [of "di_mandatory i"] by simp
  then show ?thesis unfolding load_info_def r by (simp add: info_vals_def le_word)
qed

lemma length_store_info:
  assumes "length (di_sha256 i) = 32" "length (di_version i) = DIST_VERSION_CAPACITY"
  shows "length (store_info pad i) = EXPECTED_SIZE"
  using length_write_fields [OF info_sized [OF assms], of pad 0]
  by (simp add: store_info_def struct_bytes_def layout_numbers) (simp add: EXPECTED_SIZE_def)

lemma same_fields: "same_sizes DistTargetInfo rust_fields"
  by code_simp

lemma layout_accepted: "check_layout DistTargetInfo = Inr ()"
  by code_simp


definition ex_info :: dist_target_info where
  "ex_info = \<lparr>di_length = 300, di_sha256 = replicate 32 (CHR 0xAB), di_rollout_pct = 25, di_mandatory = 1,
     di_version = ''1.4.0'' @ replicate 59 (CHR 0x00)\<rparr>"


text \<open>Without the right sizes it does not: a version of 60 bytes leaves every offset and, by the padding,
  the size as they are, so the check accepts it and the last four bytes are lost.\<close>

definition short_version :: fields where
  "short_version =
     [(''length'', c_uint64), (''sha256'', c_array c_uint8 32), (''rollout_pct'', c_uint32),
      (''mandatory'', c_uint8), (''version'', c_array c_uint8 60)]"

theorem sizes_are_not_checked:
  "check_layout short_version = Inr () \<and> DistTargetInfo \<noteq> short_version
   \<and> di_version (load_info short_version (store_info (\<lambda>_. CHR ''?'') (ex_info\<lparr>di_version := replicate 63 (CHR ''1'') @ [CHR 0x00]\<rparr>)))
     = replicate 60 (CHR ''1'')"
proof (intro conjI)
  show "check_layout short_version = Inr ()" "DistTargetInfo \<noteq> short_version" by code_simp+
  let ?i = "ex_info\<lparr>di_version := replicate 63 (CHR ''1'') @ [CHR 0x00]\<rparr>"
  have i: "length (di_sha256 ?i) = 32" "length (di_version ?i) = DIST_VERSION_CAPACITY"
    by (simp_all add: ex_info_def DIST_VERSION_CAPACITY_def)
  have o: "map_of (offsets 0 rust_fields) ''version'' = Some 45" "map_of rust_fields ''version'' = Some (c_array c_uint8 64)"
    by code_simp+
  have full: "take 64 (drop 45 (store_info (\<lambda>_. CHR ''?'') ?i)) = di_version ?i"
    using read_struct [OF info_sized [OF i] o] by (simp add: store_info_def info_vals_def)
  have p: "map_of (offsets 0 short_version) ''version'' = Some 45" "map_of short_version ''version'' = Some (c_array c_uint8 60)"
    by code_simp+
  have "take 60 (drop 45 (store_info (\<lambda>_. CHR ''?'') ?i)) = take 60 (di_version ?i)"
    unfolding full [symmetric] by simp
  then show "di_version (load_info short_version (store_info (\<lambda>_. CHR ''?'') ?i)) = replicate 60 (CHR ''1'')"
    by (simp add: load_info_def read_field_def p)
qed

text \<open>A declaration that swaps two fields is refused.\<close>

lemma swapped_fields_refused:
  "check_layout [(''length'', c_uint64), (''sha256'', c_array c_uint8 32), (''mandatory'', c_uint8),
     (''rollout_pct'', c_uint32), (''version'', c_array c_uint8 VERSION_CAPACITY)] = Inl (RuntimeError ''wrong offset'')"
  by code_simp

section \<open>Arguments and results\<close>

lemma ucast_small:
  fixes w :: "64 word"
  shows "unat w < 256 \<Longrightarrow> ucast (ucast w :: 8 word) = w"
    and "unat w < 256 ^ 4 \<Longrightarrow> ucast (ucast w :: 32 word) = w"
  by (simp_all add: word_unat_eq_iff unsigned_ucast_eq unsigned_take_bit_eq take_bit_nat_eq_self_iff)

lemma arrives_small:
  assumes "unat w < 256 ^ c_size c"
  shows "arrives (Some c) w = w"
  using assms ucast_small [of w] by (auto simp: arrives_def)

definition agrees :: "signature \<Rightarrow> rust_type list \<times> rust_type option \<Rightarrow> bool" where
  "agrees d f \<longleftrightarrow> list_all2 carries (fst d) (fst f) \<and> rel_option carries (snd d) (snd f)"

lemma carried_size: "carries c r \<Longrightarrow> c_size c = c_size (repr_c r)"
  by (cases "(c, r)" rule: carries.cases) auto

lemma map_of_list_all2:
  "list_all2 (\<lambda>(n, d) (m, f). n = m \<and> R d f) ds fs \<Longrightarrow> map_of fs k = Some f \<Longrightarrow> \<exists>d. map_of ds k = Some d \<and> R d f"
  by (induction rule: list_all2_induct) (auto split: if_splits)

lemma all_agree: "list_all2 (\<lambda>(n, d) (m, f). n = m \<and> agrees d f) bind_signatures rust_exports"
  by code_simp

lemma declared:
  assumes "map_of rust_exports f = Some (args, result)"
  shows "\<exists>cs c. map_of bind_signatures f = Some (cs, c) \<and> list_all2 carries cs args \<and> rel_option carries c result"
  using map_of_list_all2 [OF all_agree assms] by (auto simp: agrees_def)

text \<open>Every function the native library exports is declared on the Python side under its name and
  with the argument and result types of its definition, and nothing else is declared; so a value that
  fits its Rust type arrives unchanged, pointers included.\<close>

theorem signatures_agree:
  shows "map fst bind_signatures = map fst rust_exports"
    and "map_of rust_exports f = Some (args, result)
      \<Longrightarrow> \<exists>cs c. map_of bind_signatures f = Some (cs, c) \<and> list_all2 carries cs args \<and> rel_option carries c result"
    and "\<lbrakk>map_of rust_exports f = Some (args, result); map_of bind_signatures f = Some (cs, c);
          i < length args; unat w < 256 ^ c_size (repr_c (args ! i))\<rbrakk> \<Longrightarrow> arrives (Some (cs ! i)) w = w"
    and "\<lbrakk>map_of rust_exports f = Some (args, Some r); map_of bind_signatures f = Some (cs, c);
          unat w < 256 ^ c_size (repr_c r)\<rbrakk> \<Longrightarrow> arrives c w = w"
proof -
  show "map fst bind_signatures = map fst rust_exports" by code_simp
  show "map_of rust_exports f = Some (args, result)
      \<Longrightarrow> \<exists>cs c. map_of bind_signatures f = Some (cs, c) \<and> list_all2 carries cs args \<and> rel_option carries c result"
    by (rule declared)
  show "arrives (Some (cs ! i)) w = w"
    if "map_of rust_exports f = Some (args, result)" "map_of bind_signatures f = Some (cs, c)"
      "i < length args" "unat w < 256 ^ c_size (repr_c (args ! i))"
    using that declared [of f args result]
    by (auto intro!: arrives_small simp: carried_size dest: list_all2_nthD2)
  show "arrives c w = w"
    if "map_of rust_exports f = Some (args, Some r)" "map_of bind_signatures f = Some (cs, c)"
      "unat w < 256 ^ c_size (repr_c r)"
    using that declared [of f args "Some r"]
    by (auto intro!: arrives_small simp: carried_size option_rel_Some2)
qed

theorem signatures_agree_witness:
  "map_of bind_signatures ''dist_verifier_new'' = Some ([u8p, c_size_t, c_pointer c_int], Some c_void_p)
     \<and> arrives (Some c_void_p) 0x00007F0000001000 = 0x00007F0000001000"
proof -
  have e: "map_of rust_exports ''dist_verifier_new''
      = Some ([rust_ptr u8, usize, rust_ptr DistStatus_t], Some (rust_ptr DistVerifier_t))"
    "map_of bind_signatures ''dist_verifier_new'' = Some ([u8p, c_size_t, c_pointer c_int], Some c_void_p)"
    by code_simp+
  show ?thesis using signatures_agree(4) [OF e, where w = "0x00007F0000001000"] e by simp
qed

text \<open>Without the declaration the same pointer would come back as another address.\<close>

lemma undeclared_pointer_is_truncated: "arrives None 0x00007F0080001000 = 0xFFFFFFFF80001000"
  by code_simp

text \<open>A buffer that is passed with its length holds the data, and is never the null pointer.\<close>

lemma buffer_arrives:
  "rust_bytes (Some (fst (as_bytes data))) (snd (as_bytes data)) = Some data" "fst (as_bytes data) \<noteq> []"
  by (auto simp: rust_bytes_def as_bytes_def)

section \<open>The library that is loaded\<close>

lemma library_names_agree: "wheel_library_name platform = library_name platform"
  by (simp add: wheel_library_name_def library_name_def LIBRARY_NAMES_def DEFAULT_LIBRARY_def)

lemma load_first_append:
  "(\<And>c. c \<in> set cs \<Longrightarrow> \<not> is_file c) \<Longrightarrow> is_file d \<Longrightarrow> load_first is_file CDLL (cs @ d # ds) = CDLL d"
  by (induction cs) auto

lemma load_library_tried: "load_library P is_file CDLL = Inr l \<Longrightarrow> \<exists>c \<in> set (candidates P). is_file c \<and> CDLL c = Inr l"
proof -
  have "load_first is_file CDLL cs = Inr l \<Longrightarrow> \<exists>c \<in> set cs. is_file c \<and> CDLL c = Inr l" for cs
    by (induction cs) (auto split: if_splits)
  then show "load_library P is_file CDLL = Inr l \<Longrightarrow> \<exists>c \<in> set (candidates P). is_file c \<and> CDLL c = Inr l"
    by (auto simp: load_library_def)
qed

text \<open>The override comes before the copy of a frozen application, whatever the frozen one holds.\<close>

lemma override_comes_first:
  "pe_dist_core_lib P = Some p \<Longrightarrow> p \<noteq> [] \<Longrightarrow> is_file p \<Longrightarrow> load_library P is_file CDLL = CDLL p"
  by (simp add: load_library_def candidates_def given_def Let_def)

lemma frozen_finds_its_own:
  "given (pe_dist_core_lib P) = [] \<Longrightarrow> pe_meipass P = Some d \<Longrightarrow> d \<noteq> []
    \<Longrightarrow> is_file (in_dir d (library_name (pe_platform P)))
    \<Longrightarrow> load_library P is_file CDLL = CDLL (in_dir d (library_name (pe_platform P)))"
  by (simp add: load_library_def candidates_def given_def Let_def)

lemma lib_is_loaded_once: "the_lib load LIB = (Inr l, LIB') \<Longrightarrow> the_lib load' LIB' = (Inr l, LIB')"
  by (auto simp: the_lib_def split: option.splits sum.splits)

text \<open>The build looks into the last wheel by the order of names, which need not be the one it built.\<close>

lemma last_wheel_is_not_the_newest:
  "last (sort (filter is_wheel [''dist_client-0.9.0-py3-none-linux.whl'', ''dist_client-0.10.0-py3-none-linux.whl'']))
     = ''dist_client-0.9.0-py3-none-linux.whl''"
  by code_simp

lemma wheel_main_ok:
  assumes "wheel_main R = Inr w"
  shows "\<exists>names. br_namelist R w = Inr names \<and> ''dist_client/'' @ wheel_library_name (br_platform R) \<in> set names"
    and "w \<in> set (br_dist R)" and "is_wheel w"
proof -
  let ?ws = "sort (filter is_wheel (br_dist R))"
  from assms have r: "?ws \<noteq> []" "last ?ws = w"
    "\<exists>names. br_namelist R w = Inr names \<and> ''dist_client/'' @ wheel_library_name (br_platform R) \<in> set names"
    by (auto simp: wheel_main_def bindr_def Let_def split: sum.splits if_splits)
  then show "\<exists>names. br_namelist R w = Inr names \<and> ''dist_client/'' @ wheel_library_name (br_platform R) \<in> set names"
    by blast
  have "w \<in> set ?ws" using r last_in_set by metis
  then show "w \<in> set (br_dist R)" "is_wheel w" by auto
qed

text \<open>A wheel that the build passes loads its own verifier where it is installed: once the files of
  the archive are under \<open>site\<close>, on the platform it was built for, with no override and not frozen, the
  library that is loaded is the one packaged in the wheel.\<close>

theorem built_wheel_loads:
  assumes "wheel_main R = Inr w" "br_namelist R w = Inr names"
    and "\<And>n. n \<in> set names \<Longrightarrow> is_file (in_dir site n)"
    and "pe_platform P = br_platform R" "pe_package_dir P = in_dir site ''dist_client''"
    and "given (pe_dist_core_lib P) = []" "given (pe_meipass P) = []"
  shows "w \<in> set (br_dist R) \<and> is_wheel w"
    and "load_library P is_file CDLL = CDLL (in_dir site (''dist_client/'' @ library_name (br_platform R)))"
proof -
  show "w \<in> set (br_dist R) \<and> is_wheel w" using wheel_main_ok [OF assms(1)] by blast
  let ?lib = "''dist_client/'' @ library_name (br_platform R)"
  have "?lib \<in> set names" using wheel_main_ok(1) [OF assms(1)] assms(2) by (simp add: library_names_agree)
  then have "is_file (in_dir site ?lib)" by (rule assms(3))
  then show "load_library P is_file CDLL = CDLL (in_dir site ?lib)"
    using assms(4-7) by (simp add: load_library_def candidates_def Let_def in_dir_def)
qed

definition ex_build :: build_run where
  "ex_build = \<lparr>br_platform = ''linux'', br_cargo = Inr (),
     br_is_file = (\<lambda>p. p = ''client/target/release/libdist_core_ffi.so''), br_copy = Inr (), br_uv = Inr (),
     br_dist = [''dist_client-0.1.0-py3-none-linux_x86_64.whl''],
     br_namelist = (\<lambda>_. Inr [''dist_client/__init__.py'', ''dist_client/libdist_core_ffi.so''])\<rparr>"

definition ex_env :: process_env where
  "ex_env = \<lparr>pe_platform = ''linux'', pe_dist_core_lib = None, pe_meipass = None,
     pe_package_dir = ''/site/dist_client'', pe_program_dir = ''/app''\<rparr>"

theorem built_wheel_loads_witness:
  "load_library ex_env (\<lambda>p. prefix ''/site/dist_client/'' p) (\<lambda>p. Inr p) = Inr ''/site/dist_client/libdist_core_ffi.so''"
proof -
  have "wheel_main ex_build = Inr ''dist_client-0.1.0-py3-none-linux_x86_64.whl''" by code_simp
  note loads = built_wheel_loads(2) [OF this, where site = "''/site''" and P = ex_env
      and is_file = "\<lambda>p. prefix ''/site/dist_client/'' p" and CDLL = "\<lambda>p. Inr p"]
  have "prefix ''/site/dist_client/'' (in_dir ''/site'' n)"
    if "n \<in> set [''dist_client/__init__.py'', ''dist_client/libdist_core_ffi.so'']" for n
    using that by (auto simp: in_dir_def)
  with loads show ?thesis by (simp add: ex_build_def ex_env_def in_dir_def given_def library_name_def)
qed

end
