(* ===== verification/Confine.thy ===== *)
theory Confine
  imports Reopen
begin

text \<open>
  An application is confined to its own paths, whatever its role signs: the delegation that
  \<open>add_app\<close> of \<^verbatim>\<open>repository.py\<close> writes covers the paths that begin with its id, and a client that
  follows delegations takes nothing else from it.  The adversary here has every online key: it
  writes what it likes into the metadata of every role but \<open>root\<close> and \<open>targets\<close>.
\<close>

section \<open>How a client follows delegations\<close>

text \<open>The TUF specification's search: the \<open>targets\<close> role first, then its delegations in order, each
  for the paths its patterns match.  In a pattern \<^verbatim>\<open>*\<close> stands for a segment; the patterns written
  here have no other wildcard.\<close>

definition path_matches :: "string \<Rightarrow> string \<Rightarrow> bool" where
  "path_matches pat p \<longleftrightarrow>
     list_all2 (\<lambda>a b. a = ''*'' \<or> a = b) (split_on (CHR ''/'') pat) (split_on (CHR ''/'') p)"

fun search :: "(string \<Rightarrow> string \<Rightarrow> target_file option) \<Rightarrow> delegated_role list \<Rightarrow> string \<Rightarrow> target_file option" where
  "search look [] p = None"
| "search look (dr # drs) p =
     (if \<not> list_ex (\<lambda>pat. path_matches pat p) (dr_paths dr) then search look drs p
      else case look (dr_name dr) p of
          Some tf \<Rightarrow> Some tf
        | None \<Rightarrow> if dr_terminating dr then None else search look drs p)"

definition resolve :: "(string \<Rightarrow> string \<Rightarrow> target_file option) \<Rightarrow> targets_body \<Rightarrow> string \<Rightarrow> target_file option" where
  "resolve look tb p =
     (case tb_targets tb p of Some tf \<Rightarrow> Some tf | None \<Rightarrow> search look (map snd (role_entries tb)) p)"

lemma search_Some: "search look drs p = Some tf \<Longrightarrow>
    \<exists>dr \<in> set drs. look (dr_name dr) p = Some tf \<and> (\<exists>pat \<in> set (dr_paths dr). path_matches pat p)"
  by (induction drs) (auto split: if_splits option.splits simp: list_ex_iff)

section \<open>What the targets metadata delegates\<close>

definition own_paths :: "string \<times> delegated_role \<Rightarrow> bool" where
  "own_paths e \<longleftrightarrow> (\<exists>a. app_role_name a = Inr (fst e) \<and> dr_name (snd e) = fst e
     \<and> dr_paths (snd e) = [app_path_pattern a] \<and> \<not> dr_terminating (snd e))"

definition confined_body :: "signed \<Rightarrow> bool" where
  "confined_body sd \<longleftrightarrow> (\<exists>tb. sd = STargets tb \<and> tb_targets tb = Map.empty
     \<and> (\<forall>e \<in> set (role_entries tb). own_paths e))"

definition confined :: "repo \<Rightarrow> bool" where
  "confined s \<longleftrightarrow> (\<forall>v md. disk s (meta_name TARGETS v) = Some (Meta md) \<longrightarrow> confined_body (md_signed md))"

lemma confined_initial: "confined_body (initial TARGETS)"
  by (simp add: confined_body_def initial_def role_name_defs role_entries_def)

lemma confined_open: "confined s \<Longrightarrow> fst (open_role TARGETS s) = Inr md \<Longrightarrow> confined_body (md_signed md)"
  by (auto simp: open_role_def Let_def confined_def confined_initial split: if_splits option.splits repo_file.splits)

lemma set_update: "e \<in> set (AList.update k x es) \<Longrightarrow> e = (k, x) \<or> e \<in> set es"
  by (induction es) (auto split: if_splits)

lemma confined_delegation:
  assumes "confined_body sd" "app_role_name a = Inr role" "add_delegation B role policy ks a sd = Inr sd'"
  shows "confined_body sd'"
proof -
  obtain tb where tb: "sd = STargets tb" "tb_targets tb = Map.empty" "\<forall>e \<in> set (role_entries tb). own_paths e"
    using assms(1) by (auto simp: confined_body_def)
  from assms(3) have "add_delegation B role policy ks a (STargets tb) = Inr sd'" by (simp add: tb)
  then show ?thesis
  proof (rule add_delegation_Inr)
    let ?new = "\<lparr>dr_name = role, dr_keyids = ks, dr_threshold = rp_threshold policy,
       dr_terminating = False, dr_paths = [app_path_pattern a]\<rparr>"
    fix m
    assume sd': "sd' = STargets (tb\<lparr>tb_delegations := Some \<lparr>dl_keys = m, dl_roles = Some (AList.update role ?new (role_entries tb))\<rparr>\<rparr>)"
    define tb' where "tb' = tb\<lparr>tb_delegations := Some \<lparr>dl_keys = m, dl_roles = Some (AList.update role ?new (role_entries tb))\<rparr>\<rparr>"
    have e: "role_entries tb' = AList.update role ?new (role_entries tb)" "tb_targets tb' = Map.empty"
      using tb(2) by (simp_all add: tb'_def role_entries_def)
    have "own_paths (role, ?new)" using assms(2) by (auto simp: own_paths_def)
    then have "\<forall>e \<in> set (role_entries tb'). own_paths e" unfolding e using tb(3) set_update by metis
    with e(2) show "confined_body sd'" by (auto simp: sd' confined_body_def simp flip: tb'_def)
  qed
qed

lemma confined_closed:
  "confined s \<Longrightarrow> role \<noteq> TARGETS \<or> confined_body (md_signed m) \<Longrightarrow> confined (closed role m s)"
  unfolding confined_def
  by (metis disk_closed disk_closed_other meta_name_not_fixed option.inject repo_file.inject(1) role_names_distinct)

lemma confined_close [keeps_intro]: "role \<noteq> TARGETS \<Longrightarrow> keeps confined (close_role B now role md)"
  unfolding keeps_def using close_role_snd [of B now role md] confined_closed by metis

lemma confined_edit [keeps_intro]: "role \<noteq> TARGETS \<Longrightarrow> keeps confined (edit B now role body)"
  unfolding edit_def by (intro keeps_intro)

lemma confined_targets:
  assumes "confined s" "\<And>sd sd'. confined_body sd \<Longrightarrow> body sd = Inr sd' \<Longrightarrow> confined_body sd'"
  shows "confined (snd (edit B now TARGETS body s))"
  using edit_snd [of B now TARGETS body s]
proof (elim disjE exE conjE)
  fix md sd m
  assume o: "fst (open_role TARGETS s) = Inr md" "body (md_signed md) = Inr sd" "md_signed m = sd"
    and e: "edit B now TARGETS body s = (Inr (), closed TARGETS m s)"
  have "confined_body (md_signed m)" using assms(2) [OF confined_open [OF assms(1) o(1)] o(2)] o(3) by simp
  with assms(1) show ?thesis unfolding e by (simp add: confined_closed)
qed (simp add: assms(1))

lemma confined_same_targets [keeps_intro]: "keeps confined (edit B now TARGETS Inr)"
  by (auto simp: keeps_def intro!: confined_targets)

lemma confined_publish [keeps_intro]: "keeps confined (publish lib B now)"
  unfolding publish_def do_snapshot_def do_timestamp_def
  by (intro keeps_intro; split option.split; intro conjI impI allI keeps_intro; simp)

lemma confined_payload [keeps_intro]: "keeps confined (store_payload p tf c)"
  by (auto simp: keeps_def confined_def store_payload_state meta_name_def)

lemma confined_fields [keeps_intro]:
  "keeps confined (modifyS (\<lambda>s. s\<lparr>r_policies := f s\<rparr>))" "keeps confined (modifyS (\<lambda>s. s\<lparr>r_app_roles := g s\<rparr>))"
  by (simp_all add: keeps_def modifyS_def confined_def)

lemma keeps_liftS_bind: "(\<And>x. r = Inr x \<Longrightarrow> keeps P (f x)) \<Longrightarrow> keeps P (bindS (liftS r) f)"
  by (cases r) (auto simp: keeps_def bindS_def liftS_def)

lemma keeps_require: "(\<And>role. app_role_name a = Inr role \<Longrightarrow> keeps P (f role)) \<Longrightarrow> keeps P (bindS (require_delegated a) f)"
  by (cases "app_role_name a") (auto simp: keeps_def bindS_def require_delegated_def liftS_def refuseS_def returnS_def raiseS_def)

lemma app_role_not_targets: "app_role_name a = Inr role \<Longrightarrow> role \<noteq> TARGETS"
  using app_role_name_not_top by (fastforce simp: TOP_LEVEL_ROLES_def)

lemma confined_initialize [keeps_intro]: "keeps confined (initialize lib B now)"
  unfolding initialize_def by (intro keeps_intro) simp

lemma policy_role_name: "app_role_policy a c = Inr policy \<Longrightarrow> app_role_name a = Inr (rp_name policy)"
  by (auto simp: app_role_policy_Inr_iff app_role_name_Inr_iff)

lemma confined_add_app [keeps_intro]: "keeps confined (add_app lib B now a c)"
  unfolding add_app_def Let_def
proof (rule keeps_liftS_bind)
  fix policy assume "app_role_policy a c = Inr policy"
  then have name: "app_role_name a = Inr (rp_name policy)" by (rule policy_role_name)
  have T: "keeps confined (edit B now TARGETS (add_delegation B (rp_name policy) policy (be_keyids B (rp_name policy)) a))"
    unfolding keeps_def using confined_targets confined_delegation [OF _ name] by blast
  have ne: "rp_name policy \<noteq> TARGETS" using name by (rule app_role_not_targets)
  show "keeps confined (bindS (modifyS (\<lambda>s. s\<lparr>r_policies := (r_policies s)(rp_name policy \<mapsto> policy)\<rparr>)) (\<lambda>_.
       bindS (refuseS (be_keyids B (rp_name policy) = []) (PublicationError ''no signing key available for delegated role'')) (\<lambda>_.
       bindS (edit B now TARGETS (add_delegation B (rp_name policy) policy (be_keyids B (rp_name policy)) a)) (\<lambda>_.
       bindS (modifyS (\<lambda>s. s\<lparr>r_app_roles := insert (rp_name policy) (r_app_roles s)\<rparr>)) (\<lambda>_.
       bindS (edit B now (rp_name policy) Inr) (\<lambda>_.
       bindS (publish lib B now) (\<lambda>_.
       returnS (rp_name policy))))))))"
    by (rule T ne | rule keeps_intro)+
qed

lemma confined_put_and_publish [keeps_intro]:
  "role \<noteq> TARGETS \<Longrightarrow> keeps confined (put_and_publish lib B now role p tf c)"
  unfolding put_and_publish_def by (intro keeps_intro)

lemma confined_add_release: "confined s \<Longrightarrow> confined (snd (add_release lib B sha now key payload info s))"
proof -
  have "keeps confined (bindS (require_delegated (tk_app_id key)) (\<lambda>role.
        put_and_publish lib B now role (path key) (target_from_file sha payload (to_custom info)) payload))"
    by (rule keeps_require) (simp add: confined_put_and_publish app_role_not_targets)
  then show "confined s \<Longrightarrow> ?thesis" by (simp add: add_release_eq keepsD)
qed

lemma confined_set_current [keeps_intro]: "keeps confined (set_current lib B sha now key)"
  unfolding set_current_eq
  by (intro keeps_require keeps_intro; (split signed.split; intro conjI impI allI keeps_intro)?)
    (simp_all add: app_role_not_targets)

lemma confined_step: "confined s \<Longrightarrow> confined (repo_step lib sha B now op s)"
  by (cases op) (auto intro: confined_add_release keepsD confined_initialize confined_add_app
      confined_set_current confined_publish)

section \<open>Everything an adversary with the online keys can make of a repository\<close>

inductive exposed :: "tuf_lib \<Rightarrow> (string \<Rightarrow> string) \<Rightarrow> repo \<Rightarrow> bool" for lib sha where
  fresh: "exposed lib sha fresh_repo"
| call: "exposed lib sha s \<Longrightarrow> exposed lib sha (repo_step lib sha B now op s)"
| forge_role: "exposed lib sha s \<Longrightarrow> role \<notin> {ROOT, TARGETS} \<Longrightarrow> exposed lib sha (snd (edit B now role body s))"
| forge_publish: "exposed lib sha s \<Longrightarrow> exposed lib sha (snd (publish lib B now s))"
| forge_payload: "exposed lib sha s \<Longrightarrow> exposed lib sha (snd (store_payload p tf c s))"

lemma reachable_exposed: "repo_reachable lib sha s \<Longrightarrow> exposed lib sha s"
  by (induction rule: repo_reachable.induct) (auto intro: exposed.intros)

lemma exposed_confined: "exposed lib sha s \<Longrightarrow> confined s"
proof (induction rule: exposed.induct)
  case fresh
  show ?case by (simp add: confined_def fresh_repo_def)
qed (auto intro: confined_step keepsD [OF confined_edit] keepsD [OF confined_publish] keepsD [OF confined_payload])

lemma exposed_put_and_publish:
  assumes "exposed lib sha s" "role \<notin> {ROOT, TARGETS}"
  shows "exposed lib sha (snd (put_and_publish lib B now role p tf c s))"
proof -
  let ?s1 = "snd (store_payload p tf c s)" and ?e = "edit B now role (put_target p tf)"
  have 1: "exposed lib sha ?s1" using assms(1) by (rule exposed.forge_payload)
  then have 2: "exposed lib sha (snd (?e ?s1))" using assms(2) by (rule exposed.forge_role)
  have "exposed lib sha (snd (publish lib B now (snd (?e ?s1))))"
    using 2 by (rule exposed.forge_publish)
  then have "exposed lib sha (snd (bindS ?e (\<lambda>_. bindS (publish lib B now) (\<lambda>_. returnS p)) ?s1))"
    using 2 by (auto simp: bindS_def returnS_def split: prod.split sum.split)
  then show ?thesis by (simp add: put_and_publish_def store_payload_def modifyS_def bindS_def)
qed

section \<open>What a client finds\<close>

text \<open>The metadata of a role that a client walking from the timestamp arrives at.\<close>

definition current_body :: "(string \<rightharpoonup> repo_file) \<Rightarrow> string \<Rightarrow> targets_body option" where
  "current_body d role =
     (case d ''metadata/timestamp.json'' of Some (Meta ts) \<Rightarrow> (case md_signed ts of STimestamp n \<Rightarrow>
       (case d (meta_name SNAPSHOT n) of Some (Meta sn) \<Rightarrow> (case md_signed sn of SSnapshot meta \<Rightarrow>
         (case meta (role @ ''.json'') of Some v \<Rightarrow>
           (case d (meta_name role v) of Some (Meta md) \<Rightarrow> (case md_signed md of STargets tb \<Rightarrow> Some tb
             | _ \<Rightarrow> None) | _ \<Rightarrow> None)
         | None \<Rightarrow> None) | _ \<Rightarrow> None) | _ \<Rightarrow> None) | _ \<Rightarrow> None) | _ \<Rightarrow> None)"

lemma client_lookup_body: "client_lookup d role p = Option.bind (current_body d role) (\<lambda>tb. tb_targets tb p)"
  by (simp add: client_lookup_def current_body_def split: option.split repo_file.split signed.split)

definition tuf_resolve :: "(string \<rightharpoonup> repo_file) \<Rightarrow> string \<Rightarrow> target_file option" where
  "tuf_resolve d p = Option.bind (current_body d TARGETS) (\<lambda>tb. resolve (client_lookup d) tb p)"

lemma current_body_doc: "current_body d role = Some tb \<Longrightarrow> \<exists>v md. d (meta_name role v) = Some (Meta md) \<and> md_signed md = STargets tb"
  by (auto simp: current_body_def split: option.splits repo_file.splits signed.splits)

text \<open>The application a path belongs to, and whether the metadata delegates it.\<close>

definition owner_role :: "string \<Rightarrow> string" where
  "owner_role p = APP_ROLE_PREFIX @ hd (split_on (CHR ''/'') p)"

definition delegates :: "targets_body \<Rightarrow> string \<Rightarrow> bool" where
  "delegates tb p \<longleftrightarrow> length (split_on (CHR ''/'') p) = TARGET_PATH_SEGMENTS
     \<and> owner_role p \<in> fst ` set (role_entries tb)"

lemma pattern_matches:
  assumes "APP_ID_PATTERN a"
  shows "path_matches (app_path_pattern a) p \<longleftrightarrow>
    length (split_on (CHR ''/'') p) = TARGET_PATH_SEGMENTS \<and> hd (split_on (CHR ''/'') p) = a"
proof -
  have s: "split_on (CHR ''/'') (app_path_pattern a) = a # replicate 4 ''*''"
    unfolding app_path_pattern_def TARGET_PATH_SEGMENTS_def
    using APP_ID_PATTERN_no_slash [OF assms] by (subst split_on_join) auto
  have "a \<noteq> ''*''" using assms by (auto dest!: APP_ID_PATTERN_chars simp: char_class_defs app_id_char_def)
  then show ?thesis unfolding path_matches_def s TARGET_PATH_SEGMENTS_def
    by (cases "split_on (CHR ''/'') p") (auto simp: list_all2_conv_all_nth nth_Cons' eval_nat_numeral)
qed

lemma own_matches:
  assumes "own_paths e"
  shows "list_ex (\<lambda>pat. path_matches pat p) (dr_paths (snd e)) \<longleftrightarrow>
    length (split_on (CHR ''/'') p) = TARGET_PATH_SEGMENTS \<and> fst e = owner_role p"
    and "dr_name (snd e) = fst e"
  using assms by (auto simp: own_paths_def app_role_name_Inr_iff pattern_matches owner_role_def)

lemma search_own:
  "\<forall>e \<in> set es. own_paths e \<Longrightarrow> search look (map snd es) p =
     (if length (split_on (CHR ''/'') p) = TARGET_PATH_SEGMENTS \<and> owner_role p \<in> fst ` set es then look (owner_role p) p else None)"
proof (induction es)
  case (Cons e es)
  have t: "\<not> dr_terminating (snd e)" using Cons.prems by (auto simp: own_paths_def)
  show ?case using Cons own_matches(1) [of e p] own_matches(2) [of e] t by (auto split: option.split)
qed simp

lemma confined_resolves:
  assumes "exposed lib sha s" "current_body (disk s) TARGETS = Some tb"
  shows "tb_targets tb = Map.empty" "\<forall>e \<in> set (role_entries tb). own_paths e"
    and "resolve look tb p = (if delegates tb p then look (owner_role p) p else None)"
proof -
  obtain v md where md: "disk s (meta_name TARGETS v) = Some (Meta md)" "md_signed md = STargets tb"
    using current_body_doc [OF assms(2)] by blast
  then have "confined_body (STargets tb)" using exposed_confined [OF assms(1)] by (metis confined_def)
  then show tb: "tb_targets tb = Map.empty" "\<forall>e \<in> set (role_entries tb). own_paths e"
    by (simp_all add: confined_body_def)
  show "resolve look tb p = (if delegates tb p then look (owner_role p) p else None)"
    using tb(1) search_own [OF tb(2)] by (simp add: resolve_def delegates_def)
qed

lemma owner_role_path:
  "wf_target_key k \<Longrightarrow> app_role_name (tk_app_id k) = Inr role \<Longrightarrow> owner_role (path k) = role"
  by (simp add: owner_role_def path_segments_def app_role_name_Inr_iff)


section \<open>An example\<close>

lemma current_body_open:
  assumes inv: "repo_inv sha s" and cur: "snapshot_current s" "timestamp_current s"
    and role: "role \<in> insert TARGETS (r_app_roles s)" "version_of s role \<noteq> 0"
    and op: "fst (open_role role s) = Inr md" "md_signed md = STargets tb"
  shows "current_body (disk s) role = Some tb"
proof -
  obtain ts where ts: "disk s ''metadata/timestamp.json'' = Some (Meta ts)"
    "md_signed ts = STimestamp (version_of s SNAPSHOT)" using cur(2) by (auto simp: timestamp_current_def)
  obtain sn meta where sn: "disk s (meta_name SNAPSHOT (version_of s SNAPSHOT)) = Some (Meta sn)"
    "md_signed sn = SSnapshot meta" "targets_infos s \<subseteq>\<^sub>m meta" using cur(1) by (auto simp: snapshot_current_def)
  have "finite (r_app_roles s)" using inv by (simp add: repo_inv_def apps_ok_def)
  then have "targets_infos s (role @ ''.json'') = Some (version_of s role)" using role by (auto simp: targets_infos_iff)
  with sn(3) have "meta (role @ ''.json'') = Some (version_of s role)" by (auto simp: map_le_def dom_def)
  moreover have "disk s (meta_name role (version_of s role)) = Some (Meta md)"
    using op(1) role(2) by (auto simp: open_role_def Let_def split: option.splits repo_file.splits)
  ultimately show ?thesis using ts sn op(2) by (simp add: current_body_def)
qed

text \<open>In a repository that its own operations made, what is delegated are its applications.\<close>

lemma current_delegations:
  assumes "repo_inv sha s" "remembered s" "snapshot_current s" "timestamp_current s" "version_of s TARGETS \<noteq> 0"
  obtains tb where "current_body (disk s) TARGETS = Some tb" "fst ` set (role_entries tb) = r_app_roles s"
proof -
  obtain md tb where t: "fst (open_role TARGETS s) = Inr md" "md_signed md = STargets tb"
    "fst ` set (role_entries tb) = r_app_roles s" using assms(2) by (auto simp: remembered_def delegated_now_def)
  with current_body_open [OF assms(1,3,4) _ assms(5) t(1,2)] that show ?thesis by blast
qed

definition ex_forged_key :: target_key where
  "ex_forged_key = ref_key\<lparr>tk_app_id := ''viewer''\<rparr>"

definition ex_forged :: repo where
  "ex_forged = snd (put_and_publish ref_lib ref_keys 0 ''app-demo'' (path ex_forged_key)
     (target_from_file ref_sha ''forged'' []) ''forged'' ref_released)"

lemma ref_released_role: "''app-demo'' \<in> r_app_roles ref_released" "can_sign ref_keys ref_released ''app-demo''"
  "can_sign ref_keys ref_released SNAPSHOT" "can_sign ref_keys ref_released TIMESTAMP"
  "r_app_roles ref_released = {''app-demo''}"
proof -
  have run: "put_and_publish ref_lib ref_keys 0 ''app-demo'' (path ref_key)
      (target_from_file ref_sha ''payload'' (to_custom ref_info)) ''payload'' ref_delegated = (Inr (path ref_key), ref_released)"
    using ref_released_ok ref_role ref_delegated_ok(2)
    by (auto simp: add_release_eq require_delegated_Inr ref_key_def elim!: bindS_InrE split: if_splits)
  obtain md tb where op: "open_role ''app-demo'' ref_delegated = (Inr md, ref_delegated)" "md_signed md = STargets tb"
    by (rule open_app_role [OF ref_inv(2) ref_delegated_ok(2)])
  note f = put_and_publish_found [OF ref_inv(2) ref_lib_contract(1) ref_delegated_ok(2) _ run op]
  then have same: "r_policies ref_released = r_policies ref_delegated" "r_app_roles ref_released = r_app_roles ref_delegated"
    by (simp_all add: target_from_file_def)
  show "r_app_roles ref_released = {''app-demo''}" "''app-demo'' \<in> r_app_roles ref_released"
    using same(2) by (simp_all add: ref_app_roles)
  show "can_sign ref_keys ref_released ''app-demo''"
  "can_sign ref_keys ref_released SNAPSHOT" "can_sign ref_keys ref_released TIMESTAMP"
    using ref_delegated_ok(3) can_sign_cong [OF same(1)] by simp_all
qed

lemma ex_forged_state:
  "exposed ref_lib ref_sha ex_forged"
  "client_lookup (disk ex_forged) ''app-demo'' (path ex_forged_key) = Some (target_from_file ref_sha ''forged'' [])"
  "\<exists>tb. current_body (disk ex_forged) TARGETS = Some tb \<and> fst ` set (role_entries tb) = {''app-demo''}"
proof -
  let ?tf = "target_from_file ref_sha ''forged'' []"
  have h: "tf_sha256 ?tf = hexdigest ref_sha ''forged''" by (simp add: target_from_file_def)
  have top: "''app-demo'' \<notin> {ROOT, TARGETS}" by (simp add: role_name_defs)
  show "exposed ref_lib ref_sha ex_forged"
    unfolding ex_forged_def by (rule exposed_put_and_publish [OF reachable_exposed [OF ref_reachable(3)] top])
  obtain s' where run: "put_and_publish ref_lib ref_keys 0 ''app-demo'' (path ex_forged_key) ?tf ''forged'' ref_released
      = (Inr (path ex_forged_key), s')"
    using put_and_publish_answers [OF ref_inv(3) ref_lib_contract ref_released_role(1) h ref_released_role(2-4)] by blast
  then have s': "s' = ex_forged" by (simp add: ex_forged_def)
  obtain md tb where op: "open_role ''app-demo'' ref_released = (Inr md, ref_released)" "md_signed md = STargets tb"
    by (rule open_app_role [OF ref_inv(3) ref_released_role(1)])
  note f = put_and_publish_found [OF ref_inv(3) ref_lib_contract(1) ref_released_role(1) h run op, unfolded s']
  then show "client_lookup (disk ex_forged) ''app-demo'' (path ex_forged_key) = Some ?tf" by blast
  have inv: "repo_inv ref_sha ex_forged"
    unfolding ex_forged_def by (rule put_and_publish_inv [OF ref_inv(3) ref_lib_contract(1) ref_released_role(1) h])
  have "''app-demo'' \<noteq> TARGETS" by (simp add: role_name_defs)
  then have rem: "remembered ex_forged" unfolding ex_forged_def
    by (rule remembered_put [OF reachable_remembered [OF ref_reachable(3) ref_lib_contract(1)] ref_released_role(1)])
  have apps: "r_app_roles ex_forged = {''app-demo''}" using f ref_released_role(5) by simp
  then have "version_of ex_forged TARGETS \<noteq> 0" using inv by (auto simp: repo_inv_def apps_ok_def)
  then show "\<exists>tb. current_body (disk ex_forged) TARGETS = Some tb \<and> fst ` set (role_entries tb) = {''app-demo''}"
    using current_delegations [OF inv rem] f apps by metis
qed


end
