(* ===== verification/Fixtures.thy ===== *)
theory Fixtures
  imports Confine
begin

text \<open>
  The fixtures of the native verifier's interoperability test, \<^verbatim>\<open>scripts/gen_rust_fixtures.py\<close>: a
  repository made with in-memory keys, a release, a target of another application signed by the same
  role, the channel pointer, and the metadata in force copied out under flat names.

  The private keys that are drawn are the sequence \<open>pem\<close>, \<open>derive\<close> their keyids; \<open>clock\<close> is what the
  clock reads at each operation; it stands still between the forged edit and its publication.  Of \<^verbatim>\<open>meta.json\<close> the model has the dictionary, not its text.
\<close>

definition APP_ID :: string where "APP_ID = ''editor''"
definition VERSION :: string where "VERSION = ''1.4.2''"
definition ROLLOUT_PCT :: int where "ROLLOUT_PCT = 25"
definition PAYLOAD :: string where "PAYLOAD = ''editor release payload for the rust interop test''"

record fixtures =
  fx_files :: "(string \<times> repo_file) list"
  fx_meta :: dict

section \<open>The newest metadata of a role\<close>

definition newer :: "nat \<times> string \<Rightarrow> nat \<times> string \<Rightarrow> nat \<times> string" where
  "newer a b = (if fst a < fst b \<or> fst a = fst b \<and> snd a < snd b then b else a)"

definition versions_in :: "string list \<Rightarrow> string \<Rightarrow> (nat \<times> string) list" where
  "versions_in names role =
     List.map_filter (\<lambda>n. case versioned n of
       Some (v, r) \<Rightarrow> if r = role then Some (v, n) else None | None \<Rightarrow> None) names"

definition latest :: "string list \<Rightarrow> string \<Rightarrow> string res" where
  "latest names role =
     (case versions_in names role of
        [] \<Rightarrow> Inl (ValueError ''max() arg is an empty sequence'')
      | x # xs \<Rightarrow> Inr (snd (foldl newer x xs)))"

text \<open>\<open>int(name.split(".", 1)[0])\<close>, of a name that \<open>latest\<close> found.\<close>

definition published_version :: "string \<Rightarrow> nat" where
  "published_version name = undec (takeWhile (\<lambda>c. c \<noteq> CHR ''.'') name)"

section \<open>The run\<close>

fun generate_all :: "(string \<Rightarrow> string res) \<Rightarrow> (nat \<Rightarrow> string) \<Rightarrow> nat \<Rightarrow> string list \<Rightarrow> keys \<Rightarrow> keys res" where
  "generate_all derive pem i [] ks = Inr ks"
| "generate_all derive pem i (role # roles) ks =
     bindr (generate derive (pem i) role ks) (\<lambda>(_, ks'). generate_all derive pem (Suc i) roles ks')"

definition key_roles :: "string list" where
  "key_roles = concat (map (\<lambda>role. replicate
     (case map_of TOP_LEVEL_POLICIES role of None \<Rightarrow> 0 | Some p \<Rightarrow> nat (rp_threshold p)) role)
     [ROOT, TARGETS, SNAPSHOT, TIMESTAMP])"

definition metadata_names :: "repo \<Rightarrow> string list" where
  "metadata_names s = map (drop (length ''metadata/'')) (filter (prefix ''metadata/'') (remdups (map fst (r_disk s))))"

definition copied :: "repo \<Rightarrow> string \<Rightarrow> repo_file res" where
  "copied s name = (case disk s (''metadata/'' @ name) of
     None \<Rightarrow> Inl (OSError ''no such file'') | Some f \<Rightarrow> Inr f)"

text \<open>Everything behind \<open>repo.set_current\<close>: the copies and the description.\<close>

definition write_fixtures :: "int \<Rightarrow> string \<Rightarrow> target_key \<Rightarrow> string \<Rightarrow> (repo, fixtures) sem" where
  "write_fixtures generated_at role_name key forged_path =
     bindS (\<lambda>s. (copied s ''root.json'', s)) (\<lambda>root.
     bindS (\<lambda>s. (copied s ''timestamp.json'', s)) (\<lambda>timestamp.
     bindS (\<lambda>s. (latest (metadata_names s) SNAPSHOT, s)) (\<lambda>sn.
     bindS (\<lambda>s. (latest (metadata_names s) TARGETS, s)) (\<lambda>tg.
     bindS (\<lambda>s. (latest (metadata_names s) role_name, s)) (\<lambda>ap.
     bindS (\<lambda>s. (copied s sn, s)) (\<lambda>snapshot.
     bindS (\<lambda>s. (copied s tg, s)) (\<lambda>targets.
     bindS (\<lambda>s. (copied s ap, s)) (\<lambda>app.
     bindS (liftS (ChannelKey APP_ID (tk_channel key) (tk_platform key) (tk_arch key))) (\<lambda>channel.
     returnS
       \<lparr>fx_files =
          [(''root.json'', root), (''timestamp.json'', timestamp), (SNAPSHOT @ ''.json'', snapshot),
           (TARGETS @ ''.json'', targets), (role_name @ ''.json'', app), (''payload.bin'', Payload PAYLOAD)],
        fx_meta =
          [(''generated_at'', JInt generated_at), (''delegated_role'', JStr role_name),
           (''target_path'', JStr (path key)), (''forged_target_path'', JStr forged_path),
           (''version'', JStr VERSION), (''rollout_pct'', JInt ROLLOUT_PCT),
           (''payload_length'', JInt (int (length PAYLOAD))), (''pointer_path'', JStr (pointer_path channel)),
           (''published_versions'', JObj
              [(SNAPSHOT, JInt (int (published_version sn))), (TARGETS, JInt (int (published_version tg))),
               (role_name, JInt (int (published_version ap)))])]\<rparr>)))))))))"

definition fixture_repo ::
  "tuf_lib \<Rightarrow> backend \<Rightarrow> (string \<Rightarrow> string) \<Rightarrow> (nat \<Rightarrow> int) \<Rightarrow> string \<Rightarrow> (repo, fixtures) sem" where
  "fixture_repo lib B sha clock role_name =
     bindS (initialize lib B (clock 1)) (\<lambda>_.
     bindS (add_app lib B (clock 2) APP_ID False) (\<lambda>_.
     bindS (liftS (TargetKey APP_ID ''stable'' ''windows'' ''amd64'' VERSION (''Editor-'' @ VERSION @ ''.zip''))) (\<lambda>key.
     bindS (liftS (ReleaseInfo VERSION JNull JNull JNull False ROLLOUT_PCT)) (\<lambda>info.
     bindS (add_release lib B sha (clock 3) key PAYLOAD info) (\<lambda>_.
     bindS (liftS (TargetKey ''viewer'' ''stable'' ''windows'' ''amd64'' ''9.9.9'' ''Viewer-9.9.9.zip'')) (\<lambda>forged.
     let forged_payload = ''forged viewer release''; entry = target_from_file sha forged_payload [] in
     bindS (store_payload (path forged) entry forged_payload) (\<lambda>_.
     bindS (edit B (clock 4) role_name (put_target (path forged) entry)) (\<lambda>_.
     bindS (publish lib B (clock 4)) (\<lambda>_.
     bindS (set_current lib B sha (clock 5) key) (\<lambda>_.
     write_fixtures (clock 0) role_name key (path forged)))))))))))"

definition gen_rust_fixtures ::
  "tuf_lib \<Rightarrow> (string \<Rightarrow> string) \<Rightarrow> (string \<Rightarrow> string res) \<Rightarrow> (nat \<Rightarrow> string) \<Rightarrow> string option \<Rightarrow> (nat \<Rightarrow> int) \<Rightarrow> fixtures res" where
  "gen_rust_fixtures lib sha derive pem ENV clock =
     bindr (new_memory ENV) (\<lambda>ks.
     bindr (generate_all derive pem 0 key_roles ks) (\<lambda>ks1.
     bindr (app_role_name APP_ID) (\<lambda>role_name.
     bindr (generate derive (pem (length key_roles)) role_name ks1) (\<lambda>(_, ks2).
     fst (fixture_repo lib (memory_backend ks2) sha clock role_name fresh_repo)))))"

end
