(* ===== verification/FixturesClaims.thy ===== *)
theory FixturesClaims
  imports Fixtures
begin

text \<open>
  What the generated fixtures are: the metadata in force of one repository, consistent among
  themselves and with the description, in which the release and its channel pointer are found and
  the forged target, signed all the same, is not.
\<close>

section \<open>The newest metadata file\<close>

lemma foldl_newer:
  "\<exists>y \<in> insert x (set xs). foldl newer x xs = y \<and> (\<forall>z \<in> insert x (set xs). fst z \<le> fst y)"
proof (induction xs arbitrary: x)
  case (Cons a xs)
  have n: "newer x a \<in> {x, a}" "fst x \<le> fst (newer x a)" "fst a \<le> fst (newer x a)" by (auto simp: newer_def)
  obtain y where y: "y \<in> insert (newer x a) (set xs)" "foldl newer (newer x a) xs = y"
    "\<forall>z \<in> insert (newer x a) (set xs). fst z \<le> fst y" using Cons.IH [of "newer x a"] by blast
  have "fst x \<le> fst y" "fst a \<le> fst y" using y(3) n(2,3) by (auto intro: le_trans)
  with y n(1) show ?case by auto
qed simp

lemma latest_greatest:
  assumes "(v, n) \<in> set (versions_in names role)"
    and "\<And>w m. (w, m) \<in> set (versions_in names role) \<Longrightarrow> w \<le> v \<and> (w = v \<longrightarrow> m = n)"
  shows "latest names role = Inr n"
proof (cases "versions_in names role")
  case (Cons x xs)
  obtain y where y: "y \<in> insert x (set xs)" "foldl newer x xs = y" "\<forall>z \<in> insert x (set xs). fst z \<le> fst y"
    using foldl_newer [of x xs] by blast
  have "v \<le> fst y" using y(3) assms(1) Cons by fastforce
  moreover have "(fst y, snd y) \<in> set (versions_in names role)" using y(1) Cons by simp
  ultimately have "snd y = n" using assms(2) [of "fst y" "snd y"] by simp
  with Cons y(2) show ?thesis by (simp add: latest_def)
qed (use assms(1) in simp)

lemma versions_in_iff: "(v, n) \<in> set (versions_in names role) \<longleftrightarrow> n \<in> set names \<and> versioned n = Some (v, role)"
  unfolding versions_in_def by (induction names) (auto simp: map_filter_simps split: option.splits if_splits)

lemma in_metadata_names: "n \<in> set (metadata_names s) \<longleftrightarrow> ''metadata/'' @ n \<in> dom (disk s)"
  unfolding metadata_names_def dom_map_of_conv_image_fst
  by (auto simp: image_iff prefix_def) (force simp: prefix_def)+

lemma published_filename:
  assumes "role \<noteq> TIMESTAMP"
  shows "published_version (filename role v) = v"
proof -
  have nd: "c \<noteq> CHR ''.''" if "c \<in> set (dec v)" for c using dec_is_dec [OF that] is_dec_not_sep by auto
  then have "takeWhile (\<lambda>c. c \<noteq> CHR ''.'') (dec v @ CHR ''.'' # role @ ''.json'') = dec v"
    by (simp add: takeWhile_append2)
  with assms show ?thesis by (simp add: published_version_def filename_def)
qed

lemma latest_current:
  assumes inv: "repo_inv sha s" "names_ok s" "remembered s" "\<forall>role \<in> r_app_roles s. readable role"
    and role: "readable role" "role \<noteq> TIMESTAMP" "version_of s role \<noteq> 0"
  shows "latest (metadata_names s) role = Inr (filename role (version_of s role))"
proof (rule latest_greatest)
  let ?v = "version_of s role"
  have "disk s (meta_name role ?v) \<noteq> None"
    using inv(1) role(3) by (auto simp: repo_inv_def versions_ok_def version_of_def split: option.splits)
  then have "filename role ?v \<in> set (metadata_names s)" by (auto simp: in_metadata_names meta_name_def)
  then show "(?v, filename role ?v) \<in> set (versions_in (metadata_names s) role)"
    using role by (simp add: versions_in_iff versioned_filename readable_def)
  fix w m assume "(w, m) \<in> set (versions_in (metadata_names s) role)"
  then have m: "''metadata/'' @ m \<in> dom (disk s)" "versioned m = Some (w, role)"
    by (simp_all add: versions_in_iff in_metadata_names)
  have "known s m" by (rule directory_known [OF inv m(1)])
  then obtain r u where "m = filename r u" "r \<noteq> TIMESTAMP" "readable r" "u \<le> version_of s r"
    using m(2) by (auto simp: known_def)
  with m(2) show "w \<le> ?v \<and> (w = ?v \<longrightarrow> m = filename role ?v)"
    by (simp add: versioned_filename readable_def)
qed

section \<open>The repository behind the fixtures\<close>

text \<open>What an operation on a repository keeps, as the operations above find and leave it.\<close>

definition in_order :: "tuf_lib \<Rightarrow> (string \<Rightarrow> string) \<Rightarrow> repo \<Rightarrow> bool" where
  "in_order lib sha s \<longleftrightarrow> repo_inv sha s \<and> names_ok s \<and> remembered s \<and> exposed lib sha s"

lemma reachable_in_order: "tuf_contract lib \<Longrightarrow> repo_reachable lib sha s \<Longrightarrow> in_order lib sha s"
  by (simp add: in_order_def reachable_inv reachable_names_ok reachable_remembered reachable_exposed)

lemma in_order_put:
  assumes "tuf_contract lib" "in_order lib sha s" "role \<in> r_app_roles s"
    and "put_and_publish lib B now role p (target_from_file sha c cu) c s = (Inr q, s')"
  shows "in_order lib sha s'"
proof -
  have top: "role \<noteq> TARGETS" "role \<noteq> ROOT" using apps_not_top [OF _ assms(3)] assms(2) by (auto simp: in_order_def)
  have s': "s' = snd (put_and_publish lib B now role p (target_from_file sha c cu) c s)" using assms(4) by simp
  have "frozen s s" using assms(2) by (simp add: in_order_def frozen_def)
  then have "frozen s s'" unfolding s' by (rule keepsD [OF frozen_put_and_publish])
  moreover have "repo_inv sha s'" unfolding s'
    using assms(1-3) by (intro put_and_publish_inv) (simp_all add: in_order_def target_from_file_def)
  moreover have "remembered s'" unfolding s'
    using assms(2,3) top by (intro remembered_put) (simp_all add: in_order_def)
  moreover have "exposed lib sha s'" unfolding s'
    using assms(2) top by (intro exposed_put_and_publish) (simp_all add: in_order_def)
  ultimately show ?thesis by (simp add: in_order_def frozen_def)
qed

definition editor_role :: string where "editor_role = ''app-editor''"

definition release_key :: target_key where
  "release_key = \<lparr>tk_app_id = ''editor'', tk_channel = ''stable'', tk_platform = ''windows'', tk_arch = ''amd64'',
     tk_version = ''1.4.2'', tk_filename = ''Editor-1.4.2.zip''\<rparr>"

definition forged_key :: target_key where
  "forged_key = \<lparr>tk_app_id = ''viewer'', tk_channel = ''stable'', tk_platform = ''windows'', tk_arch = ''amd64'',
     tk_version = ''9.9.9'', tk_filename = ''Viewer-9.9.9.zip''\<rparr>"

definition editor_channel :: channel_key where
  "editor_channel = \<lparr>ck_app_id = ''editor'', ck_channel = ''stable'', ck_platform = ''windows'', ck_arch = ''amd64''\<rparr>"

definition release_info_25 :: release_info where
  "release_info_25 = \<lparr>ri_version = ''1.4.2'', ri_notes_url = JNull, ri_min_os = JNull, ri_min_from_version = JNull,
     ri_mandatory = False, ri_rollout_pct = 25\<rparr>"

lemma fixture_names:
  "app_role_name APP_ID = Inr editor_role"
  "TargetKey APP_ID ''stable'' ''windows'' ''amd64'' VERSION (''Editor-'' @ VERSION @ ''.zip'') = Inr release_key"
  "TargetKey ''viewer'' ''stable'' ''windows'' ''amd64'' ''9.9.9'' ''Viewer-9.9.9.zip'' = Inr forged_key"
  "ReleaseInfo VERSION JNull JNull JNull False ROLLOUT_PCT = Inr release_info_25"
  "ChannelKey APP_ID (tk_channel release_key) (tk_platform release_key) (tk_arch release_key) = Inr editor_channel"
  "app_role_policy APP_ID False = Inr
     \<lparr>rp_name = editor_role, rp_keystore = ONLINE, rp_threshold = 1, rp_expiry = APP_ROLE_EXPIRY, rp_key_count = 1\<rparr>"
  by code_simp+

lemma fixture_paths:
  "owner_role (path release_key) = editor_role" "owner_role (path forged_key) = ''app-viewer''"
  "owner_role (pointer_path editor_channel) = editor_role"
  "length (split_on (CHR ''/'') (path release_key)) = TARGET_PATH_SEGMENTS"
  "length (split_on (CHR ''/'') (pointer_path editor_channel)) = TARGET_PATH_SEGMENTS"
  "path release_key \<noteq> path forged_key" "pointer_path editor_channel \<noteq> path forged_key"
  "pointer_path editor_channel \<noteq> path release_key" "editor_role \<noteq> ''app-viewer''"
  by code_simp+

lemma write_fixtures_run:
  assumes "write_fixtures g role_name key forged s = (Inr F, s')"
  obtains root ts sn tg ap snapshot targets app channel where "s' = s"
    "copied s ''root.json'' = Inr root" "copied s ''timestamp.json'' = Inr ts"
    "latest (metadata_names s) SNAPSHOT = Inr sn" "latest (metadata_names s) TARGETS = Inr tg"
    "latest (metadata_names s) role_name = Inr ap"
    "copied s sn = Inr snapshot" "copied s tg = Inr targets" "copied s ap = Inr app"
    "ChannelKey APP_ID (tk_channel key) (tk_platform key) (tk_arch key) = Inr channel"
    "fx_files F = [(''root.json'', root), (''timestamp.json'', ts), (SNAPSHOT @ ''.json'', snapshot),
           (TARGETS @ ''.json'', targets), (role_name @ ''.json'', app), (''payload.bin'', Payload PAYLOAD)]"
    "fx_meta F = [(''generated_at'', JInt g), (''delegated_role'', JStr role_name),
           (''target_path'', JStr (path key)), (''forged_target_path'', JStr forged),
           (''version'', JStr VERSION), (''rollout_pct'', JInt ROLLOUT_PCT),
           (''payload_length'', JInt (int (length PAYLOAD))), (''pointer_path'', JStr (pointer_path channel)),
           (''published_versions'', JObj
              [(SNAPSHOT, JInt (int (published_version sn))), (TARGETS, JInt (int (published_version tg))),
               (role_name, JInt (int (published_version ap)))])]"
  using assms unfolding write_fixtures_def
  by (elim bindS_InrE) (auto simp: liftS_def returnS_def intro: that)

lemma fixture_repo_run:
  assumes "fixture_repo lib B sha clock editor_role s = (Inr F, s')"
  obtains s1 s2 s3 s4 r p q where
    "initialize lib B (clock 1) s = (Inr (), s1)" "add_app lib B (clock 2) APP_ID False s1 = (Inr r, s2)"
    "add_release lib B sha (clock 3) release_key PAYLOAD release_info_25 s2 = (Inr p, s3)"
    "put_and_publish lib B (clock 4) editor_role (path forged_key) (target_from_file sha ''forged viewer release'' [])
       ''forged viewer release'' s3 = (Inr (path forged_key), s4)"
    "set_current lib B sha (clock 5) release_key s4 = (Inr q, s')"
    "write_fixtures (clock 0) editor_role release_key (path forged_key) s' = (Inr F, s')"
proof -
  have lift: "liftS (Inr x) t = (Inr x, t)" for x :: 'x and t :: repo by (simp add: liftS_def)
  from assms obtain s1 s2 s3 s4 s5 r p q where a:
    "initialize lib B (clock 1) s = (Inr (), s1)" "add_app lib B (clock 2) APP_ID False s1 = (Inr r, s2)"
    "add_release lib B sha (clock 3) release_key PAYLOAD release_info_25 s2 = (Inr p, s3)"
    "bindS (store_payload (path forged_key) (target_from_file sha ''forged viewer release'' []) ''forged viewer release'') (\<lambda>_.
     bindS (edit B (clock 4) editor_role (put_target (path forged_key) (target_from_file sha ''forged viewer release'' []))) (\<lambda>_.
     publish lib B (clock 4))) s3 = (Inr (), s4)"
    "set_current lib B sha (clock 5) release_key s4 = (Inr q, s5)"
    "write_fixtures (clock 0) editor_role release_key (path forged_key) s5 = (Inr F, s')"
    unfolding fixture_repo_def Let_def fixture_names
    by (elim bindS_InrE) (auto simp: lift bindS_eq_Inr_iff)
  moreover have "s5 = s'" using a(6) by (rule write_fixtures_run) simp
  moreover have "put_and_publish lib B (clock 4) editor_role (path forged_key) (target_from_file sha ''forged viewer release'' [])
       ''forged viewer release'' s3 = (Inr (path forged_key), s4)"
    using a(4) by (auto simp: put_and_publish_def bindS_eq_Inr_iff returnS_def)
  ultimately show ?thesis using that by blast
qed

lemma numbered_version:
  assumes "names_ok s" "disk s (meta_name role v) = Some (Meta md)" "role \<noteq> TIMESTAMP"
  shows "md_version md = v" "1 \<le> v" "v \<le> version_of s role"
proof -
  have "meta_name role v \<notin> mutable_names"
    using meta_name_not_fixed [OF assms(3)] by (auto simp: mutable_names_def)
  then have "numbered s (meta_name role v) md" using assms(1,2) by (auto simp: names_ok_def)
  then show "md_version md = v" "1 \<le> v" "v \<le> version_of s role"
    using assms(3) by (auto simp: numbered_def meta_name_inj)
qed

lemma listed_version:
  assumes "names_ok s" "client_lookup (disk s) role p = Some tf" "role \<noteq> TIMESTAMP"
  shows "version_of s role \<noteq> 0"
proof -
  obtain tb where "current_body (disk s) role = Some tb"
    using assms(2) by (auto simp: client_lookup_body bind_eq_Some_conv)
  then obtain v md where "disk s (meta_name role v) = Some (Meta md)" using current_body_doc by blast
  from numbered_version [OF assms(1) this assms(3)] show ?thesis by simp
qed

lemma add_app_roles:
  assumes "add_app lib B now APP_ID False s = (Inr r, s')"
  shows "r_app_roles s' = insert editor_role (r_app_roles s)"
  using assms
proof (rule add_app_InrE)
  fix policy and s1 s2 :: repo
  assume pol: "app_role_policy APP_ID False = Inr policy" "r = rp_name policy"
    and e1: "edit B now TARGETS (add_delegation B r policy (be_keyids B r) APP_ID)
       (s\<lparr>r_policies := (r_policies s)(r \<mapsto> policy)\<rparr>) = (Inr (), s1)"
    and e2: "edit B now r Inr (s1\<lparr>r_app_roles := insert r (r_app_roles s1)\<rparr>) = (Inr (), s2)"
    and pub: "publish lib B now s2 = (Inr (), s')"
  have "r = editor_role" using pol(2) trans [OF sym [OF pol(1)] fixture_names(6)] by simp
  then show ?thesis using app_roles_publish [of lib B now s2] pub e1 e2 by (auto dest!: edit_app_roles)
qed

lemma put_in_order:
  assumes lib: "tuf_contract lib" and ord: "in_order lib sha s" and role: "role \<in> r_app_roles s"
    and put: "put_and_publish lib B now role p (target_from_file sha c cu) c s = (Inr q, s')"
    and op: "fst (open_role role s) = Inr md" "md_signed md = STargets tb"
  shows "in_order lib sha s'" "r_app_roles s' = r_app_roles s" "snapshot_current s' \<and> timestamp_current s'"
    "\<exists>m. fst (open_role role s') = Inr m
       \<and> md_signed m = STargets (tb\<lparr>tb_targets := (tb_targets tb)(p \<mapsto> target_from_file sha c cu)\<rparr>)"
    "version_of s' role \<noteq> 0"
proof -
  show o: "in_order lib sha s'" by (rule in_order_put [OF lib ord role put])
  have inv: "repo_inv sha s" using ord by (simp add: in_order_def)
  have op': "open_role role s = (Inr md, s)" using op(1) open_role_total [OF inv, of role] by auto
  note f = put_and_publish_found [OF inv lib role _ put op' op(2)]
  show "r_app_roles s' = r_app_roles s" "snapshot_current s' \<and> timestamp_current s'"
    "\<exists>m. fst (open_role role s') = Inr m
       \<and> md_signed m = STargets (tb\<lparr>tb_targets := (tb_targets tb)(p \<mapsto> target_from_file sha c cu)\<rparr>)"
    using f by (auto simp: target_from_file_def)
  have "client_lookup (disk s') role p = Some (target_from_file sha c cu)" using f by (simp add: target_from_file_def)
  then show "version_of s' role \<noteq> 0"
    using o apps_not_top [OF inv role] by (intro listed_version) (auto simp: in_order_def)
qed

lemma add_release_put:
  assumes "add_release lib B sha now key payload info s = (Inr p, s')"
  shows "\<exists>role. app_role_name (tk_app_id key) = Inr role
    \<and> put_and_publish lib B now role (path key) (target_from_file sha payload (to_custom info)) payload s = (Inr p, s')"
  using assms by (auto simp: add_release_eq require_delegated_Inr elim!: bindS_InrE split: if_splits)

text \<open>What the run leaves behind: the editor's role lists the release, the forgery and the pointer.\<close>

lemma fixture_state:
  assumes lib: "tuf_contract lib" and run: "fixture_repo lib B sha clock editor_role fresh_repo = (Inr F, s')"
  obtains m ab where "in_order lib sha s'" "snapshot_current s'" "timestamp_current s'" "r_app_roles s' = {editor_role}"
    "version_of s' editor_role \<noteq> 0" "fst (open_role editor_role s') = Inr m" "md_signed m = STargets ab"
    "tb_targets ab (path release_key) = Some (target_from_file sha PAYLOAD (to_custom release_info_25))"
    "tb_targets ab (path forged_key) \<noteq> None" "tb_targets ab (pointer_path editor_channel) \<noteq> None"
    "write_fixtures (clock 0) editor_role release_key (path forged_key) s' = (Inr F, s')"
  using run
proof (rule fixture_repo_run)
  fix s1 s2 s3 s4 r p q
  assume 1: "initialize lib B (clock 1) fresh_repo = (Inr (), s1)" and 2: "add_app lib B (clock 2) APP_ID False s1 = (Inr r, s2)"
    and 3: "add_release lib B sha (clock 3) release_key PAYLOAD release_info_25 s2 = (Inr p, s3)"
    and 4: "put_and_publish lib B (clock 4) editor_role (path forged_key) (target_from_file sha ''forged viewer release'' [])
       ''forged viewer release'' s3 = (Inr (path forged_key), s4)"
    and 5: "set_current lib B sha (clock 5) release_key s4 = (Inr q, s')"
    and 6: "write_fixtures (clock 0) editor_role release_key (path forged_key) s' = (Inr F, s')"
  have "repo_reachable lib sha s1"
    using repo_reachable.call [OF repo_reachable.start, of lib sha B "clock 1" Initialize] 1 by simp
  from repo_reachable.call [OF this, of B "clock 2" "AddApp APP_ID False"] 2 have "repo_reachable lib sha s2" by simp
  then have o2: "in_order lib sha s2" by (rule reachable_in_order [OF lib])
  have "r_app_roles s1 = {}" using app_roles_initialize [of lib B "clock 1" fresh_repo] 1 by (simp add: fresh_repo_def)
  then have a2: "r_app_roles s2 = {editor_role}" using add_app_roles [OF 2] by simp
  have name: "app_role_name (tk_app_id release_key) = Inr editor_role" by code_simp
  have put3: "put_and_publish lib B (clock 3) editor_role (path release_key)
      (target_from_file sha PAYLOAD (to_custom release_info_25)) PAYLOAD s2 = (Inr p, s3)"
    using add_release_put [OF 3] name by simp
  obtain m2 t2 where op2: "open_role editor_role s2 = (Inr m2, s2)" "md_signed m2 = STargets t2"
    using o2 a2 by (auto simp: in_order_def elim: open_app_role)
  note s3 = put_in_order [OF lib o2 _ put3 _ op2(2)]
  then have o3: "in_order lib sha s3" "r_app_roles s3 = {editor_role}" using a2 op2(1) by simp_all
  obtain m3 t3 where op3: "fst (open_role editor_role s3) = Inr m3" "md_signed m3 = STargets t3"
    "tb_targets t3 = (tb_targets t2)(path release_key \<mapsto> target_from_file sha PAYLOAD (to_custom release_info_25))"
    using s3(4) a2 op2(1) by auto
  note s4 = put_in_order [OF lib o3(1) _ 4 op3(1,2)]
  then have o4: "in_order lib sha s4" "r_app_roles s4 = {editor_role}" using o3(2) by simp_all
  obtain m4 t4 where op4: "fst (open_role editor_role s4) = Inr m4" "md_signed m4 = STargets t4"
    "tb_targets t4 = (tb_targets t3)(path forged_key \<mapsto> target_from_file sha ''forged viewer release'' [])"
    using s4(4) o3(2) by auto
  from 5 obtain pointer info where put5: "put_and_publish lib B (clock 5) editor_role (pointer_path editor_channel)
       (target_from_file sha (to_json pointer) (to_custom info)) (to_json pointer) s4 = (Inr q, s')"
    using name fixture_names(5) by (elim set_current_InrE) (auto simp: release_key_def APP_ID_def)
  note s5 = put_in_order [OF lib o4(1) _ put5 op4(1,2)]
  obtain m5 t5 where op5: "fst (open_role editor_role s') = Inr m5" "md_signed m5 = STargets t5"
    "tb_targets t5 = (tb_targets t4)(pointer_path editor_channel \<mapsto> target_from_file sha (to_json pointer) (to_custom info))"
    using s5(4) o4(2) by auto
  show ?thesis
    by (rule that [of m5 t5]) (use s5(1,2,3,5) o4(2) op5 op4(3) op3(3) fixture_paths(6-8) 6 in auto)
qed

lemma open_version:
  "fst (open_role role s) = Inr md \<Longrightarrow> version_of s role \<noteq> 0 \<Longrightarrow> disk s (meta_name role (version_of s role)) = Some (Meta md)"
  by (auto simp: open_role_def Let_def split: option.splits repo_file.splits)

lemma copied_latest:
  assumes "latest (metadata_names s) role = Inr (filename role v)" "disk s (meta_name role v) = Some f"
    and "latest (metadata_names s) role = Inr n"
  shows "copied s n = Inr f"
  using assms by (simp add: copied_def meta_name_def)

text \<open>The copies are the documents in force.\<close>

lemma fixture_documents:
  assumes ord: "in_order lib sha s" and cur: "snapshot_current s" "timestamp_current s" and apps: "r_app_roles s = {editor_role}"
    and v: "version_of s editor_role \<noteq> 0"
    and op: "fst (open_role TARGETS s) = Inr md" "fst (open_role editor_role s) = Inr m"
    and run: "write_fixtures g editor_role release_key forged s = (Inr F, s)"
  shows "\<exists>ts sn meta. map_of (fx_files F) ''timestamp.json'' = Some (Meta ts) \<and> md_signed ts = STimestamp (md_version sn)
    \<and> map_of (fx_files F) ''snapshot.json'' = Some (Meta sn) \<and> md_signed sn = SSnapshot meta
    \<and> meta ''targets.json'' = Some (md_version md) \<and> map_of (fx_files F) ''targets.json'' = Some (Meta md)
    \<and> meta ''app-editor.json'' = Some (md_version m) \<and> map_of (fx_files F) ''app-editor.json'' = Some (Meta m)
    \<and> get (fx_meta F) ''published_versions'' = JObj [(''snapshot'', JInt (int (md_version sn))),
         (''targets'', JInt (int (md_version md))), (''app-editor'', JInt (int (md_version m)))]"
  using run
proof (rule write_fixtures_run)
  fix root ts0 sn tg ap snapshot targets app channel
  assume c: "copied s ''timestamp.json'' = Inr ts0" "latest (metadata_names s) SNAPSHOT = Inr sn"
    "latest (metadata_names s) TARGETS = Inr tg" "latest (metadata_names s) editor_role = Inr ap"
    "copied s sn = Inr snapshot" "copied s tg = Inr targets" "copied s ap = Inr app"
    and F: "fx_files F = [(''root.json'', root), (''timestamp.json'', ts0), (SNAPSHOT @ ''.json'', snapshot),
           (TARGETS @ ''.json'', targets), (editor_role @ ''.json'', app), (''payload.bin'', Payload PAYLOAD)]"
    "fx_meta F = [(''generated_at'', JInt g), (''delegated_role'', JStr editor_role),
           (''target_path'', JStr (path release_key)), (''forged_target_path'', JStr forged),
           (''version'', JStr VERSION), (''rollout_pct'', JInt ROLLOUT_PCT),
           (''payload_length'', JInt (int (length PAYLOAD))), (''pointer_path'', JStr (pointer_path channel)),
           (''published_versions'', JObj
              [(SNAPSHOT, JInt (int (published_version sn))), (TARGETS, JInt (int (published_version tg))),
               (editor_role, JInt (int (published_version ap)))])]"
  have inv: "repo_inv sha s" "names_ok s" "remembered s" using ord by (simp_all add: in_order_def)
  have read: "\<forall>role \<in> r_app_roles s. readable role" by (simp add: apps readable_def editor_role_def newline_def)
  have vt: "version_of s TARGETS \<noteq> 0" "version_of s SNAPSHOT \<noteq> 0"
    using inv(1) cur(1) apps by (auto simp: repo_inv_def apps_ok_def snapshot_current_def)
  have l: "latest (metadata_names s) SNAPSHOT = Inr (filename SNAPSHOT (version_of s SNAPSHOT))"
    "latest (metadata_names s) TARGETS = Inr (filename TARGETS (version_of s TARGETS))"
    "latest (metadata_names s) editor_role = Inr (filename editor_role (version_of s editor_role))"
    using vt v by (intro latest_current [OF inv read]; simp add: readable_def role_name_defs editor_role_def newline_def)+
  have d: "disk s (meta_name TARGETS (version_of s TARGETS)) = Some (Meta md)"
    "disk s (meta_name editor_role (version_of s editor_role)) = Some (Meta m)"
    using open_version op vt(1) v by blast+
  obtain ts where ts: "disk s ''metadata/timestamp.json'' = Some (Meta ts)" "md_signed ts = STimestamp (version_of s SNAPSHOT)"
    using cur(2) by (auto simp: timestamp_current_def)
  obtain sd meta where sd: "disk s (meta_name SNAPSHOT (version_of s SNAPSHOT)) = Some (Meta sd)" "md_signed sd = SSnapshot meta"
    "targets_infos s \<subseteq>\<^sub>m meta" using cur(1) by (auto simp: snapshot_current_def)
  have e: "meta (r @ ''.json'') = Some (version_of s r)" if "r \<in> {TARGETS, editor_role}" for r
  proof -
    have "targets_infos s (r @ ''.json'') = Some (version_of s r)" using that apps vt(1) v by (auto simp: targets_infos_iff)
    with sd(3) show ?thesis by (auto simp: map_le_def dom_def)
  qed
  have nums: "md_version sd = version_of s SNAPSHOT" "md_version md = version_of s TARGETS" "md_version m = version_of s editor_role"
    using numbered_version(1) [OF inv(2)] sd(1) d by (simp_all add: role_name_defs editor_role_def)
  have f: "snapshot = Meta sd" "targets = Meta md" "app = Meta m" "ts0 = Meta ts"
    using copied_latest [OF l(1) sd(1) c(2)] copied_latest [OF l(2) d(1) c(3)] copied_latest [OF l(3) d(2) c(4)] c(1,5-7) ts(1)
    by (simp_all add: copied_def)
  have p: "published_version sn = md_version sd" "published_version tg = md_version md" "published_version ap = md_version m"
    using l c(2-4) nums published_filename by (auto simp: role_name_defs editor_role_def)
  show ?thesis
    using e [of TARGETS] e [of editor_role] ts(2) sd(2) nums
    by (intro exI [of _ ts] exI [of _ sd] exI [of _ meta]) (simp add: F f p get_def role_name_defs editor_role_def)
qed

section \<open>The run succeeds\<close>

definition drawn :: "(nat \<Rightarrow> string) \<Rightarrow> nat \<Rightarrow> keys \<Rightarrow> bool" where
  "drawn kid i ks \<longleftrightarrow> fst ` set ks \<subseteq> kid ` {..<i}"

lemma generate_all_ok:
  assumes "\<And>j. derive (pem j) = Inr (kid j)" "inj kid" "drawn kid i ks"
  shows "\<exists>ks'. generate_all derive pem i roles ks = Inr ks' \<and> drawn kid (i + length roles) ks'
    \<and> (\<forall>r. length (keyids ks' r) = length (keyids ks r) + count_list roles r)"
  using assms(3)
proof (induction roles arbitrary: i ks)
  case (Cons role roles)
  let ?e = "\<lparr>ke_role = role, ke_private_key = pem i, ke_keyid = kid i\<rparr>"
  have "k \<noteq> kid i" if k: "(k, e) \<in> set ks" for k e
  proof -
    have "k \<in> fst ` set ks" using imageI [OF k, of fst] by simp
    then obtain j where "j < i" "k = kid j" using Cons.prems unfolding drawn_def by blast
    with injD [OF assms(2), of j i] show ?thesis by auto
  qed
  then have put: "put_key ?e ks = (kid i, ?e) # ks" by (auto simp: put_key_def filter_id_conv)
  have "drawn kid (Suc i) ((kid i, ?e) # ks)" using Cons.prems by (auto simp: drawn_def lessThan_Suc)
  from Cons.IH [OF this] obtain ks' where ks': "generate_all derive pem (Suc i) roles ((kid i, ?e) # ks) = Inr ks'"
    "drawn kid (Suc i + length roles) ks'"
    "\<And>r. length (keyids ks' r) = length (keyids ((kid i, ?e) # ks) r) + count_list roles r" by blast
  have "generate derive (pem i) role ks = Inr (kid i, (kid i, ?e) # ks)" by (simp add: generate_def assms(1) put)
  with ks' show ?case by (auto simp: keyids_def)
qed simp

lemma generate_all_snoc:
  "generate_all derive pem i (roles @ [role]) ks = bindr (generate_all derive pem i roles ks)
     (\<lambda>ks1. bindr (generate derive (pem (i + length roles)) role ks1) (\<lambda>(_, ks2). Inr ks2))"
proof (induction roles arbitrary: i ks)
  case (Cons r roles)
  show ?case by (cases "generate derive (pem i) r ks") (auto simp: Cons.IH split: prod.split)
next
  case Nil
  show ?case by (cases "generate derive (pem i) role ks") auto
qed

lemma fixture_key_counts:
  "count_list (key_roles @ [editor_role]) ROOT = nat (rp_threshold ROOT_POLICY)"
  "count_list (key_roles @ [editor_role]) TARGETS = nat (rp_threshold TARGETS_POLICY)"
  "count_list (key_roles @ [editor_role]) SNAPSHOT = nat (rp_threshold SNAPSHOT_POLICY)"
  "count_list (key_roles @ [editor_role]) TIMESTAMP = nat (rp_threshold TIMESTAMP_POLICY)"
  "count_list (key_roles @ [editor_role]) editor_role = 1"
  by code_simp+

lemma memory_signs:
  "list_all (\<lambda>k. returns (be_signer (memory_backend ks) k)) (be_keyids (memory_backend ks) r)"
  "has_public_keys (memory_backend ks) r"
proof -
  have "\<exists>e. map_of ks k = Some e" if "k \<in> set (keyids ks r)" for k
    using that by (auto simp: set_keyids) (metis weak_map_of_SomeI)
  then show "list_all (\<lambda>k. returns (be_signer (memory_backend ks) k)) (be_keyids (memory_backend ks) r)"
    "has_public_keys (memory_backend ks) r"
    by (fastforce simp: list_all_iff has_public_keys_def memory_backend_def memory_entry_def)+
qed

lemma root_kept [keeps_intro]: "keeps (\<lambda>s. ''metadata/root.json'' \<in> dom (disk s)) (close_role B now role md)"
proof -
  have "''metadata/root.json'' \<in> dom (disk (snd (close_role B now role md s)))" if "''metadata/root.json'' \<in> dom (disk s)" for s
    using close_role_snd [of B now role md s] subsetD [OF dom_disk_closed that] that by (elim disjE exE) simp_all
  then show ?thesis unfolding keeps_def by blast
qed

lemma root_kept_payload [keeps_intro]: "keeps (\<lambda>s. ''metadata/root.json'' \<in> dom (disk s)) (store_payload p tf c)"
  by (auto simp: keeps_def store_payload_state)

lemma root_kept_publish [keeps_intro]: "keeps (\<lambda>s. ''metadata/root.json'' \<in> dom (disk s)) (publish lib B now)"
  unfolding publish_def do_snapshot_def do_timestamp_def
  by (intro keeps_intro; split option.split; intro conjI impI allI keeps_intro; simp)

lemma root_kept_edit [keeps_intro]: "keeps (\<lambda>s. ''metadata/root.json'' \<in> dom (disk s)) (edit B now role body)"
  unfolding edit_def by (intro keeps_intro)

lemma root_kept_fields [keeps_intro]:
  "keeps (\<lambda>s. ''metadata/root.json'' \<in> dom (disk s)) (modifyS (\<lambda>s. s\<lparr>r_policies := f s\<rparr>))"
  "keeps (\<lambda>s. ''metadata/root.json'' \<in> dom (disk s)) (modifyS (\<lambda>s. s\<lparr>r_app_roles := g s\<rparr>))"
  by (simp_all add: keeps_def modifyS_def)

lemma root_kept_ops:
  "keeps (\<lambda>s. ''metadata/root.json'' \<in> dom (disk s)) (add_app lib B now a c)"
  "keeps (\<lambda>s. ''metadata/root.json'' \<in> dom (disk s)) (put_and_publish lib B now role p tf content)"
  unfolding add_app_def Let_def put_and_publish_def by (intro keeps_intro)+

lemma initialize_writes_root:
  assumes "initialize lib B now s = (Inr (), s')"
  shows "''metadata/root.json'' \<in> dom (disk s')"
proof -
  obtain s1 where 1: "edit B now ROOT (init_root B) s = (Inr (), s1)"
    and 2: "bindS (edit B now TARGETS Inr) (\<lambda>_. publish lib B now) s1 = (Inr (), s')"
    using assms unfolding initialize_def by (auto elim!: bindS_InrE simp: bindS_eq_Inr_iff split: if_splits)
  from 1 obtain m where "s1 = closed ROOT m s" by (rule edit_InrE)
  then have "''metadata/root.json'' \<in> dom (disk s1)" by (simp add: disk_closed domIff)
  moreover have "keeps (\<lambda>s. ''metadata/root.json'' \<in> dom (disk s)) (bindS (edit B now TARGETS Inr) (\<lambda>_. publish lib B now))"
    by (intro keeps_intro)
  ultimately show ?thesis using keepsD 2 by fastforce
qed

lemma in_order_answers:
  assumes lib: "tuf_contract lib" "lib_answers lib" and ord: "in_order lib sha s" and apps: "r_app_roles s = {editor_role}"
    and sign: "can_sign B s editor_role" "can_sign B s SNAPSHOT" "can_sign B s TIMESTAMP"
    and root: "''metadata/root.json'' \<in> dom (disk s)"
    and op: "fst (open_role editor_role s) = Inr md" "md_signed md = STargets tb"
  shows "\<exists>s' m. put_and_publish lib B now editor_role p (target_from_file sha c cu) c s = (Inr p, s')
    \<and> in_order lib sha s' \<and> r_app_roles s' = {editor_role} \<and> ''metadata/root.json'' \<in> dom (disk s')
    \<and> can_sign B s' editor_role \<and> can_sign B s' SNAPSHOT \<and> can_sign B s' TIMESTAMP
    \<and> snapshot_current s' \<and> timestamp_current s' \<and> version_of s' editor_role \<noteq> 0
    \<and> fst (open_role editor_role s') = Inr m
    \<and> md_signed m = STargets (tb\<lparr>tb_targets := (tb_targets tb)(p \<mapsto> target_from_file sha c cu)\<rparr>)"
proof -
  have role: "editor_role \<in> r_app_roles s" by (simp add: apps)
  have inv: "repo_inv sha s" using ord by (simp add: in_order_def)
  have h: "tf_sha256 (target_from_file sha c cu) = hexdigest sha c" by (simp add: target_from_file_def)
  obtain s' where run: "put_and_publish lib B now editor_role p (target_from_file sha c cu) c s = (Inr p, s')"
    using put_and_publish_answers [OF inv lib role h sign] by blast
  note o = put_in_order [OF lib(1) ord role run op]
  have op': "open_role editor_role s = (Inr md, s)" using op(1) open_role_total [OF inv, of editor_role] by auto
  have pol: "r_policies s' = r_policies s" using put_and_publish_found [OF inv lib(1) role h run op' op(2)] by blast
  have root': "''metadata/root.json'' \<in> dom (disk s')"
    using keepsD [OF root_kept_ops(2) [of lib B now editor_role p "target_from_file sha c cu" c], where s = s] root
    unfolding run snd_conv .
  have sign': "can_sign B s' editor_role" "can_sign B s' SNAPSHOT" "can_sign B s' TIMESTAMP"
    using sign unfolding can_sign_cong [OF pol] .
  obtain m where m: "fst (open_role editor_role s') = Inr m"
    "md_signed m = STargets (tb\<lparr>tb_targets := (tb_targets tb)(p \<mapsto> target_from_file sha c cu)\<rparr>)" using o(4) by blast
  show ?thesis
    by (intro exI [of _ s'] exI [of _ m] conjI run o(1,5) root' m sign' trans [OF o(2) apps] conjunct1 [OF o(3)] conjunct2 [OF o(3)])
qed

lemma write_fixtures_answers:
  assumes ord: "in_order lib sha s" and cur: "snapshot_current s" "timestamp_current s" and apps: "r_app_roles s = {editor_role}"
    and v: "version_of s editor_role \<noteq> 0" and root: "''metadata/root.json'' \<in> dom (disk s)"
  shows "\<exists>F. write_fixtures g editor_role release_key forged s = (Inr F, s)"
proof -
  have inv: "repo_inv sha s" "names_ok s" "remembered s" using ord by (simp_all add: in_order_def)
  have read: "\<forall>role \<in> r_app_roles s. readable role" by (simp add: apps readable_def editor_role_def newline_def)
  have vt: "version_of s TARGETS \<noteq> 0" "version_of s SNAPSHOT \<noteq> 0"
    using inv(1) cur(1) apps by (auto simp: repo_inv_def apps_ok_def snapshot_current_def)
  have l: "latest (metadata_names s) SNAPSHOT = Inr (filename SNAPSHOT (version_of s SNAPSHOT))"
    "latest (metadata_names s) TARGETS = Inr (filename TARGETS (version_of s TARGETS))"
    "latest (metadata_names s) editor_role = Inr (filename editor_role (version_of s editor_role))"
    using vt v by (intro latest_current [OF inv read]; simp add: readable_def role_name_defs editor_role_def newline_def)+
  have "\<exists>f. copied s (filename r (version_of s r)) = Inr f" if "version_of s r \<noteq> 0" for r
  proof -
    have "disk s (meta_name r (version_of s r)) \<noteq> None"
      using inv(1) that by (auto simp: repo_inv_def versions_ok_def version_of_def split: option.splits)
    then show ?thesis by (auto simp: copied_def meta_name_def)
  qed
  then obtain f1 f2 f3 where c: "copied s (filename SNAPSHOT (version_of s SNAPSHOT)) = Inr f1"
    "copied s (filename TARGETS (version_of s TARGETS)) = Inr f2"
    "copied s (filename editor_role (version_of s editor_role)) = Inr f3" using vt v by metis
  obtain f4 f5 where r: "copied s ''root.json'' = Inr f4" "copied s ''timestamp.json'' = Inr f5"
    using root cur(2) by (auto simp: copied_def timestamp_current_def)
  show ?thesis unfolding write_fixtures_def by (simp add: bindS_run l c r liftS_def returnS_def fixture_names(5))
qed

lemma set_current_put:
  assumes "set_current lib B sha now key s = (Inr q, s')" "app_role_name (tk_app_id key) = Inr role"
  shows "\<exists>p c cu. put_and_publish lib B now role p (target_from_file sha c cu) c s = (Inr q, s')"
  using assms(1) by (rule set_current_InrE) (use assms(2) in auto)

lemma bindS_liftS_Inr: "bindS (liftS (Inr x)) f s = f x s"
  by (simp add: bindS_def liftS_def)

lemma fixture_repo_answers:
  assumes lib: "tuf_contract lib" "lib_answers lib"
    and top: "\<forall>role \<in> set TOP_LEVEL_ROLES. can_sign B fresh_repo role \<and> has_public_keys B role"
    and app: "1 \<le> length (be_keyids B editor_role)" "list_all (\<lambda>k. returns (be_signer B k)) (be_keyids B editor_role)"
      "has_public_keys B editor_role"
  shows "\<exists>F s'. fixture_repo lib B sha clock editor_role fresh_repo = (Inr F, s')"
proof -
  obtain s1 where 1: "initialize lib B (clock 1) fresh_repo = (Inr (), s1)"
    using initialize_answers [OF fresh_repo_inv lib _ top, of "clock 1"] by (auto simp: fresh_repo_def version_of_def)
  have r1: "repo_reachable lib sha s1"
    using repo_reachable.call [OF repo_reachable.start, of lib sha B "clock 1" Initialize] 1 by simp
  have a1: "r_app_roles s1 = {}" using app_roles_initialize [of lib B "clock 1" fresh_repo] 1 by (simp add: fresh_repo_def)
  have p1: "can_sign B s1 r = can_sign B fresh_repo r" for r by (rule can_sign_cong [OF initialize_policies [OF 1]])
  have sign1: "can_sign B s1 TARGETS" "can_sign B s1 SNAPSHOT" "can_sign B s1 TIMESTAMP"
    using top unfolding p1 by (simp_all add: TOP_LEVEL_ROLES_def)
  obtain s2 where 2: "add_app lib B (clock 2) APP_ID False s1 = (Inr editor_role, s2)"
    and p2: "r_policies s2 = (r_policies s1)(editor_role \<mapsto> \<lparr>rp_name = editor_role, rp_keystore = ONLINE,
       rp_threshold = 1, rp_expiry = APP_ROLE_EXPIRY, rp_key_count = 1\<rparr>)"
    using add_app_answers [OF reachable_inv [OF r1 lib(1)] lib fixture_names(6) _ _ _ sign1, of "clock 2"] app by auto
  have sign2: "can_sign B s2 editor_role" "can_sign B s2 SNAPSHOT" "can_sign B s2 TIMESTAMP"
    using sign1 app by (simp_all add: can_sign_def p2 editor_role_def role_name_defs)
  from repo_reachable.call [OF r1, of B "clock 2" "AddApp APP_ID False"] 2 have "repo_reachable lib sha s2" by simp
  then have o2: "in_order lib sha s2" by (rule reachable_in_order [OF lib(1)])
  have a2: "r_app_roles s2 = {editor_role}" using add_app_roles [OF 2] a1 by simp
  have root2: "''metadata/root.json'' \<in> dom (disk s2)"
    using keepsD [OF root_kept_ops(1) [of lib B "clock 2" APP_ID False], where s = s1] initialize_writes_root [OF 1] unfolding 2 snd_conv .
  obtain m2 t2 where op2: "fst (open_role editor_role s2) = Inr m2" "md_signed m2 = STargets t2"
    using o2 a2 open_app_role [of sha s2 editor_role] by (metis fst_conv in_order_def singletonI)
  have name: "app_role_name (tk_app_id release_key) = Inr editor_role" by code_simp
  obtain s3 m3 where s3: "put_and_publish lib B (clock 3) editor_role (path release_key)
      (target_from_file sha PAYLOAD (to_custom release_info_25)) PAYLOAD s2 = (Inr (path release_key), s3)"
    "in_order lib sha s3" "r_app_roles s3 = {editor_role}" "''metadata/root.json'' \<in> dom (disk s3)"
    "can_sign B s3 editor_role" "can_sign B s3 SNAPSHOT" "can_sign B s3 TIMESTAMP" "fst (open_role editor_role s3) = Inr m3"
    "md_signed m3 = STargets (t2\<lparr>tb_targets := (tb_targets t2)(path release_key \<mapsto> target_from_file sha PAYLOAD (to_custom release_info_25))\<rparr>)"
    using in_order_answers [OF lib o2 a2 sign2 root2 op2, of "clock 3" "path release_key" PAYLOAD "to_custom release_info_25"] by blast
  have rd: "require_delegated (tk_app_id release_key) s2 = (Inr editor_role, s2)" using name a2 by (simp add: require_delegated_Inr)
  have 3: "add_release lib B sha (clock 3) release_key PAYLOAD release_info_25 s2 = (Inr (path release_key), s3)"
    using s3(1) rd by (simp add: add_release_eq bindS_run) (simp add: release_info_25_def release_key_def)
  let ?forged = "target_from_file sha ''forged viewer release'' []"
  obtain s4 m4 where s4: "put_and_publish lib B (clock 4) editor_role (path forged_key) ?forged ''forged viewer release'' s3
      = (Inr (path forged_key), s4)"
    "in_order lib sha s4" "r_app_roles s4 = {editor_role}" "''metadata/root.json'' \<in> dom (disk s4)"
    "can_sign B s4 editor_role" "can_sign B s4 SNAPSHOT" "can_sign B s4 TIMESTAMP" "fst (open_role editor_role s4) = Inr m4"
    "md_signed m4 = STargets (t2\<lparr>tb_targets := (tb_targets t2)(path release_key \<mapsto>
       target_from_file sha PAYLOAD (to_custom release_info_25), path forged_key \<mapsto> ?forged)\<rparr>)"
    using in_order_answers [OF lib s3(2,3,5-7,4,8,9), of "clock 4" "path forged_key" "''forged viewer release''" "[]"] by auto
  have wf: "wf_target_key release_key" by code_simp
  have inv4: "repo_inv sha s4" using s4(2) by (simp add: in_order_def)
  have op4: "open_role editor_role s4 = (Inr m4, s4)" using s4(8) open_role_total [OF inv4, of editor_role] by auto
  obtain c s5 where 5: "set_current lib B sha (clock 5) release_key s4 = (Inr (pointer_path c), s5)"
    using set_current_answers [OF inv4 lib wf name _ op4 s4(9) _ s4(5-7), where now = "clock 5"] s4(3) fixture_paths(6) by auto
  obtain p body cu where put5: "put_and_publish lib B (clock 5) editor_role p (target_from_file sha body cu) body s4 = (Inr (pointer_path c), s5)"
    using set_current_put [OF 5 name] by blast
  have role4: "editor_role \<in> r_app_roles s4" by (simp add: s4(3))
  note s5 = put_in_order [OF lib(1) s4(2) role4 put5 s4(8,9)]
  have root5: "''metadata/root.json'' \<in> dom (disk s5)"
    using keepsD [OF root_kept_ops(2) [of lib B "clock 5" editor_role p "target_from_file sha body cu" body], where s = s4] s4(4)
    unfolding put5 snd_conv .
  obtain F where 6: "write_fixtures (clock 0) editor_role release_key (path forged_key) s5 = (Inr F, s5)"
    using write_fixtures_answers [OF s5(1) _ _ _ s5(5) root5] s5(2,3) s4(3) by metis
  obtain u1 u2 where u: "store_payload (path forged_key) ?forged ''forged viewer release'' s3 = (Inr (), u1)"
    "edit B (clock 4) editor_role (put_target (path forged_key) ?forged) u1 = (Inr (), u2)" "publish lib B (clock 4) u2 = (Inr (), s4)"
    using s4(1) unfolding put_and_publish_def by (auto simp: bindS_eq_Inr_iff returnS_def)
  show ?thesis unfolding fixture_repo_def Let_def fixture_names
    by (simp add: bindS_run 1 2 3 5 u 6 bindS_liftS_Inr del: One_nat_def)
qed

lemma generated:
  assumes "\<And>j. derive (pem j) = Inr (kid j)" "inj kid" "\<not> is_production ENV"
  shows "\<exists>ks. gen_rust_fixtures lib sha derive pem ENV clock = fst (fixture_repo lib (memory_backend ks) sha clock editor_role fresh_repo)
    \<and> (\<forall>r. length (keyids ks r) = count_list (key_roles @ [editor_role]) r)"
proof -
  have "drawn kid 0 []" by (simp add: drawn_def)
  then obtain ks where ks: "generate_all derive pem 0 (key_roles @ [editor_role]) [] = Inr ks"
    "\<forall>r. length (keyids ks r) = length (keyids [] r) + count_list (key_roles @ [editor_role]) r"
    using generate_all_ok [OF assms(1,2) \<open>drawn kid 0 []\<close>, where roles = "key_roles @ [editor_role]"] by metis
  then obtain ks1 k where "generate_all derive pem 0 key_roles [] = Inr ks1"
    "generate derive (pem (length key_roles)) editor_role ks1 = Inr (k, ks)"
    by (auto simp: generate_all_snoc bindr_eq_Inr_iff)
  with ks(2) assms(3) show ?thesis
    by (intro exI [of _ ks]) (simp add: gen_rust_fixtures_def new_memory_def fixture_names(1) keyids_def)
qed

lemma fixtures_generated:
  assumes lib: "tuf_contract lib" "lib_answers lib"
    and keys: "\<And>j. derive (pem j) = Inr (kid j)" "inj kid" "\<not> is_production ENV"
  shows "\<exists>F. gen_rust_fixtures lib sha derive pem ENV clock = Inr F"
proof -
  obtain ks where g: "gen_rust_fixtures lib sha derive pem ENV clock = fst (fixture_repo lib (memory_backend ks) sha clock editor_role fresh_repo)"
    and n: "\<And>r. length (keyids ks r) = count_list (key_roles @ [editor_role]) r"
    using generated [OF keys] by blast
  let ?B = "memory_backend ks"
  have ids: "be_keyids ?B = keyids ks" by (simp add: memory_backend_def)
  have len: "length (keyids ks ROOT) = nat (rp_threshold ROOT_POLICY)" "length (keyids ks TARGETS) = nat (rp_threshold TARGETS_POLICY)"
    "length (keyids ks SNAPSHOT) = nat (rp_threshold SNAPSHOT_POLICY)"
    "length (keyids ks TIMESTAMP) = nat (rp_threshold TIMESTAMP_POLICY)" "length (keyids ks editor_role) = 1"
    unfolding n fixture_key_counts by (rule refl)+
  have "\<forall>role \<in> set TOP_LEVEL_ROLES. can_sign ?B fresh_repo role \<and> has_public_keys ?B role"
    using memory_signs [of ks]
    by (auto simp: TOP_LEVEL_ROLES_def can_sign_def ids len fresh_repo_def TOP_LEVEL_POLICIES_def policy_defs)
  moreover have "1 \<le> length (be_keyids ?B editor_role)" by (simp add: ids len)
  ultimately obtain F s' where "fixture_repo lib ?B sha clock editor_role fresh_repo = (Inr F, s')"
    using fixture_repo_answers [OF lib _ _ memory_signs] by blast
  with g show ?thesis by simp
qed

section \<open>What a verifier is shown\<close>

text \<open>A client's search over the copied documents, which hold one delegated role.\<close>

definition fixture_lookup :: "targets_body \<Rightarrow> string \<Rightarrow> string \<Rightarrow> target_file option" where
  "fixture_lookup ab role p = (if role = editor_role then tb_targets ab p else None)"

text \<open>C29: The fixtures tell a release from a forgery.  When the generator ends without an error, the
  copied documents are those in force: the timestamp names the snapshot, the snapshot the two
  targets documents, each at the version the description publishes.  A client that follows the
  delegations in them finds the release, with the digest of the payload that lies beside them, and
  the channel pointer; the forged target is listed by the same role and is not found.\<close>

theorem fixtures_tell_release_from_forgery:
  assumes "tuf_contract lib" "gen_rust_fixtures lib sha derive pem ENV clock = Inr F"
  shows "\<exists>ts sn meta md tb m ab tf.
    map_of (fx_files F) ''timestamp.json'' = Some (Meta ts) \<and> md_signed ts = STimestamp (md_version sn)
    \<and> map_of (fx_files F) ''snapshot.json'' = Some (Meta sn) \<and> md_signed sn = SSnapshot meta
    \<and> meta ''targets.json'' = Some (md_version md)
    \<and> map_of (fx_files F) ''targets.json'' = Some (Meta md) \<and> md_signed md = STargets tb
    \<and> meta ''app-editor.json'' = Some (md_version m)
    \<and> map_of (fx_files F) ''app-editor.json'' = Some (Meta m) \<and> md_signed m = STargets ab
    \<and> get (fx_meta F) ''published_versions'' = JObj [(''snapshot'', JInt (int (md_version sn))),
         (''targets'', JInt (int (md_version md))), (''app-editor'', JInt (int (md_version m)))]
    \<and> get (fx_meta F) ''target_path'' = JStr (path release_key)
    \<and> resolve (fixture_lookup ab) tb (path release_key) = Some tf \<and> tf_sha256 tf = hexdigest sha PAYLOAD
    \<and> map_of (fx_files F) ''payload.bin'' = Some (Payload PAYLOAD)
    \<and> get (fx_meta F) ''pointer_path'' = JStr (pointer_path editor_channel)
    \<and> resolve (fixture_lookup ab) tb (pointer_path editor_channel) \<noteq> None
    \<and> get (fx_meta F) ''forged_target_path'' = JStr (path forged_key)
    \<and> tb_targets ab (path forged_key) \<noteq> None \<and> resolve (fixture_lookup ab) tb (path forged_key) = None"
proof -
  obtain ks s' where run: "fixture_repo lib (memory_backend ks) sha clock editor_role fresh_repo = (Inr F, s')"
    using assms(2) unfolding gen_rust_fixtures_def fixture_names(1)
    by (auto simp: bindr_eq_Inr_iff prod_eq_iff intro: prod_eqI)
  obtain m ab where s: "in_order lib sha s'" "snapshot_current s'" "timestamp_current s'" "r_app_roles s' = {editor_role}"
    "version_of s' editor_role \<noteq> 0" "fst (open_role editor_role s') = Inr m" "md_signed m = STargets ab"
    and ab: "tb_targets ab (path release_key) = Some (target_from_file sha PAYLOAD (to_custom release_info_25))"
    "tb_targets ab (path forged_key) \<noteq> None" "tb_targets ab (pointer_path editor_channel) \<noteq> None"
    and w: "write_fixtures (clock 0) editor_role release_key (path forged_key) s' = (Inr F, s')"
    by (rule fixture_state [OF assms(1) run])
  have inv: "repo_inv sha s'" "remembered s'" "exposed lib sha s'" using s(1) by (simp_all add: in_order_def)
  have vt: "version_of s' TARGETS \<noteq> 0" using inv(1) s(4) by (auto simp: repo_inv_def apps_ok_def)
  obtain md tb where t: "fst (open_role TARGETS s') = Inr md" "md_signed md = STargets tb"
    "fst ` set (role_entries tb) = {editor_role}" using inv(2) s(4) by (auto simp: remembered_def delegated_now_def)
  have cb: "current_body (disk s') TARGETS = Some tb" by (rule current_body_open [OF inv(1) s(2,3) _ vt t(1,2)]) simp
  have r: "resolve (fixture_lookup ab) tb p = (if delegates tb p then fixture_lookup ab (owner_role p) p else None)" for p
    by (rule confined_resolves(3) [OF inv(3) cb])
  have found: "resolve (fixture_lookup ab) tb (path release_key) = Some (target_from_file sha PAYLOAD (to_custom release_info_25))"
    "resolve (fixture_lookup ab) tb (pointer_path editor_channel) \<noteq> None" "resolve (fixture_lookup ab) tb (path forged_key) = None"
    unfolding r using ab t(3) fixture_paths(1-5,9) by (simp_all add: delegates_def fixture_lookup_def)
  have desc: "get (fx_meta F) ''target_path'' = JStr (path release_key)"
    "get (fx_meta F) ''forged_target_path'' = JStr (path forged_key)"
    "get (fx_meta F) ''pointer_path'' = JStr (pointer_path editor_channel)"
    "map_of (fx_files F) ''payload.bin'' = Some (Payload PAYLOAD)"
    by (rule write_fixtures_run [OF w]; use fixture_names(5) in \<open>simp add: get_def role_name_defs editor_role_def\<close>)+
  have "tf_sha256 (target_from_file sha PAYLOAD (to_custom release_info_25)) = hexdigest sha PAYLOAD"
    by (simp add: target_from_file_def)
  with fixture_documents [OF s(1-5) t(1) s(6) w] t(2) s(7) found ab(2) desc show ?thesis by blast
qed

theorem fixtures_tell_release_from_forgery_witness:
  "\<exists>F. gen_rust_fixtures ref_lib ref_sha Inr dec None (\<lambda>_. 0) = Inr F
     \<and> get (fx_meta F) ''forged_target_path'' = JStr ''viewer/stable/windows-amd64/9.9.9/Viewer-9.9.9.zip''"
proof -
  have "\<not> is_production None" by code_simp
  then obtain F where F: "gen_rust_fixtures ref_lib ref_sha Inr dec None (\<lambda>_. 0) = Inr F"
    using fixtures_generated [OF ref_lib_contract, of Inr dec dec None ref_sha "\<lambda>_. 0"] by (auto simp: inj_def)
  have "path forged_key = ''viewer/stable/windows-amd64/9.9.9/Viewer-9.9.9.zip''" by code_simp
  with fixtures_tell_release_from_forgery [OF ref_lib_contract(1) F] F show ?thesis by auto
qed

end
