(* ===== verification/Atomic.thy ===== *)
theory Atomic
  imports Reopen
begin

text \<open>
  The writes underneath the repository's log: \<open>_atomic_write\<close> and the copy in \<open>store_payload\<close> of
  \<^verbatim>\<open>repository.py\<close>.  A file is made under a temporary name, filled piece by piece, opened to
  everybody and renamed; the process may be killed between any two of these calls.

  The files of a directory are a map from names.  Within one file system a rename replaces its
  target in one step.  The names of temporary files are those in \<open>T\<close>, and nothing published has one
  of them.  What survives a loss of power is not modelled: the source does not synchronise.
\<close>

record disk_file =
  fi_bytes :: string
  fi_mode :: nat

type_synonym files = "string \<rightharpoonup> disk_file"

datatype io = Create string | Append string string | Chmod string nat | Rename string string

fun io_step :: "io \<Rightarrow> files \<Rightarrow> files" where
  "io_step (Create t) d = d(t \<mapsto> \<lparr>fi_bytes = [], fi_mode = 384\<rparr>)"
| "io_step (Append t c) d = (case d t of None \<Rightarrow> d | Some f \<Rightarrow> d(t \<mapsto> f\<lparr>fi_bytes := fi_bytes f @ c\<rparr>))"
| "io_step (Chmod t m) d = (case d t of None \<Rightarrow> d | Some f \<Rightarrow> d(t \<mapsto> f\<lparr>fi_mode := m\<rparr>))"
| "io_step (Rename t p) d = (case d t of None \<Rightarrow> d | Some f \<Rightarrow> (d(t := None))(p \<mapsto> f))"

text \<open>\<^verbatim>\<open>0o644\<close>; a temporary file is made with \<^verbatim>\<open>0o600\<close>.\<close>

definition PUBLISHED_MODE :: nat where "PUBLISHED_MODE = 420"

text \<open>One write: its temporary name, the pieces in which the bytes arrive, and its destination.\<close>

type_synonym file_write = "string \<times> string list \<times> string"

fun atomic_write :: "file_write \<Rightarrow> io list" where
  "atomic_write (tmp, chunks, p) = Create tmp # map (Append tmp) chunks @ [Chmod tmp PUBLISHED_MODE, Rename tmp p]"

definition atomic_writes :: "file_write list \<Rightarrow> io list" where
  "atomic_writes ws = concat (map atomic_write ws)"

definition perform_io :: "io list \<Rightarrow> files \<Rightarrow> files" where
  "perform_io ops d = fold io_step ops d"

text \<open>What is published, of the files and of a state of the log; \<open>ser\<close> are the bytes of a document.\<close>

definition visible :: "string set \<Rightarrow> files \<Rightarrow> files" where
  "visible T d = d |` (- T)"

definition published :: "(repo_file \<Rightarrow> string) \<Rightarrow> (string \<rightharpoonup> repo_file) \<Rightarrow> files" where
  "published ser m = (\<lambda>n. map_option (\<lambda>f. \<lparr>fi_bytes = ser f, fi_mode = PUBLISHED_MODE\<rparr>) (m n))"

text \<open>The writes that carry out a log, its first entry being the last one made.\<close>

definition writes_entry :: "(repo_file \<Rightarrow> string) \<Rightarrow> string set \<Rightarrow> file_write \<Rightarrow> string \<times> repo_file \<Rightarrow> bool" where
  "writes_entry ser T w e \<longleftrightarrow> (case w of (tmp, chunks, p) \<Rightarrow>
     tmp \<in> T \<and> p = fst e \<and> concat chunks = ser (snd e) \<and> fst e \<notin> T)"

definition carries_out :: "(repo_file \<Rightarrow> string) \<Rightarrow> string set \<Rightarrow> file_write list \<Rightarrow> (string \<times> repo_file) list \<Rightarrow> bool" where
  "carries_out ser T ws history \<longleftrightarrow> list_all2 (writes_entry ser T) ws (rev history)"

section \<open>One write\<close>

fun only_on :: "string \<Rightarrow> io \<Rightarrow> bool" where
  "only_on t (Create u) \<longleftrightarrow> u = t"
| "only_on t (Append u c) \<longleftrightarrow> u = t"
| "only_on t (Chmod u m) \<longleftrightarrow> u = t"
| "only_on t (Rename u p) \<longleftrightarrow> False"

lemma only_on_hidden: "only_on t a \<Longrightarrow> t \<in> T \<Longrightarrow> visible T (io_step a d) = visible T d"
  by (cases a) (auto simp: visible_def restrict_map_def fun_eq_iff split: option.split)

lemma hidden_run: "list_all (only_on t) ops \<Longrightarrow> t \<in> T \<Longrightarrow> visible T (perform_io ops d) = visible T d"
  by (induction ops arbitrary: d) (auto simp: perform_io_def only_on_hidden)

lemma perform_append: "perform_io (xs @ ys) d = perform_io ys (perform_io xs d)"
  by (simp add: perform_io_def)

lemma perform_Cons: "perform_io (x # xs) d = perform_io xs (io_step x d)"
  by (simp add: perform_io_def)

lemma perform_Nil: "perform_io [] d = d"
  by (simp add: perform_io_def)

lemma appended:
  "d t = Some f \<Longrightarrow> perform_io (map (Append t) chunks) d t = Some (f\<lparr>fi_bytes := fi_bytes f @ concat chunks\<rparr>)"
proof (induction chunks arbitrary: d f)
  case (Cons c cs)
  have "io_step (Append t c) d t = Some (f\<lparr>fi_bytes := fi_bytes f @ c\<rparr>)" using Cons.prems by simp
  from Cons.IH [of "io_step (Append t c) d", OF this] show ?case
    by (simp add: perform_Cons del: io_step.simps)
qed (simp add: perform_Nil)

text \<open>What a write does under the temporary name, before the rename.\<close>

fun make_ready :: "file_write \<Rightarrow> io list" where
  "make_ready (tmp, chunks, p) = Create tmp # map (Append tmp) chunks @ [Chmod tmp PUBLISHED_MODE]"

lemma atomic_write_ready: "atomic_write (tmp, chunks, p) = make_ready (tmp, chunks, p) @ [Rename tmp p]"
  by simp

lemma make_ready_hidden: "list_all (only_on tmp) (make_ready (tmp, chunks, p))"
  by (simp add: list_all_iff)

lemma made_ready: "perform_io (make_ready (tmp, chunks, p)) d tmp = Some \<lparr>fi_bytes = concat chunks, fi_mode = PUBLISHED_MODE\<rparr>"
proof -
  let ?d = "perform_io (map (Append tmp) chunks) (io_step (Create tmp) d)"
  have "?d tmp = Some \<lparr>fi_bytes = concat chunks, fi_mode = 384\<rparr>"
    using appended [of "io_step (Create tmp) d" tmp "\<lparr>fi_bytes = [], fi_mode = 384\<rparr>" chunks] by simp
  then have "io_step (Chmod tmp PUBLISHED_MODE) ?d tmp = Some \<lparr>fi_bytes = concat chunks, fi_mode = PUBLISHED_MODE\<rparr>" by simp
  then show ?thesis by (simp add: perform_Cons perform_append perform_Nil del: io_step.simps)
qed

lemma write_done:
  assumes "tmp \<in> T" "p \<notin> T"
  shows "visible T (perform_io (atomic_write (tmp, chunks, p)) d)
    = (visible T d)(p \<mapsto> \<lparr>fi_bytes = concat chunks, fi_mode = PUBLISHED_MODE\<rparr>)"
proof -
  define e where "e = perform_io (make_ready (tmp, chunks, p)) d"
  have "visible T e = visible T d" unfolding e_def using make_ready_hidden assms(1) by (rule hidden_run)
  moreover have "perform_io (atomic_write (tmp, chunks, p)) d = io_step (Rename tmp p) e"
    unfolding atomic_write_ready perform_append perform_Cons perform_Nil e_def ..
  moreover have "e tmp = Some \<lparr>fi_bytes = concat chunks, fi_mode = PUBLISHED_MODE\<rparr>" unfolding e_def by (rule made_ready)
  moreover from this have "visible T (io_step (Rename tmp p) e) = (visible T e)(p \<mapsto> \<lparr>fi_bytes = concat chunks, fi_mode = PUBLISHED_MODE\<rparr>)"
    using assms by (auto simp: visible_def restrict_map_def fun_eq_iff)
  ultimately show ?thesis by presburger
qed

lemma write_cut_off:
  assumes "tmp \<in> T" "k < length (atomic_write (tmp, chunks, p))"
  shows "visible T (perform_io (take k (atomic_write (tmp, chunks, p))) d) = visible T d"
proof (rule hidden_run)
  have "k \<le> length (make_ready (tmp, chunks, p))" using assms(2) unfolding atomic_write_ready by simp
  then have "take k (atomic_write (tmp, chunks, p)) = take k (make_ready (tmp, chunks, p))"
    unfolding atomic_write_ready by (simp del: make_ready.simps)
  then show "list_all (only_on tmp) (take k (atomic_write (tmp, chunks, p)))"
    using make_ready_hidden [of tmp chunks p] by (metis append_take_drop_id list_all_append)
qed (rule assms(1))

section \<open>A run of writes, cut off anywhere\<close>

lemma published_step:
  "(published ser (map_of hist))(p \<mapsto> \<lparr>fi_bytes = ser f, fi_mode = PUBLISHED_MODE\<rparr>) = published ser (map_of ((p, f) # hist))"
  by (auto simp: published_def fun_eq_iff)

lemma cut_off_anywhere:
  assumes "list_all2 (writes_entry ser T) ws es" "visible T d = published ser (map_of hist)"
  shows "\<exists>j \<le> length es. (length (atomic_writes ws) \<le> k \<longrightarrow> j = length es)
    \<and> visible T (perform_io (take k (atomic_writes ws)) d) = published ser (map_of (rev (take j es) @ hist))"
  using assms
proof (induction arbitrary: d hist k rule: list_all2_induct)
  case (Cons w ws e es)
  obtain tmp chunks p where w: "w = (tmp, chunks, p)" by (cases w)
  have e: "tmp \<in> T" "p \<notin> T" "p = fst e" "concat chunks = ser (snd e)" using Cons.hyps(1) by (auto simp: writes_entry_def w)
  show ?case
  proof (cases "k < length (atomic_write w)")
    case True
    then have "take k (atomic_writes (w # ws)) = take k (atomic_write w)" by (simp add: atomic_writes_def)
    moreover have "length (atomic_writes (w # ws)) > k" using True by (simp add: atomic_writes_def)
    ultimately show ?thesis using write_cut_off [OF e(1) True [unfolded w], of d] Cons.prems
      by (intro exI [of _ 0]) (simp add: w)
  next
    case False
    let ?d = "perform_io (atomic_write w) d"
    have "visible T ?d = (published ser (map_of hist))(fst e \<mapsto> \<lparr>fi_bytes = ser (snd e), fi_mode = PUBLISHED_MODE\<rparr>)"
      unfolding w write_done [OF e(1,2)] Cons.prems e(3) [symmetric] e(4) ..
    then have "visible T ?d = published ser (map_of (e # hist))" unfolding published_step prod.collapse .
    from Cons.IH [OF this, of "k - length (atomic_write w)"] obtain j where j: "j \<le> length es"
      "length (atomic_writes ws) \<le> k - length (atomic_write w) \<longrightarrow> j = length es"
      "visible T (perform_io (take (k - length (atomic_write w)) (atomic_writes ws)) ?d)
         = published ser (map_of (rev (take j es) @ e # hist))" by blast
    have "take k (atomic_writes (w # ws)) = atomic_write w @ take (k - length (atomic_write w)) (atomic_writes ws)"
      using False by (simp add: atomic_writes_def)
    moreover have "length (atomic_writes (w # ws)) = length (atomic_write w) + length (atomic_writes ws)"
      by (simp add: atomic_writes_def)
    ultimately show ?thesis using j False by (intro exI [of _ "Suc j"]) (simp add: perform_append)
  qed
qed (simp add: atomic_writes_def perform_io_def)

lemma crash_state:
  assumes "carries_out ser T ws history"
  shows "\<exists>hist. suffix hist history \<and> (length (atomic_writes ws) \<le> k \<longrightarrow> hist = history)
    \<and> visible T (perform_io (take k (atomic_writes ws)) Map.empty) = published ser (map_of hist)"
proof -
  have "visible T Map.empty = published ser (map_of [])" by (simp add: visible_def published_def)
  from cut_off_anywhere [OF assms [unfolded carries_out_def] this, of k] obtain j where
    j: "length (atomic_writes ws) \<le> k \<longrightarrow> j = length (rev history)"
      "visible T (perform_io (take k (atomic_writes ws)) Map.empty) = published ser (map_of (rev (take j (rev history)) @ []))"
    by blast
  have "suffix (rev (take j (rev history))) history" by (metis suffix_def append_take_drop_id rev_append rev_rev_ident)
  with j show ?thesis by (intro exI [of _ "rev (take j (rev history))"]) simp
qed

text \<open>A temporary file that was left behind is no metadata to a process that opens the directory.\<close>

lemma left_over_not_read: "\<not> suffix ''.json'' (n @ ''.tmp'')" "versioned (n @ ''.tmp'') = None"
proof -
  have no: "\<not> suffix ''.json'' (m @ ''.tmp'')" for m by (auto simp: suffix_def dest: arg_cong [where f = last])
  then show "\<not> suffix ''.json'' (n @ ''.tmp'')" .
  have "\<not> suffix ''.json'' r" if "dropWhile is_dec (n @ ''.tmp'') = c # r" for c r
  proof
    assume "suffix ''.json'' r"
    moreover have "suffix r (n @ ''.tmp'')" using suffix_dropWhile [of is_dec "n @ ''.tmp''"] that by (metis suffix_ConsD)
    ultimately show False using no suffix_order.trans by blast
  qed
  then show "versioned (n @ ''.tmp'') = None" by (auto simp: versioned_def Let_def split: list.split)
qed

section \<open>Property\<close>

text \<open>C17: A crash leaves a published state: if the process is killed between any two of the calls that
  carry out its log (making a temporary file, filling it in any pieces, opening it to readers, renaming
  it), what the directory publishes is one of the states of the log, each file complete and with
  mode \<^verbatim>\<open>0o644\<close>, and a client finds that state consistent; and when no call is missing it is the last
  state.\<close>

theorem a_crash_leaves_a_published_state:
  assumes "tuf_contract lib" "repo_reachable lib sha s" "carries_out ser T ws (r_disk s)"
  shows "\<exists>hist. suffix hist (r_disk s) \<and> (length (atomic_writes ws) \<le> k \<longrightarrow> hist = r_disk s)
    \<and> visible T (perform_io (take k (atomic_writes ws)) Map.empty) = published ser (map_of hist)
    \<and> client_consistent sha (map_of hist)"
proof -
  obtain hist where h: "suffix hist (r_disk s)" "length (atomic_writes ws) \<le> k \<longrightarrow> hist = r_disk s"
    "visible T (perform_io (take k (atomic_writes ws)) Map.empty) = published ser (map_of hist)"
    using crash_state [OF assms(3)] by blast
  moreover have "client_consistent sha (map_of hist)"
    using reachable_inv [OF assms(2,1)] h(1) by (simp add: repo_inv_def always_suffix)
  ultimately show ?thesis by blast
qed

definition ex_text :: "repo_file \<Rightarrow> string" where
  "ex_text f = (case f of Meta md \<Rightarrow> ''version '' @ dec (md_version md) | Payload c \<Rightarrow> c)"

text \<open>The bytes of the released repository, written in one piece each under the same temporary name.\<close>

definition ex_writes :: "(repo_file \<Rightarrow> string) \<Rightarrow> string \<Rightarrow> file_write list" where
  "ex_writes ser tmp = map (\<lambda>e. (tmp, [ser (snd e)], fst e)) (rev (r_disk ref_released))"

lemma ex_writes_carry_out: "tmp \<notin> fst ` set (r_disk ref_released) \<Longrightarrow> carries_out ser {tmp} (ex_writes ser tmp) (r_disk ref_released)"
  by (auto simp: carries_out_def ex_writes_def writes_entry_def list_all2_map1 intro!: list.rel_refl_strong)

theorem a_crash_leaves_a_published_state_witness:
  "\<exists>tmp. carries_out ex_text {tmp} (ex_writes ex_text tmp) (r_disk ref_released)
     \<and> (\<exists>hist. suffix hist (r_disk ref_released)
          \<and> visible {tmp} (perform_io (take 7 (atomic_writes (ex_writes ex_text tmp))) Map.empty) = published ex_text (map_of hist)
          \<and> client_consistent ref_sha (map_of hist))"
proof -
  obtain tmp :: string where "tmp \<notin> fst ` set (r_disk ref_released)"
    using ex_new_if_finite [OF infinite_UNIV_listI] by (metis finite_imageI List.finite_set)
  then have "carries_out ex_text {tmp} (ex_writes ex_text tmp) (r_disk ref_released)" by (rule ex_writes_carry_out)
  with a_crash_leaves_a_published_state [OF ref_lib_contract(1) ref_reachable(3) this] show ?thesis by blast
qed

end
