(* ===== verification/Rows.thy ===== *)
theory Rows
  imports Store
begin

text \<open>
  Between the tables and the records: \<open>_source\<close> and \<open>_job\<close> of \<^verbatim>\<open>store.py\<close>, which read what a query
  returned by the names of its columns, and the members of the enumerations of \<^verbatim>\<open>models.py\<close>, which
  the tables hold as text.  The columns, their types and their CHECKs are those of \<^verbatim>\<open>schema.sql\<close>.

  The theory justifies tables that are lists of records (\<open>Store\<close>): the rows the schema admits and
  the records that satisfy \<open>source_check\<close> correspond one to one, and no query leaves out a column
  that is read.

  A dataclass does not look at the types of its fields and a record does, so a getter has an error
  for a cell of another type than its column's.  The schema admits no such cell.
\<close>

section \<open>Cells, columns and members\<close>

datatype cell =
    Uuid nat
  | Text string
  | Boolean bool
  | Integer int
  | Timestamp int
  | Jsonb dict
  | SqlNull

type_synonym row = "string \<rightharpoonup> cell"

datatype column_type = UUID | TEXT | BOOLEAN | INTEGER nat | TIMESTAMPTZ | JSONB

text \<open>\<open>INTEGER w\<close> is the signed integer of \<open>w\<close> bits: \<^verbatim>\<open>bigint\<close> has 64, \<^verbatim>\<open>integer\<close> 32.\<close>

fun has_type :: "column_type \<Rightarrow> cell \<Rightarrow> bool" where
  "has_type UUID (Uuid i) = True"
| "has_type TEXT (Text t) = True"
| "has_type BOOLEAN (Boolean b) = True"
| "has_type (INTEGER w) (Integer i) \<longleftrightarrow> - (2 ^ (w - 1)) \<le> i \<and> i < 2 ^ (w - 1)"
| "has_type TIMESTAMPTZ (Timestamp t) = True"
| "has_type JSONB (Jsonb d) = True"
| "has_type _ _ = False"

text \<open>A column: its name, its type and whether it is \<^verbatim>\<open>NOT NULL\<close>.\<close>

type_synonym column = "string \<times> column_type \<times> bool"

fun column_fits :: "row \<Rightarrow> column \<Rightarrow> bool" where
  "column_fits r (n, t, not_null) =
     (case r n of None \<Rightarrow> False | Some c \<Rightarrow> has_type t c \<or> (c = SqlNull \<and> \<not> not_null))"

definition fits :: "column list \<Rightarrow> row \<Rightarrow> bool" where
  "fits table r \<longleftrightarrow> dom r = set (map fst table) \<and> list_all (column_fits r) table"

text \<open>What \<^verbatim>\<open>SELECT\<close> or \<^verbatim>\<open>RETURNING\<close> leaves of a row.\<close>

definition select :: "string list \<Rightarrow> row \<Rightarrow> row" where
  "select columns r = r |` set columns"

text \<open>The text of a member of a \<^verbatim>\<open>StrEnum\<close>, and the member of a text.\<close>

definition FORGES :: "(string \<times> forge) list" where
  "FORGES = [(''github'', GITHUB), (''gitlab'', GITLAB)]"

definition STATUSES :: "(string \<times> source_status) list" where
  "STATUSES = [(''draft'', DRAFT), (''validating'', VALIDATING), (''invalid'', INVALID),
     (''pending_delegation'', PENDING_DELEGATION), (''active'', ACTIVE), (''paused'', PAUSED)]"

definition KINDS :: "(string \<times> job_kind) list" where
  "KINDS = [(''validate'', VALIDATE), (''poll'', POLL), (''publish'', PUBLISH)]"

definition STATES :: "(string \<times> job_state) list" where
  "STATES = [(''queued'', QUEUED), (''running'', RUNNING), (''done'', DONE), (''failed'', FAILED)]"

definition member :: "(string \<times> 'a) list \<Rightarrow> string \<Rightarrow> 'a res" where
  "member enum t = (case map_of enum t of None \<Rightarrow> Inl (ValueError ''is not a valid member'') | Some x \<Rightarrow> Inr x)"

definition member_text :: "(string \<times> 'a) list \<Rightarrow> 'a \<Rightarrow> string" where
  "member_text enum x = fst (hd (filter (\<lambda>e. snd e = x) enum))"

text \<open>\<open>row[name]\<close>, at the type of the field it initialises.\<close>

definition column :: "(cell \<Rightarrow> 'a res) \<Rightarrow> row \<Rightarrow> string \<Rightarrow> 'a res" where
  "column as r n = (case r n of None \<Rightarrow> Inl (KeyError n) | Some c \<Rightarrow> as c)"

definition other_type :: exn where "other_type = TypeError ''a cell of another type''"

fun as_uuid :: "cell \<Rightarrow> nat res" where "as_uuid (Uuid i) = Inr i" | "as_uuid _ = Inl other_type"
fun as_text :: "cell \<Rightarrow> string res" where "as_text (Text t) = Inr t" | "as_text _ = Inl other_type"
fun as_bool :: "cell \<Rightarrow> bool res" where "as_bool (Boolean b) = Inr b" | "as_bool _ = Inl other_type"
fun as_int :: "cell \<Rightarrow> int res" where "as_int (Integer i) = Inr i" | "as_int _ = Inl other_type"
fun as_time :: "cell \<Rightarrow> int res" where "as_time (Timestamp t) = Inr t" | "as_time _ = Inl other_type"
fun as_object :: "cell \<Rightarrow> dict res" where "as_object (Jsonb d) = Inr d" | "as_object _ = Inl other_type"

definition nullable :: "(cell \<Rightarrow> 'a res) \<Rightarrow> cell \<Rightarrow> 'a option res" where
  "nullable as c = (if c = SqlNull then Inr None else bindr (as c) (\<lambda>x. Inr (Some x)))"

section \<open>Sources\<close>

definition SOURCE_COLUMNS :: "string list" where
  "SOURCE_COLUMNS =
     [''id'', ''app_id'', ''forge'', ''project'', ''api_base'', ''project_url'', ''status'', ''critical'',
      ''asset_name'', ''tag_prefix'', ''require_tag_ref_prefix'', ''max_asset_bytes'',
      ''channel'', ''platform'', ''arch'',
      ''workflow_uri'', ''oidc_issuer'', ''repository_id'', ''repository_owner_id'',
      ''runner_environment'', ''builder_id'', ''builder_keyid'', ''builder_public_key_pem'',
      ''attestation_asset'', ''created_at'', ''updated_at'', ''created_by'', ''last_error'']"

definition source_of_row :: "row \<Rightarrow> source res" where
  "source_of_row r =
     bindr (column as_uuid r ''id'') (\<lambda>id.
     bindr (column as_text r ''app_id'') (\<lambda>app_id.
     bindr (bindr (column as_text r ''forge'') (member FORGES)) (\<lambda>forge.
     bindr (column as_text r ''project'') (\<lambda>project.
     bindr (column as_text r ''api_base'') (\<lambda>api_base.
     bindr (column as_text r ''project_url'') (\<lambda>project_url.
     bindr (bindr (column as_text r ''status'') (member STATUSES)) (\<lambda>status.
     bindr (column as_text r ''channel'') (\<lambda>channel.
     bindr (column as_text r ''platform'') (\<lambda>platform.
     bindr (column as_text r ''arch'') (\<lambda>arch.
     bindr (column as_bool r ''critical'') (\<lambda>critical.
     bindr (column as_text r ''asset_name'') (\<lambda>asset_name.
     bindr (column as_text r ''tag_prefix'') (\<lambda>tag_prefix.
     bindr (column as_text r ''require_tag_ref_prefix'') (\<lambda>require_tag_ref_prefix.
     bindr (column as_int r ''max_asset_bytes'') (\<lambda>max_asset_bytes.
     bindr (column (nullable as_text) r ''workflow_uri'') (\<lambda>workflow_uri.
     bindr (column (nullable as_text) r ''oidc_issuer'') (\<lambda>oidc_issuer.
     bindr (column (nullable as_text) r ''repository_id'') (\<lambda>repository_id.
     bindr (column (nullable as_text) r ''repository_owner_id'') (\<lambda>repository_owner_id.
     bindr (column as_text r ''runner_environment'') (\<lambda>runner_environment.
     bindr (column (nullable as_text) r ''builder_id'') (\<lambda>builder_id.
     bindr (column (nullable as_text) r ''builder_keyid'') (\<lambda>builder_keyid.
     bindr (column (nullable as_text) r ''builder_public_key_pem'') (\<lambda>builder_public_key_pem.
     bindr (column as_text r ''attestation_asset'') (\<lambda>attestation_asset.
     bindr (column as_time r ''created_at'') (\<lambda>created_at.
     bindr (column as_time r ''updated_at'') (\<lambda>updated_at.
     bindr (column as_text r ''created_by'') (\<lambda>created_by.
     bindr (column (nullable as_text) r ''last_error'') (\<lambda>last_error.
     Inr
       \<lparr>so_id = id, so_app_id = app_id, so_forge = forge, so_project = project,
         so_api_base = api_base, so_project_url = project_url, so_status = status,
         so_critical = critical, so_asset_name = asset_name, so_tag_prefix = tag_prefix,
         so_require_tag_ref_prefix = require_tag_ref_prefix,
         so_max_asset_bytes = max_asset_bytes, so_channel = channel, so_platform = platform,
         so_arch = arch, so_workflow_uri = workflow_uri, so_oidc_issuer = oidc_issuer,
         so_repository_id = repository_id, so_repository_owner_id = repository_owner_id,
         so_runner_environment = runner_environment, so_builder_id = builder_id,
         so_builder_keyid = builder_keyid, so_builder_public_key_pem = builder_public_key_pem,
         so_attestation_asset = attestation_asset, so_created_at = created_at,
         so_updated_at = updated_at, so_created_by = created_by,
         so_last_error = last_error\<rparr>))))))))))))))))))))))))))))"

text \<open>The table as the schema declares it.\<close>

definition SOURCES :: "column list" where
  "SOURCES =
     [(''id'', UUID, True), (''app_id'', TEXT, True), (''forge'', TEXT, True), (''project'', TEXT, True),
      (''api_base'', TEXT, True), (''project_url'', TEXT, True), (''status'', TEXT, True),
      (''critical'', BOOLEAN, True), (''asset_name'', TEXT, True), (''channel'', TEXT, True),
      (''platform'', TEXT, True), (''arch'', TEXT, True), (''tag_prefix'', TEXT, True),
      (''require_tag_ref_prefix'', TEXT, True), (''max_asset_bytes'', INTEGER 64, True),
      (''workflow_uri'', TEXT, False), (''oidc_issuer'', TEXT, False), (''repository_id'', TEXT, False),
      (''repository_owner_id'', TEXT, False), (''runner_environment'', TEXT, True),
      (''builder_id'', TEXT, False), (''builder_keyid'', TEXT, False),
      (''builder_public_key_pem'', TEXT, False), (''attestation_asset'', TEXT, True),
      (''created_at'', TIMESTAMPTZ, True), (''updated_at'', TIMESTAMPTZ, True),
      (''created_by'', TEXT, True), (''last_error'', TEXT, False)]"

text \<open>\<^verbatim>\<open>n IN (ts)\<close> and \<^verbatim>\<open>n IS NOT NULL\<close>.\<close>

definition is_in :: "row \<Rightarrow> string \<Rightarrow> string list \<Rightarrow> bool" where
  "is_in r n ts \<longleftrightarrow> (case r n of Some (Text t) \<Rightarrow> t \<in> set ts | _ \<Rightarrow> False)"

definition not_null :: "row \<Rightarrow> string \<Rightarrow> bool" where
  "not_null r n \<longleftrightarrow> r n \<noteq> Some SqlNull"

definition source_row_checks :: "row \<Rightarrow> bool" where
  "source_row_checks r \<longleftrightarrow>
     (case r ''app_id'' of Some (Text t) \<Rightarrow> app_id_body t | _ \<Rightarrow> False)
     \<and> is_in r ''forge'' [''github'', ''gitlab'']
     \<and> is_in r ''status'' [''draft'', ''validating'', ''invalid'', ''pending_delegation'', ''active'', ''paused'']
     \<and> is_in r ''channel'' [''stable'', ''beta'', ''canary'']
     \<and> (\<not> is_in r ''status'' [''active''] \<or> \<not> is_in r ''forge'' [''github'']
        \<or> (not_null r ''workflow_uri'' \<and> not_null r ''oidc_issuer'' \<and> not_null r ''repository_id''
           \<and> not_null r ''repository_owner_id''))
     \<and> (\<not> is_in r ''status'' [''active''] \<or> \<not> is_in r ''forge'' [''gitlab'']
        \<or> (not_null r ''builder_id'' \<and> not_null r ''builder_keyid'' \<and> not_null r ''builder_public_key_pem''))"

definition admits_source :: "row \<Rightarrow> bool" where
  "admits_source r \<longleftrightarrow> fits SOURCES r \<and> source_row_checks r"

fun nullable_cell :: "('a \<Rightarrow> cell) \<Rightarrow> 'a option \<Rightarrow> cell" where
  "nullable_cell c None = SqlNull"
| "nullable_cell c (Some x) = c x"

definition row_of_source :: "source \<Rightarrow> row" where
  "row_of_source s = map_of [
     (''id'', Uuid (so_id s)),
     (''app_id'', Text (so_app_id s)),
     (''forge'', Text (member_text FORGES (so_forge s))),
     (''project'', Text (so_project s)),
     (''api_base'', Text (so_api_base s)),
     (''project_url'', Text (so_project_url s)),
     (''status'', Text (member_text STATUSES (so_status s))),
     (''channel'', Text (so_channel s)),
     (''platform'', Text (so_platform s)),
     (''arch'', Text (so_arch s)),
     (''critical'', Boolean (so_critical s)),
     (''asset_name'', Text (so_asset_name s)),
     (''tag_prefix'', Text (so_tag_prefix s)),
     (''require_tag_ref_prefix'', Text (so_require_tag_ref_prefix s)),
     (''max_asset_bytes'', Integer (so_max_asset_bytes s)),
     (''workflow_uri'', nullable_cell Text (so_workflow_uri s)),
     (''oidc_issuer'', nullable_cell Text (so_oidc_issuer s)),
     (''repository_id'', nullable_cell Text (so_repository_id s)),
     (''repository_owner_id'', nullable_cell Text (so_repository_owner_id s)),
     (''runner_environment'', Text (so_runner_environment s)),
     (''builder_id'', nullable_cell Text (so_builder_id s)),
     (''builder_keyid'', nullable_cell Text (so_builder_keyid s)),
     (''builder_public_key_pem'', nullable_cell Text (so_builder_public_key_pem s)),
     (''attestation_asset'', Text (so_attestation_asset s)),
     (''created_at'', Timestamp (so_created_at s)),
     (''updated_at'', Timestamp (so_updated_at s)),
     (''created_by'', Text (so_created_by s)),
     (''last_error'', nullable_cell Text (so_last_error s))]"

section \<open>Jobs\<close>

definition JOB_COLUMNS :: "string list" where
  "JOB_COLUMNS = [''id'', ''source_id'', ''kind'', ''state'', ''requested_by'', ''requested_at'',
     ''started_at'', ''finished_at'', ''attempts'', ''payload'', ''result'', ''error'']"

text \<open>\<open>row["payload"] or {}\<close> is the empty dictionary for a null.\<close>

definition job_of_row :: "row \<Rightarrow> job res" where
  "job_of_row r =
     bindr (column as_uuid r ''id'') (\<lambda>id.
     bindr (column as_uuid r ''source_id'') (\<lambda>source_id.
     bindr (bindr (column as_text r ''kind'') (member KINDS)) (\<lambda>kind.
     bindr (bindr (column as_text r ''state'') (member STATES)) (\<lambda>state.
     bindr (column as_text r ''requested_by'') (\<lambda>requested_by.
     bindr (column as_time r ''requested_at'') (\<lambda>requested_at.
     bindr (column (nullable as_time) r ''started_at'') (\<lambda>started_at.
     bindr (column (nullable as_time) r ''finished_at'') (\<lambda>finished_at.
     bindr (column as_int r ''attempts'') (\<lambda>attempts.
     bindr (column (nullable as_object) r ''payload'') (\<lambda>payload.
     bindr (column (nullable as_object) r ''result'') (\<lambda>result.
     bindr (column (nullable as_text) r ''error'') (\<lambda>error.
     Inr
       \<lparr>jo_id = id, jo_source_id = source_id, jo_kind = kind, jo_state = state,
        jo_requested_by = requested_by, jo_requested_at = requested_at, jo_started_at = started_at,
        jo_finished_at = finished_at, jo_attempts = nat attempts,
        jo_payload = (case payload of None \<Rightarrow> [] | Some d \<Rightarrow> d), jo_result = result,
        jo_error = error\<rparr>))))))))))))"

definition JOBS :: "column list" where
  "JOBS =
     [(''id'', UUID, True), (''source_id'', UUID, True), (''kind'', TEXT, True), (''state'', TEXT, True),
      (''requested_by'', TEXT, True), (''requested_at'', TIMESTAMPTZ, True),
      (''started_at'', TIMESTAMPTZ, False), (''finished_at'', TIMESTAMPTZ, False),
      (''attempts'', INTEGER 32, True), (''payload'', JSONB, True), (''result'', JSONB, False),
      (''error'', TEXT, False)]"

text \<open>The schema does not say that attempts are not negative; they only ever count up from zero.\<close>

definition admits_job :: "row \<Rightarrow> bool" where
  "admits_job r \<longleftrightarrow> fits JOBS r \<and> is_in r ''kind'' [''validate'', ''poll'', ''publish'']
     \<and> is_in r ''state'' [''queued'', ''running'', ''done'', ''failed'']
     \<and> (case r ''attempts'' of Some (Integer i) \<Rightarrow> 0 \<le> i | _ \<Rightarrow> True)"

definition row_of_job :: "job \<Rightarrow> row" where
  "row_of_job j = map_of [
     (''id'', Uuid (jo_id j)), (''source_id'', Uuid (jo_source_id j)),
     (''kind'', Text (member_text KINDS (jo_kind j))), (''state'', Text (member_text STATES (jo_state j))),
     (''requested_by'', Text (jo_requested_by j)), (''requested_at'', Timestamp (jo_requested_at j)),
     (''started_at'', nullable_cell Timestamp (jo_started_at j)),
     (''finished_at'', nullable_cell Timestamp (jo_finished_at j)),
     (''attempts'', Integer (int (jo_attempts j))), (''payload'', Jsonb (jo_payload j)),
     (''result'', nullable_cell Jsonb (jo_result j)), (''error'', nullable_cell Text (jo_error j))]"

section \<open>Reading a cell\<close>

lemma column_Inr: "column as r n = Inr x \<longleftrightarrow> (\<exists>c. r n = Some c \<and> as c = Inr x)"
  by (simp add: column_def split: option.split)

lemma as_uuid_Inr: "as_uuid c = Inr i \<longleftrightarrow> c = Uuid i" by (cases c) auto
lemma as_text_Inr: "as_text c = Inr t \<longleftrightarrow> c = Text t" by (cases c) auto
lemma as_bool_Inr: "as_bool c = Inr b \<longleftrightarrow> c = Boolean b" by (cases c) auto
lemma as_int_Inr: "as_int c = Inr k \<longleftrightarrow> c = Integer k" by (cases c) auto
lemma as_time_Inr: "as_time c = Inr m \<longleftrightarrow> c = Timestamp m" by (cases c) auto
lemma as_object_Inr: "as_object c = Inr d \<longleftrightarrow> c = Jsonb d" by (cases c) auto

lemma nullable_Inr: "nullable as c = Inr y \<longleftrightarrow> (case y of None \<Rightarrow> c = SqlNull | Some x \<Rightarrow> c \<noteq> SqlNull \<and> as c = Inr x)"
  by (auto simp: nullable_def bindr_eq_Inr_iff split: option.split)

lemma nullable_text: "nullable as_text c = Inr t \<longleftrightarrow> c = nullable_cell Text t"
  by (cases t) (auto simp: nullable_Inr as_text_Inr)

lemma nullable_time: "nullable as_time c = Inr m \<longleftrightarrow> c = nullable_cell Timestamp m"
  by (cases m) (auto simp: nullable_Inr as_time_Inr)

lemma nullable_object: "nullable as_object c = Inr d \<longleftrightarrow> c = nullable_cell Jsonb d"
  by (cases d) (auto simp: nullable_Inr as_object_Inr)

lemmas cell_simps = column_Inr as_uuid_Inr as_text_Inr as_bool_Inr as_int_Inr as_time_Inr as_object_Inr
  nullable_text nullable_time nullable_object

lemma fits_not_null:
  "column_fits r (n, UUID, True) \<longleftrightarrow> (\<exists>i. r n = Some (Uuid i))"
  "column_fits r (n, TEXT, True) \<longleftrightarrow> (\<exists>t. r n = Some (Text t))"
  "column_fits r (n, BOOLEAN, True) \<longleftrightarrow> (\<exists>b. r n = Some (Boolean b))"
  "column_fits r (n, INTEGER w, True) \<longleftrightarrow> (\<exists>k. r n = Some (Integer k) \<and> - (2 ^ (w - 1)) \<le> k \<and> k < 2 ^ (w - 1))"
  "column_fits r (n, TIMESTAMPTZ, True) \<longleftrightarrow> (\<exists>m. r n = Some (Timestamp m))"
  "column_fits r (n, JSONB, True) \<longleftrightarrow> (\<exists>d. r n = Some (Jsonb d))"
  by (auto split: option.split elim: has_type.elims)

lemma nullable_cells: "(\<exists>x. c = nullable_cell f x) \<longleftrightarrow> c = SqlNull \<or> (\<exists>y. c = f y)"
  by (metis nullable_cell.simps option.exhaust)

lemma fits_nullable:
  "column_fits r (n, TEXT, False) \<longleftrightarrow> (\<exists>t. r n = Some (nullable_cell Text t))"
  "column_fits r (n, TIMESTAMPTZ, False) \<longleftrightarrow> (\<exists>m. r n = Some (nullable_cell Timestamp m))"
  "column_fits r (n, JSONB, False) \<longleftrightarrow> (\<exists>d. r n = Some (nullable_cell Jsonb d))"
  by (cases "r n"; auto simp: nullable_cells elim: has_type.elims)+

declare column_fits.simps [simp del]

lemmas column_simps = fits_not_null fits_nullable

lemma member_Inr: "member enum t = Inr x \<longleftrightarrow> map_of enum t = Some x"
  by (simp add: member_def split: option.split)

lemma member_text:
  "map_of FORGES (member_text FORGES f) = Some f" "map_of STATUSES (member_text STATUSES u) = Some u"
  "map_of KINDS (member_text KINDS k) = Some k" "map_of STATES (member_text STATES z) = Some z"
  by ((cases f, simp_all add: FORGES_def member_text_def) [], (cases u, simp_all add: STATUSES_def member_text_def) [],
      (cases k, simp_all add: KINDS_def member_text_def) [], (cases z, simp_all add: STATES_def member_text_def) [])

lemma member_of_text:
  "map_of FORGES t = Some f \<Longrightarrow> member_text FORGES f = t" "map_of STATUSES t = Some u \<Longrightarrow> member_text STATUSES u = t"
  "map_of KINDS t = Some k \<Longrightarrow> member_text KINDS k = t" "map_of STATES t = Some z \<Longrightarrow> member_text STATES z = t"
  by (auto simp: FORGES_def STATUSES_def KINDS_def STATES_def member_text_def split: if_splits)

lemma text_is_member:
  "t \<in> set [''github'', ''gitlab''] \<longleftrightarrow> (\<exists>f. map_of FORGES t = Some f)"
  "t \<in> set [''draft'', ''validating'', ''invalid'', ''pending_delegation'', ''active'', ''paused'']
     \<longleftrightarrow> (\<exists>u. map_of STATUSES t = Some u)"
  "t \<in> set [''validate'', ''poll'', ''publish''] \<longleftrightarrow> (\<exists>k. map_of KINDS t = Some k)"
  "t \<in> set [''queued'', ''running'', ''done'', ''failed''] \<longleftrightarrow> (\<exists>z. map_of STATES t = Some z)"
  by (auto simp: FORGES_def STATUSES_def KINDS_def STATES_def)

lemma select_all: "dom r = set columns \<Longrightarrow> select columns r = r"
  by (simp add: select_def restrict_map_def fun_eq_iff) (metis domIff)

text \<open>The query lists three columns in another place than the table does.\<close>

lemma columns_selected: "set (map fst SOURCES) = set SOURCE_COLUMNS" "set (map fst JOBS) = set JOB_COLUMNS"
  by (simp_all only: SOURCES_def SOURCE_COLUMNS_def JOBS_def JOB_COLUMNS_def list.map fst_conv list.set insert_commute)

lemma dom_row:
  "dom (row_of_source s) = set SOURCE_COLUMNS" "dom (row_of_job j) = set JOB_COLUMNS"
  by (simp_all only: row_of_source_def row_of_job_def SOURCE_COLUMNS_def JOB_COLUMNS_def dom_map_of_conv_image_fst
      list.set image_insert image_empty fst_conv insert_commute)

lemma nullable_cell_eq [simp]:
  "nullable_cell Text a = nullable_cell Text b \<longleftrightarrow> a = b"
  "nullable_cell Timestamp c = nullable_cell Timestamp d \<longleftrightarrow> c = d"
  "nullable_cell Jsonb e = nullable_cell Jsonb f \<longleftrightarrow> e = f"
  by ((cases a; cases b; simp) [], (cases c; cases d; simp) [], (cases e; cases f; simp) [])

lemma eq_on_columns:
  assumes "dom r = set ns" "dom q = set ns" "list_all (\<lambda>n. r n = q n) ns"
  shows "r = q"
proof
  fix n
  show "r n = q n"
  proof (cases "n \<in> set ns")
    case False
    then have "r n = None" "q n = None" using assms(1,2) by (auto simp: domIff [symmetric])
    then show ?thesis by simp
  qed (use assms(3) in \<open>simp add: list_all_iff\<close>)
qed

section \<open>Rows and records\<close>

lemma source_row_fits:
  assumes "fits SOURCES r" "is_in r ''forge'' [''github'', ''gitlab'']"
    "is_in r ''status'' [''draft'', ''validating'', ''invalid'', ''pending_delegation'', ''active'', ''paused'']"
  obtains s where "source_of_row r = Inr s"
proof -
  have c: "list_all (column_fits r) SOURCES" using assms(1) by (simp add: fits_def)
  obtain f x where f: "r ''forge'' = Some (Text f)" "map_of FORGES f = Some x"
    using assms(2) unfolding is_in_def text_is_member by (auto split: option.splits cell.splits)
  obtain u y where u: "r ''status'' = Some (Text u)" "map_of STATUSES u = Some y"
    using assms(3) unfolding is_in_def text_is_member by (auto split: option.splits cell.splits)
  have "\<exists>s. source_of_row r = Inr s"
    using c unfolding SOURCES_def list.pred_inject column_simps f(1) u(1)
    unfolding source_of_row_def bindr_eq_Inr_iff cell_simps member_Inr f(1) u(1)
    using f(2) u(2) by auto
  then show ?thesis using that by blast
qed

lemma source_cell:
  "row_of_source s ''id'' = Some (Uuid (so_id s))"
  "row_of_source s ''app_id'' = Some (Text (so_app_id s))"
  "row_of_source s ''forge'' = Some (Text (member_text FORGES (so_forge s)))"
  "row_of_source s ''project'' = Some (Text (so_project s))"
  "row_of_source s ''api_base'' = Some (Text (so_api_base s))"
  "row_of_source s ''project_url'' = Some (Text (so_project_url s))"
  "row_of_source s ''status'' = Some (Text (member_text STATUSES (so_status s)))"
  "row_of_source s ''channel'' = Some (Text (so_channel s))"
  "row_of_source s ''platform'' = Some (Text (so_platform s))"
  "row_of_source s ''arch'' = Some (Text (so_arch s))"
  "row_of_source s ''critical'' = Some (Boolean (so_critical s))"
  "row_of_source s ''asset_name'' = Some (Text (so_asset_name s))"
  "row_of_source s ''tag_prefix'' = Some (Text (so_tag_prefix s))"
  "row_of_source s ''require_tag_ref_prefix'' = Some (Text (so_require_tag_ref_prefix s))"
  "row_of_source s ''max_asset_bytes'' = Some (Integer (so_max_asset_bytes s))"
  "row_of_source s ''workflow_uri'' = Some (nullable_cell Text (so_workflow_uri s))"
  "row_of_source s ''oidc_issuer'' = Some (nullable_cell Text (so_oidc_issuer s))"
  "row_of_source s ''repository_id'' = Some (nullable_cell Text (so_repository_id s))"
  "row_of_source s ''repository_owner_id'' = Some (nullable_cell Text (so_repository_owner_id s))"
  "row_of_source s ''runner_environment'' = Some (Text (so_runner_environment s))"
  "row_of_source s ''builder_id'' = Some (nullable_cell Text (so_builder_id s))"
  "row_of_source s ''builder_keyid'' = Some (nullable_cell Text (so_builder_keyid s))"
  "row_of_source s ''builder_public_key_pem'' = Some (nullable_cell Text (so_builder_public_key_pem s))"
  "row_of_source s ''attestation_asset'' = Some (Text (so_attestation_asset s))"
  "row_of_source s ''created_at'' = Some (Timestamp (so_created_at s))"
  "row_of_source s ''updated_at'' = Some (Timestamp (so_updated_at s))"
  "row_of_source s ''created_by'' = Some (Text (so_created_by s))"
  "row_of_source s ''last_error'' = Some (nullable_cell Text (so_last_error s))"
  by (simp_all add: row_of_source_def)

lemma source_cells:
  "list_all (\<lambda>n. r n = row_of_source s n) SOURCE_COLUMNS \<longleftrightarrow> source_of_row r = Inr s" (is "?cells \<longleftrightarrow> ?read")
proof
  assume ?cells
  then show ?read
    unfolding source_of_row_def bindr_eq_Inr_iff cell_simps member_Inr SOURCE_COLUMNS_def list.pred_inject source_cell
    by (simp add: member_text)
next
  assume ?read
  then show ?cells
    unfolding source_of_row_def bindr_eq_Inr_iff cell_simps member_Inr SOURCE_COLUMNS_def list.pred_inject source_cell
    by (clarsimp simp: member_of_text)
qed

lemma source_read_back: "source_of_row r = Inr s \<Longrightarrow> dom r = set SOURCE_COLUMNS \<Longrightarrow> row_of_source s = r"
  using eq_on_columns [of r SOURCE_COLUMNS "row_of_source s"] dom_row(1) [of s] source_cells [of r s] by simp

lemma source_row_read: "source_of_row (row_of_source s) = Inr s"
  unfolding source_cells [symmetric] by (simp add: list_all_iff)

lemma active_in: "is_in (row_of_source s) ''status'' [''active''] \<longleftrightarrow> so_status s = ACTIVE"
  by (cases "so_status s") (simp_all add: is_in_def source_cell member_text_def STATUSES_def)

lemma forge_in:
  "is_in (row_of_source s) ''forge'' [''github''] \<longleftrightarrow> so_forge s = GITHUB"
  "is_in (row_of_source s) ''forge'' [''gitlab''] \<longleftrightarrow> so_forge s = GITLAB"
  by ((cases "so_forge s"; simp add: is_in_def source_cell member_text_def FORGES_def) [])+

lemma not_null_cell: "(Some (nullable_cell Text x) \<noteq> Some SqlNull) \<longleftrightarrow> x \<noteq> None"
  by (cases x) auto

lemma source_row_checks_iff: "source_row_checks (row_of_source s) \<longleftrightarrow> source_check s"
proof -
  have "is_in (row_of_source s) ''forge'' [''github'', ''gitlab'']"
    unfolding is_in_def source_cell option.case cell.case text_is_member by (blast intro: member_text)
  moreover have "is_in (row_of_source s) ''status''
      [''draft'', ''validating'', ''invalid'', ''pending_delegation'', ''active'', ''paused'']"
    unfolding is_in_def source_cell option.case cell.case text_is_member by (blast intro: member_text)
  moreover have "is_in (row_of_source s) ''channel'' [''stable'', ''beta'', ''canary'']
      \<longleftrightarrow> so_channel s \<in> {''stable'', ''beta'', ''canary''}"
    by (simp only: is_in_def source_cell option.case cell.case list.set)
  ultimately show ?thesis
    unfolding source_row_checks_def active_in forge_in source_check_def not_null_def source_cell
      option.case cell.case not_null_cell by blast
qed

definition bigint_ok :: "source \<Rightarrow> bool" where
  "bigint_ok s \<longleftrightarrow> - (2 ^ 63) \<le> so_max_asset_bytes s \<and> so_max_asset_bytes s < 2 ^ 63"

lemma fits_row: "fits SOURCES (row_of_source s) \<longleftrightarrow> bigint_ok s"
  unfolding fits_def columns_selected(1) dom_row(1)
  unfolding SOURCES_def list.pred_inject column_simps source_cell
  by (simp add: bigint_ok_def)

text \<open>Every row the schema admits can be read, as a source that satisfies the model's check, and
  holds nothing besides; the row of every such source is admitted, and it is read as that source.\<close>

theorem admitted_row_is_read:
  assumes "admits_source r"
  shows "\<exists>s. source_of_row (select SOURCE_COLUMNS r) = Inr s \<and> row_of_source s = r \<and> source_check s \<and> bigint_ok s"
proof -
  have d: "dom r = set SOURCE_COLUMNS" using assms by (simp only: admits_source_def fits_def columns_selected)
  obtain s where s: "source_of_row r = Inr s"
    using assms source_row_fits unfolding admits_source_def source_row_checks_def by blast
  then have r: "row_of_source s = r" using d by (rule source_read_back)
  then have "source_check s" "bigint_ok s"
    using assms source_row_checks_iff [of s] fits_row [of s] by (simp_all add: admits_source_def)
  with s r show ?thesis using select_all [OF d] by auto
qed

theorem stored_source_is_read_back:
  assumes "source_check s" "bigint_ok s"
  shows "admits_source (row_of_source s) \<and> source_of_row (select SOURCE_COLUMNS (row_of_source s)) = Inr s"
  using assms source_row_read by (simp add: admits_source_def source_row_checks_iff fits_row select_all dom_row)

text \<open>The same for jobs, whose payload is never null.\<close>

lemma job_cell:
  "row_of_job j ''id'' = Some (Uuid (jo_id j))" "row_of_job j ''source_id'' = Some (Uuid (jo_source_id j))"
  "row_of_job j ''kind'' = Some (Text (member_text KINDS (jo_kind j)))"
  "row_of_job j ''state'' = Some (Text (member_text STATES (jo_state j)))"
  "row_of_job j ''requested_by'' = Some (Text (jo_requested_by j))"
  "row_of_job j ''requested_at'' = Some (Timestamp (jo_requested_at j))"
  "row_of_job j ''started_at'' = Some (nullable_cell Timestamp (jo_started_at j))"
  "row_of_job j ''finished_at'' = Some (nullable_cell Timestamp (jo_finished_at j))"
  "row_of_job j ''attempts'' = Some (Integer (int (jo_attempts j)))"
  "row_of_job j ''payload'' = Some (Jsonb (jo_payload j))"
  "row_of_job j ''result'' = Some (nullable_cell Jsonb (jo_result j))"
  "row_of_job j ''error'' = Some (nullable_cell Text (jo_error j))"
  by (simp_all add: row_of_job_def)

lemma payload_cell: "Jsonb d = nullable_cell Jsonb p \<longleftrightarrow> p = Some d"
  by (cases p) auto

lemma job_row_read: "job_of_row (row_of_job j) = Inr j"
  unfolding job_of_row_def bindr_eq_Inr_iff cell_simps member_Inr job_cell by (simp add: member_text payload_cell)

lemma job_row_exists:
  assumes "admits_job r"
  obtains j where "r = row_of_job j"
proof -
  have c: "dom r = set JOB_COLUMNS" "list_all (column_fits r) JOBS"
    using assms unfolding admits_job_def fits_def columns_selected by blast+
  obtain k x where k: "r ''kind'' = Some (Text k)" "map_of KINDS k = Some x"
    using assms unfolding admits_job_def is_in_def text_is_member by (auto split: option.splits cell.splits)
  obtain u y where u: "r ''state'' = Some (Text u)" "map_of STATES u = Some y"
    using assms unfolding admits_job_def is_in_def text_is_member by (auto split: option.splits cell.splits)
  have "\<exists>j. list_all (\<lambda>n. r n = row_of_job j n) JOB_COLUMNS"
  proof -
    from c(2) obtain i si rb ra sa fa n p e f where
      "r ''id'' = Some (Uuid i)" "r ''source_id'' = Some (Uuid si)" "r ''requested_by'' = Some (Text rb)"
      "r ''requested_at'' = Some (Timestamp ra)" "r ''started_at'' = Some (nullable_cell Timestamp sa)"
      "r ''finished_at'' = Some (nullable_cell Timestamp fa)" "r ''attempts'' = Some (Integer n)"
      "r ''payload'' = Some (Jsonb p)" "r ''result'' = Some (nullable_cell Jsonb e)"
      "r ''error'' = Some (nullable_cell Text f)"
      unfolding JOBS_def list.pred_inject column_simps by blast
    moreover from this have "0 \<le> n" using assms by (simp add: admits_job_def)
    ultimately show ?thesis using k u member_of_text
      unfolding JOB_COLUMNS_def list.pred_inject job_cell
      by (intro exI [of _ "\<lparr>jo_id = i, jo_source_id = si, jo_kind = x, jo_state = y, jo_requested_by = rb,
        jo_requested_at = ra, jo_started_at = sa, jo_finished_at = fa, jo_attempts = nat n, jo_payload = p,
        jo_result = e, jo_error = f\<rparr>"]) simp
  qed
  then show ?thesis using that eq_on_columns [OF c(1)] dom_row(2) by blast
qed

theorem admitted_job_is_read:
  assumes "admits_job r"
  shows "\<exists>j. job_of_row (select JOB_COLUMNS r) = Inr j \<and> row_of_job j = r"
proof -
  obtain j where "r = row_of_job j" using assms by (rule job_row_exists)
  then show ?thesis using job_row_read [of j] select_all [OF dom_row(2)] by metis
qed

section \<open>Witnesses\<close>

definition ex_row_source :: source where
  "ex_row_source = \<lparr>so_id = 7, so_app_id = ''demo'', so_forge = GITLAB, so_project = ''group/demo'',
     so_api_base = ''https://gitlab.com/api/v4'', so_project_url = ''https://gitlab.com/group/demo'',
     so_status = ACTIVE, so_critical = False, so_asset_name = ''demo-{version}.zip'', so_tag_prefix = ''v'',
     so_require_tag_ref_prefix = ''refs/tags/'', so_max_asset_bytes = 2147483648, so_channel = ''stable'',
     so_platform = ''windows'', so_arch = ''amd64'', so_workflow_uri = None, so_oidc_issuer = None,
     so_repository_id = Some ''42'', so_repository_owner_id = None, so_runner_environment = ''github-hosted'',
     so_builder_id = Some ''https://ci/runner'', so_builder_keyid = Some ''k1'',
     so_builder_public_key_pem = Some ''PEM'', so_attestation_asset = ''provenance.intoto.jsonl'',
     so_created_at = 0, so_updated_at = 5, so_created_by = ''alice'', so_last_error = None\<rparr>"

lemma ex_row_source_ok: "source_check ex_row_source" "bigint_ok ex_row_source"
  by (code_simp, simp add: bigint_ok_def ex_row_source_def)

theorem stored_source_is_read_back_witness:
  "source_of_row (select SOURCE_COLUMNS (row_of_source ex_row_source)) = Inr ex_row_source"
  using stored_source_is_read_back [OF ex_row_source_ok] by simp

theorem admitted_row_is_read_witness:
  "\<exists>s. source_of_row (select SOURCE_COLUMNS (row_of_source ex_row_source)) = Inr s \<and> so_app_id s = ''demo''"
proof -
  have "admits_source (row_of_source ex_row_source)"
    using ex_row_source_ok by (simp add: admits_source_def source_row_checks_iff fits_row)
  from admitted_row_is_read [OF this] show ?thesis
    using source_row_read [of ex_row_source] select_all [OF dom_row(1)] by (auto simp: ex_row_source_def)
qed

text \<open>A query that left out a column would fail on every row.\<close>

lemma missing_column: "n \<in> set SOURCE_COLUMNS \<Longrightarrow> n \<notin> set cs \<Longrightarrow> source_of_row (select cs r) \<noteq> Inr s"
  unfolding source_cells [symmetric] select_def list_all_iff
  using dom_row(1) [of s] by (metis domIff restrict_out)

end
