(* ===== verification/Digest.thy ===== *)
theory Digest
  imports Quarantine
begin

text \<open>
  \<open>_sha256_of\<close> of the two \<^verbatim>\<open>worker.py\<close>: a file is hashed piece by piece, so that it is never in
  memory as a whole.  A \<^verbatim>\<open>hashlib\<close> object is the bytes it was fed, since repeated updates are
  documented to be one update with everything concatenated.  The workers' models hash the content
  at once (\<open>hexdigest\<close>), which is the same.
\<close>

definition CHUNK :: nat where "CHUNK = 1024 * 1024"

text \<open>\<^verbatim>\<open>while chunk := handle.read(n): digest.update(chunk)\<close>, over what is left of the file.\<close>

function update_all :: "nat \<Rightarrow> string \<Rightarrow> string \<Rightarrow> string" where
  "update_all n fed rest =
     (let chunk = take n rest in
      if chunk = [] then fed else update_all n (fed @ chunk) (drop n rest))"
  by auto

termination update_all
  by (relation "measure (\<lambda>(n, fed, rest). length rest)") auto

declare update_all.simps [simp del]

definition sha256_of :: "(string \<Rightarrow> string) \<Rightarrow> string \<Rightarrow> string" where
  "sha256_of sha content = hexdigest sha (update_all CHUNK [] content)"

lemma update_all_rest: "0 < n \<Longrightarrow> update_all n fed rest = fed @ rest"
proof (induction n fed rest rule: update_all.induct)
  case (1 n fed rest)
  show ?case
  proof (cases "take n rest = []")
    case True
    then show ?thesis using "1.prems" by (subst update_all.simps) auto
  next
    case False
    with "1.IH" [OF refl False] "1.prems" show ?thesis by (subst update_all.simps) simp
  qed
qed

text \<open>Nothing is skipped and nothing fed twice, the last piece included, and an empty file is the
  digest of no bytes.\<close>

theorem sha256_of_is_hexdigest: "sha256_of sha content = hexdigest sha content"
  by (simp add: sha256_of_def update_all_rest CHUNK_def)

end
