(* ===== verification/Spec2Isabelle.thy ===== *)
theory Spec2Isabelle
  imports IngestWorkerClaims EndToEnd SignQueue ClientClaims Delegate FormsClaims AdminClaims Reopen
    CeremonyClaims MigrateClaims FfiClaims FixturesClaims Atomic Rows Digest
begin

text \<open>
  A model of the signed-update distribution platform: the server packages under
  \<^verbatim>\<open>src/packages/\<close>, the Python client under \<^verbatim>\<open>src/bindings/python/\<close> and the part of the native
  verifier under \<^verbatim>\<open>src/client/\<close> that client calls.

  \<^bold>\<open>The program.\<close>  Releases of registered applications travel from a forge to installed clients.
  An operator registers a source in the admin application (\<^verbatim>\<open>dist_admin\<close>), which writes it into the
  registry (\<^verbatim>\<open>dist_registry\<close>).  The ingest worker (\<^verbatim>\<open>dist_ingest\<close>) takes jobs from the registry,
  asks the forge for releases, stores each artifact in quarantine, checks its provenance and its
  content, and queues what passed for publication.  The signing worker (\<^verbatim>\<open>dist_sign\<close>) takes those
  jobs, reads the bytes from quarantine and signs them into a TUF repository (\<^verbatim>\<open>dist_core\<close>).  A
  client (\<^verbatim>\<open>dist_client\<close>) fetches what an edge serves of that repository and offers an update only
  when its verifier accepts it.  The offline keys (\<open>root\<close>, \<open>targets\<close>) take part twice only: in the
  ceremony that creates the repository and when an application is delegated; the delegation command
  then activates the source.  The parts share three stores, and no memory: the registry's tables,
  the quarantine directory, the repository directory.

  \<^bold>\<open>Conventions.\<close>  A function of the source is a definition of the same name unless the name is
  taken.  A call that may raise returns \<^typ>\<open>'a res\<close>, an exception or a value (\<open>Prelude\<close>); one that
  also changes state is a \<open>sem\<close>, a function from the state to a result and the state it leaves,
  on an exception too.  A database transaction is one atomic step which commits or leaves the
  tables as they were.  Clocks, random values, environment variables and everything other packages
  compute are arguments.  Loops over a list are recursion on it; the loops of the two workers are
  recursion on their number of rounds, and the one loop of a fixed bound, following redirects,
  recurses on the number left.  Python integers are \<open>int\<close> or \<open>nat\<close>; the integers of the native
  verifier are machine words.

  \<^bold>\<open>Theories\<close>, in the order they build on each other:

  \<^item> \<open>Prelude\<close>: strings, exceptions, results, state passing, and the lemmas on them that carry
    the component proofs.  \<open>Json\<close>: values, \<^verbatim>\<open>json.loads\<close> and \<^verbatim>\<open>json.dumps\<close>.  The reader has a fuel
    argument that the length of the text bounds.
  \<^item> \<open>Roles\<close> (\<^verbatim>\<open>roles.py\<close>): role policies, names of delegated roles.  \<open>Naming\<close> (\<^verbatim>\<open>naming.py\<close>): target
    paths, channel pointers, release information, rollout, with the round trips between rendering
    and parsing.  \<open>Signing\<close> (\<^verbatim>\<open>signing.py\<close>): key stores and signer backends, with the interface
    \<open>signer_backend\<close> (the keys listed for a role can sign) interpreted on all three backends.
    \<open>Buildinfo\<close> (\<^verbatim>\<open>buildinfo.py\<close>): the digest over sources and the line printed at start.
  \<^item> \<open>Repository\<close> (\<^verbatim>\<open>repository.py\<close>): the state is the directory, as the log of its atomic file
    replacements, and the versions, policies and delegated roles the object holds.
    \<open>RepositoryInv\<close>, \<open>RepositoryOps\<close>, \<open>RepositoryProps\<close> and \<open>RepositoryClaims\<close> prove that every
    directory content that ever existed, hence also what a crash leaves, is consistent for a
    client, that numbered metadata never changes, what an operation may sign, and that a release
    that was added is found by the walk a client makes.  \<open>Versions\<close> bounds the version numbers by
    the number of operations.  \<open>Reopen\<close> is the scan by which a new process opens the directory, and
    shows that it goes on where the last one stopped.  \<open>Atomic\<close> is the level below the log: the calls
    that carry out one replacement, between any two of which the process may be killed, and the
    refinement that what is then published is a state of the log.
  \<^item> \<open>Confine\<close> (\<open>add_app\<close> of \<^verbatim>\<open>repository.py\<close>): what a client that follows delegations finds when an
    adversary with every online key writes the metadata of the roles those keys sign (\<open>exposed\<close>): the
    paths of an application are its own role's and nobody else's.  \<open>Fixtures\<close>, \<open>FixturesClaims\<close>
    (\<^verbatim>\<open>scripts/gen_rust_fixtures.py\<close>): the repository made for the native verifier's test, with a
    release and a forgery; the run succeeds, its copies are the metadata in force, and the two are
    told apart.
  \<^item> \<open>Ceremony\<close>, \<open>CeremonyClaims\<close> (\<^verbatim>\<open>scripts/ceremony.py\<close>): the state is the key databases of the
    machine, the directory and the exported root.  Custody is split as the policies say, the root
    that is exported is that of the new repository, and nothing that exists is overwritten.
  \<^item> \<open>Models\<close>, \<open>Store\<close> (\<^verbatim>\<open>models.py\<close>, \<^verbatim>\<open>store.py\<close>, \<^verbatim>\<open>schema.sql\<close>): rows, and every function of the
    store as a transaction that checks the constraints it can break.  \<open>StoreInv\<close> and \<open>StoreClaims\<close>
    show that reachable tables satisfy the constraints, and that only \<open>mark_delegated\<close> activates; the
    interface \<open>job_queue\<close> is what the workers rely on.  \<open>Delegate\<close> (\<^verbatim>\<open>delegate.py\<close>) reads the
    repository's metadata before it activates.  \<open>Rows\<close> justifies tables
    that are lists of records: the rows the schema admits and the records that satisfy
    \<open>source_check\<close> correspond one to one, under the columns the queries list.  \<open>Migrate\<close>, \<open>MigrateClaims\<close> (\<open>migrate\<close> of \<^verbatim>\<open>db.py\<close>): the
    services apply the schema at their start, statement by statement and at once, over sessions with
    a program counter, the advisory lock and their open transactions; statements fail and sessions
    are lost at any point.  The schema is applied once, under the lock, and everybody gets through.
  \<^item> \<open>Provenance\<close>, \<open>Attestation\<close>, \<open>Gates\<close>, \<open>Quarantine\<close>, \<open>Policy\<close> (the files of those names in
    \<^verbatim>\<open>dist_ingest\<close>): what is checked before a candidate may be promoted, and that nothing is
    promoted, or leaves quarantine, without it.  \<open>Digest\<close>: hashing a file by pieces, as the workers do.
  \<^item> \<open>Forge\<close>, \<open>ForgeProps\<close>, \<open>Sources\<close> (\<^verbatim>\<open>forge.py\<close>, \<^verbatim>\<open>sources.py\<close>): the clients of the two forges and
    their wiring; every request goes over HTTPS to an allowed host, and downloads are bounded.
  \<^item> \<open>IngestWorker\<close> with \<open>IngestWorkerProps\<close> and \<open>IngestWorkerClaims\<close>, \<open>SignWorker\<close> with
    \<open>SignWorkerClaims\<close> and \<open>SignQueue\<close> (the two \<^verbatim>\<open>worker.py\<close>): the workers, whose registry other
    processes change between any two of their transactions.  What is queued was promoted, what is
    signed was approved, a job that was run ends, the queue drains.
  \<^item> \<open>Auth\<close> (\<^verbatim>\<open>auth.py\<close>, \<^verbatim>\<open>operators.py\<close>, \<^verbatim>\<open>config.py\<close>), \<open>Forms\<close> (\<^verbatim>\<open>forms.py\<close>), \<open>Admin\<close> (\<^verbatim>\<open>app.py\<close>): the
    admin application.  A handler is a program of transactions, and a request a sequence of them
    with other writers in between; \<open>AdminProps\<close> holds the calculus for such programs, and
    \<open>AuthClaims\<close> (with the interface \<open>session_store\<close>), \<open>FormsProps\<close>, \<open>FormsClaims\<close> and
    \<open>AdminClaims\<close> show who can change what, that it is audited, and what an accepted form
    guarantees to the parts that use the source later.
  \<^item> \<open>Verifier\<close> (\<^verbatim>\<open>verifier.rs\<close>, \<^verbatim>\<open>rollout.rs\<close> and the two \<^verbatim>\<open>lib.rs\<close> of the native client), \<open>Client\<close>
    (\<^verbatim>\<open>__init__.py\<close>, \<^verbatim>\<open>update.py\<close>): the verifier behind its C boundary and the update check.
    \<open>ClientProps\<close>, \<open>ClientRun\<close> and \<open>ClientClaims\<close> show that what is offered is what trusted
    metadata describes, and that client and server agree on names and rollout.  \<open>EndToEnd\<close> composes
    the signing worker, the repository, an edge and the client: what a publish job signed is
    what the client offers.
  \<^item> \<open>Ffi\<close> (\<^verbatim>\<open>_ffi.py\<close>, with the exports of the native \<^verbatim>\<open>lib.rs\<close>), \<open>Wheel\<close> (\<^verbatim>\<open>build_python_wheel.py\<close>,
    \<^verbatim>\<open>hatch_build.py\<close>) and \<open>FfiClaims\<close>: where the client looks for the native library, how the structure
    both sides share lies in memory, which signatures are declared, and how the library gets into
    the wheel.  What one side stores the other reads, and a wheel that was passed loads its own library.

  \<^bold>\<open>Parameters.\<close>  Code that is not in this repository is an argument, and only two of them come
  with laws: \<open>tuf_contract\<close>, the documented behaviour of \<^verbatim>\<open>do_snapshot\<close> and \<^verbatim>\<open>do_timestamp\<close> of
  \<^verbatim>\<open>tuf.repository\<close>, and the description of an honest client library in \<open>EndToEnd\<close>.  Both are
  instantiated by concrete functions where they are assumed.  Hash functions, the signature
  primitives, \<^verbatim>\<open>sigstore\<close>, \<^verbatim>\<open>httpx\<close>, the XML and archive readers and \<^verbatim>\<open>scrypt\<close> are arguments of which
  nothing is assumed.

  \<^bold>\<open>Bounds.\<close>  Strings are strings of code points below 256; other text is outside the model.  Time
  is in seconds.  The limits of the source (sizes, redirects, attempts, expiries) are its constants.

  \<^bold>\<open>Not modelled\<close>: the connection pool of \<^verbatim>\<open>db.py\<close>, and of the schema script what its statements do
  beyond being committed together; the C compiler's layout of structures on platforms that are not
  64 bits wide and little endian; HTML templates, URL routing and the ASGI server; signal handling
  and sleeping between rounds; argument parsing and log output (the ceremony's options are a
  record); file modes other than those of published files, and what a loss of power leaves on the
  disk; memory management in the native client; what \<^verbatim>\<open>cargo\<close> and \<^verbatim>\<open>uv\<close>
  do; the admin application's entry point, which only starts the server.
\<close>

end
